(* ===== verification/Prelude.thy ===== *)
theory Prelude
  imports Main "HOL-Library.Sublist" "HOL-Library.Char_ord" "HOL-Library.List_Lexorder"
begin

text \<open>
  What every other theory of the development shares: the error values of the Go code, the
  sequencing of checks that return an \<open>error\<close> (nil or not), and generic facts on lists.

  A Go function that returns \<open>error\<close> is a function into \<open>go_error option\<close> (\<open>None\<close> is nil);
  one that returns \<open>(T, error)\<close> is a function into \<open>'t go_result\<close> (\<open>Inl\<close> is the error).
\<close>

named_theorems go_defs
  \<comment> \<open>unfoldings of the sequencing combinators\<close>

subsection \<open>Errors\<close>

text \<open>
  \<open>Errorf msg\<close> is an error made by \<open>fmt.Errorf\<close> (its text is all the code observes);
  \<open>Authoring code line msg\<close> is the typed \<open>*AuthoringDiagnosticError\<close> of the contract
  package, which \<open>errors.As\<close> recognises.
\<close>

datatype go_error =
    Errorf string
  | Authoring (diag_code: string) (diag_line: nat) (diag_message: string)

type_synonym 'a go_result = "go_error + 'a"

subsection \<open>Sequencing of checks\<close>

text \<open>\<open>if cond { return err }\<close>\<close>

definition fail_if :: "bool \<Rightarrow> go_error \<Rightarrow> go_error option" where
  "fail_if b e = (if b then Some e else None)"

text \<open>A sequence of checks with early return: the first error wins.\<close>

fun first_error :: "go_error option list \<Rightarrow> go_error option" where
  "first_error [] = None"
| "first_error (e # es) = (case e of None \<Rightarrow> first_error es | Some x \<Rightarrow> Some x)"

text \<open>\<open>if err := check; err != nil { return T{}, err }\<close> followed by the rest.\<close>

definition unless_error :: "go_error option \<Rightarrow> 'a go_result \<Rightarrow> 'a go_result" where
  "unless_error chk k = (case chk of Some e \<Rightarrow> Inl e | None \<Rightarrow> k)"

text \<open>\<open>x, err := f(); if err != nil { return T{}, err }\<close> followed by the rest.\<close>

definition bind_result :: "'a go_result \<Rightarrow> ('a \<Rightarrow> 'b go_result) \<Rightarrow> 'b go_result" where
  "bind_result r k = (case r of Inl e \<Rightarrow> Inl e | Inr x \<Rightarrow> k x)"

definition error_of :: "'a go_result \<Rightarrow> go_error option" where
  "error_of r = (case r of Inl e \<Rightarrow> Some e | Inr _ \<Rightarrow> None)"

text \<open>A loop that converts each element and returns at the first error.\<close>

fun map_result :: "('a \<Rightarrow> 'b go_result) \<Rightarrow> 'a list \<Rightarrow> 'b list go_result" where
  "map_result f [] = Inr []"
| "map_result f (x # xs) =
     (case f x of Inl e \<Rightarrow> Inl e
      | Inr y \<Rightarrow> (case map_result f xs of Inl e \<Rightarrow> Inl e | Inr ys \<Rightarrow> Inr (y # ys)))"

lemma fail_if_None [simp]: "fail_if b e = None \<longleftrightarrow> \<not> b"
  by (simp add: fail_if_def)

lemma fail_if_Some [simp]: "fail_if b e = Some x \<longleftrightarrow> b \<and> x = e"
  by (auto simp: fail_if_def)

lemma first_error_append:
  "first_error (xs @ ys) = (case first_error xs of None \<Rightarrow> first_error ys | Some x \<Rightarrow> Some x)"
proof (induction xs)
  case (Cons x xs)
  then show ?case by (cases x) simp_all
qed simp

lemma first_error_None [simp]: "first_error es = None \<longleftrightarrow> (\<forall>e \<in> set es. e = None)"
  by (induction es) (auto split: option.splits)

declare first_error.simps(2) [simp del]

lemma first_error_Cons: "first_error (e # es) = (case e of None \<Rightarrow> first_error es | Some x \<Rightarrow> Some x)"
  by (rule first_error.simps)

lemma first_error_Cons_None [simp]: "first_error (None # es) = first_error es"
  by (simp add: first_error_Cons)

lemma first_error_Cons_Some [simp]: "first_error (Some x # es) = Some x"
  by (simp add: first_error_Cons)

lemma first_error_in_set: "first_error es = Some x \<Longrightarrow> Some x \<in> set es"
  by (induction es) (auto simp: first_error_Cons split: option.splits)

lemma unless_error_Inr [simp]: "unless_error c k = Inr x \<longleftrightarrow> c = None \<and> k = Inr x"
  by (auto simp: unless_error_def split: option.splits)

lemma unless_error_None [simp]: "unless_error None k = k"
  by (simp add: unless_error_def)

lemma unless_error_Some [simp]: "unless_error (Some e) k = Inl e"
  by (simp add: unless_error_def)

lemma bind_result_simps [simp]:
  "bind_result (Inl e) k = Inl e" "bind_result (Inr x) k = k x"
  by (simp_all add: bind_result_def)

lemma bind_result_Inr [simp]: "bind_result r k = Inr y \<longleftrightarrow> (\<exists>x. r = Inr x \<and> k x = Inr y)"
  by (cases r) simp_all

lemma error_of_None [simp]: "error_of r = None \<longleftrightarrow> (\<exists>x. r = Inr x)"
  by (auto simp: error_of_def split: sum.splits)

lemma map_result_Inr_iff:
  "map_result f xs = Inr ys \<longleftrightarrow> list_all2 (\<lambda>x y. f x = Inr y) xs ys"
proof (induction xs arbitrary: ys)
  case Nil
  then show ?case by auto
next
  case (Cons x xs)
  show ?case
  proof (cases "f x")
    case (Inl e)
    then show ?thesis by (cases ys) auto
  next
    case (Inr y)
    with Cons.IH show ?thesis by (cases ys; cases "map_result f xs") auto
  qed
qed

lemma map_result_length: "map_result f xs = Inr ys \<Longrightarrow> length ys = length xs"
  by (simp add: map_result_Inr_iff list_all2_lengthD)

lemma map_result_total: "(\<And>x. x \<in> set xs \<Longrightarrow> f x = Inr (g x)) \<Longrightarrow> map_result f xs = Inr (map g xs)"
  by (induction xs) auto

lemma map_result_map: "map_result f (map g xs) = map_result (\<lambda>x. f (g x)) xs"
  by (induction xs) (simp_all split: sum.split)

lemma map_result_set:
  "map_result f xs = Inr ys \<Longrightarrow> y \<in> set ys \<Longrightarrow> \<exists>x \<in> set xs. f x = Inr y"
  unfolding map_result_Inr_iff by (induction rule: list_all2_induct) auto

lemma map_result_Inl_iff: "(\<exists>e. map_result f xs = Inl e) \<longleftrightarrow> (\<exists>x \<in> set xs. \<exists>e. f x = Inl e)"
  by (induction xs) (auto split: sum.splits)

lemmas go_result_splits = option.splits sum.splits if_splits prod.splits

subsection \<open>Loops that remember what they have seen\<close>

text \<open>
  The code's \<open>seen := map[string]bool{}\<close> loops: each element is checked against the keys of
  the elements before it, then its own key is stored.
\<close>

fun first_seen_error ::
    "('k \<Rightarrow> bool) \<Rightarrow> ('a \<Rightarrow> 'k) \<Rightarrow> (('k \<Rightarrow> bool) \<Rightarrow> 'a \<Rightarrow> go_error option) \<Rightarrow> 'a list \<Rightarrow> go_error option" where
  "first_seen_error seen key chk [] = None"
| "first_seen_error seen key chk (x # xs) =
     (case chk seen x of Some e \<Rightarrow> Some e
      | None \<Rightarrow> first_seen_error (seen(key x := True)) key chk xs)"

lemma first_seen_error_None:
  assumes "\<And>seen x. chk seen x = None \<longleftrightarrow> \<not> seen (key x) \<and> ok x"
  shows "first_seen_error seen key chk xs = None \<longleftrightarrow>
    distinct (map key xs) \<and> (\<forall>x \<in> set xs. \<not> seen (key x) \<and> ok x)"
proof (induction xs arbitrary: seen)
  case (Cons x xs)
  show ?case
  proof (cases "chk seen x")
    case None
    with assms have "\<not> seen (key x)" "ok x" by blast+
    then show ?thesis
      unfolding first_seen_error.simps None option.case Cons.IH by (auto simp: image_iff dest: sym)
  next
    case (Some e)
    with assms[of seen x] have "\<not> (\<not> seen (key x) \<and> ok x)" by simp
    with Some show ?thesis by auto
  qed
qed simp

subsection \<open>Lists\<close>

lemma find_in_set: "find P xs = Some x \<Longrightarrow> x \<in> set xs \<and> P x"
  by (auto simp: find_Some_iff)

lemma find_Some_iff_first:
  "find P xs = Some x \<longleftrightarrow> (\<exists>ys zs. xs = ys @ x # zs \<and> P x \<and> (\<forall>y \<in> set ys. \<not> P y))"
proof (induction xs)
  case (Cons a xs)
  show ?case
  proof (cases "P a")
    case True
    have "(\<exists>ys zs. a # xs = ys @ x # zs \<and> P x \<and> (\<forall>y \<in> set ys. \<not> P y)) \<longleftrightarrow> x = a"
    proof
      assume "\<exists>ys zs. a # xs = ys @ x # zs \<and> P x \<and> (\<forall>y \<in> set ys. \<not> P y)"
      then obtain ys zs where s: "a # xs = ys @ x # zs" "\<forall>y \<in> set ys. \<not> P y" by blast
      with True show "x = a" by (cases ys) auto
    next
      assume "x = a"
      with True have "a # xs = [] @ x # xs \<and> P x \<and> (\<forall>y \<in> set []. \<not> P y)" by simp
      then show "\<exists>ys zs. a # xs = ys @ x # zs \<and> P x \<and> (\<forall>y \<in> set ys. \<not> P y)" by blast
    qed
    with True show ?thesis by auto
  next
    case False
    have "(\<exists>ys zs. a # xs = ys @ x # zs \<and> P x \<and> (\<forall>y \<in> set ys. \<not> P y)) \<longleftrightarrow>
      (\<exists>ys zs. xs = ys @ x # zs \<and> P x \<and> (\<forall>y \<in> set ys. \<not> P y))" (is "?l \<longleftrightarrow> ?r")
    proof
      assume ?l
      then obtain ys zs where s: "a # xs = ys @ x # zs" "P x" "\<forall>y \<in> set ys. \<not> P y" by blast
      with False obtain ys' where "ys = a # ys'" by (cases ys) auto
      with s show ?r by auto
    next
      assume ?r
      then obtain ys zs where s: "xs = ys @ x # zs" "P x" "\<forall>y \<in> set ys. \<not> P y" by blast
      with False have "a # xs = (a # ys) @ x # zs \<and> P x \<and> (\<forall>y \<in> set (a # ys). \<not> P y)" by simp
      then show ?l by blast
    qed
    with False Cons.IH show ?thesis by simp
  qed
qed simp

subsection \<open>Digests\<close>

text \<open>A digest function has been broken on some texts: two of them have the same digest.\<close>

definition collision :: "(string \<Rightarrow> string) \<Rightarrow> string set \<Rightarrow> bool" where
  "collision h texts \<longleftrightarrow> (\<exists>x \<in> texts. \<exists>y \<in> texts. x \<noteq> y \<and> h x = h y)"

lemma collision_mono: "collision h A \<Longrightarrow> A \<subseteq> B \<Longrightarrow> collision h B"
  by (auto simp: collision_def)

end
