(* ===== verification/Go_Strings.thy ===== *)
theory Go_Strings
  imports Prelude
begin

text \<open>
  The functions of Go's \<open>strings\<close>, \<open>strconv\<close>, \<open>unicode\<close> and \<open>fmt\<close> packages that the
  program uses. A Go string is a list of bytes, and so is a \<open>string\<close> of HOL: a character is
  a byte, a non-ASCII code point is the bytes of its UTF-8 encoding.

  Case mapping and quoting of non-ASCII text need the Unicode tables; those two functions are
  left unspecified there (\<open>undefined\<close>), so that nothing can be proved about their value on
  non-ASCII input and every theorem holds for whatever they return. Trimming is exact: the
  code points of \<open>unicode.IsSpace\<close> are listed below with their encodings.
\<close>

named_theorems go_strings
  \<comment> \<open>definitions of the string functions, for evaluation on literals\<close>

subsection \<open>Bytes\<close>

abbreviation byte :: "char \<Rightarrow> nat" where
  "byte c \<equiv> of_char c"

definition is_ascii_char :: "char \<Rightarrow> bool" where [go_strings]:
  "is_ascii_char c \<longleftrightarrow> byte c < 128"

definition is_ascii :: "string \<Rightarrow> bool" where [go_strings]:
  "is_ascii s \<longleftrightarrow> list_all is_ascii_char s"

definition is_lower :: "char \<Rightarrow> bool" where [go_strings]:
  "is_lower c \<longleftrightarrow> 97 \<le> byte c \<and> byte c \<le> 122"

definition is_upper :: "char \<Rightarrow> bool" where [go_strings]:
  "is_upper c \<longleftrightarrow> 65 \<le> byte c \<and> byte c \<le> 90"

definition is_digit :: "char \<Rightarrow> bool" where [go_strings]:
  "is_digit c \<longleftrightarrow> 48 \<le> byte c \<and> byte c \<le> 57"

definition is_hex_lower :: "char \<Rightarrow> bool" where [go_strings]:
  "is_hex_lower c \<longleftrightarrow> is_digit c \<or> 97 \<le> byte c \<and> byte c \<le> 102"

subsection \<open>Case mapping: strings.ToLower\<close>

definition lower_char :: "char \<Rightarrow> char" where [go_strings]:
  "lower_char c = (if is_upper c then char_of (byte c + 32) else c)"

definition to_lower :: "string \<Rightarrow> string" where
  "to_lower s = (if is_ascii s then map lower_char s else undefined s)"

lemma to_lower_ascii [go_strings]: "is_ascii s \<Longrightarrow> to_lower s = map lower_char s"
  by (simp add: to_lower_def)

lemma byte_lt_256: "byte c < 256"
  by (rule nat_of_char_less_256)

lemma byte_lower_char: "byte (lower_char c) = (if is_upper c then byte c + 32 else byte c)"
  by (auto simp: lower_char_def is_upper_def)

lemma lower_char_idem [simp]: "lower_char (lower_char c) = lower_char c"
proof -
  have "\<not> is_upper (lower_char c)"
    by (auto simp: is_upper_def byte_lower_char)
  then show ?thesis by (simp add: lower_char_def [of "lower_char c"])
qed

lemma lower_char_id_iff: "lower_char c = c \<longleftrightarrow> \<not> is_upper c"
proof
  assume "lower_char c = c"
  then have "byte (lower_char c) = byte c" by simp
  then show "\<not> is_upper c" by (auto simp: byte_lower_char split: if_splits)
qed (simp add: lower_char_def)

subsection \<open>Trimming: strings.TrimSpace, strings.Trim\<close>

text \<open>The UTF-8 encodings of the white space of \<open>unicode.IsSpace\<close>.\<close>

definition ascii_space :: "char \<Rightarrow> bool" where [go_strings]:
  "ascii_space c \<longleftrightarrow> 9 \<le> byte c \<and> byte c \<le> 13 \<or> byte c = 32"

fun unicode_space_len :: "nat list \<Rightarrow> nat" where
  "unicode_space_len (a # b # c # _) =
     (if a = 194 then (if b = 133 \<or> b = 160 then 2 else 0)
      else if a = 225 then (if b = 154 \<and> c = 128 then 3 else 0)
      else if a = 226 then
        (if b = 128 \<and> (128 \<le> c \<and> c \<le> 138 \<or> c = 168 \<or> c = 169 \<or> c = 175) \<or> b = 129 \<and> c = 159
         then 3 else 0)
      else if a = 227 then (if b = 128 \<and> c = 128 then 3 else 0)
      else 0)"
| "unicode_space_len [a, b] = (if a = 194 \<and> (b = 133 \<or> b = 160) then 2 else 0)"
| "unicode_space_len _ = 0"

text \<open>Length in bytes of the white space code point a string starts with, 0 when none.\<close>

definition space_len :: "string \<Rightarrow> nat" where
  "space_len s = (case s of [] \<Rightarrow> 0
     | c # _ \<Rightarrow> if ascii_space c then 1
               else if byte c < 128 then 0 else unicode_space_len (map byte (take 3 s)))"

text \<open>The same at the end of a string: \<open>utf8.DecodeLastRuneInString\<close> finds the start byte.\<close>

definition space_suffix_len :: "string \<Rightarrow> nat" where
  "space_suffix_len s =
     (let n = length s in
      if n \<ge> 1 \<and> space_len (drop (n - 1) s) = 1 then 1
      else if n \<ge> 2 \<and> space_len (drop (n - 2) s) = 2 then 2
      else if n \<ge> 3 \<and> space_len (drop (n - 3) s) = 3 then 3 else 0)"

function trim_left :: "string \<Rightarrow> string" where
  "trim_left s = (if s = [] \<or> space_len s = 0 then s else trim_left (drop (space_len s) s))"
  by pat_completeness auto
termination by (relation "measure length") auto

function trim_right :: "string \<Rightarrow> string" where
  "trim_right s = (if s = [] \<or> space_suffix_len s = 0 then s
     else trim_right (take (length s - space_suffix_len s) s))"
  by pat_completeness auto
termination by (relation "measure length") auto

declare trim_left.simps [simp del] trim_right.simps [simp del]

definition trim_space :: "string \<Rightarrow> string" where
  "trim_space s = trim_right (trim_left s)"

text \<open>A string with no white space at either end is its own trimming.\<close>

lemma trim_space_id: "space_len s = 0 \<Longrightarrow> space_suffix_len s = 0 \<Longrightarrow> trim_space s = s"
  by (simp add: trim_space_def trim_left.simps [of s] trim_right.simps [of s])

lemma trim_space_Nil [simp]: "trim_space [] = []"
  by (simp add: trim_space_def trim_left.simps trim_right.simps)

lemma space_len_ascii: "byte c < 128 \<Longrightarrow> space_len (c # s) = (if ascii_space c then 1 else 0)"
  by (simp add: space_len_def)

text \<open>\<open>strings.Trim(s, cutset)\<close> for an ASCII cutset.\<close>

definition trim_set :: "string \<Rightarrow> string \<Rightarrow> string" where
  "trim_set cs s =
     rev (dropWhile (\<lambda>c. c \<in> set cs) (rev (dropWhile (\<lambda>c. c \<in> set cs) s)))"

subsection \<open>Searching, splitting, joining\<close>

fun contains :: "string \<Rightarrow> string \<Rightarrow> bool" where
  "contains [] p = (p = [])"
| "contains (c # s) p = (prefix p (c # s) \<or> contains s p)"

lemma contains_iff_sublist: "contains s p \<longleftrightarrow> sublist p s"
  by (induction s) (auto simp: sublist_Cons_right)

definition replace_byte :: "char \<Rightarrow> char \<Rightarrow> string \<Rightarrow> string" where [go_strings]:
  "replace_byte a b s = map (\<lambda>c. if c = a then b else c) s"

text \<open>\<open>strings.ReplaceAll(s, "\r\n", "\n")\<close>\<close>

fun unix_newlines :: "string \<Rightarrow> string" where
  "unix_newlines (a # b # s) =
     (if byte a = 13 \<and> byte b = 10 then b # unix_newlines s else a # unix_newlines (b # s))"
| "unix_newlines s = s"

fun split_on :: "char \<Rightarrow> string \<Rightarrow> string list" where
  "split_on sep [] = [[]]"
| "split_on sep (c # cs) =
     (if c = sep then [] # split_on sep cs
      else (case split_on sep cs of [] \<Rightarrow> [[c]] | w # ws \<Rightarrow> (c # w) # ws))"

fun join_with :: "string \<Rightarrow> string list \<Rightarrow> string" where
  "join_with sep [] = []"
| "join_with sep [w] = w"
| "join_with sep (w # ws) = w @ sep @ join_with sep ws"

text \<open>\<open>strings.Cut(s, sep)\<close> for a one-byte separator.\<close>

fun cut_at :: "char \<Rightarrow> string \<Rightarrow> (string \<times> string) option" where
  "cut_at sep [] = None"
| "cut_at sep (c # cs) = (if c = sep then Some ([], cs)
     else map_option (\<lambda>(k, v). (c # k, v)) (cut_at sep cs))"

lemma split_on_not_Nil [simp]: "split_on sep s \<noteq> []"
  by (cases s) (auto split: list.splits)

lemma join_with_Cons: "ws \<noteq> [] \<Longrightarrow> join_with sep (w # ws) = w @ sep @ join_with sep ws"
  by (cases ws) auto

lemma join_split [simp]: "join_with [sep] (split_on sep s) = s"
proof (induction s)
  case (Cons c s)
  show ?case
  proof (cases "split_on sep s")
    case (Cons w ws)
    with Cons.IH show ?thesis by (cases ws) (auto simp: join_with_Cons)
  qed simp
qed simp

lemma split_on_free: "sep \<notin> set w \<Longrightarrow> split_on sep w = [w]"
  by (induction w) auto

lemma split_on_append: "split_on sep (a @ sep # b) = split_on sep a @ split_on sep b"
proof (induction a)
  case (Cons c a)
  then show ?case by (cases "split_on sep a") auto
qed simp

lemma split_on_elem_free: "w \<in> set (split_on sep s) \<Longrightarrow> sep \<notin> set w"
proof (induction s arbitrary: w)
  case (Cons c s)
  then show ?case by (cases "split_on sep s") (auto split: if_splits)
qed simp

lemma split_join:
  "ws \<noteq> [] \<Longrightarrow> (\<And>w. w \<in> set ws \<Longrightarrow> sep \<notin> set w) \<Longrightarrow> split_on sep (join_with [sep] ws) = ws"
proof (induction ws)
  case (Cons w ws)
  show ?case
  proof (cases "ws = []")
    case True
    with Cons.prems show ?thesis by (simp add: split_on_free)
  next
    case False
    with Cons show ?thesis by (simp add: join_with_Cons split_on_append split_on_free)
  qed
qed simp

lemma join_with_eq_Nil: "join_with [sep] ws = [] \<longleftrightarrow> ws = [] \<or> ws = [[]]"
proof (cases ws)
  case (Cons w vs)
  then show ?thesis by (cases vs) auto
qed simp

lemma join_with_append:
  "ws \<noteq> [] \<Longrightarrow> vs \<noteq> [] \<Longrightarrow> join_with sep (ws @ vs) = join_with sep ws @ sep @ join_with sep vs"
proof (induction ws)
  case (Cons w ws)
  then show ?case by (cases "ws = []") (auto simp: join_with_Cons)
qed simp

lemma cut_at_Some: "cut_at sep s = Some (k, v) \<longleftrightarrow> s = k @ sep # v \<and> sep \<notin> set k"
proof (induction s arbitrary: k)
  case (Cons c s)
  show ?case by (cases k) (auto simp: Cons.IH)
qed simp

lemma append_sep_inject:
  fixes a b x y :: string
  assumes "a @ sep # x = b @ sep # y" and "sep \<notin> set x" and "sep \<notin> set y"
  shows "a = b \<and> x = y"
proof -
  have "rev x @ sep # rev a = rev y @ sep # rev b"
    using arg_cong [OF assms(1), of rev] by simp
  then have "cut_at sep (rev x @ sep # rev a) = cut_at sep (rev y @ sep # rev b)" by simp
  moreover have "cut_at sep (rev x @ sep # rev a) = Some (rev x, rev a)"
    "cut_at sep (rev y @ sep # rev b) = Some (rev y, rev b)"
    using assms(2,3) by (simp_all add: cut_at_Some)
  ultimately show ?thesis by simp
qed

subsection \<open>Decimal numerals\<close>

definition digit_char :: "nat \<Rightarrow> char" where [go_strings]:
  "digit_char d = char_of (48 + d)"

fun decimal :: "nat \<Rightarrow> string" where
  "decimal n = (if n < 10 then [digit_char n] else decimal (n div 10) @ [digit_char (n mod 10)])"

declare decimal.simps [simp del]

definition int_text :: "int \<Rightarrow> string" where
  "int_text i = (if i < 0 then CHR ''-'' # decimal (nat (- i)) else decimal (nat i))"

text \<open>\<open>fmt.Sprintf("%06d", n)\<close>\<close>

definition pad6 :: "nat \<Rightarrow> string" where
  "pad6 n = replicate (6 - length (decimal n)) (CHR ''0'') @ decimal n"

definition digits_value :: "string \<Rightarrow> nat" where
  "digits_value s = foldl (\<lambda>n c. 10 * n + (byte c - 48)) 0 s"

lemma byte_digit_char: "d < 10 \<Longrightarrow> byte (digit_char d) = 48 + d"
  by (simp add: digit_char_def)

lemma is_digit_digit_char: "d < 10 \<Longrightarrow> is_digit (digit_char d)"
  by (simp add: is_digit_def byte_digit_char)

lemma decimal_not_Nil [simp]: "decimal n \<noteq> []"
  by (subst decimal.simps) simp

lemma decimal_digits: "\<forall>c \<in> set (decimal n). is_digit c"
proof (induction n rule: decimal.induct)
  case (1 n)
  show ?case
  proof (cases "n < 10")
    case True
    then show ?thesis by (subst decimal.simps) (simp add: is_digit_digit_char)
  next
    case False
    with "1.IH" show ?thesis by (subst decimal.simps) (auto simp: is_digit_digit_char)
  qed
qed

lemma digits_value_decimal [simp]: "digits_value (decimal n) = n"
proof (induction n rule: decimal.induct)
  case (1 n)
  show ?case
  proof (cases "n < 10")
    case True
    then show ?thesis by (subst decimal.simps) (simp add: digits_value_def byte_digit_char)
  next
    case False
    with "1.IH" show ?thesis by (subst decimal.simps) (simp add: digits_value_def byte_digit_char)
  qed
qed

lemma decimal_inject [simp]: "decimal m = decimal n \<longleftrightarrow> m = n"
  by (metis digits_value_decimal)

lemma decimal_free: "\<not> is_digit c \<Longrightarrow> c \<notin> set (decimal n)"
  using decimal_digits by blast

lemma digits_value_zeros [simp]: "digits_value (replicate k (CHR ''0'') @ s) = digits_value s"
  by (induction k) (simp_all add: digits_value_def)

lemma pad6_inject [simp]: "pad6 m = pad6 n \<longleftrightarrow> m = n"
  by (metis digits_value_decimal digits_value_zeros pad6_def)

subsection \<open>Quoting: the verb q of fmt\<close>

text \<open>\<open>strconv.Quote\<close> on ASCII text: backslash escapes, hexadecimal for other controls.\<close>

definition hex_digit :: "nat \<Rightarrow> char" where
  "hex_digit d = (if d < 10 then char_of (48 + d) else char_of (87 + d))"

definition quote_char :: "char \<Rightarrow> string" where
  "quote_char c =
     (if c = CHR 0x22 \<or> c = CHR 0x5C then [CHR 0x5C, c]
      else if 32 \<le> byte c \<and> byte c < 127 then [c]
      else if byte c = 7 then [CHR 0x5C, CHR ''a'']
      else if byte c = 8 then [CHR 0x5C, CHR ''b'']
      else if byte c = 12 then [CHR 0x5C, CHR ''f'']
      else if byte c = 10 then [CHR 0x5C, CHR ''n'']
      else if byte c = 13 then [CHR 0x5C, CHR ''r'']
      else if byte c = 9 then [CHR 0x5C, CHR ''t'']
      else if byte c = 11 then [CHR 0x5C, CHR ''v'']
      else [CHR 0x5C, CHR ''x'', hex_digit (byte c div 16), hex_digit (byte c mod 16)])"

definition quoted :: "string \<Rightarrow> string" where
  "quoted s = (if is_ascii s then [CHR 0x22] @ concat (map quote_char s) @ [CHR 0x22]
     else undefined s)"

text \<open>The verb q on the first rune of a string: a byte when it is ASCII.\<close>

definition quoted_rune :: "string \<Rightarrow> string" where
  "quoted_rune s = (case s of
      [] \<Rightarrow> []
    | c # _ \<Rightarrow>
        if \<not> is_ascii_char c then undefined s
        else if c = CHR 0x27 then [CHR 0x27, CHR 0x5C, c, CHR 0x27]
        else if c = CHR 0x22 then [CHR 0x27, c, CHR 0x27]
        else CHR 0x27 # quote_char c @ [CHR 0x27])"

subsection \<open>Text without white space at its ends\<close>

lemma space_len_le_1: "is_ascii s \<Longrightarrow> space_len s \<le> 1"
  by (cases s) (auto simp: space_len_def is_ascii_def is_ascii_char_def)

lemma is_ascii_drop: "is_ascii s \<Longrightarrow> is_ascii (drop n s)"
  by (auto simp: is_ascii_def list_all_iff dest: in_set_dropD)

lemma space_suffix_len_ascii:
  assumes "is_ascii s"
  shows "space_suffix_len s = (if s \<noteq> [] \<and> ascii_space (last s) then 1 else 0)"
proof (cases s rule: rev_cases)
  case (snoc t c)
  have le: "space_len (drop k s) \<le> 1" for k
    using assms by (intro space_len_le_1 is_ascii_drop)
  have "space_len (drop k s) \<noteq> 2" "space_len (drop k s) \<noteq> 3" for k
    using le [of k] by auto
  then have "space_suffix_len s = (if length s \<ge> 1 \<and> space_len (drop (length s - 1) s) = 1 then 1 else 0)"
    by (simp add: space_suffix_len_def Let_def)
  moreover have "space_len (drop (length s - 1) s) = (if ascii_space c then 1 else 0)"
    using snoc assms by (simp add: space_len_ascii is_ascii_def is_ascii_char_def)
  ultimately show ?thesis using snoc by simp
qed (simp add: space_suffix_len_def)

lemma trim_space_no_space:
  assumes "is_ascii s" and "list_all (\<lambda>c. \<not> ascii_space c) s"
  shows "trim_space s = s"
proof (rule trim_space_id)
  show "space_len s = 0"
    using assms by (cases s) (auto simp: space_len_ascii is_ascii_def is_ascii_char_def space_len_def)
  show "space_suffix_len s = 0"
    using assms by (auto simp: space_suffix_len_ascii list_all_iff)
qed

end
