(* ===== verification/Go_Json.thy ===== *)
theory Go_Json
  imports Go_Strings
begin

text \<open>
  Go's \<open>encoding/json\<close> as the program uses it for digests: \<open>json.Marshal\<close> of structs, which
  prints the fields in their declared order with no white space, and \<open>json.MarshalIndent\<close> for
  the evidence file. Strings are printed byte by byte with Go's escapes (HTML characters
  included); bytes that are not valid UTF-8 are printed as the replacement character, so the
  text determines the value only for valid UTF-8. The lemmas show that it does then: the
  printed forms are a prefix code.
\<close>

subsection \<open>UTF-8\<close>

text \<open>The length of the valid encoding a string starts with, 0 when there is none.\<close>

definition is_cont :: "nat \<Rightarrow> bool" where
  "is_cont b \<longleftrightarrow> 128 \<le> b \<and> b \<le> 191"

fun utf8_len_bytes :: "nat list \<Rightarrow> nat" where
  "utf8_len_bytes [] = 0"
| "utf8_len_bytes (a # bs) =
     (if a < 128 then 1
      else if 194 \<le> a \<and> a \<le> 223 then (case bs of b # _ \<Rightarrow> if is_cont b then 2 else 0 | _ \<Rightarrow> 0)
      else if 224 \<le> a \<and> a \<le> 239 then
        (case bs of b # c # _ \<Rightarrow>
           if is_cont b \<and> is_cont c \<and> (a = 224 \<longrightarrow> 160 \<le> b) \<and> (a = 237 \<longrightarrow> b \<le> 159) then 3 else 0
         | _ \<Rightarrow> 0)
      else if 240 \<le> a \<and> a \<le> 244 then
        (case bs of b # c # d # _ \<Rightarrow>
           if is_cont b \<and> is_cont c \<and> is_cont d \<and> (a = 240 \<longrightarrow> 144 \<le> b) \<and> (a = 244 \<longrightarrow> b \<le> 143)
           then 4 else 0
         | _ \<Rightarrow> 0)
      else 0)"

definition utf8_len :: "string \<Rightarrow> nat" where
  "utf8_len s = utf8_len_bytes (map byte (take 4 s))"

function valid_utf8 :: "string \<Rightarrow> bool" where
  "valid_utf8 s =
     (if s = [] then True else if utf8_len s = 0 then False else valid_utf8 (drop (utf8_len s) s))"
  by pat_completeness auto
termination by (relation "measure length") auto

declare valid_utf8.simps [simp del]

subsection \<open>Strings\<close>

definition unicode_escape :: "char \<Rightarrow> string" where
  "unicode_escape c = [CHR 0x5C, CHR ''u'', CHR ''0'', CHR ''0'', hex_digit (byte c div 16), hex_digit (byte c mod 16)]"

text \<open>One ASCII byte: Go escapes quotes, backslashes, controls and the HTML characters.\<close>

definition json_ascii :: "char \<Rightarrow> string" where
  "json_ascii c =
     (if c = CHR 0x22 \<or> c = CHR 0x5C then [CHR 0x5C, c]
      else if byte c = 8 then [CHR 0x5C, CHR ''b'']
      else if byte c = 12 then [CHR 0x5C, CHR ''f'']
      else if byte c = 10 then [CHR 0x5C, CHR ''n'']
      else if byte c = 13 then [CHR 0x5C, CHR ''r'']
      else if byte c = 9 then [CHR 0x5C, CHR ''t'']
      else if byte c < 32 \<or> c = CHR ''<'' \<or> c = CHR ''>'' \<or> c = CHR ''&'' then unicode_escape c
      else [c])"

text \<open>The code points U+2028 and U+2029, which Go escapes too.\<close>

definition line_separator :: "string \<Rightarrow> bool" where
  "line_separator s \<longleftrightarrow> map byte (take 3 s) = [226, 128, 168] \<or> map byte (take 3 s) = [226, 128, 169]"

function json_body :: "string \<Rightarrow> string" where
  "json_body s = (case s of [] \<Rightarrow> []
     | c # cs \<Rightarrow>
        if is_ascii_char c then json_ascii c @ json_body cs
        else if utf8_len s = 0 then CHR 0x5C # ''ufffd'' @ json_body cs
        else if line_separator s then
          CHR 0x5C # ''u202'' @ [if byte (s ! 2) = 168 then CHR ''8'' else CHR ''9''] @ json_body (drop 3 s)
        else take (utf8_len s) s @ json_body (drop (utf8_len s) s))"
  by pat_completeness auto
termination by (relation "measure length") (auto simp: line_separator_def)

declare json_body.simps [simp del]

definition json_string :: "string \<Rightarrow> string" where
  "json_string s = CHR 0x22 # json_body s @ [CHR 0x22]"

subsection \<open>Values\<close>

datatype json =
    JNull
  | JStr string
  | JInt int
  | JBool bool
  | JArr "json list"
  | JObj "(string \<times> json) list"

text \<open>The compact text of a value, given how its strings are printed.\<close>

fun json_text_with :: "(string \<Rightarrow> string) \<Rightarrow> json \<Rightarrow> string" where
  "json_text_with str JNull = ''null''"
| "json_text_with str (JStr s) = str s"
| "json_text_with str (JInt i) = int_text i"
| "json_text_with str (JBool b) = (if b then ''true'' else ''false'')"
| "json_text_with str (JArr vs) =
     CHR ''['' # join_with '','' (map (json_text_with str) vs) @ '']''"
| "json_text_with str (JObj fs) =
     CHR 0x7B # join_with '','' (map (\<lambda>(k, v). str k @ '':'' @ json_text_with str v) fs) @ [CHR 0x7D]"

text \<open>\<open>json.Marshal\<close>\<close>

definition json_text :: "json \<Rightarrow> string" where
  "json_text = json_text_with json_string"

lemma json_text_simps [simp]:
  "json_text JNull = ''null''"
  "json_text (JStr s) = json_string s"
  "json_text (JInt i) = int_text i"
  "json_text (JBool b) = (if b then ''true'' else ''false'')"
  "json_text (JArr vs) = CHR ''['' # join_with '','' (map json_text vs) @ '']''"
  "json_text (JObj fs) =
     CHR 0x7B # join_with '','' (map (\<lambda>(k, v). json_string k @ '':'' @ json_text v) fs) @ [CHR 0x7D]"
  by (simp_all add: json_text_def)

text \<open>\<open>json.MarshalIndent\<close> with two spaces.\<close>

definition json_newline :: "nat \<Rightarrow> string" where
  "json_newline depth = CHR 0x0A # replicate (2 * depth) (CHR '' '')"

fun json_indent :: "nat \<Rightarrow> json \<Rightarrow> string" where
  "json_indent depth (JArr vs) =
     (if vs = [] then ''[]''
      else CHR ''['' # json_newline (depth + 1) @
        join_with ('','' @ json_newline (depth + 1)) (map (json_indent (depth + 1)) vs) @
        json_newline depth @ '']'')"
| "json_indent depth (JObj fs) =
     (if fs = [] then [CHR 0x7B, CHR 0x7D]
      else CHR 0x7B # json_newline (depth + 1) @
        join_with ('','' @ json_newline (depth + 1))
          (map (\<lambda>(k, v). json_string k @ '': '' @ json_indent (depth + 1) v) fs) @
        json_newline depth @ [CHR 0x7D])"
| "json_indent depth v = json_text v"

text \<open>Fields of a struct: one that is always printed, and one with \<open>omitempty\<close>.\<close>

definition field :: "string \<Rightarrow> json \<Rightarrow> (string \<times> json) list" where
  "field k v = [(k, v)]"

definition field_str_opt :: "string \<Rightarrow> string \<Rightarrow> (string \<times> json) list" where
  "field_str_opt k s = (if s = [] then [] else [(k, JStr s)])"

definition field_list_opt :: "string \<Rightarrow> json list \<Rightarrow> (string \<times> json) list" where
  "field_list_opt k vs = (if vs = [] then [] else [(k, JArr vs)])"

definition JStrs :: "string list \<Rightarrow> json" where
  "JStrs ss = JArr (map JStr ss)"

subsection \<open>Printed strings are a prefix code\<close>

text \<open>The inverse of printing one code point: the code point and the rest of the text.\<close>

definition hex_value :: "char \<Rightarrow> nat" where
  "hex_value c = (if is_digit c then byte c - 48 else byte c - 87)"

definition unescape_simple :: "char \<Rightarrow> char" where
  "unescape_simple e =
     (if e = CHR ''b'' then char_of (8::nat) else if e = CHR ''f'' then char_of (12::nat)
      else if e = CHR ''n'' then char_of (10::nat) else if e = CHR ''r'' then char_of (13::nat)
      else if e = CHR ''t'' then char_of (9::nat) else e)"

definition read_point :: "string \<Rightarrow> (string \<times> string) option" where
  "read_point s = (case s of [] \<Rightarrow> None
     | c # cs \<Rightarrow>
        if c = CHR 0x22 then None
        else if c = CHR 0x5C then
          (case cs of
             [] \<Rightarrow> None
           | e # es \<Rightarrow>
               if e = CHR ''u'' then
                 (if take 3 es = ''202'' then
                    Some ([char_of (226::nat), char_of (128::nat),
                           if take 4 es = ''2028'' then char_of (168::nat) else char_of (169::nat)], drop 4 es)
                  else Some ([char_of (16 * hex_value (es ! 2) + hex_value (es ! 3))], drop 4 es))
               else Some ([unescape_simple e], es))
        else if is_ascii_char c then Some ([c], cs)
        else Some (take (utf8_len s) s, drop (utf8_len s) s))"

lemma byte_hex_digit: "d < 16 \<Longrightarrow> byte (hex_digit d) = (if d < 10 then 48 + d else 87 + d)"
  by (simp add: hex_digit_def)

lemma hex_value_digit [simp]: "d < 16 \<Longrightarrow> hex_value (hex_digit d) = d"
  by (simp add: hex_value_def is_digit_def byte_hex_digit)

lemma char_of_hex: "byte c < 256 \<Longrightarrow> char_of (16 * (byte c div 16) + byte c mod 16) = c"
  by (metis char_of_char mult_div_mod_eq)

lemma byte_eq_iff: "byte c = n \<Longrightarrow> c = char_of n"
  by auto

lemma read_point_ascii:
  assumes "is_ascii_char c"
  shows "read_point (json_ascii c @ rest) = Some ([c], rest)"
proof -
  have hex: "byte c div 16 < 16" "byte c mod 16 < 16" using byte_lt_256 [of c]
    by (simp_all add: less_mult_imp_div_less)
  consider (esc) "c = CHR 0x22 \<or> c = CHR 0x5C"
    | (simple) "byte c \<in> {8, 12, 10, 13, 9}"
    | (u) "byte c \<notin> {8, 12, 10, 13, 9}" "byte c < 32 \<or> c = CHR ''<'' \<or> c = CHR ''>'' \<or> c = CHR ''&''"
        "\<not> (c = CHR 0x22 \<or> c = CHR 0x5C)"
    | (plain) "c \<noteq> CHR 0x22" "c \<noteq> CHR 0x5C" "byte c \<notin> {8, 12, 10, 13, 9}"
        "\<not> (byte c < 32 \<or> c = CHR ''<'' \<or> c = CHR ''>'' \<or> c = CHR ''&'')"
    by blast
  then show ?thesis
  proof cases
    case esc
    then show ?thesis by (auto simp: json_ascii_def read_point_def unescape_simple_def)
  next
    case simple
    then have "c \<in> {char_of (8::nat), char_of (12::nat), char_of (10::nat), char_of (13::nat), char_of (9::nat)}"
      using byte_eq_iff by blast
    then show ?thesis
      by (elim insertE emptyE) (simp_all add: json_ascii_def read_point_def unescape_simple_def)
  next
    case u
    then have "json_ascii c = unicode_escape c" by (simp add: json_ascii_def)
    then show ?thesis
      using hex byte_lt_256 [of c] by (simp add: unicode_escape_def read_point_def char_of_hex numeral_2_eq_2 numeral_3_eq_3)
  next
    case plain
    then have "json_ascii c = [c]" by (simp add: json_ascii_def)
    then show ?thesis using plain assms by (simp add: read_point_def)
  qed
qed

lemma utf8_len_bytes_append:
  "utf8_len_bytes bs = n \<Longrightarrow> 0 < n \<Longrightarrow> utf8_len_bytes (take n bs @ cs) = n \<and> n \<le> length bs"
  by (cases bs rule: utf8_len_bytes.cases)
     (auto split: if_splits list.splits)

lemma utf8_len_le: "utf8_len s \<le> length s" "utf8_len s \<le> 4"
proof -
  have "utf8_len_bytes bs \<le> length bs \<and> utf8_len_bytes bs \<le> 4" for bs
    by (cases bs rule: utf8_len_bytes.cases) (auto split: list.splits)
  from this [of "map byte (take 4 s)"] show "utf8_len s \<le> length s" "utf8_len s \<le> 4"
    by (auto simp: utf8_len_def)
qed

lemma utf8_len_take:
  assumes "utf8_len s = n" and "0 < n"
  shows "utf8_len (take n s @ rest) = n"
proof -
  have "n \<le> 4" "n \<le> length s" using assms(1) utf8_len_le [of s] by auto
  then have "map byte (take 4 (take n s @ rest)) = take n (map byte (take 4 s)) @ map byte (take (4 - n) rest)"
    by (simp add: take_map min_def)
  with utf8_len_bytes_append [OF assms(1) [unfolded utf8_len_def] assms(2)] show ?thesis
    by (simp add: utf8_len_def)
qed

lemma utf8_len_ascii: "is_ascii_char c \<Longrightarrow> utf8_len (c # cs) = 1"
  by (simp add: utf8_len_def is_ascii_char_def)

lemma valid_utf8_ascii: "is_ascii s \<Longrightarrow> valid_utf8 s"
proof (induction s)
  case (Cons c s)
  then show ?case by (subst valid_utf8.simps) (simp add: utf8_len_ascii is_ascii_def)
qed (simp add: valid_utf8.simps)

text \<open>The text of the code point a valid string starts with.\<close>

definition point_text :: "string \<Rightarrow> string" where
  "point_text s = (case s of [] \<Rightarrow> []
     | c # cs \<Rightarrow> if is_ascii_char c then json_ascii c
       else if line_separator s then
         CHR 0x5C # ''u202'' @ [if byte (s ! 2) = 168 then CHR ''8'' else CHR ''9'']
       else take (utf8_len s) s)"

lemma line_separator_bytes:
  assumes "line_separator s"
  obtains d r where "s = char_of (226::nat) # char_of (128::nat) # d # r"
    and "d = char_of (168::nat) \<or> d = char_of (169::nat)"
proof -
  obtain a b d r where s: "s = a # b # d # r"
    using assms by (cases s; cases "tl s"; cases "tl (tl s)") (simp_all add: line_separator_def)
  from assms have bytes: "byte a = 226" "byte b = 128" "byte d = 168 \<or> byte d = 169"
    by (auto simp: s line_separator_def)
  show thesis
    by (rule that [of d r]) (use bytes s byte_eq_iff in \<open>metis\<close>)+
qed

lemma line_separator_len: "line_separator s \<Longrightarrow> utf8_len s = 3"
  by (erule line_separator_bytes) (auto simp: utf8_len_def is_cont_def)

lemma json_body_point:
  assumes "s \<noteq> []" and "0 < utf8_len s"
  shows "json_body s = point_text s @ json_body (drop (utf8_len s) s)"
proof -
  from assms(1) obtain c cs where s: "s = c # cs" by (cases s) auto
  show ?thesis
  proof (cases "is_ascii_char c")
    case True
    with s show ?thesis by (subst json_body.simps) (simp add: point_text_def utf8_len_ascii)
  next
    case False
    with s assms(2) line_separator_len [of s] show ?thesis
      by (subst json_body.simps) (simp add: point_text_def)
  qed
qed

lemma read_point_text:
  assumes "s \<noteq> []" and "0 < utf8_len s"
  shows "read_point (point_text s @ rest) = Some (take (utf8_len s) s, rest)"
proof -
  from assms(1) obtain c cs where s: "s = c # cs" by (cases s) auto
  consider (ascii) "is_ascii_char c" | (sep) "\<not> is_ascii_char c" "line_separator s"
    | (multi) "\<not> is_ascii_char c" "\<not> line_separator s" by blast
  then show ?thesis
  proof cases
    case ascii
    with s read_point_ascii [OF ascii, of rest] show ?thesis by (simp add: point_text_def utf8_len_ascii)
  next
    case sep
    from sep(2) obtain d r where d: "s = char_of (226::nat) # char_of (128::nat) # d # r"
      "d = char_of (168::nat) \<or> d = char_of (169::nat)" by (rule line_separator_bytes)
    have "take 3 s = [char_of (226::nat), char_of (128::nat), d]" using d(1) by simp
    moreover have "point_text s = CHR 0x5C # ''u202'' @ [if d = char_of (168::nat) then CHR ''8'' else CHR ''9'']"
      using d sep by (auto simp: point_text_def is_ascii_char_def)
    ultimately show ?thesis
      using d(2) line_separator_len [OF sep(2)] by (auto simp: read_point_def)
  next
    case multi
    let ?n = "utf8_len s"
    from multi s have p: "point_text s = take ?n s" by (simp add: point_text_def)
    from assms(2) s have t: "take ?n s = c # take (?n - 1) cs" by (cases ?n) auto
    have "c \<noteq> CHR 0x22" "c \<noteq> CHR 0x5C" using multi(1) by (auto simp: is_ascii_char_def)
    moreover have "utf8_len (take ?n s @ rest) = ?n" using assms(2) by (rule utf8_len_take [OF refl])
    ultimately have "read_point (take ?n s @ rest) =
        Some (take ?n (take ?n s @ rest), drop ?n (take ?n s @ rest))"
      unfolding read_point_def using multi(1) by (simp add: t)
    moreover have "length (take ?n s) = ?n" using utf8_len_le(1) [of s] by simp
    ultimately show ?thesis unfolding p by simp
  qed
qed

lemma read_point_quote [simp]: "read_point (CHR 0x22 # rest) = None"
  by (simp add: read_point_def)

lemma valid_utf8_step: "valid_utf8 s \<Longrightarrow> s \<noteq> [] \<Longrightarrow> 0 < utf8_len s \<and> valid_utf8 (drop (utf8_len s) s)"
  by (subst (asm) valid_utf8.simps) (auto split: if_splits)

text \<open>
  An encoding of text point by point, of which a reader takes back one point at a time and
  that never starts a point with a quote, can be followed by a closing quote without loss.
\<close>

lemma json_body_Nil [simp]: "json_body [] = []"
  by (simp add: json_body.simps)

locale point_code =
  fixes enc :: "string \<Rightarrow> string" and body :: "string \<Rightarrow> string"
    and read :: "string \<Rightarrow> (string \<times> string) option"
  assumes body_Nil [simp]: "body [] = []"
    and body_point: "s \<noteq> [] \<Longrightarrow> 0 < utf8_len s \<Longrightarrow> body s = enc s @ body (drop (utf8_len s) s)"
    and read_enc: "s \<noteq> [] \<Longrightarrow> 0 < utf8_len s \<Longrightarrow> read (enc s @ rest) = Some (take (utf8_len s) s, rest)"
    and read_quote: "read (CHR 0x22 # rest) = None"
begin

lemma body_prefix_free:
  "valid_utf8 s \<Longrightarrow> valid_utf8 t \<Longrightarrow>
     body s @ CHR 0x22 # x = body t @ CHR 0x22 # y \<Longrightarrow> s = t \<and> x = y"
proof (induction "length s" arbitrary: s t rule: less_induct)
  case less
  show ?case
  proof (cases "s = [] \<or> t = []")
    case True
    have "s = [] \<and> t = []"
    proof (rule ccontr)
      assume n: "\<not> (s = [] \<and> t = [])"
      with True consider "s = []" "t \<noteq> []" | "t = []" "s \<noteq> []" by auto
      then show False
      proof cases
        case 1
        with valid_utf8_step [OF less.prems(2)] less.prems(3) body_point [of t]
        have "CHR 0x22 # x = enc t @ body (drop (utf8_len t) t) @ CHR 0x22 # y" by simp
        with read_enc [of t "body (drop (utf8_len t) t) @ CHR 0x22 # y"] 1 valid_utf8_step [OF less.prems(2)]
        show False by (metis option.distinct(1) read_quote)
      next
        case 2
        with valid_utf8_step [OF less.prems(1)] less.prems(3) body_point [of s]
        have "CHR 0x22 # y = enc s @ body (drop (utf8_len s) s) @ CHR 0x22 # x" by simp
        with read_enc [of s "body (drop (utf8_len s) s) @ CHR 0x22 # x"] 2 valid_utf8_step [OF less.prems(1)]
        show False by (metis option.distinct(1) read_quote)
      qed
    qed
    with less.prems(3) body_Nil show ?thesis by simp
  next
    case False
    let ?s' = "drop (utf8_len s) s" and ?t' = "drop (utf8_len t) t"
    from False valid_utf8_step [OF less.prems(1)] valid_utf8_step [OF less.prems(2)]
    have v: "0 < utf8_len s" "valid_utf8 ?s'" "0 < utf8_len t" "valid_utf8 ?t'" "s \<noteq> []" "t \<noteq> []" by auto
    from less.prems(3) have "enc s @ body ?s' @ CHR 0x22 # x = enc t @ body ?t' @ CHR 0x22 # y"
      using body_point [OF v(5,1)] body_point [OF v(6,3)] by simp
    with read_enc [OF v(5,1)] read_enc [OF v(6,3)]
    have eq: "take (utf8_len s) s = take (utf8_len t) t"
      "body ?s' @ CHR 0x22 # x = body ?t' @ CHR 0x22 # y"
      by (metis option.inject prod.inject)+
    have "length ?s' < length s" using v(1,5) by simp
    from less.hyps [OF this v(2,4) eq(2)] have "?s' = ?t' \<and> x = y" .
    with eq(1) show ?thesis by (metis append_take_drop_id)
  qed
qed

lemma string_prefix_free:
  "valid_utf8 s \<Longrightarrow> valid_utf8 t \<Longrightarrow>
     (CHR 0x22 # body s @ [CHR 0x22]) @ x = (CHR 0x22 # body t @ [CHR 0x22]) @ y \<Longrightarrow> s = t \<and> x = y"
  using body_prefix_free [of s t x y] by simp

end

interpretation go_points: point_code point_text json_body read_point
  by unfold_locales (simp_all add: json_body_point read_point_text)

lemma json_string_prefix_free:
  "valid_utf8 s \<Longrightarrow> valid_utf8 t \<Longrightarrow> json_string s @ x = json_string t @ y \<Longrightarrow> s = t \<and> x = y"
  unfolding json_string_def by (rule go_points.string_prefix_free)

subsection \<open>Printed values are a prefix code\<close>

text \<open>A numeral ends where no digit follows.\<close>

definition number_ends :: "string \<Rightarrow> bool" where
  "number_ends x \<longleftrightarrow> (case x of [] \<Rightarrow> True | c # _ \<Rightarrow> \<not> is_digit c)"

fun json_ok :: "json \<Rightarrow> bool" where
  "json_ok (JStr s) = valid_utf8 s"
| "json_ok (JArr vs) = list_all json_ok vs"
| "json_ok (JObj fs) = list_all (\<lambda>(k, v). valid_utf8 k \<and> json_ok v) fs"
| "json_ok _ = True"

lemma digits_prefix_free:
  "\<forall>c \<in> set ds. is_digit c \<Longrightarrow> \<forall>c \<in> set es. is_digit c \<Longrightarrow> number_ends x \<Longrightarrow> number_ends y \<Longrightarrow>
     ds @ x = es @ y \<Longrightarrow> ds = es \<and> x = y"
proof (induction ds arbitrary: es)
  case Nil
  then show ?case by (cases es) (auto simp: number_ends_def)
next
  case (Cons d ds)
  then show ?case by (cases es) (auto simp: number_ends_def)
qed

lemma minus_not_digit: "\<not> is_digit (CHR ''-'')"
  by (simp add: is_digit_def)

lemma int_text_prefix_free:
  assumes "int_text i @ x = int_text j @ y" and "number_ends x" and "number_ends y"
  shows "i = j \<and> x = y"
proof -
  have hd: "hd (decimal n @ z) \<noteq> CHR ''-''" for n z
    using decimal_free [OF minus_not_digit, of n] by (cases "decimal n") auto
  have neg: "CHR ''-'' # w \<noteq> decimal n @ z" for w n z
    using hd [of n z] by (metis list.sel(1))
  have dec: "m = n \<and> x = y" if "decimal m @ x = decimal n @ y" for m n
    using digits_prefix_free [OF decimal_digits decimal_digits assms(2,3) that] by simp
  show ?thesis
  proof (cases "i < 0"; cases "j < 0")
    assume "i < 0" "j < 0"
    with assms(1) dec [of "nat (- i)" "nat (- j)"] show ?thesis by (auto simp: int_text_def)
  next
    assume "i < 0" "\<not> j < 0"
    with assms(1) neg [of _ "nat j" y] show ?thesis by (simp add: int_text_def)
  next
    assume "\<not> i < 0" "j < 0"
    with assms(1) [symmetric] neg [of _ "nat i" x] show ?thesis by (simp add: int_text_def)
  next
    assume "\<not> i < 0" "\<not> j < 0"
    with assms(1) dec [of "nat i" "nat j"] show ?thesis by (auto simp: int_text_def)
  qed
qed

lemma int_text_hd: "int_text i @ x = c # z \<Longrightarrow> is_digit c \<or> c = CHR ''-''"
  using decimal_digits [of "nat i"] by (cases "decimal (nat i)") (auto simp: int_text_def split: if_splits)

text \<open>Lists of codes with a separator and a closing character.\<close>

lemma join_prefix_free:
  assumes "\<And>a b x y. a \<in> set as \<Longrightarrow> b \<in> set bs \<Longrightarrow> enc a @ x = enc' b @ y \<Longrightarrow>
        number_ends x \<Longrightarrow> number_ends y \<Longrightarrow> rel a b \<and> x = y"
    and "\<And>b x z. b \<in> set bs \<Longrightarrow> enc' b @ x \<noteq> close # z"
    and "\<And>a x z. a \<in> set as \<Longrightarrow> enc a @ x \<noteq> close # z"
    and "\<not> is_digit sep" "\<not> is_digit close" "sep \<noteq> close"
    and "join_with [sep] (map enc as) @ close # x = join_with [sep] (map enc' bs) @ close # y"
  shows "list_all2 rel as bs \<and> x = y"
  using assms
proof (induction as arbitrary: bs)
  case Nil
  show ?case
  proof (cases bs)
    case (Cons b bs')
    then have "close # x \<noteq> enc' b @ w" for w using Nil.prems(2) [of b w x] by auto
    with Nil.prems(7) Cons show ?thesis by (cases bs') auto
  qed (use Nil in simp)
next
  case (Cons a as)
  show ?case
  proof (cases bs)
    case Nil
    with Cons.prems(7) Cons.prems(3) [of a] show ?thesis by (cases as) auto
  next
    case bs: (Cons b bs')
    define tl_a where "tl_a = (if as = [] then close # x else sep # join_with [sep] (map enc as) @ close # x)"
    define tl_b where "tl_b = (if bs' = [] then close # y else sep # join_with [sep] (map enc' bs') @ close # y)"
    have "enc a @ tl_a = enc' b @ tl_b"
      using Cons.prems(7) bs by (cases as; cases bs') (simp_all add: tl_a_def tl_b_def)
    moreover have "number_ends tl_a" "number_ends tl_b"
      using Cons.prems(4,5) by (auto simp: tl_a_def tl_b_def number_ends_def)
    ultimately have ab: "rel a b" "tl_a = tl_b" using Cons.prems(1) [of a b] bs by auto
    have sub: "list_all2 rel as bs' \<and> x = y" if "as \<noteq> []" "bs' \<noteq> []"
    proof (rule Cons.IH)
      show "join_with [sep] (map enc as) @ close # x = join_with [sep] (map enc' bs') @ close # y"
        using ab(2) that by (simp add: tl_a_def tl_b_def)
    qed (use Cons.prems bs in auto)
    show ?thesis
    proof (cases "as = [] \<or> bs' = []")
      case True
      with ab(2) Cons.prems(6) have "as = [] \<and> bs' = [] \<and> x = y"
        by (auto simp: tl_a_def tl_b_def split: if_splits)
      with ab(1) bs show ?thesis by simp
    next
      case False
      with sub ab(1) bs show ?thesis by simp
    qed
  qed
qed

text \<open>The first character of a text tells the constructor of the value.\<close>

definition kind_of_char :: "char \<Rightarrow> nat" where
  "kind_of_char c =
     (if c = CHR 0x22 then 1 else if is_digit c \<or> c = CHR ''-'' then 2
      else if c = CHR ''t'' \<or> c = CHR ''f'' then 3 else if c = CHR ''['' then 4
      else if c = CHR 0x7B then 5 else if c = CHR ''n'' then 6 else 0)"

fun kind_of :: "json \<Rightarrow> nat" where
  "kind_of JNull = 6"
| "kind_of (JStr s) = 1"
| "kind_of (JInt i) = 2"
| "kind_of (JBool b) = 3"
| "kind_of (JArr vs) = 4"
| "kind_of (JObj fs) = 5"

lemma int_text_kind: "int_text i @ x = c # z \<Longrightarrow> kind_of_char c = 2"
  by (drule int_text_hd) (auto simp: kind_of_char_def is_digit_def)

lemma same_kind:
  "kind_of JNull = kind_of b \<Longrightarrow> b = JNull"
  "kind_of (JStr s) = kind_of b \<Longrightarrow> \<exists>t. b = JStr t"
  "kind_of (JInt i) = kind_of b \<Longrightarrow> \<exists>j. b = JInt j"
  "kind_of (JBool v) = kind_of b \<Longrightarrow> \<exists>w. b = JBool w"
  "kind_of (JArr vs) = kind_of b \<Longrightarrow> \<exists>ws. b = JArr ws"
  "kind_of (JObj fs) = kind_of b \<Longrightarrow> \<exists>gs. b = JObj gs"
  by (cases b; simp)+

text \<open>
  Values printed with any printer of strings that starts with a quote and is a prefix code.
\<close>

locale string_code =
  fixes str :: "string \<Rightarrow> string"
  assumes str_quote: "\<exists>z. str s = CHR 0x22 # z"
    and str_prefix_free:
      "valid_utf8 s \<Longrightarrow> valid_utf8 t \<Longrightarrow> str s @ x = str t @ y \<Longrightarrow> s = t \<and> x = y"
begin

lemma str_not_Nil: "str s \<noteq> []"
  using str_quote [of s] by auto

lemma str_starts: "str s @ x = c # z \<Longrightarrow> c = CHR 0x22"
  using str_quote [of s] by auto

lemma text_kind: "json_text_with str v @ x = c # z \<Longrightarrow> kind_of_char c = kind_of v"
proof (cases v)
  case (JInt i)
  assume "json_text_with str v @ x = c # z"
  with JInt show ?thesis using int_text_kind by simp
next
  case (JStr s)
  assume "json_text_with str v @ x = c # z"
  with JStr str_starts [of s x c z] show ?thesis by (simp add: kind_of_char_def)
qed (auto simp: kind_of_char_def is_digit_def split: if_splits)

lemma text_not_Nil: "json_text_with str v \<noteq> []"
  by (cases v) (auto simp: str_not_Nil int_text_def)

lemma text_same_kind: "json_text_with str a @ x = json_text_with str b @ y \<Longrightarrow> kind_of a = kind_of b"
  using text_kind [of a x] text_kind [of b y] text_not_Nil [of a]
  by (metis append_is_Nil_conv neq_Nil_conv)

lemma text_starts: "json_text_with str v @ x \<noteq> CHR '']'' # z"
  using text_kind [of v x "CHR '']''" z] by (cases v) (auto simp: kind_of_char_def is_digit_def)

lemma text_prefix_free:
  "json_ok a \<Longrightarrow> json_ok b \<Longrightarrow> json_text_with str a @ x = json_text_with str b @ y \<Longrightarrow> number_ends x \<Longrightarrow> number_ends y \<Longrightarrow>
     a = b \<and> x = y"
proof (induction a arbitrary: b x y)
  case JNull
  have "b = JNull" using same_kind(1) [OF text_same_kind [OF JNull.prems(3)]] .
  with JNull.prems show ?case by simp
next
  case (JStr s)
  obtain t where "b = JStr t"
    using same_kind(2) [OF text_same_kind [OF JStr.prems(3)]] by blast
  with JStr.prems str_prefix_free [of s t x y] show ?case by simp
next
  case (JInt i)
  obtain j where "b = JInt j"
    using same_kind(3) [OF text_same_kind [OF JInt.prems(3)]] by blast
  with JInt.prems int_text_prefix_free [of i x j y] show ?case by simp
next
  case (JBool v)
  obtain w where "b = JBool w"
    using same_kind(4) [OF text_same_kind [OF JBool.prems(3)]] by blast
  with JBool.prems show ?case by (auto split: if_splits)
next
  case (JArr vs)
  obtain ws where b: "b = JArr ws"
    using same_kind(5) [OF text_same_kind [OF JArr.prems(3)]] by blast
  have "list_all2 (=) vs ws \<and> x = y"
  proof (rule join_prefix_free)
    show "join_with [CHR '',''] (map (json_text_with str) vs) @ CHR '']'' # x =
        join_with [CHR '',''] (map (json_text_with str) ws) @ CHR '']'' # y"
      using JArr.prems(3) b by simp
  next
    fix v w x y
    assume vw: "v \<in> set vs" "w \<in> set ws"
      and eq: "json_text_with str v @ x = json_text_with str w @ y" "number_ends x" "number_ends y"
    from vw JArr.prems(1,2) b have "json_ok v" "json_ok w" by (simp_all add: list_all_iff)
    from JArr.IH [OF vw(1) this eq] show "v = w \<and> x = y" .
  qed (simp_all add: text_starts is_digit_def)
  with b show ?case by (simp add: list.rel_eq)
next
  case (JObj fs)
  obtain gs where b: "b = JObj gs"
    using same_kind(6) [OF text_same_kind [OF JObj.prems(3)]] by blast
  let ?pair = "\<lambda>(k, v). str k @ '':'' @ json_text_with str v"
  have "list_all2 (=) fs gs \<and> x = y"
  proof (rule join_prefix_free)
    show "join_with [CHR '',''] (map ?pair fs) @ CHR 0x7D # x = join_with [CHR '',''] (map ?pair gs) @ CHR 0x7D # y"
      using JObj.prems(3) b by simp
  next
    fix f g x y
    assume fg: "f \<in> set fs" "g \<in> set gs" and eq: "?pair f @ x = ?pair g @ y"
      and ends: "number_ends x" "number_ends y"
    obtain k v l w where kv: "f = (k, v)" "g = (l, w)" by force
    with fg b JObj.prems(1,2) have ok: "valid_utf8 k" "json_ok v" "valid_utf8 l" "json_ok w"
      by (auto simp: list_all_iff)
    from eq kv have "str k @ '':'' @ json_text_with str v @ x = str l @ '':'' @ json_text_with str w @ y" by simp
    then have kl: "k = l" and "'':'' @ json_text_with str v @ x = '':'' @ json_text_with str w @ y"
      using str_prefix_free [OF ok(1,3)] by blast+
    then have vw: "json_text_with str v @ x = json_text_with str w @ y" by simp
    have "v \<in> Basic_BNFs.snds f" using kv by simp
    from JObj.IH [OF fg(1) this ok(2,4) vw ends] kl kv show "f = g \<and> x = y" by simp
  qed (auto simp: is_digit_def dest: str_starts)
  with b show ?case by (simp add: list.rel_eq)
qed

lemma text_inject:
  "json_ok a \<Longrightarrow> json_ok b \<Longrightarrow> json_text_with str a = json_text_with str b \<longleftrightarrow> a = b"
  using text_prefix_free [of a b "[]" "[]"] by (auto simp: number_ends_def)

end

interpretation go_text: string_code json_string
  by unfold_locales (simp add: json_string_def, rule json_string_prefix_free)

lemma json_text_inject: "json_ok a \<Longrightarrow> json_ok b \<Longrightarrow> json_text a = json_text b \<longleftrightarrow> a = b"
  unfolding json_text_def by (rule go_text.text_inject)

end
