(* ===== verification/Ledger.thy ===== *)
theory Ledger
  imports Go_Json
begin

text \<open>
  The event ledger of a run (internal/run: types.go and the event recorder of executor.go) and
  its verification (\<open>verifyChain\<close> of internal/verify). Every event carries the hash of the event
  before it and the hash of its own content. \<open>sha\<close> is the hexadecimal SHA-256 of a text; the
  theorems hold for every function in its place and speak of collisions where they need to.
  The recorder's buffered writer is the list of the events written to it.
\<close>

subsection \<open>Events (types.go)\<close>

record event =
  ev_schema_version :: string
  ev_event_id :: string
  ev_sequence :: int
  ev_run_id :: string
  ev_previous_event_hash :: string
  ev_event_hash :: string
  ev_type :: string
  ev_task_id :: string
  ev_status :: string
  ev_message :: string
  ev_artifact_ids :: "string list"
  ev_decision_id :: string
  ev_decision :: string
  ev_effect_type :: string
  ev_resource :: string
  ev_approval_ticket_id :: string

definition zero_event :: event where
  "zero_event = \<lparr>ev_schema_version = [], ev_event_id = [], ev_sequence = 0, ev_run_id = [],
     ev_previous_event_hash = [], ev_event_hash = [], ev_type = [], ev_task_id = [], ev_status = [],
     ev_message = [], ev_artifact_ids = [], ev_decision_id = [], ev_decision = [], ev_effect_type = [],
     ev_resource = [], ev_approval_ticket_id = []\<rparr>"

definition genesis_event_hash :: string where
  "genesis_event_hash = replicate 64 (CHR ''0'')"

subsection \<open>The text of an event\<close>

text \<open>The fields from \<open>type\<close> on, which the event and its hash payload share.\<close>

definition event_tail :: "event \<Rightarrow> (string \<times> json) list" where
  "event_tail e =
     field ''type'' (JStr (ev_type e)) @
     field_str_opt ''task_id'' (ev_task_id e) @
     field ''status'' (JStr (ev_status e)) @
     field_str_opt ''message'' (ev_message e) @
     field_list_opt ''artifact_ids'' (map JStr (ev_artifact_ids e)) @
     field_str_opt ''decision_id'' (ev_decision_id e) @
     field_str_opt ''decision'' (ev_decision e) @
     field_str_opt ''effect_type'' (ev_effect_type e) @
     field_str_opt ''resource'' (ev_resource e) @
     field_str_opt ''approval_ticket_id'' (ev_approval_ticket_id e)"

definition event_head :: "event \<Rightarrow> (string \<times> json) list" where
  "event_head e =
     field ''schema_version'' (JStr (ev_schema_version e)) @
     field ''event_id'' (JStr (ev_event_id e)) @
     field ''sequence'' (JInt (ev_sequence e)) @
     field ''run_id'' (JStr (ev_run_id e)) @
     field ''previous_event_hash'' (JStr (ev_previous_event_hash e))"

definition event_json :: "event \<Rightarrow> json" where
  "event_json e = JObj (event_head e @ field ''event_hash'' (JStr (ev_event_hash e)) @ event_tail e)"

definition event_hash_payload :: "event \<Rightarrow> json" where
  "event_hash_payload e = JObj (event_head e @ event_tail e)"

definition event_content_hash :: "(string \<Rightarrow> string) \<Rightarrow> event \<Rightarrow> string" where
  "event_content_hash sha e = sha (json_text (event_hash_payload e))"

definition ledger_line :: "event \<Rightarrow> string" where
  "ledger_line e = json_text (event_json e) @ [CHR 0x0A]"

definition ledger_text :: "event list \<Rightarrow> string" where
  "ledger_text es = concat (map ledger_line es)"

subsection \<open>The recorder (executor.go)\<close>

record recorder =
  rc_run_id :: string
  rc_sequence :: nat
  rc_previous_hash :: string
  rc_written :: "event list"

definition new_recorder :: "string \<Rightarrow> recorder" where
  "new_recorder run_id =
     \<lparr>rc_run_id = run_id, rc_sequence = 0, rc_previous_hash = genesis_event_hash, rc_written = []\<rparr>"

definition event_id_for :: "nat \<Rightarrow> string" where
  "event_id_for n = ''event-'' @ pad6 n"

text \<open>
  The part \<open>emit\<close> and \<open>emitPolicyDecision\<close> have in common: \<open>draft\<close> holds the fields the caller
  gives. The sequence number advances even when the event is refused by the schema.
\<close>

definition stamp :: "(string \<Rightarrow> string) \<Rightarrow> recorder \<Rightarrow> event \<Rightarrow> event" where
  "stamp sha r draft =
     (let e = draft\<lparr>ev_schema_version := ''covenant.event.v1'',
                    ev_event_id := event_id_for (rc_sequence r + 1),
                    ev_sequence := int (rc_sequence r + 1), ev_run_id := rc_run_id r,
                    ev_previous_event_hash := rc_previous_hash r, ev_event_hash := []\<rparr>
      in e\<lparr>ev_event_hash := event_content_hash sha e\<rparr>)"

definition record_event ::
    "(string \<Rightarrow> string) \<Rightarrow> (event \<Rightarrow> go_error option) \<Rightarrow> recorder \<Rightarrow> event \<Rightarrow> event go_result \<times> recorder" where
  "record_event sha schema_event r draft =
     (let e = stamp sha r draft in
      case schema_event e of
        Some err \<Rightarrow> (Inl err, r\<lparr>rc_sequence := rc_sequence r + 1\<rparr>)
      | None \<Rightarrow> (Inr e, r\<lparr>rc_sequence := rc_sequence r + 1, rc_previous_hash := ev_event_hash e,
                       rc_written := rc_written r @ [e]\<rparr>))"

definition event_draft :: "string \<Rightarrow> string \<Rightarrow> string \<Rightarrow> string \<Rightarrow> string list \<Rightarrow> event" where
  "event_draft ty task_id status message artifact_ids =
     zero_event\<lparr>ev_type := ty, ev_task_id := task_id, ev_status := status, ev_message := message,
                ev_artifact_ids := artifact_ids\<rparr>"

definition emit ::
    "(string \<Rightarrow> string) \<Rightarrow> (event \<Rightarrow> go_error option) \<Rightarrow> recorder \<Rightarrow> string \<Rightarrow> string \<Rightarrow> string \<Rightarrow> string \<Rightarrow>
     string list \<Rightarrow> event go_result \<times> recorder" where
  "emit sha schema_event r ty task_id status message artifact_ids =
     record_event sha schema_event r (event_draft ty task_id status message artifact_ids)"

subsection \<open>Verification of the chain (verifyChain)\<close>

fun verify_links :: "(string \<Rightarrow> string) \<Rightarrow> string \<Rightarrow> string \<Rightarrow> event list \<Rightarrow> go_error option" where
  "verify_links sha run_id previous [] = None"
| "verify_links sha run_id previous (e # es) =
     (if ev_run_id e \<noteq> run_id then Some (Errorf (''run id changed at event '' @ ev_event_id e))
      else if ev_previous_event_hash e \<noteq> previous
        then Some (Errorf (''previous hash mismatch at event '' @ ev_event_id e))
      else if ev_event_hash e \<noteq> event_content_hash sha e
        then Some (Errorf (''event hash mismatch at event '' @ ev_event_id e))
      else verify_links sha run_id (ev_event_hash e) es)"

definition verify_chain :: "(string \<Rightarrow> string) \<Rightarrow> event list \<Rightarrow> go_error option" where
  "verify_chain sha es = verify_links sha (ev_run_id (hd es)) genesis_event_hash es"

subsection \<open>What the recorder writes verifies\<close>

text \<open>
  The recorder after a sequence of emissions, with the events it has written; refused events
  leave only their sequence number.
\<close>

inductive emits ::
    "(string \<Rightarrow> string) \<Rightarrow> (event \<Rightarrow> go_error option) \<Rightarrow> recorder \<Rightarrow> event list \<Rightarrow> recorder \<Rightarrow> bool"
  for sha schema_event r where
  none: "emits sha schema_event r [] r"
| written: "emits sha schema_event r es r1 \<Longrightarrow> record_event sha schema_event r1 draft = (Inr e, r2) \<Longrightarrow>
     emits sha schema_event r (es @ [e]) r2"
| refused: "emits sha schema_event r es r1 \<Longrightarrow> record_event sha schema_event r1 draft = (Inl err, r2) \<Longrightarrow>
     emits sha schema_event r es r2"

lemma record_event_Inr:
  "record_event sha schema_event r draft = (Inr e, r') \<longleftrightarrow>
     e = stamp sha r draft \<and> schema_event e = None \<and>
     r' = r\<lparr>rc_sequence := rc_sequence r + 1, rc_previous_hash := ev_event_hash e, rc_written := rc_written r @ [e]\<rparr>"
  by (auto simp: record_event_def Let_def split: option.splits)

lemma record_event_Inl:
  "record_event sha schema_event r draft = (Inl err, r') \<Longrightarrow> r' = r\<lparr>rc_sequence := rc_sequence r + 1\<rparr>"
  by (auto simp: record_event_def Let_def split: option.splits)

lemma event_content_hash_ignores [simp]:
  "event_content_hash sha (e\<lparr>ev_event_hash := h\<rparr>) = event_content_hash sha e"
  by (simp add: event_content_hash_def event_hash_payload_def event_head_def event_tail_def)

lemma stamp_fields [simp]:
  "ev_event_id (stamp sha r d) = event_id_for (rc_sequence r + 1)"
  "ev_run_id (stamp sha r d) = rc_run_id r"
  "ev_previous_event_hash (stamp sha r d) = rc_previous_hash r"
  "ev_event_hash (stamp sha r d) = event_content_hash sha (stamp sha r d)"
  "ev_type (stamp sha r d) = ev_type d"
  "ev_task_id (stamp sha r d) = ev_task_id d"
  "ev_status (stamp sha r d) = ev_status d"
  "ev_message (stamp sha r d) = ev_message d"
  "ev_artifact_ids (stamp sha r d) = ev_artifact_ids d"
  "ev_decision_id (stamp sha r d) = ev_decision_id d"
  "ev_decision (stamp sha r d) = ev_decision d"
  by (simp_all add: stamp_def Let_def)

text \<open>
  The number an event got: the written events carry increasing sequence numbers of the
  recorder, so their identifiers are distinct.
\<close>

definition recorder_ok :: "(string \<Rightarrow> string) \<Rightarrow> recorder \<Rightarrow> bool" where
  "recorder_ok sha r \<longleftrightarrow>
     verify_links sha (rc_run_id r) genesis_event_hash (rc_written r) = None \<and>
     rc_previous_hash r = (if rc_written r = [] then genesis_event_hash else ev_event_hash (last (rc_written r))) \<and>
     (\<forall>e \<in> set (rc_written r). ev_run_id e = rc_run_id r \<and>
        (\<exists>n. 0 < n \<and> n \<le> rc_sequence r \<and> ev_event_id e = event_id_for n)) \<and>
     distinct (map ev_event_id (rc_written r))"

lemma event_id_for_inject [simp]: "event_id_for m = event_id_for n \<longleftrightarrow> m = n"
  by (simp add: event_id_for_def)

lemma verify_links_snoc:
  "verify_links sha run_id previous (es @ [e]) = None \<longleftrightarrow>
     verify_links sha run_id previous es = None \<and> ev_run_id e = run_id \<and>
     ev_previous_event_hash e = (if es = [] then previous else ev_event_hash (last es)) \<and>
     ev_event_hash e = event_content_hash sha e"
  by (induction es arbitrary: previous) auto

lemma recorder_ok_new [simp]: "recorder_ok sha (new_recorder run_id)"
  by (simp add: recorder_ok_def new_recorder_def)

lemma recorder_ok_step:
  assumes "recorder_ok sha r" and "record_event sha schema_event r d = (x, r')"
  shows "recorder_ok sha r'"
proof (cases x)
  case (Inl err)
  with assms(2) have "r' = r\<lparr>rc_sequence := rc_sequence r + 1\<rparr>"
    using record_event_Inl [of sha schema_event r d err r'] by simp
  with assms(1) show ?thesis by (fastforce simp: recorder_ok_def)
next
  case (Inr e)
  with assms(2) have e: "e = stamp sha r d"
    and r': "r' = r\<lparr>rc_sequence := rc_sequence r + 1, rc_previous_hash := ev_event_hash e, rc_written := rc_written r @ [e]\<rparr>"
    by (simp_all add: record_event_Inr)
  have "ev_event_id e \<notin> set (map ev_event_id (rc_written r))"
    using assms(1) unfolding e by (fastforce simp: recorder_ok_def)
  moreover have "verify_links sha (rc_run_id r) genesis_event_hash (rc_written r @ [e]) = None"
    using assms(1) unfolding verify_links_snoc recorder_ok_def by (simp add: e)
  ultimately show ?thesis
    using assms(1) unfolding recorder_ok_def r' by (fastforce simp: e)
qed

lemma emits_ok: "emits sha schema_event r es r' \<Longrightarrow> recorder_ok sha r \<Longrightarrow> recorder_ok sha r'"
  by (induction rule: emits.induct) (auto intro: recorder_ok_step)

lemma emits_written:
  "emits sha schema_event r es r' \<Longrightarrow>
     rc_written r' = rc_written r @ es \<and> rc_run_id r' = rc_run_id r \<and> rc_sequence r \<le> rc_sequence r'"
  by (induction rule: emits.induct) (auto simp: record_event_Inr dest: record_event_Inl)

lemma emits_trans:
  assumes "emits sha schema_event r1 fs r2" and "emits sha schema_event r2 gs r3"
  shows "emits sha schema_event r1 (fs @ gs) r3"
  using assms(2,1)
proof (induction rule: emits.induct)
  case (written es r1 draft e r2)
  then show ?case using emits.written by (metis append_assoc)
qed (auto intro: emits.intros)

subsection \<open>The text of an event determines it\<close>

text \<open>Every string of the event is valid UTF-8, as the strings of a decoded ledger are.\<close>

definition event_utf8 :: "event \<Rightarrow> bool" where
  "event_utf8 e \<longleftrightarrow> list_all valid_utf8
     ([ev_schema_version e, ev_event_id e, ev_run_id e, ev_previous_event_hash e, ev_event_hash e, ev_type e,
       ev_task_id e, ev_status e, ev_message e, ev_decision_id e, ev_decision e, ev_effect_type e,
       ev_resource e, ev_approval_ticket_id e] @ ev_artifact_ids e)"

lemma key_utf8:
  "valid_utf8 ''type''" "valid_utf8 ''task_id''" "valid_utf8 ''status''" "valid_utf8 ''message''"
  "valid_utf8 ''artifact_ids''" "valid_utf8 ''decision_id''" "valid_utf8 ''decision''"
  "valid_utf8 ''effect_type''" "valid_utf8 ''resource''" "valid_utf8 ''approval_ticket_id''"
  "valid_utf8 ''schema_version''" "valid_utf8 ''event_id''" "valid_utf8 ''sequence''"
  "valid_utf8 ''run_id''" "valid_utf8 ''previous_event_hash''" "valid_utf8 ''event_hash''"
  by (rule valid_utf8_ascii, simp add: is_ascii_def is_ascii_char_def)+

lemma json_ok_fields:
  "list_all (\<lambda>(k, v). valid_utf8 k \<and> json_ok v) (field k v) \<longleftrightarrow> valid_utf8 k \<and> json_ok v"
  "valid_utf8 k \<Longrightarrow> valid_utf8 s \<Longrightarrow> list_all (\<lambda>(k, v). valid_utf8 k \<and> json_ok v) (field_str_opt k s)"
  "valid_utf8 k \<Longrightarrow> list_all json_ok vs \<Longrightarrow> list_all (\<lambda>(k, v). valid_utf8 k \<and> json_ok v) (field_list_opt k vs)"
  by (simp_all add: field_def field_str_opt_def field_list_opt_def)

lemma event_payload_ok: "event_utf8 e \<Longrightarrow> json_ok (event_hash_payload e)"
  by (simp add: event_hash_payload_def event_head_def event_tail_def json_ok_fields key_utf8 event_utf8_def
      list.pred_map o_def)

lemma event_json_ok: "event_utf8 e \<Longrightarrow> json_ok (event_json e)"
  by (simp add: event_json_def event_head_def event_tail_def json_ok_fields key_utf8 event_utf8_def
      list.pred_map o_def)

lemma map_of_fields [simp]:
  "map_of (field k v) x = (if x = k then Some v else None)"
  "map_of (field_str_opt k s) x = (if x = k \<and> s \<noteq> [] then Some (JStr s) else None)"
  "map_of (field_list_opt k vs) x = (if x = k \<and> vs \<noteq> [] then Some (JArr vs) else None)"
  by (simp_all add: field_def field_str_opt_def field_list_opt_def)

lemma opt_str_eq:
  "(if s = [] then None else Some (JStr s)) = (if t = [] then None else Some (JStr t)) \<Longrightarrow> s = t"
  by (auto split: if_splits)

lemma event_tail_lookup:
  "map_of (event_tail e) ''task_id'' = (if ev_task_id e = [] then None else Some (JStr (ev_task_id e)))"
  "map_of (event_tail e) ''message'' = (if ev_message e = [] then None else Some (JStr (ev_message e)))"
  "map_of (event_tail e) ''decision_id'' = (if ev_decision_id e = [] then None else Some (JStr (ev_decision_id e)))"
  "map_of (event_tail e) ''decision'' = (if ev_decision e = [] then None else Some (JStr (ev_decision e)))"
  "map_of (event_tail e) ''effect_type'' = (if ev_effect_type e = [] then None else Some (JStr (ev_effect_type e)))"
  "map_of (event_tail e) ''resource'' = (if ev_resource e = [] then None else Some (JStr (ev_resource e)))"
  "map_of (event_tail e) ''approval_ticket_id'' = (if ev_approval_ticket_id e = [] then None else Some (JStr (ev_approval_ticket_id e)))"
  "map_of (event_tail e) ''type'' = Some (JStr (ev_type e))"
  "map_of (event_tail e) ''status'' = Some (JStr (ev_status e))"
  "map_of (event_tail e) ''artifact_ids'' =
     (if ev_artifact_ids e = [] then None else Some (JArr (map JStr (ev_artifact_ids e))))"
  by (simp_all add: event_tail_def map_add_def split: option.split)

lemma opt_arr_eq:
  "(if as = [] then None else Some (JArr (map JStr as))) = (if bs = [] then None else Some (JArr (map JStr bs))) \<Longrightarrow>
     as = bs"
  by (auto simp: inj_map_eq_map inj_def split: if_splits)

lemma event_tail_inject:
  assumes "event_tail e = event_tail f"
  shows "ev_type e = ev_type f" "ev_task_id e = ev_task_id f" "ev_status e = ev_status f"
    "ev_message e = ev_message f" "ev_artifact_ids e = ev_artifact_ids f"
    "ev_decision_id e = ev_decision_id f" "ev_decision e = ev_decision f"
    "ev_effect_type e = ev_effect_type f" "ev_resource e = ev_resource f"
    "ev_approval_ticket_id e = ev_approval_ticket_id f"
proof -
  have get: "map_of (event_tail e) k = map_of (event_tail f) k" for k using assms by simp
  note look = get [of "''task_id''"] get [of "''message''"] get [of "''decision_id''"] get [of "''decision''"]
    get [of "''effect_type''"] get [of "''resource''"] get [of "''approval_ticket_id''"]
  show "ev_task_id e = ev_task_id f" "ev_message e = ev_message f" "ev_decision_id e = ev_decision_id f"
    "ev_decision e = ev_decision f" "ev_effect_type e = ev_effect_type f" "ev_resource e = ev_resource f"
    "ev_approval_ticket_id e = ev_approval_ticket_id f"
    using look unfolding event_tail_lookup by (blast intro: opt_str_eq)+
  show "ev_type e = ev_type f" "ev_status e = ev_status f"
    using get [of "''type''"] get [of "''status''"] unfolding event_tail_lookup by simp_all
  show "ev_artifact_ids e = ev_artifact_ids f"
    using get [of "''artifact_ids''"] unfolding event_tail_lookup by (rule opt_arr_eq)
qed

lemma event_payload_inject:
  assumes "event_hash_payload e = event_hash_payload f"
  shows "e\<lparr>ev_event_hash := h\<rparr> = f\<lparr>ev_event_hash := h\<rparr>"
proof -
  from assms have eq: "event_head e = event_head f" "event_tail e = event_tail f"
    by (simp_all add: event_hash_payload_def event_head_def field_def)
  from event_tail_inject [OF eq(2)] eq(1) show ?thesis
    by (cases e; cases f) (simp add: event_head_def field_def)
qed

lemma event_text_inject:
  "event_utf8 e \<Longrightarrow> event_utf8 f \<Longrightarrow>
     json_text (event_hash_payload e) = json_text (event_hash_payload f) \<Longrightarrow>
     e\<lparr>ev_event_hash := h\<rparr> = f\<lparr>ev_event_hash := h\<rparr>"
  using json_text_inject [OF event_payload_ok event_payload_ok] event_payload_inject by blast

lemma event_json_inject:
  assumes "event_json e = event_json f"
  shows "e = f"
proof -
  from assms have "ev_event_hash e = ev_event_hash f" "event_hash_payload e = event_hash_payload f"
    by (simp_all add: event_json_def event_hash_payload_def event_head_def field_def)
  from event_payload_inject [OF this(2), of "ev_event_hash f"] this(1) show ?thesis
    by (cases e; cases f) simp
qed

subsection \<open>Hash chains\<close>

text \<open>
  A list of blocks linked by hashes from a start value: each block names the hash before it
  and its own, which is the hash of its content.
\<close>

fun linked :: "('e \<Rightarrow> string) \<Rightarrow> ('e \<Rightarrow> string) \<Rightarrow> ('e \<Rightarrow> string) \<Rightarrow> (string \<Rightarrow> string) \<Rightarrow> string \<Rightarrow> 'e list \<Rightarrow> bool" where
  "linked prev hash content h start [] = True"
| "linked prev hash content h start (e # es) =
     (prev e = start \<and> hash e = h (content e) \<and> linked prev hash content h (hash e) es)"

definition chain_end :: "('e \<Rightarrow> string) \<Rightarrow> string \<Rightarrow> 'e list \<Rightarrow> string" where
  "chain_end hash start es = (if es = [] then start else hash (last es))"

lemma linked_snoc:
  "linked prev hash content h start (es @ [e]) \<longleftrightarrow>
     linked prev hash content h start es \<and> prev e = chain_end hash start es \<and> hash e = h (content e)"
  by (induction es arbitrary: start) (auto simp: chain_end_def)

text \<open>
  What a chain needs to be tamper-evident: the content of a block determines the block, but
  for its own hash. Two chains from the same start with the same last hash are then equal, or
  the hash function has been broken on their contents.
\<close>

locale hash_chain =
  fixes prev :: "'e \<Rightarrow> string" and hash :: "'e \<Rightarrow> string" and content :: "'e \<Rightarrow> string"
    and h :: "string \<Rightarrow> string" and ok :: "'e \<Rightarrow> bool"
  assumes content_inject: "ok e \<Longrightarrow> ok f \<Longrightarrow> content e = content f \<Longrightarrow> hash e = hash f \<Longrightarrow> e = f"
    and content_prev: "ok e \<Longrightarrow> ok f \<Longrightarrow> content e = content f \<Longrightarrow> prev e = prev f"
begin

lemma same_end_same_chain:
  "linked prev hash content h start es \<Longrightarrow> linked prev hash content h start fs \<Longrightarrow>
     \<forall>e \<in> set es \<union> set fs. ok e \<Longrightarrow> chain_end hash start es = chain_end hash start fs \<Longrightarrow>
     es = fs \<or> collision h (content ` (set es \<union> set fs)) \<or> start \<in> h ` content ` (set es \<union> set fs)"
proof (induction es arbitrary: fs rule: rev_induct)
  case Nil
  show ?case
  proof (cases fs rule: rev_cases)
    case (snoc gs f)
    with Nil.prems(2,4) have "start = h (content f)" by (simp add: linked_snoc chain_end_def)
    with snoc show ?thesis by auto
  qed simp
next
  case (snoc e es)
  show ?case
  proof (cases fs rule: rev_cases)
    case Nil
    with snoc.prems(1,4) have "start = h (content e)" by (simp add: linked_snoc chain_end_def)
    then show ?thesis by auto
  next
    case fs: (snoc gs f)
    from snoc.prems(1,2,4) fs have hh: "hash e = h (content e)" "hash f = h (content f)" "hash e = hash f"
      and p: "prev e = chain_end hash start es" "prev f = chain_end hash start gs"
      and l: "linked prev hash content h start es" "linked prev hash content h start gs"
      by (simp_all add: linked_snoc chain_end_def)
    show ?thesis
    proof (cases "content e = content f")
      case False
      with hh have "collision h {content e, content f}" by (auto simp: collision_def)
      then show ?thesis unfolding fs by (auto simp: collision_def)
    next
      case True
      from snoc.prems(3) fs have oks: "ok e" "ok f" "\<forall>e \<in> set es \<union> set gs. ok e" by auto
      with content_inject True hh(3) have ef: "e = f" by blast
      with p have "chain_end hash start es = chain_end hash start gs" by simp
      from snoc.IH [OF l oks(3) this] consider "es = gs"
        | "collision h (content ` (set es \<union> set gs))" | "start \<in> h ` content ` (set es \<union> set gs)" by blast
      then show ?thesis
      proof cases
        case 2
        then have "collision h (content ` (set (es @ [e]) \<union> set fs))"
          by (rule collision_mono) (auto simp: fs)
        then show ?thesis by simp
      qed (auto simp: fs ef)
    qed
  qed
qed

end

lemma verify_links_linked:
  "verify_links sha run_id previous es = None \<longleftrightarrow>
     (\<forall>e \<in> set es. ev_run_id e = run_id) \<and>
     linked ev_previous_event_hash ev_event_hash (\<lambda>e. json_text (event_hash_payload e)) sha previous es"
  by (induction es arbitrary: previous) (auto simp: event_content_hash_def)

interpretation ledger: hash_chain ev_previous_event_hash ev_event_hash
    "\<lambda>e. json_text (event_hash_payload e)" sha event_utf8 for sha
proof
  fix e f assume ef: "event_utf8 e" "event_utf8 f"
    "json_text (event_hash_payload e) = json_text (event_hash_payload f)"
  from event_text_inject [OF this] have upd: "e\<lparr>ev_event_hash := h\<rparr> = f\<lparr>ev_event_hash := h\<rparr>" for h .
  from upd show "ev_previous_event_hash e = ev_previous_event_hash f"
    by (cases e; cases f) simp
  assume "ev_event_hash e = ev_event_hash f"
  with upd show "e = f" by (cases e; cases f) simp
qed

end
