(* ===== verification/Go_Path.thy ===== *)
theory Go_Path
  imports Go_Strings
begin

text \<open>
  The functions of Go's \<open>path\<close> package on slash-separated paths, and \<open>filepath.Join\<close> on a
  Unix system (where \<open>filepath.FromSlash\<close> is the identity). \<open>path.Clean\<close> walks over the
  elements of the path with a stack of kept elements. The lemmas show its normal form: no
  empty or dot elements, parent elements only at the front of a relative path.
\<close>

abbreviation slash :: char where "slash \<equiv> CHR 0x2F"
abbreviation backslash :: char where "backslash \<equiv> CHR 0x5C"

text \<open>The loop of \<open>path.Clean\<close>: kept elements are pushed, a parent element pops one.\<close>

fun clean_elems :: "bool \<Rightarrow> string list \<Rightarrow> string list \<Rightarrow> string list" where
  "clean_elems rooted out [] = rev out"
| "clean_elems rooted out (e # es) =
     (if e = [] \<or> e = ''.'' then clean_elems rooted out es
      else if e = ''..'' then
        (case out of
           [] \<Rightarrow> clean_elems rooted (if rooted then [] else [''..'']) es
         | t # below \<Rightarrow>
             if t = ''..'' then clean_elems rooted (''..'' # out) es
             else clean_elems rooted below es)
      else clean_elems rooted (e # out) es)"

definition is_abs :: "string \<Rightarrow> bool" where
  "is_abs p \<longleftrightarrow> (case p of [] \<Rightarrow> False | c # _ \<Rightarrow> c = slash)"

definition path_elems :: "string \<Rightarrow> string list" where
  "path_elems p = clean_elems (is_abs p) [] (split_on slash p)"

definition path_clean :: "string \<Rightarrow> string" where
  "path_clean p =
     (let body = join_with [slash] (path_elems p)
      in if is_abs p then slash # body
         else if path_elems p = [] then ''.'' else body)"

text \<open>\<open>path.Join\<close>: the non-empty elements joined and cleaned.\<close>

definition path_join :: "string list \<Rightarrow> string" where
  "path_join es = (let ne = filter (\<lambda>e. e \<noteq> []) es
     in if ne = [] then [] else path_clean (join_with [slash] ne))"

text \<open>\<open>path.Base\<close> and \<open>path.Ext\<close>\<close>

definition path_base :: "string \<Rightarrow> string" where
  "path_base p =
     (if p = [] then ''.''
      else let stripped = rev (dropWhile (\<lambda>c. c = slash) (rev p));
               name = last (split_on slash stripped)
           in if name = [] then [slash] else name)"

definition path_ext :: "string \<Rightarrow> string" where
  "path_ext p =
     (let name = last (split_on slash p)
      in if CHR ''.'' \<in> set name
         then CHR ''.'' # rev (takeWhile (\<lambda>c. c \<noteq> CHR ''.'') (rev name)) else [])"

definition to_slash :: "string \<Rightarrow> string" where
  "to_slash p = replace_byte backslash slash p"

text \<open>The program's own lexical test for a drive letter, repeated in four of its packages.\<close>

definition has_drive_prefix :: "string \<Rightarrow> bool" where
  "has_drive_prefix p = (case p of
      a # b # _ \<Rightarrow> (is_upper a \<or> is_lower a) \<and> b = CHR 0x3A
    | _ \<Rightarrow> False)"

text \<open>
  The test every path check of the program ends with: an absolute path, a drive letter or a
  leading parent element leaves the workspace.
\<close>

definition escapes :: "string \<Rightarrow> bool" where
  "escapes n \<longleftrightarrow> is_abs n \<or> has_drive_prefix n \<or> n = ''..'' \<or> prefix ''../'' n"

subsection \<open>Normal form of clean paths\<close>

definition plain_elem :: "string \<Rightarrow> bool" where
  "plain_elem e \<longleftrightarrow> e \<noteq> [] \<and> e \<noteq> ''.'' \<and> e \<noteq> ''..'' \<and> slash \<notin> set e"

definition normal_elems :: "bool \<Rightarrow> string list \<Rightarrow> bool" where
  "normal_elems rooted es \<longleftrightarrow>
     (\<exists>k rest. es = replicate k ''..'' @ rest \<and> (rooted \<longrightarrow> k = 0) \<and> list_all plain_elem rest)"

lemma plain_elem_not_dots [simp]: "\<not> plain_elem ''..''" "\<not> plain_elem ''.''" "\<not> plain_elem []"
  by (simp_all add: plain_elem_def)

lemma normal_elems_Nil [simp]: "normal_elems rooted []"
  unfolding normal_elems_def by (rule exI [of _ 0]) simp

lemma normal_snoc_plain: "normal_elems r es \<Longrightarrow> plain_elem e \<Longrightarrow> normal_elems r (es @ [e])"
proof -
  assume "normal_elems r es" and e: "plain_elem e"
  then obtain k rest where "es = replicate k ''..'' @ rest" "r \<longrightarrow> k = 0" "list_all plain_elem rest"
    unfolding normal_elems_def by blast
  with e have "es @ [e] = replicate k ''..'' @ (rest @ [e])" "list_all plain_elem (rest @ [e])"
    by simp_all
  with \<open>r \<longrightarrow> k = 0\<close> show ?thesis unfolding normal_elems_def by blast
qed

lemma normal_dotdots: "list_all (\<lambda>e. e = ''..'') es \<Longrightarrow> normal_elems False es"
  unfolding normal_elems_def
  by (rule exI [of _ "length es"], rule exI [of _ "[]"])
     (auto simp: list_all_iff replicate_length_same)

lemma normal_last_dotdot:
  assumes "normal_elems r (es @ [''..''])"
  shows "\<not> r \<and> list_all (\<lambda>e. e = ''..'') es"
proof -
  from assms obtain k rest where s: "es @ [''..''] = replicate k ''..'' @ rest"
    and r: "r \<longrightarrow> k = 0" and p: "list_all plain_elem rest"
    unfolding normal_elems_def by blast
  have "rest = []"
  proof (rule ccontr)
    assume ne: "rest \<noteq> []"
    then have "last (replicate k ''..'' @ rest) = last rest" by simp
    moreover have "last (es @ [''..'']) = ''..''" by simp
    ultimately have "last rest = ''..''" using s by metis
    moreover from ne p have "plain_elem (last rest)" by (simp add: list_all_iff)
    ultimately show False by simp
  qed
  with s have rep: "es @ [''..''] = replicate k ''..''" by simp
  then have "k \<noteq> 0" by (cases k) auto
  moreover have "\<forall>e \<in> set es. e = ''..''"
  proof
    fix e assume "e \<in> set es"
    then have "e \<in> set (es @ [''..''])" by simp
    then show "e = ''..''" unfolding rep by simp
  qed
  ultimately show ?thesis using r by (auto simp: list_all_iff)
qed

lemma normal_butlast: "normal_elems r (es @ [e]) \<Longrightarrow> normal_elems r es"
proof -
  assume "normal_elems r (es @ [e])"
  then obtain k rest where s: "es @ [e] = replicate k ''..'' @ rest"
    and r: "r \<longrightarrow> k = 0" and p: "list_all plain_elem rest"
    unfolding normal_elems_def by blast
  show "normal_elems r es"
  proof (cases rest rule: rev_cases)
    case Nil
    with s have "es = butlast (replicate k ''..'')" by (metis append_Nil2 butlast_snoc)
    then have "es = replicate (k - 1) ''..'' @ []" by (simp add: butlast_conv_take)
    with r show ?thesis unfolding normal_elems_def
      by (intro exI [of _ "k - 1"] exI [of _ "[]"]) simp
  next
    case (snoc rs x)
    with s have "es = replicate k ''..'' @ rs" by simp
    moreover from snoc p have "list_all plain_elem rs" by simp
    ultimately show ?thesis using r unfolding normal_elems_def by blast
  qed
qed

lemma clean_elems_normal:
  "normal_elems r (rev out) \<Longrightarrow> (\<And>e. e \<in> set es \<Longrightarrow> slash \<notin> set e) \<Longrightarrow>
     normal_elems r (clean_elems r out es)"
proof (induction r out es rule: clean_elems.induct)
  case (2 r out e es)
  consider (skip) "e = [] \<or> e = ''.''" | (up) "e = ''..''" | (keep) "plain_elem e"
    using "2.prems"(2) by (auto simp: plain_elem_def)
  then show ?case
  proof cases
    case skip
    with 2 show ?thesis by auto
  next
    case keep
    with "2.prems"(1) have "normal_elems r (rev (e # out))" by (simp add: normal_snoc_plain)
    with keep 2 show ?thesis by (auto simp: plain_elem_def)
  next
    case up
    show ?thesis
    proof (cases out)
      case Nil
      have "normal_elems False [''..'']" by (rule normal_dotdots) simp
      with up Nil 2 show ?thesis by auto
    next
      case (Cons t below)
      show ?thesis
      proof (cases "t = ''..''")
        case True
        with "2.prems"(1) Cons have "\<not> r \<and> list_all (\<lambda>e. e = ''..'') (rev below)"
          using normal_last_dotdot [of r "rev below"] by simp
        then have "normal_elems r (rev (''..'' # out))"
          using True Cons by (auto intro!: normal_dotdots simp: list_all_iff)
        with up 2 Cons True show ?thesis by auto
      next
        case False
        with "2.prems"(1) Cons have "normal_elems r (rev below)"
          using normal_butlast by simp
        with up 2 Cons False show ?thesis by auto
      qed
    qed
  qed
qed simp

lemma clean_elems_plain:
  "list_all plain_elem es \<Longrightarrow> clean_elems r out es = rev out @ es"
  by (induction es arbitrary: out) (auto simp: plain_elem_def)

lemma clean_elems_append:
  "clean_elems r out (es @ fs) = clean_elems r (rev (clean_elems r out es)) fs"
proof (induction r out es rule: clean_elems.induct)
  case (2 r out e es)
  then show ?case by (cases out) simp_all
qed simp

lemma clean_elems_dotdots:
  "clean_elems False (replicate m ''..'') (replicate k ''..'' @ es) =
   clean_elems False (replicate (m + k) ''..'') es"
proof (induction k arbitrary: m)
  case (Suc k)
  have "clean_elems False (replicate m ''..'') (replicate (Suc k) ''..'' @ es) =
    clean_elems False (replicate (Suc m) ''..'') (replicate k ''..'' @ es)"
    by (cases m) auto
  with Suc [of "Suc m"] show ?case by simp
qed simp

lemma clean_elems_of_normal: "normal_elems r es \<Longrightarrow> clean_elems r [] es = es"
proof -
  assume "normal_elems r es"
  then obtain k rest where s: "es = replicate k ''..'' @ rest" "r \<longrightarrow> k = 0" "list_all plain_elem rest"
    unfolding normal_elems_def by blast
  show ?thesis
  proof (cases r)
    case True
    with s show ?thesis by (simp add: clean_elems_plain)
  next
    case False
    with s clean_elems_dotdots [of 0 k rest] show ?thesis by (simp add: clean_elems_plain)
  qed
qed

lemma path_elems_normal: "normal_elems (is_abs p) (path_elems p)"
  unfolding path_elems_def by (rule clean_elems_normal) (auto dest: split_on_elem_free)

lemma normal_elems_free: "normal_elems r es \<Longrightarrow> e \<in> set es \<Longrightarrow> e \<noteq> [] \<and> slash \<notin> set e"
proof -
  assume "normal_elems r es" and e: "e \<in> set es"
  then obtain k rest where s: "es = replicate k ''..'' @ rest" "list_all plain_elem rest"
    unfolding normal_elems_def by blast
  show ?thesis
  proof (cases "e \<in> set rest")
    case True
    with s(2) show ?thesis by (simp add: list_all_iff plain_elem_def)
  next
    case False
    with s(1) e have "e \<in> set (replicate k ''..'')" by simp
    then have "e = ''..''" by (simp split: if_splits)
    then show ?thesis by simp
  qed
qed

lemma split_join_normal:
  assumes "normal_elems r es" and "es \<noteq> []"
  shows "split_on slash (join_with [slash] es) = es"
proof (rule split_join [OF assms(2)])
  fix w assume "w \<in> set es"
  with normal_elems_free [OF assms(1)] show "slash \<notin> set w" by blast
qed

lemma join_head_not_slash:
  "normal_elems r es \<Longrightarrow> es \<noteq> [] \<Longrightarrow> \<not> is_abs (join_with [slash] es) \<and> join_with [slash] es \<noteq> []"
proof -
  assume n: "normal_elems r es" and ne: "es \<noteq> []"
  then obtain e fs where es: "es = e # fs" by (cases es) auto
  with n have "e \<noteq> [] \<and> slash \<notin> set e" using normal_elems_free by simp
  then obtain c e' where "e = c # e'" "c \<noteq> slash" by (cases e) auto
  with es show ?thesis by (cases fs) (auto simp: is_abs_def join_with_Cons)
qed

text \<open>The elements of a cleaned path are those of the path; cleaning is idempotent.\<close>

lemma is_abs_clean [simp]: "is_abs (path_clean p) = is_abs p"
proof (cases "is_abs p \<or> path_elems p = []")
  case True
  then show ?thesis by (auto simp: path_clean_def Let_def is_abs_def)
next
  case False
  with join_head_not_slash [OF path_elems_normal, of p] show ?thesis
    by (auto simp: path_clean_def Let_def)
qed

lemma path_elems_clean [simp]: "path_elems (path_clean p) = path_elems p"
proof (cases "path_elems p = []")
  case True
  then show ?thesis
    by (simp add: path_clean_def [of p] path_elems_def [of "[slash]"] path_elems_def [of "''.''"]
        is_abs_def [of "[slash]"])
next
  case False
  have split: "split_on slash (join_with [slash] (path_elems p)) = path_elems p"
    by (rule split_join_normal [OF path_elems_normal False])
  show ?thesis
  proof (cases "is_abs p")
    case True
    then have c: "path_clean p = slash # join_with [slash] (path_elems p)"
      by (simp add: path_clean_def)
    have "path_elems (path_clean p) = clean_elems True [] ([] # path_elems p)"
      unfolding path_elems_def [of "path_clean p"] is_abs_clean using True
      by (simp only: c split_on.simps split) simp
    also have "\<dots> = path_elems p"
      using clean_elems_of_normal [OF path_elems_normal, of p] True by simp
    finally show ?thesis .
  next
    case rel: False
    with False have c: "path_clean p = join_with [slash] (path_elems p)"
      by (simp add: path_clean_def)
    have "path_elems (path_clean p) = clean_elems False [] (path_elems p)"
      unfolding path_elems_def [of "path_clean p"] is_abs_clean using rel by (simp add: c split)
    also have "\<dots> = path_elems p"
      using clean_elems_of_normal [OF path_elems_normal, of p] rel by simp
    finally show ?thesis .
  qed
qed

lemma path_clean_idem [simp]: "path_clean (path_clean p) = path_clean p"
  unfolding path_clean_def [of "path_clean p"] path_elems_clean is_abs_clean
  by (simp add: path_clean_def [of p])

lemma path_clean_not_Nil [simp]: "path_clean p \<noteq> []"
proof (cases "is_abs p \<or> path_elems p = []")
  case True
  then show ?thesis by (auto simp: path_clean_def Let_def)
next
  case False
  with join_head_not_slash [OF path_elems_normal, of p] show ?thesis
    by (auto simp: path_clean_def Let_def)
qed

subsection \<open>Paths that stay inside\<close>

text \<open>A path whose cleaned form does not escape has only plain elements.\<close>

lemma inside_elems:
  assumes "\<not> escapes (path_clean p)"
  shows "\<not> is_abs p \<and> list_all plain_elem (path_elems p)"
proof -
  from assms have rel: "\<not> is_abs p" by (simp add: escapes_def)
  obtain k rest where s: "path_elems p = replicate k ''..'' @ rest" "list_all plain_elem rest"
    using path_elems_normal [of p] unfolding normal_elems_def by blast
  have "k = 0"
  proof (rule ccontr)
    assume "k \<noteq> 0"
    then obtain m where k: "k = Suc m" by (cases k) auto
    with s rel have c: "path_clean p = join_with [slash] (''..'' # replicate m ''..'' @ rest)"
      by (simp add: path_clean_def)
    show False
    proof (cases "replicate m ''..'' @ rest = []")
      case True
      with c assms show False by (simp add: escapes_def)
    next
      case False
      with c have "path_clean p = ''..'' @ [slash] @ join_with [slash] (replicate m ''..'' @ rest)"
        by (simp add: join_with_Cons)
      with assms show False by (simp add: escapes_def)
    qed
  qed
  with s rel show ?thesis by simp
qed

text \<open>
  Joining an absolute base with a path that does not escape appends its elements to the
  base's: the result is inside the base.
\<close>

lemma path_elems_join_inside:
  assumes "is_abs base" and "\<not> escapes (path_clean p)"
  shows "path_elems (path_join [base, path_clean p]) = path_elems base @ path_elems p
    \<and> is_abs (path_join [base, path_clean p])"
proof -
  let ?n = "path_clean p"
  from assms(2) have rel: "\<not> is_abs p" and pl: "list_all plain_elem (path_elems p)"
    using inside_elems by auto
  from assms(1) have b: "base \<noteq> []" by (auto simp: is_abs_def)
  then have j: "path_join [base, ?n] = path_clean (base @ [slash] @ ?n)"
    by (simp add: path_join_def)
  have abs: "is_abs (base @ [slash] @ ?n)"
    using assms(1) by (auto simp: is_abs_def split: list.splits)
  have "path_elems (base @ [slash] @ ?n)
      = clean_elems True (rev (path_elems base)) (split_on slash ?n)"
    using abs assms(1) by (simp add: path_elems_def split_on_append clean_elems_append)
  also have "\<dots> = path_elems base @ path_elems p"
  proof (cases "path_elems p = []")
    case True
    with rel have "?n = ''.''" by (simp add: path_clean_def)
    with True show ?thesis by simp
  next
    case False
    then have "split_on slash ?n = path_elems p"
      using split_join_normal [OF path_elems_normal False] rel by (simp add: path_clean_def)
    then show ?thesis by (simp add: clean_elems_plain [OF pl])
  qed
  finally show ?thesis using abs unfolding j by simp
qed

text \<open>So the elements of the base are a prefix of the elements of the joined path.\<close>

definition within :: "string \<Rightarrow> string \<Rightarrow> bool" where
  "within base p \<longleftrightarrow> is_abs p \<and> prefix (path_elems base) (path_elems p)"

lemma path_join_within:
  "is_abs base \<Longrightarrow> \<not> escapes (path_clean p) \<Longrightarrow> within base (path_join [base, path_clean p])"
  using path_elems_join_inside by (auto simp: within_def)

end
