(* ===== verification/Go_Time.thy ===== *)
theory Go_Time
  imports Go_Strings "HOL-Library.Word"
begin

text \<open>
  Instants, durations and \<open>time.Parse(time.RFC3339, s)\<close>. An instant is the number of
  nanoseconds since 0001-01-01T00:00:00Z, the zero value of \<open>time.Time\<close>. The parser is the
  one of the standard library with its leniencies: the hour may have one digit, the seconds
  may carry a fraction after a point or a comma (read to nanoseconds), and an offset may name
  24 hours or 60 minutes. A duration is a signed 64-bit count of nanoseconds.
\<close>

datatype instant = Instant (nanos: int)

text \<open>\<open>t.Before(u)\<close> is \<open>t < u\<close>, \<open>t.After(u)\<close> is \<open>u < t\<close>.\<close>

instantiation instant :: linorder
begin

definition less_eq_instant :: "instant \<Rightarrow> instant \<Rightarrow> bool" where
  "less_eq_instant a b \<longleftrightarrow> nanos a \<le> nanos b"

definition less_instant :: "instant \<Rightarrow> instant \<Rightarrow> bool" where
  "less_instant a b \<longleftrightarrow> nanos a < nanos b"

instance
  by standard (auto simp: less_eq_instant_def less_instant_def instant.expand)

end

definition zero_time :: instant where
  "zero_time = Instant 0"

subsection \<open>Durations\<close>

text \<open>\<open>t.Sub(u)\<close> saturates at the bounds of a signed 64-bit integer.\<close>

definition duration_between :: "instant \<Rightarrow> instant \<Rightarrow> int" where
  "duration_between t u =
     (let d = nanos t - nanos u
      in if d > 2 ^ 63 - 1 then 2 ^ 63 - 1 else if d < - (2 ^ 63) then - (2 ^ 63) else d)"

definition second :: int where
  "second = 1000000000"

definition hours24 :: int where
  "hours24 = 24 * 3600 * 1000000000"

text \<open>\<open>time.Duration(n) * time.Second\<close> wraps around at 64 bits.\<close>

definition seconds_duration :: "int \<Rightarrow> int" where
  "seconds_duration n = sint (word_of_int (n * second) :: 64 word)"

lemma sint_of_small: "- (2 ^ 63) \<le> k \<Longrightarrow> k < 2 ^ 63 \<Longrightarrow> sint (word_of_int k :: 64 word) = k"
  by transfer (simp add: signed_take_bit_int_eq_self)

lemma seconds_duration_small:
  "0 \<le> n \<Longrightarrow> n \<le> 9223372036 \<Longrightarrow> seconds_duration n = n * second"
  unfolding seconds_duration_def by (rule sint_of_small) (simp_all add: second_def)

lemma duration_between_gt:
  "- (2 ^ 63) \<le> d \<Longrightarrow> d < 2 ^ 63 - 1 \<Longrightarrow> d < duration_between t u \<longleftrightarrow> d < nanos t - nanos u"
  by (auto simp: duration_between_def Let_def)

subsection \<open>The calendar\<close>

definition leap_year :: "int \<Rightarrow> bool" where
  "leap_year y \<longleftrightarrow> y mod 4 = 0 \<and> (y mod 100 \<noteq> 0 \<or> y mod 400 = 0)"

definition days_in_month :: "int \<Rightarrow> int \<Rightarrow> int" where
  "days_in_month y m =
     (if m = 2 then (if leap_year y then 29 else 28)
      else if m = 4 \<or> m = 6 \<or> m = 9 \<or> m = 11 then 30 else 31)"

text \<open>Days from 0001-01-01 to the first day of a year, and of a month in its year.\<close>

definition days_before_year :: "int \<Rightarrow> int" where
  "days_before_year y =
     365 * (y - 1) + (y - 1) div 4 - (y - 1) div 100 + (y - 1) div 400"

definition days_before_month :: "int \<Rightarrow> int \<Rightarrow> int" where
  "days_before_month y m = sum_list (map (\<lambda>k. days_in_month y (int k)) [1..<nat m])"

definition instant_of ::
    "int \<Rightarrow> int \<Rightarrow> int \<Rightarrow> int \<Rightarrow> int \<Rightarrow> int \<Rightarrow> int \<Rightarrow> int \<Rightarrow> instant" where
  "instant_of y mo d h mi s ns offset =
     Instant ((((days_before_year y + days_before_month y mo + d - 1) * 24 + h) * 60 + mi) * 60 * second
       + (s - offset) * second + ns)"

subsection \<open>Parsing RFC 3339\<close>

type_synonym 'a scanner = "string \<Rightarrow> ('a \<times> string) option"

text \<open>Exactly \<open>n\<close> digits; one or two digits (\<open>getnum\<close> without \<open>fixed\<close>).\<close>

definition scan_fixed :: "nat \<Rightarrow> int scanner" where
  "scan_fixed n s =
     (if n \<le> length s \<and> list_all is_digit (take n s)
      then Some (int (digits_value (take n s)), drop n s) else None)"

definition scan_hour :: "int scanner" where
  "scan_hour s = (case s of
      [] \<Rightarrow> None
    | a # t \<Rightarrow> if \<not> is_digit a then None
        else (case t of
            [] \<Rightarrow> Some (int (digits_value [a]), [])
          | b # u \<Rightarrow> if is_digit b then Some (int (digits_value [a, b]), u)
                     else Some (int (digits_value [a]), t)))"

definition scan_char :: "char \<Rightarrow> string \<Rightarrow> string option" where
  "scan_char c s = (case s of [] \<Rightarrow> None | a # t \<Rightarrow> if a = c then Some t else None)"

text \<open>The optional fraction; digits beyond the ninth are read and ignored.\<close>

definition scan_fraction :: "int scanner" where
  "scan_fraction s = (case s of
      a # b # t \<Rightarrow>
        if (a = CHR ''.'' \<or> a = CHR '','') \<and> is_digit b
        then (let ds = takeWhile is_digit (b # t); kept = take 9 ds
              in Some (int (digits_value kept) * 10 ^ (9 - length kept),
                       dropWhile is_digit (b # t)))
        else Some (0, s)
    | _ \<Rightarrow> Some (0, s))"

definition scan_zone :: "int scanner" where
  "scan_zone s = (case s of
      [] \<Rightarrow> None
    | c # t \<Rightarrow>
        if c = CHR ''Z'' then Some (0, t)
        else if length s < 6 \<or> s ! 3 \<noteq> CHR '':'' then None
        else (case scan_fixed 2 (take 2 t) of
            None \<Rightarrow> None
          | Some (h, _) \<Rightarrow>
              (case scan_fixed 2 (take 2 (drop 3 t)) of
                 None \<Rightarrow> None
               | Some (m, _) \<Rightarrow>
                   if h > 24 \<or> m > 60 then None
                   else if c = CHR ''+'' then Some ((h * 60 + m) * 60, drop 6 s)
                   else if c = CHR ''-'' then Some (- ((h * 60 + m) * 60), drop 6 s)
                   else None)))"

definition parse_rfc3339 :: "string \<Rightarrow> instant option" where
  "parse_rfc3339 str =
     Option.bind (scan_fixed 4 str) (\<lambda>(y, s1).
     Option.bind (scan_char (CHR ''-'') s1) (\<lambda>s2.
     Option.bind (scan_fixed 2 s2) (\<lambda>(mo, s3).
     if mo < 1 \<or> mo > 12 then None else
     Option.bind (scan_char (CHR ''-'') s3) (\<lambda>s4.
     Option.bind (scan_fixed 2 s4) (\<lambda>(d, s5).
     Option.bind (scan_char (CHR ''T'') s5) (\<lambda>s6.
     Option.bind (scan_hour s6) (\<lambda>(h, s7).
     if h > 23 then None else
     Option.bind (scan_char (CHR '':'') s7) (\<lambda>s8.
     Option.bind (scan_fixed 2 s8) (\<lambda>(mi, s9).
     if mi > 59 then None else
     Option.bind (scan_char (CHR '':'') s9) (\<lambda>s10.
     Option.bind (scan_fixed 2 s10) (\<lambda>(sec, s11).
     if sec > 59 then None else
     Option.bind (scan_fraction s11) (\<lambda>(ns, s12).
     Option.bind (scan_zone s12) (\<lambda>(off, s13).
     if s13 \<noteq> [] \<or> d < 1 \<or> d > days_in_month y mo then None
     else Some (instant_of y mo d h mi sec ns off))))))))))))))"

definition valid_rfc3339 :: "string \<Rightarrow> bool" where
  "valid_rfc3339 s \<longleftrightarrow> parse_rfc3339 s \<noteq> None"

lemma parse_rfc3339_Nil [simp]: "parse_rfc3339 [] = None"
  by (simp add: parse_rfc3339_def scan_fixed_def)

text \<open>
  Two known instants: the Unix epoch, and one written with an offset, a one-digit hour and a
  fraction.
\<close>

lemma parse_epoch:
  "parse_rfc3339 ''1970-01-01T00:00:00Z'' = Some (Instant 62135596800000000000)"
  by code_simp

lemma parse_offset:
  "parse_rfc3339 ''1970-01-01T2:00:00,5+02:00'' = Some (Instant 62135596800500000000)"
  by code_simp

lemma parse_bad_day: "parse_rfc3339 ''2023-02-29T00:00:00Z'' = None"
  by code_simp

end
