(* ===== verification/Policy.thy ===== *)
theory Policy
  imports Go_Path Go_Time
begin

text \<open>
  The policy decision point (internal/policy: types.go, evaluator.go, protected_paths.go,
  governance_classification.go, index.go, explain.go). \<open>evaluate_task\<close> returns one decision
  per declared side effect of a task. The lemmas show that a decision is \<open>allow\<close> exactly
  when a declarative specification permits the action, and what identifies a decision.

  Go's \<open>map[string]bool\<close> of revoked tickets is a predicate (an absent key reads false); the
  current time, read when the input carries the zero time, is the argument \<open>now\<close>.
\<close>

subsection \<open>Types (types.go)\<close>

abbreviation ticket_schema_version :: string where
  "ticket_schema_version \<equiv> ''covenant.approval-ticket.v1''"
abbreviation decision_schema_version :: string where
  "decision_schema_version \<equiv> ''covenant.policy-decision.v1''"
abbreviation decision_allow :: string where "decision_allow \<equiv> ''allow''"
abbreviation decision_deny :: string where "decision_deny \<equiv> ''deny''"

record approval_ticket =
  tk_schema_version :: string
  tk_ticket_id :: string
  tk_task_id :: string
  tk_effect_type :: string
  tk_resource :: string
  tk_approved :: bool
  tk_reason :: string
  tk_operator_id :: string
  tk_expires_at :: string

record policy_action =
  pa_type :: string
  pa_resource :: string

record policy_input =
  in_mode :: string
  in_reads :: "string list"
  in_writes :: "string list"
  in_task_id :: string
  in_actions :: "policy_action list"
  in_approvals :: "approval_ticket list"
  in_time :: instant
  in_revoked :: "string \<Rightarrow> bool"

record decision =
  dc_schema_version :: string
  dc_decision_id :: string
  dc_task_id :: string
  dc_effect_type :: string
  dc_resource :: string
  dc_decision :: string
  dc_reason :: string
  dc_ticket_id :: string

definition empty_ticket :: approval_ticket where
  "empty_ticket = \<lparr>tk_schema_version = [], tk_ticket_id = [], tk_task_id = [], tk_effect_type = [],
     tk_resource = [], tk_approved = False, tk_reason = [], tk_operator_id = [], tk_expires_at = []\<rparr>"

subsection \<open>Resources (protected_paths.go)\<close>

definition normalize_resource :: "string \<Rightarrow> string" where
  "normalize_resource raw = path_clean (to_slash raw)"

definition contains_normalized :: "string list \<Rightarrow> string \<Rightarrow> bool" where
  "contains_normalized vs resource \<longleftrightarrow> list_ex (\<lambda>v. normalize_resource v = resource) vs"

lemma to_slash_clean: "backslash \<notin> set p \<Longrightarrow> to_slash p = p"
  unfolding to_slash_def replace_byte_def by (rule map_idI) auto

lemma backslash_free_to_slash: "backslash \<notin> set (to_slash p)"
  by (auto simp: to_slash_def replace_byte_def)

subsection \<open>Approval tickets (evaluator.go)\<close>

datatype ticket_status = TicketMissing | TicketValid | TicketExpired | TicketInvalidExpiration

definition ticket_matches :: "string \<Rightarrow> string \<Rightarrow> string \<Rightarrow> approval_ticket \<Rightarrow> bool" where
  "ticket_matches task_id effect_type resource tk \<longleftrightarrow>
     tk_task_id tk = task_id \<and> tk_effect_type tk = effect_type \<and>
     normalize_resource (tk_resource tk) = resource \<and> tk_approved tk"

fun matching_approved_ticket ::
    "approval_ticket list \<Rightarrow> string \<Rightarrow> string \<Rightarrow> string \<Rightarrow> instant \<Rightarrow> approval_ticket \<times> ticket_status" where
  "matching_approved_ticket [] task_id effect_type resource now = (empty_ticket, TicketMissing)"
| "matching_approved_ticket (tk # rest) task_id effect_type resource now =
     (if ticket_matches task_id effect_type resource tk then
        (if tk_expires_at tk = [] then (tk, TicketValid)
         else (case parse_rfc3339 (tk_expires_at tk) of
             None \<Rightarrow> (tk, TicketInvalidExpiration)
           | Some expires_at \<Rightarrow>
               if \<not> (now < expires_at) then (tk, TicketExpired) else (tk, TicketValid)))
      else matching_approved_ticket rest task_id effect_type resource now)"

definition evaluation_time :: "policy_input \<Rightarrow> instant \<Rightarrow> instant" where
  "evaluation_time inp now = (if in_time inp \<noteq> zero_time then in_time inp else now)"

subsection \<open>Claim publication (governance\_classification.go)\<close>

abbreviation claim_level_bounded :: string where
  "claim_level_bounded \<equiv> ''bounded_governed_rsi''"
abbreviation claim_level_full :: string where
  "claim_level_full \<equiv> ''full_autonomous_self_mutating_rsi''"
abbreviation full_rsi_resource :: string where
  "full_rsi_resource \<equiv> ''full-autonomous-self-mutating-rsi''"

definition reason_revoked :: "approval_ticket \<Rightarrow> string" where
  "reason_revoked tk = ''approval ticket '' @ quoted (tk_ticket_id tk) @ '' is revoked''"

definition reason_expired :: "approval_ticket \<Rightarrow> string" where
  "reason_expired tk =
     ''approval ticket '' @ quoted (tk_ticket_id tk) @ '' expired at '' @ tk_expires_at tk"

definition reason_invalid_expiry :: "approval_ticket \<Rightarrow> string" where
  "reason_invalid_expiry tk =
     ''approval ticket '' @ quoted (tk_ticket_id tk) @ '' has invalid expires_at '' @ quoted (tk_expires_at tk)"

definition reason_claim_denied :: string where
  "reason_claim_denied = ''claim_level='' @ claim_level_full @ '' is denied; downgrade to claim_level='' @
     claim_level_bounded @ '' until mutation authority, rollback, and live self-change evidence exist''"

definition reason_claim_approved :: string where
  "reason_claim_approved = ''approved full RSI claim evidence for claim_level='' @ claim_level_full"

definition full_rsi_evidence_reason :: "string \<Rightarrow> bool" where
  "full_rsi_evidence_reason reason \<longleftrightarrow>
     list_all (contains (to_lower reason)) [''mutation authority'', ''rollback'', ''live self-change'']"

definition full_rsi_missing_evidence_reason :: "approval_ticket \<Rightarrow> string" where
  "full_rsi_missing_evidence_reason tk =
     (let normalized = to_lower (tk_reason tk) in
      if contains normalized ''rollback'' \<and> \<not> contains normalized ''mutation authority'' \<and>
         \<not> contains normalized ''live self-change''
      then ''approval ticket '' @ quoted (tk_ticket_id tk) @ '' includes retained rollback rehearsal evidence, but retained rollback rehearsal alone is insufficient for claim_level='' @
        claim_level_full @ ''; downgrade to claim_level='' @ claim_level_bounded @
        '' until mutation authority and live self-change evidence also exist''
      else ''approval ticket '' @ quoted (tk_ticket_id tk) @ '' is missing evidence for claim_level='' @
        claim_level_full @ ''; downgrade to claim_level='' @ claim_level_bounded @
        '' until mutation authority, rollback, and live self-change evidence exist'')"

definition evaluate_claim_publish ::
    "policy_input \<Rightarrow> instant \<Rightarrow> policy_action \<Rightarrow> string \<Rightarrow> string \<times> string \<times> string" where
  "evaluate_claim_publish inp now action resource =
     (let (tk, status) = matching_approved_ticket (in_approvals inp) (in_task_id inp) (pa_type action)
                           resource (evaluation_time inp now) in
      if status = TicketExpired then (decision_deny, reason_expired tk, [])
      else if status = TicketInvalidExpiration then (decision_deny, reason_invalid_expiry tk, [])
      else if resource \<noteq> full_rsi_resource then
        (if status = TicketValid then
           (if in_revoked inp (tk_ticket_id tk)
            then (decision_deny, reason_revoked tk, tk_ticket_id tk)
            else (decision_allow, ''approved claim publication'', tk_ticket_id tk))
         else (decision_deny, ''claim.publish requires an approved ticket'', []))
      else if status \<noteq> TicketValid then (decision_deny, reason_claim_denied, [])
      else if in_revoked inp (tk_ticket_id tk)
        then (decision_deny, reason_revoked tk, tk_ticket_id tk)
      else if \<not> full_rsi_evidence_reason (tk_reason tk)
        then (decision_deny, full_rsi_missing_evidence_reason tk, tk_ticket_id tk)
      else (decision_allow, reason_claim_approved, tk_ticket_id tk))"

subsection \<open>Decisions (evaluator.go)\<close>

definition evaluate_action ::
    "policy_input \<Rightarrow> instant \<Rightarrow> policy_action \<Rightarrow> string \<times> string \<times> string" where
  "evaluate_action inp now action =
     (if in_mode inp \<noteq> ''strict'' then
        (decision_deny, ''unsupported policy mode '' @ quoted (in_mode inp), [])
      else let resource = normalize_resource (pa_resource action) in
        if pa_type action = ''file.write'' then
          (if contains_normalized (in_writes inp) resource
           then (decision_allow, ''declared workspace write'', [])
           else (decision_deny, ''file write is not declared in workspace writes'', []))
        else if pa_type action = ''file.read'' then
          (if contains_normalized (in_reads inp) resource
           then (decision_allow, ''declared workspace read'', [])
           else (decision_deny, ''file read is not declared in workspace reads'', []))
        else if pa_type action = ''network.request'' \<or> pa_type action = ''process.spawn'' then
          (let (tk, status) = matching_approved_ticket (in_approvals inp) (in_task_id inp)
                                (pa_type action) resource (evaluation_time inp now) in
           if status = TicketValid then
             (if in_revoked inp (tk_ticket_id tk)
              then (decision_deny, reason_revoked tk, tk_ticket_id tk)
              else (decision_allow, ''approved by ticket'', tk_ticket_id tk))
           else if status = TicketExpired then (decision_deny, reason_expired tk, [])
           else if status = TicketInvalidExpiration then (decision_deny, reason_invalid_expiry tk, [])
           else (decision_deny, pa_type action @ '' requires an approved ticket'', []))
        else if pa_type action = ''claim.publish'' then
          evaluate_claim_publish inp now action resource
        else (decision_deny, ''unknown side effect type'', []))"

definition decision_id :: "string \<Rightarrow> nat \<Rightarrow> string" where
  "decision_id task_id n = ''policy-'' @ task_id @ ''-'' @ decimal n"

definition decide :: "policy_input \<Rightarrow> instant \<Rightarrow> nat \<Rightarrow> policy_action \<Rightarrow> decision" where
  "decide inp now index action =
     (let (verdict, reason, ticket_id) = evaluate_action inp now action
      in \<lparr>dc_schema_version = decision_schema_version,
          dc_decision_id = decision_id (in_task_id inp) (index + 1),
          dc_task_id = in_task_id inp,
          dc_effect_type = pa_type action,
          dc_resource = normalize_resource (pa_resource action),
          dc_decision = verdict, dc_reason = reason, dc_ticket_id = ticket_id\<rparr>)"

definition evaluate_task :: "policy_input \<Rightarrow> instant \<Rightarrow> decision list" where
  "evaluate_task inp now =
     map (\<lambda>(index, action). decide inp now index action) (enumerate 0 (in_actions inp))"

subsection \<open>What the decision point promises\<close>

text \<open>
  The specification. The first approved ticket for the task, effect and resource governs; it
  is live when it has no expiry or a well-formed one still ahead.
\<close>

definition governing_ticket :: "policy_input \<Rightarrow> policy_action \<Rightarrow> approval_ticket option" where
  "governing_ticket inp a =
     find (ticket_matches (in_task_id inp) (pa_type a) (normalize_resource (pa_resource a))) (in_approvals inp)"

definition live_ticket :: "instant \<Rightarrow> approval_ticket \<Rightarrow> bool" where
  "live_ticket now tk \<longleftrightarrow> tk_expires_at tk = [] \<or>
     (case parse_rfc3339 (tk_expires_at tk) of None \<Rightarrow> False | Some t \<Rightarrow> now < t)"

definition ticket_permits :: "policy_input \<Rightarrow> instant \<Rightarrow> policy_action \<Rightarrow> bool" where
  "ticket_permits inp now a \<longleftrightarrow>
     (\<exists>tk. governing_ticket inp a = Some tk \<and> live_ticket (evaluation_time inp now) tk \<and>
           \<not> in_revoked inp (tk_ticket_id tk) \<and>
           (pa_type a = ''claim.publish'' \<and> normalize_resource (pa_resource a) = full_rsi_resource \<longrightarrow>
              full_rsi_evidence_reason (tk_reason tk)))"

definition permitted :: "policy_input \<Rightarrow> instant \<Rightarrow> policy_action \<Rightarrow> bool" where
  "permitted inp now a \<longleftrightarrow> in_mode inp = ''strict'' \<and>
     (pa_type a = ''file.write'' \<and>
        (\<exists>w \<in> set (in_writes inp). normalize_resource w = normalize_resource (pa_resource a)) \<or>
      pa_type a = ''file.read'' \<and>
        (\<exists>r \<in> set (in_reads inp). normalize_resource r = normalize_resource (pa_resource a)) \<or>
      pa_type a \<in> {''network.request'', ''process.spawn'', ''claim.publish''} \<and> ticket_permits inp now a)"

lemma matching_ticket_find:
  "matching_approved_ticket tks t e r now =
     (case find (ticket_matches t e r) tks of
        None \<Rightarrow> (empty_ticket, TicketMissing)
      | Some tk \<Rightarrow> (tk, if live_ticket now tk then TicketValid
                       else if parse_rfc3339 (tk_expires_at tk) = None then TicketInvalidExpiration
                       else TicketExpired))"
  by (induction tks) (auto simp: live_ticket_def split: option.splits)

lemma claim_publish_outcome:
  "fst (evaluate_claim_publish inp now a r) =
     (case find (ticket_matches (in_task_id inp) (pa_type a) r) (in_approvals inp) of
        None \<Rightarrow> decision_deny
      | Some tk \<Rightarrow>
          if live_ticket (evaluation_time inp now) tk \<and> \<not> in_revoked inp (tk_ticket_id tk) \<and>
             (r = full_rsi_resource \<longrightarrow> full_rsi_evidence_reason (tk_reason tk))
          then decision_allow else decision_deny)"
  by (simp add: evaluate_claim_publish_def matching_ticket_find split: option.split)

lemma evaluate_action_outcome:
  "fst (evaluate_action inp now a) = (if permitted inp now a then decision_allow else decision_deny)"
proof -
  let ?r = "normalize_resource (pa_resource a)"
  consider (lax) "in_mode inp \<noteq> ''strict''" | (fwrite) "in_mode inp = ''strict''" "pa_type a = ''file.write''"
    | (fread) "in_mode inp = ''strict''" "pa_type a = ''file.read''"
    | (ticket) "in_mode inp = ''strict''" "pa_type a = ''network.request'' \<or> pa_type a = ''process.spawn''"
    | (claim) "in_mode inp = ''strict''" "pa_type a = ''claim.publish''"
    | (unknown) "in_mode inp = ''strict''"
        "pa_type a \<notin> {''file.write'', ''file.read'', ''network.request'', ''process.spawn'', ''claim.publish''}"
    by auto
  then show ?thesis
  proof cases
    case ticket
    then have "pa_type a \<noteq> ''file.write''" "pa_type a \<noteq> ''file.read''" "pa_type a \<noteq> ''claim.publish''"
      by auto
    with ticket show ?thesis
      by (auto simp: evaluate_action_def permitted_def ticket_permits_def governing_ticket_def
          matching_ticket_find Let_def split: option.split)
  next
    case claim
    then show ?thesis
      by (simp add: evaluate_action_def permitted_def ticket_permits_def governing_ticket_def
          claim_publish_outcome split: option.split)
  qed (simp_all add: evaluate_action_def permitted_def contains_normalized_def list_ex_iff)
qed

lemma evaluate_action_allow_iff:
  "fst (evaluate_action inp now a) = decision_allow \<longleftrightarrow> permitted inp now a"
  by (simp add: evaluate_action_outcome)

lemma evaluate_action_verdict: "fst (evaluate_action inp now a) \<in> {decision_allow, decision_deny}"
  by (simp add: evaluate_action_outcome)

lemma evaluate_task_nth:
  "i < length (in_actions inp) \<Longrightarrow> evaluate_task inp now ! i = decide inp now i (in_actions inp ! i)"
  by (simp add: evaluate_task_def nth_enumerate_eq)

lemma length_evaluate_task [simp]: "length (evaluate_task inp now) = length (in_actions inp)"
  by (simp add: evaluate_task_def)

lemma decide_fields [simp]:
  "dc_decision_id (decide inp now i a) = decision_id (in_task_id inp) (i + 1)"
  "dc_task_id (decide inp now i a) = in_task_id inp"
  "dc_effect_type (decide inp now i a) = pa_type a"
  "dc_resource (decide inp now i a) = normalize_resource (pa_resource a)"
  "dc_decision (decide inp now i a) = fst (evaluate_action inp now a)"
  "dc_reason (decide inp now i a) = fst (snd (evaluate_action inp now a))"
  "dc_ticket_id (decide inp now i a) = snd (snd (evaluate_action inp now a))"
  by (simp_all add: decide_def Let_def split: prod.splits)

lemma evaluate_task_in_set:
  "d \<in> set (evaluate_task inp now) \<longleftrightarrow>
     (\<exists>i < length (in_actions inp). d = decide inp now i (in_actions inp ! i))"
  by (metis evaluate_task_nth in_set_conv_nth length_evaluate_task)

lemma evaluate_task_dc_task_id: "d \<in> set (evaluate_task inp now) \<Longrightarrow> dc_task_id d = in_task_id inp"
  by (auto simp: evaluate_task_in_set)

lemma decision_id_inject [simp]: "decision_id s m = decision_id t n \<longleftrightarrow> s = t \<and> m = n"
proof
  assume "decision_id s m = decision_id t n"
  then have "s @ CHR ''-'' # decimal m = t @ CHR ''-'' # decimal n"
    by (simp add: decision_id_def)
  moreover have "CHR ''-'' \<notin> set (decimal m)" "CHR ''-'' \<notin> set (decimal n)"
    by (simp_all add: decimal_free is_digit_def)
  ultimately have "s = t \<and> decimal m = decimal n" by (rule append_sep_inject)
  then show "s = t \<and> m = n" by simp
qed simp

lemma distinct_decision_ids: "distinct (map dc_decision_id (evaluate_task inp now))"
  by (simp add: distinct_conv_nth evaluate_task_nth)

text \<open>
  The contract the executor relies on: one decision per action, in order, carrying the
  task, with a verdict that is either allow or deny and an identifier of its own.
\<close>

locale decision_point =
  fixes verdicts :: "string \<Rightarrow> 'a list \<Rightarrow> decision list"
    and allowed :: "string \<Rightarrow> 'a \<Rightarrow> bool"
  assumes one_each: "length (verdicts t as) = length as"
    and for_task: "d \<in> set (verdicts t as) \<Longrightarrow> dc_task_id d = t"
    and two_valued: "d \<in> set (verdicts t as) \<Longrightarrow> dc_decision d = decision_allow \<or> dc_decision d = decision_deny"
    and sound: "i < length as \<Longrightarrow> dc_decision (verdicts t as ! i) = decision_allow \<longleftrightarrow> allowed t (as ! i)"
    and own_ids: "distinct (map dc_decision_id (verdicts t as))"
    and ids_by_task: "d \<in> set (verdicts t as) \<Longrightarrow> d' \<in> set (verdicts u bs) \<Longrightarrow>
          dc_decision_id d = dc_decision_id d' \<Longrightarrow> t = u"
begin

lemma none_denied_all_allowed:
  "(\<forall>d \<in> set (verdicts t as). dc_decision d \<noteq> decision_deny) \<longleftrightarrow> (\<forall>a \<in> set as. allowed t a)"
proof
  assume nd: "\<forall>d \<in> set (verdicts t as). dc_decision d \<noteq> decision_deny"
  show "\<forall>a \<in> set as. allowed t a"
  proof
    fix a assume "a \<in> set as"
    then obtain i where i: "i < length as" "as ! i = a" by (auto simp: in_set_conv_nth)
    then have "verdicts t as ! i \<in> set (verdicts t as)" by (simp add: one_each)
    with nd two_valued have "dc_decision (verdicts t as ! i) = decision_allow" by blast
    with sound i show "allowed t a" by auto
  qed
next
  assume al: "\<forall>a \<in> set as. allowed t a"
  show "\<forall>d \<in> set (verdicts t as). dc_decision d \<noteq> decision_deny"
  proof
    fix d assume "d \<in> set (verdicts t as)"
    then obtain i where i: "i < length as" "verdicts t as ! i = d"
      by (auto simp: in_set_conv_nth one_each)
    then have "allowed t (as ! i)" using al by simp
    with sound i have "dc_decision d = decision_allow" by auto
    then show "dc_decision d \<noteq> decision_deny" by simp
  qed
qed

end

definition verdicts_for :: "policy_input \<Rightarrow> instant \<Rightarrow> string \<Rightarrow> policy_action list \<Rightarrow> decision list" where
  "verdicts_for inp now t as = evaluate_task (inp\<lparr>in_task_id := t, in_actions := as\<rparr>) now"

lemma verdicts_for_self: "evaluate_task inp now = verdicts_for inp now (in_task_id inp) (in_actions inp)"
  by (simp add: verdicts_for_def)

lemma permitted_actions_irrelevant [simp]:
  "permitted (inp\<lparr>in_actions := as\<rparr>) now a = permitted inp now a"
  by (simp add: permitted_def ticket_permits_def governing_ticket_def evaluation_time_def)

interpretation evaluator: decision_point "verdicts_for inp now"
    "\<lambda>t a. permitted (inp\<lparr>in_task_id := t\<rparr>) now a" for inp now
proof (unfold_locales, goal_cases)
  case (1 t as)
  show ?case by (simp add: verdicts_for_def)
next
  case (2 d t as)
  then show ?case by (auto simp: verdicts_for_def evaluate_task_in_set)
next
  case (3 d t as)
  then show ?case by (auto simp: verdicts_for_def evaluate_task_in_set evaluate_action_outcome split: if_splits)
next
  case (4 i as t)
  then show ?case by (simp add: verdicts_for_def evaluate_task_nth evaluate_action_allow_iff)
next
  case (5 t as)
  show ?case by (simp add: verdicts_for_def distinct_decision_ids)
next
  case (6 d t as d' u bs)
  then show ?case by (auto simp: verdicts_for_def evaluate_task_in_set)
qed

subsection \<open>Filtering the decision index (index.go)\<close>

record decision_filters =
  fl_task_id :: string
  fl_effect_type :: string
  fl_resource :: string
  fl_decision :: string
  fl_approval_state :: string

definition matches_decision_filters :: "decision \<Rightarrow> decision_filters \<Rightarrow> bool" where
  "matches_decision_filters d f =
     (if fl_task_id f \<noteq> [] \<and> dc_task_id d \<noteq> fl_task_id f then False
      else if fl_effect_type f \<noteq> [] \<and> dc_effect_type d \<noteq> fl_effect_type f then False
      else if fl_resource f \<noteq> [] \<and> normalize_resource (dc_resource d) \<noteq> normalize_resource (fl_resource f) then False
      else if fl_decision f \<noteq> [] \<and> dc_decision d \<noteq> fl_decision f then False
      else if fl_approval_state f = [] then True
      else if fl_approval_state f = ''with-ticket'' then dc_ticket_id d \<noteq> []
      else if fl_approval_state f = ''without-ticket'' then dc_ticket_id d = []
      else False)"

definition filter_decisions :: "decision list \<Rightarrow> decision_filters \<Rightarrow> decision list" where
  "filter_decisions ds f = filter (\<lambda>d. matches_decision_filters d f) ds"

subsection \<open>Explanations (explain.go)\<close>

record explanation =
  ex_decision_id :: string
  ex_task_id :: string
  ex_effect_type :: string
  ex_resource :: string
  ex_decision :: string
  ex_reason :: string
  ex_ticket_id :: string
  ex_summary :: string
  ex_detail :: string
  ex_operator_action :: string

definition decision_verb :: "string \<Rightarrow> string" where
  "decision_verb d = (if d = decision_allow then ''allowed'' else if d = decision_deny then ''denied'' else d)"

definition operator_action_for_deny :: "decision \<Rightarrow> string" where
  "operator_action_for_deny d =
     (if prefix ''unsupported policy mode'' (dc_reason d) then ''use strict policy mode''
      else if dc_effect_type d = ''file.write'' then
        ''add the resource to workspace.writes or remove the task side effect''
      else if dc_effect_type d = ''file.read'' then
        ''add the resource to workspace.reads or remove the task side effect''
      else if dc_effect_type d = ''network.request'' \<or> dc_effect_type d = ''process.spawn'' then
        ''attach an approved ticket matching task, effect, and resource''
      else if dc_effect_type d = ''claim.publish'' then
        (if dc_resource d = full_rsi_resource
         then ''attach an approved full-RSI evidence ticket or downgrade to claim_level=bounded_governed_rsi''
         else ''attach an approved ticket matching task, effect, and resource'')
      else ''use a supported side effect type or remove the task side effect'')"

definition explain_decision :: "decision \<Rightarrow> explanation" where
  "explain_decision d =
     \<lparr>ex_decision_id = dc_decision_id d, ex_task_id = dc_task_id d,
      ex_effect_type = dc_effect_type d, ex_resource = dc_resource d,
      ex_decision = dc_decision d, ex_reason = dc_reason d, ex_ticket_id = dc_ticket_id d,
      ex_summary = decision_verb (dc_decision d) @ '' '' @ dc_effect_type d @ '' on '' @ dc_resource d,
      ex_detail = ''Task '' @ dc_task_id d @ '' requested '' @ dc_effect_type d @ '' on '' @ dc_resource d @
        ''. Policy decision: '' @ dc_decision d @ ''. Reason: '' @ dc_reason d @ ''.'' @
        (if dc_ticket_id d \<noteq> [] then '' Approval ticket: '' @ dc_ticket_id d @ ''.'' else []),
      ex_operator_action = (if dc_decision d = decision_deny then operator_action_for_deny d else [])\<rparr>"

definition explain_decisions :: "decision list \<Rightarrow> explanation list" where
  "explain_decisions ds = map explain_decision ds"

end
