(* ===== verification/Contract.thy ===== *)
theory Contract
  imports Policy
begin

text \<open>
  Contracts and their validation (internal/contract: types.go, validate.go, summary.go).
  \<open>validate_contract\<close> follows \<open>Validate\<close> check by check, with the loops' maps as explicit
  state. The JSON-schema validator is third-party code: its verdict on a task is the argument
  \<open>schema_task\<close> (an error text or none). Go iterates over a map in no fixed order; where the
  order shows (which missing obligation is named), it is the argument \<open>iter\<close>.
\<close>

subsection \<open>Types (types.go)\<close>

abbreviation contract_schema_version :: string where
  "contract_schema_version \<equiv> ''covenant.contract.v1''"

record workspace_scope =
  ws_root :: string
  ws_reads :: "string list"
  ws_writes :: "string list"

record obligation =
  ob_id :: string
  ob_text :: string
  ob_required :: bool

record action_ref =
  ac_type :: string
  ac_resource :: string

record task =
  t_id :: string
  t_kind :: string
  t_adapter :: string
  t_depends_on :: "string list"
  t_obligations :: "string list"
  t_timeout_secs :: int
  t_side_effects :: "action_ref list"

record contract =
  c_schema_version :: string
  c_objective :: string
  c_workspace :: workspace_scope
  c_obligations :: "obligation list"
  c_tasks :: "task list"
  c_policy_mode :: string
  c_approvals :: "approval_ticket list"
  c_required_obligations :: "string list"

definition allowed_task_kinds :: "string list" where
  "allowed_task_kinds = [''scripted'', ''shell'', ''agent'', ''verify'', ''review'', ''evaluate'']"

definition allowed_side_effect_types :: "string list" where
  "allowed_side_effect_types =
     [''file.write'', ''file.read'', ''process.spawn'', ''network.request'', ''claim.publish'']"

text \<open>\<open>Error()\<close> of an error value: a typed diagnostic puts its code and line in front.\<close>

fun error_text :: "go_error \<Rightarrow> string" where
  "error_text (Errorf msg) = msg"
| "error_text (Authoring code line msg) =
     (if 0 < line then code @ '' line '' @ decimal line @ '': '' @ msg else code @ '': '' @ msg)"

subsection \<open>Identifiers and paths\<close>

definition is_reserved_windows_name :: "string \<Rightarrow> bool" where
  "is_reserved_windows_name s \<longleftrightarrow>
     s \<in> {''con'', ''prn'', ''aux'', ''nul''} \<or>
     length s = 4 \<and> (prefix ''com'' s \<or> prefix ''lpt'' s) \<and> 49 \<le> byte (s ! 3) \<and> byte (s ! 3) \<le> 57"

definition public_char :: "char \<Rightarrow> bool" where
  "public_char r \<longleftrightarrow> is_lower r \<or> is_digit r \<or> r = CHR ''_'' \<or> r = CHR ''-''"

definition validate_public_id :: "string \<Rightarrow> string \<Rightarrow> go_error option" where
  "validate_public_id raw label =
     (let ident = trim_space raw in
      first_error [
        fail_if (ident = []) (Errorf (label @ '' is required'')),
        fail_if (ident \<noteq> raw) (Errorf (label @ '' '' @ quoted raw @ '' contains surrounding whitespace'')),
        fail_if (ident \<noteq> to_lower ident) (Errorf (label @ '' '' @ quoted raw @ '' must be lowercase'')),
        fail_if (is_reserved_windows_name ident) (Errorf (label @ '' '' @ quoted raw @ '' is reserved on Windows'')),
        fail_if (dropWhile public_char ident \<noteq> [])
          (Errorf (label @ '' '' @ quoted raw @ '' contains invalid character '' @
             quoted_rune (dropWhile public_char ident)))])"

definition validate_relative_path :: "string \<Rightarrow> string \<Rightarrow> go_error option" where
  "validate_relative_path raw label =
     first_error [
       fail_if (trim_space raw = []) (Errorf (label @ '' is required'')),
       fail_if (escapes (path_clean (to_slash raw)))
         (Errorf (label @ '' '' @ quoted raw @ '' escapes workspace''))]"

definition validate_paths :: "string list \<Rightarrow> string \<Rightarrow> go_error option" where
  "validate_paths ps label = first_error (map (\<lambda>p. validate_relative_path p (label @ '' path'')) ps)"

definition side_effect_key :: "string \<Rightarrow> string \<Rightarrow> string \<Rightarrow> string" where
  "side_effect_key task_id effect_type resource =
     task_id @ [CHR 0x00] @ effect_type @ [CHR 0x00] @ path_clean (to_slash resource)"

subsection \<open>Cycle detection\<close>

text \<open>
  \<open>hasCycle\<close>: a depth-first search with the maps \<open>visiting\<close> and \<open>visited\<close>. The tasks are
  looked up by identifier, the last one stored under an identifier winning; an unknown
  identifier reads a zero task, which depends on nothing. The recursion is bounded by fuel;
  \<open>has_cycle\<close> gives it one more than the number of tasks, which is always enough.
\<close>

record marks =
  visiting :: "string \<Rightarrow> bool"
  visited :: "string \<Rightarrow> bool"

definition no_marks :: marks where
  "no_marks = \<lparr>visiting = (\<lambda>_. False), visited = (\<lambda>_. False)\<rparr>"

definition task_by_id :: "task list \<Rightarrow> string \<Rightarrow> task option" where
  "task_by_id tasks i = map_of (rev (map (\<lambda>t. (t_id t, t)) tasks)) i"

definition deps_of :: "task list \<Rightarrow> string \<Rightarrow> string list" where
  "deps_of tasks i = (case task_by_id tasks i of None \<Rightarrow> [] | Some t \<Rightarrow> t_depends_on t)"

function (sequential)
    visit :: "task list \<Rightarrow> nat \<Rightarrow> string \<Rightarrow> marks \<Rightarrow> (bool \<times> marks) option" and
    visit_all :: "task list \<Rightarrow> nat \<Rightarrow> string list \<Rightarrow> marks \<Rightarrow> (bool \<times> marks) option" where
  "visit tasks 0 i m = None"
| "visit tasks (Suc n) i m =
     (if visiting m i then Some (True, m)
      else if visited m i then Some (False, m)
      else (case visit_all tasks n (deps_of tasks i) (m\<lparr>visiting := (visiting m)(i := True)\<rparr>) of
          None \<Rightarrow> None
        | Some (found, m') \<Rightarrow>
            if found then Some (True, m')
            else Some (False, m'\<lparr>visiting := (visiting m')(i := False),
                                 visited := (visited m')(i := True)\<rparr>)))"
| "visit_all tasks n [] m = Some (False, m)"
| "visit_all tasks n (d # ds) m =
     (case visit tasks n d m of
        None \<Rightarrow> None
      | Some (found, m') \<Rightarrow> if found then Some (True, m') else visit_all tasks n ds m')"
  by pat_completeness auto
termination
  by (relation "measures [\<lambda>x. case x of Inl (_, n, _, _) \<Rightarrow> n | Inr (_, n, _, _) \<Rightarrow> n,
        \<lambda>x. case x of Inl _ \<Rightarrow> 0 | Inr (_, _, ds, _) \<Rightarrow> Suc (length ds)]") auto

definition search_cycle :: "task list \<Rightarrow> (bool \<times> marks) option" where
  "search_cycle tasks = visit_all tasks (Suc (length tasks)) (map t_id tasks) no_marks"

definition has_cycle :: "task list \<Rightarrow> bool" where
  "has_cycle tasks = (case search_cycle tasks of None \<Rightarrow> False | Some (found, _) \<Rightarrow> found)"

subsection \<open>The loops of Validate\<close>

record obligation_scan =
  os_ids :: "string \<Rightarrow> bool"
  os_required :: "string list"
  os_count :: nat

definition no_obligations :: obligation_scan where
  "no_obligations = \<lparr>os_ids = (\<lambda>_. False), os_required = [], os_count = 0\<rparr>"

definition note_obligation :: "obligation_scan \<Rightarrow> obligation \<Rightarrow> obligation_scan" where
  "note_obligation s ob =
     \<lparr>os_ids = (os_ids s)(ob_id ob := True),
      os_required = (if ob_required ob then os_required s @ [ob_id ob] else os_required s),
      os_count = (if ob_required ob then os_count s + 1 else os_count s)\<rparr>"

definition check_obligation :: "obligation_scan \<Rightarrow> obligation \<Rightarrow> go_error option" where
  "check_obligation s ob =
     first_error [
       validate_public_id (ob_id ob) ''obligation id'',
       fail_if (os_ids s (ob_id ob)) (Errorf (''duplicate obligation id '' @ quoted (ob_id ob)))]"

fun scan_obligations :: "obligation list \<Rightarrow> obligation_scan \<Rightarrow> obligation_scan go_result" where
  "scan_obligations [] s = Inr s"
| "scan_obligations (ob # obs) s =
     unless_error (check_obligation s ob)
       (scan_obligations obs (note_obligation s ob))"

text \<open>The map of tasks by identifier: the tasks stored so far, each under its own identifier.\<close>

type_synonym task_map = "task list"

definition has_task :: "task_map \<Rightarrow> string \<Rightarrow> bool" where
  "has_task m i \<longleftrightarrow> list_ex (\<lambda>t. t_id t = i) m"

definition check_action :: "task \<Rightarrow> action_ref \<Rightarrow> go_error option" where
  "check_action t a =
     first_error [
       fail_if (ac_type a \<notin> set allowed_side_effect_types)
         (Errorf (''unsupported side effect type '' @ quoted (ac_type a) @ '' for task '' @ quoted (t_id t))),
       validate_relative_path (ac_resource a) ''side effect resource'']"

definition check_task ::
    "(task \<Rightarrow> string option) \<Rightarrow> (string \<Rightarrow> bool) \<Rightarrow> task_map \<Rightarrow> task \<Rightarrow> go_error option" where
  "check_task schema_task obligation_ids seen t =
     first_error ([
       validate_public_id (t_id t) ''task id'',
       fail_if (has_task seen (t_id t)) (Errorf (''duplicate task id '' @ quoted (t_id t))),
       fail_if (t_kind t \<notin> set allowed_task_kinds)
         (Errorf (''unsupported task kind '' @ quoted (t_kind t) @ '' for task '' @ quoted (t_id t))),
       fail_if (trim_space (t_adapter t) = [])
         (Errorf (''adapter is required for task '' @ quoted (t_id t))),
       fail_if (t_timeout_secs t \<le> 0)
         (Errorf (''timeout_seconds must be positive for task '' @ quoted (t_id t)))] @
       map (\<lambda>o_id. fail_if (\<not> obligation_ids o_id)
         (Errorf (''task '' @ quoted (t_id t) @ '' references unknown obligation '' @ quoted o_id)))
         (t_obligations t) @
       map (check_action t) (t_side_effects t) @
       [case schema_task t of None \<Rightarrow> None
        | Some msg \<Rightarrow> Some (Errorf (''task '' @ quoted (t_id t) @ '' schema invalid: '' @ msg))])"

fun scan_tasks ::
    "(task \<Rightarrow> string option) \<Rightarrow> (string \<Rightarrow> bool) \<Rightarrow> task list \<Rightarrow> task_map \<Rightarrow> task_map go_result" where
  "scan_tasks schema_task obligation_ids [] m = Inr m"
| "scan_tasks schema_task obligation_ids (t # ts) m =
     unless_error (check_task schema_task obligation_ids m t)
       (scan_tasks schema_task obligation_ids ts (m @ [t]))"

definition declared_effects :: "task_map \<Rightarrow> string list" where
  "declared_effects m =
     concat (map (\<lambda>t. map (\<lambda>a. side_effect_key (t_id t) (ac_type a) (ac_resource a)) (t_side_effects t)) m)"

definition approval_checks :: "task_map \<Rightarrow> (string \<Rightarrow> bool) \<Rightarrow> approval_ticket \<Rightarrow> go_error option list" where
  "approval_checks m seen ap =
     [ fail_if (tk_schema_version ap \<noteq> ticket_schema_version)
         (Errorf (''unsupported approval ticket schema_version '' @ quoted (tk_schema_version ap))),
       validate_public_id (tk_ticket_id ap) ''approval ticket id'',
       fail_if (seen (tk_ticket_id ap)) (Errorf (''duplicate approval ticket id '' @ quoted (tk_ticket_id ap))),
       fail_if (\<not> has_task m (tk_task_id ap))
         (Errorf (''approval ticket '' @ quoted (tk_ticket_id ap) @ '' references unknown task '' @ quoted (tk_task_id ap))),
       fail_if (tk_effect_type ap \<notin> set allowed_side_effect_types)
         (Errorf (''approval ticket '' @ quoted (tk_ticket_id ap) @ '' references unsupported side effect type '' @ quoted (tk_effect_type ap))),
       validate_relative_path (tk_resource ap) ''approval ticket resource'',
       fail_if (trim_space (tk_reason ap) = [])
         (Errorf (''approval ticket '' @ quoted (tk_ticket_id ap) @ '' reason is required'')),
       fail_if (trim_space (tk_expires_at ap) \<noteq> [] \<and> \<not> valid_rfc3339 (tk_expires_at ap))
         (Errorf (''approval ticket '' @ quoted (tk_ticket_id ap) @ '' expires_at must be RFC3339: '' @ undefined (tk_expires_at ap))),
       fail_if (side_effect_key (tk_task_id ap) (tk_effect_type ap) (tk_resource ap) \<notin> set (declared_effects m))
         (Errorf (''approval ticket '' @ quoted (tk_ticket_id ap) @ '' does not match a declared side effect''))]"

definition check_approval :: "task_map \<Rightarrow> (string \<Rightarrow> bool) \<Rightarrow> approval_ticket \<Rightarrow> go_error option" where
  "check_approval m seen ap = first_error (approval_checks m seen ap)"

definition validate_approvals :: "approval_ticket list \<Rightarrow> task_map \<Rightarrow> go_error option" where
  "validate_approvals aps m = first_seen_error (\<lambda>_. False) tk_ticket_id (check_approval m) aps"

definition validate_dependencies :: "task list \<Rightarrow> task_map \<Rightarrow> go_error option" where
  "validate_dependencies tasks m =
     first_error (concat (map (\<lambda>t. map (\<lambda>dep. fail_if (\<not> has_task m dep)
       (Errorf (''task '' @ quoted (t_id t) @ '' depends on unknown task '' @ quoted dep))) (t_depends_on t)) tasks))"

definition validate_evaluator :: "(string list \<Rightarrow> string list) \<Rightarrow> string list \<Rightarrow> obligation_scan \<Rightarrow> go_error option" where
  "validate_evaluator iter evaluator s =
     first_error (
       map (\<lambda>o_id. fail_if (\<not> os_ids s o_id)
         (Errorf (''evaluator references unknown obligation '' @ quoted o_id))) evaluator @
       map (\<lambda>o_id. fail_if (o_id \<notin> set evaluator)
         (Errorf (''required obligation '' @ quoted o_id @ '' is missing from evaluator required_obligations'')))
         (iter (os_required s)))"

subsection \<open>Validate\<close>

definition validate_header :: "contract \<Rightarrow> go_error option" where
  "validate_header c =
     first_error [
       fail_if (c_schema_version c \<noteq> contract_schema_version)
         (Errorf (''unsupported schema_version '' @ quoted (c_schema_version c))),
       fail_if (trim_space (c_objective c) = []) (Errorf ''objective is required''),
       validate_relative_path (ws_root (c_workspace c)) ''workspace root'',
       validate_paths (ws_reads (c_workspace c)) ''read'',
       validate_paths (ws_writes (c_workspace c)) ''write'']"

definition validate_contract ::
    "(task \<Rightarrow> string option) \<Rightarrow> (string list \<Rightarrow> string list) \<Rightarrow> contract \<Rightarrow> go_error option" where
  "validate_contract schema_task iter c =
     error_of (
       unless_error (validate_header c) (
       bind_result (scan_obligations (c_obligations c) no_obligations) (\<lambda>s.
       unless_error (fail_if (os_count s = 0) (Errorf ''at least one required obligation is required'')) (
       bind_result (scan_tasks schema_task (os_ids s) (c_tasks c) []) (\<lambda>m.
       unless_error (first_error [
           fail_if (m = []) (Errorf ''at least one task is required''),
           validate_approvals (c_approvals c) m,
           validate_dependencies (c_tasks c) m,
           fail_if (has_cycle (c_tasks c)) (Errorf ''task graph contains a cycle''),
           validate_evaluator iter (c_required_obligations c) s])
         (Inr ()))))))"

subsection \<open>What a public identifier is\<close>

definition public_id :: "string \<Rightarrow> bool" where
  "public_id s \<longleftrightarrow> s \<noteq> [] \<and> list_all public_char s \<and> \<not> is_reserved_windows_name s"

lemma public_char_ascii: "public_char c \<Longrightarrow> is_ascii_char c \<and> \<not> ascii_space c \<and> \<not> is_upper c"
  by (auto simp: public_char_def is_ascii_char_def ascii_space_def is_upper_def is_lower_def is_digit_def)

lemma public_chars_trim_lower:
  assumes "list_all public_char s"
  shows "trim_space s = s" and "to_lower s = s"
proof -
  from assms have a: "is_ascii s" "list_all (\<lambda>c. \<not> ascii_space c) s" "list_all (\<lambda>c. \<not> is_upper c) s"
    by (auto simp: list_all_iff is_ascii_def public_char_ascii)
  then show "trim_space s = s" by (rule_tac trim_space_no_space)
  from a show "to_lower s = s"
    by (simp add: to_lower_ascii map_idI list_all_iff lower_char_id_iff)
qed

lemma dropWhile_Nil_list_all: "dropWhile P s = [] \<longleftrightarrow> list_all P s"
  by (simp add: list_all_iff dropWhile_eq_Nil_conv)

lemma validate_public_id_None [simp]: "validate_public_id raw label = None \<longleftrightarrow> public_id raw"
proof
  assume "validate_public_id raw label = None"
  then show "public_id raw"
    by (auto simp: validate_public_id_def public_id_def Let_def list_all_iff)
next
  assume p: "public_id raw"
  then have chars: "list_all public_char raw" by (simp add: public_id_def)
  from p show "validate_public_id raw label = None"
    by (simp add: validate_public_id_def public_id_def public_chars_trim_lower [OF chars] list_all_iff)
qed

text \<open>A path the validator accepts is not blank and stays inside the workspace.\<close>

definition inside_path :: "string \<Rightarrow> bool" where
  "inside_path raw \<longleftrightarrow> trim_space raw \<noteq> [] \<and> \<not> escapes (path_clean (to_slash raw))"

lemma validate_relative_path_None [simp]: "validate_relative_path raw label = None \<longleftrightarrow> inside_path raw"
  by (simp add: validate_relative_path_def inside_path_def)

lemma validate_paths_None [simp]: "validate_paths ps label = None \<longleftrightarrow> (\<forall>p \<in> set ps. inside_path p)"
  by (simp add: validate_paths_def)

subsection \<open>The search finds exactly the cycles\<close>

definition dep_edges :: "task list \<Rightarrow> (string \<times> string) set" where
  "dep_edges tasks = {(a, b). b \<in> set (deps_of tasks a)}"

definition closed_acyclic :: "task list \<Rightarrow> (string \<Rightarrow> bool) \<Rightarrow> bool" where
  "closed_acyclic tasks done \<longleftrightarrow>
     (\<forall>a b. done a \<longrightarrow> (a, b) \<in> dep_edges tasks \<longrightarrow> done b) \<and>
     (\<forall>a. done a \<longrightarrow> (a, a) \<notin> (dep_edges tasks)\<^sup>+)"

lemma closed_trancl:
  "(a, b) \<in> r\<^sup>+ \<Longrightarrow> (\<And>x y. P x \<Longrightarrow> (x, y) \<in> r \<Longrightarrow> P y) \<Longrightarrow> P a \<Longrightarrow> P b"
  by (induction rule: trancl_induct) blast+

text \<open>Marking a node whose dependencies are all done keeps the done set closed and acyclic.\<close>

lemma closed_acyclic_insert:
  assumes "closed_acyclic tasks D" and "\<forall>b \<in> set (deps_of tasks i). D b" and "\<not> D i"
  shows "closed_acyclic tasks (D(i := True))"
proof -
  let ?E = "dep_edges tasks"
  have cl: "D a \<Longrightarrow> (a, b) \<in> ?E \<Longrightarrow> D b" for a b
    using assms(1) by (auto simp: closed_acyclic_def)
  have step: "(D(i := True)) a \<Longrightarrow> (a, b) \<in> ?E \<Longrightarrow> D b" for a b
    using assms(2) cl by (auto simp: dep_edges_def split: if_splits)
  have "(a, a) \<notin> ?E\<^sup>+" if "(D(i := True)) a" for a
  proof
    assume cyc: "(a, a) \<in> ?E\<^sup>+"
    then obtain b where b: "(a, b) \<in> ?E" "(b, a) \<in> ?E\<^sup>*" by (meson tranclD)
    from step [OF that b(1)] have "D b" .
    have "D a"
    proof (cases "b = a")
      case False
      with b(2) have "(b, a) \<in> ?E\<^sup>+" by (metis rtranclD)
      then show ?thesis using closed_trancl [where P = D] cl \<open>D b\<close> by metis
    qed (use \<open>D b\<close> in simp)
    with cyc assms(1) show False by (simp add: closed_acyclic_def)
  qed
  with step show ?thesis unfolding closed_acyclic_def by (metis fun_upd_apply)
qed

text \<open>A search that reports no cycle restores \<open>visiting\<close>.\<close>

lemma visit_restores:
  "visit tasks n i m = Some (False, m') \<Longrightarrow> visiting m' = visiting m"
  "visit_all tasks n ds m = Some (False, m') \<Longrightarrow> visiting m' = visiting m"
proof (induction tasks n i m and tasks n ds m arbitrary: m' and m' rule: visit_visit_all.induct)
  case (2 tasks n i m)
  show ?case
  proof (cases "visiting m i \<or> visited m i")
    case False
    with "2.prems" obtain m2 where m2:
      "visit_all tasks n (deps_of tasks i) (m\<lparr>visiting := (visiting m)(i := True)\<rparr>) = Some (False, m2)"
      and m': "m' = m2\<lparr>visiting := (visiting m2)(i := False), visited := (visited m2)(i := True)\<rparr>"
      by (auto split: option.splits if_splits)
    have "visiting m2 = visiting (m\<lparr>visiting := (visiting m)(i := True)\<rparr>)"
      by (rule "2.IH") (use False m2 in auto)
    then have v2: "visiting m2 = (visiting m)(i := True)" by simp
    from m' have "visiting m' = (visiting m2)(i := False)" by simp
    also have "\<dots> = visiting m" unfolding v2 using False by (simp add: fun_eq_iff)
    finally show ?thesis .
  qed (use "2.prems" in \<open>auto split: if_splits\<close>)
next
  case (4 tasks n d ds m)
  from "4.prems" obtain m2 where m2: "visit tasks n d m = Some (False, m2)"
    "visit_all tasks n ds m2 = Some (False, m')"
    by (auto split: option.splits if_splits)
  from "4.IH"(1) [OF m2(1)] "4.IH"(2) [OF m2(1) refl _ m2(2)] show ?case by simp
qed auto

text \<open>
  A search that reports a cycle has found one: every node being visited reaches the node the
  search is at.
\<close>

lemma visit_sound:
  "visit tasks n i m = Some (True, m') \<Longrightarrow>
     (\<forall>v. visiting m v \<longrightarrow> (v, i) \<in> (dep_edges tasks)\<^sup>+) \<Longrightarrow> \<exists>x. (x, x) \<in> (dep_edges tasks)\<^sup>+"
  "visit_all tasks n ds m = Some (True, m') \<Longrightarrow>
     (\<forall>v d. visiting m v \<longrightarrow> d \<in> set ds \<longrightarrow> (v, d) \<in> (dep_edges tasks)\<^sup>+) \<Longrightarrow>
     \<exists>x. (x, x) \<in> (dep_edges tasks)\<^sup>+"
proof (induction tasks n i m and tasks n ds m arbitrary: m' and m' rule: visit_visit_all.induct)
  case (2 tasks n i m)
  let ?m = "m\<lparr>visiting := (visiting m)(i := True)\<rparr>"
  show ?case
  proof (cases "visiting m i")
    case False
    with "2.prems"(1) have "visit_all tasks n (deps_of tasks i) ?m = Some (True, m')" "\<not> visited m i"
      by (auto split: if_splits option.splits)
    moreover have "(v, d) \<in> (dep_edges tasks)\<^sup>+" if "visiting ?m v" "d \<in> set (deps_of tasks i)" for v d
    proof -
      from that(2) have "(i, d) \<in> dep_edges tasks" by (simp add: dep_edges_def)
      with that(1) "2.prems"(2) show ?thesis by (auto split: if_splits intro: trancl_into_trancl)
    qed
    ultimately show ?thesis using "2.IH" False by blast
  qed (use "2.prems"(2) in blast)
next
  case (4 tasks n d ds m)
  from "4.prems"(1) obtain r m2 where m2: "visit tasks n d m = Some (r, m2)"
    by (auto split: option.splits)
  show ?case
  proof (cases r)
    case True
    with m2 "4.IH"(1) "4.prems"(2) show ?thesis by (simp add: m2)
  next
    case False
    with m2 have v: "visiting m2 = visiting m" using visit_restores(1) by simp
    from False m2 "4.prems"(1) have "visit_all tasks n ds m2 = Some (True, m')" by simp
    from "4.IH"(2) [OF m2 refl False this] v "4.prems"(2) show ?thesis by simp
  qed
qed auto

text \<open>
  A search that reports none leaves every node it was given done, and the done nodes closed
  under dependencies and free of cycles.
\<close>

definition clear_marks :: "task list \<Rightarrow> marks \<Rightarrow> bool" where
  "clear_marks tasks m \<longleftrightarrow> closed_acyclic tasks (visited m) \<and> (\<forall>i. \<not> (visiting m i \<and> visited m i))"

lemma visit_complete:
  "visit tasks n i m = Some (False, m') \<Longrightarrow> clear_marks tasks m \<Longrightarrow>
     clear_marks tasks m' \<and> visited m' i \<and> (\<forall>j. visited m j \<longrightarrow> visited m' j)"
  "visit_all tasks n ds m = Some (False, m') \<Longrightarrow> clear_marks tasks m \<Longrightarrow>
     clear_marks tasks m' \<and> (\<forall>d \<in> set ds. visited m' d) \<and> (\<forall>j. visited m j \<longrightarrow> visited m' j)"
proof (induction tasks n i m and tasks n ds m arbitrary: m' and m' rule: visit_visit_all.induct)
  case (2 tasks n i m)
  let ?m = "m\<lparr>visiting := (visiting m)(i := True)\<rparr>"
  show ?case
  proof (cases "visited m i")
    case True
    with 2 show ?thesis by (auto split: if_splits)
  next
    case False
    with "2.prems"(1) have nv: "\<not> visiting m i" by (auto split: if_splits)
    with False "2.prems"(1) obtain m2 where m2: "visit_all tasks n (deps_of tasks i) ?m = Some (False, m2)"
      and m': "m' = m2\<lparr>visiting := (visiting m2)(i := False), visited := (visited m2)(i := True)\<rparr>"
      by (auto split: option.splits if_splits)
    have "clear_marks tasks ?m" using "2.prems"(2) False by (auto simp: clear_marks_def)
    with "2.IH" nv False m2 have c2: "clear_marks tasks m2" "\<forall>d \<in> set (deps_of tasks i). visited m2 d"
      "\<forall>j. visited m j \<longrightarrow> visited m2 j" by auto
    from visit_restores(2) [OF m2] have "visiting m2 i" by simp
    with c2(1) have "\<not> visited m2 i" by (auto simp: clear_marks_def)
    with c2(1,2) have "closed_acyclic tasks ((visited m2)(i := True))"
      by (intro closed_acyclic_insert) (auto simp: clear_marks_def)
    with c2 m' show ?thesis by (auto simp: clear_marks_def)
  qed
next
  case (4 tasks n d ds m)
  from "4.prems"(1) obtain m2 where m2: "visit tasks n d m = Some (False, m2)"
    "visit_all tasks n ds m2 = Some (False, m')"
    by (auto split: option.splits if_splits)
  from "4.IH"(1) [OF m2(1) "4.prems"(2)]
  have c: "clear_marks tasks m2" "visited m2 d" "\<forall>j. visited m j \<longrightarrow> visited m2 j" by auto
  from "4.IH"(2) [OF m2(1) refl _ m2(2) c(1)] c show ?case by auto
qed auto

text \<open>The fuel: a search with more fuel than unvisited known nodes returns.\<close>

definition known_ids :: "task list \<Rightarrow> string set" where
  "known_ids tasks = t_id ` set tasks"

lemma task_by_id_Some: "task_by_id tasks i = Some t \<Longrightarrow> t \<in> set tasks \<and> t_id t = i"
  by (auto simp: task_by_id_def dest!: map_of_SomeD)

lemma task_by_id_None: "task_by_id tasks i = None \<longleftrightarrow> i \<notin> known_ids tasks"
  by (auto simp: task_by_id_def known_ids_def map_of_eq_None_iff image_image)

lemma deps_of_unknown: "i \<notin> known_ids tasks \<Longrightarrow> deps_of tasks i = []"
  by (simp add: deps_of_def flip: task_by_id_None)

definition unvisited :: "task list \<Rightarrow> marks \<Rightarrow> nat" where
  "unvisited tasks m = card {i \<in> known_ids tasks. \<not> visiting m i}"

lemma finite_known [simp]: "finite (known_ids tasks)"
  by (simp add: known_ids_def)

lemma unvisited_less:
  "i \<in> known_ids tasks \<Longrightarrow> \<not> visiting m i \<Longrightarrow>
     unvisited tasks (m\<lparr>visiting := (visiting m)(i := True)\<rparr>) < unvisited tasks m"
  unfolding unvisited_def by (rule psubset_card_mono) auto

lemma visit_enough_fuel:
  "unvisited tasks m < n \<Longrightarrow> visit tasks n i m \<noteq> None"
  "unvisited tasks m < n \<or> ds = [] \<Longrightarrow> visit_all tasks n ds m \<noteq> None"
proof (induction tasks n i m and tasks n ds m rule: visit_visit_all.induct)
  case (2 tasks n i m)
  let ?m = "m\<lparr>visiting := (visiting m)(i := True)\<rparr>"
  show ?case
  proof (cases "visiting m i \<or> visited m i")
    case False
    have "unvisited tasks ?m < n \<or> deps_of tasks i = []"
    proof (cases "i \<in> known_ids tasks")
      case True
      with unvisited_less [of i tasks m] False "2.prems" show ?thesis by simp
    qed (simp add: deps_of_unknown)
    with "2.IH" False show ?thesis by (auto split: option.splits)
  qed auto
next
  case (4 tasks n d ds m)
  then have "visit tasks n d m \<noteq> None" by simp
  then obtain r m2 where m2: "visit tasks n d m = Some (r, m2)" by auto
  show ?case
  proof (cases r)
    case False
    with m2 have "visiting m2 = visiting m" using visit_restores(1) by simp
    then have "unvisited tasks m2 = unvisited tasks m" by (simp add: unvisited_def)
    with "4.prems" have "unvisited tasks m2 < n \<or> ds = []" by simp
    from "4.IH"(2) [OF m2 refl False this] m2 False show ?thesis by simp
  qed (use m2 in simp)
qed auto

lemma search_cycle_returns: "search_cycle tasks \<noteq> None"
proof -
  have "unvisited tasks no_marks \<le> card (known_ids tasks)"
    unfolding unvisited_def by (rule card_mono) auto
  also have "\<dots> \<le> length tasks"
    unfolding known_ids_def by (metis card_image_le card_length finite_set le_trans)
  finally show ?thesis
    unfolding search_cycle_def using visit_enough_fuel(2) by (metis le_imp_less_Suc)
qed

lemma has_cycle_iff: "has_cycle tasks \<longleftrightarrow> (\<exists>x. (x, x) \<in> (dep_edges tasks)\<^sup>+)"
proof -
  obtain found m where s: "search_cycle tasks = Some (found, m)"
    using search_cycle_returns [of tasks] by auto
  show ?thesis
  proof (cases found)
    case True
    with s have "visit_all tasks (Suc (length tasks)) (map t_id tasks) no_marks = Some (True, m)"
      by (simp add: search_cycle_def)
    then have "\<exists>x. (x, x) \<in> (dep_edges tasks)\<^sup>+"
      by (rule visit_sound(2)) (simp add: no_marks_def)
    with s True show ?thesis by (simp add: has_cycle_def)
  next
    case False
    have "clear_marks tasks no_marks" by (simp add: clear_marks_def closed_acyclic_def no_marks_def)
    moreover from s False have "visit_all tasks (Suc (length tasks)) (map t_id tasks) no_marks = Some (False, m)"
      by (simp add: search_cycle_def)
    ultimately have c: "clear_marks tasks m" "\<forall>i \<in> set (map t_id tasks). visited m i"
      using visit_complete(2) by blast+
    have "(x, x) \<notin> (dep_edges tasks)\<^sup>+" for x
    proof
      assume cyc: "(x, x) \<in> (dep_edges tasks)\<^sup>+"
      then obtain y where "(x, y) \<in> dep_edges tasks" by (meson tranclD)
      then have "x \<in> known_ids tasks" using deps_of_unknown by (force simp: dep_edges_def)
      with c(2) have "visited m x" by (auto simp: known_ids_def)
      with c(1) cyc show False by (simp add: clear_marks_def closed_acyclic_def)
    qed
    with s False show ?thesis by (simp add: has_cycle_def)
  qed
qed

subsection \<open>Validate accepts exactly the well-formed contracts\<close>

text \<open>
  The conditions a contract has to meet, each stated on its own over the whole contract, with
  no loop state.
\<close>

definition depends :: "contract \<Rightarrow> (string \<times> string) set" where
  "depends c = {(t_id t, d) | t d. t \<in> set (c_tasks c) \<and> d \<in> set (t_depends_on t)}"

definition well_formed_task :: "(task \<Rightarrow> string option) \<Rightarrow> contract \<Rightarrow> task \<Rightarrow> bool" where
  "well_formed_task schema_task c t \<longleftrightarrow>
     public_id (t_id t) \<and> t_kind t \<in> set allowed_task_kinds \<and> trim_space (t_adapter t) \<noteq> [] \<and>
     0 < t_timeout_secs t \<and> set (t_obligations t) \<subseteq> ob_id ` set (c_obligations c) \<and>
     (\<forall>a \<in> set (t_side_effects t). ac_type a \<in> set allowed_side_effect_types \<and> inside_path (ac_resource a)) \<and>
     schema_task t = None \<and> set (t_depends_on t) \<subseteq> t_id ` set (c_tasks c)"

definition well_formed_ticket :: "contract \<Rightarrow> approval_ticket \<Rightarrow> bool" where
  "well_formed_ticket c ap \<longleftrightarrow>
     tk_schema_version ap = ticket_schema_version \<and> public_id (tk_ticket_id ap) \<and>
     tk_task_id ap \<in> t_id ` set (c_tasks c) \<and> tk_effect_type ap \<in> set allowed_side_effect_types \<and>
     inside_path (tk_resource ap) \<and> trim_space (tk_reason ap) \<noteq> [] \<and>
     (trim_space (tk_expires_at ap) = [] \<or> valid_rfc3339 (tk_expires_at ap)) \<and>
     side_effect_key (tk_task_id ap) (tk_effect_type ap) (tk_resource ap) \<in> set (declared_effects (c_tasks c))"

definition well_formed :: "(task \<Rightarrow> string option) \<Rightarrow> contract \<Rightarrow> bool" where
  "well_formed schema_task c \<longleftrightarrow>
     c_schema_version c = contract_schema_version \<and> trim_space (c_objective c) \<noteq> [] \<and>
     inside_path (ws_root (c_workspace c)) \<and>
     (\<forall>p \<in> set (ws_reads (c_workspace c)) \<union> set (ws_writes (c_workspace c)). inside_path p) \<and>
     distinct (map ob_id (c_obligations c)) \<and> (\<forall>ob \<in> set (c_obligations c). public_id (ob_id ob)) \<and>
     (\<exists>ob \<in> set (c_obligations c). ob_required ob) \<and>
     c_tasks c \<noteq> [] \<and> distinct (map t_id (c_tasks c)) \<and>
     (\<forall>t \<in> set (c_tasks c). well_formed_task schema_task c t) \<and>
     distinct (map tk_ticket_id (c_approvals c)) \<and> (\<forall>ap \<in> set (c_approvals c). well_formed_ticket c ap) \<and>
     acyclic (depends c) \<and>
     set (c_required_obligations c) \<subseteq> ob_id ` set (c_obligations c) \<and>
     (\<forall>ob \<in> set (c_obligations c). ob_required ob \<longrightarrow> ob_id ob \<in> set (c_required_obligations c))"

lemma note_obligation_fold:
  "os_ids (foldl note_obligation s obs) = (\<lambda>i. os_ids s i \<or> i \<in> ob_id ` set obs)"
  "os_required (foldl note_obligation s obs) = os_required s @ map ob_id (filter ob_required obs)"
  "os_count (foldl note_obligation s obs) = os_count s + length (filter ob_required obs)"
  by (induction obs arbitrary: s) (auto simp: note_obligation_def fun_eq_iff)

lemma scan_obligations_Inr:
  "scan_obligations obs s = Inr s' \<longleftrightarrow>
     distinct (map ob_id obs) \<and> (\<forall>ob \<in> set obs. public_id (ob_id ob) \<and> \<not> os_ids s (ob_id ob)) \<and>
     s' = foldl note_obligation s obs"
proof (induction obs arbitrary: s)
  case (Cons ob obs)
  show ?case
    by (simp add: Cons.IH check_obligation_def) (auto simp: note_obligation_def image_iff)
qed auto

lemma scan_tasks_Inr:
  "scan_tasks schema_task ids ts m = Inr m' \<longleftrightarrow>
     m' = m @ ts \<and> distinct (map t_id ts) \<and>
     (\<forall>t \<in> set ts. \<not> has_task m (t_id t) \<and> check_task schema_task ids [] t = None)"
proof (induction ts arbitrary: m)
  case (Cons t ts)
  have one: "check_task schema_task ids m t = None \<longleftrightarrow>
      \<not> has_task m (t_id t) \<and> check_task schema_task ids [] t = None" for m t
    by (auto simp: check_task_def has_task_def)
  have snoc: "has_task (m @ [t]) i \<longleftrightarrow> has_task m i \<or> t_id t = i" for i
    by (simp add: has_task_def)
  show ?case
    by (simp add: Cons.IH one [of m] snoc) (auto simp: image_iff)
qed auto

lemma has_task_iff: "has_task m i \<longleftrightarrow> i \<in> t_id ` set m"
  by (auto simp: has_task_def list_ex_iff)

lemma check_action_None:
  "check_action t a = None \<longleftrightarrow> ac_type a \<in> set allowed_side_effect_types \<and> inside_path (ac_resource a)"
  by (simp add: check_action_def)

lemma check_task_None:
  "check_task schema_task ids [] t = None \<longleftrightarrow>
     public_id (t_id t) \<and> t_kind t \<in> set allowed_task_kinds \<and> trim_space (t_adapter t) \<noteq> [] \<and>
     0 < t_timeout_secs t \<and> (\<forall>i \<in> set (t_obligations t). ids i) \<and>
     (\<forall>a \<in> set (t_side_effects t). check_action t a = None) \<and> schema_task t = None"
  by (cases "schema_task t") (simp_all add: check_task_def has_task_def ball_Un not_le)

lemma validate_approvals_None:
  "validate_approvals aps (c_tasks c) = None \<longleftrightarrow>
     distinct (map tk_ticket_id aps) \<and> (\<forall>ap \<in> set aps. well_formed_ticket c ap)"
  unfolding validate_approvals_def
  by (subst first_seen_error_None [where ok = "well_formed_ticket c"])
     (auto simp: check_approval_def approval_checks_def well_formed_ticket_def has_task_iff)

lemma validate_dependencies_None:
  "validate_dependencies tasks m = None \<longleftrightarrow> (\<forall>t \<in> set tasks. set (t_depends_on t) \<subseteq> t_id ` set m)"
  by (auto simp: validate_dependencies_def has_task_iff)

lemma task_by_id_distinct:
  "distinct (map t_id tasks) \<Longrightarrow> t \<in> set tasks \<Longrightarrow> task_by_id tasks (t_id t) = Some t"
  by (auto simp: task_by_id_def o_def rev_map [symmetric] intro!: map_of_is_SomeI)

lemma dep_edges_depends:
  "distinct (map t_id (c_tasks c)) \<Longrightarrow> dep_edges (c_tasks c) = depends c"
  by (auto simp: dep_edges_def depends_def deps_of_def task_by_id_distinct split: option.splits
      dest: task_by_id_Some) (metis task_by_id_Some)

lemma validate_evaluator_None:
  assumes "set (iter (os_required s)) = set (os_required s)"
  shows "validate_evaluator iter ev s = None \<longleftrightarrow> (\<forall>i \<in> set ev. os_ids s i) \<and> set (os_required s) \<subseteq> set ev"
  using assms by (simp add: validate_evaluator_def ball_Un subset_eq)

lemma validate_header_None:
  "validate_header c = None \<longleftrightarrow>
     c_schema_version c = contract_schema_version \<and> trim_space (c_objective c) \<noteq> [] \<and>
     inside_path (ws_root (c_workspace c)) \<and>
     (\<forall>p \<in> set (ws_reads (c_workspace c)) \<union> set (ws_writes (c_workspace c)). inside_path p)"
  by (auto simp: validate_header_def)

lemma some_required: "length (filter ob_required obs) = 0 \<longleftrightarrow> \<not> (\<exists>ob \<in> set obs. ob_required ob)"
  by (simp add: filter_empty_conv)

text \<open>The iteration order of a Go map visits its keys, each of them, and nothing else.\<close>

definition iteration_order :: "(string list \<Rightarrow> string list) \<Rightarrow> bool" where
  "iteration_order iter \<longleftrightarrow> (\<forall>ks. set (iter ks) = set ks)"

lemma validate_contract_None:
  assumes "iteration_order iter"
  shows "validate_contract schema_task iter c = None \<longleftrightarrow> well_formed schema_task c"
proof -
  let ?s = "foldl note_obligation no_obligations (c_obligations c)"
  have ids: "os_ids ?s = (\<lambda>i. i \<in> ob_id ` set (c_obligations c))"
    by (simp add: note_obligation_fold no_obligations_def)
  have req: "os_required ?s = map ob_id (filter ob_required (c_obligations c))"
    by (simp add: note_obligation_fold no_obligations_def)
  have cnt: "os_count ?s = length (filter ob_required (c_obligations c))"
    by (simp add: note_obligation_fold no_obligations_def)
  have "set (iter (os_required ?s)) = set (os_required ?s)"
    using assms by (simp add: iteration_order_def)
  then have ev: "validate_evaluator iter (c_required_obligations c) ?s = None \<longleftrightarrow>
      (\<forall>i \<in> set (c_required_obligations c). i \<in> ob_id ` set (c_obligations c)) \<and>
      ob_id ` {ob \<in> set (c_obligations c). ob_required ob} \<subseteq> set (c_required_obligations c)"
    by (simp add: validate_evaluator_None ids) (simp add: req)
  have "validate_contract schema_task iter c = None \<longleftrightarrow>
      validate_header c = None \<and> distinct (map ob_id (c_obligations c)) \<and>
      (\<forall>ob \<in> set (c_obligations c). public_id (ob_id ob)) \<and> os_count ?s \<noteq> 0 \<and>
      distinct (map t_id (c_tasks c)) \<and>
      (\<forall>t \<in> set (c_tasks c). check_task schema_task (os_ids ?s) [] t = None) \<and>
      c_tasks c \<noteq> [] \<and> validate_approvals (c_approvals c) (c_tasks c) = None \<and>
      validate_dependencies (c_tasks c) (c_tasks c) = None \<and> \<not> has_cycle (c_tasks c) \<and>
      validate_evaluator iter (c_required_obligations c) ?s = None"
    by (auto simp: validate_contract_def scan_obligations_Inr scan_tasks_Inr no_obligations_def has_task_def)
  also have "\<dots> \<longleftrightarrow> well_formed schema_task c"
    unfolding validate_header_None cnt some_required ids ev validate_approvals_None
      validate_dependencies_None check_task_None check_action_None well_formed_def well_formed_task_def
      has_cycle_iff acyclic_def
    by (rule iffI; clarify; simp add: dep_edges_depends; blast)
  finally show ?thesis .
qed

subsection \<open>Compile summaries (summary.go)\<close>

record task_summary =
  ts_id :: string
  ts_kind :: string
  ts_depends_on :: "string list"
  ts_obligations :: "string list"

record obligation_summary =
  os_id :: string
  os_obligatory :: bool
  os_text :: string

record summary =
  sm_schema_version :: string
  sm_contract :: string
  sm_digest :: string
  sm_reads :: "string list"
  sm_writes :: "string list"
  sm_tasks :: "task_summary list"
  sm_obligations :: "obligation_summary list"

text \<open>A nil slice and an empty one are the same list, so \<open>nonNilStrings\<close> is the identity here.\<close>

definition new_summary :: "contract \<Rightarrow> string \<Rightarrow> string \<Rightarrow> summary" where
  "new_summary c contract_path digest =
     \<lparr>sm_schema_version = ''covenant.compile-summary.v1'', sm_contract = contract_path,
      sm_digest = digest, sm_reads = ws_reads (c_workspace c), sm_writes = ws_writes (c_workspace c),
      sm_tasks = map (\<lambda>t. \<lparr>ts_id = t_id t, ts_kind = t_kind t, ts_depends_on = t_depends_on t,
                           ts_obligations = t_obligations t\<rparr>) (c_tasks c),
      sm_obligations = map (\<lambda>ob. \<lparr>os_id = ob_id ob, os_obligatory = ob_required ob,
                                 os_text = ob_text ob\<rparr>) (c_obligations c)\<rparr>"

end
