(* ===== verification/Closure.thy ===== *)
theory Closure
  imports Contract
begin

text \<open>
  The closure matrix (internal/closure): which obligations of a contract a run has closed, and
  with what evidence.
\<close>

record closure_input =
  cl_run_id :: string
  cl_contract_digest :: string
  cl_run_status :: string
  cl_obligations :: "obligation list"
  cl_tasks :: "task list"
  cl_task_statuses :: "string \<Rightarrow> string"
  cl_task_artifacts :: "string \<Rightarrow> string list"
  cl_policy_decisions :: "decision list"

record closure_row =
  rw_obligation_id :: string
  rw_required :: bool
  rw_status :: string
  rw_task_ids :: "string list"
  rw_artifact_ids :: "string list"
  rw_policy_decision_ids :: "string list"
  rw_reason :: string

record closure_matrix =
  mx_schema_version :: string
  mx_run_id :: string
  mx_contract_digest :: string
  mx_status :: string
  mx_rows :: "closure_row list"

definition claiming_task_ids :: "closure_input \<Rightarrow> string \<Rightarrow> string list" where
  "claiming_task_ids inp ob = map t_id (filter (\<lambda>t. ob \<in> set (t_obligations t)) (cl_tasks inp))"

definition artifact_ids_for_tasks :: "closure_input \<Rightarrow> string list \<Rightarrow> string list" where
  "artifact_ids_for_tasks inp ts = concat (map (cl_task_artifacts inp) ts)"

definition policy_decision_ids_for_tasks :: "closure_input \<Rightarrow> string list \<Rightarrow> string list" where
  "policy_decision_ids_for_tasks inp ts =
     map dc_decision_id (filter (\<lambda>d. dc_task_id d \<in> set ts) (cl_policy_decisions inp))"

definition has_successful_task :: "closure_input \<Rightarrow> string list \<Rightarrow> bool" where
  "has_successful_task inp ts = list_ex (\<lambda>t. cl_task_statuses inp t = ''success'') ts"

definition evaluate_obligation :: "closure_input \<Rightarrow> string \<Rightarrow> bool \<Rightarrow> closure_row" where
  "evaluate_obligation inp ob required =
     (let ts = claiming_task_ids inp ob;
          closed = (cl_run_status inp = ''success'' \<and> has_successful_task inp ts);
          (status, reason) =
            (if cl_run_status inp \<noteq> ''success'' then (''open'', ''run did not finish successfully'')
             else if closed then (''closed'', ''closed by successful task evidence'')
             else (''open'', ''no successful task claimed obligation''))
      in \<lparr>rw_obligation_id = ob, rw_required = required, rw_status = status, rw_task_ids = ts,
          rw_artifact_ids = artifact_ids_for_tasks inp ts,
          rw_policy_decision_ids = policy_decision_ids_for_tasks inp ts, rw_reason = reason\<rparr>)"

fun evaluate_rows :: "closure_input \<Rightarrow> obligation list \<Rightarrow> string \<Rightarrow> closure_row list \<Rightarrow> string \<times> closure_row list" where
  "evaluate_rows inp [] status rows = (status, rows)"
| "evaluate_rows inp (ob # obs) status rows =
     (let row = evaluate_obligation inp (ob_id ob) (ob_required ob) in
      evaluate_rows inp obs
        (if ob_required ob \<and> rw_status row \<noteq> ''closed'' then ''rejected'' else status) (rows @ [row]))"

definition evaluate_closure :: "closure_input \<Rightarrow> closure_matrix" where
  "evaluate_closure inp =
     (case evaluate_rows inp (cl_obligations inp) ''accepted'' [] of (status, rows) \<Rightarrow>
        \<lparr>mx_schema_version = ''covenant.closure-matrix.v1'', mx_run_id = cl_run_id inp,
         mx_contract_digest = cl_contract_digest inp,
         mx_status = (if cl_run_status inp \<noteq> ''success'' then ''rejected'' else status),
         mx_rows = rows\<rparr>)"

subsection \<open>Lemmas\<close>

definition discharged :: "closure_input \<Rightarrow> string \<Rightarrow> bool" where
  "discharged inp ob \<longleftrightarrow> (\<exists>t \<in> set (cl_tasks inp). ob \<in> set (t_obligations t) \<and> cl_task_statuses inp (t_id t) = ''success'')"

lemma evaluate_obligation_fields [simp]:
  "rw_obligation_id (evaluate_obligation inp ob r) = ob"
  "rw_required (evaluate_obligation inp ob r) = r"
  "rw_task_ids (evaluate_obligation inp ob r) = claiming_task_ids inp ob"
  "rw_artifact_ids (evaluate_obligation inp ob r) = artifact_ids_for_tasks inp (claiming_task_ids inp ob)"
  "rw_policy_decision_ids (evaluate_obligation inp ob r) = policy_decision_ids_for_tasks inp (claiming_task_ids inp ob)"
  by (simp_all add: evaluate_obligation_def Let_def)

lemma has_successful_task_claiming:
  "has_successful_task inp (claiming_task_ids inp ob) \<longleftrightarrow> discharged inp ob"
  by (auto simp: has_successful_task_def claiming_task_ids_def discharged_def list_ex_iff)

lemma row_closed_iff:
  "rw_status (evaluate_obligation inp ob r) = ''closed'' \<longleftrightarrow> cl_run_status inp = ''success'' \<and> discharged inp ob"
  by (simp add: evaluate_obligation_def Let_def has_successful_task_claiming)

lemma evaluate_rows_eq:
  "evaluate_rows inp obs status rows =
     (if \<exists>ob \<in> set obs. ob_required ob \<and> rw_status (evaluate_obligation inp (ob_id ob) (ob_required ob)) \<noteq> ''closed''
      then ''rejected'' else status,
      rows @ map (\<lambda>ob. evaluate_obligation inp (ob_id ob) (ob_required ob)) obs)"
  by (induction obs arbitrary: status rows) (auto simp: Let_def)

lemma evaluate_closure_rows [simp]:
  "mx_rows (evaluate_closure inp) = map (\<lambda>ob. evaluate_obligation inp (ob_id ob) (ob_required ob)) (cl_obligations inp)"
  by (simp add: evaluate_closure_def evaluate_rows_eq)

lemma evaluate_closure_fields [simp]:
  "mx_run_id (evaluate_closure inp) = cl_run_id inp"
  "mx_contract_digest (evaluate_closure inp) = cl_contract_digest inp"
  by (simp_all add: evaluate_closure_def evaluate_rows_eq)

lemma closure_accepted_iff:
  "mx_status (evaluate_closure inp) = ''accepted'' \<longleftrightarrow>
     cl_run_status inp = ''success'' \<and> (\<forall>ob \<in> set (cl_obligations inp). ob_required ob \<longrightarrow> discharged inp (ob_id ob))"
  by (auto simp: evaluate_closure_def evaluate_rows_eq row_closed_iff)

end
