(* ===== verification/Run_Types.thy ===== *)
theory Run_Types
  imports Ledger Closure
begin

text \<open>
  The records a run leaves behind (internal/run: types.go) and their JSON text, as the structs'
  field tags give it. The executor replaces nil slices by empty ones before it prints them, so
  a list stands for a slice.
\<close>

record artifact_ref =
  ar_schema_version :: string
  ar_artifact_id :: string
  ar_uri :: string
  ar_digest :: string
  ar_media_type :: string
  ar_producer_event_id :: string
  ar_path :: string

record input_snapshot =
  sn_schema_version :: string
  sn_snapshot_id :: string
  sn_source_path :: string
  sn_snapshot_path :: string
  sn_digest :: string
  sn_media_type :: string

record failure_record =
  fr_schema_version :: string
  fr_failure_id :: string
  fr_event_id :: string
  fr_task_id :: string
  fr_phase :: string
  fr_reason :: string

record evidence_pack =
  pk_schema_version :: string
  pk_run_id :: string
  pk_contract_digest :: string
  pk_ledger_digest :: string
  pk_run_status :: string
  pk_artifact_manifest :: "artifact_ref list"
  pk_input_snapshots :: "input_snapshot list"
  pk_policy_decisions :: "decision list"
  pk_failures :: "failure_record list"
  pk_closure_matrix :: closure_matrix

record run_result =
  rr_run_dir :: string
  rr_ledger_path :: string
  rr_evidence_pack_path :: string
  rr_evidence_pack :: evidence_pack

subsection \<open>JSON\<close>

definition artifact_json :: "artifact_ref \<Rightarrow> json" where
  "artifact_json a = JObj (
     field ''schema_version'' (JStr (ar_schema_version a)) @ field ''artifact_id'' (JStr (ar_artifact_id a)) @
     field ''uri'' (JStr (ar_uri a)) @ field ''digest'' (JStr (ar_digest a)) @
     field ''media_type'' (JStr (ar_media_type a)) @
     field ''producer_event_id'' (JStr (ar_producer_event_id a)) @ field ''path'' (JStr (ar_path a)))"

definition snapshot_json :: "input_snapshot \<Rightarrow> json" where
  "snapshot_json s = JObj (
     field ''schema_version'' (JStr (sn_schema_version s)) @ field ''snapshot_id'' (JStr (sn_snapshot_id s)) @
     field ''source_path'' (JStr (sn_source_path s)) @ field ''snapshot_path'' (JStr (sn_snapshot_path s)) @
     field ''digest'' (JStr (sn_digest s)) @ field ''media_type'' (JStr (sn_media_type s)))"

definition decision_json :: "decision \<Rightarrow> json" where
  "decision_json d = JObj (
     field ''schema_version'' (JStr (dc_schema_version d)) @ field ''decision_id'' (JStr (dc_decision_id d)) @
     field ''task_id'' (JStr (dc_task_id d)) @ field ''effect_type'' (JStr (dc_effect_type d)) @
     field ''resource'' (JStr (dc_resource d)) @ field ''decision'' (JStr (dc_decision d)) @
     field ''reason'' (JStr (dc_reason d)) @ field_str_opt ''approval_ticket_id'' (dc_ticket_id d))"

definition failure_json :: "failure_record \<Rightarrow> json" where
  "failure_json f = JObj (
     field ''schema_version'' (JStr (fr_schema_version f)) @ field ''failure_id'' (JStr (fr_failure_id f)) @
     field ''event_id'' (JStr (fr_event_id f)) @ field_str_opt ''task_id'' (fr_task_id f) @
     field ''phase'' (JStr (fr_phase f)) @ field ''reason'' (JStr (fr_reason f)))"

definition row_json :: "closure_row \<Rightarrow> json" where
  "row_json r = JObj (
     field ''obligation_id'' (JStr (rw_obligation_id r)) @ field ''required'' (JBool (rw_required r)) @
     field ''status'' (JStr (rw_status r)) @ field ''task_ids'' (JStrs (rw_task_ids r)) @
     field ''artifact_ids'' (JStrs (rw_artifact_ids r)) @
     field ''policy_decision_ids'' (JStrs (rw_policy_decision_ids r)) @ field ''reason'' (JStr (rw_reason r)))"

definition matrix_json :: "closure_matrix \<Rightarrow> json" where
  "matrix_json m = JObj (
     field ''schema_version'' (JStr (mx_schema_version m)) @ field ''run_id'' (JStr (mx_run_id m)) @
     field ''contract_digest'' (JStr (mx_contract_digest m)) @ field ''status'' (JStr (mx_status m)) @
     field ''rows'' (JArr (map row_json (mx_rows m))))"

definition pack_json :: "evidence_pack \<Rightarrow> json" where
  "pack_json p = JObj (
     field ''schema_version'' (JStr (pk_schema_version p)) @ field ''run_id'' (JStr (pk_run_id p)) @
     field ''contract_digest'' (JStr (pk_contract_digest p)) @ field ''ledger_digest'' (JStr (pk_ledger_digest p)) @
     field ''run_status'' (JStr (pk_run_status p)) @
     field ''artifact_manifest'' (JArr (map artifact_json (pk_artifact_manifest p))) @
     field ''input_snapshots'' (JArr (map snapshot_json (pk_input_snapshots p))) @
     field ''policy_decisions'' (JArr (map decision_json (pk_policy_decisions p))) @
     field ''failures'' (JArr (map failure_json (pk_failures p))) @
     field ''closure_matrix'' (matrix_json (pk_closure_matrix p)))"

subsection \<open>The digest of a contract (internal/contract/canonical.go)\<close>

text \<open>
  The contract's JSON text. Its slices are printed as lists: a nil slice, which Go prints as
  null, is not told apart from an empty one.
\<close>

definition action_json :: "action_ref \<Rightarrow> json" where
  "action_json a = JObj (field ''type'' (JStr (ac_type a)) @ field ''resource'' (JStr (ac_resource a)))"

definition task_json :: "task \<Rightarrow> json" where
  "task_json t = JObj (
     field ''id'' (JStr (t_id t)) @ field ''kind'' (JStr (t_kind t)) @ field ''adapter'' (JStr (t_adapter t)) @
     field ''depends_on'' (JStrs (t_depends_on t)) @ field ''obligations'' (JStrs (t_obligations t)) @
     field ''timeout_seconds'' (JInt (t_timeout_secs t)) @
     field_list_opt ''declared_side_effects'' (map action_json (t_side_effects t)))"

definition obligation_json :: "obligation \<Rightarrow> json" where
  "obligation_json ob = JObj (
     field ''id'' (JStr (ob_id ob)) @ field ''text'' (JStr (ob_text ob)) @ field ''required'' (JBool (ob_required ob)))"

definition ticket_json :: "approval_ticket \<Rightarrow> json" where
  "ticket_json tk = JObj (
     field ''schema_version'' (JStr (tk_schema_version tk)) @ field ''ticket_id'' (JStr (tk_ticket_id tk)) @
     field ''task_id'' (JStr (tk_task_id tk)) @ field ''effect_type'' (JStr (tk_effect_type tk)) @
     field ''resource'' (JStr (tk_resource tk)) @ field ''approved'' (JBool (tk_approved tk)) @
     field ''reason'' (JStr (tk_reason tk)) @ field_str_opt ''operator_id'' (tk_operator_id tk) @
     field_str_opt ''expires_at'' (tk_expires_at tk))"

definition contract_json :: "contract \<Rightarrow> json" where
  "contract_json c = JObj (
     field ''schema_version'' (JStr (c_schema_version c)) @ field ''objective'' (JStr (c_objective c)) @
     field ''workspace'' (JObj (
       field ''root'' (JStr (ws_root (c_workspace c))) @ field ''reads'' (JStrs (ws_reads (c_workspace c))) @
       field ''writes'' (JStrs (ws_writes (c_workspace c))))) @
     field ''obligations'' (JArr (map obligation_json (c_obligations c))) @
     field ''tasks'' (JArr (map task_json (c_tasks c))) @
     field ''policy'' (JObj (field ''mode'' (JStr (c_policy_mode c)))) @
     field_list_opt ''approvals'' (map ticket_json (c_approvals c)) @
     field ''evaluator'' (JObj (field ''required_obligations'' (JStrs (c_required_obligations c)))))"

definition contract_digest :: "(string \<Rightarrow> string) \<Rightarrow> contract \<Rightarrow> string" where
  "contract_digest sha c = sha (json_text (contract_json c))"

end
