(* ===== verification/Workspace.thy ===== *)
theory Workspace
  imports Go_Path
begin

text \<open>
  The file system the executor, its adapter and the verifier work on, as a map from absolute
  cleaned paths to directories and files, with the calls of Go's \<open>os\<close> package that the program
  makes; and the program's own path checks in front of it (\<open>safeJoin\<close>, \<open>validateRunID\<close> of
  internal/run/executor.go, \<open>workspaceArtifactPath\<close>, \<open>inputSnapshotPath\<close> of
  internal/verify). There are no symbolic links and no failures of the device. The texts of
  the operating system's errors are not specified.
\<close>

subsection \<open>Files and directories\<close>

datatype node = Dir | File (contents: string)

type_synonym fs = "string \<Rightarrow> node option"

definition os_error :: "string \<Rightarrow> string \<Rightarrow> string" where
  "os_error op p = undefined op p"

text \<open>\<open>filepath.Dir\<close>: the directory part, cleaned.\<close>

definition path_dir :: "string \<Rightarrow> string" where
  "path_dir p = path_clean (rev (dropWhile (\<lambda>c. c \<noteq> slash) (rev p)))"

text \<open>The path and its ancestors, from the root.\<close>

definition dir_chain :: "string \<Rightarrow> string list" where
  "dir_chain p =
     (let es = path_elems p
      in map (\<lambda>k. (if is_abs p then [slash] else []) @ join_with [slash] (take k es)) [0 ..< Suc (length es)])"

definition os_stat :: "fs \<Rightarrow> string \<Rightarrow> node go_result" where
  "os_stat fs p = (case fs p of None \<Rightarrow> Inl (Errorf (os_error ''stat'' p)) | Some n \<Rightarrow> Inr n)"

definition os_read_file :: "fs \<Rightarrow> string \<Rightarrow> string go_result" where
  "os_read_file fs p = (case fs p of Some (File s) \<Rightarrow> Inr s | _ \<Rightarrow> Inl (Errorf (os_error ''open'' p)))"

definition os_mkdir_all :: "fs \<Rightarrow> string \<Rightarrow> fs go_result" where
  "os_mkdir_all fs p =
     (if list_ex (\<lambda>q. case fs q of Some (File _) \<Rightarrow> True | _ \<Rightarrow> False) (dir_chain p)
      then Inl (Errorf (os_error ''mkdir'' p))
      else Inr (\<lambda>q. if q \<in> set (dir_chain p) then Some Dir else fs q))"

definition os_write_file :: "fs \<Rightarrow> string \<Rightarrow> string \<Rightarrow> fs go_result" where
  "os_write_file fs p s =
     (if fs p = Some Dir \<or> fs (path_dir p) \<noteq> Some Dir then Inl (Errorf (os_error ''open'' p))
      else Inr (fs(p \<mapsto> File s)))"

text \<open>\<open>fileDigest\<close>\<close>

definition file_digest :: "(string \<Rightarrow> string) \<Rightarrow> fs \<Rightarrow> string \<Rightarrow> string go_result" where
  "file_digest sha fs p = bind_result (os_read_file fs p) (\<lambda>s. Inr (sha s))"

lemma os_read_file_Inr [simp]: "os_read_file fs p = Inr s \<longleftrightarrow> fs p = Some (File s)"
  by (auto simp: os_read_file_def split: option.splits node.splits)

lemma file_digest_Inr: "file_digest sha fs p = Inr d \<longleftrightarrow> (\<exists>s. fs p = Some (File s) \<and> d = sha s)"
  by (auto simp: file_digest_def)

lemma os_write_file_Inr:
  "os_write_file fs p s = Inr fs' \<longleftrightarrow> fs p \<noteq> Some Dir \<and> fs (path_dir p) = Some Dir \<and> fs' = fs(p \<mapsto> File s)"
  by (auto simp: os_write_file_def)

text \<open>Creating directories leaves every file as it is.\<close>

lemma os_mkdir_all_files:
  "os_mkdir_all fs p = Inr fs' \<Longrightarrow> fs q = Some (File s) \<Longrightarrow> fs' q = Some (File s)"
  by (auto simp: os_mkdir_all_def list_ex_iff split: if_splits dest: bspec [where x = q])

subsection \<open>The executor's paths\<close>

definition safe_join :: "string \<Rightarrow> string \<Rightarrow> string go_result" where
  "safe_join base p =
     (let n = path_clean (to_slash p) in
      if n = ''.'' then Inr base
      else if prefix ''//'' (to_slash p) then Inl (Errorf (''path '' @ quoted p @ '' escapes workspace''))
      else if escapes n then Inl (Errorf (''path '' @ quoted p @ '' escapes workspace''))
      else Inr (path_join [base, n]))"

definition absolute_dir :: "string \<Rightarrow> string \<Rightarrow> string \<Rightarrow> string go_result" where
  "absolute_dir cwd raw label =
     (if trim_space raw = [] then Inl (Errorf (label @ '' dir is required''))
      else Inr (if is_abs raw then path_clean raw else path_join [cwd, raw]))"

lemma safe_join_within:
  assumes "is_abs base" and "safe_join base p = Inr q"
  shows "within base q"
proof (cases "path_clean (to_slash p) = ''.''")
  case True
  with assms show ?thesis by (simp add: safe_join_def within_def)
next
  case False
  with assms(2) have "\<not> escapes (path_clean (to_slash p))" "q = path_join [base, path_clean (to_slash p)]"
    by (auto simp: safe_join_def Let_def split: if_splits)
  with path_join_within [OF assms(1)] show ?thesis by simp
qed

lemma absolute_dir_is_abs:
  assumes "is_abs cwd" and "absolute_dir cwd raw label = Inr d"
  shows "is_abs d"
proof (cases "is_abs raw")
  case True
  with assms(2) show ?thesis by (auto simp: absolute_dir_def split: if_splits)
next
  case False
  with assms(2) have d: "d = path_join [cwd, raw]" by (auto simp: absolute_dir_def split: if_splits)
  from assms(1) have "cwd \<noteq> []" by (auto simp: is_abs_def)
  moreover have "is_abs (cwd @ x)" for x using assms(1) by (auto simp: is_abs_def split: list.splits)
  ultimately show ?thesis using assms(1) by (cases "raw = []") (simp_all add: d path_join_def)
qed

subsection \<open>The verifier's paths\<close>

definition workspace_artifact_path :: "string \<Rightarrow> string \<Rightarrow> string go_result" where
  "workspace_artifact_path workspace_dir p =
     (let n = path_clean (to_slash p) in
      if n = ''.'' then Inl (Errorf ''artifact path is required'')
      else if prefix ''//'' (to_slash p) then Inl (Errorf ''escapes workspace'')
      else if escapes n then Inl (Errorf ''escapes workspace'')
      else Inr (path_join [workspace_dir, n]))"

definition input_snapshot_path :: "string \<Rightarrow> string \<Rightarrow> string go_result" where
  "input_snapshot_path run_dir p =
     (let n = path_clean (to_slash p) in
      if n = ''.'' then Inl (Errorf ''snapshot path is required'')
      else if prefix ''//'' (to_slash p) then Inl (Errorf ''escapes run directory'')
      else if escapes n then Inl (Errorf ''escapes run directory'')
      else if n \<noteq> ''input-snapshots'' \<and> \<not> prefix ''input-snapshots/'' n
        then Inl (Errorf ''must be under input-snapshots'')
      else Inr (path_join [run_dir, n]))"

lemma workspace_artifact_path_within:
  "is_abs base \<Longrightarrow> workspace_artifact_path base p = Inr q \<Longrightarrow> within base q"
  using path_join_within by (auto simp: workspace_artifact_path_def Let_def split: if_splits)

lemma input_snapshot_path_within:
  "is_abs base \<Longrightarrow> input_snapshot_path base p = Inr q \<Longrightarrow> within base q"
  using path_join_within by (auto simp: input_snapshot_path_def Let_def split: if_splits)

end
