(* ===== verification/Adapter.thy ===== *)
theory Adapter
  imports Run_Types Workspace
begin

text \<open>
  Action adapters (internal/run/adapter.go). The executor calls an adapter once per declared
  side effect; an adapter reads and writes the file system and returns artifacts or an error.
  The default adapter writes and reads files and runs allowlisted processes. What a process
  does is outside the program: it is the argument \<open>spawn\<close>, as is \<open>ctx_err\<close>, the state of the
  context.
\<close>

record action_request =
  rq_workspace_root :: string
  rq_objective :: string
  rq_task :: task
  rq_action :: action_ref
  rq_action_index :: nat

type_synonym action_adapter = "action_request \<Rightarrow> fs \<Rightarrow> artifact_ref list go_result \<times> fs"

text \<open>How a process run under a deadline ends, with what it wrote to its two streams.\<close>

datatype process_end = Exited string string | ExitFailed string | DeadlineExceeded

type_synonym spawner = "string list \<Rightarrow> string \<Rightarrow> int \<Rightarrow> fs \<Rightarrow> process_end \<times> fs"

text \<open>\<open>strings.Fields\<close>\<close>

function fields_loop :: "string \<Rightarrow> string \<Rightarrow> string list" where
  "fields_loop word s =
     (if s = [] then (if word = [] then [] else [word])
      else if 0 < space_len s
        then (if word = [] then [] else [word]) @ fields_loop [] (drop (space_len s) s)
      else fields_loop (word @ [hd s]) (tl s))"
  by pat_completeness auto
termination by (relation "measure (\<lambda>(_, s). length s)") auto

declare fields_loop.simps [simp del]

definition string_fields :: "string \<Rightarrow> string list" where
  "string_fields s = fields_loop [] s"

definition slash_clean :: "string \<Rightarrow> string" where
  "slash_clean p = path_clean (to_slash p)"

definition artifact_uri :: "string \<Rightarrow> string" where
  "artifact_uri digest = ''covenant-artifact://sha256/'' @ digest"

definition make_artifact :: "string \<Rightarrow> string \<Rightarrow> string \<Rightarrow> artifact_ref" where
  "make_artifact artifact_id digest p =
     \<lparr>ar_schema_version = ''covenant.artifact-ref.v1'', ar_artifact_id = artifact_id,
      ar_uri = artifact_uri digest, ar_digest = digest, ar_media_type = ''text/plain'',
      ar_producer_event_id = [], ar_path = p\<rparr>"

definition file_contents :: "action_request \<Rightarrow> string" where
  "file_contents req =
     ''AO Covenant demo output'' @ [CHR 0x0A, CHR 0x0A] @ ''objective: '' @ rq_objective req @ [CHR 0x0A] @
     ''task: '' @ t_id (rq_task req) @ [CHR 0x0A]"

definition action_artifact_id :: "action_request \<Rightarrow> string \<Rightarrow> string" where
  "action_artifact_id req verb =
     t_id (rq_task req) @ ''-'' @ verb @ ''-'' @ decimal (rq_action_index req + 1)"

text \<open>
  Write a file below the workspace root, then digest it: the common part of
  \<open>executeFileWrite\<close> and \<open>writeProcessArtifact\<close>.
\<close>

definition write_and_digest ::
    "(string \<Rightarrow> string) \<Rightarrow> string \<Rightarrow> string \<Rightarrow> string \<Rightarrow> string \<Rightarrow> string \<Rightarrow> fs \<Rightarrow> string go_result \<times> fs" where
  "write_and_digest sha root p text dir_label write_label fs =
     (case safe_join root p of
        Inl e \<Rightarrow> (Inl e, fs)
      | Inr target \<Rightarrow>
          (case os_mkdir_all fs (path_dir target) of
             Inl (Errorf m) \<Rightarrow> (Inl (Errorf (dir_label @ m)), fs)
           | Inl e \<Rightarrow> (Inl e, fs)
           | Inr fs1 \<Rightarrow>
               (case os_write_file fs1 target text of
                  Inl (Errorf m) \<Rightarrow> (Inl (Errorf (write_label @ m)), fs1)
                | Inl e \<Rightarrow> (Inl e, fs1)
                | Inr fs2 \<Rightarrow> (file_digest sha fs2 target, fs2))))"

definition execute_file_write :: "(string \<Rightarrow> string) \<Rightarrow> action_request \<Rightarrow> fs \<Rightarrow> artifact_ref go_result \<times> fs" where
  "execute_file_write sha req fs =
     (case write_and_digest sha (rq_workspace_root req) (ac_resource (rq_action req)) (file_contents req)
             ''create output dir: '' (''write side effect '' @ quoted (ac_resource (rq_action req)) @ '': '') fs of
        (Inl e, fs') \<Rightarrow> (Inl e, fs')
      | (Inr digest, fs') \<Rightarrow>
          (Inr (make_artifact (action_artifact_id req ''artifact'') digest (slash_clean (ac_resource (rq_action req)))), fs'))"

definition execute_file_read :: "(string \<Rightarrow> string) \<Rightarrow> action_request \<Rightarrow> fs \<Rightarrow> artifact_ref go_result" where
  "execute_file_read sha req fs =
     bind_result (safe_join (rq_workspace_root req) (ac_resource (rq_action req))) (\<lambda>target.
     bind_result (os_stat fs target) (\<lambda>info.
     unless_error (fail_if (info = Dir)
         (Errorf (''file.read resource '' @ quoted (ac_resource (rq_action req)) @ '' is a directory''))) (
     bind_result (file_digest sha fs target) (\<lambda>digest.
       Inr (make_artifact (action_artifact_id req ''read'') digest (slash_clean (ac_resource (rq_action req))))))))"

definition write_process_artifact ::
    "(string \<Rightarrow> string) \<Rightarrow> action_request \<Rightarrow> string \<Rightarrow> string \<Rightarrow> fs \<Rightarrow> artifact_ref go_result \<times> fs" where
  "write_process_artifact sha req stream text fs =
     (let artifact_id = action_artifact_id req ''process'' @ ''-'' @ stream;
          p = ''.covenant/process/'' @ artifact_id @ ''.txt'' in
      case write_and_digest sha (rq_workspace_root req) p text ''create process artifact dir: ''
             (''write process '' @ stream @ '' artifact: '') fs of
        (Inl e, fs') \<Rightarrow> (Inl e, fs')
      | (Inr digest, fs') \<Rightarrow> (Inr (make_artifact artifact_id digest p), fs'))"

text \<open>The deadline of a process: the multiplication wraps at 64 bits.\<close>

definition process_timeout :: "task \<Rightarrow> int" where
  "process_timeout t = (if t_timeout_secs t \<le> 0 then - 1 else seconds_duration (t_timeout_secs t))"

definition duration_text :: "int \<Rightarrow> string" where
  "duration_text d = undefined d"

definition execute_process ::
    "(string \<Rightarrow> string) \<Rightarrow> spawner \<Rightarrow> string list \<Rightarrow> action_request \<Rightarrow> fs \<Rightarrow> artifact_ref list go_result \<times> fs" where
  "execute_process sha spawn allowlist req fs =
     (let resource = ac_resource (rq_action req); words = string_fields resource in
      if resource \<notin> set allowlist
        then (Inl (Errorf (''process.spawn resource '' @ quoted resource @ '' is not allowlisted'')), fs)
      else if words = [] then (Inl (Errorf ''process.spawn resource is empty''), fs)
      else case spawn words (rq_workspace_root req) (process_timeout (rq_task req)) fs of
          (DeadlineExceeded, fs1) \<Rightarrow>
            (Inl (Errorf (''process.spawn timed out after '' @ duration_text (process_timeout (rq_task req)))), fs1)
        | (ExitFailed m, fs1) \<Rightarrow> (Inl (Errorf (''process.spawn '' @ quoted resource @ '' failed: '' @ m)), fs1)
        | (Exited out err, fs1) \<Rightarrow>
            (case write_process_artifact sha req ''stdout'' out fs1 of
               (Inl e, fs2) \<Rightarrow> (Inl e, fs2)
             | (Inr a, fs2) \<Rightarrow>
                 (case write_process_artifact sha req ''stderr'' err fs2 of
                    (Inl e, fs3) \<Rightarrow> (Inl e, fs3)
                  | (Inr b, fs3) \<Rightarrow> (Inr [a, b], fs3))))"

definition default_adapter ::
    "(string \<Rightarrow> string) \<Rightarrow> (action_request \<Rightarrow> go_error option) \<Rightarrow> spawner \<Rightarrow> string list \<Rightarrow> action_adapter" where
  "default_adapter sha ctx_err spawn allowlist req fs =
     (case ctx_err req of
        Some e \<Rightarrow> (Inl e, fs)
      | None \<Rightarrow>
          (let ty = ac_type (rq_action req) in
           if ty = ''file.write'' then
             (case execute_file_write sha req fs of (r, fs') \<Rightarrow> (map_sum id (\<lambda>a. [a]) r, fs'))
           else if ty = ''file.read'' then (map_sum id (\<lambda>a. [a]) (execute_file_read sha req fs), fs)
           else if ty = ''process.spawn'' then execute_process sha spawn allowlist req fs
           else if ty = ''network.request'' \<or> ty = ''claim.publish''
             then (Inl (Errorf (''no default adapter for '' @ ty)), fs)
           else (Inl (Errorf (''unsupported side effect type '' @ quoted ty)), fs)))"

subsection \<open>Lemmas\<close>

text \<open>The identifiers of the artifacts one call returns, by the kind of action.\<close>

definition request_artifact_ids :: "task \<Rightarrow> nat \<Rightarrow> string set" where
  "request_artifact_ids t i =
     {t_id t @ ''-artifact-'' @ decimal (i + 1), t_id t @ ''-read-'' @ decimal (i + 1),
      t_id t @ ''-process-'' @ decimal (i + 1) @ ''-stdout'', t_id t @ ''-process-'' @ decimal (i + 1) @ ''-stderr''}"

lemma default_adapter_ids:
  assumes "default_adapter sha ctx_err spawn allowlist req fs = (Inr as, fs')"
  shows "ar_artifact_id ` set as \<subseteq> request_artifact_ids (rq_task req) (rq_action_index req) \<and>
    distinct (map ar_artifact_id as)"
  using assms
  by (auto simp: default_adapter_def execute_file_write_def execute_file_read_def execute_process_def
      write_process_artifact_def action_artifact_id_def make_artifact_def request_artifact_ids_def Let_def
      bind_result_def unless_error_def
      split: option.splits if_splits prod.splits sum.splits process_end.splits)

text \<open>Different requests have different artifact identifiers.\<close>

lemma dash_free: "CHR ''-'' \<notin> set (decimal n)"
  by (simp add: decimal_free is_digit_def)

lemma id_inject:
  fixes s t v w :: string
  assumes "s @ CHR ''-'' # v @ CHR ''-'' # decimal m = t @ CHR ''-'' # w @ CHR ''-'' # decimal n"
    and "CHR ''-'' \<notin> set v" "CHR ''-'' \<notin> set w"
  shows "s = t \<and> v = w \<and> m = n"
proof -
  have "(s @ CHR ''-'' # v) @ CHR ''-'' # decimal m = (t @ CHR ''-'' # w) @ CHR ''-'' # decimal n"
    using assms(1) by simp
  from append_sep_inject [OF this dash_free dash_free]
  have "s @ CHR ''-'' # v = t @ CHR ''-'' # w" "m = n" by simp_all
  with append_sep_inject [OF this(1) assms(2,3)] show ?thesis by simp
qed

lemma stream_inject:
  fixes x y :: string
  assumes "x @ CHR ''-'' # v = y @ CHR ''-'' # w" and "CHR ''-'' \<notin> set v" "CHR ''-'' \<notin> set w"
  shows "x = y" "v = w"
  using append_sep_inject [OF assms] by simp_all

lemma request_artifact_ids_disjoint:
  assumes "x \<in> request_artifact_ids t i" and "x \<in> request_artifact_ids u j"
  shows "t_id t = t_id u \<and> i = j"
proof -
  have plain: "x = t_id t @ CHR ''-'' # v @ CHR ''-'' # decimal (i + 1) \<Longrightarrow>
      x = t_id u @ CHR ''-'' # w @ CHR ''-'' # decimal (j + 1) \<Longrightarrow>
      v \<in> {''artifact'', ''read'', ''process''} \<Longrightarrow> w \<in> {''artifact'', ''read'', ''process''} \<Longrightarrow>
      t_id t = t_id u \<and> i = j" for x v w
    using id_inject [of "t_id t" v "i + 1" "t_id u" w "j + 1"] by auto
  have kinds: "(\<exists>v \<in> {''artifact'', ''read''}. x = t_id t @ CHR ''-'' # v @ CHR ''-'' # decimal (i + 1)) \<or>
      (\<exists>v \<in> {''stdout'', ''stderr''}. x = (t_id t @ CHR ''-'' # ''process'' @ CHR ''-'' # decimal (i + 1)) @ CHR ''-'' # v)"
    if "x \<in> request_artifact_ids t i" for t i
    using that by (auto simp: request_artifact_ids_def)
  have streams: "\<not> (x = a @ CHR ''-'' # decimal n \<and> x = b @ CHR ''-'' # v)"
    if "v \<in> {''stdout'', ''stderr''}" for a b v n
  proof
    assume "x = a @ CHR ''-'' # decimal n \<and> x = b @ CHR ''-'' # v"
    then have "a @ CHR ''-'' # decimal n = b @ CHR ''-'' # v" by metis
    moreover have "CHR ''-'' \<notin> set v" using that by auto
    ultimately have "decimal n = v" using stream_inject(2) [OF _ dash_free] by blast
    moreover have "\<not> (\<forall>c \<in> set v. is_digit c)" using that by (auto simp: is_digit_def)
    ultimately show False using decimal_digits [of n] by simp
  qed
  from kinds [OF assms(1)] kinds [OF assms(2)] show ?thesis
  proof (elim disjE bexE)
    fix v w assume "v \<in> {''artifact'', ''read''}" "w \<in> {''artifact'', ''read''}"
      "x = t_id t @ CHR ''-'' # v @ CHR ''-'' # decimal (i + 1)"
      "x = t_id u @ CHR ''-'' # w @ CHR ''-'' # decimal (j + 1)"
    then show ?thesis using plain [of x v w] by blast
  next
    fix v w assume vw: "v \<in> {''stdout'', ''stderr''}" "w \<in> {''stdout'', ''stderr''}"
      "x = (t_id t @ CHR ''-'' # ''process'' @ CHR ''-'' # decimal (i + 1)) @ CHR ''-'' # v"
      "x = (t_id u @ CHR ''-'' # ''process'' @ CHR ''-'' # decimal (j + 1)) @ CHR ''-'' # w"
    have "CHR ''-'' \<notin> set v" "CHR ''-'' \<notin> set w" using vw(1,2) by auto
    with vw(3,4) have "t_id t @ CHR ''-'' # ''process'' @ CHR ''-'' # decimal (i + 1) =
        t_id u @ CHR ''-'' # ''process'' @ CHR ''-'' # decimal (j + 1)"
      using stream_inject(1) by blast
    then show ?thesis using plain [OF refl, of "''process''" "''process''"] by simp
  next
    fix v w assume "v \<in> {''artifact'', ''read''}" "w \<in> {''stdout'', ''stderr''}"
      "x = t_id t @ CHR ''-'' # v @ CHR ''-'' # decimal (i + 1)"
      "x = (t_id u @ CHR ''-'' # ''process'' @ CHR ''-'' # decimal (j + 1)) @ CHR ''-'' # w"
    then show ?thesis using streams [of w "t_id t @ CHR ''-'' # v" "i + 1"
          "t_id u @ CHR ''-'' # ''process'' @ CHR ''-'' # decimal (j + 1)"] by simp
  next
    fix v w assume "v \<in> {''stdout'', ''stderr''}" "w \<in> {''artifact'', ''read''}"
      "x = (t_id t @ CHR ''-'' # ''process'' @ CHR ''-'' # decimal (i + 1)) @ CHR ''-'' # v"
      "x = t_id u @ CHR ''-'' # w @ CHR ''-'' # decimal (j + 1)"
    then show ?thesis using streams [of v "t_id u @ CHR ''-'' # w" "j + 1"
          "t_id t @ CHR ''-'' # ''process'' @ CHR ''-'' # decimal (i + 1)"] by simp
  qed
qed

end
