(* ===== verification/Executor.thy ===== *)
theory Executor
  imports Adapter
begin

text \<open>
  The executor (internal/run/executor.go). \<open>execute\<close> checks a contract, snapshots its declared
  reads and runs its tasks in dependency order: a task's declared side effects are put to the
  policy, the decisions are recorded, a denied task ends the run, an allowed one is handed to
  the adapter. A finished run writes its ledger and its evidence pack.

  What the code reads from outside is the record \<open>env\<close>: the verdicts of the schema validator,
  the hash, the working directory, and the clock and the context as they are at the k-th time
  the task loop reads them. A Go function that changes the recorder, the file system and the
  local variables is a function on the record \<open>exec\<close>; \<open>Halt\<close> is a return from \<open>Execute\<close>.
\<close>

subsection \<open>Parameters and state\<close>

record env =
  en_schema_contract :: "contract \<Rightarrow> go_error option"
  en_schema_task :: "task \<Rightarrow> string option"
  en_schema_event :: "event \<Rightarrow> go_error option"
  en_schema_pack :: "evidence_pack \<Rightarrow> go_error option"
  en_sha :: "string \<Rightarrow> string"
  en_iter :: "string list \<Rightarrow> string list"
  en_cwd :: string
  en_unix_nano :: int
  en_clock :: "nat \<Rightarrow> instant"
  en_ctx_err :: "nat \<Rightarrow> go_error option"

record run_options =
  op_workspace_dir :: string
  op_out_dir :: string
  op_run_id :: string
  op_revoked :: "string \<Rightarrow> bool"

record run_paths =
  rp_workspace_root :: string
  rp_run_dir :: string
  rp_ledger :: string
  rp_evidence :: string

text \<open>The map \<open>states\<close> from a task identifier to the task and its status.\<close>

type_synonym task_states = "string \<Rightarrow> (task \<times> string) option"

record exec =
  x_recorder :: recorder
  x_states :: task_states
  x_artifacts :: "artifact_ref list"
  x_task_artifacts :: "string \<Rightarrow> string list"
  x_decisions :: "decision list"
  x_failures :: "failure_record list"
  x_completed :: nat
  x_fs :: fs

text \<open>A return from \<open>Execute\<close>: a result or none (the zero value), an error or none.\<close>

record run_outcome =
  oc_result :: "run_result option"
  oc_error :: "go_error option"
  oc_fs :: fs

datatype 'a halting = Go 'a | Halt run_outcome

definition abort :: "go_error \<Rightarrow> fs \<Rightarrow> 'a halting" where
  "abort e fs = Halt \<lparr>oc_result = None, oc_error = Some e, oc_fs = fs\<rparr>"

subsection \<open>Task states\<close>

definition initial_states :: "task list \<Rightarrow> task_states" where
  "initial_states tasks = foldl (\<lambda>m t. m(t_id t \<mapsto> (t, []))) Map.empty tasks"

text \<open>\<open>states[id].status\<close>: an unknown identifier is a nil dereference, which has no value.\<close>

definition status_of :: "task_states \<Rightarrow> string \<Rightarrow> string" where
  "status_of st i = (case st i of None \<Rightarrow> undefined i | Some (_, s) \<Rightarrow> s)"

definition set_status :: "task_states \<Rightarrow> string \<Rightarrow> string \<Rightarrow> task_states" where
  "set_status st i s = (case st i of None \<Rightarrow> st | Some (t, _) \<Rightarrow> st(i \<mapsto> (t, s)))"

definition dependencies_complete :: "task_states \<Rightarrow> string list \<Rightarrow> bool" where
  "dependencies_complete st deps \<longleftrightarrow> list_all (\<lambda>d. status_of st d = ''success'') deps"

text \<open>\<open>taskStatuses\<close>, read through the closure's map: an unknown identifier reads the empty status.\<close>

definition task_statuses :: "task_states \<Rightarrow> string \<Rightarrow> string" where
  "task_statuses st i = (case st i of None \<Rightarrow> [] | Some (_, s) \<Rightarrow> s)"

definition verify_dependencies_succeeded :: "task_states \<Rightarrow> string list \<Rightarrow> go_error option" where
  "verify_dependencies_succeeded st deps =
     first_error (map (\<lambda>d. fail_if (status_of st d \<noteq> ''success'')
       (Errorf (''dependency '' @ quoted d @ '' did not succeed''))) deps)"

definition satisfied_obligation :: "contract \<Rightarrow> task_states \<Rightarrow> string \<Rightarrow> bool" where
  "satisfied_obligation c st ob \<longleftrightarrow>
     list_ex (\<lambda>k. case st (t_id k) of None \<Rightarrow> False
       | Some (t, s) \<Rightarrow> s = ''success'' \<and> ob \<in> set (t_obligations t)) (c_tasks c)"

definition verify_required_obligations :: "contract \<Rightarrow> task_states \<Rightarrow> go_error option" where
  "verify_required_obligations c st =
     first_error (map (\<lambda>ob. fail_if (ob_required ob \<and> \<not> satisfied_obligation c st (ob_id ob))
       (Errorf (''required obligation '' @ quoted (ob_id ob) @ '' was not satisfied''))) (c_obligations c))"

subsection \<open>Checks before the run\<close>

definition validate_run_id :: "string \<Rightarrow> go_error option" where
  "validate_run_id raw =
     first_error [
       fail_if (raw = []) (Errorf ''run id is required''),
       fail_if (raw \<noteq> trim_space raw) (Errorf (''run id '' @ quoted raw @ '' contains surrounding whitespace'')),
       fail_if (raw \<noteq> to_lower raw) (Errorf (''run id '' @ quoted raw @ '' must be lowercase'')),
       fail_if (is_reserved_windows_name raw) (Errorf (''run id '' @ quoted raw @ '' is reserved on Windows'')),
       fail_if (dropWhile public_char raw \<noteq> [])
         (Errorf (''run id '' @ quoted raw @ '' contains invalid character '' @
            quoted_rune (dropWhile public_char raw)))]"

definition verify_declared_reads :: "string \<Rightarrow> string list \<Rightarrow> fs \<Rightarrow> go_error option" where
  "verify_declared_reads root reads fs =
     first_error (map (\<lambda>p.
       error_of (bind_result (safe_join root p) (\<lambda>target.
         case os_stat fs target of
           Inl e \<Rightarrow> Inl (Errorf (''declared read '' @ quoted p @ '' is unavailable: '' @ os_error ''stat'' target))
         | Inr info \<Rightarrow> unless_error (fail_if (info = Dir)
             (Errorf (''declared read '' @ quoted p @ '' is a directory''))) (Inr ())))) reads)"

definition verify_workspace_writes :: "string \<Rightarrow> string list \<Rightarrow> fs \<Rightarrow> go_error option" where
  "verify_workspace_writes root writes fs =
     first_error (map (\<lambda>p.
       error_of (bind_result (safe_join root p) (\<lambda>target.
         case os_stat fs target of
           Inl e \<Rightarrow> Inl (Errorf (''declared write '' @ quoted p @ '' is unavailable: '' @ os_error ''stat'' target))
         | Inr info \<Rightarrow> unless_error (fail_if (info = Dir \<or> info = File [])
             (Errorf (''declared write '' @ quoted p @ '' is not a non-empty file''))) (Inr ())))) writes)"

subsection \<open>Input snapshots\<close>

definition media_type_for_path :: "string \<Rightarrow> string" where
  "media_type_for_path p =
     (let ext = to_lower (path_ext p) in
      if ext \<in> {''.md'', ''.markdown''} then ''text/markdown''
      else if ext \<in> {''.txt'', ''.log''} then ''text/plain''
      else if ext = ''.json'' then ''application/json''
      else ''application/octet-stream'')"

definition snapshot_id :: "nat \<Rightarrow> string" where
  "snapshot_id index = ''input-'' @ pad6 (index + 1)"

definition write_input_snapshot ::
    "(string \<Rightarrow> string) \<Rightarrow> string \<Rightarrow> string \<Rightarrow> string \<Rightarrow> nat \<Rightarrow> fs \<Rightarrow> input_snapshot go_result \<times> fs" where
  "write_input_snapshot sha root run_dir source_path index fs =
     (let normalized = slash_clean source_path;
          snapshot_path = slash_clean (''input-snapshots/'' @ normalized);
          read = bind_result (safe_join root source_path) (\<lambda>source.
            case fs source of
              None \<Rightarrow> Inl (Errorf (''snapshot input '' @ quoted source_path @ '': '' @ os_error ''stat'' source))
            | Some Dir \<Rightarrow> Inl (Errorf (''snapshot input '' @ quoted source_path @ '' is a directory''))
            | Some (File s) \<Rightarrow> Inr s)
      in case bind_result read (\<lambda>s. bind_result (safe_join run_dir snapshot_path) (\<lambda>target. Inr (s, target))) of
           Inl e \<Rightarrow> (Inl e, fs)
         | Inr (s, target) \<Rightarrow>
             (case os_mkdir_all fs (path_dir target) of
                Inl e \<Rightarrow> (Inl (Errorf (''create input snapshot dir: '' @ os_error ''mkdir'' target)), fs)
              | Inr fs1 \<Rightarrow>
                  (case os_write_file fs1 target s of
                     Inl e \<Rightarrow> (Inl (Errorf (''write input snapshot '' @ quoted snapshot_path @ '': '' @ os_error ''open'' target)), fs1)
                   | Inr fs2 \<Rightarrow>
                       (case file_digest sha fs2 target of
                          Inl e \<Rightarrow> (Inl (Errorf (''digest input snapshot '' @ quoted snapshot_path @ '': '' @ os_error ''open'' target)), fs2)
                        | Inr digest \<Rightarrow>
                            (Inr \<lparr>sn_schema_version = ''covenant.input-snapshot.v1'', sn_snapshot_id = snapshot_id index,
                                  sn_source_path = normalized, sn_snapshot_path = snapshot_path,
                                  sn_digest = digest, sn_media_type = media_type_for_path normalized\<rparr>, fs2)))))"

fun snapshot_declared_reads ::
    "(string \<Rightarrow> string) \<Rightarrow> string \<Rightarrow> string \<Rightarrow> nat \<Rightarrow> string list \<Rightarrow> fs \<Rightarrow> input_snapshot list go_result \<times> fs" where
  "snapshot_declared_reads sha root run_dir index [] fs = (Inr [], fs)"
| "snapshot_declared_reads sha root run_dir index (p # ps) fs =
     (case write_input_snapshot sha root run_dir p index fs of
        (Inl e, fs1) \<Rightarrow> (Inl e, fs1)
      | (Inr s, fs1) \<Rightarrow>
          (case snapshot_declared_reads sha root run_dir (index + 1) ps fs1 of
             (Inl e, fs2) \<Rightarrow> (Inl e, fs2)
           | (Inr ss, fs2) \<Rightarrow> (Inr (s # ss), fs2)))"

subsection \<open>The policy of a task\<close>

definition task_policy_input :: "contract \<Rightarrow> task \<Rightarrow> (string \<Rightarrow> bool) \<Rightarrow> instant \<Rightarrow> policy_input" where
  "task_policy_input c t revoked now =
     \<lparr>in_mode = c_policy_mode c, in_reads = ws_reads (c_workspace c), in_writes = ws_writes (c_workspace c),
      in_task_id = t_id t,
      in_actions = map (\<lambda>a. \<lparr>pa_type = ac_type a, pa_resource = ac_resource a\<rparr>) (t_side_effects t),
      in_approvals = c_approvals c, in_time = now, in_revoked = revoked\<rparr>"

definition evaluate_task_policy :: "contract \<Rightarrow> task \<Rightarrow> (string \<Rightarrow> bool) \<Rightarrow> instant \<Rightarrow> decision list" where
  "evaluate_task_policy c t revoked now = evaluate_task (task_policy_input c t revoked now) now"

definition first_denied_decision :: "decision list \<Rightarrow> decision option" where
  "first_denied_decision ds = find (\<lambda>d. dc_decision d = decision_deny) ds"

subsection \<open>Executing a task\<close>

fun execute_side_effects ::
    "string \<Rightarrow> contract \<Rightarrow> task \<Rightarrow> action_adapter \<Rightarrow> nat \<Rightarrow> action_ref list \<Rightarrow> fs \<Rightarrow> artifact_ref list go_result \<times> fs" where
  "execute_side_effects root c t adapter index [] fs = (Inr [], fs)"
| "execute_side_effects root c t adapter index (a # as) fs =
     (case adapter \<lparr>rq_workspace_root = root, rq_objective = c_objective c, rq_task = t, rq_action = a,
                    rq_action_index = index\<rparr> fs of
        (Inl e, fs1) \<Rightarrow> (Inl e, fs1)
      | (Inr artifacts, fs1) \<Rightarrow>
          (case execute_side_effects root c t adapter (index + 1) as fs1 of
             (Inl e, fs2) \<Rightarrow> (Inl e, fs2)
           | (Inr artifacts', fs2) \<Rightarrow> (Inr (artifacts @ artifacts'), fs2)))"

definition verdict_of :: "go_error option \<Rightarrow> artifact_ref list go_result" where
  "verdict_of e = unless_error e (Inr [])"

definition execute_task ::
    "string \<Rightarrow> contract \<Rightarrow> task \<Rightarrow> task_states \<Rightarrow> action_adapter \<Rightarrow> fs \<Rightarrow> artifact_ref list go_result \<times> fs" where
  "execute_task root c t st adapter fs =
     (if t_kind t \<in> {''scripted'', ''shell'', ''agent''}
        then execute_side_effects root c t adapter 0 (t_side_effects t) fs
      else if t_kind t = ''verify''
        then (verdict_of (verify_workspace_writes root (ws_writes (c_workspace c)) fs), fs)
      else if t_kind t = ''review'' then (verdict_of (verify_dependencies_succeeded st (t_depends_on t)), fs)
      else if t_kind t = ''evaluate'' then (verdict_of (verify_required_obligations c st), fs)
      else (Inl (Errorf (''unsupported task kind '' @ quoted (t_kind t))), fs))"

definition failure_phase_for_task :: "task \<Rightarrow> string" where
  "failure_phase_for_task t = (if t_kind t \<in> {''scripted'', ''shell'', ''agent''} then ''adapter'' else ''execution'')"

definition new_failure_record :: "nat \<Rightarrow> event \<Rightarrow> string \<Rightarrow> string \<Rightarrow> failure_record" where
  "new_failure_record sequence ev phase reason =
     \<lparr>fr_schema_version = ''covenant.failure.v1'', fr_failure_id = ''failure-'' @ pad6 sequence,
      fr_event_id = ev_event_id ev, fr_task_id = ev_task_id ev, fr_phase = phase, fr_reason = reason\<rparr>"

subsection \<open>Recording\<close>

text \<open>\<open>if _, err := recorder.emit(...); err != nil { return Result{}, err }\<close> and the rest.\<close>

definition recording :: "env \<Rightarrow> event \<Rightarrow> exec \<Rightarrow> (event \<Rightarrow> exec \<Rightarrow> 'a halting) \<Rightarrow> 'a halting" where
  "recording en draft x k =
     (case record_event (en_sha en) (en_schema_event en) (x_recorder x) draft of
        (Inl e, r) \<Rightarrow> abort e (x_fs x)
      | (Inr ev, r) \<Rightarrow> k ev (x\<lparr>x_recorder := r\<rparr>))"

definition policy_event_draft :: "string \<Rightarrow> decision \<Rightarrow> event" where
  "policy_event_draft task_id d =
     (event_draft ''policy_decided'' task_id
        (if dc_decision d = decision_deny then ''failed'' else ''success'') (dc_reason d) [])
     \<lparr>ev_decision_id := dc_decision_id d, ev_decision := dc_decision d, ev_effect_type := dc_effect_type d,
      ev_resource := dc_resource d, ev_approval_ticket_id := dc_ticket_id d\<rparr>"

fun record_decisions :: "env \<Rightarrow> task \<Rightarrow> decision list \<Rightarrow> exec \<Rightarrow> exec halting" where
  "record_decisions en t [] x = Go x"
| "record_decisions en t (d # ds) x =
     recording en (policy_event_draft (t_id t) d) x (\<lambda>_ x1.
       record_decisions en t ds (x1\<lparr>x_decisions := x_decisions x1 @ [d]\<rparr>))"

fun record_artifacts :: "env \<Rightarrow> task \<Rightarrow> artifact_ref list \<Rightarrow> exec \<Rightarrow> exec halting" where
  "record_artifacts en t [] x = Go x"
| "record_artifacts en t (a # as) x =
     recording en (event_draft ''artifact_recorded'' (t_id t) ''success'' (ar_path a) [ar_artifact_id a]) x (\<lambda>ev x1.
       record_artifacts en t as (x1\<lparr>
         x_artifacts := x_artifacts x1 @ [a\<lparr>ar_producer_event_id := ev_event_id ev\<rparr>],
         x_task_artifacts := (x_task_artifacts x1)(t_id t := x_task_artifacts x1 (t_id t) @ [ar_artifact_id a])\<rparr>))"

subsection \<open>Finishing a run\<close>

definition run_closure :: "env \<Rightarrow> contract \<Rightarrow> string \<Rightarrow> exec \<Rightarrow> string \<Rightarrow> closure_matrix" where
  "run_closure en c run_id x status =
     evaluate_closure \<lparr>cl_run_id = run_id, cl_contract_digest = contract_digest (en_sha en) c,
       cl_run_status = status, cl_obligations = c_obligations c, cl_tasks = c_tasks c,
       cl_task_statuses = task_statuses (x_states x), cl_task_artifacts = x_task_artifacts x,
       cl_policy_decisions = x_decisions x\<rparr>"

text \<open>
  The digest of the ledger is that of the text the recorder has written, which the code reads from
  the file again.
\<close>

definition finish_run ::
    "env \<Rightarrow> contract \<Rightarrow> run_paths \<Rightarrow> string \<Rightarrow> input_snapshot list \<Rightarrow> string \<Rightarrow> string \<Rightarrow> exec \<Rightarrow> run_outcome" where
  "finish_run en c paths run_id snapshots status message x =
     (case emit (en_sha en) (en_schema_event en) (x_recorder x) ''run_finished'' [] status message [] of
        (Inl e, r) \<Rightarrow> \<lparr>oc_result = None, oc_error = Some e, oc_fs = x_fs x\<rparr>
      | (Inr ev, r) \<Rightarrow>
          (let text = ledger_text (rc_written r);
               fs1 = (x_fs x)(rp_ledger paths \<mapsto> File text);
               pack = \<lparr>pk_schema_version = ''covenant.evidence-pack.v1'', pk_run_id = run_id,
                       pk_contract_digest = contract_digest (en_sha en) c,
                       pk_ledger_digest = en_sha en text, pk_run_status = status,
                       pk_artifact_manifest = x_artifacts x, pk_input_snapshots = snapshots,
                       pk_policy_decisions = x_decisions x, pk_failures = x_failures x,
                       pk_closure_matrix = run_closure en c run_id x status\<rparr> in
           case en_schema_pack en pack of
             Some e \<Rightarrow> \<lparr>oc_result = None, oc_error = Some e, oc_fs = fs1\<rparr>
           | None \<Rightarrow>
               (case bind_result (os_mkdir_all fs1 (path_dir (rp_evidence paths)))
                       (\<lambda>fs2. os_write_file fs2 (rp_evidence paths) (json_indent 0 (pack_json pack) @ [CHR 0x0A])) of
                  Inl e \<Rightarrow> \<lparr>oc_result = None, oc_error = Some e, oc_fs = fs1\<rparr>
                | Inr fs3 \<Rightarrow>
                    \<lparr>oc_result = Some \<lparr>rr_run_dir = rp_run_dir paths, rr_ledger_path = rp_ledger paths,
                                      rr_evidence_pack_path = rp_evidence paths, rr_evidence_pack = pack\<rparr>,
                     oc_error = None, oc_fs = fs3\<rparr>)))"

text \<open>A failed task: its event (an error of the recorder is ignored here), its failure record, the end.\<close>

definition fail_task ::
    "env \<Rightarrow> contract \<Rightarrow> run_paths \<Rightarrow> string \<Rightarrow> input_snapshot list \<Rightarrow> task \<Rightarrow> string \<Rightarrow> go_error \<Rightarrow> string \<Rightarrow> exec \<Rightarrow> run_outcome" where
  "fail_task en c paths run_id snapshots t phase err reason x =
     (let (res, r) = emit (en_sha en) (en_schema_event en) (x_recorder x) ''task_finished'' (t_id t) ''failed'' reason [];
          ev = (case res of Inl _ \<Rightarrow> zero_event | Inr ev \<Rightarrow> ev);
          x1 = x\<lparr>x_recorder := r, x_states := set_status (x_states x) (t_id t) ''failed'',
                 x_failures := x_failures x @ [new_failure_record (length (x_failures x) + 1) ev phase reason]\<rparr>;
          oc = finish_run en c paths run_id snapshots ''failed'' ''run failed'' x1
      in if oc_error oc \<noteq> None then oc else oc\<lparr>oc_error := Some err\<rparr>)"

subsection \<open>The task loop\<close>

definition denied_text :: "task \<Rightarrow> decision \<Rightarrow> string" where
  "denied_text t d = ''policy denied task '' @ quoted (t_id t) @ '' side effect '' @ quoted (dc_effect_type d) @
     '' on '' @ quoted (dc_resource d) @ '': '' @ dc_reason d"

definition run_task ::
    "env \<Rightarrow> contract \<Rightarrow> run_paths \<Rightarrow> string \<Rightarrow> input_snapshot list \<Rightarrow> action_adapter \<Rightarrow> (string \<Rightarrow> bool) \<Rightarrow>
     task \<Rightarrow> exec \<Rightarrow> exec halting" where
  "run_task en c paths run_id snapshots adapter revoked t x =
     (case en_ctx_err en (x_completed x) of
        Some e \<Rightarrow> abort e (x_fs x)
      | None \<Rightarrow>
          recording en (event_draft ''task_started'' (t_id t) ''success'' ''task started'' []) x (\<lambda>_ x1.
          let ds = evaluate_task_policy c t revoked (en_clock en (x_completed x)) in
          case record_decisions en t ds x1 of
            Halt oc \<Rightarrow> Halt oc
          | Go x2 \<Rightarrow>
              (case first_denied_decision ds of
                 Some d \<Rightarrow> Halt (fail_task en c paths run_id snapshots t ''policy'' (Errorf (denied_text t d)) (denied_text t d) x2)
               | None \<Rightarrow>
                   (case execute_task (rp_workspace_root paths) c t (x_states x2) adapter (x_fs x2) of
                      (Inl e, fs1) \<Rightarrow>
                        Halt (fail_task en c paths run_id snapshots t (failure_phase_for_task t) e (error_text e)
                                (x2\<lparr>x_fs := fs1\<rparr>))
                    | (Inr artifacts, fs1) \<Rightarrow>
                        (case record_artifacts en t artifacts (x2\<lparr>x_fs := fs1\<rparr>) of
                           Halt oc \<Rightarrow> Halt oc
                         | Go x3 \<Rightarrow>
                             recording en (event_draft ''task_finished'' (t_id t) ''success'' ''task completed''
                                             (map ar_artifact_id artifacts)) x3 (\<lambda>_ x4.
                               Go (x4\<lparr>x_states := set_status (x_states x4) (t_id t) ''success'',
                                      x_completed := x_completed x4 + 1\<rparr>)))))))"

text \<open>One pass of the inner loop over the tasks, with the flag \<open>progress\<close>.\<close>

fun run_pass ::
    "env \<Rightarrow> contract \<Rightarrow> run_paths \<Rightarrow> string \<Rightarrow> input_snapshot list \<Rightarrow> action_adapter \<Rightarrow> (string \<Rightarrow> bool) \<Rightarrow>
     task list \<Rightarrow> exec \<Rightarrow> bool \<Rightarrow> (exec \<times> bool) halting" where
  "run_pass en c paths run_id snapshots adapter revoked [] x progress = Go (x, progress)"
| "run_pass en c paths run_id snapshots adapter revoked (t # ts) x progress =
     (if status_of (x_states x) (t_id t) = ''success'' \<or> \<not> dependencies_complete (x_states x) (t_depends_on t)
        then run_pass en c paths run_id snapshots adapter revoked ts x progress
      else case run_task en c paths run_id snapshots adapter revoked t x of
          Halt oc \<Rightarrow> Halt oc
        | Go x1 \<Rightarrow> run_pass en c paths run_id snapshots adapter revoked ts x1 True)"

text \<open>Each task that runs completes one more; so the outer loop ends.\<close>

lemma recording_Go:
  assumes "recording en draft x k = Go y"
  obtains ev r where "record_event (en_sha en) (en_schema_event en) (x_recorder x) draft = (Inr ev, r)"
    and "k ev (x\<lparr>x_recorder := r\<rparr>) = Go y"
  using assms by (auto simp: recording_def abort_def split: prod.splits sum.splits)

lemma record_decisions_completed: "record_decisions en t ds x = Go y \<Longrightarrow> x_completed y = x_completed x"
proof (induction ds arbitrary: x)
  case (Cons d ds)
  from Cons.prems show ?case
    by (simp, elim recording_Go) (drule Cons.IH, simp)
qed simp

lemma record_artifacts_completed: "record_artifacts en t as x = Go y \<Longrightarrow> x_completed y = x_completed x"
proof (induction as arbitrary: x)
  case (Cons a as)
  from Cons.prems show ?case
    by (simp, elim recording_Go) (drule Cons.IH, simp)
qed simp

text \<open>What a task that completes went through.\<close>

lemma run_task_Go:
  assumes "run_task en c paths run_id snapshots adapter revoked t x = Go y"
  obtains ev r x2 artifacts fs1 x3 ev' r' where
    "en_ctx_err en (x_completed x) = None"
    "record_event (en_sha en) (en_schema_event en) (x_recorder x)
       (event_draft ''task_started'' (t_id t) ''success'' ''task started'' []) = (Inr ev, r)"
    "record_decisions en t (evaluate_task_policy c t revoked (en_clock en (x_completed x))) (x\<lparr>x_recorder := r\<rparr>) = Go x2"
    "first_denied_decision (evaluate_task_policy c t revoked (en_clock en (x_completed x))) = None"
    "execute_task (rp_workspace_root paths) c t (x_states x2) adapter (x_fs x2) = (Inr artifacts, fs1)"
    "record_artifacts en t artifacts (x2\<lparr>x_fs := fs1\<rparr>) = Go x3"
    "record_event (en_sha en) (en_schema_event en) (x_recorder x3)
       (event_draft ''task_finished'' (t_id t) ''success'' ''task completed'' (map ar_artifact_id artifacts)) = (Inr ev', r')"
    "y = x3\<lparr>x_recorder := r', x_states := set_status (x_states x3) (t_id t) ''success'',
            x_completed := x_completed x3 + 1\<rparr>"
  using assms
  by (auto simp: run_task_def abort_def Let_def elim!: recording_Go
      split: option.splits halting.splits prod.splits sum.splits)

lemma run_task_completed:
  "run_task en c paths run_id snapshots adapter revoked t x = Go y \<Longrightarrow> x_completed y = x_completed x + 1"
  by (erule run_task_Go) (auto dest!: record_decisions_completed record_artifacts_completed)

lemma run_pass_completed:
  "run_pass en c paths run_id snapshots adapter revoked ts x progress = Go (y, progress') \<Longrightarrow>
     x_completed x \<le> x_completed y \<and> (progress' \<longrightarrow> progress \<or> x_completed x < x_completed y)"
proof (induction ts arbitrary: x progress)
  case (Cons t ts)
  show ?case
  proof (cases "status_of (x_states x) (t_id t) = ''success'' \<or> \<not> dependencies_complete (x_states x) (t_depends_on t)")
    case True
    with Cons show ?thesis by simp
  next
    case False
    with Cons.prems obtain x1 where x1: "run_task en c paths run_id snapshots adapter revoked t x = Go x1"
      "run_pass en c paths run_id snapshots adapter revoked ts x1 True = Go (y, progress')"
      by (auto split: halting.splits)
    from run_task_completed [OF x1(1)] Cons.IH [OF x1(2)] show ?thesis by auto
  qed
qed simp

function run_loop ::
    "env \<Rightarrow> contract \<Rightarrow> run_paths \<Rightarrow> string \<Rightarrow> input_snapshot list \<Rightarrow> action_adapter \<Rightarrow> (string \<Rightarrow> bool) \<Rightarrow>
     exec \<Rightarrow> exec halting" where
  "run_loop en c paths run_id snapshots adapter revoked x =
     (if \<not> x_completed x < length (c_tasks c) then Go x
      else case run_pass en c paths run_id snapshots adapter revoked (c_tasks c) x False of
          Halt oc \<Rightarrow> Halt oc
        | Go (x1, progress) \<Rightarrow>
            if \<not> progress then abort (Errorf ''task graph made no progress'') (x_fs x1)
            else run_loop en c paths run_id snapshots adapter revoked x1)"
  by pat_completeness auto
termination
proof (relation "measure (\<lambda>(en, c, paths, run_id, snapshots, adapter, revoked, x). length (c_tasks c) - x_completed x)",
    goal_cases)
  case (2 en c paths run_id snapshots adapter revoked x y x1 progress)
  then have "x_completed x < x_completed x1" using run_pass_completed by metis
  with 2(1) show ?case by simp
qed simp

declare run_loop.simps [simp del]

subsection \<open>Execute\<close>

definition start_exec :: "env \<Rightarrow> contract \<Rightarrow> string \<Rightarrow> fs \<Rightarrow> exec" where
  "start_exec en c run_id fs =
     \<lparr>x_recorder = new_recorder run_id, x_states = initial_states (c_tasks c), x_artifacts = [],
      x_task_artifacts = (\<lambda>_. []), x_decisions = [], x_failures = [], x_completed = 0, x_fs = fs\<rparr>"

definition run_contract ::
    "env \<Rightarrow> contract \<Rightarrow> run_paths \<Rightarrow> string \<Rightarrow> input_snapshot list \<Rightarrow> action_adapter \<Rightarrow> (string \<Rightarrow> bool) \<Rightarrow> fs \<Rightarrow> run_outcome" where
  "run_contract en c paths run_id snapshots adapter revoked fs =
     (case recording en (event_draft ''run_started'' [] ''success'' ''run accepted'' []) (start_exec en c run_id fs)
             (\<lambda>_ x. run_loop en c paths run_id snapshots adapter revoked x) of
        Halt oc \<Rightarrow> oc
      | Go x \<Rightarrow>
          (case verify_required_obligations c (x_states x) of
             Some e \<Rightarrow> \<lparr>oc_result = None, oc_error = Some e, oc_fs = x_fs x\<rparr>
           | None \<Rightarrow> finish_run en c paths run_id snapshots ''success'' ''run completed'' x))"

definition resolve_run_id :: "env \<Rightarrow> run_options \<Rightarrow> string" where
  "resolve_run_id en opts =
     (let i = trim_space (op_run_id opts) in if i = [] then ''run-'' @ int_text (en_unix_nano en) else i)"

definition check_run :: "env \<Rightarrow> contract \<Rightarrow> run_options \<Rightarrow> fs \<Rightarrow> run_paths go_result" where
  "check_run en c opts fs =
     unless_error (first_error [en_schema_contract en c, validate_contract (en_schema_task en) (en_iter en) c]) (
     bind_result (absolute_dir (en_cwd en) (op_workspace_dir opts) ''workspace'') (\<lambda>workspace_dir.
     bind_result (absolute_dir (en_cwd en) (op_out_dir opts) ''out'') (\<lambda>out_dir.
     unless_error (validate_run_id (resolve_run_id en opts)) (
     bind_result (case safe_join workspace_dir (ws_root (c_workspace c)) of
         Inl e \<Rightarrow> Inl (Errorf (''workspace root: '' @ error_text e)) | Inr root \<Rightarrow> Inr root) (\<lambda>root.
     unless_error (verify_declared_reads root (ws_reads (c_workspace c)) fs) (
       let run_dir = path_join [out_dir, resolve_run_id en opts] in
       Inr \<lparr>rp_workspace_root = root, rp_run_dir = run_dir, rp_ledger = path_join [run_dir, ''events.ndjson''],
            rp_evidence = path_join [run_dir, ''evidence-pack.json'']\<rparr>))))))"

definition execute ::
    "env \<Rightarrow> action_adapter \<Rightarrow> contract \<Rightarrow> run_options \<Rightarrow> fs \<Rightarrow> run_outcome" where
  "execute en adapter c opts fs =
     (case check_run en c opts fs of
        Inl e \<Rightarrow> \<lparr>oc_result = None, oc_error = Some e, oc_fs = fs\<rparr>
      | Inr paths \<Rightarrow>
          (case os_mkdir_all fs (rp_run_dir paths) of
             Inl e \<Rightarrow> \<lparr>oc_result = None, oc_error = Some (Errorf (''create run dir: '' @ error_text e)), oc_fs = fs\<rparr>
           | Inr fs1 \<Rightarrow>
               (case snapshot_declared_reads (en_sha en) (rp_workspace_root paths) (rp_run_dir paths) 0
                       (ws_reads (c_workspace c)) fs1 of
                  (Inl e, fs2) \<Rightarrow> \<lparr>oc_result = None, oc_error = Some e, oc_fs = fs2\<rparr>
                | (Inr snapshots, fs2) \<Rightarrow>
                    (case os_write_file fs2 (rp_ledger paths) [] of
                       Inl e \<Rightarrow> \<lparr>oc_result = None, oc_error = Some (Errorf (''create ledger: '' @ error_text e)), oc_fs = fs2\<rparr>
                     | Inr fs3 \<Rightarrow>
                         run_contract en c paths (resolve_run_id en opts) snapshots adapter (op_revoked opts) fs3))))"

end
