(* ===== verification/Verify.thy ===== *)
theory Verify
  imports Run_Types Workspace
begin

text \<open>
  Verification of a finished run (internal/verify): the ledger's chain, its digest, the input
  snapshots and artifacts on disk, the provenance of every artifact, decision and closure row,
  revoked tickets, and the failure summary. Decoding a ledger line or the evidence file is the
  schema validator (third-party code) followed by \<open>json.Unmarshal\<close>: the arguments
  \<open>decode_event\<close> and \<open>decode_evidence\<close>.
\<close>

subsection \<open>Results (types.go)\<close>

record failure_summary =
  fs_failure_id :: string
  fs_event_id :: string
  fs_event_line :: nat
  fs_task_id :: string
  fs_phase :: string
  fs_reason :: string

record verify_result =
  vr_schema_version :: string
  vr_verified :: bool
  vr_run_id :: string
  vr_event_count :: nat
  vr_artifact_count :: nat
  vr_input_snapshot_count :: nat
  vr_failure_count :: nat
  vr_failures :: "failure_summary list"
  vr_policy_explanations :: "explanation list"
  vr_ledger_digest :: string
  vr_last_event_hash :: string

record verify_options =
  vo_ledger_path :: string
  vo_evidence_path :: string
  vo_workspace_dir :: string
  vo_revoked :: "string \<Rightarrow> bool"

subsection \<open>Reading the ledger\<close>

text \<open>
  \<open>bufio.Scanner\<close> with its default split function and buffer: lines without their line end (a
  carriage return before it is dropped), no last empty line, no line of 64 KiB or more.
\<close>

definition drop_cr :: "string \<Rightarrow> string" where
  "drop_cr w = (if w \<noteq> [] \<and> byte (last w) = 13 then butlast w else w)"

definition scan_lines :: "string \<Rightarrow> string list" where
  "scan_lines text =
     (let ws = split_on (CHR 0x0A) text in if last ws = [] then butlast ws else ws)"

definition event_lines_from :: "event list \<Rightarrow> string \<Rightarrow> nat option" where
  "event_lines_from es = map_of (rev (map (\<lambda>(i, e). (ev_event_id e, i)) (enumerate 1 es)))"

definition read_ledger :: "(string \<Rightarrow> event go_result) \<Rightarrow> string \<Rightarrow> event list go_result" where
  "read_ledger decode_event text =
     map_result (\<lambda>w. if 65536 \<le> length w then Inl (Errorf ''scan ledger: bufio.Scanner: token too long'')
       else decode_event (drop_cr w)) (scan_lines text)"

subsection \<open>Artifacts and snapshots on disk\<close>

definition verify_artifact :: "(string \<Rightarrow> string) \<Rightarrow> fs \<Rightarrow> string \<Rightarrow> artifact_ref \<Rightarrow> go_error option" where
  "verify_artifact sha fs workspace_dir a =
     (let label = ''artifact '' @ ar_artifact_id a @ '' path '' @ quoted (ar_path a) in
      if ar_uri a \<noteq> ''covenant-artifact://sha256/'' @ ar_digest a
        then Some (Errorf (''artifact '' @ ar_artifact_id a @ '' URI '' @ quoted (ar_uri a) @
               '' does not match digest '' @ quoted (ar_digest a)))
      else case workspace_artifact_path workspace_dir (ar_path a) of
          Inl e \<Rightarrow> Some (Errorf (label @ '': '' @ error_text e))
        | Inr target \<Rightarrow>
            (case os_stat fs target of
               Inl e \<Rightarrow> Some (Errorf (label @ '': '' @ error_text e))
             | Inr info \<Rightarrow>
                 if info = Dir then Some (Errorf (label @ '' is a directory''))
                 else (case file_digest sha fs target of
                     Inl e \<Rightarrow> Some (Errorf (label @ '': '' @ error_text e))
                   | Inr actual \<Rightarrow>
                       fail_if (actual \<noteq> ar_digest a)
                         (Errorf (''artifact digest mismatch for '' @ ar_artifact_id a @ '' path '' @ quoted (ar_path a) @
                            '': evidence '' @ ar_digest a @ '' != actual '' @ actual)))))"

definition verify_artifacts :: "(string \<Rightarrow> string) \<Rightarrow> fs \<Rightarrow> string \<Rightarrow> artifact_ref list \<Rightarrow> go_error option" where
  "verify_artifacts sha fs workspace_dir as = first_error (map (verify_artifact sha fs workspace_dir) as)"

definition verify_input_snapshot :: "(string \<Rightarrow> string) \<Rightarrow> fs \<Rightarrow> string \<Rightarrow> input_snapshot \<Rightarrow> go_error option" where
  "verify_input_snapshot sha fs run_dir s =
     (let label = ''input snapshot '' @ sn_snapshot_id s @ '' path '' @ quoted (sn_snapshot_path s) in
      case input_snapshot_path run_dir (sn_snapshot_path s) of
        Inl e \<Rightarrow> Some (Errorf (label @ '': '' @ error_text e))
      | Inr target \<Rightarrow>
          (case os_stat fs target of
             Inl e \<Rightarrow> Some (Errorf (label @ '': '' @ error_text e))
           | Inr info \<Rightarrow>
               if info = Dir then Some (Errorf (label @ '' is a directory''))
               else (case file_digest sha fs target of
                   Inl e \<Rightarrow> Some (Errorf (label @ '': '' @ error_text e))
                 | Inr actual \<Rightarrow>
                     fail_if (actual \<noteq> sn_digest s)
                       (Errorf (''input snapshot digest mismatch for '' @ sn_snapshot_id s @ '' path '' @
                          quoted (sn_snapshot_path s) @ '': evidence '' @ sn_digest s @ '' != actual '' @ actual)))))"

definition verify_input_snapshots :: "(string \<Rightarrow> string) \<Rightarrow> fs \<Rightarrow> string \<Rightarrow> input_snapshot list \<Rightarrow> go_error option" where
  "verify_input_snapshots sha fs run_dir ss = first_error (map (verify_input_snapshot sha fs run_dir) ss)"

subsection \<open>Policy events\<close>

record policy_event_counts =
  pe_by_decision_id :: "string \<Rightarrow> nat"
  pe_legacy :: "string \<Rightarrow> nat"

definition policy_event_key :: "string \<Rightarrow> string \<Rightarrow> string \<Rightarrow> string" where
  "policy_event_key task_id status reason = task_id @ [CHR 0x00] @ status @ [CHR 0x00] @ reason"

definition policy_event_status :: "string \<Rightarrow> string" where
  "policy_event_status d = (if d = decision_deny then ''failed'' else ''success'')"

definition count_policy_event :: "policy_event_counts \<Rightarrow> event \<Rightarrow> policy_event_counts" where
  "count_policy_event ix e =
     (if ev_type e \<noteq> ''policy_decided'' then ix
      else if ev_decision_id e \<noteq> [] then
        ix\<lparr>pe_by_decision_id := (pe_by_decision_id ix)(ev_decision_id e := pe_by_decision_id ix (ev_decision_id e) + 1)\<rparr>
      else (let k = policy_event_key (ev_task_id e) (ev_status e) (ev_message e) in
        ix\<lparr>pe_legacy := (pe_legacy ix)(k := pe_legacy ix k + 1)\<rparr>))"

definition policy_event_index :: "event list \<Rightarrow> policy_event_counts" where
  "policy_event_index es = foldl count_policy_event \<lparr>pe_by_decision_id = (\<lambda>_. 0), pe_legacy = (\<lambda>_. 0)\<rparr> es"

definition consume :: "policy_event_counts \<Rightarrow> decision \<Rightarrow> bool \<times> policy_event_counts" where
  "consume ix d =
     (let i = dc_decision_id d; k = policy_event_key (dc_task_id d) (policy_event_status (dc_decision d)) (dc_reason d) in
      if 0 < pe_by_decision_id ix i
        then (True, ix\<lparr>pe_by_decision_id := (pe_by_decision_id ix)(i := pe_by_decision_id ix i - 1)\<rparr>)
      else if pe_legacy ix k = 0 then (False, ix)
      else (True, ix\<lparr>pe_legacy := (pe_legacy ix)(k := pe_legacy ix k - 1)\<rparr>))"

fun consume_all :: "policy_event_counts \<Rightarrow> decision list \<Rightarrow> go_error option" where
  "consume_all ix [] = None"
| "consume_all ix (d # ds) =
     (case consume ix d of (ok, ix') \<Rightarrow>
        if ok then consume_all ix' ds
        else Some (Errorf (''policy decision '' @ dc_decision_id d @ '' missing matching ledger policy_decided event'')))"

subsection \<open>Provenance\<close>

definition event_by_id :: "event list \<Rightarrow> string \<Rightarrow> event option" where
  "event_by_id es = map_of (rev (map (\<lambda>e. (ev_event_id e, e)) es))"

definition artifact_by_id :: "artifact_ref list \<Rightarrow> string \<Rightarrow> artifact_ref option" where
  "artifact_by_id as = map_of (rev (map (\<lambda>a. (ar_artifact_id a, a)) as))"

definition decision_by_id :: "decision list \<Rightarrow> string \<Rightarrow> decision option" where
  "decision_by_id ds = map_of (rev (map (\<lambda>d. (dc_decision_id d, d)) ds))"

definition check_artifact_producer :: "event list \<Rightarrow> artifact_ref \<Rightarrow> go_error option" where
  "check_artifact_producer es a =
     (case event_by_id es (ar_producer_event_id a) of
        None \<Rightarrow> Some (Errorf (''artifact '' @ ar_artifact_id a @ '' references missing producer event '' @ ar_producer_event_id a))
      | Some e \<Rightarrow> first_error [
          fail_if (ev_type e \<noteq> ''artifact_recorded'')
            (Errorf (''artifact '' @ ar_artifact_id a @ '' producer event '' @ ar_producer_event_id a @ '' has type '' @
               ev_type e @ '', want artifact_recorded'')),
          fail_if (ar_artifact_id a \<notin> set (ev_artifact_ids e))
            (Errorf (''artifact '' @ ar_artifact_id a @ '' producer event '' @ ar_producer_event_id a @
               '' does not include artifact '' @ ar_artifact_id a))])"

definition check_row_artifact :: "evidence_pack \<Rightarrow> event list \<Rightarrow> closure_row \<Rightarrow> string \<Rightarrow> go_error option" where
  "check_row_artifact pk es row artifact_id =
     (case artifact_by_id (pk_artifact_manifest pk) artifact_id of
        None \<Rightarrow> Some (Errorf (''closure row '' @ rw_obligation_id row @ '' references missing artifact '' @ artifact_id))
      | Some a \<Rightarrow>
          (case event_by_id es (ar_producer_event_id a) of
             None \<Rightarrow> Some (Errorf (''closure row '' @ rw_obligation_id row @ '' artifact '' @ artifact_id @
                       '' references missing producer event '' @ ar_producer_event_id a))
           | Some e \<Rightarrow> fail_if (ev_task_id e \<notin> set (rw_task_ids row))
               (Errorf (''closure row '' @ rw_obligation_id row @ '' artifact '' @ artifact_id @
                  '' was produced by task '' @ ev_task_id e @ '' not claimed by closure row''))))"

definition check_row_covers_artifact :: "event list \<Rightarrow> closure_row \<Rightarrow> artifact_ref \<Rightarrow> go_error option" where
  "check_row_covers_artifact es row a =
     (case event_by_id es (ar_producer_event_id a) of
        None \<Rightarrow> None
      | Some e \<Rightarrow> fail_if (ev_task_id e \<in> set (rw_task_ids row) \<and> ar_artifact_id a \<notin> set (rw_artifact_ids row))
          (Errorf (''closure row '' @ rw_obligation_id row @ '' missing artifact '' @ ar_artifact_id a @
             '' for claimed task '' @ ev_task_id e)))"

definition check_row_decision :: "evidence_pack \<Rightarrow> closure_row \<Rightarrow> string \<Rightarrow> go_error option" where
  "check_row_decision pk row did =
     (case decision_by_id (pk_policy_decisions pk) did of
        None \<Rightarrow> Some (Errorf (''closure row '' @ rw_obligation_id row @ '' references missing policy decision '' @ did))
      | Some d \<Rightarrow> fail_if (dc_task_id d \<notin> set (rw_task_ids row))
          (Errorf (''closure row '' @ rw_obligation_id row @ '' policy decision '' @ did @
             '' belongs to task '' @ dc_task_id d @ '' not claimed by closure row'')))"

definition check_row_covers_decision :: "closure_row \<Rightarrow> decision \<Rightarrow> go_error option" where
  "check_row_covers_decision row d =
     fail_if (dc_task_id d \<in> set (rw_task_ids row) \<and> dc_decision_id d \<notin> set (rw_policy_decision_ids row))
       (Errorf (''closure row '' @ rw_obligation_id row @ '' missing policy decision '' @ dc_decision_id d @
          '' for claimed task '' @ dc_task_id d))"

definition check_row :: "evidence_pack \<Rightarrow> event list \<Rightarrow> closure_row \<Rightarrow> go_error option" where
  "check_row pk es row =
     first_error (
       map (check_row_artifact pk es row) (rw_artifact_ids row) @
       map (check_row_covers_artifact es row) (pk_artifact_manifest pk) @
       map (check_row_decision pk row) (rw_policy_decision_ids row) @
       map (check_row_covers_decision row) (pk_policy_decisions pk))"

definition verify_evidence_provenance :: "evidence_pack \<Rightarrow> event list \<Rightarrow> go_error option" where
  "verify_evidence_provenance pk es =
     first_error (
       [consume_all (policy_event_index es) (pk_policy_decisions pk)] @
       map (check_artifact_producer es) (pk_artifact_manifest pk) @
       map (check_row pk es) (mx_rows (pk_closure_matrix pk)))"

definition verify_revoked_approval_tickets :: "decision list \<Rightarrow> (string \<Rightarrow> bool) \<Rightarrow> go_error option" where
  "verify_revoked_approval_tickets ds revoked =
     first_error (map (\<lambda>d. fail_if (dc_ticket_id d \<noteq> [] \<and> revoked (dc_ticket_id d))
       (Errorf (''policy decision '' @ dc_decision_id d @ '' references revoked approval ticket '' @
          quoted (dc_ticket_id d)))) ds)"

definition summarize_failure :: "(string \<Rightarrow> nat option) \<Rightarrow> failure_record \<Rightarrow> failure_summary go_result" where
  "summarize_failure event_lines f =
     (case event_lines (fr_event_id f) of
        None \<Rightarrow> Inl (Errorf (''failure '' @ fr_failure_id f @ '' references missing ledger event '' @ fr_event_id f))
      | Some line \<Rightarrow> Inr \<lparr>fs_failure_id = fr_failure_id f, fs_event_id = fr_event_id f, fs_event_line = line,
                         fs_task_id = fr_task_id f, fs_phase = fr_phase f, fs_reason = fr_reason f\<rparr>)"

definition summarize_failures :: "failure_record list \<Rightarrow> (string \<Rightarrow> nat option) \<Rightarrow> failure_summary list go_result" where
  "summarize_failures fs event_lines = map_result (summarize_failure event_lines) fs"

subsection \<open>Verify\<close>

definition labelled :: "string \<Rightarrow> 'a go_result \<Rightarrow> 'a go_result" where
  "labelled label r = map_sum (\<lambda>e. Errorf (label @ error_text e)) id r"

lemma labelled_Inr [simp]: "labelled label r = Inr x \<longleftrightarrow> r = Inr x"
  by (cases r) (simp_all add: labelled_def)

text \<open>The workspace above a ledger at \<open>.covenant/runs/<run>/events.ndjson\<close>.\<close>

definition infer_workspace_from_ledger :: "string \<Rightarrow> string \<Rightarrow> string option" where
  "infer_workspace_from_ledger cwd p =
     (let cleaned = (if is_abs p then path_clean p else path_join [cwd, p]);
          runs_dir = path_dir (path_dir cleaned); covenant_dir = path_dir runs_dir in
      if path_base cleaned \<noteq> ''events.ndjson'' then None
      else if path_base runs_dir \<noteq> ''runs'' \<or> path_base covenant_dir \<noteq> ''.covenant'' then None
      else Some (path_dir covenant_dir))"

definition resolve_workspace_dir :: "string \<Rightarrow> verify_options \<Rightarrow> string go_result" where
  "resolve_workspace_dir cwd opts =
     (if trim_space (vo_workspace_dir opts) \<noteq> [] then absolute_dir cwd (vo_workspace_dir opts) ''workspace''
      else case infer_workspace_from_ledger cwd (vo_ledger_path opts) of
          Some d \<Rightarrow> Inr d
        | None \<Rightarrow> absolute_dir cwd ''.'' ''workspace'')"

definition verify_run ::
    "(string \<Rightarrow> string) \<Rightarrow> (string \<Rightarrow> event go_result) \<Rightarrow> (string \<Rightarrow> evidence_pack go_result) \<Rightarrow> string \<Rightarrow>
     verify_options \<Rightarrow> fs \<Rightarrow> verify_result go_result" where
  "verify_run sha decode_event decode_evidence cwd opts fs =
     bind_result (labelled ''open ledger: '' (os_read_file fs (vo_ledger_path opts))) (\<lambda>text.
     bind_result (read_ledger decode_event text) (\<lambda>es.
     unless_error (fail_if (es = []) (Errorf ''ledger has no events'')) (
     unless_error (verify_chain sha es) (
     bind_result (bind_result (labelled ''read evidence: '' (os_read_file fs (vo_evidence_path opts))) decode_evidence) (\<lambda>pk.
     unless_error (first_error [
         fail_if (pk_ledger_digest pk \<noteq> sha text)
           (Errorf (''ledger digest mismatch: evidence '' @ pk_ledger_digest pk @ '' != actual '' @ sha text)),
         fail_if (pk_run_id pk \<noteq> ev_run_id (hd es))
           (Errorf (''run id mismatch: evidence '' @ pk_run_id pk @ '' != ledger '' @ ev_run_id (hd es))),
         verify_input_snapshots sha fs (path_dir (vo_evidence_path opts)) (pk_input_snapshots pk)]) (
     bind_result (resolve_workspace_dir cwd opts) (\<lambda>workspace_dir.
     unless_error (first_error [
         verify_artifacts sha fs workspace_dir (pk_artifact_manifest pk),
         verify_evidence_provenance pk es,
         verify_revoked_approval_tickets (pk_policy_decisions pk) (vo_revoked opts)]) (
     bind_result (summarize_failures (pk_failures pk) (event_lines_from es)) (\<lambda>failures.
       Inr \<lparr>vr_schema_version = ''covenant.verify-result.v1'', vr_verified = True, vr_run_id = pk_run_id pk,
            vr_event_count = length es, vr_artifact_count = length (pk_artifact_manifest pk),
            vr_input_snapshot_count = length (pk_input_snapshots pk), vr_failure_count = length (pk_failures pk),
            vr_failures = failures, vr_policy_explanations = explain_decisions (pk_policy_decisions pk),
            vr_ledger_digest = sha text, vr_last_event_hash = ev_event_hash (last es)\<rparr>)))))))))"

end
