(* ===== verification/Provenance.thy ===== *)
theory Provenance
  imports Verify
begin

text \<open>
  When the provenance check of the verifier passes: the lemmas on the lookup maps and on the
  accounting of policy events, and a description of a ledger that accounts for an evidence
  pack (\<open>accounts_for\<close>), from which the check passes.
\<close>

subsection \<open>Lookups\<close>

lemma map_of_rev_distinct:
  "distinct (map key xs) \<Longrightarrow> x \<in> set xs \<Longrightarrow> map_of (rev (map (\<lambda>x. (key x, x)) xs)) (key x) = Some x"
  by (rule map_of_is_SomeI) (auto simp: rev_map [symmetric] o_def)

lemma map_of_rev_Some:
  "map_of (rev (map (\<lambda>x. (key x, x)) xs)) k = Some x \<Longrightarrow> x \<in> set xs \<and> key x = k"
  by (auto dest!: map_of_SomeD)

lemma event_by_id_in: "distinct (map ev_event_id es) \<Longrightarrow> e \<in> set es \<Longrightarrow> event_by_id es (ev_event_id e) = Some e"
  unfolding event_by_id_def by (rule map_of_rev_distinct)

lemma artifact_by_id_in:
  "distinct (map ar_artifact_id as) \<Longrightarrow> a \<in> set as \<Longrightarrow> artifact_by_id as (ar_artifact_id a) = Some a"
  unfolding artifact_by_id_def by (rule map_of_rev_distinct)

lemma decision_by_id_in:
  "distinct (map dc_decision_id ds) \<Longrightarrow> d \<in> set ds \<Longrightarrow> decision_by_id ds (dc_decision_id d) = Some d"
  unfolding decision_by_id_def by (rule map_of_rev_distinct)

subsection \<open>Accounting of policy events\<close>

definition policy_events :: "event list \<Rightarrow> event list" where
  "policy_events es = filter (\<lambda>e. ev_type e = ''policy_decided'') es"

definition artifact_events :: "event list \<Rightarrow> event list" where
  "artifact_events es = filter (\<lambda>e. ev_type e = ''artifact_recorded'') es"

lemma policy_event_index_count:
  assumes "i \<noteq> []"
  shows "pe_by_decision_id (policy_event_index es) i = count_list (map ev_decision_id (policy_events es)) i"
proof -
  have "pe_by_decision_id (foldl count_policy_event ix es) i =
      pe_by_decision_id ix i + count_list (map ev_decision_id (policy_events es)) i" for ix
    using assms by (induction es arbitrary: ix) (auto simp: policy_events_def count_policy_event_def Let_def)
  then show ?thesis by (simp add: policy_event_index_def)
qed

lemma consume_all_None:
  assumes "\<forall>i. count_list (map dc_decision_id ds) i \<le> pe_by_decision_id ix i"
  shows "consume_all ix ds = None"
  using assms
proof (induction ds arbitrary: ix)
  case (Cons d ds)
  let ?i = "dc_decision_id d"
  from Cons.prems have pos: "0 < pe_by_decision_id ix ?i" by (auto dest: spec [of _ ?i])
  then have step: "consume ix d = (True, ix\<lparr>pe_by_decision_id := (pe_by_decision_id ix)(?i := pe_by_decision_id ix ?i - 1)\<rparr>)"
    by (simp add: consume_def Let_def)
  have "\<forall>j. count_list (map dc_decision_id ds) j \<le>
      pe_by_decision_id (ix\<lparr>pe_by_decision_id := (pe_by_decision_id ix)(?i := pe_by_decision_id ix ?i - 1)\<rparr>) j"
  proof
    fix j
    from Cons.prems have "count_list (map dc_decision_id (d # ds)) j \<le> pe_by_decision_id ix j" by blast
    then show "count_list (map dc_decision_id ds) j \<le>
        pe_by_decision_id (ix\<lparr>pe_by_decision_id := (pe_by_decision_id ix)(?i := pe_by_decision_id ix ?i - 1)\<rparr>) j"
      by (auto split: if_splits)
  qed
  from Cons.IH [OF this] show ?case by (simp add: step)
qed simp

subsection \<open>A ledger that accounts for a pack\<close>

text \<open>
  The policy events are the decisions, the artifact events the artifacts, one for one and in
  order, and the closure rows name the tasks' own artifacts and decisions.
\<close>

definition decisions_accounted :: "event list \<Rightarrow> decision list \<Rightarrow> bool" where
  "decisions_accounted es ds \<longleftrightarrow>
     map (\<lambda>e. (ev_decision_id e, ev_task_id e, ev_decision e)) (policy_events es) =
     map (\<lambda>d. (dc_decision_id d, dc_task_id d, dc_decision d)) ds"

definition artifacts_accounted :: "event list \<Rightarrow> artifact_ref list \<Rightarrow> bool" where
  "artifacts_accounted es as \<longleftrightarrow>
     map (\<lambda>e. (ev_event_id e, ev_artifact_ids e)) (artifact_events es) =
     map (\<lambda>a. (ar_producer_event_id a, [ar_artifact_id a])) as"

definition artifacts_of_task :: "event list \<Rightarrow> string \<Rightarrow> string list" where
  "artifacts_of_task es i = concat (map ev_artifact_ids (filter (\<lambda>e. ev_task_id e = i) (artifact_events es)))"

definition row_accounted :: "event list \<Rightarrow> decision list \<Rightarrow> closure_row \<Rightarrow> bool" where
  "row_accounted es ds row \<longleftrightarrow>
     rw_artifact_ids row = concat (map (artifacts_of_task es) (rw_task_ids row)) \<and>
     rw_policy_decision_ids row = map dc_decision_id (filter (\<lambda>d. dc_task_id d \<in> set (rw_task_ids row)) ds)"

definition accounts_for :: "event list \<Rightarrow> evidence_pack \<Rightarrow> bool" where
  "accounts_for es pk \<longleftrightarrow>
     distinct (map ev_event_id es) \<and>
     decisions_accounted es (pk_policy_decisions pk) \<and>
     (\<forall>d \<in> set (pk_policy_decisions pk). dc_decision_id d \<noteq> []) \<and>
     distinct (map dc_decision_id (pk_policy_decisions pk)) \<and>
     artifacts_accounted es (pk_artifact_manifest pk) \<and>
     distinct (map ar_artifact_id (pk_artifact_manifest pk)) \<and>
     (\<forall>row \<in> set (mx_rows (pk_closure_matrix pk)). row_accounted es (pk_policy_decisions pk) row)"

lemma decisions_accounted_consume:
  assumes "decisions_accounted es ds" and "\<forall>d \<in> set ds. dc_decision_id d \<noteq> []"
  shows "consume_all (policy_event_index es) ds = None"
proof (rule consume_all_None, rule allI)
  fix i
  have ids: "map ev_decision_id (policy_events es) = map dc_decision_id ds"
    using arg_cong [OF assms(1) [unfolded decisions_accounted_def], of "map fst"] by (simp add: o_def)
  show "count_list (map dc_decision_id ds) i \<le> pe_by_decision_id (policy_event_index es) i"
  proof (cases "i = []")
    case True
    with assms(2) have "i \<notin> set (map dc_decision_id ds)" by auto
    then have "count_list (map dc_decision_id ds) i = 0" by (rule count_notin)
    then show ?thesis by simp
  next
    case False
    then show ?thesis by (simp add: policy_event_index_count ids)
  qed
qed

lemma artifact_event_of:
  assumes "artifacts_accounted es as" and "a \<in> set as"
  obtains e where "e \<in> set (artifact_events es)" "ev_event_id e = ar_producer_event_id a"
    "ev_artifact_ids e = [ar_artifact_id a]"
proof -
  from assms(2) have "(ar_producer_event_id a, [ar_artifact_id a]) \<in>
      set (map (\<lambda>a. (ar_producer_event_id a, [ar_artifact_id a])) as)" by auto
  with assms(1) have "(ar_producer_event_id a, [ar_artifact_id a]) \<in>
      set (map (\<lambda>e. (ev_event_id e, ev_artifact_ids e)) (artifact_events es))"
    by (simp add: artifacts_accounted_def)
  then show thesis using that by auto
qed

lemma artifact_of_event:
  assumes "artifacts_accounted es as" and "e \<in> set (artifact_events es)"
  obtains a where "a \<in> set as" "ev_event_id e = ar_producer_event_id a" "ev_artifact_ids e = [ar_artifact_id a]"
proof -
  from assms(2) have "(ev_event_id e, ev_artifact_ids e) \<in>
      set (map (\<lambda>e. (ev_event_id e, ev_artifact_ids e)) (artifact_events es))" by auto
  with assms(1) have "(ev_event_id e, ev_artifact_ids e) \<in>
      set (map (\<lambda>a. (ar_producer_event_id a, [ar_artifact_id a])) as)"
    by (simp add: artifacts_accounted_def)
  then show thesis using that by auto
qed

lemma row_accounted_passes:
  assumes pk: "accounts_for es pk" and row: "row \<in> set (mx_rows (pk_closure_matrix pk))"
  shows "check_row pk es row = None"
proof -
  let ?as = "pk_artifact_manifest pk" and ?ds = "pk_policy_decisions pk"
  from pk have dist: "distinct (map ev_event_id es)" "distinct (map dc_decision_id ?ds)"
      "distinct (map ar_artifact_id ?as)"
    and acc: "artifacts_accounted es ?as" by (simp_all add: accounts_for_def)
  from pk row have r: "rw_artifact_ids row = concat (map (artifacts_of_task es) (rw_task_ids row))"
    "rw_policy_decision_ids row = map dc_decision_id (filter (\<lambda>d. dc_task_id d \<in> set (rw_task_ids row)) ?ds)"
    by (auto simp: accounts_for_def row_accounted_def)
  have in_es: "event_by_id es (ev_event_id e) = Some e" if "e \<in> set (artifact_events es)" for e
    using that dist(1) by (intro event_by_id_in) (auto simp: artifact_events_def)
  have "check_row_artifact pk es row i = None" if "i \<in> set (rw_artifact_ids row)" for i
  proof -
    from that r(1) obtain e where e: "e \<in> set (artifact_events es)" "ev_task_id e \<in> set (rw_task_ids row)"
      "i \<in> set (ev_artifact_ids e)" by (auto simp: artifacts_of_task_def)
    obtain a where a: "a \<in> set ?as" "ev_event_id e = ar_producer_event_id a" "ev_artifact_ids e = [ar_artifact_id a]"
      by (rule artifact_of_event [OF acc e(1)])
    with e(3) have "artifact_by_id ?as i = Some a" using artifact_by_id_in [OF dist(3) a(1)] by simp
    with in_es [OF e(1)] a(2) e(2) show ?thesis by (simp add: check_row_artifact_def)
  qed
  moreover have "check_row_covers_artifact es row a = None" if am: "a \<in> set ?as" for a
  proof -
    obtain e where e: "e \<in> set (artifact_events es)" "ev_event_id e = ar_producer_event_id a"
      "ev_artifact_ids e = [ar_artifact_id a]" by (rule artifact_event_of [OF acc am])
    have "ar_artifact_id a \<in> set (rw_artifact_ids row)" if "ev_task_id e \<in> set (rw_task_ids row)"
      unfolding r(1) using e that by (auto simp: artifacts_of_task_def intro!: bexI [of _ "ev_task_id e"] bexI [of _ e])
    with in_es [OF e(1)] e(2) show ?thesis by (simp add: check_row_covers_artifact_def)
  qed
  moreover have "check_row_decision pk row i = None" if "i \<in> set (rw_policy_decision_ids row)" for i
  proof -
    from that r(2) obtain d where "d \<in> set ?ds" "dc_task_id d \<in> set (rw_task_ids row)" "i = dc_decision_id d" by auto
    with decision_by_id_in [OF dist(2)] show ?thesis by (simp add: check_row_decision_def)
  qed
  moreover have "check_row_covers_decision row d = None" if "d \<in> set ?ds" for d
    using that by (auto simp: check_row_covers_decision_def r(2))
  ultimately show ?thesis by (auto simp: check_row_def)
qed

lemma accounts_for_verifies:
  assumes "accounts_for es pk"
  shows "verify_evidence_provenance pk es = None"
proof -
  have "consume_all (policy_event_index es) (pk_policy_decisions pk) = None"
    using assms by (intro decisions_accounted_consume) (simp_all add: accounts_for_def)
  moreover have "check_artifact_producer es a = None" if am: "a \<in> set (pk_artifact_manifest pk)" for a
  proof -
    from assms have acc: "artifacts_accounted es (pk_artifact_manifest pk)" by (simp add: accounts_for_def)
    obtain e where e: "e \<in> set (artifact_events es)"
      "ev_event_id e = ar_producer_event_id a" "ev_artifact_ids e = [ar_artifact_id a]"
      by (rule artifact_event_of [OF acc am])
    then have "event_by_id es (ar_producer_event_id a) = Some e"
      using assms event_by_id_in [of es e] by (simp add: accounts_for_def artifact_events_def)
    with e show ?thesis by (simp add: check_artifact_producer_def artifact_events_def)
  qed
  ultimately show ?thesis
    using row_accounted_passes [OF assms] by (auto simp: verify_evidence_provenance_def)
qed

end
