(* ===== verification/Run_Correct.thy ===== *)
theory Run_Correct
  imports Executor Provenance
begin

text \<open>
  What holds of every run. \<open>traced\<close> relates the executor's variables to the events it has
  written and holds after every emission; \<open>progressed\<close> describes the state between two tasks by
  the order in which the tasks have run. From the two come the verifiability of what a run
  leaves, the order of the tasks, and that the task loop never stalls on a valid contract.
\<close>

subsection \<open>The trace of a run\<close>

definition traced :: "env \<Rightarrow> string \<Rightarrow> exec \<Rightarrow> bool" where
  "traced en run_id x \<longleftrightarrow>
     recorder_ok (en_sha en) (x_recorder x) \<and> rc_run_id (x_recorder x) = run_id \<and>
     decisions_accounted (rc_written (x_recorder x)) (x_decisions x) \<and>
     artifacts_accounted (rc_written (x_recorder x)) (x_artifacts x) \<and>
     (\<forall>i. x_task_artifacts x i = artifacts_of_task (rc_written (x_recorder x)) i)"

lemma accounted_snoc_other:
  "ev_type e \<noteq> ''policy_decided'' \<Longrightarrow> decisions_accounted (es @ [e]) ds = decisions_accounted es ds"
  "ev_type e \<noteq> ''artifact_recorded'' \<Longrightarrow> artifacts_accounted (es @ [e]) as = artifacts_accounted es as"
  "ev_type e \<noteq> ''artifact_recorded'' \<Longrightarrow> artifacts_of_task (es @ [e]) i = artifacts_of_task es i"
  by (simp_all add: decisions_accounted_def policy_events_def artifacts_accounted_def artifact_events_def
      artifacts_of_task_def)

lemma event_draft_fields [simp]:
  "ev_type (event_draft ty t s m as) = ty" "ev_task_id (event_draft ty t s m as) = t"
  "ev_status (event_draft ty t s m as) = s" "ev_artifact_ids (event_draft ty t s m as) = as"
  by (simp_all add: event_draft_def)

lemma policy_event_draft_fields [simp]:
  "ev_type (policy_event_draft t d) = ''policy_decided''" "ev_task_id (policy_event_draft t d) = t"
  "ev_decision_id (policy_event_draft t d) = dc_decision_id d" "ev_decision (policy_event_draft t d) = dc_decision d"
  by (simp_all add: policy_event_draft_def)

lemma traced_record:
  assumes "traced en run_id x"
    and "record_event (en_sha en) (en_schema_event en) (x_recorder x) draft = (res, r)"
    and "ev_type draft \<noteq> ''policy_decided''" "ev_type draft \<noteq> ''artifact_recorded''"
  shows "traced en run_id (x\<lparr>x_recorder := r\<rparr>)"
proof (cases res)
  case (Inl err)
  with assms(2) have "r = (x_recorder x)\<lparr>rc_sequence := rc_sequence (x_recorder x) + 1\<rparr>"
    using record_event_Inl by simp
  with assms recorder_ok_step [OF _ assms(2)] show ?thesis by (simp add: traced_def)
next
  case (Inr e)
  with assms(2) have "rc_written r = rc_written (x_recorder x) @ [e]" "e = stamp (en_sha en) (x_recorder x) draft"
    "rc_run_id r = rc_run_id (x_recorder x)"
    by (simp_all add: record_event_Inr)
  with assms recorder_ok_step [OF _ assms(2)] show ?thesis by (simp add: traced_def accounted_snoc_other)
qed

lemma traced_unrecorded [simp]:
  "traced en run_id (x\<lparr>x_fs := fs\<rparr>) = traced en run_id x"
  "traced en run_id (x\<lparr>x_states := st\<rparr>) = traced en run_id x"
  "traced en run_id (x\<lparr>x_completed := k\<rparr>) = traced en run_id x"
  "traced en run_id (x\<lparr>x_failures := fl\<rparr>) = traced en run_id x"
  by (simp_all add: traced_def)

lemma traced_decision:
  assumes "traced en run_id x" and "dc_task_id d = t"
    and "record_event (en_sha en) (en_schema_event en) (x_recorder x) (policy_event_draft t d) = (Inr e, r)"
  shows "traced en run_id (x\<lparr>x_recorder := r, x_decisions := x_decisions x @ [d]\<rparr>)"
proof -
  from assms(3) have r: "rc_written r = rc_written (x_recorder x) @ [e]"
    "e = stamp (en_sha en) (x_recorder x) (policy_event_draft t d)" "rc_run_id r = rc_run_id (x_recorder x)"
    by (simp_all add: record_event_Inr)
  with assms(1,2) recorder_ok_step [OF _ assms(3)] show ?thesis
    by (simp add: traced_def accounted_snoc_other decisions_accounted_def policy_events_def)
qed

lemma traced_artifact:
  assumes "traced en run_id x"
    and "record_event (en_sha en) (en_schema_event en) (x_recorder x)
      (event_draft ''artifact_recorded'' t s m [ar_artifact_id a]) = (Inr e, r)"
  shows "traced en run_id (x\<lparr>x_recorder := r,
      x_artifacts := x_artifacts x @ [a\<lparr>ar_producer_event_id := ev_event_id e\<rparr>],
      x_task_artifacts := (x_task_artifacts x)(t := x_task_artifacts x t @ [ar_artifact_id a])\<rparr>)"
proof -
  from assms(2) have r: "rc_written r = rc_written (x_recorder x) @ [e]"
    "e = stamp (en_sha en) (x_recorder x) (event_draft ''artifact_recorded'' t s m [ar_artifact_id a])"
    "rc_run_id r = rc_run_id (x_recorder x)"
    by (simp_all add: record_event_Inr)
  with assms(1) recorder_ok_step [OF _ assms(2)] show ?thesis
    by (simp add: traced_def accounted_snoc_other artifacts_accounted_def artifact_events_def artifacts_of_task_def)
qed

text \<open>What the loops over decisions and artifacts do to the state.\<close>

definition started_tasks :: "event list \<Rightarrow> string list" where
  "started_tasks es = map ev_task_id (filter (\<lambda>e. ev_type e = ''task_started'') es)"

definition finished_tasks :: "event list \<Rightarrow> string list" where
  "finished_tasks es = map ev_task_id (filter (\<lambda>e. ev_type e = ''task_finished'' \<and> ev_status e = ''success'') es)"

text \<open>Every task starts after all its dependencies have finished successfully.\<close>

definition starts_in_order :: "contract \<Rightarrow> event list \<Rightarrow> bool" where
  "starts_in_order c es \<longleftrightarrow>
     (\<forall>pre e post. es = pre @ e # post \<longrightarrow> ev_type e = ''task_started'' \<longrightarrow>
        (\<forall>t \<in> set (c_tasks c). t_id t = ev_task_id e \<longrightarrow> set (t_depends_on t) \<subseteq> set (finished_tasks pre)))"

lemma splits_snoc:
  "(\<forall>pre e post. es @ [x] = pre @ e # post \<longrightarrow> P pre e) \<longleftrightarrow>
     (\<forall>pre e post. es = pre @ e # post \<longrightarrow> P pre e) \<and> P es x" (is "?l \<longleftrightarrow> ?r \<and> _")
proof (intro iffI conjI allI impI)
  fix pre e post
  assume ?l and "es = pre @ e # post"
  then have "es @ [x] = pre @ e # (post @ [x])" by simp
  with \<open>?l\<close> show "P pre e" by blast
next
  assume ?l
  then show "P es x" by blast
next
  fix pre e post
  assume r: "?r \<and> P es x" and eq: "es @ [x] = pre @ e # post"
  show "P pre e"
  proof (cases post rule: rev_cases)
    case Nil
    with eq r show ?thesis by simp
  next
    case (snoc post' y)
    with eq have "es = pre @ e # post'" by simp
    with r show ?thesis by blast
  qed
qed

lemma starts_in_order_snoc:
  "starts_in_order c (es @ [e]) \<longleftrightarrow> starts_in_order c es \<and>
     (ev_type e = ''task_started'' \<longrightarrow>
        (\<forall>t \<in> set (c_tasks c). t_id t = ev_task_id e \<longrightarrow> set (t_depends_on t) \<subseteq> set (finished_tasks es)))"
  unfolding starts_in_order_def by (rule splits_snoc)

lemma finished_tasks_append [simp]: "finished_tasks (es @ fs) = finished_tasks es @ finished_tasks fs"
  by (simp add: finished_tasks_def)

lemma started_tasks_append [simp]: "started_tasks (es @ fs) = started_tasks es @ started_tasks fs"
  by (simp add: started_tasks_def)

text \<open>Events that neither start nor finish a task.\<close>

definition quiet :: "event \<Rightarrow> bool" where
  "quiet e \<longleftrightarrow> ev_type e \<noteq> ''task_started'' \<and> (ev_type e = ''task_finished'' \<longrightarrow> ev_status e \<noteq> ''success'')"

lemma quiet_snoc:
  "quiet e \<Longrightarrow> started_tasks (es @ [e]) = started_tasks es"
  "quiet e \<Longrightarrow> finished_tasks (es @ [e]) = finished_tasks es"
  "quiet e \<Longrightarrow> starts_in_order c (es @ [e]) = starts_in_order c es"
  by (simp_all add: quiet_def started_tasks_def finished_tasks_def starts_in_order_snoc)

text \<open>The same tasks have started and finished, in an order that is as good.\<close>

definition same_tasks :: "contract \<Rightarrow> event list \<Rightarrow> event list \<Rightarrow> bool" where
  "same_tasks c es fs \<longleftrightarrow> started_tasks fs = started_tasks es \<and> finished_tasks fs = finished_tasks es \<and>
     (starts_in_order c es \<longrightarrow> starts_in_order c fs)"

lemma same_tasks_refl [simp]: "same_tasks c es es"
  by (simp add: same_tasks_def)

lemma same_tasks_trans: "same_tasks c es fs \<Longrightarrow> same_tasks c fs gs \<Longrightarrow> same_tasks c es gs"
  by (simp add: same_tasks_def)

lemma same_tasks_snoc: "quiet e \<Longrightarrow> same_tasks c es (es @ [e])"
  by (simp add: same_tasks_def quiet_snoc del: started_tasks_append finished_tasks_append)

lemma same_tasks_record:
  assumes "record_event sha sch r d = (res, r')"
    and "ev_type d \<noteq> ''task_started''" and "ev_type d = ''task_finished'' \<longrightarrow> ev_status d \<noteq> ''success''"
  shows "same_tasks c (rc_written r) (rc_written r')"
proof (cases res)
  case (Inl err)
  with assms(1) have "rc_written r' = rc_written r" using record_event_Inl by fastforce
  then show ?thesis by simp
next
  case (Inr e)
  with assms(1) have "rc_written r' = rc_written r @ [e]" "e = stamp sha r d" by (simp_all add: record_event_Inr)
  moreover from this assms(2,3) have "quiet e" by (simp add: quiet_def)
  ultimately show ?thesis by (simp add: same_tasks_snoc)
qed

lemma record_decisions_Go:
  assumes "record_decisions en t ds x = Go y" and "traced en run_id x" and "\<forall>d \<in> set ds. dc_task_id d = t_id t"
  shows "traced en run_id y \<and> x_decisions y = x_decisions x @ ds \<and> x_states y = x_states x \<and>
    x_artifacts y = x_artifacts x \<and> x_failures y = x_failures x \<and> x_completed y = x_completed x \<and>
    x_fs y = x_fs x \<and> same_tasks c (rc_written (x_recorder x)) (rc_written (x_recorder y))"
  using assms
proof (induction ds arbitrary: x)
  case (Cons d ds)
  from Cons.prems(1) obtain e r where
    r: "record_event (en_sha en) (en_schema_event en) (x_recorder x) (policy_event_draft (t_id t) d) = (Inr e, r)"
    and y: "record_decisions en t ds (x\<lparr>x_recorder := r, x_decisions := x_decisions x @ [d]\<rparr>) = Go y"
    by (auto elim!: recording_Go)
  have "traced en run_id (x\<lparr>x_recorder := r, x_decisions := x_decisions x @ [d]\<rparr>)"
    using Cons.prems(2,3) r by (intro traced_decision) auto
  from Cons.IH [OF y this] Cons.prems(3) same_tasks_record [OF r, of c] show ?case
    by (auto intro: same_tasks_trans)
qed simp

lemma record_artifacts_Go:
  assumes "record_artifacts en t as x = Go y" and "traced en run_id x"
  shows "traced en run_id y \<and> x_decisions y = x_decisions x \<and> x_states y = x_states x \<and>
    map ar_artifact_id (x_artifacts y) = map ar_artifact_id (x_artifacts x) @ map ar_artifact_id as \<and>
    x_failures y = x_failures x \<and> x_completed y = x_completed x \<and>
    x_fs y = x_fs x \<and> same_tasks c (rc_written (x_recorder x)) (rc_written (x_recorder y))"
  using assms
proof (induction as arbitrary: x)
  case (Cons a as)
  from Cons.prems(1) obtain e r where
    r: "record_event (en_sha en) (en_schema_event en) (x_recorder x)
          (event_draft ''artifact_recorded'' (t_id t) ''success'' (ar_path a) [ar_artifact_id a]) = (Inr e, r)"
    and y: "record_artifacts en t as (x\<lparr>x_recorder := r,
      x_artifacts := x_artifacts x @ [a\<lparr>ar_producer_event_id := ev_event_id e\<rparr>],
      x_task_artifacts := (x_task_artifacts x)(t_id t := x_task_artifacts x (t_id t) @ [ar_artifact_id a])\<rparr>) = Go y"
    by (auto elim!: recording_Go)
  from Cons.IH [OF y traced_artifact [OF Cons.prems(2) r]] same_tasks_record [OF r, of c] show ?case
    by (auto intro: same_tasks_trans)
qed simp

subsection \<open>Finishing a run\<close>

text \<open>The adapter names the artifacts of a request after the task and the action's index.\<close>

definition adapter_names :: "action_adapter \<Rightarrow> bool" where
  "adapter_names adapter \<longleftrightarrow> (\<forall>req fs as fs'. adapter req fs = (Inr as, fs') \<longrightarrow>
     ar_artifact_id ` set as \<subseteq> request_artifact_ids (rq_task req) (rq_action_index req) \<and>
     distinct (map ar_artifact_id as))"

lemma default_adapter_names: "adapter_names (default_adapter sha ctx_err spawn allowlist)"
  using default_adapter_ids unfolding adapter_names_def by metis

definition sound_state :: "env \<Rightarrow> contract \<Rightarrow> action_adapter \<Rightarrow> string \<Rightarrow> exec \<Rightarrow> bool" where
  "sound_state en c adapter run_id x \<longleftrightarrow>
     traced en run_id x \<and> (\<forall>d \<in> set (x_decisions x). dc_decision_id d \<noteq> []) \<and>
     distinct (map dc_decision_id (x_decisions x)) \<and>
     (adapter_names adapter \<longrightarrow> distinct (map ar_artifact_id (x_artifacts x))) \<and>
     starts_in_order c (rc_written (x_recorder x))"

text \<open>What a run that returns a result leaves on disk and in its evidence pack.\<close>

definition reported :: "env \<Rightarrow> contract \<Rightarrow> action_adapter \<Rightarrow> string \<Rightarrow> run_paths \<Rightarrow> run_outcome \<Rightarrow> bool" where
  "reported en c adapter run_id paths oc \<longleftrightarrow>
     (\<forall>res. oc_result oc = Some res \<longrightarrow>
        rr_ledger_path res = rp_ledger paths \<and>
        (\<exists>es. oc_fs oc (rr_ledger_path res) = Some (File (ledger_text es)) \<and> es \<noteq> [] \<and>
           verify_chain (en_sha en) es = None \<and> ev_run_id (hd es) = run_id \<and>
           pk_ledger_digest (rr_evidence_pack res) = en_sha en (ledger_text es) \<and>
           pk_run_id (rr_evidence_pack res) = run_id \<and>
           (adapter_names adapter \<longrightarrow> accounts_for es (rr_evidence_pack res)) \<and>
           starts_in_order c es))"

lemma sound_state_record:
  assumes "sound_state en c adapter run_id x"
    and "record_event (en_sha en) (en_schema_event en) (x_recorder x) draft = (res, r)"
    and "ev_type draft \<notin> {''policy_decided'', ''artifact_recorded'', ''task_started''}"
    and "ev_type draft = ''task_finished'' \<longrightarrow> ev_status draft \<noteq> ''success''"
  shows "sound_state en c adapter run_id (x\<lparr>x_recorder := r\<rparr>)"
  using assms traced_record [OF _ assms(2)] same_tasks_record [OF assms(2), of c]
  by (simp add: sound_state_def same_tasks_def)

lemma sound_state_unrecorded [simp]:
  "sound_state en c adapter run_id (x\<lparr>x_fs := fs\<rparr>) = sound_state en c adapter run_id x"
  "sound_state en c adapter run_id (x\<lparr>x_states := st\<rparr>) = sound_state en c adapter run_id x"
  "sound_state en c adapter run_id (x\<lparr>x_completed := k\<rparr>) = sound_state en c adapter run_id x"
  "sound_state en c adapter run_id (x\<lparr>x_failures := fl\<rparr>) = sound_state en c adapter run_id x"
  by (simp_all add: sound_state_def)

lemma sound_state_accounts:
  assumes "sound_state en c adapter run_id x" and "adapter_names adapter"
    and "pk_policy_decisions pk = x_decisions x" and "pk_artifact_manifest pk = x_artifacts x"
    and "pk_closure_matrix pk = run_closure en c run_id x' status"
    and "x_task_artifacts x' = x_task_artifacts x" and "x_decisions x' = x_decisions x"
  shows "accounts_for (rc_written (x_recorder x)) pk"
proof -
  let ?es = "rc_written (x_recorder x)"
  from assms(1) have tr: "x_task_artifacts x = artifacts_of_task ?es"
    by (auto simp: sound_state_def traced_def)
  have "row_accounted ?es (x_decisions x) row" if "row \<in> set (mx_rows (pk_closure_matrix pk))" for row
    using that assms(6,7) tr unfolding assms(5) run_closure_def
    by (auto simp: row_accounted_def artifact_ids_for_tasks_def policy_decision_ids_for_tasks_def)
  with assms(1,2) show ?thesis
    by (simp add: accounts_for_def assms(3,4) sound_state_def traced_def recorder_ok_def)
qed

lemma finish_run_cases:
  assumes "oc = finish_run en c paths run_id snapshots status message x" and "oc_result oc = Some res"
  obtains ev r fs where
    "record_event (en_sha en) (en_schema_event en) (x_recorder x)
       (event_draft ''run_finished'' [] status message []) = (Inr ev, r)"
    "rr_ledger_path res = rp_ledger paths" "oc_error oc = None"
    "rr_evidence_pack res = \<lparr>pk_schema_version = ''covenant.evidence-pack.v1'', pk_run_id = run_id,
       pk_contract_digest = contract_digest (en_sha en) c,
       pk_ledger_digest = en_sha en (ledger_text (rc_written r)), pk_run_status = status,
       pk_artifact_manifest = x_artifacts x, pk_input_snapshots = snapshots,
       pk_policy_decisions = x_decisions x, pk_failures = x_failures x,
       pk_closure_matrix = run_closure en c run_id x status\<rparr>"
    "rp_ledger paths \<noteq> rp_evidence paths \<Longrightarrow>
       oc_fs oc (rp_ledger paths) = Some (File (ledger_text (rc_written r)))"
proof -
  let ?rec = "record_event (en_sha en) (en_schema_event en) (x_recorder x)
       (event_draft ''run_finished'' [] status message [])"
  obtain ev r where rec: "?rec = (Inr ev, r)"
    using assms by (cases "?rec"; cases "fst ?rec") (auto simp: finish_run_def emit_def)
  let ?pack = "\<lparr>pk_schema_version = ''covenant.evidence-pack.v1'', pk_run_id = run_id,
       pk_contract_digest = contract_digest (en_sha en) c,
       pk_ledger_digest = en_sha en (ledger_text (rc_written r)), pk_run_status = status,
       pk_artifact_manifest = x_artifacts x, pk_input_snapshots = snapshots,
       pk_policy_decisions = x_decisions x, pk_failures = x_failures x,
       pk_closure_matrix = run_closure en c run_id x status\<rparr>"
  let ?fs1 = "(x_fs x)(rp_ledger paths \<mapsto> File (ledger_text (rc_written r)))"
  let ?text = "json_indent 0 (pack_json ?pack) @ [CHR 0x0A]"
  let ?wr = "bind_result (os_mkdir_all ?fs1 (path_dir (rp_evidence paths)))
      (\<lambda>fs2. os_write_file fs2 (rp_evidence paths) ?text)"
  from assms rec have "en_schema_pack en ?pack = None"
    by (auto simp: finish_run_def emit_def Let_def split: option.splits)
  with assms rec obtain fs3 where w: "?wr = Inr fs3"
    and oc: "oc = \<lparr>oc_result = Some \<lparr>rr_run_dir = rp_run_dir paths, rr_ledger_path = rp_ledger paths,
      rr_evidence_pack_path = rp_evidence paths, rr_evidence_pack = ?pack\<rparr>, oc_error = None, oc_fs = fs3\<rparr>"
    by (cases ?wr) (simp_all add: finish_run_def emit_def Let_def)
  from w obtain fs2 where fs2: "os_mkdir_all ?fs1 (path_dir (rp_evidence paths)) = Inr fs2"
    "fs3 = fs2(rp_evidence paths \<mapsto> File ?text)"
    by (auto simp: os_write_file_Inr)
  have "fs2 (rp_ledger paths) = Some (File (ledger_text (rc_written r)))"
    by (rule os_mkdir_all_files [OF fs2(1)]) simp
  with fs2(2) rec oc assms(2) show thesis by (intro that [of ev r]) auto
qed

lemma finish_run_reported:
  assumes x: "sound_state en c adapter run_id x" and paths: "rp_ledger paths \<noteq> rp_evidence paths"
  shows "reported en c adapter run_id paths (finish_run en c paths run_id snapshots status message x)"
  unfolding reported_def
proof (intro allI impI conjI)
  let ?oc = "finish_run en c paths run_id snapshots status message x"
  fix res assume res: "oc_result ?oc = Some res"
  obtain ev r where rec: "record_event (en_sha en) (en_schema_event en) (x_recorder x)
       (event_draft ''run_finished'' [] status message []) = (Inr ev, r)"
    and l: "rr_ledger_path res = rp_ledger paths"
    and pk: "rr_evidence_pack res = \<lparr>pk_schema_version = ''covenant.evidence-pack.v1'', pk_run_id = run_id,
       pk_contract_digest = contract_digest (en_sha en) c,
       pk_ledger_digest = en_sha en (ledger_text (rc_written r)), pk_run_status = status,
       pk_artifact_manifest = x_artifacts x, pk_input_snapshots = snapshots,
       pk_policy_decisions = x_decisions x, pk_failures = x_failures x,
       pk_closure_matrix = run_closure en c run_id x status\<rparr>"
    and fs: "oc_fs ?oc (rp_ledger paths) = Some (File (ledger_text (rc_written r)))"
    by (rule finish_run_cases [OF refl res]) (use paths in blast)
  show "rr_ledger_path res = rp_ledger paths" by (rule l)
  have s: "sound_state en c adapter run_id (x\<lparr>x_recorder := r\<rparr>)"
    by (rule sound_state_record [OF x rec]) simp_all
  from rec have w: "rc_written r = rc_written (x_recorder x) @ [ev]" by (simp add: record_event_Inr)
  from s have ok: "recorder_ok (en_sha en) r" "rc_run_id r = run_id" "starts_in_order c (rc_written r)"
    by (simp_all add: sound_state_def traced_def)
  have "hd (rc_written r) \<in> set (rc_written r)" using w by (intro hd_in_set) simp
  moreover have "\<forall>e \<in> set (rc_written r). ev_run_id e = rc_run_id r" using ok(1) by (simp add: recorder_ok_def)
  ultimately have hd: "ev_run_id (hd (rc_written r)) = run_id" using ok(2) by simp
  with ok have "verify_chain (en_sha en) (rc_written r) = None"
    by (simp add: verify_chain_def recorder_ok_def)
  moreover have "adapter_names adapter \<longrightarrow> accounts_for (rc_written r) (rr_evidence_pack res)"
  proof
    assume an: "adapter_names adapter"
    have "accounts_for (rc_written (x_recorder (x\<lparr>x_recorder := r\<rparr>))) (rr_evidence_pack res)"
      by (rule sound_state_accounts [OF s an, where x' = x and status = status]) (unfold pk, simp_all)
    then show "accounts_for (rc_written r) (rr_evidence_pack res)" by simp
  qed
  ultimately show "\<exists>es. oc_fs ?oc (rr_ledger_path res) = Some (File (ledger_text es)) \<and> es \<noteq> [] \<and>
      verify_chain (en_sha en) es = None \<and> ev_run_id (hd es) = run_id \<and>
      pk_ledger_digest (rr_evidence_pack res) = en_sha en (ledger_text es) \<and>
      pk_run_id (rr_evidence_pack res) = run_id \<and>
      (adapter_names adapter \<longrightarrow> accounts_for es (rr_evidence_pack res)) \<and> starts_in_order c es"
    using l fs pk hd ok(3) w by (intro exI [of _ "rc_written r"]) simp
qed

subsection \<open>Between two tasks\<close>

definition ids :: "task list \<Rightarrow> string set" where
  "ids ts = t_id ` set ts"

text \<open>What \<open>Validate\<close> gives the executor: unique tasks, known and acyclic dependencies.\<close>

definition runnable :: "contract \<Rightarrow> bool" where
  "runnable c \<longleftrightarrow> distinct (map t_id (c_tasks c)) \<and>
     (\<forall>t \<in> set (c_tasks c). set (t_depends_on t) \<subseteq> ids (c_tasks c)) \<and> acyclic (depends c)"

lemma well_formed_runnable:
  assumes "well_formed schema_task c"
  shows "runnable c"
proof -
  from assms have "distinct (map t_id (c_tasks c))" "acyclic (depends c)"
    and wf: "\<forall>t \<in> set (c_tasks c). well_formed_task schema_task c t"
    by (simp_all add: well_formed_def)
  moreover from wf have "\<forall>t \<in> set (c_tasks c). set (t_depends_on t) \<subseteq> ids (c_tasks c)"
    by (simp add: well_formed_task_def ids_def)
  ultimately show ?thesis by (simp add: runnable_def)
qed

definition decisions_in_order :: "env \<Rightarrow> contract \<Rightarrow> (string \<Rightarrow> bool) \<Rightarrow> task list \<Rightarrow> decision list" where
  "decisions_in_order en c revoked order =
     concat (map (\<lambda>(k, t). evaluate_task_policy c t revoked (en_clock en k)) (enumerate 0 order))"

definition states_after :: "contract \<Rightarrow> task list \<Rightarrow> task_states" where
  "states_after c order = foldl (\<lambda>st t. set_status st (t_id t) ''success'') (initial_states (c_tasks c)) order"

definition progressed ::
    "env \<Rightarrow> contract \<Rightarrow> action_adapter \<Rightarrow> (string \<Rightarrow> bool) \<Rightarrow> string \<Rightarrow> task list \<Rightarrow> exec \<Rightarrow> bool" where
  "progressed en c adapter revoked run_id order x \<longleftrightarrow>
     sound_state en c adapter run_id x \<and> distinct (map t_id order) \<and> set order \<subseteq> set (c_tasks c) \<and>
     x_completed x = length order \<and> x_states x = states_after c order \<and>
     x_decisions x = decisions_in_order en c revoked order \<and>
     (\<forall>d \<in> set (x_decisions x). dc_decision d \<noteq> decision_deny) \<and> x_failures x = [] \<and>
     finished_tasks (rc_written (x_recorder x)) = map t_id order \<and>
     (adapter_names adapter \<longrightarrow>
        (\<forall>a \<in> set (x_artifacts x). \<exists>t \<in> set order. \<exists>i. ar_artifact_id a \<in> request_artifact_ids t i))"

lemma initial_states_lookup:
  "initial_states tasks i = map_option (\<lambda>t. (t, [])) (task_by_id tasks i)"
proof (induction tasks rule: rev_induct)
  case Nil
  then show ?case by (simp add: initial_states_def task_by_id_def)
next
  case (snoc t ts)
  have "initial_states (ts @ [t]) = (initial_states ts)(t_id t \<mapsto> (t, []))" by (simp add: initial_states_def)
  moreover have "task_by_id (ts @ [t]) i = (if i = t_id t then Some t else task_by_id ts i)"
    by (simp add: task_by_id_def)
  ultimately show ?case using snoc by simp
qed

lemma set_status_lookup:
  "set_status st i s j = (if j = i then map_option (\<lambda>(t, _). (t, s)) (st i) else st j)"
  by (auto simp: set_status_def split: option.split)

lemma states_after_lookup:
  "states_after c order i = map_option (\<lambda>t. (t, if i \<in> ids order then ''success'' else [])) (task_by_id (c_tasks c) i)"
proof (induction order arbitrary: i rule: rev_induct)
  case Nil
  then show ?case by (simp add: states_after_def initial_states_lookup ids_def)
next
  case (snoc t order)
  have "states_after c (order @ [t]) = set_status (states_after c order) (t_id t) ''success''"
    by (simp add: states_after_def)
  with snoc [of i] snoc [of "t_id t"] show ?case
    by (simp add: set_status_lookup ids_def option.map_comp o_def)
qed

lemma status_of_states_after:
  assumes "i \<in> ids (c_tasks c)"
  shows "status_of (states_after c order) i = ''success'' \<longleftrightarrow> i \<in> ids order"
proof -
  from assms obtain t where "task_by_id (c_tasks c) i = Some t"
    using task_by_id_None [of "c_tasks c" i] by (auto simp: ids_def known_ids_def)
  then show ?thesis by (simp add: status_of_def states_after_lookup)
qed

lemma dependencies_complete_iff:
  assumes "set deps \<subseteq> ids (c_tasks c)"
  shows "dependencies_complete (states_after c order) deps \<longleftrightarrow> set deps \<subseteq> ids order"
proof -
  have "\<forall>d \<in> set deps. status_of (states_after c order) d = ''success'' \<longleftrightarrow> d \<in> ids order"
    using assms status_of_states_after by blast
  then show ?thesis by (simp add: dependencies_complete_def list_all_iff subset_eq)
qed

lemma evaluate_task_policy_ids:
  "d \<in> set (evaluate_task_policy c t revoked now) \<Longrightarrow> dc_task_id d = t_id t \<and> (\<exists>n. dc_decision_id d = decision_id (t_id t) n)"
  by (auto simp: evaluate_task_policy_def evaluate_task_in_set task_policy_input_def)

lemma decision_id_not_Nil [simp]: "decision_id s n \<noteq> []"
  by (simp add: decision_id_def)

lemma decisions_in_order_snoc:
  "decisions_in_order en c revoked (order @ [t]) =
     decisions_in_order en c revoked order @ evaluate_task_policy c t revoked (en_clock en (length order))"
  by (simp add: decisions_in_order_def enumerate_append_eq)

lemma decisions_in_order_task:
  "d \<in> set (decisions_in_order en c revoked order) \<Longrightarrow>
     \<exists>t \<in> set order. \<exists>k. d \<in> set (evaluate_task_policy c t revoked (en_clock en k))"
  by (fastforce simp: decisions_in_order_def in_set_enumerate_eq)

lemma distinct_new_decisions:
  assumes "distinct (map dc_decision_id (decisions_in_order en c revoked order))" and "t_id t \<notin> ids order"
  shows "distinct (map dc_decision_id (decisions_in_order en c revoked order @ evaluate_task_policy c t revoked now))"
proof -
  have "dc_decision_id d \<noteq> dc_decision_id d'"
    if d: "d \<in> set (decisions_in_order en c revoked order)" "d' \<in> set (evaluate_task_policy c t revoked now)" for d d'
  proof -
    from decisions_in_order_task [OF d(1)] obtain u n where "u \<in> set order" "dc_decision_id d = decision_id (t_id u) n"
      using evaluate_task_policy_ids by blast
    moreover obtain m where "dc_decision_id d' = decision_id (t_id t) m"
      using evaluate_task_policy_ids [OF d(2)] by blast
    ultimately show ?thesis using assms(2) by (force simp: ids_def)
  qed
  moreover have "distinct (map dc_decision_id (evaluate_task_policy c t revoked now))"
    by (simp add: evaluate_task_policy_def distinct_decision_ids)
  ultimately show ?thesis using assms(1) by (auto simp: image_iff)
qed

lemma no_denied: "first_denied_decision ds = None \<longleftrightarrow> (\<forall>d \<in> set ds. dc_decision d \<noteq> decision_deny)"
  by (auto simp: first_denied_decision_def find_None_iff)

text \<open>The artifacts of one task.\<close>

lemma execute_side_effects_ids:
  assumes "adapter_names adapter" and "execute_side_effects root c t adapter index as fs = (Inr arts, fs')"
  shows "distinct (map ar_artifact_id arts) \<and>
    (\<forall>a \<in> set arts. \<exists>i \<ge> index. ar_artifact_id a \<in> request_artifact_ids t i)"
  using assms(2)
proof (induction as arbitrary: index fs arts)
  case (Cons a as)
  let ?req = "\<lparr>rq_workspace_root = root, rq_objective = c_objective c, rq_task = t, rq_action = a, rq_action_index = index\<rparr>"
  from Cons.prems obtain now_arts fs1 later where
    first: "adapter ?req fs = (Inr now_arts, fs1)"
    and rest: "execute_side_effects root c t adapter (index + 1) as fs1 = (Inr later, fs')"
    and arts: "arts = now_arts @ later"
    by (auto split: prod.splits sum.splits)
  from assms(1) first have now_ok: "ar_artifact_id ` set now_arts \<subseteq> request_artifact_ids t index"
    "distinct (map ar_artifact_id now_arts)" unfolding adapter_names_def by fastforce+
  from Cons.IH [OF rest] have later_ok: "distinct (map ar_artifact_id later)"
    "\<forall>a \<in> set later. \<exists>i \<ge> index + 1. ar_artifact_id a \<in> request_artifact_ids t i" by auto
  have "ar_artifact_id a \<noteq> ar_artifact_id b" if "a \<in> set now_arts" "b \<in> set later" for a b
  proof
    assume eq: "ar_artifact_id a = ar_artifact_id b"
    from that(2) later_ok(2) obtain i where "i \<ge> index + 1" "ar_artifact_id b \<in> request_artifact_ids t i" by blast
    with eq now_ok(1) that(1) request_artifact_ids_disjoint [of "ar_artifact_id a" t index t i] show False by auto
  qed
  then have "ar_artifact_id ` set now_arts \<inter> ar_artifact_id ` set later = {}" by auto
  moreover have "\<forall>a \<in> set now_arts. \<exists>i \<ge> index. ar_artifact_id a \<in> request_artifact_ids t i"
    using now_ok(1) by blast
  moreover have "\<forall>a \<in> set later. \<exists>i \<ge> index. ar_artifact_id a \<in> request_artifact_ids t i"
    using later_ok(2) by (meson Suc_leD Suc_eq_plus1 le_trans le_add1)
  ultimately show ?case using now_ok(2) later_ok(1) unfolding arts by auto
qed simp

lemma execute_task_ids:
  assumes "adapter_names adapter" and "execute_task root c t st adapter fs = (Inr arts, fs')"
  shows "distinct (map ar_artifact_id arts) \<and> (\<forall>a \<in> set arts. \<exists>i. ar_artifact_id a \<in> request_artifact_ids t i)"
proof (cases "t_kind t \<in> {''scripted'', ''shell'', ''agent''}")
  case True
  with assms(2) have "execute_side_effects root c t adapter 0 (t_side_effects t) fs = (Inr arts, fs')"
    by (simp add: execute_task_def)
  from execute_side_effects_ids [OF assms(1) this] show ?thesis by blast
next
  case False
  with assms(2) have "arts = []"
    by (auto simp: execute_task_def verdict_of_def unless_error_def split: if_splits option.splits)
  then show ?thesis by simp
qed

subsection \<open>One task\<close>

text \<open>The state when the task has started, its decisions recorded.\<close>

lemma after_decisions:
  assumes x: "progressed en c adapter revoked run_id order x"
    and t: "t \<in> set (c_tasks c)" "t_id t \<notin> ids order" and deps: "set (t_depends_on t) \<subseteq> ids order"
    and uniq: "distinct (map t_id (c_tasks c))"
    and start: "record_event (en_sha en) (en_schema_event en) (x_recorder x)
       (event_draft ''task_started'' (t_id t) ''success'' ''task started'' []) = (Inr ev, r)"
    and decs: "record_decisions en t (evaluate_task_policy c t revoked (en_clock en (x_completed x)))
       (x\<lparr>x_recorder := r\<rparr>) = Go y"
  shows "sound_state en c adapter run_id y \<and>
    x_decisions y = decisions_in_order en c revoked (order @ [t]) \<and> x_states y = states_after c order \<and>
    x_artifacts y = x_artifacts x \<and> x_failures y = [] \<and> x_completed y = length order \<and>
    finished_tasks (rc_written (x_recorder y)) = map t_id order"
proof -
  let ?x1 = "x\<lparr>x_recorder := r\<rparr>" and ?ds = "evaluate_task_policy c t revoked (en_clock en (x_completed x))"
  from x have s: "sound_state en c adapter run_id x" and fin: "finished_tasks (rc_written (x_recorder x)) = map t_id order"
    and k: "x_completed x = length order" and d: "x_decisions x = decisions_in_order en c revoked order"
    by (simp_all add: progressed_def)
  from start have r: "rc_written r = rc_written (x_recorder x) @ [ev]"
    "ev = stamp (en_sha en) (x_recorder x) (event_draft ''task_started'' (t_id t) ''success'' ''task started'' [])"
    by (simp_all add: record_event_Inr)
  have tr1: "traced en run_id ?x1" using s by (intro traced_record [OF _ start]) (simp_all add: sound_state_def)
  have same: "t = u" if "u \<in> set (c_tasks c)" "t_id u = t_id t" for u
    using uniq t(1) that by (metis distinct_map inj_onD)
  have "starts_in_order c (rc_written r)"
    using s deps same unfolding r(1) starts_in_order_snoc
    by (simp add: sound_state_def fin r(2)) (metis ids_def)
  moreover have fin1: "finished_tasks (rc_written r) = map t_id order"
    unfolding r(1) by (simp add: fin) (simp add: finished_tasks_def r(2))
  moreover have "\<forall>d \<in> set ?ds. dc_task_id d = t_id t" using evaluate_task_policy_ids by blast
  from record_decisions_Go [OF decs tr1 this, of c] have y: "traced en run_id y" "x_decisions y = x_decisions x @ ?ds"
    "x_states y = x_states x" "x_artifacts y = x_artifacts x" "x_failures y = x_failures x"
    "x_completed y = x_completed x" "same_tasks c (rc_written r) (rc_written (x_recorder y))" by simp_all
  moreover have dist: "distinct (map dc_decision_id (x_decisions y))"
    unfolding y(2) d by (rule distinct_new_decisions [OF _ t(2)]) (use s in \<open>simp add: sound_state_def d\<close>)
  moreover have "\<forall>d \<in> set (x_decisions y). dc_decision_id d \<noteq> []"
    using s evaluate_task_policy_ids unfolding y(2) sound_state_def by fastforce
  ultimately show ?thesis
    using x s by (simp add: sound_state_def same_tasks_def progressed_def decisions_in_order_snoc k)
qed

lemma new_artifacts_distinct:
  assumes "adapter_names adapter"
    and "\<forall>a \<in> set as. \<exists>u \<in> set order. \<exists>i. ar_artifact_id a \<in> request_artifact_ids u i"
    and "\<forall>a \<in> set bs. \<exists>i. ar_artifact_id a \<in> request_artifact_ids t i" and "t_id t \<notin> ids order"
  shows "ar_artifact_id ` set as \<inter> ar_artifact_id ` set bs = {}"
proof -
  have "ar_artifact_id a \<noteq> ar_artifact_id b" if ab: "a \<in> set as" "b \<in> set bs" for a b
  proof
    assume eq: "ar_artifact_id a = ar_artifact_id b"
    from assms(2) ab(1) obtain u i where u: "u \<in> set order" "ar_artifact_id a \<in> request_artifact_ids u i" by blast
    from assms(3) ab(2) obtain j where "ar_artifact_id b \<in> request_artifact_ids t j" by blast
    with u eq have "t_id u = t_id t" using request_artifact_ids_disjoint by metis
    with u(1) assms(4) show False by (metis ids_def imageI)
  qed
  then show ?thesis by auto
qed

lemma run_task_progressed:
  assumes x: "progressed en c adapter revoked run_id order x"
    and t: "t \<in> set (c_tasks c)" "t_id t \<notin> ids order" and deps: "set (t_depends_on t) \<subseteq> ids order"
    and uniq: "distinct (map t_id (c_tasks c))"
    and run: "run_task en c paths run_id snapshots adapter revoked t x = Go y"
  shows "progressed en c adapter revoked run_id (order @ [t]) y"
proof -
  let ?ds = "evaluate_task_policy c t revoked (en_clock en (x_completed x))"
  from run obtain ev r x2 arts fs1 x3 ev' r' where
    start: "record_event (en_sha en) (en_schema_event en) (x_recorder x)
       (event_draft ''task_started'' (t_id t) ''success'' ''task started'' []) = (Inr ev, r)"
    and decs: "record_decisions en t ?ds (x\<lparr>x_recorder := r\<rparr>) = Go x2"
    and ok: "first_denied_decision ?ds = None"
    and exe: "execute_task (rp_workspace_root paths) c t (x_states x2) adapter (x_fs x2) = (Inr arts, fs1)"
    and rec: "record_artifacts en t arts (x2\<lparr>x_fs := fs1\<rparr>) = Go x3"
    and fin: "record_event (en_sha en) (en_schema_event en) (x_recorder x3)
       (event_draft ''task_finished'' (t_id t) ''success'' ''task completed'' (map ar_artifact_id arts)) = (Inr ev', r')"
    and y: "y = x3\<lparr>x_recorder := r', x_states := set_status (x_states x3) (t_id t) ''success'',
            x_completed := x_completed x3 + 1\<rparr>"
    by (rule run_task_Go)
  from after_decisions [OF x t deps uniq start decs] have x2: "sound_state en c adapter run_id x2"
    "x_decisions x2 = decisions_in_order en c revoked (order @ [t])" "x_states x2 = states_after c order"
    "x_artifacts x2 = x_artifacts x" "x_failures x2 = []" "x_completed x2 = length order"
    "finished_tasks (rc_written (x_recorder x2)) = map t_id order" by simp_all
  have "traced en run_id (x2\<lparr>x_fs := fs1\<rparr>)" using x2(1) by (simp add: sound_state_def)
  from record_artifacts_Go [OF rec this, of c] have x3: "traced en run_id x3" "x_decisions x3 = x_decisions x2"
    "x_states x3 = x_states x2" "map ar_artifact_id (x_artifacts x3) = map ar_artifact_id (x_artifacts x2 @ arts)"
    "x_failures x3 = x_failures x2" "x_completed x3 = x_completed x2"
    "same_tasks c (rc_written (x_recorder x2)) (rc_written (x_recorder x3))" by simp_all
  have names: "distinct (map ar_artifact_id (x_artifacts x3)) \<and>
      (\<forall>a \<in> set (x_artifacts x3). \<exists>u \<in> set (order @ [t]). \<exists>i. ar_artifact_id a \<in> request_artifact_ids u i)"
    if an: "adapter_names adapter"
  proof -
    from x an have old: "distinct (map ar_artifact_id (x_artifacts x))"
      "\<forall>a \<in> set (x_artifacts x). \<exists>u \<in> set order. \<exists>i. ar_artifact_id a \<in> request_artifact_ids u i"
      by (simp_all add: progressed_def sound_state_def)
    from execute_task_ids [OF an exe] have new: "distinct (map ar_artifact_id arts)"
      "\<forall>a \<in> set arts. \<exists>i. ar_artifact_id a \<in> request_artifact_ids t i" by simp_all
    have "\<forall>i \<in> set (map ar_artifact_id (x_artifacts x3)). \<exists>u \<in> set (order @ [t]). \<exists>j. i \<in> request_artifact_ids u j"
      unfolding x3(4) x2(4) using old(2) new(2) by fastforce
    moreover have "distinct (map ar_artifact_id (x_artifacts x3))"
      unfolding x3(4) x2(4) using old(1) new(1) new_artifacts_distinct [OF an old(2) new(2) t(2)] by simp
    ultimately show ?thesis by simp
  qed
  have s3: "sound_state en c adapter run_id x3"
    using x2(1) x3 names by (simp add: sound_state_def same_tasks_def)
  from fin have r': "rc_written r' = rc_written (x_recorder x3) @ [ev']"
    "ev' = stamp (en_sha en) (x_recorder x3)
       (event_draft ''task_finished'' (t_id t) ''success'' ''task completed'' (map ar_artifact_id arts))"
    by (simp_all add: record_event_Inr)
  have "traced en run_id (x3\<lparr>x_recorder := r'\<rparr>)" by (rule traced_record [OF x3(1) fin]) simp_all
  moreover have "starts_in_order c (rc_written r')"
    using s3 unfolding r'(1) starts_in_order_snoc by (simp add: sound_state_def r'(2))
  ultimately have "sound_state en c adapter run_id (x3\<lparr>x_recorder := r'\<rparr>)"
    using s3 by (simp add: sound_state_def)
  then have sy: "sound_state en c adapter run_id y" unfolding y by simp
  have "finished_tasks (rc_written r') = map t_id (order @ [t])"
    unfolding r'(1) using x2(7) x3(7) by (simp add: same_tasks_def) (simp add: finished_tasks_def r'(2))
  moreover have "\<forall>d \<in> set (decisions_in_order en c revoked (order @ [t])). dc_decision d \<noteq> decision_deny"
    using x ok by (auto simp: progressed_def decisions_in_order_snoc no_denied)
  moreover have "states_after c (order @ [t]) = set_status (states_after c order) (t_id t) ''success''"
    by (simp add: states_after_def)
  ultimately show ?thesis
    using x t sy names unfolding progressed_def by (simp add: y x2 x3 ids_def)
qed

subsection \<open>Runs that end inside a task\<close>

text \<open>A return from inside the task loop carries an error; a result it carries is in order.\<close>

definition stopped :: "env \<Rightarrow> contract \<Rightarrow> action_adapter \<Rightarrow> string \<Rightarrow> run_paths \<Rightarrow> run_outcome \<Rightarrow> bool" where
  "stopped en c adapter run_id paths oc \<longleftrightarrow> reported en c adapter run_id paths oc \<and> oc_error oc \<noteq> None"

lemma stopped_abort: "stopped en c adapter run_id paths \<lparr>oc_result = None, oc_error = Some e, oc_fs = fs\<rparr>"
  by (simp add: stopped_def reported_def)

lemma recording_Halt:
  assumes "recording en draft x k = Halt oc"
  shows "(\<exists>e fs. oc = \<lparr>oc_result = None, oc_error = Some e, oc_fs = fs\<rparr>) \<or>
    (\<exists>ev r. record_event (en_sha en) (en_schema_event en) (x_recorder x) draft = (Inr ev, r) \<and>
       k ev (x\<lparr>x_recorder := r\<rparr>) = Halt oc)"
  using assms by (auto simp: recording_def abort_def split: prod.splits sum.splits)

lemma record_decisions_Halt:
  "record_decisions en t ds x = Halt oc \<Longrightarrow> \<exists>e fs. oc = \<lparr>oc_result = None, oc_error = Some e, oc_fs = fs\<rparr>"
proof (induction ds arbitrary: x)
  case (Cons d ds)
  from recording_Halt [OF Cons.prems [unfolded record_decisions.simps]] Cons.IH show ?case by blast
qed simp

lemma record_artifacts_Halt:
  "record_artifacts en t as x = Halt oc \<Longrightarrow> \<exists>e fs. oc = \<lparr>oc_result = None, oc_error = Some e, oc_fs = fs\<rparr>"
proof (induction as arbitrary: x)
  case (Cons a as)
  from recording_Halt [OF Cons.prems [unfolded record_artifacts.simps]] Cons.IH show ?case by blast
qed simp

lemma fail_task_stopped:
  assumes "sound_state en c adapter run_id x" and "rp_ledger paths \<noteq> rp_evidence paths"
  shows "stopped en c adapter run_id paths (fail_task en c paths run_id snapshots t phase err reason x)"
proof -
  obtain res r where rec: "record_event (en_sha en) (en_schema_event en) (x_recorder x)
      (event_draft ''task_finished'' (t_id t) ''failed'' reason []) = (res, r)" by force
  have s: "sound_state en c adapter run_id (x\<lparr>x_recorder := r, x_states := st, x_failures := fl\<rparr>)" for st fl
    using sound_state_record [OF assms(1) rec] by simp
  have "reported en c adapter run_id paths (oc\<lparr>oc_error := e\<rparr>) = reported en c adapter run_id paths oc" for oc e
    by (simp add: reported_def)
  then show ?thesis
    using finish_run_reported [OF s assms(2)] by (simp add: fail_task_def emit_def rec Let_def stopped_def)
qed

lemma run_task_Halt:
  assumes x: "progressed en c adapter revoked run_id order x"
    and t: "t \<in> set (c_tasks c)" "t_id t \<notin> ids order" and deps: "set (t_depends_on t) \<subseteq> ids order"
    and uniq: "distinct (map t_id (c_tasks c))" and paths: "rp_ledger paths \<noteq> rp_evidence paths"
    and run: "run_task en c paths run_id snapshots adapter revoked t x = Halt oc"
  shows "stopped en c adapter run_id paths oc"
proof -
  let ?ds = "evaluate_task_policy c t revoked (en_clock en (x_completed x))"
  let ?start = "event_draft ''task_started'' (t_id t) ''success'' ''task started'' []"
  have aborted: "stopped en c adapter run_id paths oc"
    if "\<exists>e fs. oc = \<lparr>oc_result = None, oc_error = Some e, oc_fs = fs\<rparr>" for oc
    using that stopped_abort by blast
  show ?thesis
  proof (cases "en_ctx_err en (x_completed x)")
    case (Some e)
    with run show ?thesis by (intro aborted) (auto simp: run_task_def abort_def)
  next
    case None
    from recording_Halt [OF run [unfolded run_task_def None option.case]] consider
      (refused) "\<exists>e fs. oc = \<lparr>oc_result = None, oc_error = Some e, oc_fs = fs\<rparr>"
      | (started) ev r where "record_event (en_sha en) (en_schema_event en) (x_recorder x) ?start = (Inr ev, r)"
        "(case record_decisions en t ?ds (x\<lparr>x_recorder := r\<rparr>) of Halt oc \<Rightarrow> Halt oc
          | Go x2 \<Rightarrow> (case first_denied_decision ?ds of
              Some d \<Rightarrow> Halt (fail_task en c paths run_id snapshots t ''policy'' (Errorf (denied_text t d)) (denied_text t d) x2)
            | None \<Rightarrow> (case execute_task (rp_workspace_root paths) c t (x_states x2) adapter (x_fs x2) of
                (Inl e, fs1) \<Rightarrow> Halt (fail_task en c paths run_id snapshots t (failure_phase_for_task t) e (error_text e) (x2\<lparr>x_fs := fs1\<rparr>))
              | (Inr artifacts, fs1) \<Rightarrow> (case record_artifacts en t artifacts (x2\<lparr>x_fs := fs1\<rparr>) of Halt oc \<Rightarrow> Halt oc
                  | Go x3 \<Rightarrow> recording en (event_draft ''task_finished'' (t_id t) ''success'' ''task completed'' (map ar_artifact_id artifacts)) x3
                      (\<lambda>_ x4. Go (x4\<lparr>x_states := set_status (x_states x4) (t_id t) ''success'',
                                     x_completed := x_completed x4 + 1\<rparr>)))))) = Halt oc"
      by (auto simp: Let_def)
    then show ?thesis
    proof cases
      case refused
      then show ?thesis by (rule aborted)
    next
      case started
      show ?thesis
      proof (cases "record_decisions en t ?ds (x\<lparr>x_recorder := r\<rparr>)")
        case (Halt oc')
        with started(2) record_decisions_Halt [OF Halt] show ?thesis by (intro aborted) simp
      next
        case x2: (Go x2)
        from after_decisions [OF x t deps uniq started(1) x2] have s2: "sound_state en c adapter run_id x2" by simp
        show ?thesis
        proof (cases "first_denied_decision ?ds")
          case (Some d)
          with started(2) x2 fail_task_stopped [OF s2 paths] show ?thesis by auto
        next
          case ok: None
          obtain res fs1 where exe: "execute_task (rp_workspace_root paths) c t (x_states x2) adapter (x_fs x2) = (res, fs1)"
            by force
          have s2': "sound_state en c adapter run_id (x2\<lparr>x_fs := fs1\<rparr>)" using s2 by simp
          show ?thesis
          proof (cases res)
            case (Inl e)
            with started(2) x2 ok exe fail_task_stopped [OF s2' paths] show ?thesis by auto
          next
            case (Inr arts)
            show ?thesis
            proof (cases "record_artifacts en t arts (x2\<lparr>x_fs := fs1\<rparr>)")
              case (Halt oc')
              with started(2) x2 ok exe Inr record_artifacts_Halt [OF Halt] show ?thesis by (intro aborted) simp
            next
              case (Go x3)
              with started(2) x2 ok exe Inr show ?thesis by (intro aborted) (auto dest!: recording_Halt)
            qed
          qed
        qed
      qed
    qed
  qed
qed

subsection \<open>The task loop\<close>

lemma not_done_iff:
  assumes "progressed en c adapter revoked run_id order x" and "runnable c" and "t \<in> set (c_tasks c)"
  shows "status_of (x_states x) (t_id t) = ''success'' \<longleftrightarrow> t_id t \<in> ids order"
    and "dependencies_complete (x_states x) (t_depends_on t) \<longleftrightarrow> set (t_depends_on t) \<subseteq> ids order"
  using assms status_of_states_after [of "t_id t" c order] dependencies_complete_iff [of "t_depends_on t" c order]
  by (simp_all add: progressed_def runnable_def ids_def)

lemma run_pass_cases:
  assumes "progressed en c adapter revoked run_id order x" and "runnable c"
    and "rp_ledger paths \<noteq> rp_evidence paths" and "set ts \<subseteq> set (c_tasks c)"
  shows "case run_pass en c paths run_id snapshots adapter revoked ts x progress of
      Halt oc \<Rightarrow> stopped en c adapter run_id paths oc
    | Go (y, progress') \<Rightarrow> (\<exists>ran. progressed en c adapter revoked run_id (order @ ran) y) \<and>
        (\<not> progress' \<longrightarrow> y = x \<and> (\<forall>t \<in> set ts. t_id t \<in> ids order \<or> \<not> set (t_depends_on t) \<subseteq> ids order))"
  using assms(1,4)
proof (induction ts arbitrary: x order progress)
  case Nil
  then show ?case by (auto intro: exI [of _ "[]"])
next
  case (Cons t ts)
  then have t: "t \<in> set (c_tasks c)" by simp
  note iff = not_done_iff [OF Cons.prems(1) assms(2) t]
  show ?case
  proof (cases "t_id t \<in> ids order \<or> \<not> set (t_depends_on t) \<subseteq> ids order")
    case True
    with iff Cons.IH [OF Cons.prems(1), of progress] Cons.prems(2) show ?thesis
      by (auto split: halting.splits prod.splits)
  next
    case False
    then have nd: "t_id t \<notin> ids order" "set (t_depends_on t) \<subseteq> ids order" by auto
    from assms(2) have uniq: "distinct (map t_id (c_tasks c))" by (simp add: runnable_def)
    show ?thesis
    proof (cases "run_task en c paths run_id snapshots adapter revoked t x")
      case (Halt oc)
      from run_task_Halt [OF Cons.prems(1) t nd uniq assms(3) Halt] Halt nd iff show ?thesis by simp
    next
      case (Go x1)
      have p1: "progressed en c adapter revoked run_id (order @ [t]) x1"
        by (rule run_task_progressed [OF Cons.prems(1) t nd uniq Go])
      have grows: "progress' \<or> \<not> True" if "run_pass en c paths run_id snapshots adapter revoked ts x1 True = Go (y, progress')" for y progress'
        using that by (induction ts arbitrary: x1) (auto split: if_splits halting.splits)
      from Cons.IH [OF p1, of True] Cons.prems(2) grows Go nd iff show ?thesis
        by (auto split: halting.splits prod.splits)
    qed
  qed
qed

lemma progressed_all:
  assumes "progressed en c adapter revoked run_id order x" and "runnable c"
    and "\<not> x_completed x < length (c_tasks c)"
  shows "ids order = ids (c_tasks c)"
proof -
  from assms have "distinct (map t_id order)" "distinct (map t_id (c_tasks c))" "length (c_tasks c) \<le> length order"
    "ids order \<subseteq> ids (c_tasks c)" by (auto simp: progressed_def runnable_def ids_def)
  then have "card (ids order) = length order" "card (ids (c_tasks c)) = length (c_tasks c)"
    by (metis distinct_card ids_def length_map set_map)+
  then have "card (ids (c_tasks c)) \<le> card (ids order)" using \<open>length (c_tasks c) \<le> length order\<close> by simp
  then show ?thesis using \<open>ids order \<subseteq> ids (c_tasks c)\<close> by (intro card_seteq) (simp_all add: ids_def)
qed

text \<open>A pass over the tasks of a valid contract makes progress as long as a task is left.\<close>

lemma some_task_ready:
  assumes "progressed en c adapter revoked run_id order x" and "runnable c"
    and "x_completed x < length (c_tasks c)"
  shows "\<exists>t \<in> set (c_tasks c). t_id t \<notin> ids order \<and> set (t_depends_on t) \<subseteq> ids order"
proof -
  let ?left = "ids (c_tasks c) - ids order"
  have "card (ids order) < card (ids (c_tasks c))"
  proof -
    from assms have "distinct (map t_id order)" "distinct (map t_id (c_tasks c))" "length order < length (c_tasks c)"
      by (auto simp: progressed_def runnable_def)
    then show ?thesis by (metis distinct_card ids_def length_map set_map)
  qed
  moreover have "card (ids (c_tasks c)) \<le> card (ids order)" if "ids (c_tasks c) \<subseteq> ids order"
    using that by (intro card_mono) (simp_all add: ids_def)
  ultimately have "\<not> ids (c_tasks c) \<subseteq> ids order" by fastforce
  then obtain i where i: "i \<in> ?left" by blast
  have "finite (depends c)"
  proof -
    have "depends c = (\<Union>t \<in> set (c_tasks c). Pair (t_id t) ` set (t_depends_on t))" by (auto simp: depends_def)
    then show ?thesis by simp
  qed
  with assms(2) have "wf ((depends c)\<inverse>)" by (simp add: runnable_def finite_acyclic_wf_converse)
  then obtain z where z: "z \<in> ?left" "\<And>y. (y, z) \<in> (depends c)\<inverse> \<Longrightarrow> y \<notin> ?left"
    using i by (meson wfE_min)
  from z(1) obtain t where t: "t \<in> set (c_tasks c)" "z = t_id t" "t_id t \<notin> ids order" by (auto simp: ids_def)
  have "set (t_depends_on t) \<subseteq> ids order"
  proof
    fix d assume d: "d \<in> set (t_depends_on t)"
    with t have "(d, z) \<in> (depends c)\<inverse>" by (auto simp: depends_def)
    with z(2) have "d \<notin> ?left" by blast
    moreover from d t(1) assms(2) have "d \<in> ids (c_tasks c)" by (auto simp: runnable_def)
    ultimately show "d \<in> ids order" by blast
  qed
  with t show ?thesis by blast
qed

lemma run_pass_progress:
  assumes "progressed en c adapter revoked run_id order x" and "runnable c"
    and "rp_ledger paths \<noteq> rp_evidence paths" and "x_completed x < length (c_tasks c)"
    and "run_pass en c paths run_id snapshots adapter revoked (c_tasks c) x False = Go (y, progress)"
  shows "progress"
  using run_pass_cases [OF assms(1-3) order_refl, of snapshots False] some_task_ready [OF assms(1,2,4)] assms(5)
  by auto

lemma run_loop_cases:
  assumes "runnable c" and "rp_ledger paths \<noteq> rp_evidence paths"
    and "progressed en c adapter revoked run_id order x"
  shows "case run_loop en c paths run_id snapshots adapter revoked x of
      Halt oc \<Rightarrow> stopped en c adapter run_id paths oc
    | Go y \<Rightarrow> \<exists>order'. progressed en c adapter revoked run_id order' y \<and> ids order' = ids (c_tasks c)"
  using assms
proof (induction en c paths run_id snapshots adapter revoked x arbitrary: order rule: run_loop.induct)
  case (1 en c paths run_id snapshots adapter revoked x)
  show ?case
  proof (cases "x_completed x < length (c_tasks c)")
    case False
    with "1.prems" progressed_all show ?thesis by (subst run_loop.simps) auto
  next
    case True
    show ?thesis
    proof (cases "run_pass en c paths run_id snapshots adapter revoked (c_tasks c) x False")
      case (Halt oc)
      with True run_pass_cases [OF "1.prems"(3,1,2) order_refl, of snapshots False] show ?thesis
        by (subst run_loop.simps) simp
    next
      case (Go a)
      then obtain x1 progress where a: "run_pass en c paths run_id snapshots adapter revoked (c_tasks c) x False = Go (x1, progress)"
        by (cases a) auto
      from run_pass_progress [OF "1.prems"(3,1,2) True a] have p: "progress" .
      from run_pass_cases [OF "1.prems"(3,1,2) order_refl, of snapshots False] a
      obtain ran where "progressed en c adapter revoked run_id (order @ ran) x1" by auto
      from "1.IH" [OF _ a refl _ "1.prems"(1,2) this] True a p show ?thesis
        by (subst run_loop.simps) simp
    qed
  qed
qed

text \<open>The state with which the loop starts.\<close>

lemma start_progressed:
  assumes "record_event (en_sha en) (en_schema_event en) (x_recorder (start_exec en c run_id fs))
      (event_draft ''run_started'' [] ''success'' ''run accepted'' []) = (Inr ev, r)"
  shows "progressed en c adapter revoked run_id [] ((start_exec en c run_id fs)\<lparr>x_recorder := r\<rparr>)"
proof -
  let ?x = "start_exec en c run_id fs"
  have t0: "traced en run_id ?x"
    by (simp add: traced_def start_exec_def decisions_accounted_def artifacts_accounted_def artifacts_of_task_def
        policy_events_def artifact_events_def) (simp add: new_recorder_def)
  have "sound_state en c adapter run_id ?x"
    using t0 by (simp add: sound_state_def starts_in_order_def) (simp add: start_exec_def new_recorder_def)
  then have s: "sound_state en c adapter run_id (?x\<lparr>x_recorder := r\<rparr>)"
    using assms by (rule sound_state_record) simp_all
  from assms have "rc_written r = [ev]" "ev = stamp (en_sha en) (x_recorder ?x)
      (event_draft ''run_started'' [] ''success'' ''run accepted'' [])"
    by (simp_all add: record_event_Inr) (simp add: start_exec_def new_recorder_def)
  then have "finished_tasks (rc_written r) = []" by (simp add: finished_tasks_def)
  with s show ?thesis
    unfolding progressed_def
    by (simp add: start_exec_def states_after_def decisions_in_order_def ids_def)
qed

subsection \<open>Whole runs\<close>

lemma run_contract_cases:
  assumes "runnable c" and "rp_ledger paths \<noteq> rp_evidence paths"
    and "oc = run_contract en c paths run_id snapshots adapter revoked fs"
  shows "stopped en c adapter run_id paths oc \<or>
    (\<exists>order x. progressed en c adapter revoked run_id order x \<and> ids order = ids (c_tasks c) \<and>
       verify_required_obligations c (x_states x) = None \<and>
       oc = finish_run en c paths run_id snapshots ''success'' ''run completed'' x)"
proof -
  let ?x0 = "start_exec en c run_id fs" and ?d = "event_draft ''run_started'' [] ''success'' ''run accepted'' []"
  let ?rec = "record_event (en_sha en) (en_schema_event en) (x_recorder ?x0) ?d"
  obtain res r where rec: "?rec = (res, r)" by force
  show ?thesis
  proof (cases res)
    case (Inl e)
    with rec assms(3) stopped_abort show ?thesis by (simp add: run_contract_def recording_def abort_def)
  next
    case (Inr ev)
    with rec have start: "progressed en c adapter revoked run_id [] (?x0\<lparr>x_recorder := r\<rparr>)"
      by (intro start_progressed) simp
    note loop = run_loop_cases [OF assms(1,2) start, of snapshots]
    show ?thesis
    proof (cases "run_loop en c paths run_id snapshots adapter revoked (?x0\<lparr>x_recorder := r\<rparr>)")
      case (Halt oc')
      with loop rec Inr assms(3) show ?thesis by (simp add: run_contract_def recording_def)
    next
      case (Go x)
      with loop obtain order where o: "progressed en c adapter revoked run_id order x" "ids order = ids (c_tasks c)" by auto
      show ?thesis
      proof (cases "verify_required_obligations c (x_states x)")
        case (Some e)
        with Go rec Inr assms(3) stopped_abort show ?thesis by (simp add: run_contract_def recording_def)
      next
        case None
        with Go rec Inr assms(3) o show ?thesis by (auto simp: run_contract_def recording_def)
      qed
    qed
  qed
qed

text \<open>A run that ends without an error has closed every required obligation.\<close>

lemma success_closure:
  assumes "progressed en c adapter revoked run_id order x" and "runnable c" and "ids order = ids (c_tasks c)"
    and "verify_required_obligations c (x_states x) = None"
  shows "mx_status (run_closure en c run_id x ''success'') = ''accepted''"
proof -
  from assms(1) have st: "x_states x = states_after c order" by (simp add: progressed_def)
  have uniq: "distinct (map t_id (c_tasks c))" using assms(2) by (simp add: runnable_def)
  have look: "x_states x (t_id t) = Some (t, ''success'')" if "t \<in> set (c_tasks c)" for t
    using that assms(3) task_by_id_distinct [OF uniq that] by (simp add: st states_after_lookup ids_def)
  have "\<exists>t \<in> set (c_tasks c). ob_id ob \<in> set (t_obligations t)"
    if "ob \<in> set (c_obligations c)" "ob_required ob" for ob
  proof -
    from assms(4) that have "satisfied_obligation c (x_states x) (ob_id ob)"
      by (auto simp: verify_required_obligations_def)
    then show ?thesis using look by (auto simp: satisfied_obligation_def list_ex_iff)
  qed
  with look show ?thesis
    by (auto simp: run_closure_def closure_accepted_iff discharged_def task_statuses_def)
qed

lemma run_paths_differ:
  assumes "is_abs d"
  shows "path_join [d, ''events.ndjson''] \<noteq> path_join [d, ''evidence-pack.json'']"
proof
  assume eq: "path_join [d, ''events.ndjson''] = path_join [d, ''evidence-pack.json'']"
  have a: "path_clean ''events.ndjson'' = ''events.ndjson''" "\<not> escapes ''events.ndjson''"
    "path_elems ''events.ndjson'' = [''events.ndjson'']"
    by code_simp+
  have b: "path_clean ''evidence-pack.json'' = ''evidence-pack.json''" "\<not> escapes ''evidence-pack.json''"
    "path_elems ''evidence-pack.json'' = [''evidence-pack.json'']"
    by code_simp+
  from path_elems_join_inside [OF assms, of "''events.ndjson''"] path_elems_join_inside [OF assms, of "''evidence-pack.json''"]
    a b eq show False by simp
qed

lemma relabelled_Inr: "(case r of Inl e \<Rightarrow> Inl (f e) | Inr y \<Rightarrow> Inr y) = Inr z \<longleftrightarrow> r = Inr z"
  by (cases r) simp_all

lemma check_run_Inr:
  assumes "check_run en c opts fs = Inr paths" and "is_abs (en_cwd en)"
  shows "validate_contract (en_schema_task en) (en_iter en) c = None \<and> rp_ledger paths \<noteq> rp_evidence paths \<and>
    is_abs (rp_workspace_root paths)"
proof -
  from assms(1) obtain w d root where w: "absolute_dir (en_cwd en) (op_workspace_dir opts) ''workspace'' = Inr w"
    and d: "absolute_dir (en_cwd en) (op_out_dir opts) ''out'' = Inr d"
    and root: "safe_join w (ws_root (c_workspace c)) = Inr root"
    and v: "validate_contract (en_schema_task en) (en_iter en) c = None"
    and p: "paths = (let run_dir = path_join [d, resolve_run_id en opts] in
       \<lparr>rp_workspace_root = root, rp_run_dir = run_dir, rp_ledger = path_join [run_dir, ''events.ndjson''],
        rp_evidence = path_join [run_dir, ''evidence-pack.json'']\<rparr>)"
    by (auto simp: check_run_def Let_def relabelled_Inr)
  have "is_abs (path_join [d, i])" for i
  proof -
    from absolute_dir_is_abs [OF assms(2) d] have "is_abs d" .
    then have "d \<noteq> []" "is_abs (d @ z)" for z by (auto simp: is_abs_def split: list.splits)
    then show ?thesis using \<open>is_abs d\<close> by (cases "i = []") (simp_all add: path_join_def)
  qed
  moreover have "is_abs root"
    using safe_join_within [OF absolute_dir_is_abs [OF assms(2) w] root] by (simp add: within_def)
  ultimately show ?thesis using v run_paths_differ by (simp add: p Let_def)
qed

text \<open>What every call of \<open>execute\<close> comes to.\<close>

lemma execute_cases:
  assumes "is_abs (en_cwd en)" and "iteration_order (en_iter en)" and "oc = execute en adapter c opts fs"
  shows "(oc_result oc = None \<and> oc_error oc \<noteq> None) \<or>
    (\<exists>paths snapshots fs'. runnable c \<and> rp_ledger paths \<noteq> rp_evidence paths \<and>
       oc = run_contract en c paths (resolve_run_id en opts) snapshots adapter (op_revoked opts) fs')"
proof (cases "check_run en c opts fs")
  case (Inl e)
  with assms(3) show ?thesis by (simp add: execute_def)
next
  case (Inr paths)
  from check_run_Inr [OF Inr assms(1)] have v: "validate_contract (en_schema_task en) (en_iter en) c = None"
    and p: "rp_ledger paths \<noteq> rp_evidence paths" by simp_all
  from v have "runnable c" using validate_contract_None [OF assms(2)] well_formed_runnable by blast
  with p assms(3) Inr show ?thesis
    by (auto simp: execute_def split: sum.splits prod.splits)
qed

end
