(* ===== verification/Run_Gate.thy ===== *)
theory Run_Gate
  imports Run_Correct
begin

text \<open>
  Two more facts about whole runs. The policy gates the adapter: what an adapter would do with
  an action of a task that is not permitted as a whole makes no difference to a run. And the
  task loop does not stall: it stops early only inside a task.
\<close>

subsection \<open>The policy gates the adapter\<close>

definition policy_action_of :: "action_ref \<Rightarrow> policy_action" where
  "policy_action_of a = \<lparr>pa_type = ac_type a, pa_resource = ac_resource a\<rparr>"

definition task_permitted :: "contract \<Rightarrow> task \<Rightarrow> (string \<Rightarrow> bool) \<Rightarrow> instant \<Rightarrow> bool" where
  "task_permitted c t revoked now \<longleftrightarrow>
     (\<forall>a \<in> set (t_side_effects t). permitted (task_policy_input c t revoked now) now (policy_action_of a))"

text \<open>The requests the policy lets through: an action of a task of the contract all of whose
  actions are permitted at one time the executor reads the clock.\<close>

definition cleared_request :: "env \<Rightarrow> contract \<Rightarrow> (string \<Rightarrow> bool) \<Rightarrow> action_request \<Rightarrow> bool" where
  "cleared_request en c revoked req \<longleftrightarrow>
     rq_task req \<in> set (c_tasks c) \<and> rq_action req \<in> set (t_side_effects (rq_task req)) \<and>
     (\<exists>k. task_permitted c (rq_task req) revoked (en_clock en k))"

lemma no_denied_decision:
  "first_denied_decision (evaluate_task_policy c t revoked now) = None \<longleftrightarrow> task_permitted c t revoked now"
proof -
  have "first_denied_decision ds = None \<longleftrightarrow> (\<forall>d \<in> set ds. dc_decision d \<noteq> decision_deny)" for ds
    by (auto simp: first_denied_decision_def find_None_iff)
  moreover have "(\<forall>d \<in> set (evaluate_task inp now). dc_decision d \<noteq> decision_deny) \<longleftrightarrow>
      (\<forall>a \<in> set (in_actions inp). permitted inp now a)" for inp
    by (auto simp: all_set_conv_all_nth evaluate_task_nth decide_def evaluate_action_outcome split_def Let_def)
  ultimately show ?thesis
    by (simp add: evaluate_task_policy_def task_permitted_def task_policy_input_def policy_action_of_def)
qed

definition agree_on_cleared ::
    "env \<Rightarrow> contract \<Rightarrow> (string \<Rightarrow> bool) \<Rightarrow> action_adapter \<Rightarrow> action_adapter \<Rightarrow> bool" where
  "agree_on_cleared en c revoked a b \<longleftrightarrow> (\<forall>req fs. cleared_request en c revoked req \<longrightarrow> a req fs = b req fs)"

lemma execute_side_effects_agree:
  assumes "agree_on_cleared en c revoked a b" and "t \<in> set (c_tasks c)"
    and "task_permitted c t revoked (en_clock en k)" and "set as \<subseteq> set (t_side_effects t)"
  shows "execute_side_effects root c t a i as fs = execute_side_effects root c t b i as fs"
  using assms(4)
proof (induction as arbitrary: i fs)
  case (Cons x xs)
  let ?req = "\<lparr>rq_workspace_root = root, rq_objective = c_objective c, rq_task = t, rq_action = x, rq_action_index = i\<rparr>"
  from Cons.prems assms(2,3) have "cleared_request en c revoked ?req" by (auto simp: cleared_request_def)
  with assms(1) have "a ?req fs = b ?req fs" by (simp add: agree_on_cleared_def)
  with Cons show ?case by (simp split: prod.split sum.split)
qed simp

lemma execute_task_agree:
  assumes "agree_on_cleared en c revoked a b" and "t \<in> set (c_tasks c)"
    and "task_permitted c t revoked (en_clock en k)"
  shows "execute_task root c t st a fs = execute_task root c t st b fs"
  using execute_side_effects_agree [OF assms subset_refl] by (simp add: execute_task_def)

lemma run_task_agree:
  assumes "agree_on_cleared en c revoked a b" and "t \<in> set (c_tasks c)"
  shows "run_task en c paths run_id snapshots a revoked t x = run_task en c paths run_id snapshots b revoked t x"
proof (cases "task_permitted c t revoked (en_clock en (x_completed x))")
  case True
  have "execute_task root c t st a = execute_task root c t st b" for root st
    using execute_task_agree [OF assms True] by (simp add: fun_eq_iff)
  then show ?thesis unfolding run_task_def by presburger
next
  case False
  then obtain d where d: "first_denied_decision (evaluate_task_policy c t revoked (en_clock en (x_completed x))) = Some d"
    using no_denied_decision by (metis not_None_eq)
  show ?thesis unfolding run_task_def Let_def d option.case by (rule refl)
qed

lemma run_pass_agree:
  assumes "agree_on_cleared en c revoked a b" and "set ts \<subseteq> set (c_tasks c)"
  shows "run_pass en c paths run_id snapshots a revoked ts x p = run_pass en c paths run_id snapshots b revoked ts x p"
  using assms(2)
proof (induction ts arbitrary: x p)
  case (Cons t ts)
  with run_task_agree [OF assms(1), of t] show ?case by (simp split: halting.split)
qed simp

lemma run_loop_agree:
  assumes "agree_on_cleared en c revoked a b"
  shows "run_loop en c paths run_id snapshots a revoked x = run_loop en c paths run_id snapshots b revoked x"
  using assms
proof (induction en c paths run_id snapshots a revoked x rule: run_loop.induct)
  case (1 en c paths run_id snapshots a revoked x)
  have eq: "run_pass en c paths run_id snapshots a revoked (c_tasks c) x False =
      run_pass en c paths run_id snapshots b revoked (c_tasks c) x False"
    by (rule run_pass_agree [OF "1.prems" subset_refl])
  show ?case
    by (rule box_equals [OF _ run_loop.simps [symmetric] run_loop.simps [symmetric]])
       (use "1.IH" [OF _ _ refl _ "1.prems"] in \<open>simp add: eq split: halting.split prod.split\<close>)
qed

lemma execute_agree:
  assumes "agree_on_cleared en c (op_revoked opts) a b"
  shows "execute en a c opts fs = execute en b c opts fs"
  using run_loop_agree [OF assms]
  by (simp add: execute_def run_contract_def split: sum.split prod.split)

subsection \<open>The task loop does not stall\<close>

text \<open>
  A task the loop picks: it has not succeeded and its dependencies have. The states a run passes
  through are those that come from its first state by tasks that were ready and succeeded.
\<close>

definition ready_task :: "task_states \<Rightarrow> task \<Rightarrow> bool" where
  "ready_task st t \<longleftrightarrow> status_of st (t_id t) \<noteq> ''success'' \<and> dependencies_complete st (t_depends_on t)"

inductive passes_through ::
    "env \<Rightarrow> contract \<Rightarrow> run_paths \<Rightarrow> string \<Rightarrow> input_snapshot list \<Rightarrow> action_adapter \<Rightarrow> (string \<Rightarrow> bool) \<Rightarrow>
     exec \<Rightarrow> exec \<Rightarrow> bool"
  for en c paths run_id snapshots adapter revoked x where
  at_start: "passes_through en c paths run_id snapshots adapter revoked x x"
| after_task: "passes_through en c paths run_id snapshots adapter revoked x y \<Longrightarrow> t \<in> set (c_tasks c) \<Longrightarrow>
    ready_task (x_states y) t \<Longrightarrow> run_task en c paths run_id snapshots adapter revoked t y = Go z \<Longrightarrow>
    passes_through en c paths run_id snapshots adapter revoked x z"

lemma passes_through_trans:
  assumes "passes_through en c paths run_id snapshots adapter revoked y z"
    and "passes_through en c paths run_id snapshots adapter revoked x y"
  shows "passes_through en c paths run_id snapshots adapter revoked x z"
  using assms by (induction rule: passes_through.induct) (auto intro: after_task)

text \<open>A pass and the loop go on from a state of the run to a state of the run, or stop inside a ready task.\<close>

definition halted_in_task ::
    "env \<Rightarrow> contract \<Rightarrow> run_paths \<Rightarrow> string \<Rightarrow> input_snapshot list \<Rightarrow> action_adapter \<Rightarrow> (string \<Rightarrow> bool) \<Rightarrow>
     exec \<Rightarrow> run_outcome \<Rightarrow> bool" where
  "halted_in_task en c paths run_id snapshots adapter revoked x oc \<longleftrightarrow>
     (\<exists>t \<in> set (c_tasks c). \<exists>y. passes_through en c paths run_id snapshots adapter revoked x y \<and>
        ready_task (x_states y) t \<and> run_task en c paths run_id snapshots adapter revoked t y = Halt oc)"

lemma halted_later:
  assumes "halted_in_task en c paths run_id snapshots adapter revoked y oc"
    and "passes_through en c paths run_id snapshots adapter revoked x y"
  shows "halted_in_task en c paths run_id snapshots adapter revoked x oc"
  using assms passes_through_trans unfolding halted_in_task_def by blast

lemma run_pass_steps:
  assumes "set ts \<subseteq> set (c_tasks c)"
  shows "case run_pass en c paths run_id snapshots adapter revoked ts x p of
      Halt oc \<Rightarrow> halted_in_task en c paths run_id snapshots adapter revoked x oc
    | Go (y, p') \<Rightarrow> passes_through en c paths run_id snapshots adapter revoked x y"
  using assms
proof (induction ts arbitrary: x p)
  case (Cons t ts)
  show ?case
  proof (cases "ready_task (x_states x) t")
    case ready: True
    then have pick: "\<not> (status_of (x_states x) (t_id t) = ''success'' \<or> \<not> dependencies_complete (x_states x) (t_depends_on t))"
      by (simp add: ready_task_def)
    show ?thesis
    proof (cases "run_task en c paths run_id snapshots adapter revoked t x")
      case (Halt oc)
      with ready Cons.prems at_start have "halted_in_task en c paths run_id snapshots adapter revoked x oc"
        unfolding halted_in_task_def by fastforce
      with pick Halt show ?thesis by simp
    next
      case (Go x1)
      with ready Cons.prems have step: "passes_through en c paths run_id snapshots adapter revoked x x1"
        by (auto intro: after_task [OF at_start])
      show ?thesis using Cons.IH [of x1 True] Cons.prems pick Go step
        by (auto split: halting.splits intro: halted_later passes_through_trans)
    qed
  next
    case False
    with Cons.IH [of x p] Cons.prems show ?thesis by (simp add: ready_task_def)
  qed
qed (simp add: at_start)

lemma run_loop_steps:
  assumes "runnable c" and "rp_ledger paths \<noteq> rp_evidence paths"
    and "progressed en c adapter revoked run_id order x"
  shows "case run_loop en c paths run_id snapshots adapter revoked x of
      Halt oc \<Rightarrow> halted_in_task en c paths run_id snapshots adapter revoked x oc
    | Go y \<Rightarrow> passes_through en c paths run_id snapshots adapter revoked x y"
  using assms
proof (induction en c paths run_id snapshots adapter revoked x arbitrary: order rule: run_loop.induct)
  case (1 en c paths run_id snapshots adapter revoked x)
  show ?case
  proof (cases "x_completed x < length (c_tasks c)")
    case False
    then show ?thesis by (subst run_loop.simps) (simp add: at_start)
  next
    case True
    note pass = run_pass_steps [OF subset_refl, of en c paths run_id snapshots adapter revoked x False]
    show ?thesis
    proof (cases "run_pass en c paths run_id snapshots adapter revoked (c_tasks c) x False")
      case (Halt oc)
      with True pass show ?thesis by (subst run_loop.simps) simp
    next
      case (Go a)
      then obtain x1 progress where a: "run_pass en c paths run_id snapshots adapter revoked (c_tasks c) x False = Go (x1, progress)"
        by (cases a) auto
      from run_pass_progress [OF "1.prems"(3,1,2) True a] have p: "progress" .
      from pass a have step: "passes_through en c paths run_id snapshots adapter revoked x x1" by simp
      from run_pass_cases [OF "1.prems"(3,1,2) order_refl, of snapshots False] a
      obtain ran where ran: "progressed en c adapter revoked run_id (order @ ran) x1" by auto
      have "run_loop en c paths run_id snapshots adapter revoked x = run_loop en c paths run_id snapshots adapter revoked x1"
        using True a p by (subst run_loop.simps) simp
      with "1.IH" [OF _ a refl _ "1.prems"(1,2) ran] True p step show ?thesis
        by (auto split: halting.splits intro: halted_later passes_through_trans)
    qed
  qed
qed

text \<open>Every task has the status success.\<close>

definition all_succeeded :: "contract \<Rightarrow> task_states \<Rightarrow> bool" where
  "all_succeeded c st \<longleftrightarrow> (\<forall>t \<in> set (c_tasks c). st (t_id t) = Some (t, ''success''))"

lemma progressed_all_succeeded:
  assumes "progressed en c adapter revoked run_id order x" and "runnable c" and "ids order = ids (c_tasks c)"
  shows "all_succeeded c (x_states x)"
  using assms task_by_id_distinct
  by (auto simp: all_succeeded_def progressed_def runnable_def states_after_lookup ids_def)

lemma all_succeeded_obligations:
  assumes "all_succeeded c st"
  shows "verify_required_obligations c st = None \<longleftrightarrow>
    (\<forall>ob \<in> set (c_obligations c). ob_required ob \<longrightarrow> (\<exists>t \<in> set (c_tasks c). ob_id ob \<in> set (t_obligations t)))"
  using assms by (auto simp: verify_required_obligations_def satisfied_obligation_def list_ex_iff all_succeeded_def)

definition obligations_claimed :: "contract \<Rightarrow> bool" where
  "obligations_claimed c \<longleftrightarrow>
     (\<forall>ob \<in> set (c_obligations c). ob_required ob \<longrightarrow> (\<exists>t \<in> set (c_tasks c). ob_id ob \<in> set (t_obligations t)))"

lemma all_succeeded_claimed:
  "all_succeeded c st \<Longrightarrow> verify_required_obligations c st = None \<longleftrightarrow> obligations_claimed c"
  by (simp add: all_succeeded_obligations obligations_claimed_def)

text \<open>The event with which a run starts, and the state in which its task loop starts.\<close>

definition start_event :: "env \<Rightarrow> string \<Rightarrow> event" where
  "start_event en run_id =
     stamp (en_sha en) (new_recorder run_id) (event_draft ''run_started'' [] ''success'' ''run accepted'' [])"

definition loop_start :: "env \<Rightarrow> contract \<Rightarrow> string \<Rightarrow> fs \<Rightarrow> exec" where
  "loop_start en c run_id fs = (start_exec en c run_id fs)
     \<lparr>x_recorder := snd (record_event (en_sha en) (en_schema_event en) (new_recorder run_id)
        (event_draft ''run_started'' [] ''success'' ''run accepted'' []))\<rparr>"

lemma loop_start_progressed:
  assumes "en_schema_event en (start_event en run_id) = None"
  shows "progressed en c adapter revoked run_id [] (loop_start en c run_id fs)"
proof -
  obtain res r where rec: "record_event (en_sha en) (en_schema_event en) (x_recorder (start_exec en c run_id fs))
      (event_draft ''run_started'' [] ''success'' ''run accepted'' []) = (res, r)" by force
  with assms obtain ev where "res = Inr ev"
    by (auto simp: record_event_def Let_def start_exec_def start_event_def split: option.splits)
  from start_progressed [OF rec [unfolded this]] rec show ?thesis
    by (simp add: loop_start_def) (simp add: start_exec_def)
qed

lemma run_contract_refused:
  assumes "en_schema_event en (start_event en run_id) = Some e"
  shows "run_contract en c paths run_id snapshots adapter revoked fs = \<lparr>oc_result = None, oc_error = Some e, oc_fs = fs\<rparr>"
  using assms
  by (simp add: run_contract_def recording_def record_event_def Let_def start_exec_def start_event_def abort_def)

lemma run_contract_loop:
  assumes "en_schema_event en (start_event en run_id) = None"
  shows "run_contract en c paths run_id snapshots adapter revoked fs =
    (case run_loop en c paths run_id snapshots adapter revoked (loop_start en c run_id fs) of
       Halt oc \<Rightarrow> oc
     | Go y \<Rightarrow>
         (case verify_required_obligations c (x_states y) of
            Some e \<Rightarrow> \<lparr>oc_result = None, oc_error = Some e, oc_fs = x_fs y\<rparr>
          | None \<Rightarrow> finish_run en c paths run_id snapshots ''success'' ''run completed'' y))"
  using assms
  by (simp add: run_contract_def recording_def record_event_def Let_def start_exec_def start_event_def loop_start_def)

lemma loop_returns_succeeded:
  assumes "runnable c" and "rp_ledger paths \<noteq> rp_evidence paths"
    and "en_schema_event en (start_event en run_id) = None"
    and "run_loop en c paths run_id snapshots adapter revoked (loop_start en c run_id fs) = Go y"
  shows "all_succeeded c (x_states y)"
proof -
  have start: "progressed en c adapter revoked run_id [] (loop_start en c run_id fs)"
    by (rule loop_start_progressed [OF assms(3)])
  from run_loop_cases [OF assms(1,2) start, of snapshots] assms(4) progressed_all_succeeded [OF _ assms(1)]
  show ?thesis by auto
qed

lemma run_contract_no_stall:
  assumes "runnable c" and "rp_ledger paths \<noteq> rp_evidence paths"
    and "oc = run_contract en c paths run_id snapshots adapter revoked fs"
  shows "(\<exists>e. en_schema_event en (start_event en run_id) = Some e \<and>
       oc = \<lparr>oc_result = None, oc_error = Some e, oc_fs = fs\<rparr>) \<or>
    (halted_in_task en c paths run_id snapshots adapter revoked (loop_start en c run_id fs) oc \<and> oc_error oc \<noteq> None) \<or>
    (\<exists>y. run_loop en c paths run_id snapshots adapter revoked (loop_start en c run_id fs) = Go y \<and>
       passes_through en c paths run_id snapshots adapter revoked (loop_start en c run_id fs) y \<and>
       all_succeeded c (x_states y) \<and>
       (if obligations_claimed c then oc = finish_run en c paths run_id snapshots ''success'' ''run completed'' y
        else \<exists>e. verify_required_obligations c (x_states y) = Some e \<and>
          oc = \<lparr>oc_result = None, oc_error = Some e, oc_fs = x_fs y\<rparr>))"
proof (cases "en_schema_event en (start_event en run_id)")
  case (Some e)
  with run_contract_refused assms(3) show ?thesis by blast
next
  case None
  let ?x0 = "loop_start en c run_id fs"
  have start: "progressed en c adapter revoked run_id [] ?x0" by (rule loop_start_progressed [OF None])
  note loop = run_loop_steps [OF assms(1,2) start, of snapshots] and stop = run_loop_cases [OF assms(1,2) start, of snapshots]
  show ?thesis
  proof (cases "run_loop en c paths run_id snapshots adapter revoked ?x0")
    case (Halt oc')
    with loop stop assms(3) run_contract_loop [OF None] show ?thesis by (simp add: stopped_def)
  next
    case (Go y)
    note all = loop_returns_succeeded [OF assms(1,2) None Go]
    with all_succeeded_claimed [OF all] Go loop assms(3) run_contract_loop [OF None] show ?thesis
      by (auto split: option.splits)
  qed
qed

subsection \<open>What a result and a success mean\<close>

lemma finish_run_pack:
  assumes "oc_result (finish_run en c paths run_id snapshots status message x) = Some res"
  shows "pk_run_status (rr_evidence_pack res) = status \<and> pk_policy_decisions (rr_evidence_pack res) = x_decisions x \<and>
    pk_failures (rr_evidence_pack res) = x_failures x \<and>
    pk_closure_matrix (rr_evidence_pack res) = run_closure en c run_id x status"
  using assms by (auto simp: finish_run_def Let_def split: prod.splits sum.splits option.splits)

text \<open>What a run without an error certifies.\<close>

definition certified :: "contract \<Rightarrow> evidence_pack \<Rightarrow> bool" where
  "certified c pk \<longleftrightarrow>
     pk_run_status pk = ''success'' \<and> pk_failures pk = [] \<and> mx_status (pk_closure_matrix pk) = ''accepted'' \<and>
     (\<forall>row \<in> set (mx_rows (pk_closure_matrix pk)). rw_required row \<longrightarrow> rw_status row = ''closed'') \<and>
     (\<forall>d \<in> set (pk_policy_decisions pk). dc_decision d = decision_allow) \<and>
     (\<forall>t \<in> set (c_tasks c). length (filter (\<lambda>d. dc_task_id d = t_id t) (pk_policy_decisions pk)) = length (t_side_effects t))"

lemma length_evaluate_task_policy [simp]:
  "length (evaluate_task_policy c t revoked now) = length (t_side_effects t)"
  by (simp add: evaluate_task_policy_def task_policy_input_def)

lemma decisions_with_task_id:
  "filter (\<lambda>d. dc_task_id d = i) (evaluate_task_policy c t revoked now) =
     (if t_id t = i then evaluate_task_policy c t revoked now else [])"
  using evaluate_task_dc_task_id [of _ "task_policy_input c t revoked now" now]
  by (auto simp: evaluate_task_policy_def filter_id_conv filter_empty_conv task_policy_input_def)

lemma decisions_of_other_task:
  "i \<notin> ids order \<Longrightarrow>
     filter (\<lambda>d. dc_task_id d = i)
       (concat (map (\<lambda>(k, t). evaluate_task_policy c t revoked (en_clock en k)) (enumerate n order))) = []"
  by (induction order arbitrary: n) (auto simp: decisions_with_task_id ids_def)

lemma decisions_of_task:
  assumes "distinct (map t_id order)" and "t \<in> set order"
  shows "length (filter (\<lambda>d. dc_task_id d = t_id t) (decisions_in_order en c revoked order)) = length (t_side_effects t)"
proof -
  have "length (filter (\<lambda>d. dc_task_id d = t_id t)
      (concat (map (\<lambda>(k, t). evaluate_task_policy c t revoked (en_clock en k)) (enumerate n order)))) =
      length (t_side_effects t)" for n
    using assms
  proof (induction order arbitrary: n)
    case (Cons u us)
    show ?case
    proof (cases "t = u")
      case True
      then have "t_id t \<notin> ids us" using Cons.prems(1) by (simp add: ids_def)
      with True show ?thesis
        by (simp add: decisions_with_task_id decisions_of_other_task)
    next
      case False
      with Cons.prems have "t \<in> set us" "t_id u \<noteq> t_id t" by auto
      with Cons.IH [of "Suc n"] Cons.prems show ?thesis by (simp add: decisions_with_task_id)
    qed
  qed simp
  then show ?thesis by (simp add: decisions_in_order_def)
qed

lemma run_contract_success:
  assumes "runnable c" and "rp_ledger paths \<noteq> rp_evidence paths"
    and "oc = run_contract en c paths run_id snapshots adapter revoked fs"
    and "oc_error oc = None" and "oc_result oc = Some res"
  shows "certified c (rr_evidence_pack res)"
proof -
  from run_contract_cases [OF assms(1-3)] assms(4) obtain order x where
    x: "progressed en c adapter revoked run_id order x" and all: "ids order = ids (c_tasks c)"
    and ob: "verify_required_obligations c (x_states x) = None"
    and oc: "oc = finish_run en c paths run_id snapshots ''success'' ''run completed'' x"
    by (auto simp: stopped_def)
  note pack = finish_run_pack [OF assms(5) [unfolded oc]]
  have acc: "mx_status (run_closure en c run_id x ''success'') = ''accepted''"
    by (rule success_closure [OF x assms(1) all ob])
  from x have order: "distinct (map t_id order)" "set order \<subseteq> set (c_tasks c)"
    and ds: "x_decisions x = decisions_in_order en c revoked order"
    "\<forall>d \<in> set (x_decisions x). dc_decision d \<noteq> decision_deny" and fl: "x_failures x = []"
    by (simp_all add: progressed_def)
  have "t \<in> set order" if t: "t \<in> set (c_tasks c)" for t
  proof -
    from t all obtain u where u: "u \<in> set order" "t_id u = t_id t" by (metis ids_def imageE imageI)
    with order(2) t assms(1) have "u = t"
      by (auto simp: runnable_def distinct_map inj_on_def)
    with u show ?thesis by simp
  qed
  then have each: "\<forall>t \<in> set (c_tasks c). length (filter (\<lambda>d. dc_task_id d = t_id t) (x_decisions x)) = length (t_side_effects t)"
    using decisions_of_task [OF order(1)] by (simp add: ds(1))
  have verdict: "dc_decision d = decision_allow" if "d \<in> set (x_decisions x)" for d
    using that ds evaluate_action_verdict
    by (fastforce simp: decisions_in_order_def evaluate_task_policy_def evaluate_task_in_set)
  have rows: "rw_status row = ''closed''" if "row \<in> set (mx_rows (run_closure en c run_id x ''success''))" "rw_required row" for row
    using that acc by (auto simp: run_closure_def closure_accepted_iff row_closed_iff)
  show ?thesis using pack acc each verdict rows fl by (simp add: certified_def)
qed

lemma execute_success:
  assumes "is_abs (en_cwd en)" and "iteration_order (en_iter en)"
    and "oc_error (execute en adapter c opts fs) = None"
  shows "\<exists>res. oc_result (execute en adapter c opts fs) = Some res \<and> certified c (rr_evidence_pack res)"
proof -
  from execute_cases [OF assms(1,2) refl] assms(3) obtain paths snapshots fs' where
    r: "runnable c" "rp_ledger paths \<noteq> rp_evidence paths" and
    oc: "execute en adapter c opts fs = run_contract en c paths (resolve_run_id en opts) snapshots adapter (op_revoked opts) fs'"
    by blast
  have "oc_result (execute en adapter c opts fs) \<noteq> None"
  proof -
    have "oc_error (finish_run en c paths i snapshots s m x) = None \<Longrightarrow>
        oc_result (finish_run en c paths i snapshots s m x) \<noteq> None" for i s m x
      by (auto simp: finish_run_def Let_def split: prod.splits sum.splits option.splits)
    with run_contract_cases [OF r oc] assms(3) show ?thesis by (auto simp: stopped_def)
  qed
  with run_contract_success [OF r oc assms(3)] show ?thesis by auto
qed

lemma execute_reported:
  assumes "is_abs (en_cwd en)" and "iteration_order (en_iter en)"
  shows "\<exists>paths. reported en c adapter (resolve_run_id en opts) paths (execute en adapter c opts fs)"
  using execute_cases [OF assms refl, of adapter c opts fs]
proof (elim disjE exE conjE)
  assume "oc_result (execute en adapter c opts fs) = None"
  then show ?thesis by (simp add: reported_def)
next
  fix paths snapshots fs'
  assume r: "runnable c" "rp_ledger paths \<noteq> rp_evidence paths" and
    "execute en adapter c opts fs = run_contract en c paths (resolve_run_id en opts) snapshots adapter (op_revoked opts) fs'"
  from run_contract_cases [OF r this(3)] show ?thesis
  proof (elim disjE exE conjE)
    assume "stopped en c adapter (resolve_run_id en opts) paths (execute en adapter c opts fs)"
    then show ?thesis unfolding stopped_def by blast
  next
    fix order x
    assume "progressed en c adapter (op_revoked opts) (resolve_run_id en opts) order x"
      and fin: "execute en adapter c opts fs =
        finish_run en c paths (resolve_run_id en opts) snapshots ''success'' ''run completed'' x"
    then have "sound_state en c adapter (resolve_run_id en opts) x" by (simp add: progressed_def)
    from finish_run_reported [OF this r(2)] show ?thesis unfolding fin by blast
  qed
qed

lemma distinct_decisions_of_tasks:
  "distinct (map t_id ts) \<Longrightarrow>
     distinct (map dc_decision_id (concat (map (\<lambda>t. evaluate_task_policy c t revoked (now t)) ts)))"
proof (induction ts)
  case (Cons t ts)
  have own: "\<exists>n. dc_decision_id d = decision_id (t_id u) n" if "d \<in> set (evaluate_task_policy c u revoked (now u))" for d u
    using that by (auto simp: evaluate_task_policy_def evaluate_task_in_set task_policy_input_def)
  have "dc_decision_id d \<noteq> dc_decision_id d'"
    if "d \<in> set (evaluate_task_policy c t revoked (now t))" "u \<in> set ts"
      "d' \<in> set (evaluate_task_policy c u revoked (now u))" for d d' u
    using own [OF that(1)] own [OF that(3)] that(2) Cons.prems by (auto intro: rev_image_eqI dest: sym)
  then have "dc_decision_id ` set (evaluate_task_policy c t revoked (now t)) \<inter>
      dc_decision_id ` (\<Union>u \<in> set ts. set (evaluate_task_policy c u revoked (now u))) = {}" by blast
  with Cons distinct_decision_ids [of "task_policy_input c t revoked (now t)" "now t"] show ?case
    by (simp add: evaluate_task_policy_def)
qed simp

end
