(* ===== verification/Run_Live.thy ===== *)
theory Run_Live
  imports Run_Gate
begin

text \<open>
  When nothing outside the program stands in the way, a run of a valid contract succeeds: the
  schemas accept, the context is not cancelled, every declared action is permitted, and every
  task that is ready can be executed. What is true of the file system between two tasks is a
  parameter \<open>inv\<close> of the statements, which the tasks have to preserve.
\<close>

definition accepting :: "env \<Rightarrow> bool" where
  "accepting en \<longleftrightarrow> (\<forall>e. en_schema_event en e = None) \<and> (\<forall>pk. en_schema_pack en pk = None) \<and>
     (\<forall>k. en_ctx_err en k = None)"

definition all_permitted :: "env \<Rightarrow> contract \<Rightarrow> (string \<Rightarrow> bool) \<Rightarrow> bool" where
  "all_permitted en c revoked \<longleftrightarrow> (\<forall>t \<in> set (c_tasks c). \<forall>k. task_permitted c t revoked (en_clock en k))"

text \<open>Every task whose dependencies have succeeded can be executed, and keeps \<open>keep\<close>.\<close>

definition executable :: "contract \<Rightarrow> action_adapter \<Rightarrow> string \<Rightarrow> (task_states \<Rightarrow> fs \<Rightarrow> bool) \<Rightarrow> bool" where
  "executable c adapter root keep \<longleftrightarrow>
     (\<forall>t \<in> set (c_tasks c). \<forall>st fs. keep st fs \<longrightarrow> dependencies_complete st (t_depends_on t) \<longrightarrow>
        (\<exists>as fs'. execute_task root c t st adapter fs = (Inr as, fs') \<and> keep (set_status st (t_id t) ''success'') fs'))"

text \<open>The ledger can be closed and the evidence pack written.\<close>

definition closable :: "run_paths \<Rightarrow> (task_states \<Rightarrow> fs \<Rightarrow> bool) \<Rightarrow> bool" where
  "closable paths keep \<longleftrightarrow>
     (\<forall>st fs text pack. keep st fs \<longrightarrow>
        (\<exists>fs'. bind_result (os_mkdir_all (fs(rp_ledger paths \<mapsto> File text)) (path_dir (rp_evidence paths)))
                 (\<lambda>fs2. os_write_file fs2 (rp_evidence paths) pack) = Inr fs'))"

lemma recording_accepting:
  "accepting en \<Longrightarrow> recording en d x k =
     k (stamp (en_sha en) (x_recorder x) d)
       (x\<lparr>x_recorder := snd (record_event (en_sha en) (en_schema_event en) (x_recorder x) d)\<rparr>)"
  by (simp add: recording_def record_event_def accepting_def Let_def)

lemma record_decisions_accepting:
  "accepting en \<Longrightarrow> \<exists>r ds'. record_decisions en t ds x = Go (x\<lparr>x_recorder := r, x_decisions := ds'\<rparr>)"
proof (induction ds arbitrary: x)
  case Nil
  have "x = x\<lparr>x_recorder := x_recorder x, x_decisions := x_decisions x\<rparr>" by simp
  then show ?case by (metis record_decisions.simps(1))
next
  case (Cons d ds)
  let ?x = "x\<lparr>x_recorder := snd (record_event (en_sha en) (en_schema_event en) (x_recorder x) (policy_event_draft (t_id t) d)),
     x_decisions := x_decisions x @ [d]\<rparr>"
  from Cons.IH [OF Cons.prems, of ?x] obtain r ds' where
    "record_decisions en t ds ?x = Go (?x\<lparr>x_recorder := r, x_decisions := ds'\<rparr>)" by blast
  then have "record_decisions en t (d # ds) x = Go (x\<lparr>x_recorder := r, x_decisions := ds'\<rparr>)"
    by (simp add: recording_accepting Cons.prems)
  then show ?case by blast
qed

lemma record_artifacts_accepting:
  "accepting en \<Longrightarrow> \<exists>r arts ta. record_artifacts en t as x =
     Go (x\<lparr>x_recorder := r, x_artifacts := arts, x_task_artifacts := ta\<rparr>)"
proof (induction as arbitrary: x)
  case Nil
  have "x = x\<lparr>x_recorder := x_recorder x, x_artifacts := x_artifacts x, x_task_artifacts := x_task_artifacts x\<rparr>" by simp
  then show ?case by (metis record_artifacts.simps(1))
next
  case (Cons a as)
  let ?d = "event_draft ''artifact_recorded'' (t_id t) ''success'' (ar_path a) [ar_artifact_id a]"
  let ?e = "stamp (en_sha en) (x_recorder x) ?d"
  let ?x = "x\<lparr>x_recorder := snd (record_event (en_sha en) (en_schema_event en) (x_recorder x) ?d),
     x_artifacts := x_artifacts x @ [a\<lparr>ar_producer_event_id := ev_event_id ?e\<rparr>],
     x_task_artifacts := (x_task_artifacts x)(t_id t := x_task_artifacts x (t_id t) @ [ar_artifact_id a])\<rparr>"
  from Cons.IH [OF Cons.prems, of ?x] obtain r arts ta where
    "record_artifacts en t as ?x = Go (?x\<lparr>x_recorder := r, x_artifacts := arts, x_task_artifacts := ta\<rparr>)" by blast
  then have "record_artifacts en t (a # as) x = Go (x\<lparr>x_recorder := r, x_artifacts := arts, x_task_artifacts := ta\<rparr>)"
    by (simp add: recording_accepting Cons.prems)
  then show ?case by blast
qed

lemma run_task_succeeds:
  assumes "accepting en" and "task_permitted c t revoked (en_clock en (x_completed x))"
    and "execute_task (rp_workspace_root paths) c t (x_states x) adapter (x_fs x) = (Inr as, fs')"
  shows "\<exists>y. run_task en c paths run_id snapshots adapter revoked t x = Go y \<and> x_fs y = fs' \<and>
    x_states y = set_status (x_states x) (t_id t) ''success''"
proof -
  let ?ds = "evaluate_task_policy c t revoked (en_clock en (x_completed x))"
  let ?d = "event_draft ''task_started'' (t_id t) ''success'' ''task started'' []"
  let ?x1 = "x\<lparr>x_recorder := snd (record_event (en_sha en) (en_schema_event en) (x_recorder x) ?d)\<rparr>"
  from record_decisions_accepting [OF assms(1), of t ?ds ?x1] obtain r ds'
    where ds: "record_decisions en t ?ds ?x1 = Go (?x1\<lparr>x_recorder := r, x_decisions := ds'\<rparr>)" by blast
  let ?x2 = "?x1\<lparr>x_recorder := r, x_decisions := ds', x_fs := fs'\<rparr>"
  from record_artifacts_accepting [OF assms(1), of t as ?x2] obtain r' arts ta
    where arts: "record_artifacts en t as ?x2 = Go (?x2\<lparr>x_recorder := r', x_artifacts := arts, x_task_artifacts := ta\<rparr>)"
    by blast
  have ctx: "en_ctx_err en (x_completed x) = None" using assms(1) by (simp add: accepting_def)
  have ok: "first_denied_decision ?ds = None" using assms(2) no_denied_decision by blast
  show ?thesis
    using ds arts assms(3)
    by (simp add: run_task_def ctx recording_accepting [OF assms(1)] Let_def ok)
qed

text \<open>A pass over ready tasks keeps \<open>keep\<close> and does not stop the run.\<close>

lemma run_pass_succeeds:
  assumes "accepting en" and "all_permitted en c revoked" and "executable c adapter (rp_workspace_root paths) keep"
    and "keep (x_states x) (x_fs x)" and "set ts \<subseteq> set (c_tasks c)"
  shows "\<exists>y p'. run_pass en c paths run_id snapshots adapter revoked ts x p = Go (y, p') \<and> keep (x_states y) (x_fs y)"
  using assms(4,5)
proof (induction ts arbitrary: x p)
  case (Cons t ts)
  show ?case
  proof (cases "status_of (x_states x) (t_id t) = ''success'' \<or> \<not> dependencies_complete (x_states x) (t_depends_on t)")
    case True
    with Cons.IH [OF Cons.prems(1)] Cons.prems(2) show ?thesis by simp
  next
    case False
    with assms(3) Cons.prems obtain as fs' where
      ex: "execute_task (rp_workspace_root paths) c t (x_states x) adapter (x_fs x) = (Inr as, fs')"
      and k: "keep (set_status (x_states x) (t_id t) ''success'') fs'"
      unfolding executable_def by (metis list.set_intros(1) subset_iff)
    from assms(2) Cons.prems(2) have "task_permitted c t revoked (en_clock en (x_completed x))"
      by (simp add: all_permitted_def)
    from run_task_succeeds [OF assms(1) this ex] obtain y where
      "run_task en c paths run_id snapshots adapter revoked t x = Go y" "keep (x_states y) (x_fs y)"
      using k by metis
    with Cons.IH [of y True] Cons.prems(2) False show ?thesis by simp
  qed
qed simp

lemma run_loop_succeeds:
  assumes "accepting en" and "all_permitted en c revoked" and "executable c adapter (rp_workspace_root paths) keep"
    and "runnable c" and "rp_ledger paths \<noteq> rp_evidence paths"
    and "progressed en c adapter revoked run_id order x" and "keep (x_states x) (x_fs x)"
  shows "\<exists>y. run_loop en c paths run_id snapshots adapter revoked x = Go y \<and> keep (x_states y) (x_fs y)"
  using assms
proof (induction en c paths run_id snapshots adapter revoked x arbitrary: order rule: run_loop.induct)
  case (1 en c paths run_id snapshots adapter revoked x)
  show ?case
  proof (cases "x_completed x < length (c_tasks c)")
    case False
    with "1.prems" show ?thesis by (subst run_loop.simps) simp
  next
    case True
    from run_pass_succeeds [OF "1.prems"(1-3,7) order_refl] obtain x1 progress where
      a: "run_pass en c paths run_id snapshots adapter revoked (c_tasks c) x False = Go (x1, progress)"
      and k: "keep (x_states x1) (x_fs x1)" by blast
    from run_pass_progress [OF "1.prems"(6,4,5) True a] have p: "progress" .
    from run_pass_cases [OF "1.prems"(6,4,5) order_refl, of snapshots False] a
    obtain ran where ran: "progressed en c adapter revoked run_id (order @ ran) x1" by auto
    from "1.IH" [OF _ a refl _ "1.prems"(1-5) ran k] True a p show ?thesis
      by (subst run_loop.simps) simp
  qed
qed

lemma run_contract_succeeds:
  assumes "accepting en" and "all_permitted en c revoked" and "executable c adapter (rp_workspace_root paths) keep"
    and "closable paths keep" and "runnable c" and "rp_ledger paths \<noteq> rp_evidence paths"
    and "obligations_claimed c" and "keep (initial_states (c_tasks c)) fs"
  shows "\<exists>res. oc_result (run_contract en c paths run_id snapshots adapter revoked fs) = Some res \<and>
    oc_error (run_contract en c paths run_id snapshots adapter revoked fs) = None"
proof -
  let ?x0 = "start_exec en c run_id fs" and ?d = "event_draft ''run_started'' [] ''success'' ''run accepted'' []"
  let ?r = "snd (record_event (en_sha en) (en_schema_event en) (x_recorder ?x0) ?d)"
  have "record_event (en_sha en) (en_schema_event en) (x_recorder ?x0) ?d = (Inr (stamp (en_sha en) (x_recorder ?x0) ?d), ?r)"
    using assms(1) by (simp add: record_event_def Let_def accepting_def)
  from start_progressed [OF this]
  have start: "progressed en c adapter revoked run_id [] (?x0\<lparr>x_recorder := ?r\<rparr>)" .
  from assms(8) have "keep (x_states (?x0\<lparr>x_recorder := ?r\<rparr>)) (x_fs (?x0\<lparr>x_recorder := ?r\<rparr>))"
    by (simp add: start_exec_def)
  from run_loop_succeeds [OF assms(1-3,5,6) start this, of snapshots] obtain y where
    y: "run_loop en c paths run_id snapshots adapter revoked (?x0\<lparr>x_recorder := ?r\<rparr>) = Go y" "keep (x_states y) (x_fs y)"
    by blast
  with run_loop_cases [OF assms(5,6) start, of snapshots] obtain order where
    "progressed en c adapter revoked run_id order y" "ids order = ids (c_tasks c)" by auto
  then have "verify_required_obligations c (x_states y) = None"
    using progressed_all_succeeded [THEN all_succeeded_obligations] assms(5,7) by (simp add: obligations_claimed_def)
  with y(1) have fin: "run_contract en c paths run_id snapshots adapter revoked fs =
      finish_run en c paths run_id snapshots ''success'' ''run completed'' y"
    by (simp add: run_contract_def recording_accepting [OF assms(1)])
  have rec: "emit (en_sha en) (en_schema_event en) r ty i s m as =
      (Inr (stamp (en_sha en) r (event_draft ty i s m as)), snd (emit (en_sha en) (en_schema_event en) r ty i s m as))" for r ty i s m as
    using assms(1) by (simp add: emit_def record_event_def Let_def accepting_def)
  from assms(4) y(2) have
    "\<exists>fs'. bind_result (os_mkdir_all ((x_fs y)(rp_ledger paths \<mapsto> File s)) (path_dir (rp_evidence paths)))
       (\<lambda>fs2. os_write_file fs2 (rp_evidence paths) pack) = Inr fs'" for s pack
    unfolding closable_def by blast
  moreover have "en_schema_pack en pk = None" for pk using assms(1) by (simp add: accepting_def)
  ultimately show ?thesis
    unfolding fin finish_run_def Let_def
    by (subst (1 2) rec) (simp del: bind_result_Inr split: sum.split, metis sum.distinct(1))
qed

text \<open>What \<open>execute\<close> has done when it starts the task loop.\<close>

definition prepared ::
    "env \<Rightarrow> contract \<Rightarrow> run_options \<Rightarrow> fs \<Rightarrow> run_paths \<Rightarrow> input_snapshot list \<Rightarrow> fs \<Rightarrow> bool" where
  "prepared en c opts fs paths snapshots fs3 \<longleftrightarrow>
     check_run en c opts fs = Inr paths \<and>
     (\<exists>fs1 fs2. os_mkdir_all fs (rp_run_dir paths) = Inr fs1 \<and>
        snapshot_declared_reads (en_sha en) (rp_workspace_root paths) (rp_run_dir paths) 0
          (ws_reads (c_workspace c)) fs1 = (Inr snapshots, fs2) \<and>
        os_write_file fs2 (rp_ledger paths) [] = Inr fs3)"

lemma execute_prepared:
  assumes "prepared en c opts fs paths snapshots fs3"
  shows "execute en adapter c opts fs =
    run_contract en c paths (resolve_run_id en opts) snapshots adapter (op_revoked opts) fs3"
  using assms by (auto simp: prepared_def execute_def)

lemma execute_succeeds:
  assumes "is_abs (en_cwd en)" and "iteration_order (en_iter en)"
    and "prepared en c opts fs paths snapshots fs3" and "accepting en" and "all_permitted en c (op_revoked opts)"
    and "executable c adapter (rp_workspace_root paths) keep" and "closable paths keep"
    and "obligations_claimed c" and "keep (initial_states (c_tasks c)) fs3"
  shows "oc_error (execute en adapter c opts fs) = None"
proof -
  from assms(3) have "check_run en c opts fs = Inr paths" by (simp add: prepared_def)
  from check_run_Inr [OF this assms(1)] have "validate_contract (en_schema_task en) (en_iter en) c = None"
    and p: "rp_ledger paths \<noteq> rp_evidence paths" by simp_all
  then have "runnable c" using validate_contract_None [OF assms(2)] well_formed_runnable by blast
  from run_contract_succeeds [OF assms(4-7) this p assms(8,9)] execute_prepared [OF assms(3)]
  show ?thesis by metis
qed

text \<open>Validation does not ask that required obligations are claimed by tasks. Without that no run succeeds.\<close>

lemma run_success_claimed:
  assumes "runnable c" and "rp_ledger paths \<noteq> rp_evidence paths"
    and "oc_error (run_contract en c paths run_id snapshots adapter revoked fs) = None"
  shows "obligations_claimed c"
proof -
  from run_contract_cases [OF assms(1,2) refl [of "run_contract en c paths run_id snapshots adapter revoked fs"]] assms(3)
  obtain order x where
    "progressed en c adapter revoked run_id order x" "ids order = ids (c_tasks c)"
    "verify_required_obligations c (x_states x) = None"
    by (auto simp: stopped_def)
  with progressed_all_succeeded [OF _ assms(1)] all_succeeded_claimed show ?thesis by blast
qed

lemma execute_success_claimed:
  assumes "is_abs (en_cwd en)" and "iteration_order (en_iter en)" and "oc_error (execute en adapter c opts fs) = None"
  shows "obligations_claimed c"
  using execute_cases [OF assms(1,2) refl [of "execute en adapter c opts fs"]] assms(3) run_success_claimed by metis

lemma execute_succeeds_iff:
  assumes "is_abs (en_cwd en)" and "iteration_order (en_iter en)"
    and "prepared en c opts fs paths snapshots fs3" and "accepting en" and "all_permitted en c (op_revoked opts)"
    and "executable c adapter (rp_workspace_root paths) keep" and "closable paths keep"
    and "keep (initial_states (c_tasks c)) fs3"
  shows "oc_error (execute en adapter c opts fs) = None \<longleftrightarrow> obligations_claimed c"
  using execute_succeeds [OF assms(1-7) _ assms(8)] execute_success_claimed [OF assms(1,2)] by blast

end
