(* ===== verification/Approval.thy ===== *)
theory Approval
  imports Contract
begin

text \<open>
  Approval tickets and revocation lists (internal/approval: ticket_lifecycle.go,
  contract_binding.go). The schema validator is third-party code: its verdicts are the
  arguments \<open>schema_ticket\<close>, \<open>schema_revocations\<close> and \<open>schema_contract\<close>. Reading and
  writing the files is in theory \<open>Approval_Files\<close>.
\<close>

subsection \<open>Tickets (ticket_lifecycle.go)\<close>

record create_input =
  ci_ticket_id :: string
  ci_task_id :: string
  ci_effect_type :: string
  ci_resource :: string
  ci_approved :: bool
  ci_reason :: string
  ci_operator_id :: string
  ci_expires_at :: string

text \<open>
  \<open>portableFragment\<close>: the loop over the characters with the two flags. A non-ASCII code point
  becomes one underscore; its bytes, taken one by one, do as well, since underscores collapse.
\<close>

fun portable_loop :: "bool \<Rightarrow> bool \<Rightarrow> string \<Rightarrow> string" where
  "portable_loop last_hyphen last_underscore [] = []"
| "portable_loop last_hyphen last_underscore (r # rs) =
     (if public_char r then r # portable_loop False False rs
      else if r = CHR '' '' \<or> byte r = 9 \<or> byte r = 10 \<or> byte r = 13 then
        (if last_hyphen then portable_loop last_hyphen last_underscore rs
         else CHR ''-'' # portable_loop True False rs)
      else if last_underscore then portable_loop last_hyphen last_underscore rs
      else CHR ''_'' # portable_loop False True rs)"

definition portable_fragment :: "string \<Rightarrow> string" where
  "portable_fragment raw = trim_set ''_-'' (portable_loop False False (to_lower (trim_space raw)))"

definition default_ticket_id :: "string \<Rightarrow> string \<Rightarrow> string \<Rightarrow> string" where
  "default_ticket_id task_id effect_type resource =
     ''approval-'' @ portable_fragment task_id @ ''-'' @ portable_fragment effect_type @ ''-'' @
     portable_fragment resource"

definition validate_ticket :: "(approval_ticket \<Rightarrow> go_error option) \<Rightarrow> approval_ticket \<Rightarrow> go_error option" where
  "validate_ticket schema_ticket tk =
     first_error [
       fail_if (trim_space (tk_expires_at tk) \<noteq> [] \<and> \<not> valid_rfc3339 (tk_expires_at tk))
         (Errorf (''approval ticket '' @ quoted (tk_ticket_id tk) @ '' expires_at must be RFC3339: '' @
                  undefined (tk_expires_at tk))),
       schema_ticket tk]"

definition created_ticket :: "create_input \<Rightarrow> approval_ticket" where
  "created_ticket i =
     \<lparr>tk_schema_version = ticket_schema_version,
      tk_ticket_id = (if trim_space (ci_ticket_id i) = []
                      then default_ticket_id (ci_task_id i) (ci_effect_type i) (ci_resource i)
                      else trim_space (ci_ticket_id i)),
      tk_task_id = trim_space (ci_task_id i), tk_effect_type = trim_space (ci_effect_type i),
      tk_resource = trim_space (ci_resource i), tk_approved = ci_approved i,
      tk_reason = trim_space (ci_reason i), tk_operator_id = trim_space (ci_operator_id i),
      tk_expires_at = trim_space (ci_expires_at i)\<rparr>"

definition create_ticket ::
    "(approval_ticket \<Rightarrow> go_error option) \<Rightarrow> create_input \<Rightarrow> approval_ticket go_result" where
  "create_ticket schema_ticket i =
     unless_error (validate_ticket schema_ticket (created_ticket i)) (Inr (created_ticket i))"

subsection \<open>Revocation lists\<close>

record revoked_ticket =
  rv_ticket_id :: string
  rv_reason :: string

record revocation_list =
  rl_schema_version :: string
  rl_revoked_tickets :: "revoked_ticket list"

definition check_revoked :: "(string \<Rightarrow> bool) \<Rightarrow> revoked_ticket \<Rightarrow> go_error option" where
  "check_revoked seen r =
     (let i = trim_space (rv_ticket_id r) in
      first_error [
        fail_if (i = []) (Errorf ''revoked ticket id is required''),
        fail_if (i \<noteq> rv_ticket_id r)
          (Errorf (''revoked ticket id '' @ quoted (rv_ticket_id r) @ '' contains surrounding whitespace'')),
        fail_if (seen i) (Errorf (''duplicate revoked ticket id '' @ quoted i)),
        fail_if (trim_space (rv_reason r) = []) (Errorf (''revoked ticket '' @ quoted i @ '' reason is required''))])"

definition validate_revocation_list ::
    "(revocation_list \<Rightarrow> go_error option) \<Rightarrow> revocation_list \<Rightarrow> go_error option" where
  "validate_revocation_list schema_revocations l =
     first_error [
       schema_revocations l,
       first_seen_error (\<lambda>_. False) (\<lambda>r. trim_space (rv_ticket_id r)) check_revoked (rl_revoked_tickets l)]"

definition revoked_ticket_ids :: "revocation_list list \<Rightarrow> string \<Rightarrow> bool" where
  "revoked_ticket_ids ls =
     foldl (\<lambda>ids l. foldl (\<lambda>ids r. ids(rv_ticket_id r := True)) ids (rl_revoked_tickets l)) (\<lambda>_. False) ls"

subsection \<open>Binding to a contract (contract_binding.go)\<close>

fun replace_approval :: "approval_ticket \<Rightarrow> approval_ticket list \<Rightarrow> approval_ticket list \<times> bool" where
  "replace_approval tk [] = ([], False)"
| "replace_approval tk (e # es) =
     (case replace_approval tk es of (next_tks, replaced) \<Rightarrow>
        if tk_ticket_id e = tk_ticket_id tk then (tk # next_tks, True) else (e # next_tks, replaced))"

definition append_or_replace_approval :: "approval_ticket list \<Rightarrow> approval_ticket \<Rightarrow> approval_ticket list" where
  "append_or_replace_approval tks tk =
     (case replace_approval tk tks of (next_tks, replaced) \<Rightarrow> if replaced then next_tks else next_tks @ [tk])"

definition attach ::
    "(approval_ticket \<Rightarrow> go_error option) \<Rightarrow> (contract \<Rightarrow> go_error option) \<Rightarrow> (task \<Rightarrow> string option) \<Rightarrow>
     (string list \<Rightarrow> string list) \<Rightarrow> contract \<Rightarrow> approval_ticket \<Rightarrow> contract go_result" where
  "attach schema_ticket schema_contract schema_task iter c tk =
     unless_error (validate_ticket schema_ticket tk) (
       let updated = c\<lparr>c_approvals := append_or_replace_approval (c_approvals c) tk\<rparr> in
       unless_error (schema_contract updated) (
       unless_error (validate_contract schema_task iter updated) (Inr updated)))"

definition validate_against_contract ::
    "(approval_ticket \<Rightarrow> go_error option) \<Rightarrow> (contract \<Rightarrow> go_error option) \<Rightarrow> (task \<Rightarrow> string option) \<Rightarrow>
     (string list \<Rightarrow> string list) \<Rightarrow> contract \<Rightarrow> approval_ticket \<Rightarrow> go_error option" where
  "validate_against_contract schema_ticket schema_contract schema_task iter c tk =
     first_error [
       validate_ticket schema_ticket tk,
       error_of (attach schema_ticket schema_contract schema_task iter c tk)]"

subsection \<open>Lemmas\<close>

lemma public_char_marks [simp]: "public_char (CHR ''-'')" "public_char (CHR ''_'')"
  by (simp_all add: public_char_def)

lemma portable_loop_public: "c \<in> set (portable_loop h u s) \<Longrightarrow> public_char c"
  by (induction h u s rule: portable_loop.induct) (simp_all split: if_splits, auto)

lemma trim_set_subset: "set (trim_set cs s) \<subseteq> set s"
  by (auto simp: trim_set_def dest!: set_dropWhileD)

lemma portable_fragment_public: "list_all public_char (portable_fragment raw)"
  unfolding portable_fragment_def list_all_iff using trim_set_subset portable_loop_public by blast

lemma default_ticket_id_public: "public_id (default_ticket_id task_id effect_type resource)"
proof -
  have "list_all public_char ''approval-''" "list_all public_char ''-''"
    by (simp_all add: public_char_def is_lower_def)
  moreover have "\<not> is_reserved_windows_name (''approval-'' @ s)" for s
    by (simp add: is_reserved_windows_name_def)
  ultimately show ?thesis
    using portable_fragment_public by (simp add: public_id_def default_ticket_id_def)
qed

lemma replace_approval_eq:
  "replace_approval tk tks =
     (map (\<lambda>e. if tk_ticket_id e = tk_ticket_id tk then tk else e) tks,
      list_ex (\<lambda>e. tk_ticket_id e = tk_ticket_id tk) tks)"
  by (induction tks) auto

lemma append_or_replace_approval_eq:
  "append_or_replace_approval tks tk =
     (let next = map (\<lambda>e. if tk_ticket_id e = tk_ticket_id tk then tk else e) tks
      in if tk_ticket_id tk \<in> tk_ticket_id ` set tks then next else next @ [tk])"
  by (auto simp: append_or_replace_approval_def replace_approval_eq list_ex_iff Let_def intro: rev_image_eqI)

lemma attach_Inr:
  "attach schema_ticket schema_contract schema_task iter c tk = Inr c' \<longleftrightarrow>
     c' = c\<lparr>c_approvals := append_or_replace_approval (c_approvals c) tk\<rparr> \<and>
     validate_ticket schema_ticket tk = None \<and> schema_contract c' = None \<and>
     validate_contract schema_task iter c' = None"
  by (auto simp: attach_def Let_def)

lemma check_revoked_None:
  "check_revoked seen r = None \<longleftrightarrow>
     \<not> seen (trim_space (rv_ticket_id r)) \<and>
     (rv_ticket_id r \<noteq> [] \<and> trim_space (rv_ticket_id r) = rv_ticket_id r \<and> trim_space (rv_reason r) \<noteq> [])"
  by (auto simp: check_revoked_def Let_def)

lemma validate_revocation_list_None:
  "validate_revocation_list schema_revocations l = None \<longleftrightarrow>
     schema_revocations l = None \<and> distinct (map rv_ticket_id (rl_revoked_tickets l)) \<and>
     (\<forall>r \<in> set (rl_revoked_tickets l). rv_ticket_id r \<noteq> [] \<and> trim_space (rv_ticket_id r) = rv_ticket_id r \<and>
        trim_space (rv_reason r) \<noteq> [])" (is "?lhs \<longleftrightarrow> ?rhs")
proof -
  let ?rs = "rl_revoked_tickets l"
  have "?lhs \<longleftrightarrow> schema_revocations l = None \<and> distinct (map (\<lambda>r. trim_space (rv_ticket_id r)) ?rs) \<and>
      (\<forall>r \<in> set ?rs. rv_ticket_id r \<noteq> [] \<and> trim_space (rv_ticket_id r) = rv_ticket_id r \<and>
        trim_space (rv_reason r) \<noteq> [])"
    unfolding validate_revocation_list_def first_error_None
    by (simp add: first_seen_error_None [where ok = "\<lambda>r. rv_ticket_id r \<noteq> [] \<and>
          trim_space (rv_ticket_id r) = rv_ticket_id r \<and> trim_space (rv_reason r) \<noteq> []"] check_revoked_None)
  also have "\<dots> \<longleftrightarrow> ?rhs"
    by (metis (mono_tags, lifting) map_eq_conv)
  finally show ?thesis .
qed

lemma revoked_ticket_ids_iff:
  "revoked_ticket_ids ls i \<longleftrightarrow> (\<exists>l \<in> set ls. \<exists>r \<in> set (rl_revoked_tickets l). rv_ticket_id r = i)"
proof -
  have inner: "foldl (\<lambda>ids r. ids(rv_ticket_id r := True)) f rs i \<longleftrightarrow> f i \<or> (\<exists>r \<in> set rs. rv_ticket_id r = i)"
    for f rs by (induction rs arbitrary: f) auto
  have "foldl (\<lambda>ids l. foldl (\<lambda>ids r. ids(rv_ticket_id r := True)) ids (rl_revoked_tickets l)) f ls i \<longleftrightarrow>
      f i \<or> (\<exists>l \<in> set ls. \<exists>r \<in> set (rl_revoked_tickets l). rv_ticket_id r = i)" for f
    by (induction ls arbitrary: f) (auto simp: inner)
  then show ?thesis by (simp add: revoked_ticket_ids_def)
qed

end
