(* ===== verification/Ledger_File.thy ===== *)
theory Ledger_File
  imports Provenance
begin

text \<open>
  The ledger as a file, between the recorder that writes it (internal/run) and the verifier that
  reads it back (internal/verify): a line per event, no line end inside a line, and the limit on
  the length of a line that only the reader has.
\<close>

subsection \<open>A line has no line end in it\<close>

abbreviation newline :: char where "newline \<equiv> CHR 0x0A"

lemma utf8_point_high:
  "utf8_len_bytes bs = n \<Longrightarrow> bs = b # cs \<Longrightarrow> 128 \<le> b \<Longrightarrow> x \<in> set (take n bs) \<Longrightarrow> 128 \<le> x"
  by (auto simp: is_cont_def split: if_splits list.splits)

lemma point_bytes: "map byte (take (utf8_len s) s) = take (utf8_len s) (map byte (take 4 s))"
  using utf8_len_le(2) [of s] by (simp add: take_map min_def)

lemma newline_not_in_point:
  assumes "\<not> is_ascii_char c"
  shows "newline \<notin> set (take (utf8_len (c # cs)) (c # cs))"
proof
  let ?s = "c # cs"
  assume "newline \<in> set (take (utf8_len ?s) ?s)"
  then have "byte newline \<in> byte ` set (take (utf8_len ?s) ?s)" by (rule imageI)
  then have "10 \<in> set (map byte (take (utf8_len ?s) ?s))" by simp
  then have "10 \<in> set (take (utf8_len ?s) (map byte (take 4 ?s)))" by (simp only: point_bytes)
  moreover have "map byte (take 4 ?s) = byte c # map byte (take 3 cs)" by (simp add: numeral_eq_Suc)
  moreover have "128 \<le> byte c" using assms by (simp add: is_ascii_char_def)
  ultimately have "128 \<le> (10::nat)"
    using utf8_point_high [of "map byte (take 4 ?s)" "utf8_len ?s" "byte c" "map byte (take 3 cs)" 10]
    by (simp add: utf8_len_def)
  then show False by simp
qed

lemma json_ascii_no_newline: "newline \<notin> set (json_ascii c)"
proof -
  have "byte x \<noteq> 10" if "x \<in> set (json_ascii c)" for x
  proof -
    have "byte c div 16 < 16" by (rule less_mult_imp_div_less) (simp add: byte_lt_256)
    with that show ?thesis
      by (auto simp: json_ascii_def unicode_escape_def byte_hex_digit split: if_splits)
  qed
  then show ?thesis by fastforce
qed

lemma json_body_no_newline: "newline \<notin> set (json_body s)"
proof (induction s rule: json_body.induct)
  case (1 s)
  show ?case
  proof (cases s)
    case Nil
    then show ?thesis by simp
  next
    case (Cons c cs)
    with 1 show ?thesis
      using json_ascii_no_newline [of c] newline_not_in_point [of c cs]
      by (subst json_body.simps) auto
  qed
qed

lemma no_newline_simps [simp]:
  "newline \<notin> set (json_string s)" "newline \<notin> set (int_text i)"
proof -
  show "newline \<notin> set (json_string s)" using json_body_no_newline by (simp add: json_string_def)
  have "newline \<notin> set (decimal n)" for n by (rule decimal_free) (simp add: is_digit_def)
  then show "newline \<notin> set (int_text i)" by (simp add: int_text_def)
qed

lemma join_no_newline: "newline \<notin> set sep \<Longrightarrow> \<forall>w \<in> set ws. newline \<notin> set w \<Longrightarrow> newline \<notin> set (join_with sep ws)"
  by (induction sep ws rule: join_with.induct) auto

lemma json_text_no_newline: "newline \<notin> set (json_text v)"
proof (induction v rule: json.induct)
  case (JArr vs)
  then have "newline \<notin> set (join_with '','' (map json_text vs))" by (intro join_no_newline) auto
  then show ?case by simp
next
  case (JObj fs)
  then have "newline \<notin> set (join_with '','' (map (\<lambda>(k, v). json_string k @ '':'' @ json_text v) fs))"
    by (intro join_no_newline) auto
  then show ?case by simp
qed simp_all

subsection \<open>What the reader sees\<close>

lemma scan_lines_concat:
  "\<forall>w \<in> set ws. newline \<notin> set w \<Longrightarrow> scan_lines (concat (map (\<lambda>w. w @ [newline]) ws)) = ws"
proof (induction ws)
  case (Cons w ws)
  let ?rest = "concat (map (\<lambda>w. w @ [newline]) ws)"
  have "split_on newline (w @ newline # ?rest) = w # split_on newline ?rest"
    using Cons.prems split_on_append [of newline w ?rest] by (simp add: split_on_free)
  with Cons show ?case by (auto simp: scan_lines_def Let_def)
qed (simp add: scan_lines_def)

lemma scan_ledger_text: "scan_lines (ledger_text es) = map (\<lambda>e. json_text (event_json e)) es"
  using scan_lines_concat [of "map (\<lambda>e. json_text (event_json e)) es"] json_text_no_newline
  by (simp add: ledger_text_def ledger_line_def [abs_def] o_def)

lemma drop_cr_event: "drop_cr (json_text (event_json e)) = json_text (event_json e)"
  by (simp add: drop_cr_def event_json_def)

text \<open>
  A ledger whose lines are short is read back event for event, when decoding inverts the
  encoding on its events.
\<close>

definition decodes :: "(string \<Rightarrow> event go_result) \<Rightarrow> event list \<Rightarrow> bool" where
  "decodes decode_event es \<longleftrightarrow> list_all (\<lambda>e. decode_event (json_text (event_json e)) = Inr e) es"

definition short_lines :: "event list \<Rightarrow> bool" where
  "short_lines es \<longleftrightarrow> list_all (\<lambda>e. length (json_text (event_json e)) < 65536) es"

lemma read_back:
  assumes "decodes decode_event es" and "short_lines es"
  shows "read_ledger decode_event (ledger_text es) = Inr es"
proof -
  have "read_ledger decode_event (ledger_text es) =
      map_result (\<lambda>e. if 65536 \<le> length (json_text (event_json e)) then Inl (Errorf ''scan ledger: bufio.Scanner: token too long'')
        else decode_event (json_text (event_json e))) es"
    unfolding read_ledger_def scan_ledger_text map_result_map drop_cr_event by (rule refl)
  also have "\<dots> = Inr (map (\<lambda>e. e) es)"
    using assms by (intro map_result_total) (auto simp: decodes_def short_lines_def list_all_iff not_le)
  finally show ?thesis by simp
qed

subsection \<open>The limit of the reader\<close>

lemma json_ascii_length: "1 \<le> length (json_ascii c)"
  by (simp add: json_ascii_def unicode_escape_def)

lemma json_body_length: "length s \<le> length (json_body s)"
proof (induction s rule: json_body.induct)
  case (1 s)
  show ?case
  proof (cases s)
    case (Cons c cs)
    with 1 show ?thesis
      using json_ascii_length [of c] utf8_len_le(1) [of s]
      by (subst json_body.simps) (auto simp: Let_def min_def)
  qed simp
qed

lemma join_length: "w \<in> set ws \<Longrightarrow> length w \<le> length (join_with sep ws)"
  by (induction sep ws rule: join_with.induct) auto

lemma event_line_length: "length (ev_message e) \<le> length (json_text (event_json e))"
proof (cases "ev_message e = []")
  case False
  let ?field = "\<lambda>(k, v). json_string k @ '':'' @ json_text v"
  have "(''message'', JStr (ev_message e)) \<in> set (event_head e @ field ''event_hash'' (JStr (ev_event_hash e)) @ event_tail e)"
    using False by (simp add: event_tail_def field_str_opt_def)
  then have "?field (''message'', JStr (ev_message e)) \<in>
      set (map ?field (event_head e @ field ''event_hash'' (JStr (ev_event_hash e)) @ event_tail e))" by force
  from join_length [OF this, of "'',''"] json_body_length [of "ev_message e"] show ?thesis
    by (simp add: event_json_def json_string_def)
qed simp

lemma long_message_unreadable:
  assumes "e \<in> set es" and "65536 \<le> length (ev_message e)"
  shows "\<exists>err. read_ledger decode_event (ledger_text es) = Inl err"
proof -
  have "\<exists>w \<in> set (scan_lines (ledger_text es)). 65536 \<le> length w"
    using assms event_line_length [of e] by (force simp: scan_ledger_text)
  then show ?thesis
    unfolding read_ledger_def map_result_Inl_iff by force
qed

subsection \<open>What the verifier's checks of files and of the run establish\<close>

definition artifact_on_disk :: "(string \<Rightarrow> string) \<Rightarrow> fs \<Rightarrow> string \<Rightarrow> artifact_ref \<Rightarrow> bool" where
  "artifact_on_disk sha fs workspace_dir a \<longleftrightarrow>
     ar_uri a = ''covenant-artifact://sha256/'' @ ar_digest a \<and>
     (\<exists>target s. workspace_artifact_path workspace_dir (ar_path a) = Inr target \<and> fs target = Some (File s) \<and>
        sha s = ar_digest a)"

lemma verify_artifact_None: "verify_artifact sha fs d a = None \<longleftrightarrow> artifact_on_disk sha fs d a"
  by (auto simp: verify_artifact_def artifact_on_disk_def os_stat_def file_digest_def os_read_file_def Let_def
      split: sum.splits option.splits node.splits)

definition snapshot_on_disk :: "(string \<Rightarrow> string) \<Rightarrow> fs \<Rightarrow> string \<Rightarrow> input_snapshot \<Rightarrow> bool" where
  "snapshot_on_disk sha fs run_dir s \<longleftrightarrow>
     (\<exists>target text. input_snapshot_path run_dir (sn_snapshot_path s) = Inr target \<and> fs target = Some (File text) \<and>
        sha text = sn_digest s)"

lemma verify_input_snapshot_None: "verify_input_snapshot sha fs d s = None \<longleftrightarrow> snapshot_on_disk sha fs d s"
  by (auto simp: verify_input_snapshot_def snapshot_on_disk_def os_stat_def file_digest_def os_read_file_def Let_def
      split: sum.splits option.splits node.splits)

lemma verify_run_Inr:
  "verify_run sha decode_event decode_evidence cwd opts fs = Inr result \<longleftrightarrow>
    (\<exists>written es evidence pk workspace_dir failures.
       fs (vo_ledger_path opts) = Some (File written) \<and> read_ledger decode_event written = Inr es \<and> es \<noteq> [] \<and>
       verify_chain sha es = None \<and>
       fs (vo_evidence_path opts) = Some (File evidence) \<and> decode_evidence evidence = Inr pk \<and>
       pk_ledger_digest pk = sha written \<and> pk_run_id pk = ev_run_id (hd es) \<and>
       list_all (snapshot_on_disk sha fs (path_dir (vo_evidence_path opts))) (pk_input_snapshots pk) \<and>
       resolve_workspace_dir cwd opts = Inr workspace_dir \<and>
       list_all (artifact_on_disk sha fs workspace_dir) (pk_artifact_manifest pk) \<and>
       verify_evidence_provenance pk es = None \<and>
       list_all (\<lambda>d. \<not> (dc_ticket_id d \<noteq> [] \<and> vo_revoked opts (dc_ticket_id d))) (pk_policy_decisions pk) \<and>
       summarize_failures (pk_failures pk) (event_lines_from es) = Inr failures \<and>
       result = \<lparr>vr_schema_version = ''covenant.verify-result.v1'', vr_verified = True, vr_run_id = pk_run_id pk,
         vr_event_count = length es, vr_artifact_count = length (pk_artifact_manifest pk),
         vr_input_snapshot_count = length (pk_input_snapshots pk), vr_failure_count = length (pk_failures pk),
         vr_failures = failures, vr_policy_explanations = explain_decisions (pk_policy_decisions pk),
         vr_ledger_digest = sha written, vr_last_event_hash = ev_event_hash (last es)\<rparr>)"
proof -
  have read: "os_read_file fs p = Inr s \<longleftrightarrow> fs p = Some (File s)" for p s
    by (auto simp: os_read_file_def split: option.splits node.splits)
  have snaps: "verify_input_snapshots sha fs d ss = None \<longleftrightarrow> list_all (snapshot_on_disk sha fs d) ss" for d ss
    by (simp add: verify_input_snapshots_def verify_input_snapshot_None list_all_iff)
  have arts: "verify_artifacts sha fs d as = None \<longleftrightarrow> list_all (artifact_on_disk sha fs d) as" for d as
    by (simp add: verify_artifacts_def verify_artifact_None list_all_iff)
  have revoked: "verify_revoked_approval_tickets ds r = None \<longleftrightarrow>
      list_all (\<lambda>d. \<not> (dc_ticket_id d \<noteq> [] \<and> r (dc_ticket_id d))) ds" for ds r
    by (simp add: verify_revoked_approval_tickets_def list_all_iff)
  have three: "first_error [a, b, e] = None \<longleftrightarrow> a = None \<and> b = None \<and> e = None" for a b e :: "go_error option"
    by simp
  show ?thesis
    unfolding verify_run_def bind_result_Inr unless_error_Inr labelled_Inr three read snaps arts revoked
      fail_if_None
    by blast
qed

end
