(* ===== verification/Examples.thy ===== *)
theory Examples
  imports Run_Live Approval Ledger_File
begin

text \<open>
  A small contract and a world to run it in, on which the properties of whole runs are applied:
  a scripted task that writes a file and a verify task that depends on it.
\<close>

definition example_write_task :: task where
  "example_write_task =
     \<lparr>t_id = ''w'', t_kind = ''scripted'', t_adapter = ''a'', t_depends_on = [], t_obligations = [''o''],
      t_timeout_secs = 5, t_side_effects = [\<lparr>ac_type = ''file.write'', ac_resource = ''f''\<rparr>]\<rparr>"

definition example_verify_task :: task where
  "example_verify_task =
     \<lparr>t_id = ''v'', t_kind = ''verify'', t_adapter = ''a'', t_depends_on = [''w''], t_obligations = [''o''],
      t_timeout_secs = 5, t_side_effects = []\<rparr>"

definition example_contract :: contract where
  "example_contract =
     \<lparr>c_schema_version = ''covenant.contract.v1'', c_objective = ''x'',
      c_workspace = \<lparr>ws_root = ''.'', ws_reads = [], ws_writes = [''f'']\<rparr>,
      c_obligations = [\<lparr>ob_id = ''o'', ob_text = ''t'', ob_required = True\<rparr>],
      c_tasks = [example_verify_task, example_write_task], c_policy_mode = ''strict'', c_approvals = [],
      c_required_obligations = [''o'']\<rparr>"

text \<open>A stand-in for the hash: any function will do where the properties are applied.\<close>

definition example_sha :: "string \<Rightarrow> string" where
  "example_sha s = ''h'' @ decimal (length s)"

definition example_env :: env where
  "example_env =
     \<lparr>en_schema_contract = (\<lambda>_. None), en_schema_task = (\<lambda>_. None), en_schema_event = (\<lambda>_. None),
      en_schema_pack = (\<lambda>_. None), en_sha = example_sha, en_iter = (\<lambda>ks. ks), en_cwd = ''/'',
      en_unix_nano = 1, en_clock = (\<lambda>_. zero_time), en_ctx_err = (\<lambda>_. None)\<rparr>"

definition example_adapter :: action_adapter where
  "example_adapter = default_adapter example_sha (\<lambda>_. None) (\<lambda>_ _ _ fs. (ExitFailed [], fs)) []"

definition example_options :: run_options where
  "example_options = \<lparr>op_workspace_dir = ''/w'', op_out_dir = ''/o'', op_run_id = ''r'', op_revoked = (\<lambda>_. False)\<rparr>"

definition example_fs :: fs where
  "example_fs = (\<lambda>p. if p \<in> {''/'', ''/w''} then Some Dir else None)"

definition example_outcome :: run_outcome where
  "example_outcome = execute example_env example_adapter example_contract example_options example_fs"

subsection \<open>The example runs\<close>

definition example_paths :: run_paths where
  "example_paths = \<lparr>rp_workspace_root = ''/w'', rp_run_dir = ''/o/r'', rp_ledger = ''/o/r/events.ndjson'',
     rp_evidence = ''/o/r/evidence-pack.json''\<rparr>"

lemma example_check: "check_run example_env example_contract example_options example_fs = Inr example_paths"
  by code_simp

lemma example_valid: "validate_contract (\<lambda>_. None) (\<lambda>ks. ks) example_contract = None"
  by code_simp

lemma example_order: "iteration_order (\<lambda>ks. ks)"
  by (simp add: iteration_order_def)

lemma example_env_fields [simp]:
  "en_schema_task example_env = (\<lambda>_. None)" "en_iter example_env = (\<lambda>ks. ks)" "en_cwd example_env = ''/''"
  "en_sha example_env = example_sha" "en_clock example_env k = zero_time" "is_abs ''/''"
  by (simp_all add: example_env_def is_abs_def)

lemma example_accepting: "accepting example_env"
  by (simp add: accepting_def example_env_def)

lemma example_runnable: "runnable example_contract"
  using validate_contract_None [OF example_order] example_valid well_formed_runnable by blast

text \<open>What holds of the file system between the tasks.\<close>

definition example_keep :: "task_states \<Rightarrow> fs \<Rightarrow> bool" where
  "example_keep st fs \<longleftrightarrow>
     list_all (\<lambda>d. fs d = Some Dir) [''/'', ''/w'', ''/o'', ''/o/r''] \<and> fs ''/w/f'' \<noteq> Some Dir \<and>
     fs ''/o/r/evidence-pack.json'' \<noteq> Some Dir \<and>
     (status_of st ''w'' = ''success'' \<longrightarrow> (\<exists>s. fs ''/w/f'' = Some (File s) \<and> s \<noteq> []))"

lemma example_path_facts:
  "safe_join ''/w'' ''f'' = Inr ''/w/f''" "path_dir ''/w/f'' = ''/w''" "dir_chain ''/w'' = [''/'', ''/w'']"
  "path_dir ''/o/r/evidence-pack.json'' = ''/o/r''" "dir_chain ''/o/r'' = [''/'', ''/o'', ''/o/r'']"
  by code_simp+

lemma example_write:
  assumes "fs ''/'' = Some Dir" and "fs ''/w'' = Some Dir" and "fs ''/w/f'' \<noteq> Some Dir"
    and "rq_workspace_root req = ''/w''" and "rq_action req = \<lparr>ac_type = ''file.write'', ac_resource = ''f''\<rparr>"
  shows "\<exists>as. example_adapter req fs = (Inr as, fs(''/w/f'' \<mapsto> File (file_contents req)))"
proof -
  from assms(1,2) have "os_mkdir_all fs ''/w'' = Inr fs"
    by (auto simp: os_mkdir_all_def example_path_facts)
  with assms show ?thesis
    by (simp add: example_adapter_def default_adapter_def execute_file_write_def write_and_digest_def
        example_path_facts os_write_file_def file_digest_def os_read_file_def)
qed

lemma example_executable: "executable example_contract example_adapter ''/w'' example_keep"
  unfolding executable_def
proof (intro ballI allI impI)
  fix t st fs
  assume t: "t \<in> set (c_tasks example_contract)" and k: "example_keep st fs"
    and d: "dependencies_complete st (t_depends_on t)"
  from t consider "t = example_verify_task" | "t = example_write_task" by (auto simp: example_contract_def)
  then show "\<exists>as fs'. execute_task ''/w'' example_contract t st example_adapter fs = (Inr as, fs') \<and>
      example_keep (set_status st (t_id t) ''success'') fs'"
  proof cases
    case 1
    with d have s: "status_of st ''w'' = ''success''" by (simp add: dependencies_complete_def example_verify_task_def)
    then have "status_of (set_status st ''v'' ''success'') ''w'' = ''success''"
      by (auto simp: status_of_def set_status_def split: option.splits)
    with k s 1 show ?thesis
      by (auto simp: execute_task_def example_verify_task_def example_contract_def verify_workspace_writes_def
          example_path_facts example_keep_def os_stat_def verdict_of_def)
  next
    case 2
    let ?req = "\<lparr>rq_workspace_root = ''/w'', rq_objective = c_objective example_contract, rq_task = t,
      rq_action = \<lparr>ac_type = ''file.write'', ac_resource = ''f''\<rparr>, rq_action_index = 0\<rparr>"
    from k have "\<exists>as. example_adapter ?req fs = (Inr as, fs(''/w/f'' \<mapsto> File (file_contents ?req)))"
      by (intro example_write) (simp_all add: example_keep_def)
    then obtain as where "example_adapter ?req fs = (Inr as, fs(''/w/f'' \<mapsto> File (file_contents ?req)))" ..
    then have "execute_task ''/w'' example_contract t st example_adapter fs =
        (Inr (as @ []), fs(''/w/f'' \<mapsto> File (file_contents ?req)))"
      by (simp add: 2 execute_task_def example_write_task_def)
    with k show ?thesis by (simp add: example_keep_def file_contents_def)
  qed
qed

lemma example_closable: "closable example_paths example_keep"
  by (auto simp: closable_def example_paths_def example_keep_def example_path_facts os_mkdir_all_def
      os_write_file_def)

lemma example_claimed: "obligations_claimed example_contract"
  by (simp add: obligations_claimed_def example_contract_def example_write_task_def)

lemma example_permitted: "all_permitted example_env example_contract (\<lambda>_. False)"
proof -
  have "first_denied_decision (evaluate_task_policy example_contract example_write_task (\<lambda>_. False) zero_time) = None"
    by code_simp
  then have "task_permitted example_contract example_write_task (\<lambda>_. False) zero_time"
    by (rule no_denied_decision [THEN iffD1])
  then show ?thesis
    by (simp add: all_permitted_def example_contract_def)
       (simp add: task_permitted_def example_verify_task_def)
qed

text \<open>The file system when the task loop starts.\<close>

definition example_start_fs :: fs where
  "example_start_fs = (\<lambda>p. if p = ''/o/r/events.ndjson'' then Some (File [])
     else if p \<in> {''/'', ''/o'', ''/o/r'', ''/w''} then Some Dir else None)"

lemma example_prepared: "prepared example_env example_contract example_options example_fs example_paths [] example_start_fs"
proof -
  let ?fs1 = "\<lambda>p. if p \<in> {''/'', ''/o'', ''/o/r'', ''/w''} then Some Dir else None"
  have "os_mkdir_all example_fs ''/o/r'' = Inr ?fs1"
    by (auto simp: os_mkdir_all_def example_path_facts example_fs_def fun_eq_iff)
  moreover have "os_write_file ?fs1 ''/o/r/events.ndjson'' [] = Inr example_start_fs"
  proof -
    have "path_dir ''/o/r/events.ndjson'' = ''/o/r''" by code_simp
    then show ?thesis by (auto simp: os_write_file_def example_start_fs_def fun_eq_iff)
  qed
  moreover have "ws_reads (c_workspace example_contract) = []" by (simp add: example_contract_def)
  ultimately show ?thesis using example_check by (simp add: prepared_def) (simp add: example_paths_def)
qed

lemma example_starts: "example_keep (initial_states (c_tasks example_contract)) example_start_fs"
  by (simp add: example_keep_def example_start_fs_def initial_states_def example_contract_def status_of_def
      example_write_task_def example_verify_task_def)

lemma example_paths_differ: "rp_ledger example_paths \<noteq> rp_evidence example_paths"
  by (simp add: example_paths_def)

lemma example_accepts_start: "en_schema_event example_env e = None"
  by (simp add: example_env_def)

lemma example_loop_succeeds:
  "oc_error (run_contract example_env example_contract example_paths ''r'' [] example_adapter (\<lambda>_. False) example_start_fs) = None"
proof -
  have "executable example_contract example_adapter (rp_workspace_root example_paths) example_keep"
    using example_executable by (simp add: example_paths_def)
  from run_contract_succeeds [OF example_accepting example_permitted this example_closable example_runnable
      example_paths_differ example_claimed example_starts, of "''r''" "[]"]
  show ?thesis by blast
qed

text \<open>The same contract with another required obligation, which no task claims, and the run of it.\<close>

definition unclaimed_contract :: contract where
  "unclaimed_contract = example_contract
     \<lparr>c_obligations := [\<lparr>ob_id = ''o'', ob_text = ''t'', ob_required = True\<rparr>, \<lparr>ob_id = ''p'', ob_text = ''t'', ob_required = True\<rparr>],
      c_required_obligations := [''o'', ''p'']\<rparr>"

lemma unclaimed_valid: "validate_contract (\<lambda>_. None) (\<lambda>ks. ks) unclaimed_contract = None"
  by code_simp

lemma unclaimed_obligation: "\<not> obligations_claimed unclaimed_contract"
  by (simp add: obligations_claimed_def unclaimed_contract_def example_contract_def example_write_task_def
      example_verify_task_def)

lemma example_names: "adapter_names example_adapter"
  unfolding example_adapter_def by (rule default_adapter_names)

lemma example_run_id: "resolve_run_id example_env example_options = ''r''"
  by code_simp

lemma example_succeeds: "oc_error example_outcome = None"
  unfolding example_outcome_def
  by (rule execute_succeeds [OF _ _ example_prepared example_accepting _ _ example_closable
        example_claimed example_starts])
     (use example_order example_permitted example_executable in
        \<open>simp_all add: example_options_def example_paths_def\<close>)

lemma example_result: "\<exists>res. oc_result example_outcome = Some res"
  using execute_success [of example_env example_adapter example_contract example_options example_fs]
    example_order example_succeeds
  by (auto simp: example_outcome_def)

subsection \<open>Small inputs\<close>

definition example_event :: event where
  "example_event = zero_event\<lparr>ev_schema_version := ''covenant.event.v1'', ev_event_id := ''event-000001'',
     ev_sequence := 1, ev_run_id := ''r'', ev_previous_event_hash := genesis_event_hash, ev_event_hash := ''h'',
     ev_type := ''run_started'', ev_status := ''success'', ev_message := ''run accepted''\<rparr>"

lemma example_event_verifies: "verify_chain (\<lambda>_. ''h'') [example_event] = None" "event_utf8 example_event"
proof -
  show "verify_chain (\<lambda>_. ''h'') [example_event] = None"
    by (simp add: verify_chain_def example_event_def event_content_hash_def)
  show "event_utf8 example_event" by code_simp
qed

definition example_claim_action :: policy_action where
  "example_claim_action = \<lparr>pa_type = ''claim.publish'', pa_resource = ''full-autonomous-self-mutating-rsi''\<rparr>"

definition example_claim :: policy_input where
  "example_claim = \<lparr>in_mode = ''strict'', in_reads = [], in_writes = [], in_task_id = ''p'',
     in_actions = [example_claim_action],
     in_approvals = [\<lparr>tk_schema_version = ''covenant.approval-ticket.v1'', tk_ticket_id = ''k'', tk_task_id = ''p'',
       tk_effect_type = ''claim.publish'', tk_resource = ''full-autonomous-self-mutating-rsi'', tk_approved = True,
       tk_reason = ''Mutation authority, rollback and live self-change shown'', tk_operator_id = ''op'', tk_expires_at = []\<rparr>],
     in_time = zero_time, in_revoked = (\<lambda>_. False)\<rparr>"

definition example_ticket :: approval_ticket where
  "example_ticket = \<lparr>tk_schema_version = ''covenant.approval-ticket.v1'', tk_ticket_id = ''k'', tk_task_id = ''w'',
     tk_effect_type = ''file.write'', tk_resource = ''f'', tk_approved = True, tk_reason = ''ok'',
     tk_operator_id = ''op'', tk_expires_at = []\<rparr>"

lemma example_attaches:
  "attach (\<lambda>_. None) (\<lambda>_. None) (\<lambda>_. None) (\<lambda>ks. ks) example_contract example_ticket =
     Inr (example_contract\<lparr>c_approvals := [example_ticket]\<rparr>)"
proof -
  have "append_or_replace_approval (c_approvals example_contract) example_ticket = [example_ticket]" by code_simp
  moreover have "validate_ticket (\<lambda>_. None) example_ticket = None" by code_simp
  moreover have "validate_contract (\<lambda>_. None) (\<lambda>ks. ks) (example_contract\<lparr>c_approvals := [example_ticket]\<rparr>) = None"
    by code_simp
  ultimately show ?thesis by (simp add: attach_Inr)
qed

definition example_pack :: evidence_pack where
  "example_pack = \<lparr>pk_schema_version = ''covenant.evidence-pack.v1'', pk_run_id = ''r'', pk_contract_digest = ''h'',
     pk_ledger_digest = ''h'', pk_run_status = ''success'', pk_artifact_manifest = [], pk_input_snapshots = [],
     pk_policy_decisions = [], pk_failures = [],
     pk_closure_matrix = \<lparr>mx_schema_version = ''covenant.closure-matrix.v1'', mx_run_id = ''r'',
       mx_contract_digest = ''h'', mx_status = ''accepted'', mx_rows = []\<rparr>\<rparr>"

definition example_verify_options :: verify_options where
  "example_verify_options = \<lparr>vo_ledger_path = ''/l'', vo_evidence_path = ''/e'', vo_workspace_dir = ''/w'',
     vo_revoked = (\<lambda>_. False)\<rparr>"

definition example_verify_fs :: fs where
  "example_verify_fs = (\<lambda>p. if p = ''/l'' then Some (File ''line'') else if p = ''/e'' then Some (File ''pack'') else None)"

lemma example_verifies:
  "verify_run (\<lambda>_. ''h'') (\<lambda>_. Inr example_event) (\<lambda>_. Inr example_pack) ''/'' example_verify_options example_verify_fs =
     Inr \<lparr>vr_schema_version = ''covenant.verify-result.v1'', vr_verified = True, vr_run_id = ''r'', vr_event_count = 1,
          vr_artifact_count = 0, vr_input_snapshot_count = 0, vr_failure_count = 0, vr_failures = [],
          vr_policy_explanations = [], vr_ledger_digest = ''h'', vr_last_event_hash = ''h''\<rparr>"
proof -
  have "resolve_workspace_dir ''/'' example_verify_options = Inr ''/w''" by code_simp
  moreover have "read_ledger (\<lambda>_. Inr example_event) ''line'' = Inr [example_event]"
    by (simp add: read_ledger_def scan_lines_def)
  ultimately show ?thesis
    using example_event_verifies(1)
    by (simp add: verify_run_def)
       (simp add: example_verify_fs_def example_verify_options_def example_pack_def verify_input_snapshots_def
          verify_artifacts_def verify_evidence_provenance_def verify_revoked_approval_tickets_def
          summarize_failures_def explain_decisions_def example_event_def)
qed

definition example_decision :: decision where
  "example_decision = \<lparr>dc_schema_version = decision_schema_version, dc_decision_id = ''policy-w-1'', dc_task_id = ''w'',
     dc_effect_type = ''file.write'', dc_resource = ''f'', dc_decision = decision_allow,
     dc_reason = ''declared workspace write'', dc_ticket_id = []\<rparr>"

definition example_policy_event :: event where
  "example_policy_event = policy_event_draft ''w'' example_decision"

end
