(* ===== verification/Compile.thy ===== *)
theory Compile
  imports Contract
begin

text \<open>
  Compilation of a brief into a contract (internal/contract: authoring.go, compile.go). The
  parser of structured briefs is a fold over the trimmed lines with the Go function's local
  variables as a record; the builder, the checks on authored tasks and the default contract
  follow the code. Every contract the compiler returns has passed \<open>validate_contract\<close>.
\<close>

subsection \<open>Drafts and the parser's variables (authoring.go)\<close>

record task_draft =
  td_id :: string
  td_line :: nat
  td_kind :: string
  td_adapter :: string
  td_depends_on :: "string list"
  td_depends_on_lines :: "nat list"
  td_obligations :: "string list"
  td_obligation_lines :: "nat list"
  td_writes :: "string list"
  td_write_lines :: "nat list"
  td_reads :: "string list"
  td_read_lines :: "nat list"
  td_timeout_secs :: int

record structured_brief =
  sb_objective :: string
  sb_reads :: "string list"
  sb_writes :: "string list"
  sb_obligations :: "obligation list"
  sb_obligation_lines :: "nat list"
  sb_tasks :: "task_draft list"

record parser =
  ps_parsed :: structured_brief
  ps_section :: string
  ps_list_field :: string
  ps_objective_lines :: "string list"
  ps_task :: "task_draft option"
  ps_obligation :: "obligation option"
  ps_obligation_line :: nat

definition start_parser :: parser where
  "start_parser = \<lparr>
     ps_parsed = \<lparr>sb_objective = [], sb_reads = [], sb_writes = [], sb_obligations = [],
                  sb_obligation_lines = [], sb_tasks = []\<rparr>,
     ps_section = [], ps_list_field = [], ps_objective_lines = [], ps_task = None,
     ps_obligation = None, ps_obligation_line = 0\<rparr>"

definition new_task_draft :: "string \<Rightarrow> nat \<Rightarrow> task_draft" where
  "new_task_draft i line = \<lparr>td_id = i, td_line = line, td_kind = ''scripted'', td_adapter = ''scripted'',
     td_depends_on = [], td_depends_on_lines = [], td_obligations = [], td_obligation_lines = [],
     td_writes = [], td_write_lines = [], td_reads = [], td_read_lines = [], td_timeout_secs = 30\<rparr>"

subsection \<open>Lexical helpers\<close>

definition normalize_heading :: "string \<Rightarrow> string" where
  "normalize_heading raw = to_lower (trim_space (replace_byte (CHR '' '') (CHR ''_'') raw))"

definition parse_key_value :: "string \<Rightarrow> (string \<times> string) option" where
  "parse_key_value line = map_option (\<lambda>(k, v). (normalize_heading k, trim_space v)) (cut_at (CHR 0x3A) line)"

definition parse_bullet :: "string \<Rightarrow> string option" where
  "parse_bullet line =
     (if \<not> prefix ''- '' line then None
      else let v = trim_space (drop 2 line) in if v = [] then None else Some v)"

definition split_inline_list :: "string \<Rightarrow> string list" where
  "split_inline_list raw = filter (\<lambda>v. v \<noteq> []) (map trim_space (split_on (CHR 0x2C) raw))"

text \<open>\<open>strconv.ParseBool\<close> and \<open>strconv.Atoi\<close> (64-bit \<open>int\<close>).\<close>

definition parse_bool :: "string \<Rightarrow> bool option" where
  "parse_bool s =
     (if s \<in> {''1'', ''t'', ''T'', ''true'', ''TRUE'', ''True''} then Some True
      else if s \<in> {''0'', ''f'', ''F'', ''false'', ''FALSE'', ''False''} then Some False else None)"

definition atoi :: "string \<Rightarrow> int option" where
  "atoi s =
     (let (neg, ds) = (case s of [] \<Rightarrow> (False, []) | c # cs \<Rightarrow>
             if c = CHR ''-'' then (True, cs) else if c = CHR ''+'' then (False, cs) else (False, s));
          v = (if neg then - int (digits_value ds) else int (digits_value ds))
      in if ds \<noteq> [] \<and> list_all is_digit ds \<and> - (2 ^ 63) \<le> v \<and> v < 2 ^ 63 then Some v else None)"

subsection \<open>Lines of a section\<close>

definition append_task_list_value :: "task_draft \<Rightarrow> string \<Rightarrow> string \<Rightarrow> nat \<Rightarrow> task_draft go_result" where
  "append_task_list_value t field v n =
     (if field = ''depends_on'' then
        Inr (t\<lparr>td_depends_on := td_depends_on t @ [v], td_depends_on_lines := td_depends_on_lines t @ [n]\<rparr>)
      else if field = ''obligations'' then
        Inr (t\<lparr>td_obligations := td_obligations t @ [v], td_obligation_lines := td_obligation_lines t @ [n]\<rparr>)
      else if field = ''writes'' then
        Inr (t\<lparr>td_writes := td_writes t @ [v], td_write_lines := td_write_lines t @ [n]\<rparr>)
      else if field = ''reads'' then
        Inr (t\<lparr>td_reads := td_reads t @ [v], td_read_lines := td_read_lines t @ [n]\<rparr>)
      else Inl (Authoring ''STRUCTURED_TASK_LIST_FIELD_UNKNOWN'' n
                  (''unsupported task list field '' @ quoted field)))"

fun append_task_list_values :: "task_draft \<Rightarrow> string \<Rightarrow> string list \<Rightarrow> nat \<Rightarrow> task_draft go_result" where
  "append_task_list_values t field [] n = Inr t"
| "append_task_list_values t field (v # vs) n =
     bind_result (append_task_list_value t field v n) (\<lambda>t'. append_task_list_values t' field vs n)"

text \<open>\<open>parseTaskLine\<close> returns the draft, which it updates in place, and the next list field.\<close>

definition parse_task_line :: "task_draft \<Rightarrow> string \<Rightarrow> string \<Rightarrow> nat \<Rightarrow> (task_draft \<times> string) go_result" where
  "parse_task_line t list_field line n =
     (case parse_bullet line of
        Some v \<Rightarrow>
          if list_field = [] then
            Inl (Authoring ''STRUCTURED_TASK_LIST_FIELD_REQUIRED'' n ''task bullet appears before a list field'')
          else bind_result (append_task_list_value t list_field v n) (\<lambda>t'. Inr (t', list_field))
      | None \<Rightarrow>
          (case parse_key_value line of
             None \<Rightarrow> Inl (Authoring ''STRUCTURED_TASK_LINE_INVALID'' n ''task line must be key: value or list bullet'')
           | Some (key, v) \<Rightarrow>
               if key = ''kind'' then Inr (t\<lparr>td_kind := v\<rparr>, [])
               else if key = ''adapter'' then Inr (t\<lparr>td_adapter := v\<rparr>, [])
               else if key = ''timeout_seconds'' then
                 (case atoi v of
                    None \<Rightarrow> Inl (Authoring ''STRUCTURED_TASK_TIMEOUT_INVALID'' n ''timeout_seconds must be an integer'')
                  | Some secs \<Rightarrow> Inr (t\<lparr>td_timeout_secs := secs\<rparr>, []))
               else if key \<in> {''depends_on'', ''obligations'', ''writes'', ''reads''} then
                 bind_result (if v = [] then Inr t else append_task_list_values t key (split_inline_list v) n)
                   (\<lambda>t'. Inr (t', key))
               else Inl (Authoring ''STRUCTURED_TASK_FIELD_UNKNOWN'' n
                 (''unsupported task field '' @ quoted key @
                  ''; expected kind, adapter, timeout_seconds, depends_on, obligations, writes, or reads''))))"

definition parse_obligation_line :: "obligation \<Rightarrow> string \<Rightarrow> nat \<Rightarrow> obligation go_result" where
  "parse_obligation_line ob line n =
     (case parse_key_value line of
        None \<Rightarrow> Inl (Authoring ''STRUCTURED_OBLIGATION_LINE_INVALID'' n ''obligation line must be key: value'')
      | Some (key, v) \<Rightarrow>
          if key = ''required'' then
            (case parse_bool (to_lower v) of
               None \<Rightarrow> Inl (Authoring ''STRUCTURED_OBLIGATION_REQUIRED_INVALID'' n
                         ''obligation required must be true or false'')
             | Some b \<Rightarrow> Inr (ob\<lparr>ob_required := b\<rparr>))
          else if key = ''text'' then Inr (ob\<lparr>ob_text := v\<rparr>)
          else Inl (Authoring ''STRUCTURED_OBLIGATION_FIELD_UNKNOWN'' n
                 (''unsupported obligation field '' @ quoted key)))"

subsection \<open>The parser\<close>

definition finish_task :: "parser \<Rightarrow> parser" where
  "finish_task p = (case ps_task p of None \<Rightarrow> p
     | Some t \<Rightarrow> p\<lparr>ps_parsed := (ps_parsed p)\<lparr>sb_tasks := sb_tasks (ps_parsed p) @ [t]\<rparr>, ps_task := None\<rparr>)"

definition finish_obligation :: "parser \<Rightarrow> parser" where
  "finish_obligation p = (case ps_obligation p of None \<Rightarrow> p
     | Some ob \<Rightarrow> p\<lparr>ps_parsed := (ps_parsed p)\<lparr>
           sb_obligations := sb_obligations (ps_parsed p) @ [ob],
           sb_obligation_lines := sb_obligation_lines (ps_parsed p) @ [ps_obligation_line p]\<rparr>,
         ps_obligation := None, ps_obligation_line := 0\<rparr>)"

definition parse_subheading :: "nat \<Rightarrow> string \<Rightarrow> parser \<Rightarrow> parser go_result" where
  "parse_subheading n heading p =
     (if ps_section p = ''tasks'' \<and> prefix ''task:'' (to_lower heading) then
        (let i = trim_space (drop 5 heading) in
         if i = [] then Inl (Authoring ''STRUCTURED_TASK_ID_MISSING'' n ''task heading is missing an id'')
         else Inr ((finish_task p)\<lparr>ps_task := Some (new_task_draft i n), ps_list_field := []\<rparr>))
      else if ps_section p = ''obligations'' \<and> prefix ''obligation:'' (to_lower heading) then
        (let i = trim_space (drop 11 heading) in
         if i = [] then Inl (Authoring ''STRUCTURED_OBLIGATION_ID_MISSING'' n ''obligation heading is missing an id'')
         else Inr ((finish_obligation p)\<lparr>
             ps_obligation := Some \<lparr>ob_id = i, ob_text = [], ob_required = True\<rparr>,
             ps_obligation_line := n, ps_list_field := []\<rparr>))
      else Inl (Authoring ''STRUCTURED_HEADING_UNSUPPORTED'' n (''unsupported heading '' @ quoted heading)))"

definition parse_section_line :: "nat \<Rightarrow> string \<Rightarrow> parser \<Rightarrow> parser go_result" where
  "parse_section_line n line p =
     (if ps_section p = ''objective'' then Inr (p\<lparr>ps_objective_lines := ps_objective_lines p @ [line]\<rparr>)
      else if ps_section p = ''reads'' then
        (case parse_bullet line of
           None \<Rightarrow> Inl (Authoring ''STRUCTURED_READ_BULLET_REQUIRED'' n ''read must be a bullet'')
         | Some v \<Rightarrow> Inr (p\<lparr>ps_parsed := (ps_parsed p)\<lparr>sb_reads := sb_reads (ps_parsed p) @ [v]\<rparr>\<rparr>))
      else if ps_section p = ''writes'' then
        (case parse_bullet line of
           None \<Rightarrow> Inl (Authoring ''STRUCTURED_WRITE_BULLET_REQUIRED'' n ''write must be a bullet'')
         | Some v \<Rightarrow> Inr (p\<lparr>ps_parsed := (ps_parsed p)\<lparr>sb_writes := sb_writes (ps_parsed p) @ [v]\<rparr>\<rparr>))
      else if ps_section p = ''obligations'' then
        (case ps_obligation p of
           None \<Rightarrow> Inl (Authoring ''STRUCTURED_OBLIGATION_HEADING_REQUIRED'' n
                     ''obligation field appears before an obligation heading'')
         | Some ob \<Rightarrow> bind_result (parse_obligation_line ob line n) (\<lambda>ob'. Inr (p\<lparr>ps_obligation := Some ob'\<rparr>)))
      else if ps_section p = ''tasks'' then
        (case ps_task p of
           None \<Rightarrow> Inl (Authoring ''STRUCTURED_TASK_HEADING_REQUIRED'' n
                     ''task field appears before a task heading'')
         | Some t \<Rightarrow> bind_result (parse_task_line t (ps_list_field p) line n)
             (\<lambda>(t', field). Inr (p\<lparr>ps_task := Some t', ps_list_field := field\<rparr>)))
      else Inr p)"

definition parse_line :: "nat \<Rightarrow> string \<Rightarrow> parser \<Rightarrow> parser go_result" where
  "parse_line n raw p =
     (let line = trim_space raw in
      if line = [] then Inr p
      else if prefix ''# '' line then
        Inr ((finish_obligation (finish_task p))\<lparr>
          ps_section := normalize_heading (trim_space (drop 2 line)), ps_list_field := []\<rparr>)
      else if prefix ''## '' line then parse_subheading n (trim_space (drop 3 line)) p
      else parse_section_line n line p)"

fun parse_lines :: "nat \<Rightarrow> string list \<Rightarrow> parser \<Rightarrow> parser go_result" where
  "parse_lines n [] p = Inr p"
| "parse_lines n (raw # raws) p = bind_result (parse_line n raw p) (parse_lines (n + 1) raws)"

definition parse_structured_brief :: "string \<Rightarrow> (structured_brief \<times> bool) go_result" where
  "parse_structured_brief brief =
     bind_result (parse_lines 1 (split_on (CHR 0x0A) (unix_newlines brief)) start_parser) (\<lambda>p.
       let p' = finish_obligation (finish_task p);
           parsed = (ps_parsed p')\<lparr>sb_objective := trim_space (join_with [CHR 0x0A] (ps_objective_lines p'))\<rparr>
       in Inr (parsed, sb_tasks parsed \<noteq> []))"

subsection \<open>Building the contract\<close>

definition clean_path :: "string \<Rightarrow> string" where
  "clean_path p = path_clean (to_slash p)"

definition normalize_authored_paths :: "string list \<Rightarrow> string \<Rightarrow> string list go_result" where
  "normalize_authored_paths raw label =
     map_result (\<lambda>p. unless_error (validate_relative_path (clean_path p) label) (Inr (clean_path p))) raw"

text \<open>\<open>uniqueStrings\<close>: the loop with its \<open>seen\<close> map.\<close>

fun unique_from :: "(string \<Rightarrow> bool) \<Rightarrow> string list \<Rightarrow> string list" where
  "unique_from seen [] = []"
| "unique_from seen (v # vs) =
     (if seen v then unique_from seen vs else v # unique_from (seen(v := True)) vs)"

definition unique_strings :: "string list \<Rightarrow> string list" where
  "unique_strings vs = unique_from (\<lambda>_. False) vs"

definition unique_normalized_paths :: "string list \<Rightarrow> string \<Rightarrow> string list go_result" where
  "unique_normalized_paths raw label =
     bind_result (normalize_authored_paths raw label) (\<lambda>ps. Inr (unique_strings ps))"

definition structured_workspace_writes :: "string list \<Rightarrow> structured_brief \<Rightarrow> string list go_result" where
  "structured_workspace_writes overrides parsed =
     (if overrides \<noteq> [] then normalize_authored_paths overrides ''workspace write''
      else unique_normalized_paths
        (if sb_writes parsed = [] then concat (map td_writes (sb_tasks parsed)) else sb_writes parsed)
        ''workspace write'')"

definition file_write_actions :: "string list \<Rightarrow> action_ref list" where
  "file_write_actions ws = map (\<lambda>w. \<lparr>ac_type = ''file.write'', ac_resource = w\<rparr>) ws"

definition file_read_actions :: "string list \<Rightarrow> action_ref list" where
  "file_read_actions rs = map (\<lambda>r. \<lparr>ac_type = ''file.read'', ac_resource = r\<rparr>) rs"

definition structured_task :: "task_draft \<Rightarrow> task go_result" where
  "structured_task d =
     bind_result (normalize_authored_paths (td_writes d) ''side effect resource'') (\<lambda>writes.
     bind_result (normalize_authored_paths (td_reads d) ''side effect resource'') (\<lambda>reads.
       Inr \<lparr>t_id = trim_space (td_id d),
            t_kind = (if trim_space (td_kind d) = [] then ''scripted'' else trim_space (td_kind d)),
            t_adapter = (if trim_space (td_adapter d) = [] then ''scripted'' else trim_space (td_adapter d)),
            t_depends_on = td_depends_on d,
            t_obligations = td_obligations d,
            t_timeout_secs = (if td_timeout_secs d = 0 then 30 else td_timeout_secs d),
            t_side_effects = file_write_actions writes @ file_read_actions reads\<rparr>))"

definition structured_tasks :: "task_draft list \<Rightarrow> task list go_result" where
  "structured_tasks ds = map_result structured_task ds"

definition line_at :: "nat list \<Rightarrow> nat \<Rightarrow> nat \<Rightarrow> nat" where
  "line_at ls i fallback = (if i < length ls \<and> 0 < ls ! i then ls ! i else fallback)"

text \<open>
  \<open>validateStructuredAuthoring\<close>. Its maps from an identifier to the line of its first
  definition are options; each loop returns the map it has filled or the first error.
\<close>

type_synonym line_map = "string \<Rightarrow> nat option"

definition check_new_id ::
    "string \<Rightarrow> string \<Rightarrow> string \<Rightarrow> string \<Rightarrow> nat \<Rightarrow> line_map \<Rightarrow> go_error option" where
  "check_new_id invalid duplicate label i line m =
     first_error [
       (case validate_public_id i label of None \<Rightarrow> None
        | Some err \<Rightarrow> Some (Authoring invalid line (error_text err))),
       (case m i of None \<Rightarrow> None
        | Some first \<Rightarrow> Some (Authoring duplicate line
            (''duplicate '' @ label @ '' '' @ quoted i @ ''; first defined at line '' @ decimal first)))]"

fun collect_ids ::
    "string \<Rightarrow> string \<Rightarrow> string \<Rightarrow> (string \<times> nat) list \<Rightarrow> line_map \<Rightarrow> line_map go_result" where
  "collect_ids invalid duplicate label [] m = Inr m"
| "collect_ids invalid duplicate label ((i, line) # is) m =
     unless_error (check_new_id invalid duplicate label i line m)
       (collect_ids invalid duplicate label is (m(i \<mapsto> line)))"

definition obligation_lines :: "structured_brief \<Rightarrow> (string \<times> nat) list" where
  "obligation_lines parsed =
     map (\<lambda>(i, ob). (ob_id ob, line_at (sb_obligation_lines parsed) i 0)) (enumerate 0 (sb_obligations parsed))"

definition check_task_write :: "task_draft \<Rightarrow> string list \<Rightarrow> nat \<Rightarrow> string \<Rightarrow> go_error option" where
  "check_task_write d writes i w =
     first_error [
       (case validate_relative_path (clean_path w) ''side effect resource'' of None \<Rightarrow> None
        | Some err \<Rightarrow> Some (Authoring ''STRUCTURED_TASK_WRITE_INVALID''
            (line_at (td_write_lines d) i (td_line d)) (error_text err))),
       fail_if (clean_path w \<notin> set writes)
         (Authoring ''STRUCTURED_TASK_WRITE_UNDECLARED'' (line_at (td_write_lines d) i (td_line d))
           (''task '' @ quoted (td_id d) @ '' writes '' @ quoted (clean_path w) @
            '' outside workspace writes; add it under # Writes or pass --write '' @ clean_path w))]"

definition check_draft_refs :: "line_map \<Rightarrow> line_map \<Rightarrow> string list \<Rightarrow> task_draft \<Rightarrow> go_error option list" where
  "check_draft_refs obligation_ids task_ids writes d =
     map (\<lambda>(i, dep). fail_if (task_ids dep = None)
       (Authoring ''STRUCTURED_TASK_DEP_UNKNOWN'' (line_at (td_depends_on_lines d) i (td_line d))
         (''task '' @ quoted (td_id d) @ '' depends on unknown task '' @ quoted dep)))
       (enumerate 0 (td_depends_on d)) @
     map (\<lambda>(i, o_id). fail_if (obligation_ids o_id = None)
       (Authoring ''STRUCTURED_TASK_OBLIGATION_UNKNOWN'' (line_at (td_obligation_lines d) i (td_line d))
         (''task '' @ quoted (td_id d) @ '' references unknown obligation '' @ quoted o_id)))
       (enumerate 0 (td_obligations d)) @
     map (\<lambda>(i, w). check_task_write d writes i w) (enumerate 0 (td_writes d))"

definition validate_structured_authoring :: "structured_brief \<Rightarrow> string list \<Rightarrow> go_error option" where
  "validate_structured_authoring parsed writes =
     error_of (
       bind_result (collect_ids ''STRUCTURED_OBLIGATION_ID_INVALID'' ''STRUCTURED_OBLIGATION_ID_DUPLICATE''
         ''obligation id'' (obligation_lines parsed) Map.empty) (\<lambda>obligation_ids.
       bind_result (collect_ids ''STRUCTURED_TASK_ID_INVALID'' ''STRUCTURED_TASK_ID_DUPLICATE''
         ''task id'' (map (\<lambda>d. (td_id d, td_line d)) (sb_tasks parsed)) Map.empty) (\<lambda>task_ids.
       unless_error (first_error (concat (map (check_draft_refs obligation_ids task_ids writes) (sb_tasks parsed))))
         (Inr ()))))"

definition required_obligation_ids :: "obligation list \<Rightarrow> string list" where
  "required_obligation_ids obs = map ob_id (filter ob_required obs)"

definition build_structured_contract ::
    "(task \<Rightarrow> string option) \<Rightarrow> (string list \<Rightarrow> string list) \<Rightarrow> string \<Rightarrow> string \<Rightarrow> string list \<Rightarrow>
     structured_brief \<Rightarrow> contract go_result" where
  "build_structured_contract schema_task iter brief source_path overrides parsed =
     bind_result (normalize_authored_paths (sb_reads parsed) ''workspace read'') (\<lambda>reads.
     bind_result (structured_workspace_writes overrides parsed) (\<lambda>writes.
     unless_error (validate_structured_authoring parsed writes) (
     bind_result (structured_tasks (sb_tasks parsed)) (\<lambda>tasks.
       let c = \<lparr>c_schema_version = contract_schema_version,
                c_objective = (if sb_objective parsed = [] then trim_space brief else sb_objective parsed),
                c_workspace = \<lparr>ws_root = ''.'', ws_reads = unique_strings (source_path # reads),
                               ws_writes = writes\<rparr>,
                c_obligations = sb_obligations parsed,
                c_tasks = tasks,
                c_policy_mode = ''strict'',
                c_approvals = [],
                c_required_obligations = required_obligation_ids (sb_obligations parsed)\<rparr>
       in unless_error (validate_contract schema_task iter c) (Inr c)))))"

subsection \<open>CompileBriefWithOptions (compile.go)\<close>

record compile_options =
  co_source_path :: string
  co_workspace_writes :: "string list"

definition normalize_workspace_writes :: "string list \<Rightarrow> string list go_result" where
  "normalize_workspace_writes raw =
     (if raw = [] then Inr [''demo-output/report.txt'']
      else map_result (\<lambda>w. unless_error (validate_relative_path (clean_path w) ''workspace write'')
             (Inr (clean_path w))) raw)"

definition default_obligations :: "obligation list" where
  "default_obligations =
     [\<lparr>ob_id = ''obl_requested_file'', ob_text = ''The requested file is created.'', ob_required = True\<rparr>,
      \<lparr>ob_id = ''obl_verify_passes'', ob_text = ''The verifier passes.'', ob_required = True\<rparr>,
      \<lparr>ob_id = ''obl_review_clear'', ob_text = ''The reviewer has no unresolved high concern.'', ob_required = True\<rparr>]"

definition default_tasks :: "string list \<Rightarrow> task list" where
  "default_tasks writes =
     [\<lparr>t_id = ''scripted_change'', t_kind = ''scripted'', t_adapter = ''scripted'', t_depends_on = [],
       t_obligations = [''obl_requested_file''], t_timeout_secs = 30,
       t_side_effects = file_write_actions writes\<rparr>,
      \<lparr>t_id = ''verify_change'', t_kind = ''verify'', t_adapter = ''scripted'', t_depends_on = [''scripted_change''],
       t_obligations = [''obl_verify_passes''], t_timeout_secs = 30, t_side_effects = []\<rparr>,
      \<lparr>t_id = ''review_change'', t_kind = ''review'', t_adapter = ''scripted'', t_depends_on = [''verify_change''],
       t_obligations = [''obl_review_clear''], t_timeout_secs = 30, t_side_effects = []\<rparr>]"

definition default_contract :: "string \<Rightarrow> string \<Rightarrow> string list \<Rightarrow> contract" where
  "default_contract brief source_path writes =
     \<lparr>c_schema_version = contract_schema_version, c_objective = trim_space brief,
      c_workspace = \<lparr>ws_root = ''.'', ws_reads = [source_path], ws_writes = writes\<rparr>,
      c_obligations = default_obligations, c_tasks = default_tasks writes,
      c_policy_mode = ''strict'', c_approvals = [],
      c_required_obligations = [''obl_requested_file'', ''obl_verify_passes'', ''obl_review_clear'']\<rparr>"

definition check_brief :: "string \<Rightarrow> compile_options \<Rightarrow> go_error option" where
  "check_brief brief opts =
     first_error [
       fail_if (trim_space brief = []) (Errorf ''brief is required''),
       fail_if (clean_path (co_source_path opts) = ''.'') (Errorf ''brief path is required''),
       validate_relative_path (clean_path (co_source_path opts)) ''brief path'']"

definition compile_brief_with_options ::
    "(task \<Rightarrow> string option) \<Rightarrow> (string list \<Rightarrow> string list) \<Rightarrow> string \<Rightarrow> compile_options \<Rightarrow> contract go_result" where
  "compile_brief_with_options schema_task iter brief opts =
     unless_error (check_brief brief opts) (
     bind_result (parse_structured_brief brief) (\<lambda>(structured, ok).
       if ok then build_structured_contract schema_task iter brief (clean_path (co_source_path opts))
                    (co_workspace_writes opts) structured
       else bind_result (normalize_workspace_writes (co_workspace_writes opts)) (\<lambda>writes.
         let c = default_contract brief (clean_path (co_source_path opts)) writes
         in unless_error (validate_contract schema_task iter c) (Inr c))))"

definition compile_brief_with_source ::
    "(task \<Rightarrow> string option) \<Rightarrow> (string list \<Rightarrow> string list) \<Rightarrow> string \<Rightarrow> string \<Rightarrow> contract go_result" where
  "compile_brief_with_source schema_task iter brief source_path =
     compile_brief_with_options schema_task iter brief
       \<lparr>co_source_path = source_path, co_workspace_writes = []\<rparr>"

definition compile_brief ::
    "(task \<Rightarrow> string option) \<Rightarrow> (string list \<Rightarrow> string list) \<Rightarrow> string \<Rightarrow> contract go_result" where
  "compile_brief schema_task iter brief =
     compile_brief_with_source schema_task iter brief ''examples/risky-change/brief.md''"

subsection \<open>What the compiler guarantees\<close>

lemma map_checked_paths:
  "map_result (\<lambda>p. unless_error (chk p) (Inr (f p))) raw = Inr ps \<longleftrightarrow>
     ps = map f raw \<and> (\<forall>p \<in> set raw. chk p = None)"
  by (induction raw arbitrary: ps) (auto simp: unless_error_def split: option.splits sum.splits)

lemma normalize_authored_paths_Inr:
  "normalize_authored_paths raw label = Inr ps \<longleftrightarrow>
     ps = map clean_path raw \<and> (\<forall>p \<in> set raw. inside_path (clean_path p))"
  by (simp add: normalize_authored_paths_def map_checked_paths)

lemma structured_task_Inr:
  assumes "structured_task d = Inr t" and "a \<in> set (t_side_effects t)"
  shows "ac_type a = ''file.write'' \<and> (\<exists>w \<in> set (td_writes d). ac_resource a = clean_path w) \<or>
         ac_type a = ''file.read'' \<and> (\<exists>r \<in> set (td_reads d). ac_resource a = clean_path r)"
proof -
  from assms(1) have "t_side_effects t =
      file_write_actions (map clean_path (td_writes d)) @ file_read_actions (map clean_path (td_reads d))"
    by (auto simp: structured_task_def normalize_authored_paths_Inr)
  with assms(2) consider "a \<in> set (file_write_actions (map clean_path (td_writes d)))"
    | "a \<in> set (file_read_actions (map clean_path (td_reads d)))" by auto
  then show ?thesis by cases (auto simp: file_write_actions_def file_read_actions_def)
qed

lemma authored_writes_declared:
  assumes "validate_structured_authoring parsed writes = None"
    and "d \<in> set (sb_tasks parsed)" and "w \<in> set (td_writes d)"
  shows "clean_path w \<in> set writes"
proof -
  from assms(1) obtain om tm where
    refs: "first_error (concat (map (check_draft_refs om tm writes) (sb_tasks parsed))) = None"
    by (auto simp: validate_structured_authoring_def)
  from assms(3) obtain i where "i < length (td_writes d)" "td_writes d ! i = w"
    by (auto simp: in_set_conv_nth)
  then have i: "(i, w) \<in> set (enumerate 0 (td_writes d))" by (simp add: in_set_enumerate_eq)
  with assms(2) have "check_task_write d writes i w
      \<in> set (concat (map (check_draft_refs om tm writes) (sb_tasks parsed)))"
    unfolding check_draft_refs_def by force
  with refs have "check_task_write d writes i w = None" by (simp only: first_error_None)
  then show ?thesis by (simp add: check_task_write_def)
qed

text \<open>What holds of every contract the compiler returns.\<close>

definition compiled_from :: "compile_options \<Rightarrow> contract \<Rightarrow> bool" where
  "compiled_from opts c \<longleftrightarrow>
     c_policy_mode c = ''strict'' \<and> c_approvals c = [] \<and> ws_root (c_workspace c) = ''.'' \<and>
     clean_path (co_source_path opts) \<in> set (ws_reads (c_workspace c)) \<and>
     c_required_obligations c = required_obligation_ids (c_obligations c) \<and>
     (\<forall>t \<in> set (c_tasks c). \<forall>a \<in> set (t_side_effects t).
        ac_type a = ''file.write'' \<and> ac_resource a \<in> set (ws_writes (c_workspace c)) \<or>
        ac_type a = ''file.read'')"

lemma set_unique_from: "set (unique_from seen vs) = {v \<in> set vs. \<not> seen v}"
  by (induction vs arbitrary: seen) auto

lemma set_unique_strings [simp]: "set (unique_strings vs) = set vs"
  by (simp add: unique_strings_def set_unique_from)

lemma distinct_unique_strings [simp]: "distinct (unique_strings vs)"
proof -
  have "distinct (unique_from seen vs)" for seen
    by (induction vs arbitrary: seen) (simp_all add: set_unique_from)
  then show ?thesis by (simp add: unique_strings_def)
qed

lemma default_contract_compiled:
  "compiled_from opts (default_contract brief (clean_path (co_source_path opts)) writes)"
  by (auto simp: compiled_from_def default_contract_def default_tasks_def default_obligations_def
      required_obligation_ids_def file_write_actions_def)

lemma build_structured_compiled:
  assumes "build_structured_contract schema_task iter brief (clean_path (co_source_path opts)) overrides parsed = Inr c"
  shows "compiled_from opts c \<and> validate_contract schema_task iter c = None"
proof -
  from assms obtain writes tasks where v: "validate_structured_authoring parsed writes = None"
    and t: "structured_tasks (sb_tasks parsed) = Inr tasks"
    and c: "c_policy_mode c = ''strict''" "c_approvals c = []" "ws_root (c_workspace c) = ''.''"
      "clean_path (co_source_path opts) \<in> set (ws_reads (c_workspace c))"
      "c_required_obligations c = required_obligation_ids (c_obligations c)"
      "c_tasks c = tasks" "ws_writes (c_workspace c) = writes"
    and ok: "validate_contract schema_task iter c = None"
    by (auto simp: build_structured_contract_def Let_def)
  have "ac_type a = ''file.write'' \<and> ac_resource a \<in> set writes \<or> ac_type a = ''file.read''"
    if "k \<in> set tasks" "a \<in> set (t_side_effects k)" for k a
  proof -
    from map_result_set [OF t [unfolded structured_tasks_def] that(1)]
    obtain d where d: "d \<in> set (sb_tasks parsed)" "structured_task d = Inr k" by blast
    from structured_task_Inr [OF d(2) that(2)] authored_writes_declared [OF v d(1)]
    show ?thesis by auto
  qed
  with c ok show ?thesis by (simp add: compiled_from_def)
qed

lemma compile_brief_Inr:
  assumes "compile_brief_with_options schema_task iter brief opts = Inr c"
  shows "compiled_from opts c \<and> validate_contract schema_task iter c = None"
proof -
  from assms obtain st ok where
    "parse_structured_brief brief = Inr (st, ok)"
    and rest: "(if ok then build_structured_contract schema_task iter brief (clean_path (co_source_path opts))
        (co_workspace_writes opts) st
      else bind_result (normalize_workspace_writes (co_workspace_writes opts)) (\<lambda>writes.
         let c = default_contract brief (clean_path (co_source_path opts)) writes
         in unless_error (validate_contract schema_task iter c) (Inr c))) = Inr c"
    by (auto simp: compile_brief_with_options_def)
  show ?thesis
  proof (cases ok)
    case True
    with rest show ?thesis using build_structured_compiled by simp
  next
    case False
    with rest show ?thesis by (auto simp: Let_def default_contract_compiled)
  qed
qed

text \<open>Every diagnostic of the parser names a line of the brief.\<close>

definition diag_within :: "nat \<Rightarrow> nat \<Rightarrow> go_error \<Rightarrow> bool" where
  "diag_within lo hi e \<longleftrightarrow> (case e of Errorf _ \<Rightarrow> False | Authoring _ n _ \<Rightarrow> lo \<le> n \<and> n \<le> hi)"

definition fails_at :: "nat \<Rightarrow> 'a go_result \<Rightarrow> bool" where
  "fails_at n r \<longleftrightarrow> (\<forall>e. r = Inl e \<longrightarrow> diag_within n n e)"

named_theorems fails_intro
  \<comment> \<open>the shapes of parser code that only fail at the given line\<close>

lemma fails_at_Inr [fails_intro]: "fails_at n (Inr x)"
  by (simp add: fails_at_def)

lemma fails_at_Authoring [fails_intro]: "fails_at n (Inl (Authoring code n msg))"
  by (simp add: fails_at_def diag_within_def)

lemma fails_at_if [fails_intro]: "fails_at n r \<Longrightarrow> fails_at n s \<Longrightarrow> fails_at n (if b then r else s)"
  by simp

lemma fails_at_bind [fails_intro]:
  "fails_at n r \<Longrightarrow> (\<And>x. fails_at n (k x)) \<Longrightarrow> fails_at n (bind_result r k)"
  by (cases r) (simp_all add: fails_at_def)

lemma fails_at_case_option [fails_intro]:
  "fails_at n r \<Longrightarrow> (\<And>y. fails_at n (k y)) \<Longrightarrow> fails_at n (case x of None \<Rightarrow> r | Some y \<Rightarrow> k y)"
  by (cases x) simp_all

lemma fails_at_case_prod [fails_intro]:
  "(\<And>a b. fails_at n (k a b)) \<Longrightarrow> fails_at n (case p of (a, b) \<Rightarrow> k a b)"
  by (cases p) simp

lemma append_value_fails [fails_intro]: "fails_at n (append_task_list_value t f v n)"
  unfolding append_task_list_value_def by (intro fails_intro)

lemma append_values_fails [fails_intro]: "fails_at n (append_task_list_values t f vs n)"
  by (induction t f vs n rule: append_task_list_values.induct)
     (simp_all add: fails_at_Inr fails_at_bind append_value_fails)

lemma parse_task_line_fails [fails_intro]: "fails_at n (parse_task_line t f line n)"
  unfolding parse_task_line_def by (intro fails_intro)

lemma parse_obligation_line_fails [fails_intro]: "fails_at n (parse_obligation_line ob line n)"
  unfolding parse_obligation_line_def by (intro fails_intro)

lemma parse_line_fails: "fails_at n (parse_line n raw p)"
  unfolding parse_line_def parse_subheading_def parse_section_line_def Let_def
  by (intro fails_intro)

lemma parse_lines_error:
  "parse_lines n raws p = Inl e \<Longrightarrow> \<exists>k < length raws. diag_within (n + k) (n + k) e"
proof (induction n raws p rule: parse_lines.induct)
  case (2 n raw raws p)
  show ?case
  proof (cases "parse_line n raw p")
    case (Inl e')
    with "2.prems" have "e' = e" by simp
    with Inl parse_line_fails [of n raw p] have "diag_within (n + 0) (n + 0) e"
      by (simp add: fails_at_def)
    then show ?thesis by auto
  next
    case (Inr p')
    with "2.prems" have "parse_lines (n + 1) raws p' = Inl e" by simp
    from "2.IH" [OF this] obtain k where "k < length raws" "diag_within (n + 1 + k) (n + 1 + k) e" by blast
    then have "Suc k < length (raw # raws)" "diag_within (n + Suc k) (n + Suc k) e" by simp_all
    then show ?thesis by blast
  qed
qed simp

lemma parse_structured_brief_error:
  assumes "parse_structured_brief brief = Inl e"
  shows "diag_within 1 (length (split_on (CHR 0x0A) (unix_newlines brief))) e"
proof -
  from assms have "parse_lines 1 (split_on (CHR 0x0A) (unix_newlines brief)) start_parser = Inl e"
    by (auto simp: parse_structured_brief_def bind_result_def Let_def split: sum.splits)
  from parse_lines_error [OF this] show ?thesis
    by (auto simp: diag_within_def split: go_error.splits)
qed

end
