(* ===== verification/Lint.thy ===== *)
theory Lint
  imports Compile
begin

text \<open>
  The linter (internal/contract/lint.go): diagnostics for briefs and contracts, their codes and
  hints, and the SARIF report with its baseline of accepted findings. Where \<open>Validate\<close> stops at
  the first error the linter goes on; the lemmas show that the two agree on the first finding.
\<close>

abbreviation dquote :: string where "dquote \<equiv> [CHR 0x22]"

subsection \<open>Diagnostics\<close>

record lint_diagnostic =
  ld_code :: string
  ld_severity :: string
  ld_line :: nat
  ld_field :: string
  ld_message :: string
  ld_hint :: string

record lint_result =
  lr_valid :: bool
  lr_diagnostics :: "lint_diagnostic list"

definition contract_diagnostic_code :: "string \<Rightarrow> string \<times> string" where
  "contract_diagnostic_code message =
     (if contains message ''schema_version'' then (''CONTRACT_SCHEMA_UNSUPPORTED'', ''schema_version'')
      else if message = ''objective is required'' then (''CONTRACT_OBJECTIVE_REQUIRED'', ''objective'')
      else if contains message ''workspace root'' then (''CONTRACT_WORKSPACE_ROOT_INVALID'', ''workspace.root'')
      else if contains message ''read path'' then (''CONTRACT_WORKSPACE_READ_INVALID'', ''workspace.reads'')
      else if contains message ''write path'' then (''CONTRACT_WORKSPACE_WRITE_INVALID'', ''workspace.writes'')
      else if contains message ''duplicate obligation id'' then (''CONTRACT_OBLIGATION_DUPLICATE'', ''obligations'')
      else if contains message ''obligation id'' then (''CONTRACT_OBLIGATION_ID_INVALID'', ''obligations'')
      else if contains message ''at least one required obligation'' then (''CONTRACT_REQUIRED_OBLIGATION_MISSING'', ''obligations'')
      else if contains message ''duplicate task id'' then (''CONTRACT_TASK_DUPLICATE'', ''tasks'')
      else if contains message ''task id'' then (''CONTRACT_TASK_ID_INVALID'', ''tasks'')
      else if contains message ''unsupported task kind'' then (''CONTRACT_TASK_KIND_UNSUPPORTED'', ''tasks.kind'')
      else if contains message ''adapter is required'' then (''CONTRACT_TASK_ADAPTER_REQUIRED'', ''tasks.adapter'')
      else if contains message ''timeout_seconds'' then (''CONTRACT_TASK_TIMEOUT_INVALID'', ''tasks.timeout_seconds'')
      else if contains message ''unknown obligation'' then (''CONTRACT_TASK_OBLIGATION_UNKNOWN'', ''tasks.obligations'')
      else if contains message ''unsupported side effect type'' then (''CONTRACT_SIDE_EFFECT_UNSUPPORTED'', ''tasks.declared_side_effects'')
      else if contains message ''side effect resource'' then (''CONTRACT_SIDE_EFFECT_RESOURCE_INVALID'', ''tasks.declared_side_effects'')
      else if contains message ''approval ticket'' then (''CONTRACT_APPROVAL_INVALID'', ''approvals'')
      else if contains message ''unknown task'' then (''CONTRACT_TASK_DEPENDENCY_UNKNOWN'', ''tasks.depends_on'')
      else if contains message ''task graph contains a cycle'' then (''CONTRACT_TASK_GRAPH_CYCLE'', ''tasks.depends_on'')
      else if contains message ''evaluator references unknown obligation'' then (''CONTRACT_EVALUATOR_OBLIGATION_UNKNOWN'', ''evaluator.required_obligations'')
      else if contains message ''missing from evaluator required_obligations'' then (''CONTRACT_EVALUATOR_REQUIRED_OBLIGATION_MISSING'', ''evaluator.required_obligations'')
      else if message = ''brief is required'' then (''BRIEF_REQUIRED'', ''brief'')
      else if contains message ''brief path'' then (''BRIEF_PATH_INVALID'', ''brief'')
      else if contains message ''workspace write'' then (''WORKSPACE_WRITE_INVALID'', ''workspace.writes'')
      else (''CONTRACT_INVALID'', []))"

text \<open>The texts between pairs of quotation marks; fuel is the length of the message.\<close>

fun quoted_strings_from :: "nat \<Rightarrow> string \<Rightarrow> string list" where
  "quoted_strings_from 0 s = []"
| "quoted_strings_from (Suc n) s =
     (case cut_at (CHR 0x22) s of
        None \<Rightarrow> []
      | Some (_, rest) \<Rightarrow> (case cut_at (CHR 0x22) rest of
            None \<Rightarrow> []
          | Some (v, rest') \<Rightarrow> v # quoted_strings_from n rest'))"

definition quoted_strings :: "string \<Rightarrow> string list" where
  "quoted_strings message = quoted_strings_from (length message) message"

definition fixed_hints :: "(string \<times> string) list" where
  "fixed_hints =
     [(''BRIEF_REQUIRED'', ''Provide a non-empty brief before running compile or lint.''),
      (''BRIEF_PATH_INVALID'', ''Use a workspace-relative brief path that does not escape the workspace.''),
      (''WORKSPACE_WRITE_INVALID'', ''Use workspace-relative write paths and remove any absolute or parent-directory segments.''),
      (''CONTRACT_WORKSPACE_WRITE_INVALID'', ''Use workspace-relative write paths and remove any absolute or parent-directory segments.''),
      (''CONTRACT_OBJECTIVE_REQUIRED'', ''Add a non-empty objective to the contract.''),
      (''CONTRACT_WORKSPACE_ROOT_INVALID'', ''Set workspace.root to a relative workspace path, usually '' @ dquote @ ''.'' @ dquote @ ''.''),
      (''CONTRACT_WORKSPACE_READ_INVALID'', ''Use workspace-relative read paths and remove any absolute or parent-directory segments.''),
      (''CONTRACT_OBLIGATION_DUPLICATE'', ''Rename or remove the duplicate obligation id.''),
      (''CONTRACT_OBLIGATION_ID_INVALID'', ''Use portable ids with letters, numbers, underscores, or hyphens.''),
      (''STRUCTURED_OBLIGATION_ID_INVALID'', ''Use portable ids with letters, numbers, underscores, or hyphens.''),
      (''CONTRACT_REQUIRED_OBLIGATION_MISSING'', ''Mark at least one obligation as required.''),
      (''CONTRACT_TASK_DUPLICATE'', ''Rename or remove the duplicate task id.''),
      (''CONTRACT_TASK_ID_INVALID'', ''Use portable task ids with letters, numbers, underscores, or hyphens.''),
      (''STRUCTURED_TASK_ID_INVALID'', ''Use portable task ids with letters, numbers, underscores, or hyphens.''),
      (''CONTRACT_TASK_KIND_UNSUPPORTED'', ''Use one of the supported task kinds: scripted, verify, or review.''),
      (''CONTRACT_TASK_ADAPTER_REQUIRED'', ''Set adapter for the task, usually '' @ dquote @ ''scripted'' @ dquote @ '' for file-writing tasks.''),
      (''CONTRACT_TASK_TIMEOUT_INVALID'', ''Set timeout_seconds to a positive integer.''),
      (''STRUCTURED_TASK_TIMEOUT_INVALID'', ''Set timeout_seconds to a positive integer.''),
      (''CONTRACT_SIDE_EFFECT_UNSUPPORTED'', ''Use a supported side effect type such as file.write or file.read.''),
      (''CONTRACT_SIDE_EFFECT_RESOURCE_INVALID'', ''Use workspace-relative side effect resources and remove any absolute or parent-directory segments.''),
      (''STRUCTURED_TASK_WRITE_INVALID'', ''Use workspace-relative side effect resources and remove any absolute or parent-directory segments.''),
      (''CONTRACT_APPROVAL_INVALID'', ''Update the approval ticket so its schema, task, effect, resource, reason, expiry, and declared side effect match the contract.''),
      (''CONTRACT_TASK_GRAPH_CYCLE'', ''Remove at least one depends_on edge so the task graph is acyclic.''),
      (''STRUCTURED_OBLIGATION_ID_DUPLICATE'', ''Rename one of the duplicate obligation headings.''),
      (''STRUCTURED_TASK_ID_DUPLICATE'', ''Rename one of the duplicate task headings.''),
      (''STRUCTURED_TASK_FIELD_UNKNOWN'', ''Use supported task fields: kind, adapter, timeout_seconds, depends_on, obligations, writes, or reads.''),
      (''STRUCTURED_OBLIGATION_FIELD_UNKNOWN'', ''Use supported obligation fields: required or text.''),
      (''STRUCTURED_HEADING_UNSUPPORTED'', ''Use top-level sections and supported headings such as ## Task: <id> or ## Obligation: <id>.''),
      (''STRUCTURED_TASK_ID_MISSING'', ''Add an id after the task heading, for example ## Task: draft_report.''),
      (''STRUCTURED_OBLIGATION_ID_MISSING'', ''Add an id after the obligation heading, for example ## Obligation: obl_report_exists.''),
      (''STRUCTURED_READ_BULLET_REQUIRED'', ''Format each read as a markdown bullet under # Reads.''),
      (''STRUCTURED_WRITE_BULLET_REQUIRED'', ''Format each write as a markdown bullet under # Writes.''),
      (''STRUCTURED_OBLIGATION_HEADING_REQUIRED'', ''Start each obligation with ## Obligation: <id> before its fields.''),
      (''STRUCTURED_TASK_HEADING_REQUIRED'', ''Start each task with ## Task: <id> before its fields.''),
      (''STRUCTURED_OBLIGATION_LINE_INVALID'', ''Write obligation fields as key: value lines.''),
      (''STRUCTURED_OBLIGATION_REQUIRED_INVALID'', ''Set required to true or false.''),
      (''STRUCTURED_TASK_LIST_FIELD_REQUIRED'', ''Place task bullets under depends_on, obligations, writes, or reads.''),
      (''STRUCTURED_TASK_LINE_INVALID'', ''Write task fields as key: value lines or list bullets.''),
      (''STRUCTURED_TASK_LIST_FIELD_UNKNOWN'', ''Use supported task list fields: depends_on, obligations, writes, or reads.'')]"

definition diagnostic_hint :: "string \<Rightarrow> string \<Rightarrow> string" where
  "diagnostic_hint code message =
     (let qs = quoted_strings message in
      if code = ''CONTRACT_SCHEMA_UNSUPPORTED'' then
        ''Regenerate the contract with schema_version '' @ quoted contract_schema_version @ ''.''
      else if code \<in> {''CONTRACT_TASK_OBLIGATION_UNKNOWN'', ''STRUCTURED_TASK_OBLIGATION_UNKNOWN''} then
        (if 2 \<le> length qs then ''Define obligation '' @ quoted (qs ! 1) @ '' or remove it from the task.''
         else ''Define the referenced obligation or remove it from the task.'')
      else if code \<in> {''CONTRACT_TASK_DEPENDENCY_UNKNOWN'', ''STRUCTURED_TASK_DEP_UNKNOWN''} then
        (if 2 \<le> length qs then ''Define task '' @ quoted (qs ! 1) @ '' or remove it from depends_on.''
         else ''Define the referenced task or remove it from depends_on.'')
      else if code = ''CONTRACT_EVALUATOR_OBLIGATION_UNKNOWN'' then
        (if 1 \<le> length qs then ''Define obligation '' @ quoted (qs ! 0) @ '' or remove it from evaluator.required_obligations.''
         else ''Define the referenced obligation or remove it from evaluator.required_obligations.'')
      else if code = ''CONTRACT_EVALUATOR_REQUIRED_OBLIGATION_MISSING'' then
        (if 1 \<le> length qs then ''Add '' @ quoted (qs ! 0) @ '' to evaluator.required_obligations.''
         else ''Add every required obligation to evaluator.required_obligations.'')
      else if code = ''STRUCTURED_TASK_WRITE_UNDECLARED'' then
        (if 2 \<le> length qs then ''Add '' @ quoted (qs ! 1) @ '' under # Writes or pass --write '' @ (qs ! 1) @ ''.''
         else ''Add the task write under # Writes or pass it with --write.'')
      else case map_of fixed_hints code of
          Some hint \<Rightarrow> hint
        | None \<Rightarrow> ''Review the diagnostic message and update the input before rerunning lint.'')"

fun diagnostic_for_error :: "go_error \<Rightarrow> lint_diagnostic" where
  "diagnostic_for_error (Authoring code line message) =
     \<lparr>ld_code = code, ld_severity = ''error'', ld_line = line, ld_field = [], ld_message = message,
      ld_hint = diagnostic_hint code message\<rparr>"
| "diagnostic_for_error (Errorf message) =
     \<lparr>ld_code = fst (contract_diagnostic_code message), ld_severity = ''error'', ld_line = 0,
      ld_field = snd (contract_diagnostic_code message), ld_message = message,
      ld_hint = diagnostic_hint (fst (contract_diagnostic_code message)) message\<rparr>"

definition lint_error :: "go_error \<Rightarrow> lint_result" where
  "lint_error e = \<lparr>lr_valid = False, lr_diagnostics = [diagnostic_for_error e]\<rparr>"

text \<open>The checks that found something, each as a diagnostic, in order.\<close>

definition report :: "go_error option list \<Rightarrow> lint_diagnostic list" where
  "report es = map diagnostic_for_error (List.map_filter (\<lambda>e. e) es)"

subsection \<open>LintContract\<close>

definition lint_header_checks :: "contract \<Rightarrow> go_error option list" where
  "lint_header_checks c =
     [ fail_if (c_schema_version c \<noteq> contract_schema_version)
         (Errorf (''unsupported schema_version '' @ quoted (c_schema_version c))),
       fail_if (trim_space (c_objective c) = []) (Errorf ''objective is required''),
       validate_relative_path (ws_root (c_workspace c)) ''workspace root''] @
     map (\<lambda>p. validate_relative_path p ''read path'') (ws_reads (c_workspace c)) @
     map (\<lambda>p. validate_relative_path p ''write path'') (ws_writes (c_workspace c))"

fun lint_obligations :: "obligation list \<Rightarrow> obligation_scan \<Rightarrow> lint_diagnostic list \<times> obligation_scan" where
  "lint_obligations [] s = ([], s)"
| "lint_obligations (ob # obs) s =
     (case check_obligation s ob of
        Some e \<Rightarrow> (case lint_obligations obs s of (ds, s') \<Rightarrow> (diagnostic_for_error e # ds, s'))
      | None \<Rightarrow> lint_obligations obs (note_obligation s ob))"

definition lint_task_checks :: "(string \<Rightarrow> bool) \<Rightarrow> task \<Rightarrow> go_error option list" where
  "lint_task_checks obligation_ids t =
     [ fail_if (t_kind t \<notin> set allowed_task_kinds)
         (Errorf (''unsupported task kind '' @ quoted (t_kind t) @ '' for task '' @ quoted (t_id t))),
       fail_if (trim_space (t_adapter t) = [])
         (Errorf (''adapter is required for task '' @ quoted (t_id t))),
       fail_if (t_timeout_secs t \<le> 0)
         (Errorf (''timeout_seconds must be positive for task '' @ quoted (t_id t)))] @
       map (\<lambda>o_id. fail_if (\<not> obligation_ids o_id)
         (Errorf (''task '' @ quoted (t_id t) @ '' references unknown obligation '' @ quoted o_id)))
         (t_obligations t) @
       concat (map (\<lambda>a. [
         fail_if (ac_type a \<notin> set allowed_side_effect_types)
           (Errorf (''unsupported side effect type '' @ quoted (ac_type a) @ '' for task '' @ quoted (t_id t))),
         validate_relative_path (ac_resource a) ''side effect resource'']) (t_side_effects t))"

definition check_task_id :: "task_map \<Rightarrow> task \<Rightarrow> go_error option" where
  "check_task_id m t =
     first_error [
       validate_public_id (t_id t) ''task id'',
       fail_if (has_task m (t_id t)) (Errorf (''duplicate task id '' @ quoted (t_id t)))]"

fun lint_tasks :: "(string \<Rightarrow> bool) \<Rightarrow> task list \<Rightarrow> task_map \<Rightarrow> lint_diagnostic list \<times> task_map" where
  "lint_tasks obligation_ids [] m = ([], m)"
| "lint_tasks obligation_ids (t # ts) m =
     (case check_task_id m t of
        Some e \<Rightarrow> (case lint_tasks obligation_ids ts m of (ds, m') \<Rightarrow> (diagnostic_for_error e # ds, m'))
      | None \<Rightarrow> (case lint_tasks obligation_ids ts (m @ [t]) of
          (ds, m') \<Rightarrow> (report (lint_task_checks obligation_ids t) @ ds, m')))"

fun lint_approvals :: "task_map \<Rightarrow> (string \<Rightarrow> bool) \<Rightarrow> approval_ticket list \<Rightarrow> lint_diagnostic list" where
  "lint_approvals m seen [] = []"
| "lint_approvals m seen (ap # aps) =
     report (approval_checks m seen ap) @ lint_approvals m (seen(tk_ticket_id ap := True)) aps"

definition dependency_checks :: "task list \<Rightarrow> task_map \<Rightarrow> go_error option list" where
  "dependency_checks tasks m =
     concat (map (\<lambda>t. map (\<lambda>dep. fail_if (\<not> has_task m dep)
       (Errorf (''task '' @ quoted (t_id t) @ '' depends on unknown task '' @ quoted dep))) (t_depends_on t)) tasks)"

definition evaluator_checks :: "(string list \<Rightarrow> string list) \<Rightarrow> string list \<Rightarrow> obligation_scan \<Rightarrow> go_error option list" where
  "evaluator_checks iter evaluator s =
     map (\<lambda>o_id. fail_if (\<not> os_ids s o_id)
       (Errorf (''evaluator references unknown obligation '' @ quoted o_id))) evaluator @
     map (\<lambda>o_id. fail_if (o_id \<notin> set evaluator)
       (Errorf (''required obligation '' @ quoted o_id @ '' is missing from evaluator required_obligations'')))
       (iter (os_required s))"

definition lint_contract_diagnostics :: "(string list \<Rightarrow> string list) \<Rightarrow> contract \<Rightarrow> lint_diagnostic list" where
  "lint_contract_diagnostics iter c =
     (case lint_obligations (c_obligations c) no_obligations of (ob_ds, s) \<Rightarrow>
      case lint_tasks (os_ids s) (c_tasks c) [] of (task_ds, m) \<Rightarrow>
        report (lint_header_checks c) @ ob_ds @
        report [fail_if (os_count s = 0) (Errorf ''at least one required obligation is required'')] @
        task_ds @
        report [fail_if (m = []) (Errorf ''at least one task is required'')] @
        lint_approvals m (\<lambda>_. False) (c_approvals c) @
        report (dependency_checks (c_tasks c) m) @
        report [fail_if (has_cycle (c_tasks c)) (Errorf ''task graph contains a cycle'')] @
        report (evaluator_checks iter (c_required_obligations c) s))"

definition lint_contract :: "(string list \<Rightarrow> string list) \<Rightarrow> contract \<Rightarrow> lint_result" where
  "lint_contract iter c =
     (let ds = lint_contract_diagnostics iter c
      in if ds \<noteq> [] then \<lparr>lr_valid = False, lr_diagnostics = ds\<rparr> else \<lparr>lr_valid = True, lr_diagnostics = []\<rparr>)"

subsection \<open>LintBrief\<close>

fun lint_ids ::
    "string \<Rightarrow> string \<Rightarrow> string \<Rightarrow> (string \<times> nat) list \<Rightarrow> line_map \<Rightarrow> lint_diagnostic list \<times> line_map" where
  "lint_ids invalid duplicate label [] m = ([], m)"
| "lint_ids invalid duplicate label ((i, line) # is) m =
     (case check_new_id invalid duplicate label i line m of
        Some e \<Rightarrow> (case lint_ids invalid duplicate label is m of (ds, m') \<Rightarrow> (diagnostic_for_error e # ds, m'))
      | None \<Rightarrow> lint_ids invalid duplicate label is (m(i \<mapsto> line)))"

definition lint_structured_authoring :: "structured_brief \<Rightarrow> string list \<Rightarrow> lint_diagnostic list" where
  "lint_structured_authoring parsed writes =
     (case lint_ids ''STRUCTURED_OBLIGATION_ID_INVALID'' ''STRUCTURED_OBLIGATION_ID_DUPLICATE''
         ''obligation id'' (obligation_lines parsed) Map.empty of (ob_ds, obligation_ids) \<Rightarrow>
      case lint_ids ''STRUCTURED_TASK_ID_INVALID'' ''STRUCTURED_TASK_ID_DUPLICATE''
         ''task id'' (map (\<lambda>d. (td_id d, td_line d)) (sb_tasks parsed)) Map.empty of (task_ds, task_ids) \<Rightarrow>
        ob_ds @ task_ds @
        report (concat (map (check_draft_refs obligation_ids task_ids writes) (sb_tasks parsed))))"

definition lint_structured_brief ::
    "(task \<Rightarrow> string option) \<Rightarrow> (string list \<Rightarrow> string list) \<Rightarrow> string \<Rightarrow> string \<Rightarrow> string list \<Rightarrow>
     structured_brief \<Rightarrow> lint_result" where
  "lint_structured_brief schema_task iter brief source_path overrides parsed =
     (let ds = report [error_of (normalize_authored_paths (sb_reads parsed) ''workspace read'')] @
            (case structured_workspace_writes overrides parsed of
               Inl e \<Rightarrow> [diagnostic_for_error e]
             | Inr writes \<Rightarrow> lint_structured_authoring parsed writes)
      in if ds \<noteq> [] then \<lparr>lr_valid = False, lr_diagnostics = ds\<rparr>
         else case build_structured_contract schema_task iter brief source_path overrides parsed of
             Inl e \<Rightarrow> lint_error e
           | Inr _ \<Rightarrow> \<lparr>lr_valid = True, lr_diagnostics = []\<rparr>)"

definition lint_brief ::
    "(task \<Rightarrow> string option) \<Rightarrow> (string list \<Rightarrow> string list) \<Rightarrow> string \<Rightarrow> compile_options \<Rightarrow> lint_result" where
  "lint_brief schema_task iter brief opts =
     (case check_brief brief opts of
        Some e \<Rightarrow> lint_error e
      | None \<Rightarrow>
          (case parse_structured_brief brief of
             Inl e \<Rightarrow> lint_error e
           | Inr (structured, ok) \<Rightarrow>
               if ok then lint_structured_brief schema_task iter brief (clean_path (co_source_path opts))
                            (co_workspace_writes opts) structured
               else case compile_brief_with_options schema_task iter brief opts of
                   Inl e \<Rightarrow> lint_error e
                 | Inr _ \<Rightarrow> \<lparr>lr_valid = True, lr_diagnostics = []\<rparr>))"

subsection \<open>The SARIF report\<close>

record sarif_baseline_entry =
  sbl_rule_id :: string
  sbl_source_uri :: string
  sbl_line :: int
  sbl_field :: string
  sbl_justification :: string

record sarif_baseline =
  sbl_schema_version :: string
  sbl_accepted :: "sarif_baseline_entry list"

record lint_sarif_options =
  lo_source_uri :: string
  lo_baseline :: sarif_baseline

record sarif_rule =
  sr_id :: string
  sr_name :: string
  sr_short_description :: string
  sr_help :: string

record sarif_suppression =
  ss_kind :: string
  ss_justification :: string

record sarif_location =
  sl_uri :: string
  sl_start_line :: nat

record sarif_result =
  sres_rule_id :: string
  sres_level :: string
  sres_message :: string
  sres_locations :: "sarif_location list"
  sres_suppressions :: "sarif_suppression list"
  sres_properties :: "(string \<times> string) list"

record sarif_log =
  sg_schema :: string
  sg_version :: string
  sg_driver_name :: string
  sg_information_uri :: string
  sg_rules :: "sarif_rule list"
  sg_results :: "sarif_result list"

definition sarif_level :: "string \<Rightarrow> string" where
  "sarif_level severity =
     (if severity = ''error'' then ''error'' else if severity = ''warning'' then ''warning''
      else if severity = ''note'' then ''note'' else ''none'')"

definition baseline_entry_matches :: "string \<Rightarrow> lint_diagnostic \<Rightarrow> sarif_baseline_entry \<Rightarrow> bool" where
  "baseline_entry_matches source_uri d en \<longleftrightarrow>
     sbl_rule_id en = ld_code d \<and>
     (sbl_source_uri en = [] \<or> sbl_source_uri en = source_uri) \<and>
     (sbl_line en = 0 \<or> sbl_line en = int (ld_line d)) \<and>
     (sbl_field en = [] \<or> sbl_field en = ld_field d)"

definition matching_sarif_baseline_entry :: "lint_diagnostic \<Rightarrow> lint_sarif_options \<Rightarrow> sarif_baseline_entry option" where
  "matching_sarif_baseline_entry d opts =
     find (baseline_entry_matches (lo_source_uri opts) d) (sbl_accepted (lo_baseline opts))"

definition sarif_suppressions_for_diagnostic :: "lint_diagnostic \<Rightarrow> lint_sarif_options \<Rightarrow> sarif_suppression list" where
  "sarif_suppressions_for_diagnostic d opts =
     (case matching_sarif_baseline_entry d opts of
        None \<Rightarrow> []
      | Some en \<Rightarrow> [\<lparr>ss_kind = ''external'', ss_justification = sbl_justification en\<rparr>])"

definition lint_diagnostics_all_suppressed :: "lint_result \<Rightarrow> lint_sarif_options \<Rightarrow> bool" where
  "lint_diagnostics_all_suppressed r opts \<longleftrightarrow>
     lr_diagnostics r \<noteq> [] \<and>
     list_all (\<lambda>d. sarif_suppressions_for_diagnostic d opts \<noteq> []) (lr_diagnostics r)"

definition lint_diagnostic_properties :: "lint_diagnostic \<Rightarrow> (string \<times> string) list" where
  "lint_diagnostic_properties d =
     (if ld_field d \<noteq> [] then [(''field'', ld_field d)] else []) @
     (if ld_hint d \<noteq> [] then [(''hint'', ld_hint d)] else [])"

fun sarif_rules :: "(string \<Rightarrow> bool) \<Rightarrow> lint_diagnostic list \<Rightarrow> sarif_rule list" where
  "sarif_rules seen [] = []"
| "sarif_rules seen (d # ds) =
     (if seen (ld_code d) then sarif_rules seen ds
      else \<lparr>sr_id = ld_code d, sr_name = ld_code d, sr_short_description = ld_message d,
            sr_help = ld_hint d\<rparr> # sarif_rules (seen(ld_code d := True)) ds)"

definition sarif_result_for :: "lint_sarif_options \<Rightarrow> lint_diagnostic \<Rightarrow> sarif_result" where
  "sarif_result_for opts d =
     \<lparr>sres_rule_id = ld_code d, sres_level = sarif_level (ld_severity d), sres_message = ld_message d,
      sres_locations = (if lo_source_uri opts = [] then []
        else [\<lparr>sl_uri = lo_source_uri opts, sl_start_line = (if 0 < ld_line d then ld_line d else 0)\<rparr>]),
      sres_suppressions = sarif_suppressions_for_diagnostic d opts,
      sres_properties = lint_diagnostic_properties d\<rparr>"

definition lint_sarif :: "lint_result \<Rightarrow> lint_sarif_options \<Rightarrow> sarif_log" where
  "lint_sarif r opts =
     \<lparr>sg_schema = ''https://json.schemastore.org/sarif-2.1.0.json'', sg_version = ''2.1.0'',
      sg_driver_name = ''AO Covenant'',
      sg_information_uri = ''https://github.com/uesugitorachiyo/ao-covenant'',
      sg_rules = sarif_rules (\<lambda>_. False) (lr_diagnostics r),
      sg_results = map (sarif_result_for opts) (lr_diagnostics r)\<rparr>"

subsection \<open>The linter and the validator agree\<close>

text \<open>The first diagnostic of a list, and how it comes from the first error of the checks.\<close>

definition first_diag :: "lint_diagnostic list \<Rightarrow> lint_diagnostic option" where
  "first_diag ds = (case ds of [] \<Rightarrow> None | d # _ \<Rightarrow> Some d)"

lemma first_diag_simps [simp]:
  "first_diag [] = None" "first_diag (d # ds) = Some d"
  "first_diag (xs @ ys) = (case first_diag xs of None \<Rightarrow> first_diag ys | Some d \<Rightarrow> Some d)"
  by (auto simp: first_diag_def split: list.split)

lemma first_diag_None [simp]: "first_diag ds = None \<longleftrightarrow> ds = []"
  by (simp add: first_diag_def split: list.split)

lemma report_Nil [simp]: "report [] = []"
  by (simp add: report_def)

lemma report_None [simp]: "report (None # es) = report es"
  by (simp add: report_def)

lemma report_Some [simp]: "report (Some e # es) = diagnostic_for_error e # report es"
  by (simp add: report_def)

lemma first_diag_report [simp]: "first_diag (report es) = map_option diagnostic_for_error (first_error es)"
proof (induction es)
  case (Cons e es)
  then show ?case by (cases e) simp_all
qed simp

lemma report_empty_iff [simp]: "report es = [] \<longleftrightarrow> first_error es = None"
  using first_diag_report [of es] by (metis first_diag_None map_option_is_None)

lemma first_error_nested:
  "first_error (map (\<lambda>x. first_error (f x)) xs) = first_error (concat (map f xs))"
proof (induction xs)
  case (Cons x xs)
  then show ?case by (cases "first_error (f x)") (simp_all only: list.map concat.simps first_error_append
      first_error_Cons_None first_error_Cons_Some option.case)
qed simp

lemmas first_error_eval = first_error_append first_error.simps(1) first_error_Cons option.case append.simps

lemma case_option_same: "(case x of None \<Rightarrow> None | Some y \<Rightarrow> Some y) = x"
  by (cases x) simp_all

lemma first_error_shape:
  assumes "first_error [p, q] = None"
  shows "first_error ([p, q, a, b, c] @ os @ map (\<lambda>x. first_error (f x)) xs @ [None]) =
    first_error ([a, b, c] @ os @ concat (map f xs))"
proof -
  from assms have "p = None" "q = None" by simp_all
  then show ?thesis
    by (cases a; cases b; cases c; cases "first_error os")
       (simp_all only: first_error_eval first_error_nested case_option_same)
qed

lemma first_error_tail_lists:
  "first_error [a, b, c, first_error xs, first_error ys] = first_error ([a, b, c] @ xs @ ys)"
  by (cases a; cases b; cases c; cases "first_error xs")
     (simp_all only: first_error_eval case_option_same)

lemma lint_obligations_first:
  "map_option diagnostic_for_error (error_of (scan_obligations obs s)) = first_diag (fst (lint_obligations obs s))"
  "scan_obligations obs s = Inr s' \<Longrightarrow> lint_obligations obs s = ([], s')"
  by (induction obs s rule: lint_obligations.induct)
     (auto simp: unless_error_def error_of_def split: option.splits prod.splits)

lemma first_error_front:
  "first_error [p, q] = Some e \<Longrightarrow> first_error ([p, q, a, b, c] @ r) = Some e"
  by (cases p; cases q) (simp_all only: first_error_eval option.distinct)

lemma check_task_lint:
  "check_task_id m t = None \<Longrightarrow> check_task (\<lambda>_. None) ids m t = first_error (lint_task_checks ids t)"
  unfolding check_task_id_def check_task_def lint_task_checks_def check_action_def [abs_def] option.case
  by (rule first_error_shape)

lemma check_task_lint_Some:
  "check_task_id m t = Some e \<Longrightarrow> check_task (\<lambda>_. None) ids m t = Some e"
  unfolding check_task_def check_task_id_def by (rule first_error_front)

lemma lint_tasks_first:
  "map_option diagnostic_for_error (error_of (scan_tasks (\<lambda>_. None) ids ts m)) = first_diag (fst (lint_tasks ids ts m))"
  "scan_tasks (\<lambda>_. None) ids ts m = Inr m' \<Longrightarrow> lint_tasks ids ts m = ([], m')"
proof (induction ids ts m rule: lint_tasks.induct)
  case (2 ids t ts m)
  note IH = 2
  let ?pre = "check_task_id m t"
  {
    case 1
    show ?case
    proof (cases ?pre)
      case None
      note chk = check_task_lint [OF None, of ids]
      obtain ds m' where l: "lint_tasks ids ts (m @ [t]) = (ds, m')" by force
      show ?thesis
      proof (cases "first_error (lint_task_checks ids t)")
        case None
        with IH(1,3) chk l \<open>?pre = None\<close> show ?thesis
          by (simp del: first_error_None add: unless_error_def)
      next
        case (Some e)
        with chk l \<open>?pre = None\<close> show ?thesis
          by (simp del: first_error_None add: unless_error_def error_of_def)
      qed
    next
      case (Some e)
      with check_task_lint_Some [OF Some, of ids] show ?thesis
        by (auto simp: error_of_def split: prod.splits)
    qed
  next
    case 2
    show ?case
    proof (cases ?pre)
      case None
      with 2 IH(2,4) check_task_lint [OF None, of ids] show ?thesis by simp
    next
      case (Some e)
      with 2 check_task_lint_Some [OF Some, of ids] show ?thesis by simp
    qed
  }
qed simp_all

lemma lint_approvals_first:
  "first_diag (lint_approvals m seen aps) =
     map_option diagnostic_for_error (first_seen_error seen tk_ticket_id (check_approval m) aps)"
proof (induction aps arbitrary: seen)
  case (Cons ap aps)
  show ?case
    by (cases "first_error (approval_checks m seen ap)")
       (simp_all only: lint_approvals.simps first_diag_simps first_diag_report Cons.IH check_approval_def
         first_seen_error.simps option.case option.map)
qed simp

lemma lint_header_first:
  "first_error (lint_header_checks c) = validate_header c"
  unfolding lint_header_checks_def validate_header_def validate_paths_def
  by (simp only: first_error_tail_lists append_Nil2) (simp only: append.simps list.map char.simps simp_thms)

lemma final_check:
  "error_of (unless_error (first_error es) (Inr x)) = first_error es"
  by (cases "first_error es") (simp_all del: first_error_None add: error_of_def)

lemma first_diag_tail:
  assumes "first_diag ds = map_option diagnostic_for_error x"
  shows "first_diag (report [a] @ ds @ report es @ report [b] @ report fs) =
    map_option diagnostic_for_error (first_error [a, x, first_error es, b, first_error fs])"
  using assms
  by (cases a; cases x; cases "first_error es"; cases b; cases "first_error fs")
     (simp_all del: first_error_None add: case_option_same)

lemma lint_first_diagnostic:
  "first_diag (lint_contract_diagnostics iter c) =
     map_option diagnostic_for_error (validate_contract (\<lambda>_. None) iter c)"
proof -
  obtain ob_ds s where l: "lint_obligations (c_obligations c) no_obligations = (ob_ds, s)" by force
  obtain task_ds m where k: "lint_tasks (os_ids s) (c_tasks c) [] = (task_ds, m)" by force
  have ds: "lint_contract_diagnostics iter c =
      report (lint_header_checks c) @ ob_ds @
      report [fail_if (os_count s = 0) (Errorf ''at least one required obligation is required'')] @
      task_ds @
      report [fail_if (m = []) (Errorf ''at least one task is required'')] @
      lint_approvals m (\<lambda>_. False) (c_approvals c) @
      report (dependency_checks (c_tasks c) m) @
      report [fail_if (has_cycle (c_tasks c)) (Errorf ''task graph contains a cycle'')] @
      report (evaluator_checks iter (c_required_obligations c) s)"
    by (simp add: lint_contract_diagnostics_def l k)
  show ?thesis
  proof (cases "validate_header c")
    case (Some e)
    then show ?thesis unfolding ds by (simp add: validate_contract_def lint_header_first error_of_def)
  next
    case hdr: None
    show ?thesis
    proof (cases "scan_obligations (c_obligations c) no_obligations")
      case (Inl e)
      with lint_obligations_first(1) [of "c_obligations c" no_obligations] l
      have "first_diag ob_ds = Some (diagnostic_for_error e)" by (simp add: error_of_def)
      with Inl hdr show ?thesis
        unfolding ds by (simp del: first_error_None add: validate_contract_def lint_header_first error_of_def)
    next
      case (Inr s')
      with lint_obligations_first(2) l have obs: "ob_ds = []" "s' = s" by fastforce+
      show ?thesis
      proof (cases "scan_tasks (\<lambda>_. None) (os_ids s) (c_tasks c) []")
        case (Inl e)
        with lint_tasks_first(1) [of "os_ids s" "c_tasks c" "[]"] k
        have "first_diag task_ds = Some (diagnostic_for_error e)" by (simp add: error_of_def)
        with Inl hdr Inr obs show ?thesis
          unfolding ds
          by (simp del: first_error_None add: validate_contract_def lint_header_first error_of_def fail_if_def)
      next
        case tasks: (Inr m')
        with lint_tasks_first(2) k have clean_scan: "task_ds = []" "m' = m" by fastforce+
        show ?thesis
        proof (cases "os_count s = 0")
          case True
          with hdr Inr obs show ?thesis
            unfolding ds by (simp del: first_error_None add: validate_contract_def lint_header_first fail_if_def error_of_def)
        next
          case False
          have "first_diag (lint_contract_diagnostics iter c) = first_diag (
              report [fail_if (m = []) (Errorf ''at least one task is required'')] @
              lint_approvals m (\<lambda>_. False) (c_approvals c) @
              report (dependency_checks (c_tasks c) m) @
              report [fail_if (has_cycle (c_tasks c)) (Errorf ''task graph contains a cycle'')] @
              report (evaluator_checks iter (c_required_obligations c) s))"
            unfolding ds clean_scan(1) obs(1)
            using hdr False by (simp del: first_error_None add: lint_header_first fail_if_def [of False])
          also have "\<dots> = map_option diagnostic_for_error (first_error [
              fail_if (m = []) (Errorf ''at least one task is required''),
              validate_approvals (c_approvals c) m, validate_dependencies (c_tasks c) m,
              fail_if (has_cycle (c_tasks c)) (Errorf ''task graph contains a cycle''),
              validate_evaluator iter (c_required_obligations c) s])"
            unfolding validate_dependencies_def dependency_checks_def [symmetric]
              validate_evaluator_def evaluator_checks_def [symmetric]
            by (rule first_diag_tail) (simp add: lint_approvals_first validate_approvals_def)
          also have "\<dots> = map_option diagnostic_for_error (validate_contract (\<lambda>_. None) iter c)"
            using hdr Inr obs tasks clean_scan False
            by (simp del: first_error_None add: validate_contract_def final_check fail_if_def [of False])
          finally show ?thesis .
        qed
      qed
    qed
  qed
qed

text \<open>
  The linter and the validator each range over a map of the required obligations, in an order of
  its own. The order matters only when several of them are missing from the evaluator: which of
  these is named first.
\<close>

definition unlisted_error :: "string \<Rightarrow> go_error" where
  "unlisted_error i = Errorf (''required obligation '' @ quoted i @ '' is missing from evaluator required_obligations'')"

definition unlisted_obligations :: "contract \<Rightarrow> string set" where
  "unlisted_obligations c = ob_id ` set (filter ob_required (c_obligations c)) - set (c_required_obligations c)"

text \<open>The outcomes of two checks are the same, or name two different unlisted obligations.\<close>

definition same_but_unlisted :: "string set \<Rightarrow> go_error option \<Rightarrow> go_error option \<Rightarrow> bool" where
  "same_but_unlisted A x y \<longleftrightarrow> x = y \<or>
     (\<exists>i \<in> A. \<exists>j \<in> A. i \<noteq> j \<and> x = Some (unlisted_error i) \<and> y = Some (unlisted_error j))"

lemma same_but_unlistedI [simp]: "same_but_unlisted A x x"
  by (simp add: same_but_unlisted_def)

lemma same_but_unlisted_case:
  "same_but_unlisted A x y \<Longrightarrow>
     same_but_unlisted A (case k of None \<Rightarrow> x | Some e \<Rightarrow> Some e) (case k of None \<Rightarrow> y | Some e \<Rightarrow> Some e)"
  by (cases k) simp_all

lemma validate_evaluator_orders:
  assumes "iteration_order il" and "iteration_order iv"
  shows "same_but_unlisted (set (os_required s) - set evaluator)
    (validate_evaluator il evaluator s) (validate_evaluator iv evaluator s)"
proof -
  let ?A = "set (os_required s) - set evaluator"
  let ?known = "first_error (map (\<lambda>o_id. fail_if (\<not> os_ids s o_id)
    (Errorf (''evaluator references unknown obligation '' @ quoted o_id))) evaluator)"
  let ?missing = "\<lambda>iter. first_error (map (\<lambda>i. fail_if (i \<notin> set evaluator) (unlisted_error i)) (iter (os_required s)))"
  have eval: "validate_evaluator iter evaluator s = (case ?known of None \<Rightarrow> ?missing iter | Some e \<Rightarrow> Some e)" for iter
    unfolding validate_evaluator_def first_error_append unlisted_error_def by (rule refl)
  have none: "?missing iter = None \<longleftrightarrow> ?A = {}" if "iteration_order iter" for iter
    using that by (auto simp: iteration_order_def fail_if_def)
  have some: "\<exists>i \<in> ?A. e = unlisted_error i" if "iteration_order iter" "?missing iter = Some e" for iter e
    using first_error_in_set [OF that(2)] that(1) by (auto simp: iteration_order_def fail_if_def split: if_splits)
  have "same_but_unlisted ?A (?missing il) (?missing iv)"
  proof (cases "?A = {}")
    case True
    with assms none have "?missing il = None" "?missing iv = None" by blast+
    then show ?thesis by (simp only: same_but_unlistedI)
  next
    case False
    with none assms obtain e e' where e: "?missing il = Some e" "?missing iv = Some e'" by blast
    with some assms obtain i j where "i \<in> ?A" "e = unlisted_error i" "j \<in> ?A" "e' = unlisted_error j" by blast
    with e show ?thesis unfolding same_but_unlisted_def by (cases "i = j") auto
  qed
  then show ?thesis unfolding eval by (rule same_but_unlisted_case)
qed

lemma scanned_required:
  "scan_obligations obs no_obligations = Inr s \<Longrightarrow> os_required s = map ob_id (filter ob_required obs)"
  by (auto simp: scan_obligations_Inr note_obligation_fold) (simp add: no_obligations_def)

lemma validate_contract_orders:
  assumes "iteration_order il" and "iteration_order iv"
  shows "same_but_unlisted (unlisted_obligations c)
    (validate_contract schema_task il c) (validate_contract schema_task iv c)"
proof (cases "validate_header c")
  case hdr: None
  show ?thesis
  proof (cases "scan_obligations (c_obligations c) no_obligations")
    case (Inr s)
    have A: "unlisted_obligations c = set (os_required s) - set (c_required_obligations c)"
      by (simp add: unlisted_obligations_def scanned_required [OF Inr])
    show ?thesis
    proof (cases "os_count s = 0 \<or> (\<exists>e. scan_tasks schema_task (os_ids s) (c_tasks c) [] = Inl e)")
      case True
      with hdr Inr show ?thesis by (auto simp: validate_contract_def fail_if_def error_of_def unless_error_def)
    next
      case False
      then obtain m where m: "scan_tasks schema_task (os_ids s) (c_tasks c) [] = Inr m" and "os_count s \<noteq> 0"
        by (cases "scan_tasks schema_task (os_ids s) (c_tasks c) []") auto
      let ?front = "first_error [fail_if (m = []) (Errorf ''at least one task is required''),
        validate_approvals (c_approvals c) m, validate_dependencies (c_tasks c) m,
        fail_if (has_cycle (c_tasks c)) (Errorf ''task graph contains a cycle'')]"
      have one: "first_error [v] = v" for v :: "go_error option" by (cases v) simp_all
      have last: "first_error [a, b, d, e, v] = (case first_error [a, b, d, e] of None \<Rightarrow> v | Some x \<Rightarrow> Some x)"
        for a b d e v :: "go_error option"
        using first_error_append [of "[a, b, d, e]" "[v]"] by (simp only: append.simps one)
      have "validate_contract schema_task iter c = first_error [
          fail_if (m = []) (Errorf ''at least one task is required''),
          validate_approvals (c_approvals c) m, validate_dependencies (c_tasks c) m,
          fail_if (has_cycle (c_tasks c)) (Errorf ''task graph contains a cycle''),
          validate_evaluator iter (c_required_obligations c) s]" for iter
        using hdr Inr m \<open>os_count s \<noteq> 0\<close>
        by (simp del: first_error_None add: validate_contract_def final_check fail_if_def [of False])
      note this [unfolded last]
      then show ?thesis
        using validate_evaluator_orders [OF assms, of s "c_required_obligations c"]
        by (simp only: A same_but_unlisted_case)
    qed
  qed (use hdr in \<open>simp add: validate_contract_def\<close>)
qed (simp add: validate_contract_def)

lemma lint_any_order:
  assumes "iteration_order il" and "iteration_order iv"
  shows "lint_contract_diagnostics il c = [] \<longleftrightarrow> validate_contract (\<lambda>_. None) iv c = None"
    and "first_diag (lint_contract_diagnostics il c) = map_option diagnostic_for_error (validate_contract (\<lambda>_. None) iv c) \<or>
      (\<exists>i \<in> unlisted_obligations c. \<exists>j \<in> unlisted_obligations c. i \<noteq> j \<and>
         first_diag (lint_contract_diagnostics il c) = Some (diagnostic_for_error (unlisted_error i)) \<and>
         validate_contract (\<lambda>_. None) iv c = Some (unlisted_error j))"
  using validate_contract_orders [OF assms, of c "\<lambda>_. None"] lint_first_diagnostic [of il c]
    first_diag_None [of "lint_contract_diagnostics il c"]
  unfolding same_but_unlisted_def by (auto simp del: first_diag_None)

lemma lint_contract_valid_iff:
  "lr_valid (lint_contract iter c) \<longleftrightarrow> validate_contract (\<lambda>_. None) iter c = None"
proof -
  have "lint_contract_diagnostics iter c = [] \<longleftrightarrow> validate_contract (\<lambda>_. None) iter c = None"
    using lint_first_diagnostic [of iter c] by (metis first_diag_None map_option_is_None)
  then show ?thesis by (simp add: lint_contract_def)
qed

lemma lint_ids_first:
  "collect_ids bad dup label ixs m = Inr m' \<Longrightarrow> lint_ids bad dup label ixs m = ([], m')"
  by (induction bad dup label ixs m rule: collect_ids.induct) auto

lemma lint_structured_authoring_ok:
  "validate_structured_authoring parsed writes = None \<Longrightarrow> lint_structured_authoring parsed writes = []"
  by (auto simp: validate_structured_authoring_def lint_structured_authoring_def lint_ids_first
      simp del: first_error_None)

lemma lint_structured_valid_iff:
  "lr_valid (lint_structured_brief schema_task iter brief source overrides parsed) \<longleftrightarrow>
     (\<exists>c. build_structured_contract schema_task iter brief source overrides parsed = Inr c)"
proof (cases "build_structured_contract schema_task iter brief source overrides parsed")
  case (Inl e)
  then show ?thesis by (simp add: lint_structured_brief_def lint_error_def)
next
  case (Inr c)
  then obtain reads writes where "normalize_authored_paths (sb_reads parsed) ''workspace read'' = Inr reads"
    "structured_workspace_writes overrides parsed = Inr writes"
    "validate_structured_authoring parsed writes = None"
    by (auto simp: build_structured_contract_def)
  with Inr lint_structured_authoring_ok show ?thesis
    by (simp add: lint_structured_brief_def error_of_def)
qed

lemma lint_brief_valid_iff:
  "lr_valid (lint_brief schema_task iter brief opts) \<longleftrightarrow>
     (\<exists>c. compile_brief_with_options schema_task iter brief opts = Inr c)"
  by (auto simp: lint_brief_def compile_brief_with_options_def lint_structured_valid_iff lint_error_def Let_def
      split: option.split sum.split prod.split)

text \<open>Whether a brief compiles, and to what, does not depend on the order of the validator.\<close>

lemma compile_any_order:
  assumes "iteration_order il" and "iteration_order iv"
  shows "compile_brief_with_options schema_task il brief opts = Inr c \<longleftrightarrow>
    compile_brief_with_options schema_task iv brief opts = Inr c"
  using validate_contract_None [OF assms(1), of schema_task] validate_contract_None [OF assms(2), of schema_task]
  by (auto simp: compile_brief_with_options_def build_structured_contract_def Let_def split: prod.split)

lemma lint_brief_any_order:
  assumes "iteration_order il" and "iteration_order iv"
  shows "lr_valid (lint_brief schema_task il brief opts) \<longleftrightarrow>
    error_of (compile_brief_with_options schema_task iv brief opts) = None"
  using compile_any_order [OF assms, of schema_task brief opts]
  by (simp add: lint_brief_valid_iff error_of_def split: sum.split)

text \<open>The rules of a SARIF report are the codes of its results, each once.\<close>

lemma sarif_rules_ids:
  "set (map sr_id (sarif_rules seen ds)) = {ld_code d | d. d \<in> set ds \<and> \<not> seen (ld_code d)} \<and>
   distinct (map sr_id (sarif_rules seen ds))"
  by (induction ds arbitrary: seen) auto

lemma all_suppressed_iff:
  "lint_diagnostics_all_suppressed r opts \<longleftrightarrow>
     lr_diagnostics r \<noteq> [] \<and>
     (\<forall>d \<in> set (lr_diagnostics r). \<exists>en \<in> set (sbl_accepted (lo_baseline opts)).
        baseline_entry_matches (lo_source_uri opts) d en)"
  by (auto simp: lint_diagnostics_all_suppressed_def list_all_iff sarif_suppressions_for_diagnostic_def
      matching_sarif_baseline_entry_def find_None_iff split: option.splits)

end
