(* ===== verification/Authoring_Examples.thy ===== *)
theory Authoring_Examples
  imports Lint Examples
begin

text \<open>A brief without sections and the options it is compiled with, for the properties of the compiler.\<close>

definition example_brief_options :: compile_options where
  "example_brief_options = \<lparr>co_source_path = ''b.md'', co_workspace_writes = [''f'']\<rparr>"

lemma example_compiled_contract:
  "compile_brief_with_options (\<lambda>_. None) (\<lambda>ks. ks) ''x'' example_brief_options =
     Inr (default_contract ''x'' (clean_path ''b.md'') [''f''])"
proof -
  have "check_brief ''x'' example_brief_options = None" by code_simp
  moreover have "parse_structured_brief ''x'' =
      Inr (\<lparr>sb_objective = [], sb_reads = [], sb_writes = [], sb_obligations = [], sb_obligation_lines = [],
            sb_tasks = []\<rparr>, False)" by code_simp
  moreover have "normalize_workspace_writes [''f''] = Inr [''f'']" by code_simp
  moreover have "validate_contract (\<lambda>_. None) (\<lambda>ks. ks) (default_contract ''x'' (clean_path ''b.md'') [''f'']) = None"
    by code_simp
  ultimately show ?thesis
    by (simp add: compile_brief_with_options_def Let_def) (simp add: example_brief_options_def)
qed

lemma example_compiles: "\<exists>c. compile_brief_with_options (\<lambda>_. None) (\<lambda>ks. ks) ''x'' example_brief_options = Inr c"
  using example_compiled_contract by blast

text \<open>A contract with two required obligations that the evaluator does not list.\<close>

definition unlisted_contract :: contract where
  "unlisted_contract = unclaimed_contract\<lparr>c_required_obligations := []\<rparr>"

lemma unlisted_facts:
  "validate_contract (\<lambda>_. None) rev unlisted_contract = Some (unlisted_error ''p'')"
  "unlisted_obligations unlisted_contract = {''o'', ''p''}"
  by code_simp+

lemma reverse_order: "iteration_order rev"
  by (simp add: iteration_order_def)

end
