(* ===== verification/Canonical_Json.thy ===== *)
theory Canonical_Json
  imports Go_Json
begin

text \<open>
  The canonical JSON text over which the documents of an autonomous repair are digested
  (\<open>architectureCanonicalDigest\<close> and \<open>writeArchitectureCanonicalJSON\<close> in
  \<open>policy/autonomous_repair_architecture.go\<close>): keys in ascending order, no white space, every
  code point above U+007F written as \<open>\u\<close> escapes of its UTF-16 units. The lemmas show that
  the text is ASCII and that it determines the document up to the order of its fields.

  The code first marshals the document with \<open>encoding/json\<close> and decodes it again into a
  tree. That round trip is the identity on the tree of the document, up to bytes that are not
  valid UTF-8: the first step replaces each by U+FFFD, and so does the loop over code points
  below, which therefore starts from the tree itself.
\<close>

subsection \<open>Code points\<close>

text \<open>The code point a valid string starts with.\<close>

fun decode_bytes :: "nat list \<Rightarrow> nat" where
  "decode_bytes [a] = a"
| "decode_bytes [a, b] = (a - 192) * 64 + (b - 128)"
| "decode_bytes [a, b, c] = ((a - 224) * 64 + (b - 128)) * 64 + (c - 128)"
| "decode_bytes [a, b, c, d] = (((a - 240) * 64 + (b - 128)) * 64 + (c - 128)) * 64 + (d - 128)"
| "decode_bytes _ = 0"

definition code_point :: "string \<Rightarrow> nat" where
  "code_point s = decode_bytes (map byte (take (utf8_len s) s))"

text \<open>\<open>\%04x\<close> of a 16-bit unit, behind \<open>\u\<close>; \<open>utf16.EncodeRune\<close> above U+FFFF.\<close>

definition hex4 :: "nat \<Rightarrow> string" where
  "hex4 n = [hex_digit (n div 4096 mod 16), hex_digit (n div 256 mod 16),
             hex_digit (n div 16 mod 16), hex_digit (n mod 16)]"

definition unit_escape :: "nat \<Rightarrow> string" where
  "unit_escape n = CHR 0x5C # CHR ''u'' # hex4 n"

definition rune_escape :: "nat \<Rightarrow> string" where
  "rune_escape n =
     (if n \<le> 65535 then unit_escape n
      else unit_escape (55296 + (n - 65536) div 1024) @ unit_escape (56320 + (n - 65536) mod 1024))"

definition canonical_ascii :: "char \<Rightarrow> string" where
  "canonical_ascii c =
     (if c = CHR 0x22 \<or> c = CHR 0x5C then [CHR 0x5C, c]
      else if byte c = 8 then [CHR 0x5C, CHR ''b'']
      else if byte c = 12 then [CHR 0x5C, CHR ''f'']
      else if byte c = 10 then [CHR 0x5C, CHR ''n'']
      else if byte c = 13 then [CHR 0x5C, CHR ''r'']
      else if byte c = 9 then [CHR 0x5C, CHR ''t'']
      else if byte c < 32 then unit_escape (byte c)
      else [c])"

function canonical_body :: "string \<Rightarrow> string" where
  "canonical_body s = (case s of [] \<Rightarrow> []
     | c # cs \<Rightarrow>
        if is_ascii_char c then canonical_ascii c @ canonical_body cs
        else if utf8_len s = 0 then rune_escape 65533 @ canonical_body cs
        else rune_escape (code_point s) @ canonical_body (drop (utf8_len s) s))"
  by pat_completeness auto
termination by (relation "measure length") auto

declare canonical_body.simps [simp del]

definition canonical_string :: "string \<Rightarrow> string" where
  "canonical_string s = CHR 0x22 # canonical_body s @ [CHR 0x22]"

subsection \<open>Documents\<close>

fun write_canonical :: "json \<Rightarrow> string" where
  "write_canonical JNull = ''null''"
| "write_canonical (JStr s) = canonical_string s"
| "write_canonical (JInt i) = int_text i"
| "write_canonical (JBool b) = (if b then ''true'' else ''false'')"
| "write_canonical (JArr vs) = CHR ''['' # join_with '','' (map write_canonical vs) @ '']''"
| "write_canonical (JObj fs) =
     CHR 0x7B # join_with '',''
       (map snd (sort_key fst (map (\<lambda>(k, v). (k, canonical_string k @ '':'' @ write_canonical v)) fs))) @
     [CHR 0x7D]"

text \<open>
  The digest of a document without the field that holds the digest itself; \<open>sha\<close> stands for
  \<open>hex.EncodeToString(sha256.Sum256(\<dots>))\<close>.
\<close>

definition without_field :: "string \<Rightarrow> (string \<times> json) list \<Rightarrow> (string \<times> json) list" where
  "without_field excluded fs = filter (\<lambda>(k, v). k \<noteq> excluded) fs"

definition canonical_digest :: "(string \<Rightarrow> string) \<Rightarrow> json \<Rightarrow> string \<Rightarrow> string go_result" where
  "canonical_digest sha doc excluded = (case doc of
      JObj fs \<Rightarrow> Inr (sha (write_canonical (JObj (without_field excluded fs))))
    | _ \<Rightarrow> Inl (Errorf ''canonical document must be an object''))"

text \<open>The members of a document: an optional text is null when it is absent.\<close>

definition JOpt :: "string option \<Rightarrow> json" where
  "JOpt v = (case v of None \<Rightarrow> JNull | Some s \<Rightarrow> JStr s)"

subsection \<open>Reading one point back\<close>

definition hex4_value :: "string \<Rightarrow> nat" where
  "hex4_value s = ((hex_value (s ! 0) * 16 + hex_value (s ! 1)) * 16 + hex_value (s ! 2)) * 16 + hex_value (s ! 3)"

definition encode_point :: "nat \<Rightarrow> string" where
  "encode_point n =
     (if n < 128 then [char_of n]
      else if n < 2048 then [char_of (192 + n div 64), char_of (128 + n mod 64)]
      else if n < 65536 then
        [char_of (224 + n div 4096), char_of (128 + n div 64 mod 64), char_of (128 + n mod 64)]
      else [char_of (240 + n div 262144), char_of (128 + n div 4096 mod 64),
            char_of (128 + n div 64 mod 64), char_of (128 + n mod 64)])"

definition read_rune :: "string \<Rightarrow> (string \<times> string) option" where
  "read_rune s = (case s of [] \<Rightarrow> None
     | c # cs \<Rightarrow>
        if c = CHR 0x22 then None
        else if c = CHR 0x5C then
          (case cs of [] \<Rightarrow> None
           | e # es \<Rightarrow>
               if e = CHR ''u'' then
                 (let n = hex4_value es in
                  if 55296 \<le> n \<and> n < 56320
                  then Some (encode_point (65536 + (n - 55296) * 1024 + (hex4_value (drop 6 es) - 56320)),
                             drop 10 es)
                  else Some (encode_point n, drop 4 es))
               else Some ([unescape_simple e], es))
        else Some ([c], cs))"

definition rune_text :: "string \<Rightarrow> string" where
  "rune_text s = (case s of [] \<Rightarrow> []
     | c # cs \<Rightarrow> if is_ascii_char c then canonical_ascii c else rune_escape (code_point s))"

lemma hex_digits:
  fixes n :: nat
  assumes "n < 65536"
  shows "((n div 4096 mod 16 * 16 + n div 256 mod 16) * 16 + n div 16 mod 16) * 16 + n mod 16 = n"
proof -
  have d: "n div 256 = n div 16 div 16" "n div 4096 = n div 16 div 16 div 16"
    by (simp_all flip: div_mult2_eq)
  have "n div 16 div 16 div 16 < 16" using assms by (simp flip: div_mult2_eq)
  then show ?thesis unfolding d by (simp add: mult.commute)
qed

lemma hex4_value_hex4: "n < 65536 \<Longrightarrow> hex4_value (hex4 n @ z) = n"
  using hex_digits [of n] by (simp add: hex4_value_def hex4_def numeral_2_eq_2 numeral_3_eq_3)

lemma length_hex4 [simp]: "length (hex4 n) = 4"
  by (simp add: hex4_def)

lemma drop_hex4: "drop 4 (hex4 n @ z) = z"
  by simp

text \<open>The bytes of a multi-byte encoding are those of its code point.\<close>

lemma offset_div_mod: "b < 64 \<Longrightarrow> (x * 64 + b) div 64 = x" "b < 64 \<Longrightarrow> (x * 64 + b) mod 64 = b" for x b :: nat
  by simp_all

lemma two_bytes:
  assumes "194 \<le> a" "a \<le> 223" "is_cont b" and n: "n = decode_bytes [a, b]"
  shows "128 \<le> n" "n < 2048" "192 + n div 64 = a" "128 + n mod 64 = b"
proof -
  have "192 \<le> a" using assms(1) by simp
  then obtain x where x: "a = 192 + x" using le_Suc_ex by blast
  obtain y where y: "b = 128 + y" using assms(3) le_Suc_ex unfolding is_cont_def by blast
  from assms x y have "n = x * 64 + y" "y < 64" "2 \<le> x" "x < 32" by (simp_all add: is_cont_def)
  then show "128 \<le> n" "n < 2048" "192 + n div 64 = a" "128 + n mod 64 = b"
    using offset_div_mod [of y x] x y by simp_all
qed

lemma three_bytes:
  assumes "224 \<le> a" "a \<le> 239" "is_cont b" "is_cont c" "a = 224 \<longrightarrow> 160 \<le> b" "a = 237 \<longrightarrow> b \<le> 159"
    and n: "n = decode_bytes [a, b, c]"
  shows "2048 \<le> n" "n < 65536" "\<not> (55296 \<le> n \<and> n < 56320)"
    "224 + n div 4096 = a" "128 + n div 64 mod 64 = b" "128 + n mod 64 = c"
proof -
  obtain x where x: "a = 224 + x" using assms(1) le_Suc_ex by blast
  obtain y where y: "b = 128 + y" using assms(3) le_Suc_ex unfolding is_cont_def by blast
  obtain z where z: "c = 128 + z" using assms(4) le_Suc_ex unfolding is_cont_def by blast
  have n': "n = (x * 64 + y) * 64 + z" using n x y z by simp
  have r: "y < 64" "z < 64" "x < 16" "x = 0 \<longrightarrow> 32 \<le> y" "x = 13 \<longrightarrow> y < 32"
    using assms x y z by (auto simp: is_cont_def)
  have n2: "n = x * 4096 + y * 64 + z" using n' by simp
  show "2048 \<le> n" using n2 r by (cases "x = 0") simp_all
  show "n < 65536" using n2 r by simp
  consider "x < 13" | "x = 13" | "13 < x" by linarith
  then show "\<not> (55296 \<le> n \<and> n < 56320)" using n2 r by cases simp_all
  have "n div 64 = x * 64 + y" "n mod 64 = z" unfolding n' by (rule offset_div_mod, rule r(2))+
  moreover have "n div 4096 = n div 64 div 64" by (simp flip: div_mult2_eq)
  ultimately show "224 + n div 4096 = a" "128 + n div 64 mod 64 = b" "128 + n mod 64 = c"
    using x y z r by simp_all
qed

lemma four_bytes:
  assumes "240 \<le> a" "a \<le> 244" "is_cont b" "is_cont c" "is_cont d" "a = 240 \<longrightarrow> 144 \<le> b" "a = 244 \<longrightarrow> b \<le> 143"
    and n: "n = decode_bytes [a, b, c, d]"
  shows "65536 \<le> n" "n < 1114112"
    "240 + n div 262144 = a" "128 + n div 4096 mod 64 = b" "128 + n div 64 mod 64 = c" "128 + n mod 64 = d"
proof -
  obtain x where x: "a = 240 + x" using assms(1) le_Suc_ex by blast
  obtain y where y: "b = 128 + y" using assms(3) le_Suc_ex unfolding is_cont_def by blast
  obtain z where z: "c = 128 + z" using assms(4) le_Suc_ex unfolding is_cont_def by blast
  obtain w where w: "d = 128 + w" using assms(5) le_Suc_ex unfolding is_cont_def by blast
  have n': "n = ((x * 64 + y) * 64 + z) * 64 + w" using n x y z w by simp
  have r: "y < 64" "z < 64" "w < 64" "x \<le> 4" "x = 0 \<longrightarrow> 16 \<le> y" "x = 4 \<longrightarrow> y < 16"
    using assms x y z w by (auto simp: is_cont_def)
  have n2: "n = x * 262144 + y * 4096 + z * 64 + w" using n' by simp
  show "65536 \<le> n" using n2 r by (cases "x = 0") simp_all
  show "n < 1114112" using n2 r by (cases "x = 4") simp_all
  have "n div 64 = (x * 64 + y) * 64 + z" "n mod 64 = w" unfolding n' by (rule offset_div_mod, rule r(3))+
  moreover have "n div 4096 = n div 64 div 64" "n div 262144 = n div 64 div 64 div 64"
    by (simp_all flip: div_mult2_eq)
  moreover have "((x * 64 + y) * 64 + z) div 64 = x * 64 + y" "((x * 64 + y) * 64 + z) mod 64 = z"
    by (rule offset_div_mod, rule r(2))+
  moreover have "(x * 64 + y) div 64 = x" "(x * 64 + y) mod 64 = y" by (rule offset_div_mod, rule r(1))+
  ultimately show "240 + n div 262144 = a" "128 + n div 4096 mod 64 = b"
    "128 + n div 64 mod 64 = c" "128 + n mod 64 = d"
    using x y z w r by (simp_all only:)
qed

text \<open>The shapes of a valid encoding that is not one byte.\<close>

lemma multi_cases:
  assumes "\<not> is_ascii_char p" and "0 < utf8_len (p # ps)"
  obtains (two) q r where "ps = q # r" "utf8_len (p # ps) = 2" "194 \<le> byte p" "byte p \<le> 223" "is_cont (byte q)"
  | (three) q u r where "ps = q # u # r" "utf8_len (p # ps) = 3" "224 \<le> byte p" "byte p \<le> 239"
      "is_cont (byte q)" "is_cont (byte u)" "byte p = 224 \<longrightarrow> 160 \<le> byte q" "byte p = 237 \<longrightarrow> byte q \<le> 159"
  | (four) q u v r where "ps = q # u # v # r" "utf8_len (p # ps) = 4" "240 \<le> byte p" "byte p \<le> 244"
      "is_cont (byte q)" "is_cont (byte u)" "is_cont (byte v)"
      "byte p = 240 \<longrightarrow> 144 \<le> byte q" "byte p = 244 \<longrightarrow> byte q \<le> 143"
proof -
  have "\<not> byte p < 128" using assms(1) by (simp add: is_ascii_char_def)
  moreover have "utf8_len (p # ps) = utf8_len_bytes (byte p # map byte (take 3 ps))"
    by (simp add: utf8_len_def)
  ultimately consider
      "194 \<le> byte p" "byte p \<le> 223"
    | "\<not> (194 \<le> byte p \<and> byte p \<le> 223)" "224 \<le> byte p" "byte p \<le> 239"
    | "\<not> (194 \<le> byte p \<and> byte p \<le> 223)" "\<not> (224 \<le> byte p \<and> byte p \<le> 239)" "240 \<le> byte p" "byte p \<le> 244"
    using assms(2) by (auto split: if_splits)
  then show thesis
  proof cases
    case 1
    obtain q r where q: "ps = q # r" using assms(2) 1 by (cases ps) (auto simp: utf8_len_def split: if_splits)
    show thesis by (rule two [OF q]) (use assms(2) 1 q in \<open>auto simp: utf8_len_def split: if_splits\<close>)
  next
    case 2
    obtain q u r where q: "ps = q # u # r"
      using assms(2) 2 by (cases ps; cases "tl ps") (auto simp: utf8_len_def split: if_splits)
    show thesis by (rule three [OF q]) (use assms(2) 2 q in \<open>auto simp: utf8_len_def split: if_splits\<close>)
  next
    case 3
    obtain q u v r where q: "ps = q # u # v # r"
      using assms(2) 3 by (cases ps; cases "tl ps"; cases "tl (tl ps)") (auto simp: utf8_len_def split: if_splits)
    show thesis by (rule four [OF q]) (use assms(2) 3 q in \<open>auto simp: utf8_len_def split: if_splits\<close>)
  qed
qed

lemma encode_code_point:
  assumes "\<not> is_ascii_char p" and "0 < utf8_len (p # ps)"
  defines "n \<equiv> code_point (p # ps)"
  shows "encode_point n = take (utf8_len (p # ps)) (p # ps)"
    and "n < 1114112" and "\<not> (55296 \<le> n \<and> n < 56320)"
  using assms(1,2)
proof (atomize (full), cases rule: multi_cases)
  case (two q r)
  then have n: "n = decode_bytes [byte p, byte q]" by (simp add: n_def code_point_def)
  note f = two_bytes [OF two(3,4,5) n]
  have "encode_point n = [p, q]" unfolding encode_point_def using f by (simp add: less_trans [of n 2048 65536])
  with two f show "encode_point n = take (utf8_len (p # ps)) (p # ps) \<and> n < 1114112 \<and> \<not> (55296 \<le> n \<and> n < 56320)"
    by simp
next
  case (three q u r)
  then have n: "n = decode_bytes [byte p, byte q, byte u]" by (simp add: n_def code_point_def numeral_3_eq_3)
  note f = three_bytes [OF three(3-8) n]
  have "encode_point n = [p, q, u]" unfolding encode_point_def using f by simp
  with three f show "encode_point n = take (utf8_len (p # ps)) (p # ps) \<and> n < 1114112 \<and> \<not> (55296 \<le> n \<and> n < 56320)"
    by simp
next
  case (four q u v r)
  then have n: "n = decode_bytes [byte p, byte q, byte u, byte v]" by (simp add: n_def code_point_def)
  note f = four_bytes [OF four(3-9) n]
  have "encode_point n = [p, q, u, v]" unfolding encode_point_def using f by simp
  with four f show "encode_point n = take (utf8_len (p # ps)) (p # ps) \<and> n < 1114112 \<and> \<not> (55296 \<le> n \<and> n < 56320)"
    by simp
qed

text \<open>Reading inverts writing, point by point.\<close>

lemma read_unit_escape:
  "n < 65536 \<Longrightarrow> \<not> (55296 \<le> n \<and> n < 56320) \<Longrightarrow> read_rune (unit_escape n @ z) = Some (encode_point n, z)"
  unfolding read_rune_def unit_escape_def by (simp add: hex4_value_hex4 Let_def) linarith

lemma read_pair_escape:
  assumes "65536 \<le> n" "n < 1114112"
  shows "read_rune (rune_escape n @ z) = Some (encode_point n, z)"
proof -
  let ?h = "55296 + (n - 65536) div 1024" and ?l = "56320 + (n - 65536) mod 1024"
  have h: "?h < 56320" "?l < 65536" using assms
    by (simp_all add: less_mult_imp_div_less trans_less_add1 less_imp_le_nat)
  have "hex4 ?h @ CHR 0x5C # CHR ''u'' # hex4 ?l @ z = (hex4 ?h @ [CHR 0x5C, CHR ''u'']) @ hex4 ?l @ z" by simp
  then have "drop 6 (hex4 ?h @ CHR 0x5C # CHR ''u'' # hex4 ?l @ z) = hex4 ?l @ z"
    "drop 10 (hex4 ?h @ CHR 0x5C # CHR ''u'' # hex4 ?l @ z) = z"
    by (simp_all del: append_assoc)
  moreover have "hex4_value (hex4 ?h @ y) = ?h" "hex4_value (hex4 ?l @ y) = ?l" for y
    using h by (simp_all add: hex4_value_hex4)
  moreover have "65536 + (?h - 55296) * 1024 + (?l - 56320) = n"
    using assms by (simp add: mult.commute)
  ultimately show ?thesis
    using assms h by (simp add: rune_escape_def unit_escape_def read_rune_def Let_def)
qed

lemma read_rune_escape:
  "n < 1114112 \<Longrightarrow> \<not> (55296 \<le> n \<and> n < 56320) \<Longrightarrow> read_rune (rune_escape n @ z) = Some (encode_point n, z)"
  using read_unit_escape [of n z] read_pair_escape [of n z] by (cases "n < 65536") (simp_all add: rune_escape_def)

lemma read_canonical_ascii:
  assumes "is_ascii_char c"
  shows "read_rune (canonical_ascii c @ z) = Some ([c], z)"
proof -
  consider (esc) "c = CHR 0x22 \<or> c = CHR 0x5C"
    | (simple) "byte c \<in> {8, 12, 10, 13, 9}"
    | (control) "byte c < 32" "byte c \<notin> {8, 12, 10, 13, 9}"
    | (plain) "c \<noteq> CHR 0x22" "c \<noteq> CHR 0x5C" "32 \<le> byte c" by force
  then show ?thesis
  proof cases
    case esc
    then show ?thesis by (auto simp: canonical_ascii_def read_rune_def unescape_simple_def)
  next
    case simple
    then have "c \<in> {char_of (8::nat), char_of (12::nat), char_of (10::nat), char_of (13::nat), char_of (9::nat)}"
      using byte_eq_iff by blast
    then show ?thesis by (auto simp: canonical_ascii_def read_rune_def unescape_simple_def)
  next
    case control
    then have "c \<noteq> CHR 0x22" "c \<noteq> CHR 0x5C" by auto
    with control have "canonical_ascii c = unit_escape (byte c)" by (simp add: canonical_ascii_def)
    with control read_unit_escape [of "byte c" z] show ?thesis by (simp add: encode_point_def)
  next
    case plain
    then show ?thesis by (auto simp: canonical_ascii_def read_rune_def)
  qed
qed

interpretation canonical_points: point_code rune_text canonical_body read_rune
proof unfold_locales
  show "canonical_body [] = []" by (simp add: canonical_body.simps)
next
  fix s :: string assume s: "s \<noteq> []" "0 < utf8_len s"
  then obtain c cs where c: "s = c # cs" by (cases s) auto
  show "canonical_body s = rune_text s @ canonical_body (drop (utf8_len s) s)"
    using s(2) utf8_len_ascii [of c cs]
    unfolding c rune_text_def by (subst canonical_body.simps) simp
  show "read_rune (rune_text s @ rest) = Some (take (utf8_len s) s, rest)" for rest
  proof (cases "is_ascii_char c")
    case True
    then show ?thesis by (simp add: c rune_text_def read_canonical_ascii utf8_len_ascii)
  next
    case False
    with encode_code_point [OF False] s(2) show ?thesis
      by (simp add: c rune_text_def read_rune_escape)
  qed
next
  show "read_rune (CHR 0x22 # rest) = None" for rest by (simp add: read_rune_def)
qed

interpretation canonical_code: string_code canonical_string
  by unfold_locales (simp add: canonical_string_def, unfold canonical_string_def, rule canonical_points.string_prefix_free)

subsection \<open>The text determines the document\<close>

text \<open>The document with the fields of every object in ascending order.\<close>

fun in_order :: "json \<Rightarrow> json" where
  "in_order (JArr vs) = JArr (map in_order vs)"
| "in_order (JObj fs) = JObj (sort_key fst (map (\<lambda>(k, v). (k, in_order v)) fs))"
| "in_order v = v"

lemma insort_map_values:
  "insort_key fst (k, h k v) (map (\<lambda>(k, v). (k, h k v)) fs) = map (\<lambda>(k, v). (k, h k v)) (insort_key fst (k, v) fs)"
  by (induction fs) auto

lemma sort_map_values:
  "sort_key fst (map (\<lambda>(k, v). (k, h k v)) fs) = map (\<lambda>(k, v). (k, h k v)) (sort_key fst fs)"
  by (induction fs) (auto simp: insort_map_values)

lemma write_canonical_in_order: "write_canonical v = json_text_with canonical_string (in_order v)"
proof (induction v)
  case (JObj fs)
  let ?text = "\<lambda>k v. canonical_string k @ '':'' @ write_canonical v"
  have "map (\<lambda>(k, v). canonical_string k @ '':'' @ json_text_with canonical_string v) (sort_key fst (map (\<lambda>(k, v). (k, in_order v)) fs))
      = map snd (sort_key fst (map (\<lambda>(k, v). (k, ?text k v)) fs))"
    unfolding sort_map_values [where h = "\<lambda>k. in_order"] sort_map_values [where h = ?text]
    using JObj.IH by (fastforce simp: snds.simps)
  then show ?case by (simp add: case_prod_unfold)
qed (simp_all cong: map_cong)

lemma json_ok_in_order: "json_ok v \<Longrightarrow> json_ok (in_order v)"
proof (induction v)
  case (JObj fs)
  then have "list_all (\<lambda>(k, v). valid_utf8 k \<and> json_ok v) (map (\<lambda>(k, v). (k, in_order v)) fs)"
    by (fastforce simp: list_all_iff snds.simps)
  then show ?case by (simp add: list_all_iff)
qed (simp_all add: list_all_iff)

theorem canonical_text_inject:
  "json_ok a \<Longrightarrow> json_ok b \<Longrightarrow> write_canonical a = write_canonical b \<longleftrightarrow> in_order a = in_order b"
  unfolding write_canonical_in_order by (rule canonical_code.text_inject) (simp_all add: json_ok_in_order)

text \<open>Objects that agree up to order have the same members.\<close>

lemma map_of_sort_key: "distinct (map fst fs) \<Longrightarrow> map_of (sort_key fst fs) = map_of fs"
proof -
  assume "distinct (map fst fs)"
  moreover from this have "distinct (map fst (sort_key fst fs))"
    by (simp add: distinct_map)
  ultimately show ?thesis by (simp add: map_of_inject_set)
qed

lemma in_order_member:
  assumes "in_order (JObj fs) = in_order (JObj gs)" and "distinct (map fst fs)" and "distinct (map fst gs)"
  shows "map_option in_order (map_of fs k) = map_option in_order (map_of gs k)"
proof -
  have "map_of (sort_key fst (map (\<lambda>(k, v). (k, in_order v)) hs)) = map_option in_order \<circ> map_of hs"
    if "distinct (map fst hs)" for hs
  proof -
    have d: "distinct (map fst (map (\<lambda>(k, v). (k, in_order v)) hs))"
      using that by (simp add: case_prod_unfold o_def)
    show ?thesis unfolding map_of_sort_key [OF d] by (simp add: map_of_map)
  qed
  from this [OF assms(2)] this [OF assms(3)] assms(1) show ?thesis by (simp add: fun_eq_iff)
qed

lemma in_order_scalar [simp]:
  "in_order v = JNull \<longleftrightarrow> v = JNull" "in_order v = JStr s \<longleftrightarrow> v = JStr s"
  "in_order v = JInt i \<longleftrightarrow> v = JInt i" "in_order v = JBool b \<longleftrightarrow> v = JBool b"
  by (cases v; simp)+

lemma JOpt_inject [simp]: "in_order (JOpt a) = in_order (JOpt b) \<longleftrightarrow> a = b"
  by (cases a; cases b) (simp_all add: JOpt_def)

lemma in_order_JStrs [simp]: "in_order (JStrs a) = in_order (JStrs b) \<longleftrightarrow> a = b"
proof
  have id: "in_order \<circ> JStr = JStr" by auto
  assume "in_order (JStrs a) = in_order (JStrs b)"
  then have "map JStr a = map JStr b" by (simp add: JStrs_def id)
  then show "a = b" by (rule map_injective) (simp add: inj_on_def)
qed simp

subsection \<open>The text is ASCII\<close>

lemma hex_digit_ascii: "d < 16 \<Longrightarrow> is_ascii_char (hex_digit d)"
  by (simp add: is_ascii_char_def byte_hex_digit)

lemma is_ascii_simps [simp]:
  "is_ascii []" "is_ascii (c # s) \<longleftrightarrow> is_ascii_char c \<and> is_ascii s"
  "is_ascii (s @ t) \<longleftrightarrow> is_ascii s \<and> is_ascii t"
  by (simp_all add: is_ascii_def)

lemma escape_chars_ascii: "is_ascii_char (CHR 0x5C)" "is_ascii_char (CHR ''u'')"
  "is_ascii_char (CHR ''b'')" "is_ascii_char (CHR ''f'')" "is_ascii_char (CHR ''n'')"
  "is_ascii_char (CHR ''r'')" "is_ascii_char (CHR ''t'')" "is_ascii_char (CHR 0x22)"
  by (simp_all add: is_ascii_char_def)

lemma unit_escape_ascii: "is_ascii (unit_escape n)"
  by (simp add: unit_escape_def hex4_def hex_digit_ascii escape_chars_ascii)

lemma canonical_string_ascii: "is_ascii (canonical_string s)"
proof -
  have r: "is_ascii (rune_escape n)" for n
    by (simp add: rune_escape_def unit_escape_ascii)
  have a: "is_ascii_char c \<Longrightarrow> is_ascii (canonical_ascii c)" for c
    by (simp add: canonical_ascii_def unit_escape_ascii escape_chars_ascii)
  have "is_ascii (canonical_body s)"
  proof (induction s rule: canonical_body.induct)
    case (1 s)
    show ?case
    proof (cases s)
      case Nil
      then show ?thesis by (simp add: canonical_body.simps)
    next
      case (Cons c cs)
      with "1.IH" [OF Cons] r a show ?thesis
        by (subst canonical_body.simps) simp
    qed
  qed
  then show ?thesis by (simp add: canonical_string_def escape_chars_ascii)
qed

lemma int_text_ascii: "is_ascii (int_text i)"
proof -
  have "is_ascii_char c" if "is_digit c" for c using that by (simp add: is_digit_def is_ascii_char_def)
  then have "is_ascii (decimal n)" for n using decimal_digits by (simp add: is_ascii_def list_all_iff)
  then show ?thesis by (simp add: int_text_def is_ascii_char_def)
qed

lemma join_ascii: "is_ascii sep \<Longrightarrow> list_all is_ascii ws \<Longrightarrow> is_ascii (join_with sep ws)"
  by (induction sep ws rule: join_with.induct) auto

lemma write_canonical_ascii: "is_ascii (write_canonical v)"
proof (induction v)
  case (JArr vs)
  then have "is_ascii (join_with '','' (map write_canonical vs))"
    by (intro join_ascii) (simp_all add: list_all_iff is_ascii_char_def)
  then show ?case by (simp add: is_ascii_char_def)
next
  case (JObj fs)
  have "is_ascii (canonical_string k @ '':'' @ write_canonical v)" if "(k, v) \<in> set fs" for k v
    using JObj.IH [OF that] by (simp add: canonical_string_ascii is_ascii_char_def snds.simps)
  then have "is_ascii (join_with '','' (map snd (sort_key fst (map (\<lambda>(k, v). (k, canonical_string k @ '':'' @ write_canonical v)) fs))))"
    by (intro join_ascii) (auto simp: list_all_iff is_ascii_char_def)
  then show ?case by (simp add: is_ascii_char_def)
qed (simp_all add: canonical_string_ascii int_text_ascii is_ascii_char_def)

end
