(* ===== verification/Repair_Types.thy ===== *)
theory Repair_Types
  imports Canonical_Json
begin

text \<open>
  The documents of an autonomous repair and the policy they are checked against: the structs of
  \<open>policy/autonomous_repair_architecture.go\<close>, \<open>policy/autonomous_repair_governance.go\<close> and
  \<open>policy/autonomous_repair_github_execution.go\<close>, one record each with the names of the JSON
  fields. A pointer is an \<open>option\<close>. A slice is a list; an empty one is a non-nil slice, as a
  decoded JSON array is. The \<open>map\<close> of repository policies is the list of its entries in the
  order in which a loop over it visits them.

  The second part is what \<open>json.Marshal\<close> makes of the five documents that carry a digest, and
  that two documents with the same JSON value up to the order of fields are equal.
\<close>

subsection \<open>The five canonical documents\<close>

record repair_loop =
  lp_goal :: string
  lp_trigger :: string
  lp_discovery :: string
  lp_action :: string
  lp_verification :: string
  lp_state :: string
  lp_human_gates :: string

record repair_trigger =
  tr_mode :: string
  tr_canonical_url :: string
  tr_repository :: string
  tr_default_branch :: string
  tr_pinned_base_commit :: string

record repair_discovery =
  di_snapshot_limit :: int
  di_candidate_limit :: int
  di_selected_limit :: int

record repair_budgets =
  bu_wall_clock_seconds :: int
  bu_clone_count :: int
  bu_test_runs :: int
  bu_retry_count :: int
  bu_repair_count :: int
  bu_publication_count :: int

record envelope_governance =
  eg_ownership_class :: string
  eg_allowed_actions :: "string list"
  eg_denied_actions :: "string list"
  eg_sole_control_auto_merge_opt_in :: bool

record repair_routing =
  ro_default_branch :: string
  ro_pinned_base_commit :: string
  ro_fork_owner :: "string option"
  ro_repair_branch :: string
  ro_protected_path_classes :: "string list"
  ro_required_checks :: "string list"

record repair_lineage =
  li_kind :: string
  li_predecessor_run_id :: "string option"
  li_predecessor_digest :: "string option"

record run_envelope =
  re_schema :: string
  re_run_id :: string
  re_loop :: repair_loop
  re_trigger :: repair_trigger
  re_discovery :: repair_discovery
  re_budgets :: repair_budgets
  re_governance :: envelope_governance
  re_routing :: repair_routing
  re_created_at :: string
  re_expires_at :: string
  re_canonical_digest :: string
  re_predecessor_digest :: "string option"
  re_lineage :: repair_lineage
  re_stop_conditions :: "string list"
  re_terminal_statuses :: "string list"

record candidate_eligibility =
  ce_open_bug :: bool
  ce_target_in_repository :: bool
  ce_no_existing_fix :: bool
  ce_current_head_unfixed :: bool
  ce_security_sensitive :: bool
  ce_public_reproduction_feasible :: bool
  ce_deterministic_local_reproduction :: bool
  ce_expected_behavior_grounded :: bool
  ce_bounded_policy_compatible :: bool

record candidate_decision =
  cd_schema :: string
  cd_run_id :: string
  cd_repository :: string
  cd_base_sha :: string
  cd_issue_number :: int
  cd_rank :: int
  cd_decision :: string
  cd_eligibility :: candidate_eligibility
  cd_reason_codes :: "string list"
  cd_evidence_digests :: "string list"
  cd_expected_behavior_source :: string
  cd_decided_at :: string
  cd_decision_digest :: string

record merge_decision =
  md_authorized :: bool
  md_mode :: string
  md_approval_kind :: string
  md_approval_head_sha :: "string option"
  md_auto_merge_opt_in :: bool
  md_branch_protection_bypassed :: bool

record required_check =
  ck_name :: string
  ck_conclusion :: string
  ck_head_sha :: string

record governance_decision =
  gd_schema :: string
  gd_run_id :: string
  gd_repository :: string
  gd_base_sha :: string
  gd_head_sha :: string
  gd_governance_class :: string
  gd_classification_sources :: "string list"
  gd_push_target :: string
  gd_pull_request_mode :: string
  gd_merge :: merge_decision
  gd_protected_path_touched :: bool
  gd_required_checks :: "required_check list"
  gd_action_digest_required :: bool
  gd_decided_at :: string
  gd_decision_digest :: string

record reviewer_independence =
  ri_schema :: string
  ri_run_id :: string
  ri_subject_digest :: string
  ri_reviewer_id :: string
  ri_status :: string
  ri_deterministic_tests_primary :: bool
  ri_satisfies_team_merge_gate :: bool
  ri_reviewed_at :: string
  ri_review_digest :: string

record github_action_digest =
  ad_schema :: string
  ad_run_id :: string
  ad_repository :: string
  ad_issue_number :: int
  ad_base_sha :: string
  ad_head_sha :: string
  ad_fork :: "string option"
  ad_branch :: string
  ad_pr_title_digest :: string
  ad_pr_body_digest :: string
  ad_diff_digest :: string
  ad_required_checks :: "required_check list"
  ad_action :: string
  ad_approved_at :: string
  ad_expires_at :: string
  ad_run_envelope_digest :: string
  ad_candidate_decision_digest :: string
  ad_governance_decision_digest :: string
  ad_reviewer_independence_digest :: string
  ad_action_digest :: string

subsection \<open>Policy and request\<close>

record contract_source =
  cs_repository :: string
  cs_commit :: string
  cs_schema_ids :: "string list"

record repository_policy =
  rpo_repository_class :: string
  rpo_sole_auto_merge_opt_in :: bool
  rpo_push_target :: string
  rpo_pull_request_mode :: string
  rpo_required_checks :: "string list"
  rpo_allowed_actions :: "string list"

record policy_defaults =
  pd_discovery_mutation_authorized :: bool
  pd_issue_text_can_authorize :: bool
  pd_repository_text_can_authorize :: bool
  pd_unknown_repository_policy :: repository_policy
  pd_branch_protection_bypass :: bool

record governance_policy =
  gp_schema_version :: string
  gp_policy_id :: string
  gp_architecture_contract :: contract_source
  gp_defaults :: policy_defaults
  gp_repository_policies :: "(string \<times> repository_policy) list"
  gp_risky_path_classes :: "string list"
  gp_permanently_denied_actions :: "string list"

record governance_request =
  gr_schema_version :: string
  gr_request_id :: string
  gr_mode :: string
  gr_repository :: string
  gr_ownership_class_assertion :: "string option"
  gr_issue_number :: "int option"
  gr_action :: string
  gr_current_base_sha :: string
  gr_changed_path_classes :: "string list"
  gr_approved_action_digest :: string
  gr_run_envelope :: "run_envelope option"
  gr_candidate_decision :: "candidate_decision option"
  gr_governance_decision :: "governance_decision option"
  gr_reviewer_independence :: "reviewer_independence option"
  gr_github_action_digest :: "github_action_digest option"

record authority_decision =
  au_authorized :: bool
  au_mutation_authorized :: bool
  au_repository_class :: string
  au_reason_code :: string

subsection \<open>The GitHub execution policy\<close>

record workflow_contract_source =
  wc_repository :: string
  wc_commit :: string
  wc_path :: string
  wc_schema :: string
  wc_source_sha256 :: string
  wc_semantics_sha256 :: string

record push_fork_policy =
  pf_fork_lookup :: string
  pf_fork_absent :: string
  pf_fork_present :: string
  pf_branch_absent :: string
  pf_branch_present :: string
  pf_force_update_allowed :: bool
  pf_upstream_push_allowed :: bool

record draft_pr_policy =
  dp_lookup :: string
  dp_absent :: string
  dp_present :: string
  dp_update_allowed :: bool
  dp_ready_for_review_allowed :: bool
  dp_review_allowed :: bool
  dp_merge_allowed :: bool

record github_write_budget =
  wb_fork_creates :: int
  wb_branch_creates :: int
  wb_draft_pr_creates :: int

record github_credential_policy =
  gc_ambient_only :: bool
  gc_serialized :: bool

record execution_safety =
  es_issue_list_grants_mutation_authority :: bool
  es_successor_may_widen_authority :: bool
  es_unknown_governance_defaults_to_external_draft_only :: bool
  es_external_merge_authorized :: bool

record github_execution_policy =
  ge_schema_version :: string
  ge_policy_id :: string
  ge_architecture_workflow_contract :: workflow_contract_source
  ge_push_operator_fork :: push_fork_policy
  ge_open_upstream_draft_pr :: draft_pr_policy
  ge_write_budget :: github_write_budget
  ge_credentials :: github_credential_policy
  ge_safety :: execution_safety

subsection \<open>JSON values of the documents\<close>

definition repair_loop_json :: "repair_loop \<Rightarrow> json" where
  "repair_loop_json x = JObj
     [(''goal'', JStr (lp_goal x)),
      (''trigger'', JStr (lp_trigger x)),
      (''discovery'', JStr (lp_discovery x)),
      (''action'', JStr (lp_action x)),
      (''verification'', JStr (lp_verification x)),
      (''state'', JStr (lp_state x)),
      (''human_gates'', JStr (lp_human_gates x))]"

definition repair_trigger_json :: "repair_trigger \<Rightarrow> json" where
  "repair_trigger_json x = JObj
     [(''mode'', JStr (tr_mode x)),
      (''canonical_url'', JStr (tr_canonical_url x)),
      (''repository'', JStr (tr_repository x)),
      (''default_branch'', JStr (tr_default_branch x)),
      (''pinned_base_commit'', JStr (tr_pinned_base_commit x))]"

definition repair_discovery_json :: "repair_discovery \<Rightarrow> json" where
  "repair_discovery_json x = JObj
     [(''snapshot_limit'', JInt (di_snapshot_limit x)),
      (''candidate_limit'', JInt (di_candidate_limit x)),
      (''selected_limit'', JInt (di_selected_limit x))]"

definition repair_budgets_json :: "repair_budgets \<Rightarrow> json" where
  "repair_budgets_json x = JObj
     [(''wall_clock_seconds'', JInt (bu_wall_clock_seconds x)),
      (''clone_count'', JInt (bu_clone_count x)),
      (''test_runs'', JInt (bu_test_runs x)),
      (''retry_count'', JInt (bu_retry_count x)),
      (''repair_count'', JInt (bu_repair_count x)),
      (''publication_count'', JInt (bu_publication_count x))]"

definition envelope_governance_json :: "envelope_governance \<Rightarrow> json" where
  "envelope_governance_json x = JObj
     [(''ownership_class'', JStr (eg_ownership_class x)),
      (''allowed_actions'', JStrs (eg_allowed_actions x)),
      (''denied_actions'', JStrs (eg_denied_actions x)),
      (''sole_control_auto_merge_opt_in'', JBool (eg_sole_control_auto_merge_opt_in x))]"

definition repair_routing_json :: "repair_routing \<Rightarrow> json" where
  "repair_routing_json x = JObj
     [(''default_branch'', JStr (ro_default_branch x)),
      (''pinned_base_commit'', JStr (ro_pinned_base_commit x)),
      (''fork_owner'', JOpt (ro_fork_owner x)),
      (''repair_branch'', JStr (ro_repair_branch x)),
      (''protected_path_classes'', JStrs (ro_protected_path_classes x)),
      (''required_checks'', JStrs (ro_required_checks x))]"

definition repair_lineage_json :: "repair_lineage \<Rightarrow> json" where
  "repair_lineage_json x = JObj
     [(''kind'', JStr (li_kind x)),
      (''predecessor_run_id'', JOpt (li_predecessor_run_id x)),
      (''predecessor_digest'', JOpt (li_predecessor_digest x))]"

definition run_envelope_json :: "run_envelope \<Rightarrow> json" where
  "run_envelope_json x = JObj
     [(''schema'', JStr (re_schema x)),
      (''run_id'', JStr (re_run_id x)),
      (''loop'', repair_loop_json (re_loop x)),
      (''trigger'', repair_trigger_json (re_trigger x)),
      (''discovery'', repair_discovery_json (re_discovery x)),
      (''budgets'', repair_budgets_json (re_budgets x)),
      (''governance'', envelope_governance_json (re_governance x)),
      (''routing'', repair_routing_json (re_routing x)),
      (''created_at'', JStr (re_created_at x)),
      (''expires_at'', JStr (re_expires_at x)),
      (''canonical_digest'', JStr (re_canonical_digest x)),
      (''predecessor_digest'', JOpt (re_predecessor_digest x)),
      (''lineage'', repair_lineage_json (re_lineage x)),
      (''stop_conditions'', JStrs (re_stop_conditions x)),
      (''terminal_statuses'', JStrs (re_terminal_statuses x))]"

definition candidate_eligibility_json :: "candidate_eligibility \<Rightarrow> json" where
  "candidate_eligibility_json x = JObj
     [(''open_bug'', JBool (ce_open_bug x)),
      (''target_in_repository'', JBool (ce_target_in_repository x)),
      (''no_existing_fix'', JBool (ce_no_existing_fix x)),
      (''current_head_unfixed'', JBool (ce_current_head_unfixed x)),
      (''security_sensitive'', JBool (ce_security_sensitive x)),
      (''public_reproduction_feasible'', JBool (ce_public_reproduction_feasible x)),
      (''deterministic_local_reproduction'', JBool (ce_deterministic_local_reproduction x)),
      (''expected_behavior_grounded'', JBool (ce_expected_behavior_grounded x)),
      (''bounded_policy_compatible'', JBool (ce_bounded_policy_compatible x))]"

definition candidate_decision_json :: "candidate_decision \<Rightarrow> json" where
  "candidate_decision_json x = JObj
     [(''schema'', JStr (cd_schema x)),
      (''run_id'', JStr (cd_run_id x)),
      (''repository'', JStr (cd_repository x)),
      (''base_sha'', JStr (cd_base_sha x)),
      (''issue_number'', JInt (cd_issue_number x)),
      (''rank'', JInt (cd_rank x)),
      (''decision'', JStr (cd_decision x)),
      (''eligibility'', candidate_eligibility_json (cd_eligibility x)),
      (''reason_codes'', JStrs (cd_reason_codes x)),
      (''evidence_digests'', JStrs (cd_evidence_digests x)),
      (''expected_behavior_source'', JStr (cd_expected_behavior_source x)),
      (''decided_at'', JStr (cd_decided_at x)),
      (''decision_digest'', JStr (cd_decision_digest x))]"

definition merge_decision_json :: "merge_decision \<Rightarrow> json" where
  "merge_decision_json x = JObj
     [(''authorized'', JBool (md_authorized x)),
      (''mode'', JStr (md_mode x)),
      (''approval_kind'', JStr (md_approval_kind x)),
      (''approval_head_sha'', JOpt (md_approval_head_sha x)),
      (''auto_merge_opt_in'', JBool (md_auto_merge_opt_in x)),
      (''branch_protection_bypassed'', JBool (md_branch_protection_bypassed x))]"

definition required_check_json :: "required_check \<Rightarrow> json" where
  "required_check_json x = JObj
     [(''name'', JStr (ck_name x)),
      (''conclusion'', JStr (ck_conclusion x)),
      (''head_sha'', JStr (ck_head_sha x))]"

definition governance_decision_json :: "governance_decision \<Rightarrow> json" where
  "governance_decision_json x = JObj
     [(''schema'', JStr (gd_schema x)),
      (''run_id'', JStr (gd_run_id x)),
      (''repository'', JStr (gd_repository x)),
      (''base_sha'', JStr (gd_base_sha x)),
      (''head_sha'', JStr (gd_head_sha x)),
      (''governance_class'', JStr (gd_governance_class x)),
      (''classification_sources'', JStrs (gd_classification_sources x)),
      (''push_target'', JStr (gd_push_target x)),
      (''pull_request_mode'', JStr (gd_pull_request_mode x)),
      (''merge'', merge_decision_json (gd_merge x)),
      (''protected_path_touched'', JBool (gd_protected_path_touched x)),
      (''required_checks'', JArr (map required_check_json (gd_required_checks x))),
      (''action_digest_required'', JBool (gd_action_digest_required x)),
      (''decided_at'', JStr (gd_decided_at x)),
      (''decision_digest'', JStr (gd_decision_digest x))]"

definition reviewer_independence_json :: "reviewer_independence \<Rightarrow> json" where
  "reviewer_independence_json x = JObj
     [(''schema'', JStr (ri_schema x)),
      (''run_id'', JStr (ri_run_id x)),
      (''subject_digest'', JStr (ri_subject_digest x)),
      (''reviewer_id'', JStr (ri_reviewer_id x)),
      (''status'', JStr (ri_status x)),
      (''deterministic_tests_primary'', JBool (ri_deterministic_tests_primary x)),
      (''satisfies_team_merge_gate'', JBool (ri_satisfies_team_merge_gate x)),
      (''reviewed_at'', JStr (ri_reviewed_at x)),
      (''review_digest'', JStr (ri_review_digest x))]"

definition github_action_digest_json :: "github_action_digest \<Rightarrow> json" where
  "github_action_digest_json x = JObj
     [(''schema'', JStr (ad_schema x)),
      (''run_id'', JStr (ad_run_id x)),
      (''repository'', JStr (ad_repository x)),
      (''issue_number'', JInt (ad_issue_number x)),
      (''base_sha'', JStr (ad_base_sha x)),
      (''head_sha'', JStr (ad_head_sha x)),
      (''fork'', JOpt (ad_fork x)),
      (''branch'', JStr (ad_branch x)),
      (''pr_title_digest'', JStr (ad_pr_title_digest x)),
      (''pr_body_digest'', JStr (ad_pr_body_digest x)),
      (''diff_digest'', JStr (ad_diff_digest x)),
      (''required_checks'', JArr (map required_check_json (ad_required_checks x))),
      (''action'', JStr (ad_action x)),
      (''approved_at'', JStr (ad_approved_at x)),
      (''expires_at'', JStr (ad_expires_at x)),
      (''run_envelope_digest'', JStr (ad_run_envelope_digest x)),
      (''candidate_decision_digest'', JStr (ad_candidate_decision_digest x)),
      (''governance_decision_digest'', JStr (ad_governance_decision_digest x)),
      (''reviewer_independence_digest'', JStr (ad_reviewer_independence_digest x)),
      (''action_digest'', JStr (ad_action_digest x))]"

end
