(* ===== verification/Repair_Shapes.thy ===== *)
theory Repair_Shapes
  imports Repair_Types Go_Time
begin

text \<open>
  The shape of the five documents (\<open>validArchitecture...Shape\<close> in
  \<open>policy/autonomous_repair_architecture.go\<close>) and the helpers on string lists of
  \<open>policy/autonomous_repair_governance.go\<close>. The three regular expressions are written out as
  predicates on the bytes of a string. The lemmas give the loops over a set of seen names
  their meaning.
\<close>

named_theorems shape_defs
  \<comment> \<open>unfoldings of the shape predicates\<close>

subsection \<open>Lists of names\<close>

text \<open>\<open>slices.Contains\<close> and the file's own \<open>slicesContains\<close>.\<close>

fun slices_contains :: "string list \<Rightarrow> string \<Rightarrow> bool" where
  "slices_contains [] v = False"
| "slices_contains (c # cs) v = (if c = v then True else slices_contains cs v)"

fun every_string_in :: "string list \<Rightarrow> string list \<Rightarrow> bool" where
  "every_string_in [] allowed = True"
| "every_string_in (v # vs) allowed = (if \<not> slices_contains allowed v then False else every_string_in vs allowed)"

fun unique_nonempty_from :: "(string \<Rightarrow> bool) \<Rightarrow> string list \<Rightarrow> bool" where
  "unique_nonempty_from seen [] = True"
| "unique_nonempty_from seen (v # vs) =
     (if v = [] then False else if seen v then False else unique_nonempty_from (seen(v := True)) vs)"

definition unique_nonempty_strings :: "string list \<Rightarrow> bool" where
  "unique_nonempty_strings vs = unique_nonempty_from (\<lambda>_. False) vs"

definition same_unique_strings :: "string list \<Rightarrow> string list \<Rightarrow> bool" where
  "same_unique_strings got want \<longleftrightarrow>
     length got = length want \<and> unique_nonempty_strings got \<and>
     every_string_in got want \<and> every_string_in want got"

definition valid_repository_name :: "string \<Rightarrow> bool" where
  "valid_repository_name r \<longleftrightarrow>
     (case split_on (CHR ''/'') r of [a, b] \<Rightarrow> a \<noteq> [] \<and> b \<noteq> [] | _ \<Rightarrow> False)"

lemma slices_contains_iff [simp]: "slices_contains vs v \<longleftrightarrow> v \<in> set vs"
  by (induction vs) auto

lemma every_string_in_iff [simp]: "every_string_in vs allowed \<longleftrightarrow> set vs \<subseteq> set allowed"
  by (induction vs) auto

lemma unique_nonempty_from_iff:
  "unique_nonempty_from seen vs \<longleftrightarrow> distinct vs \<and> (\<forall>v \<in> set vs. v \<noteq> [] \<and> \<not> seen v)"
  by (induction vs arbitrary: seen) auto

lemma unique_nonempty_iff: "unique_nonempty_strings vs \<longleftrightarrow> distinct vs \<and> [] \<notin> set vs"
  by (auto simp: unique_nonempty_strings_def unique_nonempty_from_iff)

lemma same_unique_iff: "same_unique_strings got want \<longleftrightarrow>
    length got = length want \<and> distinct got \<and> [] \<notin> set got \<and> set got = set want"
  by (auto simp: same_unique_strings_def unique_nonempty_iff)

text \<open>A valid name is an owner and a repository around its only slash.\<close>

lemma valid_repository_name_iff:
  "valid_repository_name r \<longleftrightarrow>
     (\<exists>a b. r = a @ CHR ''/'' # b \<and> a \<noteq> [] \<and> b \<noteq> [] \<and> CHR ''/'' \<notin> set a \<and> CHR ''/'' \<notin> set b)"
proof
  assume "valid_repository_name r"
  then obtain a b where ab: "split_on (CHR ''/'') r = [a, b]" "a \<noteq> []" "b \<noteq> []"
    by (auto simp: valid_repository_name_def split: list.splits)
  then have "r = a @ CHR ''/'' # b" using join_split [of "CHR ''/''" r] by simp
  moreover from ab(1) have "CHR ''/'' \<notin> set a" "CHR ''/'' \<notin> set b"
    using split_on_elem_free [of _ "CHR ''/''" r] by auto
  ultimately show "\<exists>a b. r = a @ CHR ''/'' # b \<and> a \<noteq> [] \<and> b \<noteq> [] \<and> CHR ''/'' \<notin> set a \<and> CHR ''/'' \<notin> set b"
    using ab by blast
next
  assume "\<exists>a b. r = a @ CHR ''/'' # b \<and> a \<noteq> [] \<and> b \<noteq> [] \<and> CHR ''/'' \<notin> set a \<and> CHR ''/'' \<notin> set b"
  then show "valid_repository_name r"
    by (auto simp: valid_repository_name_def split_on_append split_on_free)
qed

subsection \<open>Patterns\<close>

definition run_id_char :: "char \<Rightarrow> bool" where
  "run_id_char c \<longleftrightarrow> is_lower c \<or> is_digit c \<or> c = CHR ''-''"

definition run_id_pattern :: "string \<Rightarrow> bool" where
  "run_id_pattern s \<longleftrightarrow> (case s of [] \<Rightarrow> False
     | c # cs \<Rightarrow> (is_lower c \<or> is_digit c) \<and> 7 \<le> length cs \<and> length cs \<le> 127 \<and> list_all run_id_char cs)"

definition sha40_pattern :: "string \<Rightarrow> bool" where
  "sha40_pattern s \<longleftrightarrow> length s = 40 \<and> list_all is_hex_lower s"

definition sha64_pattern :: "string \<Rightarrow> bool" where
  "sha64_pattern s \<longleftrightarrow> length s = 64 \<and> list_all is_hex_lower s"

subsection \<open>Shapes\<close>

definition valid_lineage :: "run_envelope \<Rightarrow> bool" where [shape_defs]:
  "valid_lineage e \<longleftrightarrow>
     (if li_kind (re_lineage e) = ''origin'' then
        re_predecessor_digest e = None \<and> li_predecessor_run_id (re_lineage e) = None \<and>
        li_predecessor_digest (re_lineage e) = None
      else if li_kind (re_lineage e) = ''narrower_successor'' then
        (case (re_predecessor_digest e, li_predecessor_run_id (re_lineage e), li_predecessor_digest (re_lineage e)) of
           (Some d, Some r, Some l) \<Rightarrow> l = d \<and> sha64_pattern d \<and> run_id_pattern r
         | _ \<Rightarrow> False)
      else False)"

definition valid_envelope_shape :: "run_envelope \<Rightarrow> bool" where [shape_defs]:
  "valid_envelope_shape e \<longleftrightarrow>
     re_schema e = ''ao.architecture.autonomous-issue-repair.run-envelope.v1'' \<and>
     run_id_pattern (re_run_id e) \<and>
     lp_goal (re_loop e) \<noteq> [] \<and> lp_trigger (re_loop e) \<noteq> [] \<and> lp_discovery (re_loop e) \<noteq> [] \<and>
     lp_action (re_loop e) \<noteq> [] \<and> lp_verification (re_loop e) \<noteq> [] \<and> lp_state (re_loop e) \<noteq> [] \<and>
     lp_human_gates (re_loop e) \<noteq> [] \<and>
     slices_contains [''explicit_issue'', ''issue_list''] (tr_mode (re_trigger e)) \<and>
     tr_canonical_url (re_trigger e) \<noteq> [] \<and>
     valid_repository_name (tr_repository (re_trigger e)) \<and>
     tr_default_branch (re_trigger e) \<noteq> [] \<and>
     sha40_pattern (tr_pinned_base_commit (re_trigger e)) \<and>
     di_snapshot_limit (re_discovery e) \<ge> 1 \<and> di_snapshot_limit (re_discovery e) \<le> 50 \<and>
     di_candidate_limit (re_discovery e) \<ge> 1 \<and> di_candidate_limit (re_discovery e) \<le> 10 \<and>
     di_selected_limit (re_discovery e) = 1 \<and>
     bu_wall_clock_seconds (re_budgets e) \<ge> 1 \<and> bu_clone_count (re_budgets e) \<ge> 0 \<and>
     bu_test_runs (re_budgets e) \<ge> 1 \<and> bu_retry_count (re_budgets e) \<ge> 0 \<and>
     bu_repair_count (re_budgets e) \<ge> 0 \<and> bu_repair_count (re_budgets e) \<le> 1 \<and>
     bu_publication_count (re_budgets e) \<ge> 0 \<and> bu_publication_count (re_budgets e) \<le> 1 \<and>
     slices_contains [''sole_control'', ''team'', ''external'', ''unknown''] (eg_ownership_class (re_governance e)) \<and>
     unique_nonempty_strings (eg_allowed_actions (re_governance e)) \<and>
     unique_nonempty_strings (eg_denied_actions (re_governance e)) \<and>
     ro_default_branch (re_routing e) \<noteq> [] \<and>
     sha40_pattern (ro_pinned_base_commit (re_routing e)) \<and>
     ro_repair_branch (re_routing e) \<noteq> [] \<and>
     unique_nonempty_strings (ro_protected_path_classes (re_routing e)) \<and>
     unique_nonempty_strings (ro_required_checks (re_routing e)) \<and>
     valid_rfc3339 (re_created_at e) \<and> valid_rfc3339 (re_expires_at e) \<and>
     sha64_pattern (re_canonical_digest e) \<and> valid_lineage e \<and>
     unique_nonempty_strings (re_stop_conditions e) \<and>
     unique_nonempty_strings (re_terminal_statuses e)"

fun all_digests :: "string list \<Rightarrow> bool" where
  "all_digests [] = True"
| "all_digests (v # vs) = (if \<not> sha64_pattern v then False else all_digests vs)"

definition unique_digest_strings :: "string list \<Rightarrow> bool" where
  "unique_digest_strings vs = (if vs = [] \<or> \<not> unique_nonempty_strings vs then False else all_digests vs)"

definition valid_candidate_shape :: "candidate_decision \<Rightarrow> bool" where [shape_defs]:
  "valid_candidate_shape c \<longleftrightarrow>
     cd_schema c = ''ao.architecture.autonomous-issue-repair.candidate-decision.v1'' \<and>
     run_id_pattern (cd_run_id c) \<and> valid_repository_name (cd_repository c) \<and>
     sha40_pattern (cd_base_sha c) \<and> cd_issue_number c \<ge> 1 \<and>
     cd_rank c \<ge> 1 \<and> cd_rank c \<le> 10 \<and>
     slices_contains [''eligible'', ''selected'', ''excluded''] (cd_decision c) \<and>
     unique_nonempty_strings (cd_reason_codes c) \<and>
     unique_digest_strings (cd_evidence_digests c) \<and>
     slices_contains [''tests'', ''documentation'', ''protocol'', ''maintainer_statement'', ''unavailable'']
       (cd_expected_behavior_source c) \<and>
     valid_rfc3339 (cd_decided_at c) \<and> sha64_pattern (cd_decision_digest c)"

text \<open>The loop that checks each required check and collects its name.\<close>

fun collect_check_names :: "string list \<Rightarrow> required_check list \<Rightarrow> string list option" where
  "collect_check_names names [] = Some names"
| "collect_check_names names (k # ks) =
     (if ck_name k = [] \<or>
         \<not> slices_contains [''success'', ''failure'', ''pending'', ''missing''] (ck_conclusion k) \<or>
         \<not> sha40_pattern (ck_head_sha k)
      then None else collect_check_names (names @ [ck_name k]) ks)"

definition unique_check_names :: "required_check list \<Rightarrow> bool" where [shape_defs]:
  "unique_check_names ks =
     (if ks = [] then False
      else (case collect_check_names [] ks of None \<Rightarrow> False | Some names \<Rightarrow> unique_nonempty_strings names))"

definition valid_merge_shape :: "merge_decision \<Rightarrow> bool" where [shape_defs]:
  "valid_merge_shape m =
     (if \<not> slices_contains [''never'', ''manual'', ''merge_queue'', ''auto_merge''] (md_mode m) \<or>
         \<not> slices_contains [''none'', ''independent_human'', ''codeowner''] (md_approval_kind m) \<or>
         md_branch_protection_bypassed m then False
      else if (case md_approval_head_sha m of None \<Rightarrow> False | Some h \<Rightarrow> \<not> sha40_pattern h) then False
      else if \<not> md_authorized m then md_mode m = ''never''
      else md_mode m \<noteq> ''never'')"

definition valid_governance_shape :: "governance_decision \<Rightarrow> bool" where [shape_defs]:
  "valid_governance_shape g =
     (if gd_schema g \<noteq> ''ao.architecture.autonomous-issue-repair.governance-decision.v1'' \<or>
         \<not> run_id_pattern (gd_run_id g) \<or> \<not> valid_repository_name (gd_repository g) \<or>
         \<not> sha40_pattern (gd_base_sha g) \<or> \<not> sha40_pattern (gd_head_sha g) \<or>
         \<not> slices_contains [''sole_control'', ''team'', ''external'', ''unknown''] (gd_governance_class g) \<or>
         \<not> unique_nonempty_strings (gd_classification_sources g) \<or>
         \<not> every_string_in (gd_classification_sources g)
             [''repository_policy'', ''branch_rules'', ''codeowners'', ''operator_envelope'', ''unknown_default''] \<or>
         \<not> slices_contains [''authorized_operator_repository'', ''policy_authorized_branch'', ''operator_owned_fork'']
             (gd_push_target g) \<or>
         \<not> slices_contains [''draft_or_ready_by_policy'', ''upstream_draft_only''] (gd_pull_request_mode g) \<or>
         \<not> valid_merge_shape (gd_merge g) \<or> \<not> gd_action_digest_required g \<or>
         \<not> valid_rfc3339 (gd_decided_at g) \<or> \<not> sha64_pattern (gd_decision_digest g)
      then False else unique_check_names (gd_required_checks g))"

definition valid_reviewer_shape :: "reviewer_independence \<Rightarrow> bool" where [shape_defs]:
  "valid_reviewer_shape r \<longleftrightarrow>
     ri_schema r = ''ao.architecture.autonomous-issue-repair.reviewer-independence.v1'' \<and>
     run_id_pattern (ri_run_id r) \<and> sha64_pattern (ri_subject_digest r) \<and> ri_reviewer_id r \<noteq> [] \<and>
     slices_contains [''independent'', ''same_vendor'', ''unavailable'', ''unverified''] (ri_status r) \<and>
     ri_deterministic_tests_primary r \<and>
     (ri_status r = ''independent'' \<or> \<not> ri_satisfies_team_merge_gate r) \<and>
     valid_rfc3339 (ri_reviewed_at r) \<and> sha64_pattern (ri_review_digest r)"

definition write_actions :: "string list" where
  "write_actions = [''push_operator_fork'', ''open_upstream_draft_pr'', ''open_ready_pr'',
     ''request_merge_queue'', ''auto_merge'']"

definition valid_action_shape :: "github_action_digest \<Rightarrow> bool" where [shape_defs]:
  "valid_action_shape a =
     (if ad_schema a \<noteq> ''ao.architecture.autonomous-issue-repair.github-action-digest.v1'' \<or>
         \<not> run_id_pattern (ad_run_id a) \<or> \<not> valid_repository_name (ad_repository a) \<or>
         ad_issue_number a < 1 \<or> \<not> sha40_pattern (ad_base_sha a) \<or> \<not> sha40_pattern (ad_head_sha a) \<or>
         ad_branch a = [] \<or> \<not> sha64_pattern (ad_pr_title_digest a) \<or> \<not> sha64_pattern (ad_pr_body_digest a) \<or>
         \<not> sha64_pattern (ad_diff_digest a) \<or> \<not> slices_contains write_actions (ad_action a) \<or>
         \<not> valid_rfc3339 (ad_approved_at a) \<or> \<not> valid_rfc3339 (ad_expires_at a) \<or>
         \<not> sha64_pattern (ad_run_envelope_digest a) \<or> \<not> sha64_pattern (ad_candidate_decision_digest a) \<or>
         \<not> sha64_pattern (ad_governance_decision_digest a) \<or>
         \<not> sha64_pattern (ad_reviewer_independence_digest a) \<or> \<not> sha64_pattern (ad_action_digest a)
      then False
      else if (case ad_fork a of None \<Rightarrow> False | Some f \<Rightarrow> \<not> valid_repository_name f) then False
      else unique_check_names (ad_required_checks a))"

definition valid_document_shapes ::
    "run_envelope \<Rightarrow> candidate_decision \<Rightarrow> governance_decision \<Rightarrow> reviewer_independence \<Rightarrow>
     github_action_digest \<Rightarrow> bool" where
  "valid_document_shapes e c g r a \<longleftrightarrow>
     valid_envelope_shape e \<and> valid_candidate_shape c \<and> valid_governance_shape g \<and>
     valid_reviewer_shape r \<and> valid_action_shape a"

end
