(* ===== verification/Repair_Authority.thy ===== *)
theory Repair_Authority
  imports Repair_Shapes
begin

text \<open>
  \<open>validateArchitectureRepairAuthority\<close> of \<open>policy/autonomous_repair_architecture.go\<close>: the
  checks that bind the five documents of a write request to each other, to the request and to
  the policy of the repository. As in the code a check is a condition with the reason that is
  returned when it holds, and the empty text means that nothing was found.
\<close>

text \<open>\<open>if cond { return reason }\<close>, one after the other.\<close>

fun first_reason :: "(bool \<times> string) list \<Rightarrow> string" where
  "first_reason [] = []"
| "first_reason ((b, r) # rs) = (if b then r else first_reason rs)"

lemma first_reason_Nil_iff:
  "list_all (\<lambda>(b, r). b \<longrightarrow> r \<noteq> []) rs \<Longrightarrow> first_reason rs = [] \<longleftrightarrow> list_all (\<lambda>(b, r). \<not> b) rs"
  by (induction rs) (auto split: if_splits)

lemma first_reason_in: "first_reason rs = [] \<or> first_reason rs \<in> set (map snd rs)"
  by (induction rs) (auto simp del: set_map)

subsection \<open>The parts of the check\<close>

definition candidate_eligible :: "candidate_eligibility \<Rightarrow> bool" where
  "candidate_eligible c \<longleftrightarrow>
     ce_open_bug c \<and> ce_target_in_repository c \<and> ce_no_existing_fix c \<and> ce_current_head_unfixed c \<and>
     \<not> ce_security_sensitive c \<and> ce_public_reproduction_feasible c \<and>
     ce_deterministic_local_reproduction c \<and> ce_expected_behavior_grounded c \<and>
     ce_bounded_policy_compatible c"

text \<open>
  \<open>strings.SplitN(action.Repository, "/", 2)[1]\<close>; a repository without a slash is a runtime
  panic, which no request that passed the shape check reaches.
\<close>

definition repository_after_slash :: "string \<Rightarrow> string option" where
  "repository_after_slash r = map_option snd (cut_at (CHR ''/'') r)"

definition index_panic :: string where
  "index_panic = ''panic: index out of range''"

definition fork_reason :: "string option \<Rightarrow> string option \<Rightarrow> string \<Rightarrow> string" where
  "fork_reason fork_owner fork repository =
     (case (fork_owner, fork) of
        (Some owner, Some f) \<Rightarrow>
          (case repository_after_slash repository of
             None \<Rightarrow> index_panic
           | Some name \<Rightarrow> if f \<noteq> owner @ ''/'' @ name then ''fork_mismatch'' else [])
      | _ \<Rightarrow> ''fork_mismatch'')"

definition validate_routing ::
    "repository_policy \<Rightarrow> run_envelope \<Rightarrow> governance_decision \<Rightarrow> github_action_digest \<Rightarrow> string" where
  "validate_routing rp e g a =
     (let fork = (if gd_push_target g = ''operator_owned_fork''
                  then fork_reason (ro_fork_owner (re_routing e)) (ad_fork a) (ad_repository a)
                  else if ro_fork_owner (re_routing e) \<noteq> None \<or> ad_fork a \<noteq> None then ''fork_mismatch'' else [])
      in first_reason
        [(tr_default_branch (re_trigger e) \<noteq> ro_default_branch (re_routing e) \<or>
          tr_pinned_base_commit (re_trigger e) \<noteq> ro_pinned_base_commit (re_routing e) \<or>
          ad_branch a \<noteq> ro_repair_branch (re_routing e), ''routing_mismatch''),
         (fork \<noteq> [], fork),
         (rpo_repository_class rp = ''external'' \<and>
          (gd_push_target g \<noteq> ''operator_owned_fork'' \<or> gd_pull_request_mode g \<noteq> ''upstream_draft_only''),
          ''external_draft_only'')])"

text \<open>The loop over the checks of a document: the names collected, or nothing when one is not green.\<close>

fun green_check_names :: "string \<Rightarrow> string list \<Rightarrow> required_check list \<Rightarrow> string list option" where
  "green_check_names head names [] = Some names"
| "green_check_names head names (k # ks) =
     (if ck_conclusion k \<noteq> ''success'' \<or> ck_head_sha k \<noteq> head then None
      else green_check_names head (names @ [ck_name k]) ks)"

definition validate_checks :: "string list \<Rightarrow> governance_decision \<Rightarrow> github_action_digest \<Rightarrow> string" where
  "validate_checks expected g a =
     (if expected = [] \<or> length (gd_required_checks g) \<noteq> length expected \<or>
         length (ad_required_checks a) \<noteq> length expected then ''required_checks_mismatch''
      else (case green_check_names (ad_head_sha a) [] (gd_required_checks g) of
              None \<Rightarrow> ''required_check_not_green''
            | Some governance_names \<Rightarrow>
                (case green_check_names (ad_head_sha a) [] (ad_required_checks a) of
                   None \<Rightarrow> ''required_check_not_green''
                 | Some action_names \<Rightarrow>
                     if \<not> same_unique_strings governance_names expected \<or>
                        \<not> same_unique_strings action_names expected
                     then ''required_checks_mismatch'' else [])))"

definition chronology_reason ::
    "int \<Rightarrow> instant \<Rightarrow> instant \<Rightarrow> instant \<Rightarrow> instant \<Rightarrow> instant \<Rightarrow> instant \<Rightarrow> instant \<Rightarrow> instant \<Rightarrow> string" where
  "chronology_reason wall_clock created envelope_expires candidate_at governance_at reviewer_at approved
       action_expires now =
     first_reason
       [(created > now \<or> \<not> now < envelope_expires \<or> \<not> now < action_expires \<or>
         \<not> created < envelope_expires \<or> \<not> approved < action_expires \<or>
         duration_between action_expires approved > hours24 \<or> action_expires > envelope_expires \<or>
         candidate_at < created \<or> governance_at < created \<or> reviewer_at < created \<or>
         approved < candidate_at \<or> approved < governance_at \<or> approved < reviewer_at \<or> approved > now,
         ''authority_chronology_invalid''),
        (wall_clock < 1 \<or> duration_between envelope_expires created > seconds_duration wall_clock,
         ''envelope_lifetime_invalid'')]"

definition validate_chronology ::
    "run_envelope \<Rightarrow> candidate_decision \<Rightarrow> governance_decision \<Rightarrow> reviewer_independence \<Rightarrow>
     github_action_digest \<Rightarrow> instant \<Rightarrow> string" where
  "validate_chronology e c g r a now =
     (case (parse_rfc3339 (re_created_at e), parse_rfc3339 (re_expires_at e), parse_rfc3339 (cd_decided_at c),
            parse_rfc3339 (gd_decided_at g), parse_rfc3339 (ri_reviewed_at r), parse_rfc3339 (ad_approved_at a),
            parse_rfc3339 (ad_expires_at a)) of
        (Some created, Some envelope_expires, Some candidate_at, Some governance_at, Some reviewer_at,
         Some approved, Some action_expires) \<Rightarrow>
          chronology_reason (bu_wall_clock_seconds (re_budgets e)) created envelope_expires candidate_at
            governance_at reviewer_at approved action_expires now
      | _ \<Rightarrow> ''invalid_authority_timestamp'')"

definition automated_reviewer :: "string \<Rightarrow> bool" where
  "automated_reviewer reviewer_id =
     (let normalized = to_lower reviewer_id in
      contains normalized ''automated'' \<or> contains normalized ''[bot]'' \<or>
      prefix ''ao-'' normalized \<or> prefix ''codex'' normalized)"

text \<open>A merge decision that grants something.\<close>

definition grants_merge :: "merge_decision \<Rightarrow> bool" where
  "grants_merge m \<longleftrightarrow>
     md_authorized m \<or> md_mode m \<noteq> ''never'' \<or> md_approval_kind m \<noteq> ''none'' \<or>
     md_approval_head_sha m \<noteq> None \<or> md_auto_merge_opt_in m"

definition team_queue_unapproved :: "merge_decision \<Rightarrow> reviewer_independence \<Rightarrow> github_action_digest \<Rightarrow> bool" where
  "team_queue_unapproved m r a \<longleftrightarrow>
     \<not> md_authorized m \<or> md_mode m \<noteq> ''merge_queue'' \<or>
     (md_approval_kind m \<noteq> ''independent_human'' \<and> md_approval_kind m \<noteq> ''codeowner'') \<or>
     (case md_approval_head_sha m of None \<Rightarrow> True | Some h \<Rightarrow> h \<noteq> ad_head_sha a) \<or>
     ri_status r \<noteq> ''independent'' \<or> \<not> ri_satisfies_team_merge_gate r \<or>
     automated_reviewer (ri_reviewer_id r)"

definition validate_action_class ::
    "repository_policy \<Rightarrow> governance_decision \<Rightarrow> reviewer_independence \<Rightarrow> github_action_digest \<Rightarrow> string" where
  "validate_action_class rp g r a =
     (let m = gd_merge g; action = ad_action a in
      first_reason
        [(action = ''request_merge_queue'' \<and> (\<not> md_authorized m \<or> md_mode m \<noteq> ''merge_queue''),
          ''merge_queue_authorization_required''),
         (action \<noteq> ''request_merge_queue'' \<and> action \<noteq> ''auto_merge'' \<and> grants_merge m,
          ''contradictory_merge_authority''),
         (rpo_repository_class rp = ''external'' \<and>
          action \<noteq> ''push_operator_fork'' \<and> action \<noteq> ''open_upstream_draft_pr'', ''external_draft_only''),
         (rpo_repository_class rp = ''external'' \<and> grants_merge m, ''external_draft_only''),
         (rpo_repository_class rp = ''team'' \<and> action = ''auto_merge'', ''team_auto_merge_denied''),
         (rpo_repository_class rp = ''team'' \<and> action = ''request_merge_queue'' \<and> team_queue_unapproved m r a,
          ''independent_human_approval_required''),
         (rpo_repository_class rp = ''sole_control'' \<and> action = ''auto_merge'' \<and>
          (\<not> rpo_sole_auto_merge_opt_in rp \<or> \<not> md_authorized m \<or> md_mode m \<noteq> ''auto_merge'' \<or>
           \<not> md_auto_merge_opt_in m), ''sole_control_auto_merge_not_opted_in'')])"

subsection \<open>The whole check\<close>

text \<open>The loop over the five documents and their digests.\<close>

fun digests_match :: "(string \<Rightarrow> string) \<Rightarrow> (json \<times> string \<times> string) list \<Rightarrow> bool" where
  "digests_match sha [] = True"
| "digests_match sha ((doc, excluded, got) # ds) =
     (case canonical_digest sha doc excluded of
        Inl _ \<Rightarrow> False
      | Inr want \<Rightarrow> if want \<noteq> got then False else digests_match sha ds)"

definition digested_documents ::
    "run_envelope \<Rightarrow> candidate_decision \<Rightarrow> governance_decision \<Rightarrow> reviewer_independence \<Rightarrow>
     github_action_digest \<Rightarrow> (json \<times> string \<times> string) list" where
  "digested_documents e c g r a =
     [(run_envelope_json e, ''canonical_digest'', re_canonical_digest e),
      (candidate_decision_json c, ''decision_digest'', cd_decision_digest c),
      (governance_decision_json g, ''decision_digest'', gd_decision_digest g),
      (reviewer_independence_json r, ''review_digest'', ri_review_digest r),
      (github_action_digest_json a, ''action_digest'', ad_action_digest a)]"

definition issue_url :: "string \<Rightarrow> int \<Rightarrow> string" where
  "issue_url repository number = ''https://github.com/'' @ repository @ ''/issues/'' @ int_text number"

text \<open>The loop that looks for a risky class among the changed paths.\<close>

fun protected_path :: "string list \<Rightarrow> string list \<Rightarrow> bool" where
  "protected_path risky [] = False"
| "protected_path risky (p # ps) = (if slices_contains risky p then True else protected_path risky ps)"

definition identity_reasons ::
    "governance_request \<Rightarrow> run_envelope \<Rightarrow> candidate_decision \<Rightarrow> governance_decision \<Rightarrow>
     reviewer_independence \<Rightarrow> github_action_digest \<Rightarrow> (bool \<times> string) list" where
  "identity_reasons rq e c g r a =
     [(gr_approved_action_digest rq \<noteq> ad_action_digest a, ''approved_action_digest_mismatch''),
      (re_run_id e \<noteq> ad_run_id a \<or> cd_run_id c \<noteq> ad_run_id a \<or> gd_run_id g \<noteq> ad_run_id a \<or>
       ri_run_id r \<noteq> ad_run_id a, ''authority_run_mismatch''),
      (gr_repository rq \<noteq> ad_repository a \<or> tr_repository (re_trigger e) \<noteq> ad_repository a \<or>
       cd_repository c \<noteq> ad_repository a \<or> gd_repository g \<noteq> ad_repository a, ''authority_repository_mismatch''),
      (gr_issue_number rq = None \<or> gr_issue_number rq \<noteq> Some (ad_issue_number a) \<or>
       cd_issue_number c \<noteq> ad_issue_number a, ''authority_issue_mismatch''),
      (tr_mode (re_trigger e) \<noteq> ''explicit_issue'' \<or>
       tr_canonical_url (re_trigger e) \<noteq> issue_url (ad_repository a) (ad_issue_number a),
       ''authority_issue_url_mismatch''),
      (gr_action rq \<noteq> ad_action a, ''authority_action_mismatch''),
      (gr_current_base_sha rq \<noteq> ad_base_sha a \<or> tr_pinned_base_commit (re_trigger e) \<noteq> ad_base_sha a \<or>
       ro_pinned_base_commit (re_routing e) \<noteq> ad_base_sha a \<or> cd_base_sha c \<noteq> ad_base_sha a \<or>
       gd_base_sha g \<noteq> ad_base_sha a, ''authority_base_mismatch''),
      (gd_head_sha g \<noteq> ad_head_sha a, ''authority_head_mismatch''),
      (ad_run_envelope_digest a \<noteq> re_canonical_digest e \<or>
       ad_candidate_decision_digest a \<noteq> cd_decision_digest c \<or>
       ad_governance_decision_digest a \<noteq> gd_decision_digest g \<or>
       ad_reviewer_independence_digest a \<noteq> ri_review_digest r, ''authority_digest_link_mismatch'')]"

definition policy_reasons ::
    "governance_policy \<Rightarrow> repository_policy \<Rightarrow> bool \<Rightarrow> governance_request \<Rightarrow> run_envelope \<Rightarrow>
     candidate_decision \<Rightarrow> governance_decision \<Rightarrow> github_action_digest \<Rightarrow> (bool \<times> string) list" where
  "policy_reasons p rp explicit rq e c g a =
     (let derived = protected_path (gp_risky_path_classes p) (gr_changed_path_classes rq);
          source = (if explicit then ''repository_policy'' else ''unknown_default'')
      in
     [(cd_decision c \<noteq> ''selected'' \<or> \<not> candidate_eligible (cd_eligibility c),
       if ce_security_sensitive (cd_eligibility c) then ''security_sensitive'' else ''candidate_not_eligible''),
      (gd_protected_path_touched g \<noteq> derived, ''protected_path_classification_mismatch''),
      (derived, ''protected_path''),
      (eg_ownership_class (re_governance e) \<noteq> rpo_repository_class rp \<or>
       gd_governance_class g \<noteq> rpo_repository_class rp \<or>
       eg_sole_control_auto_merge_opt_in (re_governance e) \<noteq> rpo_sole_auto_merge_opt_in rp \<or>
       gd_push_target g \<noteq> rpo_push_target rp \<or> gd_pull_request_mode g \<noteq> rpo_pull_request_mode rp \<or>
       \<not> same_unique_strings (ro_required_checks (re_routing e)) (rpo_required_checks rp) \<or>
       \<not> same_unique_strings (ro_protected_path_classes (re_routing e)) (gp_risky_path_classes p) \<or>
       \<not> slices_contains (eg_allowed_actions (re_governance e)) (ad_action a) \<or>
       \<not> every_string_in (eg_allowed_actions (re_governance e)) (rpo_allowed_actions rp) \<or>
       \<not> slices_contains (rpo_allowed_actions rp) (ad_action a), ''repository_policy_mismatch''),
      (\<not> same_unique_strings (gd_classification_sources g) [source], ''classification_provenance_mismatch''),
      (rpo_repository_class rp = ''external'' \<and>
       (\<not> slices_contains (eg_denied_actions (re_governance e)) ''open_ready_pr'' \<or>
        \<not> slices_contains (eg_denied_actions (re_governance e)) ''approve_review'' \<or>
        \<not> slices_contains (eg_denied_actions (re_governance e)) ''merge'' \<or>
        \<not> slices_contains (eg_denied_actions (re_governance e)) ''mutate_issue''),
       ''external_permanent_denials_missing''),
      (md_branch_protection_bypassed (gd_merge g), ''branch_protection_bypass'')])"

definition document_reasons ::
    "governance_policy \<Rightarrow> repository_policy \<Rightarrow> bool \<Rightarrow> governance_request \<Rightarrow> run_envelope \<Rightarrow>
     candidate_decision \<Rightarrow> governance_decision \<Rightarrow> reviewer_independence \<Rightarrow> github_action_digest \<Rightarrow>
     instant \<Rightarrow> (bool \<times> string) list" where
  "document_reasons p rp explicit rq e c g r a now =
     identity_reasons rq e c g r a @
     policy_reasons p rp explicit rq e c g a @
     [(validate_routing rp e g a \<noteq> [], validate_routing rp e g a),
      (validate_checks (rpo_required_checks rp) g a \<noteq> [], validate_checks (rpo_required_checks rp) g a),
      (ri_subject_digest r \<noteq> ad_diff_digest a \<or> \<not> ri_deterministic_tests_primary r, ''reviewer_binding_mismatch''),
      (validate_chronology e c g r a now \<noteq> [], validate_chronology e c g r a now),
      (validate_action_class rp g r a \<noteq> [], validate_action_class rp g r a)]"

definition validate_repair_authority ::
    "(string \<Rightarrow> string) \<Rightarrow> governance_policy \<Rightarrow> repository_policy \<Rightarrow> bool \<Rightarrow> governance_request \<Rightarrow>
     instant \<Rightarrow> string" where
  "validate_repair_authority sha p rp explicit rq now =
     (case (gr_run_envelope rq, gr_candidate_decision rq, gr_governance_decision rq,
            gr_reviewer_independence rq, gr_github_action_digest rq) of
        (Some e, Some c, Some g, Some r, Some a) \<Rightarrow>
          first_reason
            ([(\<not> valid_document_shapes e c g r a, ''malformed_canonical_authority''),
              (\<not> digests_match sha (digested_documents e c g r a), ''canonical_digest_mismatch'')] @
             document_reasons p rp explicit rq e c g r a now)
      | _ \<Rightarrow> ''missing_canonical_authority'')"

end
