(* ===== verification/Repair_Governance.thy ===== *)
theory Repair_Governance
  imports Repair_Authority
begin

text \<open>
  The decision point for autonomous repairs (\<open>EvaluateAutonomousRepairGovernance\<close> in
  \<open>policy/autonomous_repair_governance.go\<close>), the validity of its policy, the shape of its
  requests, and the validity of the GitHub execution policy
  (\<open>policy/autonomous_repair_github_execution.go\<close>). \<open>sha\<close> is the hexadecimal SHA-256, and
  \<open>schema_ok\<close> the verdict of the JSON-schema validator on a request.
\<close>

subsection \<open>The policy\<close>

definition governance_policy_version :: string where
  "governance_policy_version = ''covenant.autonomous-repair-governance-policy.v1''"

definition governance_request_version :: string where
  "governance_request_version = ''covenant.autonomous-repair-governance-request.v1''"

definition risky_path_classes :: "string list" where
  "risky_path_classes = [''dependency'', ''workflow'', ''credential'', ''permission'', ''policy'',
     ''schema'', ''migration'', ''release'', ''security_boundary'', ''generated_artifact'']"

definition required_schemas :: "string list" where
  "required_schemas =
     [''ao.architecture.autonomous-issue-repair.run-envelope.v1'',
      ''ao.architecture.autonomous-issue-repair.discovery-result.v1'',
      ''ao.architecture.autonomous-issue-repair.candidate-decision.v1'',
      ''ao.architecture.autonomous-issue-repair.event.v1'',
      ''ao.architecture.autonomous-issue-repair.checkpoint.v1'',
      ''ao.architecture.autonomous-issue-repair.governance-decision.v1'',
      ''ao.architecture.autonomous-issue-repair.reviewer-independence.v1'',
      ''ao.architecture.autonomous-issue-repair.github-action-digest.v1'']"

definition permanent_denials :: "string list" where
  "permanent_denials = [''open_ready_pr_external'', ''request_merge_queue_external'',
     ''auto_merge_external'', ''approve_review'', ''mutate_issue'']"

definition valid_repository_policy :: "repository_policy \<Rightarrow> bool \<Rightarrow> bool" where
  "valid_repository_policy rp allow_sole =
     (if \<not> slices_contains [''sole_control'', ''team'', ''external''] (rpo_repository_class rp) \<or>
         \<not> slices_contains [''policy_authorized_branch'', ''operator_owned_fork''] (rpo_push_target rp) \<or>
         \<not> slices_contains [''draft_or_ready_by_policy'', ''upstream_draft_only''] (rpo_pull_request_mode rp) \<or>
         rpo_required_checks rp = [] \<or> \<not> unique_nonempty_strings (rpo_required_checks rp) \<or>
         rpo_allowed_actions rp = [] \<or> \<not> unique_nonempty_strings (rpo_allowed_actions rp) then False
      else if \<not> every_string_in (rpo_allowed_actions rp) write_actions then False
      else if rpo_repository_class rp = ''external'' then
        \<not> rpo_sole_auto_merge_opt_in rp \<and> rpo_push_target rp = ''operator_owned_fork'' \<and>
        rpo_pull_request_mode rp = ''upstream_draft_only'' \<and>
        every_string_in (rpo_allowed_actions rp) [''push_operator_fork'', ''open_upstream_draft_pr'']
      else if rpo_repository_class rp = ''team'' then
        \<not> rpo_sole_auto_merge_opt_in rp \<and> \<not> slices_contains (rpo_allowed_actions rp) ''auto_merge''
      else if rpo_repository_class rp = ''sole_control'' then allow_sole
      else False)"

text \<open>The loop over the configured repositories.\<close>

fun valid_repository_entries :: "(string \<times> repository_policy) list \<Rightarrow> bool" where
  "valid_repository_entries [] = True"
| "valid_repository_entries ((repository, rp) # es) =
     (if \<not> valid_repository_name repository \<or> \<not> valid_repository_policy rp True then False
      else if prefix ''uesugitorachiyo/ao'' repository \<and> rpo_sole_auto_merge_opt_in rp then False
      else valid_repository_entries es)"

definition valid_governance_policy :: "governance_policy \<Rightarrow> bool" where
  "valid_governance_policy p =
     (if gp_schema_version p \<noteq> governance_policy_version \<or>
         gp_policy_id p \<noteq> ''autonomous-repair-governance-v1'' \<or>
         cs_repository (gp_architecture_contract p) \<noteq> ''uesugitorachiyo/ao-architecture'' \<or>
         cs_commit (gp_architecture_contract p) \<noteq> ''b8c64860003238ab45fe7c76d7e8950f80a4043b'' \<or>
         \<not> same_unique_strings (cs_schema_ids (gp_architecture_contract p)) required_schemas \<or>
         pd_discovery_mutation_authorized (gp_defaults p) \<or> pd_issue_text_can_authorize (gp_defaults p) \<or>
         pd_repository_text_can_authorize (gp_defaults p) \<or> pd_branch_protection_bypass (gp_defaults p) \<or>
         \<not> same_unique_strings (gp_risky_path_classes p) risky_path_classes \<or>
         \<not> same_unique_strings (gp_permanently_denied_actions p) permanent_denials \<or>
         \<not> valid_repository_policy (pd_unknown_repository_policy (gp_defaults p)) False \<or>
         rpo_repository_class (pd_unknown_repository_policy (gp_defaults p)) \<noteq> ''external'' then False
      else if gp_repository_policies p = [] then False
      else valid_repository_entries (gp_repository_policies p))"

definition repository_policy_of :: "governance_policy \<Rightarrow> string \<Rightarrow> repository_policy \<times> bool" where
  "repository_policy_of p repository =
     (case map_of (gp_repository_policies p) repository of
        Some rp \<Rightarrow> (rp, True)
      | None \<Rightarrow> (pd_unknown_repository_policy (gp_defaults p), False))"

subsection \<open>Requests\<close>

definition carries_write_evidence :: "governance_request \<Rightarrow> bool" where
  "carries_write_evidence rq \<longleftrightarrow>
     gr_ownership_class_assertion rq \<noteq> None \<or> gr_issue_number rq \<noteq> None \<or> gr_action rq \<noteq> [] \<or>
     gr_current_base_sha rq \<noteq> [] \<or> gr_changed_path_classes rq \<noteq> [] \<or> gr_approved_action_digest rq \<noteq> [] \<or>
     gr_run_envelope rq \<noteq> None \<or> gr_candidate_decision rq \<noteq> None \<or> gr_governance_decision rq \<noteq> None \<or>
     gr_reviewer_independence rq \<noteq> None \<or> gr_github_action_digest rq \<noteq> None"

definition misses_write_evidence :: "governance_request \<Rightarrow> bool" where
  "misses_write_evidence rq \<longleftrightarrow>
     gr_mode rq \<noteq> ''write'' \<or> (case gr_issue_number rq of None \<Rightarrow> True | Some n \<Rightarrow> n < 1) \<or>
     gr_current_base_sha rq = [] \<or> gr_approved_action_digest rq = [] \<or> gr_run_envelope rq = None \<or>
     gr_candidate_decision rq = None \<or> gr_governance_decision rq = None \<or>
     gr_reviewer_independence rq = None \<or> gr_github_action_digest rq = None"

definition validate_request_shape :: "governance_request \<Rightarrow> string" where
  "validate_request_shape rq =
     (if gr_schema_version rq \<noteq> governance_request_version \<or> gr_request_id rq = [] \<or> gr_repository rq = []
      then ''invalid autonomous repair governance request identity''
      else if gr_mode rq = ''discovery'' then
        (if carries_write_evidence rq then ''discovery request contains write authority evidence'' else [])
      else if misses_write_evidence rq then ''write request is missing canonical authority evidence''
      else if \<not> slices_contains write_actions (gr_action rq)
        then ''write request action is not an Architecture v1 action''
      else [])"

subsection \<open>The decision\<close>

definition deny :: "string \<Rightarrow> string \<Rightarrow> authority_decision" where
  "deny cls reason = \<lparr>au_authorized = False, au_mutation_authorized = False,
     au_repository_class = cls, au_reason_code = reason\<rparr>"

definition allow :: "string \<Rightarrow> string \<Rightarrow> bool \<Rightarrow> authority_decision" where
  "allow cls reason mutation = \<lparr>au_authorized = True, au_mutation_authorized = mutation,
     au_repository_class = cls, au_reason_code = reason\<rparr>"

definition decide_by_class :: "repository_policy \<Rightarrow> bool \<Rightarrow> string \<Rightarrow> authority_decision" where
  "decide_by_class rp explicit action =
     (let cls = rpo_repository_class rp in
      if cls = ''external'' then
        (if action \<noteq> ''push_operator_fork'' \<and> action \<noteq> ''open_upstream_draft_pr''
         then deny cls ''external_draft_only'' else allow cls ''external_draft_only'' True)
      else if cls = ''sole_control'' then
        (if action = ''auto_merge'' then
           (if \<not> explicit \<or> \<not> rpo_sole_auto_merge_opt_in rp
            then deny cls ''sole_control_auto_merge_not_opted_in'' else allow cls ''sole_control_auto_merge'' True)
         else allow cls ''sole_control_bounded_action'' True)
      else if cls = ''team'' then
        (if action = ''auto_merge'' then deny cls ''team_auto_merge_denied''
         else if action = ''request_merge_queue'' then allow cls ''team_merge_queue'' True
         else allow cls ''team_bounded_action'' True)
      else deny cls ''invalid_repository_class'')"

definition evaluate_repair_governance ::
    "(string \<Rightarrow> string) \<Rightarrow> (governance_request \<Rightarrow> bool) \<Rightarrow> governance_policy \<Rightarrow> governance_request \<Rightarrow>
     instant \<Rightarrow> authority_decision" where
  "evaluate_repair_governance sha schema_ok p rq now =
     (let (rp, explicit) = repository_policy_of p (gr_repository rq);
          cls = rpo_repository_class rp;
          authority = validate_repair_authority sha p rp explicit rq now in
      if \<not> valid_governance_policy p then deny cls ''invalid_policy''
      else if validate_request_shape rq \<noteq> [] then deny cls ''invalid_request''
      else if \<not> schema_ok rq then deny cls ''malformed_canonical_authority''
      else if (case gr_ownership_class_assertion rq of None \<Rightarrow> False | Some c \<Rightarrow> c \<noteq> cls)
        then deny cls ''ownership_assertion_mismatch''
      else if gr_mode rq = ''discovery'' then allow cls ''read_only_discovery'' False
      else if authority \<noteq> [] then deny cls authority
      else if \<not> slices_contains (rpo_allowed_actions rp) (gr_action rq)
        then deny cls ''action_not_allowed_by_repository_policy''
      else if slices_contains (gp_permanently_denied_actions p) (gr_action rq)
        then deny cls ''permanently_denied_action''
      else decide_by_class rp explicit (gr_action rq))"

subsection \<open>The GitHub execution policy\<close>

definition github_execution_policy_version :: string where
  "github_execution_policy_version = ''covenant.autonomous-repair-github-execution-policy.v1''"

definition valid_github_execution_policy :: "github_execution_policy \<Rightarrow> bool" where
  "valid_github_execution_policy p \<longleftrightarrow>
     ge_schema_version p = github_execution_policy_version \<and>
     ge_policy_id p = ''autonomous-repair-github-execution-v1'' \<and>
     (let w = ge_architecture_workflow_contract p in
      wc_repository w = ''uesugitorachiyo/ao-architecture'' \<and>
      wc_commit w = ''8e6f247b800b60c520b4e967f7553974a20ec2f8'' \<and>
      wc_path w = ''stack/github-issue-workflow-contracts.json'' \<and>
      wc_schema w = ''ao.architecture.github-issue-workflow-contracts.v0.1'' \<and>
      wc_source_sha256 w = ''60bd07fa4e02d38f0321aa138bb53ca3f89e44499621a7e0369065bca88889ae'' \<and>
      wc_semantics_sha256 w = ''2c6835289c508cd2954df545f93a1262c0616de87917bb1f749488376087b9b4'') \<and>
     (let f = ge_push_operator_fork p in
      pf_fork_lookup f = ''required_before_write'' \<and> pf_fork_absent f = ''create_then_exact_readback'' \<and>
      pf_fork_present f = ''reuse_only_exact_owner_parent_and_default_branch'' \<and>
      pf_branch_absent f = ''create_at_exact_approved_head'' \<and>
      pf_branch_present f = ''reuse_only_at_exact_approved_head'' \<and>
      \<not> pf_force_update_allowed f \<and> \<not> pf_upstream_push_allowed f) \<and>
     (let d = ge_open_upstream_draft_pr p in
      dp_lookup d = ''exact_base_head_open_pull_requests'' \<and> dp_absent d = ''create_once_then_exact_readback'' \<and>
      dp_present d = ''reuse_only_exact_draft_identity'' \<and> \<not> dp_update_allowed d \<and>
      \<not> dp_ready_for_review_allowed d \<and> \<not> dp_review_allowed d \<and> \<not> dp_merge_allowed d) \<and>
     (let b = ge_write_budget p in
      wb_fork_creates b = 1 \<and> wb_branch_creates b = 1 \<and> wb_draft_pr_creates b = 1) \<and>
     gc_ambient_only (ge_credentials p) \<and> \<not> gc_serialized (ge_credentials p) \<and>
     (let s = ge_safety p in
      \<not> es_issue_list_grants_mutation_authority s \<and> \<not> es_successor_may_widen_authority s \<and>
      es_unknown_governance_defaults_to_external_draft_only s \<and> \<not> es_external_merge_authorized s)"

end
