(* ===== verification/Repair_Correct.thy ===== *)
theory Repair_Correct
  imports Repair_Governance
begin

text \<open>
  What an authorization of an autonomous repair means. The specification of a valid authority is
  stated over sets, options and instants; the first lemmas show that the code's sequence of
  checks accepts exactly that. The later ones draw the consequences for the three classes of
  repositories, for the reasons the code can give, and for the digests.
\<close>

subsection \<open>Specification\<close>

definition bound :: "governance_request \<Rightarrow> run_envelope \<Rightarrow> candidate_decision \<Rightarrow> governance_decision \<Rightarrow>
    reviewer_independence \<Rightarrow> github_action_digest \<Rightarrow> bool" where
  "bound rq e c g r a \<longleftrightarrow>
     gr_approved_action_digest rq = ad_action_digest a \<and>
     {re_run_id e, cd_run_id c, gd_run_id g, ri_run_id r} = {ad_run_id a} \<and>
     {gr_repository rq, tr_repository (re_trigger e), cd_repository c, gd_repository g} = {ad_repository a} \<and>
     gr_issue_number rq = Some (ad_issue_number a) \<and> cd_issue_number c = ad_issue_number a \<and>
     tr_mode (re_trigger e) = ''explicit_issue'' \<and>
     tr_canonical_url (re_trigger e) = issue_url (ad_repository a) (ad_issue_number a) \<and>
     gr_action rq = ad_action a \<and>
     {gr_current_base_sha rq, tr_pinned_base_commit (re_trigger e), ro_pinned_base_commit (re_routing e),
      cd_base_sha c, gd_base_sha g} = {ad_base_sha a} \<and>
     gd_head_sha g = ad_head_sha a \<and>
     ad_run_envelope_digest a = re_canonical_digest e \<and>
     ad_candidate_decision_digest a = cd_decision_digest c \<and>
     ad_governance_decision_digest a = gd_decision_digest g \<and>
     ad_reviewer_independence_digest a = ri_review_digest r"

definition within_policy :: "governance_policy \<Rightarrow> repository_policy \<Rightarrow> bool \<Rightarrow> governance_request \<Rightarrow>
    run_envelope \<Rightarrow> candidate_decision \<Rightarrow> governance_decision \<Rightarrow> github_action_digest \<Rightarrow> bool" where
  "within_policy p rp explicit rq e c g a \<longleftrightarrow>
     cd_decision c = ''selected'' \<and> candidate_eligible (cd_eligibility c) \<and>
     set (gr_changed_path_classes rq) \<inter> set (gp_risky_path_classes p) = {} \<and> \<not> gd_protected_path_touched g \<and>
     eg_ownership_class (re_governance e) = rpo_repository_class rp \<and>
     gd_governance_class g = rpo_repository_class rp \<and>
     eg_sole_control_auto_merge_opt_in (re_governance e) = rpo_sole_auto_merge_opt_in rp \<and>
     gd_push_target g = rpo_push_target rp \<and> gd_pull_request_mode g = rpo_pull_request_mode rp \<and>
     same_unique_strings (ro_required_checks (re_routing e)) (rpo_required_checks rp) \<and>
     same_unique_strings (ro_protected_path_classes (re_routing e)) (gp_risky_path_classes p) \<and>
     ad_action a \<in> set (eg_allowed_actions (re_governance e)) \<and>
     set (eg_allowed_actions (re_governance e)) \<subseteq> set (rpo_allowed_actions rp) \<and>
     gd_classification_sources g = [if explicit then ''repository_policy'' else ''unknown_default''] \<and>
     (rpo_repository_class rp = ''external'' \<longrightarrow>
        {''open_ready_pr'', ''approve_review'', ''merge'', ''mutate_issue''} \<subseteq> set (eg_denied_actions (re_governance e))) \<and>
     \<not> md_branch_protection_bypassed (gd_merge g)"

definition forked :: "string option \<Rightarrow> string option \<Rightarrow> string \<Rightarrow> bool" where
  "forked fork_owner fork repository \<longleftrightarrow>
     (\<exists>owner upstream name. fork_owner = Some owner \<and> repository = upstream @ ''/'' @ name \<and>
        CHR ''/'' \<notin> set upstream \<and> fork = Some (owner @ ''/'' @ name))"

definition routed :: "repository_policy \<Rightarrow> run_envelope \<Rightarrow> governance_decision \<Rightarrow> github_action_digest \<Rightarrow> bool" where
  "routed rp e g a \<longleftrightarrow>
     tr_default_branch (re_trigger e) = ro_default_branch (re_routing e) \<and>
     tr_pinned_base_commit (re_trigger e) = ro_pinned_base_commit (re_routing e) \<and>
     ad_branch a = ro_repair_branch (re_routing e) \<and>
     (if gd_push_target g = ''operator_owned_fork''
      then forked (ro_fork_owner (re_routing e)) (ad_fork a) (ad_repository a)
      else ro_fork_owner (re_routing e) = None \<and> ad_fork a = None) \<and>
     (rpo_repository_class rp = ''external'' \<longrightarrow>
        gd_push_target g = ''operator_owned_fork'' \<and> gd_pull_request_mode g = ''upstream_draft_only'')"

definition green :: "string \<Rightarrow> string list \<Rightarrow> required_check list \<Rightarrow> bool" where
  "green head expected ks \<longleftrightarrow>
     same_unique_strings (map ck_name ks) expected \<and>
     (\<forall>k \<in> set ks. ck_conclusion k = ''success'' \<and> ck_head_sha k = head)"

definition live :: "run_envelope \<Rightarrow> candidate_decision \<Rightarrow> governance_decision \<Rightarrow> reviewer_independence \<Rightarrow>
    github_action_digest \<Rightarrow> instant \<Rightarrow> bool" where
  "live e c g r a now \<longleftrightarrow>
     (\<exists>created envelope_expires candidate_at governance_at reviewer_at approved action_expires.
        parse_rfc3339 (re_created_at e) = Some created \<and>
        parse_rfc3339 (re_expires_at e) = Some envelope_expires \<and>
        parse_rfc3339 (cd_decided_at c) = Some candidate_at \<and>
        parse_rfc3339 (gd_decided_at g) = Some governance_at \<and>
        parse_rfc3339 (ri_reviewed_at r) = Some reviewer_at \<and>
        parse_rfc3339 (ad_approved_at a) = Some approved \<and>
        parse_rfc3339 (ad_expires_at a) = Some action_expires \<and>
        created \<le> candidate_at \<and> candidate_at \<le> approved \<and> created \<le> governance_at \<and> governance_at \<le> approved \<and>
        created \<le> reviewer_at \<and> reviewer_at \<le> approved \<and>
        approved \<le> now \<and> now < action_expires \<and> action_expires \<le> envelope_expires \<and>
        nanos action_expires - nanos approved \<le> hours24 \<and>
        1 \<le> bu_wall_clock_seconds (re_budgets e) \<and>
        duration_between envelope_expires created \<le> seconds_duration (bu_wall_clock_seconds (re_budgets e)))"

definition merge_permitted :: "repository_policy \<Rightarrow> governance_decision \<Rightarrow> reviewer_independence \<Rightarrow>
    github_action_digest \<Rightarrow> bool" where
  "merge_permitted rp g r a \<longleftrightarrow>
     (if ad_action a = ''request_merge_queue'' then
        md_authorized (gd_merge g) \<and> md_mode (gd_merge g) = ''merge_queue'' \<and>
        (rpo_repository_class rp = ''team'' \<longrightarrow> \<not> team_queue_unapproved (gd_merge g) r a)
      else if ad_action a = ''auto_merge'' then
        rpo_repository_class rp \<noteq> ''team'' \<and>
        (rpo_repository_class rp = ''sole_control'' \<longrightarrow>
           rpo_sole_auto_merge_opt_in rp \<and> md_authorized (gd_merge g) \<and> md_mode (gd_merge g) = ''auto_merge'' \<and>
           md_auto_merge_opt_in (gd_merge g))
      else \<not> grants_merge (gd_merge g)) \<and>
     (rpo_repository_class rp = ''external'' \<longrightarrow>
        ad_action a \<in> {''push_operator_fork'', ''open_upstream_draft_pr''} \<and> \<not> grants_merge (gd_merge g))"

subsection \<open>The checks decide the specification\<close>

lemma fork_reason_Nil: "fork_reason fork_owner fork repository = [] \<longleftrightarrow> forked fork_owner fork repository"
proof (cases "cut_at (CHR ''/'') repository")
  case None
  then have "repository \<noteq> u @ ''/'' @ n" if "CHR ''/'' \<notin> set u" for u n
    using that cut_at_Some [of "CHR ''/''" repository u n] by auto
  with None show ?thesis
    by (auto simp: fork_reason_def forked_def repository_after_slash_def index_panic_def split: option.splits)
next
  case (Some un)
  obtain u n where un: "un = (u, n)" by (cases un)
  with Some have r: "repository = u @ CHR ''/'' # n" "CHR ''/'' \<notin> set u" by (simp_all add: cut_at_Some)
  have "u' = u \<and> n' = n" if "repository = u' @ ''/'' @ n'" "CHR ''/'' \<notin> set u'" for u' n'
    using that Some un cut_at_Some [of "CHR ''/''" repository u' n'] by simp
  then have "forked fork_owner fork repository \<longleftrightarrow> (\<exists>w. fork_owner = Some w \<and> fork = Some (w @ ''/'' @ n))"
    unfolding forked_def using r by (metis append_Cons append_Nil)
  then show ?thesis
    using Some un by (cases fork_owner; cases fork) (simp_all add: fork_reason_def repository_after_slash_def)
qed

lemma validate_routing_Nil: "validate_routing rp e g a = [] \<longleftrightarrow> routed rp e g a"
  unfolding validate_routing_def Let_def routed_def
  by (subst first_reason_Nil_iff; cases "gd_push_target g = ''operator_owned_fork''";
      cases "rpo_repository_class rp = ''external''") (auto simp: fork_reason_Nil)

lemma green_check_names_Some:
  "green_check_names head names ks = Some ns \<longleftrightarrow>
     ns = names @ map ck_name ks \<and> (\<forall>k \<in> set ks. ck_conclusion k = ''success'' \<and> ck_head_sha k = head)"
  by (induction ks arbitrary: names) auto

lemma green_check_names_None:
  "green_check_names head names ks = None \<longleftrightarrow>
     \<not> (\<forall>k \<in> set ks. ck_conclusion k = ''success'' \<and> ck_head_sha k = head)"
  by (induction ks arbitrary: names) auto

lemma validate_checks_Nil: "validate_checks expected g a = [] \<longleftrightarrow>
    expected \<noteq> [] \<and> green (ad_head_sha a) expected (gd_required_checks g) \<and>
    green (ad_head_sha a) expected (ad_required_checks a)"
  by (auto simp: validate_checks_def green_def green_check_names_Some green_check_names_None same_unique_iff
      split: option.splits)

lemma chronology_reason_Nil:
  "chronology_reason w cr ee ca ga ra ap ae now = [] \<longleftrightarrow>
     cr \<le> ca \<and> ca \<le> ap \<and> cr \<le> ga \<and> ga \<le> ap \<and> cr \<le> ra \<and> ra \<le> ap \<and> ap \<le> now \<and> now < ae \<and> ae \<le> ee \<and>
     nanos ae - nanos ap \<le> hours24 \<and> 1 \<le> w \<and> duration_between ee cr \<le> seconds_duration w"
proof -
  have "hours24 < duration_between ae ap \<longleftrightarrow> hours24 < nanos ae - nanos ap"
    by (rule duration_between_gt) (simp_all add: hours24_def)
  then show ?thesis
    unfolding chronology_reason_def by (subst first_reason_Nil_iff) (auto simp: not_less not_le)
qed

lemma validate_chronology_Nil: "validate_chronology e c g r a now = [] \<longleftrightarrow> live e c g r a now"
  unfolding validate_chronology_def live_def
  by (auto simp: chronology_reason_Nil split: option.splits)

lemma validate_action_class_Nil:
  "validate_action_class rp g r a = [] \<longleftrightarrow> merge_permitted rp g r a"
  unfolding validate_action_class_def Let_def merge_permitted_def
  by (subst first_reason_Nil_iff) auto

lemma protected_path_iff: "protected_path risky ps \<longleftrightarrow> set ps \<inter> set risky \<noteq> {}"
  by (induction ps) auto

text \<open>No check fails: the list of reasons is silent.\<close>

abbreviation silent :: "(bool \<times> string) list \<Rightarrow> bool" where
  "silent rs \<equiv> list_all (\<lambda>(b, r). \<not> b) rs"

lemma identity_silent: "silent (identity_reasons rq e c g r a) \<longleftrightarrow> bound rq e c g r a"
  unfolding identity_reasons_def bound_def by (simp add: insert_eq_iff) blast

lemma same_unique_singleton: "same_unique_strings vs [x] \<longleftrightarrow> vs = [x] \<and> x \<noteq> []"
  by (cases vs) (auto simp: same_unique_iff)

lemma policy_silent:
  "silent (policy_reasons p rp explicit rq e c g a) \<longleftrightarrow> within_policy p rp explicit rq e c g a"
  unfolding policy_reasons_def within_policy_def Let_def
  by (simp add: protected_path_iff same_unique_singleton) blast

definition authority_holds :: "(string \<Rightarrow> string) \<Rightarrow> governance_policy \<Rightarrow> repository_policy \<Rightarrow> bool \<Rightarrow>
    governance_request \<Rightarrow> run_envelope \<Rightarrow> candidate_decision \<Rightarrow> governance_decision \<Rightarrow>
    reviewer_independence \<Rightarrow> github_action_digest \<Rightarrow> instant \<Rightarrow> bool" where
  "authority_holds sha p rp explicit rq e c g r a now \<longleftrightarrow>
     valid_document_shapes e c g r a \<and> digests_match sha (digested_documents e c g r a) \<and>
     bound rq e c g r a \<and> within_policy p rp explicit rq e c g a \<and> routed rp e g a \<and>
     rpo_required_checks rp \<noteq> [] \<and> green (ad_head_sha a) (rpo_required_checks rp) (gd_required_checks g) \<and>
     green (ad_head_sha a) (rpo_required_checks rp) (ad_required_checks a) \<and>
     ri_subject_digest r = ad_diff_digest a \<and> ri_deterministic_tests_primary r \<and>
     live e c g r a now \<and> merge_permitted rp g r a"

lemma document_reasons_spoken: "list_all (\<lambda>(b, r). b \<longrightarrow> r \<noteq> []) (document_reasons p rp explicit rq e c g r a now)"
  by (simp add: document_reasons_def identity_reasons_def policy_reasons_def Let_def)

lemma authority_silent:
  assumes "gr_run_envelope rq = Some e" and "gr_candidate_decision rq = Some c"
    and "gr_governance_decision rq = Some g" and "gr_reviewer_independence rq = Some r"
    and "gr_github_action_digest rq = Some a"
  shows "validate_repair_authority sha p rp explicit rq now = [] \<longleftrightarrow>
    valid_document_shapes e c g r a \<and> digests_match sha (digested_documents e c g r a) \<and>
    silent (document_reasons p rp explicit rq e c g r a now)"
  using assms document_reasons_spoken [of p rp explicit rq e c g r a now]
  by (simp add: validate_repair_authority_def first_reason_Nil_iff)

lemma authority_accepts:
  assumes "gr_run_envelope rq = Some e" and "gr_candidate_decision rq = Some c"
    and "gr_governance_decision rq = Some g" and "gr_reviewer_independence rq = Some r"
    and "gr_github_action_digest rq = Some a"
  shows "validate_repair_authority sha p rp explicit rq now = [] \<longleftrightarrow>
    authority_holds sha p rp explicit rq e c g r a now"
  unfolding authority_silent [OF assms] document_reasons_def authority_holds_def
  by (simp add: identity_silent policy_silent validate_routing_Nil validate_checks_Nil
      validate_chronology_Nil validate_action_class_Nil) blast

lemma authority_needs_documents:
  "validate_repair_authority sha p rp explicit rq now = [] \<Longrightarrow>
     \<exists>e c g r a. gr_run_envelope rq = Some e \<and> gr_candidate_decision rq = Some c \<and>
       gr_governance_decision rq = Some g \<and> gr_reviewer_independence rq = Some r \<and>
       gr_github_action_digest rq = Some a"
  by (auto simp: validate_repair_authority_def split: option.splits)

subsection \<open>The policy\<close>

lemma valid_repository_entries_iff:
  "valid_repository_entries es \<longleftrightarrow>
     (\<forall>(repository, rp) \<in> set es. valid_repository_name repository \<and> valid_repository_policy rp True \<and>
        \<not> (prefix ''uesugitorachiyo/ao'' repository \<and> rpo_sole_auto_merge_opt_in rp))"
  by (induction es rule: valid_repository_entries.induct) auto

text \<open>The verdict on a policy does not depend on the order of the loop over its repositories.\<close>

lemma valid_policy_any_order:
  "set es = set (gp_repository_policies p) \<Longrightarrow>
     valid_governance_policy (p\<lparr>gp_repository_policies := es\<rparr>) = valid_governance_policy p"
  unfolding valid_governance_policy_def valid_repository_entries_iff by auto

lemma valid_repository_policy_parts:
  assumes "valid_repository_policy rp allow_sole"
  shows "rpo_repository_class rp \<in> {''sole_control'', ''team'', ''external''}"
    and "set (rpo_allowed_actions rp) \<subseteq> set write_actions"
    and "rpo_required_checks rp \<noteq> []"
    and "rpo_repository_class rp = ''external'' \<longrightarrow> \<not> rpo_sole_auto_merge_opt_in rp \<and>
      set (rpo_allowed_actions rp) \<subseteq> {''push_operator_fork'', ''open_upstream_draft_pr''} \<and>
      rpo_push_target rp = ''operator_owned_fork'' \<and> rpo_pull_request_mode rp = ''upstream_draft_only''"
    and "rpo_repository_class rp = ''team'' \<longrightarrow>
      \<not> rpo_sole_auto_merge_opt_in rp \<and> ''auto_merge'' \<notin> set (rpo_allowed_actions rp)"
proof -
  have if_out: "(if b then False else x) = (\<not> b \<and> x)" for b x by simp
  note v = assms [unfolded valid_repository_policy_def if_out de_Morgan_disj not_not]
  from v show "set (rpo_allowed_actions rp) \<subseteq> set write_actions" "rpo_required_checks rp \<noteq> []"
    by (blast dest: every_string_in_iff [THEN iffD1])+
  from v have "slices_contains [''sole_control'', ''team'', ''external''] (rpo_repository_class rp)" by blast
  then show "rpo_repository_class rp \<in> {''sole_control'', ''team'', ''external''}"
    unfolding slices_contains_iff by simp
  from v have cls: "if rpo_repository_class rp = ''external'' then \<not> rpo_sole_auto_merge_opt_in rp \<and>
        rpo_push_target rp = ''operator_owned_fork'' \<and> rpo_pull_request_mode rp = ''upstream_draft_only'' \<and>
        every_string_in (rpo_allowed_actions rp) [''push_operator_fork'', ''open_upstream_draft_pr'']
      else if rpo_repository_class rp = ''team'' then
        \<not> rpo_sole_auto_merge_opt_in rp \<and> \<not> slices_contains (rpo_allowed_actions rp) ''auto_merge''
      else if rpo_repository_class rp = ''sole_control'' then allow_sole else False"
    by blast
  show "rpo_repository_class rp = ''external'' \<longrightarrow> \<not> rpo_sole_auto_merge_opt_in rp \<and>
      set (rpo_allowed_actions rp) \<subseteq> {''push_operator_fork'', ''open_upstream_draft_pr''} \<and>
      rpo_push_target rp = ''operator_owned_fork'' \<and> rpo_pull_request_mode rp = ''upstream_draft_only''"
    using cls by (intro impI) simp
  show "rpo_repository_class rp = ''team'' \<longrightarrow>
      \<not> rpo_sole_auto_merge_opt_in rp \<and> ''auto_merge'' \<notin> set (rpo_allowed_actions rp)"
    using cls by (intro impI) simp
qed

lemma opted_in_sole:
  "valid_repository_policy rp allow_sole \<Longrightarrow> rpo_sole_auto_merge_opt_in rp \<Longrightarrow> rpo_repository_class rp = ''sole_control''"
  using valid_repository_policy_parts [of rp allow_sole] by blast

lemma valid_policy_defaults:
  assumes "valid_governance_policy p"
  shows "rpo_repository_class (pd_unknown_repository_policy (gp_defaults p)) = ''external''"
    and "valid_repository_policy (pd_unknown_repository_policy (gp_defaults p)) False"
    and "set (gp_risky_path_classes p) = set risky_path_classes"
    and "set (gp_permanently_denied_actions p) = set permanent_denials"
    and "valid_repository_entries (gp_repository_policies p)"
  using assms unfolding valid_governance_policy_def by (simp_all add: same_unique_iff split: if_splits)

lemma repository_policy_valid:
  assumes "valid_governance_policy p" and "repository_policy_of p repository = (rp, explicit)"
  shows "valid_repository_policy rp explicit" and "explicit \<or> rpo_repository_class rp = ''external''"
    and "rpo_sole_auto_merge_opt_in rp \<Longrightarrow> \<not> prefix ''uesugitorachiyo/ao'' repository"
proof -
  have "valid_repository_policy rp explicit \<and> (explicit \<or> rpo_repository_class rp = ''external'') \<and>
      (rpo_sole_auto_merge_opt_in rp \<longrightarrow> \<not> prefix ''uesugitorachiyo/ao'' repository)"
  proof (cases "map_of (gp_repository_policies p) repository")
    case None
    with assms(2) have "rp = pd_unknown_repository_policy (gp_defaults p)" "\<not> explicit"
      by (auto simp: repository_policy_of_def)
    then show ?thesis
      using valid_policy_defaults(1,2) [OF assms(1)] opted_in_sole [of rp False] by auto
  next
    case (Some q)
    with assms(2) have "rp = q" "explicit" by (auto simp: repository_policy_of_def)
    moreover have "(repository, q) \<in> set (gp_repository_policies p)" using Some by (rule map_of_SomeD)
    ultimately show ?thesis
      using valid_policy_defaults(5) [OF assms(1)] unfolding valid_repository_entries_iff by auto
  qed
  then show "valid_repository_policy rp explicit" "explicit \<or> rpo_repository_class rp = ''external''"
    "rpo_sole_auto_merge_opt_in rp \<Longrightarrow> \<not> prefix ''uesugitorachiyo/ao'' repository" by blast+
qed

subsection \<open>Who may mutate what\<close>

lemma write_actions_not_denied: "set write_actions \<inter> set permanent_denials = {}"
  by (simp add: write_actions_def permanent_denials_def)

lemma request_shape_write:
  assumes "validate_request_shape rq = []" and "gr_mode rq \<noteq> ''discovery''"
  shows "gr_mode rq = ''write''" and "gr_action rq \<in> set write_actions"
  using assms unfolding validate_request_shape_def misses_write_evidence_def
  by (simp_all split: if_splits)

text \<open>The checks that follow the authority can only confirm it.\<close>

lemma authority_decides:
  assumes policy: "valid_governance_policy p" "repository_policy_of p (gr_repository rq) = (rp, explicit)"
    and holds: "authority_holds sha p rp explicit rq e c g r a now"
  shows "gr_action rq \<in> set (rpo_allowed_actions rp)" "gr_action rq \<notin> set (gp_permanently_denied_actions p)"
    "au_mutation_authorized (decide_by_class rp explicit (gr_action rq))"
proof -
  note rp = valid_repository_policy_parts [OF repository_policy_valid(1) [OF policy]]
  from holds have action: "gr_action rq = ad_action a"
    and within: "within_policy p rp explicit rq e c g a" and merge: "merge_permitted rp g r a"
    by (simp_all add: authority_holds_def bound_def)
  from within show allowed: "gr_action rq \<in> set (rpo_allowed_actions rp)"
    unfolding within_policy_def action by blast
  then show "gr_action rq \<notin> set (gp_permanently_denied_actions p)"
    using rp(2) write_actions_not_denied valid_policy_defaults(4) [OF policy(1)] by blast
  consider "rpo_repository_class rp = ''external''" | "rpo_repository_class rp = ''team''"
    | "rpo_repository_class rp = ''sole_control''" using rp(1) by blast
  then show "au_mutation_authorized (decide_by_class rp explicit (gr_action rq))"
  proof cases
    case 1
    then have "gr_action rq \<in> {''push_operator_fork'', ''open_upstream_draft_pr''}" using rp(4) allowed by blast
    with 1 show ?thesis by (auto simp: decide_by_class_def allow_def)
  next
    case 2
    then have "gr_action rq \<noteq> ''auto_merge''" using rp(5) allowed by metis
    with 2 show ?thesis by (simp add: decide_by_class_def Let_def allow_def)
  next
    case 3
    then have "explicit" using repository_policy_valid(2) [OF policy] by simp
    moreover have "rpo_sole_auto_merge_opt_in rp" if "gr_action rq = ''auto_merge''"
      using merge that 3 action by (simp add: merge_permitted_def)
    ultimately show ?thesis using 3 by (auto simp: decide_by_class_def Let_def allow_def)
  qed
qed

definition documents :: "governance_request \<Rightarrow> run_envelope \<Rightarrow> candidate_decision \<Rightarrow> governance_decision \<Rightarrow>
    reviewer_independence \<Rightarrow> github_action_digest \<Rightarrow> bool" where
  "documents rq e c g r a \<longleftrightarrow>
     gr_run_envelope rq = Some e \<and> gr_candidate_decision rq = Some c \<and> gr_governance_decision rq = Some g \<and>
     gr_reviewer_independence rq = Some r \<and> gr_github_action_digest rq = Some a"

definition request_admitted :: "(governance_request \<Rightarrow> bool) \<Rightarrow> repository_policy \<Rightarrow> governance_request \<Rightarrow> bool" where
  "request_admitted schema_ok rp rq \<longleftrightarrow>
     validate_request_shape rq = [] \<and> schema_ok rq \<and>
     (gr_ownership_class_assertion rq = None \<or> gr_ownership_class_assertion rq = Some (rpo_repository_class rp))"

lemma mutation_iff_authority:
  assumes rp: "repository_policy_of p (gr_repository rq) = (rp, explicit)"
  shows "au_mutation_authorized (evaluate_repair_governance sha schema_ok p rq now) \<longleftrightarrow>
    valid_governance_policy p \<and> request_admitted schema_ok rp rq \<and> gr_mode rq = ''write'' \<and>
    (\<exists>e c g r a. documents rq e c g r a \<and> authority_holds sha p rp explicit rq e c g r a now)"
    (is "?l \<longleftrightarrow> ?r")
proof
  assume ?l
  then have basics: "valid_governance_policy p" "request_admitted schema_ok rp rq" "gr_mode rq \<noteq> ''discovery''"
    and authority: "validate_repair_authority sha p rp explicit rq now = []"
    by (simp_all add: evaluate_repair_governance_def rp Let_def deny_def allow_def request_admitted_def
        split: if_splits option.splits)
  then obtain e c g r a where "documents rq e c g r a"
    using authority_needs_documents [OF authority] by (auto simp: documents_def)
  moreover from this authority have "authority_holds sha p rp explicit rq e c g r a now"
    using authority_accepts unfolding documents_def by blast
  moreover have "gr_mode rq = ''write''"
    using basics request_shape_write(1) by (simp add: request_admitted_def)
  ultimately show ?r using basics by blast
next
  assume r: ?r
  then obtain e c g r a where d: "documents rq e c g r a"
    and holds: "authority_holds sha p rp explicit rq e c g r a now" by blast
  have "validate_repair_authority sha p rp explicit rq now = []"
    using d holds authority_accepts unfolding documents_def by blast
  then show ?l
    using r authority_decides [OF _ rp holds]
    by (auto simp: evaluate_repair_governance_def rp Let_def request_admitted_def)
qed

lemma mutation_authority:
  assumes "au_mutation_authorized (evaluate_repair_governance sha schema_ok p rq now)"
  obtains rp explicit e c g r a where "repository_policy_of p (gr_repository rq) = (rp, explicit)"
    "valid_governance_policy p" "documents rq e c g r a" "authority_holds sha p rp explicit rq e c g r a now"
proof -
  obtain rp explicit where rp: "repository_policy_of p (gr_repository rq) = (rp, explicit)" by fastforce
  show thesis using assms that unfolding mutation_iff_authority [OF rp] using rp by blast
qed

lemma authorized_by_class:
  "au_authorized (decide_by_class rp explicit action) = au_mutation_authorized (decide_by_class rp explicit action)"
  by (simp add: decide_by_class_def deny_def allow_def Let_def)

text \<open>An authorization carries mutation exactly when the request is not a discovery.\<close>

lemma authorized_discovery:
  "au_authorized (evaluate_repair_governance sha schema_ok p rq now) \<Longrightarrow>
     au_mutation_authorized (evaluate_repair_governance sha schema_ok p rq now) \<or> gr_mode rq = ''discovery''"
  by (cases "repository_policy_of p (gr_repository rq)")
    (simp add: evaluate_repair_governance_def Let_def deny_def authorized_by_class split: if_splits)

subsection \<open>Consequences\<close>

text \<open>What every authorized mutation has been checked for, in the request's own terms.\<close>

lemma mutation_within_policy:
  assumes "au_mutation_authorized (evaluate_repair_governance sha schema_ok p rq now)"
    and "repository_policy_of p (gr_repository rq) = (rp, explicit)"
  obtains e c g r a where "valid_governance_policy p" "documents rq e c g r a"
    "authority_holds sha p rp explicit rq e c g r a now"
  using mutation_authority [OF assms(1)] assms(2) by (metis prod.inject)

lemma external_mutation:
  assumes m: "au_mutation_authorized (evaluate_repair_governance sha schema_ok p rq now)"
    and rp: "repository_policy_of p (gr_repository rq) = (rp, explicit)"
    and ext: "rpo_repository_class rp = ''external''"
  shows "\<exists>e c g r a. documents rq e c g r a \<and> gr_action rq \<in> {''push_operator_fork'', ''open_upstream_draft_pr''} \<and>
    gd_push_target g = ''operator_owned_fork'' \<and> gd_pull_request_mode g = ''upstream_draft_only'' \<and>
    forked (ro_fork_owner (re_routing e)) (ad_fork a) (gr_repository rq) \<and> \<not> grants_merge (gd_merge g)"
proof -
  obtain e c g r a where d: "documents rq e c g r a" and h: "authority_holds sha p rp explicit rq e c g r a now"
    using mutation_within_policy [OF m rp] by metis
  from h have "bound rq e c g r a" "routed rp e g a" "merge_permitted rp g r a"
    by (simp_all add: authority_holds_def)
  with ext have "gr_action rq \<in> {''push_operator_fork'', ''open_upstream_draft_pr''}"
    "gd_push_target g = ''operator_owned_fork''" "gd_pull_request_mode g = ''upstream_draft_only''"
    "forked (ro_fork_owner (re_routing e)) (ad_fork a) (gr_repository rq)" "\<not> grants_merge (gd_merge g)"
    by (simp_all add: bound_def routed_def merge_permitted_def)
  with d show ?thesis by blast
qed

lemma unconfigured_is_external:
  "valid_governance_policy p \<Longrightarrow> repository_policy_of p repository = (rp, False) \<Longrightarrow>
     rpo_repository_class rp = ''external''"
  using repository_policy_valid(2) by blast

lemma auto_merge_mutation:
  assumes m: "au_mutation_authorized (evaluate_repair_governance sha schema_ok p rq now)"
    and am: "gr_action rq = ''auto_merge''"
  obtains rp where "map_of (gp_repository_policies p) (gr_repository rq) = Some rp"
    "rpo_repository_class rp = ''sole_control''" "rpo_sole_auto_merge_opt_in rp"
    "\<not> prefix ''uesugitorachiyo/ao'' (gr_repository rq)"
proof -
  obtain rp explicit e c g r a where rp: "repository_policy_of p (gr_repository rq) = (rp, explicit)"
    and p: "valid_governance_policy p" and h: "authority_holds sha p rp explicit rq e c g r a now"
    using m by (rule mutation_authority)
  note parts = valid_repository_policy_parts [OF repository_policy_valid(1) [OF p rp]]
  from h have action: "ad_action a = ''auto_merge''" and mp: "merge_permitted rp g r a"
    and allowed: "''auto_merge'' \<in> set (rpo_allowed_actions rp)"
    using am by (auto simp: authority_holds_def bound_def within_policy_def)
  then have "rpo_repository_class rp \<noteq> ''external''" "rpo_repository_class rp \<noteq> ''team''"
    by (auto simp: merge_permitted_def)
  with parts(1) have sole: "rpo_repository_class rp = ''sole_control''" by blast
  with repository_policy_valid(2) [OF p rp] have explicit by simp
  with rp have "map_of (gp_repository_policies p) (gr_repository rq) = Some rp"
    by (auto simp: repository_policy_of_def split: option.splits)
  moreover from mp action sole have opt: "rpo_sole_auto_merge_opt_in rp" by (simp add: merge_permitted_def)
  ultimately show thesis using that sole repository_policy_valid(3) [OF p rp] by blast
qed

lemma team_queue_mutation:
  assumes m: "au_mutation_authorized (evaluate_repair_governance sha schema_ok p rq now)"
    and rp: "repository_policy_of p (gr_repository rq) = (rp, explicit)"
    and team: "rpo_repository_class rp = ''team''" and queue: "gr_action rq = ''request_merge_queue''"
  shows "\<exists>e c g r a. documents rq e c g r a \<and>
    md_authorized (gd_merge g) \<and> md_mode (gd_merge g) = ''merge_queue'' \<and>
    md_approval_kind (gd_merge g) \<in> {''independent_human'', ''codeowner''} \<and>
    md_approval_head_sha (gd_merge g) = Some (ad_head_sha a) \<and>
    ri_status r = ''independent'' \<and> ri_satisfies_team_merge_gate r \<and> \<not> automated_reviewer (ri_reviewer_id r)"
proof -
  obtain e c g r a where d: "documents rq e c g r a" and h: "authority_holds sha p rp explicit rq e c g r a now"
    using mutation_within_policy [OF m rp] by metis
  from h queue have "ad_action a = ''request_merge_queue''" "merge_permitted rp g r a"
    by (simp_all add: authority_holds_def bound_def)
  with team have "\<not> team_queue_unapproved (gd_merge g) r a" by (simp add: merge_permitted_def)
  with d show ?thesis by (fastforce simp: team_queue_unapproved_def split: option.splits)
qed

text \<open>The one place where the evaluation could panic is never reached.\<close>

lemma validate_routing_no_panic:
  assumes "valid_repository_name (ad_repository a)"
  shows "validate_routing rp e g a \<noteq> index_panic"
proof -
  obtain u n where "ad_repository a = u @ CHR ''/'' # n" "CHR ''/'' \<notin> set u"
    using assms unfolding valid_repository_name_iff by blast
  then have "cut_at (CHR ''/'') (ad_repository a) = Some (u, n)" by (simp add: cut_at_Some)
  then show ?thesis
    by (auto simp: validate_routing_def fork_reason_def repository_after_slash_def index_panic_def Let_def
        split: option.splits)
qed

lemma validate_parts_no_panic:
  "validate_checks expected g a \<noteq> index_panic" "validate_chronology e c g r a now \<noteq> index_panic"
  "validate_action_class rp g r a \<noteq> index_panic"
  by (simp_all add: validate_checks_def validate_chronology_def chronology_reason_def validate_action_class_def
      index_panic_def Let_def split: option.splits)

lemma authority_no_panic: "validate_repair_authority sha p rp explicit rq now \<noteq> index_panic"
proof (cases "\<exists>e c g r a. documents rq e c g r a")
  case True
  then obtain e c g r a where d: "documents rq e c g r a" by blast
  let ?rs = "document_reasons p rp explicit rq e c g r a now"
  have "first_reason ?rs \<noteq> index_panic" if "valid_action_shape a"
  proof -
    from that have "valid_repository_name (ad_repository a)"
      by (simp add: valid_action_shape_def split: if_splits)
    then have routing: "validate_routing rp e g a \<noteq> index_panic" by (rule validate_routing_no_panic)
    have "index_panic \<notin> set (map snd ?rs)"
      using routing [THEN not_sym] validate_parts_no_panic [THEN not_sym]
      unfolding document_reasons_def identity_reasons_def policy_reasons_def Let_def
      by (auto simp: index_panic_def)
    moreover have "index_panic \<noteq> []" by (simp add: index_panic_def)
    ultimately show ?thesis using first_reason_in [of ?rs] by metis
  qed
  then show ?thesis
    using d by (simp add: validate_repair_authority_def documents_def valid_document_shapes_def index_panic_def)
next
  case False
  then show ?thesis
    by (auto simp: validate_repair_authority_def documents_def index_panic_def split: option.splits)
qed

lemma evaluation_no_panic: "au_reason_code (evaluate_repair_governance sha schema_ok p rq now) \<noteq> index_panic"
proof -
  obtain rp explicit where rp: "repository_policy_of p (gr_repository rq) = (rp, explicit)" by fastforce
  have "au_reason_code (decide_by_class rp explicit action) \<noteq> index_panic" for action
    by (simp add: decide_by_class_def deny_def allow_def index_panic_def Let_def)
  with authority_no_panic show ?thesis
    by (simp add: evaluate_repair_governance_def rp Let_def deny_def allow_def) (simp add: index_panic_def)
qed

end
