(* ===== verification/Repair_Digest.thy ===== *)
theory Repair_Digest
  imports Repair_Correct
begin

text \<open>
  What the digests of an autonomous repair bind. The JSON value of each document determines the
  document, and so does its canonical text together with the field that holds the digest. Under
  a digest function without collisions on the documents at hand the approved action digest
  therefore determines all five documents.
\<close>

text \<open>Objects with the same keys agree field by field.\<close>

lemma in_order_fields:
  assumes "in_order (JObj fs) = in_order (JObj gs)" and "distinct (map fst fs)" and "map fst fs = map fst gs"
  shows "list_all2 (\<lambda>f g. in_order (snd f) = in_order (snd g)) fs gs"
proof (rule list_all2_all_nthI)
  show len: "length fs = length gs" using assms(3) by (metis length_map)
  fix i assume i: "i < length fs"
  with assms(3) len have key: "fst (fs ! i) = fst (gs ! i)" by (metis nth_map)
  have d: "distinct (map fst gs)" using assms(2,3) by simp
  have "map_of fs (fst (fs ! i)) = Some (snd (fs ! i))" "map_of gs (fst (fs ! i)) = Some (snd (gs ! i))"
    using assms(2) d i len key by (auto intro!: map_of_is_SomeI simp: in_set_conv_nth prod_eq_iff)
  with in_order_member [OF assms(1,2) d, of "fst (fs ! i)"]
  show "in_order (snd (fs ! i)) = in_order (snd (gs ! i))" by simp
qed

lemma in_order_map_inject:
  "(\<And>x y. in_order (f x) = in_order (f y) \<Longrightarrow> x = y) \<Longrightarrow>
     in_order (JArr (map f xs)) = in_order (JArr (map f ys)) \<Longrightarrow> xs = ys"
  by (rule map_injective [of "in_order \<circ> f"]) (auto simp: inj_on_def)

text \<open>The parts of the documents.\<close>

lemma repair_loop_inject: "in_order (repair_loop_json x) = in_order (repair_loop_json y) \<longleftrightarrow> x = y"
  unfolding repair_loop_json_def by (rule iffI, drule in_order_fields) simp_all

lemma repair_trigger_inject: "in_order (repair_trigger_json x) = in_order (repair_trigger_json y) \<longleftrightarrow> x = y"
  unfolding repair_trigger_json_def by (rule iffI, drule in_order_fields) simp_all

lemma repair_discovery_inject: "in_order (repair_discovery_json x) = in_order (repair_discovery_json y) \<longleftrightarrow> x = y"
  unfolding repair_discovery_json_def by (rule iffI, drule in_order_fields) simp_all

lemma repair_budgets_inject: "in_order (repair_budgets_json x) = in_order (repair_budgets_json y) \<longleftrightarrow> x = y"
  unfolding repair_budgets_json_def by (rule iffI, drule in_order_fields) simp_all

lemma envelope_governance_inject: "in_order (envelope_governance_json x) = in_order (envelope_governance_json y) \<longleftrightarrow> x = y"
  unfolding envelope_governance_json_def by (rule iffI, drule in_order_fields) simp_all

lemma repair_routing_inject: "in_order (repair_routing_json x) = in_order (repair_routing_json y) \<longleftrightarrow> x = y"
  unfolding repair_routing_json_def by (rule iffI, drule in_order_fields) simp_all

lemma repair_lineage_inject: "in_order (repair_lineage_json x) = in_order (repair_lineage_json y) \<longleftrightarrow> x = y"
  unfolding repair_lineage_json_def by (rule iffI, drule in_order_fields) simp_all

lemma candidate_eligibility_inject: "in_order (candidate_eligibility_json x) = in_order (candidate_eligibility_json y) \<longleftrightarrow> x = y"
  unfolding candidate_eligibility_json_def by (rule iffI, drule in_order_fields) simp_all

lemma merge_decision_inject: "in_order (merge_decision_json x) = in_order (merge_decision_json y) \<longleftrightarrow> x = y"
  unfolding merge_decision_json_def by (rule iffI, drule in_order_fields) simp_all

lemma required_check_inject: "in_order (required_check_json x) = in_order (required_check_json y) \<longleftrightarrow> x = y"
  unfolding required_check_json_def by (rule iffI, drule in_order_fields) simp_all

lemmas part_inject = repair_loop_inject repair_trigger_inject repair_discovery_inject repair_budgets_inject envelope_governance_inject repair_routing_inject repair_lineage_inject candidate_eligibility_inject merge_decision_inject

lemma required_checks_inject:
  "in_order (JArr (map required_check_json ks)) = in_order (JArr (map required_check_json ls)) \<longleftrightarrow> ks = ls"
  using in_order_map_inject [of required_check_json ks ls] required_check_inject by blast

text \<open>The documents themselves, up to the field left out of the digest.\<close>

definition digested :: "json \<Rightarrow> string \<Rightarrow> json" where
  "digested doc excluded = (case doc of JObj fs \<Rightarrow> JObj (without_field excluded fs) | v \<Rightarrow> v)"

lemma run_envelope_inject:
  assumes "in_order (digested (run_envelope_json x) ''canonical_digest'') = in_order (digested (run_envelope_json y) ''canonical_digest'')"
    and "re_canonical_digest x = re_canonical_digest y"
  shows "x = y"
  using assms unfolding digested_def run_envelope_json_def json.case without_field_def
  by (simp del: in_order.simps) (drule in_order_fields, simp_all add: part_inject required_checks_inject del: in_order.simps(1,2))

lemma candidate_decision_inject:
  assumes "in_order (digested (candidate_decision_json x) ''decision_digest'') = in_order (digested (candidate_decision_json y) ''decision_digest'')"
    and "cd_decision_digest x = cd_decision_digest y"
  shows "x = y"
  using assms unfolding digested_def candidate_decision_json_def json.case without_field_def
  by (simp del: in_order.simps) (drule in_order_fields, simp_all add: part_inject required_checks_inject del: in_order.simps(1,2))

lemma governance_decision_inject:
  assumes "in_order (digested (governance_decision_json x) ''decision_digest'') = in_order (digested (governance_decision_json y) ''decision_digest'')"
    and "gd_decision_digest x = gd_decision_digest y"
  shows "x = y"
  using assms unfolding digested_def governance_decision_json_def json.case without_field_def
  by (simp del: in_order.simps) (drule in_order_fields, simp_all add: part_inject required_checks_inject del: in_order.simps(1,2))

lemma reviewer_independence_inject:
  assumes "in_order (digested (reviewer_independence_json x) ''review_digest'') = in_order (digested (reviewer_independence_json y) ''review_digest'')"
    and "ri_review_digest x = ri_review_digest y"
  shows "x = y"
  using assms unfolding digested_def reviewer_independence_json_def json.case without_field_def
  by (simp del: in_order.simps) (drule in_order_fields, simp_all add: part_inject required_checks_inject del: in_order.simps(1,2))

lemma github_action_digest_inject:
  assumes "in_order (digested (github_action_digest_json x) ''action_digest'') = in_order (digested (github_action_digest_json y) ''action_digest'')"
    and "ad_action_digest x = ad_action_digest y"
  shows "x = y"
  using assms unfolding digested_def github_action_digest_json_def json.case without_field_def
  by (simp del: in_order.simps) (drule in_order_fields, simp_all add: part_inject required_checks_inject del: in_order.simps(1,2))

subsection \<open>An approved digest determines the evidence\<close>

definition digest_text :: "json \<times> string \<times> string \<Rightarrow> string" where
  "digest_text = (\<lambda>(doc, excluded, got). write_canonical (digested doc excluded))"

definition digest_texts :: "run_envelope \<Rightarrow> candidate_decision \<Rightarrow> governance_decision \<Rightarrow>
    reviewer_independence \<Rightarrow> github_action_digest \<Rightarrow> string set" where
  "digest_texts e c g r a = digest_text ` set (digested_documents e c g r a)"

text \<open>The strings of the documents are valid UTF-8, as those of decoded JSON are.\<close>

definition documents_utf8 :: "run_envelope \<Rightarrow> candidate_decision \<Rightarrow> governance_decision \<Rightarrow>
    reviewer_independence \<Rightarrow> github_action_digest \<Rightarrow> bool" where
  "documents_utf8 e c g r a \<longleftrightarrow> list_all (\<lambda>(doc, excluded, got). json_ok doc) (digested_documents e c g r a)"

lemma digests_match_iff:
  "digests_match sha ds \<longleftrightarrow> (\<forall>(doc, excluded, got) \<in> set ds. canonical_digest sha doc excluded = Inr got)"
  by (induction ds) (auto split: sum.splits if_splits)

lemma canonical_digest_digested:
  "canonical_digest sha doc excluded = Inr h \<Longrightarrow> sha (write_canonical (digested doc excluded)) = h"
  by (cases doc) (simp_all add: canonical_digest_def digested_def)

lemma json_ok_digested: "json_ok doc \<Longrightarrow> json_ok (digested doc excluded)"
  by (cases doc) (auto simp: digested_def without_field_def list_all_iff)

lemma same_digest:
  assumes "canonical_digest sha doc excluded = Inr h" and "canonical_digest sha doc' excluded = Inr h"
    and "json_ok doc" and "json_ok doc'"
    and "write_canonical (digested doc excluded) \<in> T" and "write_canonical (digested doc' excluded) \<in> T"
  shows "in_order (digested doc excluded) = in_order (digested doc' excluded) \<or> collision sha T"
proof (cases "write_canonical (digested doc excluded) = write_canonical (digested doc' excluded)")
  case True
  then show ?thesis using assms(3,4) canonical_text_inject json_ok_digested by blast
next
  case False
  moreover have "sha (write_canonical (digested doc excluded)) = sha (write_canonical (digested doc' excluded))"
    using canonical_digest_digested [OF assms(1)] canonical_digest_digested [OF assms(2)] by simp
  ultimately have "collision sha T"
    unfolding collision_def by (intro bexI [OF _ assms(5)] bexI [OF _ assms(6)] conjI)
  then show ?thesis ..
qed

lemma digests_bind_documents:
  assumes m: "digests_match sha (digested_documents e c g r a)" "digests_match sha (digested_documents e' c' g' r' a')"
    and u: "documents_utf8 e c g r a" "documents_utf8 e' c' g' r' a'"
    and b: "bound rq e c g r a" "bound rq' e' c' g' r' a'"
    and same: "gr_approved_action_digest rq = gr_approved_action_digest rq'"
  shows "(e = e' \<and> c = c' \<and> g = g' \<and> r = r' \<and> a = a') \<or>
    collision sha (digest_texts e c g r a \<union> digest_texts e' c' g' r' a')"
proof (rule disjCI)
  let ?T = "digest_texts e c g r a \<union> digest_texts e' c' g' r' a'"
  assume nc: "\<not> collision sha ?T"
  have step: "in_order (digested doc f) = in_order (digested doc' f)"
    if "(doc, f, h) \<in> set (digested_documents e c g r a)" "(doc', f, h) \<in> set (digested_documents e' c' g' r' a')"
    for doc doc' f h
  proof -
    from m that have "canonical_digest sha doc f = Inr h" "canonical_digest sha doc' f = Inr h"
      unfolding digests_match_iff by blast+
    moreover from u that have "json_ok doc" "json_ok doc'" unfolding documents_utf8_def list_all_iff by blast+
    moreover from that have "write_canonical (digested doc f) \<in> ?T" "write_canonical (digested doc' f) \<in> ?T"
      unfolding digest_texts_def digest_text_def by force+
    ultimately show ?thesis using same_digest nc by blast
  qed
  note link = b [unfolded bound_def]
  have ad: "ad_action_digest a = ad_action_digest a'" using link same by simp
  have a: "a = a'"
    by (rule github_action_digest_inject [OF step [where h = "ad_action_digest a"] ad]) (simp_all add: digested_documents_def ad)
  have h: "re_canonical_digest e = re_canonical_digest e'" "cd_decision_digest c = cd_decision_digest c'"
    "gd_decision_digest g = gd_decision_digest g'" "ri_review_digest r = ri_review_digest r'"
    using link a by simp_all
  have "e = e'" by (rule run_envelope_inject [OF step [where h = "re_canonical_digest e"] h(1)]) (simp_all add: digested_documents_def h)
  moreover have "c = c'" by (rule candidate_decision_inject [OF step [where h = "cd_decision_digest c"] h(2)]) (simp_all add: digested_documents_def h)
  moreover have "g = g'" by (rule governance_decision_inject [OF step [where h = "gd_decision_digest g"] h(3)]) (simp_all add: digested_documents_def h)
  moreover have "r = r'" by (rule reviewer_independence_inject [OF step [where h = "ri_review_digest r"] h(4)]) (simp_all add: digested_documents_def h)
  ultimately show "e = e' \<and> c = c' \<and> g = g' \<and> r = r' \<and> a = a'" using a by blast
qed

end
