(* ===== verification/Repair_Examples.thy ===== *)
theory Repair_Examples
  imports Repair_Digest
begin

text \<open>
  The policy and three write requests of \<open>examples/autonomous-repair-governance/\<close>, with one
  digest function that maps every text to the same 64 digits, and digests to match: a merge
  queue request of a team repository, a fork push to an external one and an automatic merge of
  a repository under sole control. The decision point authorizes all three, which shows that the hypotheses of the properties can hold.
\<close>

definition repair_digest :: string where
  "repair_digest = replicate 64 (CHR ''a'')"

definition repair_sha :: "string \<Rightarrow> string" where
  "repair_sha t = repair_digest"

definition repair_policy :: governance_policy where
  "repair_policy =
     \<lparr>gp_schema_version = ''covenant.autonomous-repair-governance-policy.v1'',
     gp_policy_id = ''autonomous-repair-governance-v1'',
     gp_architecture_contract = \<lparr>cs_repository = ''uesugitorachiyo/ao-architecture'',
       cs_commit = ''b8c64860003238ab45fe7c76d7e8950f80a4043b'',
       cs_schema_ids = [''ao.architecture.autonomous-issue-repair.run-envelope.v1'', ''ao.architecture.autonomous-issue-repair.discovery-result.v1'', ''ao.architecture.autonomous-issue-repair.candidate-decision.v1'', ''ao.architecture.autonomous-issue-repair.event.v1'', ''ao.architecture.autonomous-issue-repair.checkpoint.v1'', ''ao.architecture.autonomous-issue-repair.governance-decision.v1'', ''ao.architecture.autonomous-issue-repair.reviewer-independence.v1'', ''ao.architecture.autonomous-issue-repair.github-action-digest.v1'']\<rparr>,
     gp_defaults = \<lparr>pd_discovery_mutation_authorized = False,
       pd_issue_text_can_authorize = False,
       pd_repository_text_can_authorize = False,
       pd_unknown_repository_policy = \<lparr>rpo_repository_class = ''external'',
         rpo_sole_auto_merge_opt_in = False,
         rpo_push_target = ''operator_owned_fork'',
         rpo_pull_request_mode = ''upstream_draft_only'',
         rpo_required_checks = [''test'', ''lint''],
         rpo_allowed_actions = [''push_operator_fork'', ''open_upstream_draft_pr'']\<rparr>,
       pd_branch_protection_bypass = False\<rparr>,
     gp_repository_policies = [(''fixture/sole-repair'', \<lparr>rpo_repository_class = ''sole_control'',
         rpo_sole_auto_merge_opt_in = True,
         rpo_push_target = ''policy_authorized_branch'',
         rpo_pull_request_mode = ''draft_or_ready_by_policy'',
         rpo_required_checks = [''test'', ''lint''],
         rpo_allowed_actions = [''open_ready_pr'', ''auto_merge'']\<rparr>),
       (''fixture/team-repair'', \<lparr>rpo_repository_class = ''team'',
         rpo_sole_auto_merge_opt_in = False,
         rpo_push_target = ''policy_authorized_branch'',
         rpo_pull_request_mode = ''draft_or_ready_by_policy'',
         rpo_required_checks = [''test'', ''lint''],
         rpo_allowed_actions = [''open_ready_pr'', ''request_merge_queue'']\<rparr>),
       (''fixture/external-repair'', \<lparr>rpo_repository_class = ''external'',
         rpo_sole_auto_merge_opt_in = False,
         rpo_push_target = ''operator_owned_fork'',
         rpo_pull_request_mode = ''upstream_draft_only'',
         rpo_required_checks = [''test'', ''lint''],
         rpo_allowed_actions = [''push_operator_fork'', ''open_upstream_draft_pr'']\<rparr>),
       (''livekit/livekit'', \<lparr>rpo_repository_class = ''external'',
         rpo_sole_auto_merge_opt_in = False,
         rpo_push_target = ''operator_owned_fork'',
         rpo_pull_request_mode = ''upstream_draft_only'',
         rpo_required_checks = [''test'', ''lint''],
         rpo_allowed_actions = [''push_operator_fork'', ''open_upstream_draft_pr'']\<rparr>)],
     gp_risky_path_classes = [''dependency'', ''workflow'', ''credential'', ''permission'', ''policy'', ''schema'', ''migration'', ''release'', ''security_boundary'', ''generated_artifact''],
     gp_permanently_denied_actions = [''open_ready_pr_external'', ''request_merge_queue_external'', ''auto_merge_external'', ''approve_review'', ''mutate_issue'']\<rparr>"

definition team_envelope :: run_envelope where
  "team_envelope =
     \<lparr>re_schema = ''ao.architecture.autonomous-issue-repair.run-envelope.v1'',
     re_run_id = ''repair-run-20260728'',
     re_loop = \<lparr>lp_goal = ''Repair one controlled fixture.'',
       lp_trigger = ''Use an exact repository policy.'',
       lp_discovery = ''Use bounded discovery.'',
       lp_action = ''Perform one bounded action.'',
       lp_verification = ''Require deterministic checks.'',
       lp_state = ''Persist canonical evidence.'',
       lp_human_gates = ''Apply repository governance.''\<rparr>,
     re_trigger = \<lparr>tr_mode = ''explicit_issue'',
       tr_canonical_url = ''https://github.com/fixture/team-repair/issues/101'',
       tr_repository = ''fixture/team-repair'',
       tr_default_branch = ''main'',
       tr_pinned_base_commit = replicate 40 (CHR ''1'')\<rparr>,
     re_discovery = \<lparr>di_snapshot_limit = 50,
       di_candidate_limit = 10,
       di_selected_limit = 1\<rparr>,
     re_budgets = \<lparr>bu_wall_clock_seconds = 28800,
       bu_clone_count = 1,
       bu_test_runs = 20,
       bu_retry_count = 3,
       bu_repair_count = 1,
       bu_publication_count = 1\<rparr>,
     re_governance = \<lparr>eg_ownership_class = ''team'',
       eg_allowed_actions = [''open_ready_pr'', ''request_merge_queue''],
       eg_denied_actions = [''push_upstream'', ''open_ready_pr'', ''mark_ready'', ''approve_review'', ''merge'', ''mutate_issue'', ''publish_release''],
       eg_sole_control_auto_merge_opt_in = False\<rparr>,
     re_routing = \<lparr>ro_default_branch = ''main'',
       ro_pinned_base_commit = replicate 40 (CHR ''1''),
       ro_fork_owner = None,
       ro_repair_branch = ''codex/repair-issue'',
       ro_protected_path_classes = [''dependency'', ''workflow'', ''credential'', ''permission'', ''policy'', ''schema'', ''migration'', ''release'', ''security_boundary'', ''generated_artifact''],
       ro_required_checks = [''test'', ''lint'']\<rparr>,
     re_created_at = ''2026-07-27T16:00:00Z'',
     re_expires_at = ''2026-07-28T00:00:00Z'',
     re_canonical_digest = replicate 64 (CHR ''a''),
     re_predecessor_digest = None,
     re_lineage = \<lparr>li_kind = ''origin'',
       li_predecessor_run_id = None,
       li_predecessor_digest = None\<rparr>,
     re_stop_conditions = [''policy_ambiguity'', ''security_sensitive'', ''digest_mismatch'', ''required_check_conflict''],
     re_terminal_statuses = [''completed'', ''blocked'', ''expired'']\<rparr>"

definition team_candidate :: candidate_decision where
  "team_candidate =
     \<lparr>cd_schema = ''ao.architecture.autonomous-issue-repair.candidate-decision.v1'',
     cd_run_id = ''repair-run-20260728'',
     cd_repository = ''fixture/team-repair'',
     cd_base_sha = replicate 40 (CHR ''1''),
     cd_issue_number = 101,
     cd_rank = 1,
     cd_decision = ''selected'',
     cd_eligibility = \<lparr>ce_open_bug = True,
       ce_target_in_repository = True,
       ce_no_existing_fix = True,
       ce_current_head_unfixed = True,
       ce_security_sensitive = False,
       ce_public_reproduction_feasible = True,
       ce_deterministic_local_reproduction = True,
       ce_expected_behavior_grounded = True,
       ce_bounded_policy_compatible = True\<rparr>,
     cd_reason_codes = [''eligible_all_predicates_passed''],
     cd_evidence_digests = [replicate 64 (CHR ''6'')],
     cd_expected_behavior_source = ''tests'',
     cd_decided_at = ''2026-07-27T22:00:00Z'',
     cd_decision_digest = replicate 64 (CHR ''a'')\<rparr>"

definition team_governance :: governance_decision where
  "team_governance =
     \<lparr>gd_schema = ''ao.architecture.autonomous-issue-repair.governance-decision.v1'',
     gd_run_id = ''repair-run-20260728'',
     gd_repository = ''fixture/team-repair'',
     gd_base_sha = replicate 40 (CHR ''1''),
     gd_head_sha = replicate 40 (CHR ''b''),
     gd_governance_class = ''team'',
     gd_classification_sources = [''repository_policy''],
     gd_push_target = ''policy_authorized_branch'',
     gd_pull_request_mode = ''draft_or_ready_by_policy'',
     gd_merge = \<lparr>md_authorized = True,
       md_mode = ''merge_queue'',
       md_approval_kind = ''independent_human'',
       md_approval_head_sha = Some (replicate 40 (CHR ''b'')),
       md_auto_merge_opt_in = False,
       md_branch_protection_bypassed = False\<rparr>,
     gd_protected_path_touched = False,
     gd_required_checks = [\<lparr>ck_name = ''test'',
       ck_conclusion = ''success'',
       ck_head_sha = replicate 40 (CHR ''b'')\<rparr>, \<lparr>ck_name = ''lint'',
       ck_conclusion = ''success'',
       ck_head_sha = replicate 40 (CHR ''b'')\<rparr>],
     gd_action_digest_required = True,
     gd_decided_at = ''2026-07-27T23:10:00Z'',
     gd_decision_digest = replicate 64 (CHR ''a'')\<rparr>"

definition team_reviewer :: reviewer_independence where
  "team_reviewer =
     \<lparr>ri_schema = ''ao.architecture.autonomous-issue-repair.reviewer-independence.v1'',
     ri_run_id = ''repair-run-20260728'',
     ri_subject_digest = replicate 64 (CHR ''f''),
     ri_reviewer_id = ''human-reviewer'',
     ri_status = ''independent'',
     ri_deterministic_tests_primary = True,
     ri_satisfies_team_merge_gate = True,
     ri_reviewed_at = ''2026-07-27T23:15:00Z'',
     ri_review_digest = replicate 64 (CHR ''a'')\<rparr>"

definition team_action :: github_action_digest where
  "team_action =
     \<lparr>ad_schema = ''ao.architecture.autonomous-issue-repair.github-action-digest.v1'',
     ad_run_id = ''repair-run-20260728'',
     ad_repository = ''fixture/team-repair'',
     ad_issue_number = 101,
     ad_base_sha = replicate 40 (CHR ''1''),
     ad_head_sha = replicate 40 (CHR ''b''),
     ad_fork = None,
     ad_branch = ''codex/repair-issue'',
     ad_pr_title_digest = replicate 64 (CHR ''d''),
     ad_pr_body_digest = replicate 64 (CHR ''e''),
     ad_diff_digest = replicate 64 (CHR ''f''),
     ad_required_checks = [\<lparr>ck_name = ''test'',
       ck_conclusion = ''success'',
       ck_head_sha = replicate 40 (CHR ''b'')\<rparr>, \<lparr>ck_name = ''lint'',
       ck_conclusion = ''success'',
       ck_head_sha = replicate 40 (CHR ''b'')\<rparr>],
     ad_action = ''request_merge_queue'',
     ad_approved_at = ''2026-07-27T23:20:00Z'',
     ad_expires_at = ''2026-07-28T00:00:00Z'',
     ad_run_envelope_digest = replicate 64 (CHR ''a''),
     ad_candidate_decision_digest = replicate 64 (CHR ''a''),
     ad_governance_decision_digest = replicate 64 (CHR ''a''),
     ad_reviewer_independence_digest = replicate 64 (CHR ''a''),
     ad_action_digest = replicate 64 (CHR ''a'')\<rparr>"

definition team_request :: governance_request where
  "team_request =
     \<lparr>gr_schema_version = ''covenant.autonomous-repair-governance-request.v1'',
       gr_request_id = ''repair-run-20260728'',
       gr_mode = ''write'',
       gr_repository = ''fixture/team-repair'',
       gr_ownership_class_assertion = Some ''team'',
       gr_issue_number = Some (101),
       gr_action = ''request_merge_queue'',
       gr_current_base_sha = replicate 40 (CHR ''1''),
       gr_changed_path_classes = [''source''],
       gr_approved_action_digest = replicate 64 (CHR ''a''),
       gr_run_envelope = Some team_envelope,
       gr_candidate_decision = Some team_candidate,
       gr_governance_decision = Some team_governance,
       gr_reviewer_independence = Some team_reviewer,
       gr_github_action_digest = Some team_action\<rparr>"

definition external_envelope :: run_envelope where
  "external_envelope =
     \<lparr>re_schema = ''ao.architecture.autonomous-issue-repair.run-envelope.v1'',
     re_run_id = ''repair-run-20260728'',
     re_loop = \<lparr>lp_goal = ''Repair one controlled fixture.'',
       lp_trigger = ''Use an exact repository policy.'',
       lp_discovery = ''Use bounded discovery.'',
       lp_action = ''Perform one bounded action.'',
       lp_verification = ''Require deterministic checks.'',
       lp_state = ''Persist canonical evidence.'',
       lp_human_gates = ''Apply repository governance.''\<rparr>,
     re_trigger = \<lparr>tr_mode = ''explicit_issue'',
       tr_canonical_url = ''https://github.com/fixture/external-repair/issues/101'',
       tr_repository = ''fixture/external-repair'',
       tr_default_branch = ''main'',
       tr_pinned_base_commit = replicate 40 (CHR ''1'')\<rparr>,
     re_discovery = \<lparr>di_snapshot_limit = 50,
       di_candidate_limit = 10,
       di_selected_limit = 1\<rparr>,
     re_budgets = \<lparr>bu_wall_clock_seconds = 28800,
       bu_clone_count = 1,
       bu_test_runs = 20,
       bu_retry_count = 3,
       bu_repair_count = 1,
       bu_publication_count = 1\<rparr>,
     re_governance = \<lparr>eg_ownership_class = ''external'',
       eg_allowed_actions = [''push_operator_fork'', ''open_upstream_draft_pr''],
       eg_denied_actions = [''push_upstream'', ''open_ready_pr'', ''mark_ready'', ''approve_review'', ''merge'', ''mutate_issue'', ''publish_release''],
       eg_sole_control_auto_merge_opt_in = False\<rparr>,
     re_routing = \<lparr>ro_default_branch = ''main'',
       ro_pinned_base_commit = replicate 40 (CHR ''1''),
       ro_fork_owner = Some ''operator'',
       ro_repair_branch = ''codex/repair-issue'',
       ro_protected_path_classes = [''dependency'', ''workflow'', ''credential'', ''permission'', ''policy'', ''schema'', ''migration'', ''release'', ''security_boundary'', ''generated_artifact''],
       ro_required_checks = [''test'', ''lint'']\<rparr>,
     re_created_at = ''2026-07-27T16:00:00Z'',
     re_expires_at = ''2026-07-28T00:00:00Z'',
     re_canonical_digest = replicate 64 (CHR ''a''),
     re_predecessor_digest = None,
     re_lineage = \<lparr>li_kind = ''origin'',
       li_predecessor_run_id = None,
       li_predecessor_digest = None\<rparr>,
     re_stop_conditions = [''policy_ambiguity'', ''security_sensitive'', ''digest_mismatch'', ''required_check_conflict''],
     re_terminal_statuses = [''completed'', ''blocked'', ''expired'']\<rparr>"

definition external_candidate :: candidate_decision where
  "external_candidate =
     \<lparr>cd_schema = ''ao.architecture.autonomous-issue-repair.candidate-decision.v1'',
     cd_run_id = ''repair-run-20260728'',
     cd_repository = ''fixture/external-repair'',
     cd_base_sha = replicate 40 (CHR ''1''),
     cd_issue_number = 101,
     cd_rank = 1,
     cd_decision = ''selected'',
     cd_eligibility = \<lparr>ce_open_bug = True,
       ce_target_in_repository = True,
       ce_no_existing_fix = True,
       ce_current_head_unfixed = True,
       ce_security_sensitive = False,
       ce_public_reproduction_feasible = True,
       ce_deterministic_local_reproduction = True,
       ce_expected_behavior_grounded = True,
       ce_bounded_policy_compatible = True\<rparr>,
     cd_reason_codes = [''eligible_all_predicates_passed''],
     cd_evidence_digests = [replicate 64 (CHR ''6'')],
     cd_expected_behavior_source = ''tests'',
     cd_decided_at = ''2026-07-27T22:00:00Z'',
     cd_decision_digest = replicate 64 (CHR ''a'')\<rparr>"

definition external_governance :: governance_decision where
  "external_governance =
     \<lparr>gd_schema = ''ao.architecture.autonomous-issue-repair.governance-decision.v1'',
     gd_run_id = ''repair-run-20260728'',
     gd_repository = ''fixture/external-repair'',
     gd_base_sha = replicate 40 (CHR ''1''),
     gd_head_sha = replicate 40 (CHR ''b''),
     gd_governance_class = ''external'',
     gd_classification_sources = [''repository_policy''],
     gd_push_target = ''operator_owned_fork'',
     gd_pull_request_mode = ''upstream_draft_only'',
     gd_merge = \<lparr>md_authorized = False,
       md_mode = ''never'',
       md_approval_kind = ''none'',
       md_approval_head_sha = None,
       md_auto_merge_opt_in = False,
       md_branch_protection_bypassed = False\<rparr>,
     gd_protected_path_touched = False,
     gd_required_checks = [\<lparr>ck_name = ''test'',
       ck_conclusion = ''success'',
       ck_head_sha = replicate 40 (CHR ''b'')\<rparr>, \<lparr>ck_name = ''lint'',
       ck_conclusion = ''success'',
       ck_head_sha = replicate 40 (CHR ''b'')\<rparr>],
     gd_action_digest_required = True,
     gd_decided_at = ''2026-07-27T23:10:00Z'',
     gd_decision_digest = replicate 64 (CHR ''a'')\<rparr>"

definition external_reviewer :: reviewer_independence where
  "external_reviewer =
     \<lparr>ri_schema = ''ao.architecture.autonomous-issue-repair.reviewer-independence.v1'',
     ri_run_id = ''repair-run-20260728'',
     ri_subject_digest = replicate 64 (CHR ''f''),
     ri_reviewer_id = ''independent-reviewer'',
     ri_status = ''independent'',
     ri_deterministic_tests_primary = True,
     ri_satisfies_team_merge_gate = False,
     ri_reviewed_at = ''2026-07-27T23:15:00Z'',
     ri_review_digest = replicate 64 (CHR ''a'')\<rparr>"

definition external_action :: github_action_digest where
  "external_action =
     \<lparr>ad_schema = ''ao.architecture.autonomous-issue-repair.github-action-digest.v1'',
     ad_run_id = ''repair-run-20260728'',
     ad_repository = ''fixture/external-repair'',
     ad_issue_number = 101,
     ad_base_sha = replicate 40 (CHR ''1''),
     ad_head_sha = replicate 40 (CHR ''b''),
     ad_fork = Some ''operator/external-repair'',
     ad_branch = ''codex/repair-issue'',
     ad_pr_title_digest = replicate 64 (CHR ''d''),
     ad_pr_body_digest = replicate 64 (CHR ''e''),
     ad_diff_digest = replicate 64 (CHR ''f''),
     ad_required_checks = [\<lparr>ck_name = ''test'',
       ck_conclusion = ''success'',
       ck_head_sha = replicate 40 (CHR ''b'')\<rparr>, \<lparr>ck_name = ''lint'',
       ck_conclusion = ''success'',
       ck_head_sha = replicate 40 (CHR ''b'')\<rparr>],
     ad_action = ''open_upstream_draft_pr'',
     ad_approved_at = ''2026-07-27T23:20:00Z'',
     ad_expires_at = ''2026-07-28T00:00:00Z'',
     ad_run_envelope_digest = replicate 64 (CHR ''a''),
     ad_candidate_decision_digest = replicate 64 (CHR ''a''),
     ad_governance_decision_digest = replicate 64 (CHR ''a''),
     ad_reviewer_independence_digest = replicate 64 (CHR ''a''),
     ad_action_digest = replicate 64 (CHR ''a'')\<rparr>"

definition external_request :: governance_request where
  "external_request =
     \<lparr>gr_schema_version = ''covenant.autonomous-repair-governance-request.v1'',
       gr_request_id = ''repair-run-20260728'',
       gr_mode = ''write'',
       gr_repository = ''fixture/external-repair'',
       gr_ownership_class_assertion = Some ''external'',
       gr_issue_number = Some (101),
       gr_action = ''open_upstream_draft_pr'',
       gr_current_base_sha = replicate 40 (CHR ''1''),
       gr_changed_path_classes = [''source''],
       gr_approved_action_digest = replicate 64 (CHR ''a''),
       gr_run_envelope = Some external_envelope,
       gr_candidate_decision = Some external_candidate,
       gr_governance_decision = Some external_governance,
       gr_reviewer_independence = Some external_reviewer,
       gr_github_action_digest = Some external_action\<rparr>"

definition sole_envelope :: run_envelope where
  "sole_envelope =
     \<lparr>re_schema = ''ao.architecture.autonomous-issue-repair.run-envelope.v1'',
     re_run_id = ''repair-run-20260728'',
     re_loop = \<lparr>lp_goal = ''Repair one controlled fixture.'',
       lp_trigger = ''Use an exact repository policy.'',
       lp_discovery = ''Use bounded discovery.'',
       lp_action = ''Perform one bounded action.'',
       lp_verification = ''Require deterministic checks.'',
       lp_state = ''Persist canonical evidence.'',
       lp_human_gates = ''Apply repository governance.''\<rparr>,
     re_trigger = \<lparr>tr_mode = ''explicit_issue'',
       tr_canonical_url = ''https://github.com/fixture/sole-repair/issues/101'',
       tr_repository = ''fixture/sole-repair'',
       tr_default_branch = ''main'',
       tr_pinned_base_commit = replicate 40 (CHR ''1'')\<rparr>,
     re_discovery = \<lparr>di_snapshot_limit = 50,
       di_candidate_limit = 10,
       di_selected_limit = 1\<rparr>,
     re_budgets = \<lparr>bu_wall_clock_seconds = 28800,
       bu_clone_count = 1,
       bu_test_runs = 20,
       bu_retry_count = 3,
       bu_repair_count = 1,
       bu_publication_count = 1\<rparr>,
     re_governance = \<lparr>eg_ownership_class = ''sole_control'',
       eg_allowed_actions = [''open_ready_pr'', ''auto_merge''],
       eg_denied_actions = [''push_upstream'', ''open_ready_pr'', ''mark_ready'', ''approve_review'', ''merge'', ''mutate_issue'', ''publish_release''],
       eg_sole_control_auto_merge_opt_in = True\<rparr>,
     re_routing = \<lparr>ro_default_branch = ''main'',
       ro_pinned_base_commit = replicate 40 (CHR ''1''),
       ro_fork_owner = None,
       ro_repair_branch = ''codex/repair-issue'',
       ro_protected_path_classes = [''dependency'', ''workflow'', ''credential'', ''permission'', ''policy'', ''schema'', ''migration'', ''release'', ''security_boundary'', ''generated_artifact''],
       ro_required_checks = [''test'', ''lint'']\<rparr>,
     re_created_at = ''2026-07-27T16:00:00Z'',
     re_expires_at = ''2026-07-28T00:00:00Z'',
     re_canonical_digest = replicate 64 (CHR ''a''),
     re_predecessor_digest = None,
     re_lineage = \<lparr>li_kind = ''origin'',
       li_predecessor_run_id = None,
       li_predecessor_digest = None\<rparr>,
     re_stop_conditions = [''policy_ambiguity'', ''security_sensitive'', ''digest_mismatch'', ''required_check_conflict''],
     re_terminal_statuses = [''completed'', ''blocked'', ''expired'']\<rparr>"

definition sole_candidate :: candidate_decision where
  "sole_candidate =
     \<lparr>cd_schema = ''ao.architecture.autonomous-issue-repair.candidate-decision.v1'',
     cd_run_id = ''repair-run-20260728'',
     cd_repository = ''fixture/sole-repair'',
     cd_base_sha = replicate 40 (CHR ''1''),
     cd_issue_number = 101,
     cd_rank = 1,
     cd_decision = ''selected'',
     cd_eligibility = \<lparr>ce_open_bug = True,
       ce_target_in_repository = True,
       ce_no_existing_fix = True,
       ce_current_head_unfixed = True,
       ce_security_sensitive = False,
       ce_public_reproduction_feasible = True,
       ce_deterministic_local_reproduction = True,
       ce_expected_behavior_grounded = True,
       ce_bounded_policy_compatible = True\<rparr>,
     cd_reason_codes = [''eligible_all_predicates_passed''],
     cd_evidence_digests = [replicate 64 (CHR ''6'')],
     cd_expected_behavior_source = ''tests'',
     cd_decided_at = ''2026-07-27T22:00:00Z'',
     cd_decision_digest = replicate 64 (CHR ''a'')\<rparr>"

definition sole_governance :: governance_decision where
  "sole_governance =
     \<lparr>gd_schema = ''ao.architecture.autonomous-issue-repair.governance-decision.v1'',
     gd_run_id = ''repair-run-20260728'',
     gd_repository = ''fixture/sole-repair'',
     gd_base_sha = replicate 40 (CHR ''1''),
     gd_head_sha = replicate 40 (CHR ''b''),
     gd_governance_class = ''sole_control'',
     gd_classification_sources = [''repository_policy''],
     gd_push_target = ''policy_authorized_branch'',
     gd_pull_request_mode = ''draft_or_ready_by_policy'',
     gd_merge = \<lparr>md_authorized = True,
       md_mode = ''auto_merge'',
       md_approval_kind = ''none'',
       md_approval_head_sha = None,
       md_auto_merge_opt_in = True,
       md_branch_protection_bypassed = False\<rparr>,
     gd_protected_path_touched = False,
     gd_required_checks = [\<lparr>ck_name = ''test'',
       ck_conclusion = ''success'',
       ck_head_sha = replicate 40 (CHR ''b'')\<rparr>, \<lparr>ck_name = ''lint'',
       ck_conclusion = ''success'',
       ck_head_sha = replicate 40 (CHR ''b'')\<rparr>],
     gd_action_digest_required = True,
     gd_decided_at = ''2026-07-27T23:10:00Z'',
     gd_decision_digest = replicate 64 (CHR ''a'')\<rparr>"

definition sole_reviewer :: reviewer_independence where
  "sole_reviewer =
     \<lparr>ri_schema = ''ao.architecture.autonomous-issue-repair.reviewer-independence.v1'',
     ri_run_id = ''repair-run-20260728'',
     ri_subject_digest = replicate 64 (CHR ''f''),
     ri_reviewer_id = ''independent-reviewer'',
     ri_status = ''independent'',
     ri_deterministic_tests_primary = True,
     ri_satisfies_team_merge_gate = False,
     ri_reviewed_at = ''2026-07-27T23:15:00Z'',
     ri_review_digest = replicate 64 (CHR ''a'')\<rparr>"

definition sole_action :: github_action_digest where
  "sole_action =
     \<lparr>ad_schema = ''ao.architecture.autonomous-issue-repair.github-action-digest.v1'',
     ad_run_id = ''repair-run-20260728'',
     ad_repository = ''fixture/sole-repair'',
     ad_issue_number = 101,
     ad_base_sha = replicate 40 (CHR ''1''),
     ad_head_sha = replicate 40 (CHR ''b''),
     ad_fork = None,
     ad_branch = ''codex/repair-issue'',
     ad_pr_title_digest = replicate 64 (CHR ''d''),
     ad_pr_body_digest = replicate 64 (CHR ''e''),
     ad_diff_digest = replicate 64 (CHR ''f''),
     ad_required_checks = [\<lparr>ck_name = ''test'',
       ck_conclusion = ''success'',
       ck_head_sha = replicate 40 (CHR ''b'')\<rparr>, \<lparr>ck_name = ''lint'',
       ck_conclusion = ''success'',
       ck_head_sha = replicate 40 (CHR ''b'')\<rparr>],
     ad_action = ''auto_merge'',
     ad_approved_at = ''2026-07-27T23:20:00Z'',
     ad_expires_at = ''2026-07-28T00:00:00Z'',
     ad_run_envelope_digest = replicate 64 (CHR ''a''),
     ad_candidate_decision_digest = replicate 64 (CHR ''a''),
     ad_governance_decision_digest = replicate 64 (CHR ''a''),
     ad_reviewer_independence_digest = replicate 64 (CHR ''a''),
     ad_action_digest = replicate 64 (CHR ''a'')\<rparr>"

definition sole_request :: governance_request where
  "sole_request =
     \<lparr>gr_schema_version = ''covenant.autonomous-repair-governance-request.v1'',
       gr_request_id = ''repair-run-20260728'',
       gr_mode = ''write'',
       gr_repository = ''fixture/sole-repair'',
       gr_ownership_class_assertion = Some ''sole_control'',
       gr_issue_number = Some (101),
       gr_action = ''auto_merge'',
       gr_current_base_sha = replicate 40 (CHR ''1''),
       gr_changed_path_classes = [''source''],
       gr_approved_action_digest = replicate 64 (CHR ''a''),
       gr_run_envelope = Some sole_envelope,
       gr_candidate_decision = Some sole_candidate,
       gr_governance_decision = Some sole_governance,
       gr_reviewer_independence = Some sole_reviewer,
       gr_github_action_digest = Some sole_action\<rparr>"

definition repair_now :: instant where
  "repair_now = Instant 63920791800000000000"

lemma repair_now_text: "parse_rfc3339 ''2026-07-27T23:30:00Z'' = Some repair_now"
  by code_simp

lemma repair_policy_valid: "valid_governance_policy repair_policy"
  by code_simp

definition team_policy :: repository_policy where
  "team_policy = the (map_of (gp_repository_policies repair_policy) ''fixture/team-repair'')"

lemma team_policy_of: "repository_policy_of repair_policy (gr_repository team_request) = (team_policy, True)"
  by code_simp

lemma team_documents:
  "documents team_request team_envelope team_candidate team_governance team_reviewer team_action"
  by (simp add: documents_def team_request_def)

lemma team_digests:
  "digests_match repair_sha
     (digested_documents team_envelope team_candidate team_governance team_reviewer team_action)"
  by (simp add: digests_match_iff digested_documents_def canonical_digest_def repair_sha_def repair_digest_def
      run_envelope_json_def candidate_decision_json_def governance_decision_json_def
      reviewer_independence_json_def github_action_digest_json_def
      team_envelope_def team_candidate_def team_governance_def team_reviewer_def team_action_def)

lemma team_shapes:
  "valid_envelope_shape team_envelope" "valid_candidate_shape team_candidate"
  "valid_governance_shape team_governance" "valid_reviewer_shape team_reviewer" "valid_action_shape team_action"
  by code_simp+

lemma team_checks:
  "silent (document_reasons repair_policy team_policy True team_request
     team_envelope team_candidate team_governance team_reviewer team_action repair_now)"
  by code_simp

lemma team_holds:
  "authority_holds repair_sha repair_policy team_policy True team_request
     team_envelope team_candidate team_governance team_reviewer team_action repair_now"
proof -
  note d = team_documents [unfolded documents_def]
  have "validate_repair_authority repair_sha repair_policy team_policy True team_request repair_now = []"
    using authority_silent d team_shapes team_digests team_checks unfolding valid_document_shapes_def by blast
  with authority_accepts d show ?thesis by blast
qed

lemma team_request_ok:
  "validate_request_shape team_request = []" "gr_mode team_request = ''write''"
  "gr_ownership_class_assertion team_request = Some (rpo_repository_class team_policy)"
  by code_simp+

lemma team_authorized:
  "au_mutation_authorized (evaluate_repair_governance repair_sha (\<lambda>_. True) repair_policy team_request repair_now)"
  unfolding mutation_iff_authority [OF team_policy_of]
  using repair_policy_valid team_request_ok team_documents team_holds unfolding request_admitted_def by blast

definition external_policy :: repository_policy where
  "external_policy = the (map_of (gp_repository_policies repair_policy) ''fixture/external-repair'')"

lemma external_policy_of: "repository_policy_of repair_policy (gr_repository external_request) = (external_policy, True)"
  by code_simp

lemma external_documents:
  "documents external_request external_envelope external_candidate external_governance external_reviewer external_action"
  by (simp add: documents_def external_request_def)

lemma external_digests:
  "digests_match repair_sha
     (digested_documents external_envelope external_candidate external_governance external_reviewer external_action)"
  by (simp add: digests_match_iff digested_documents_def canonical_digest_def repair_sha_def repair_digest_def
      run_envelope_json_def candidate_decision_json_def governance_decision_json_def
      reviewer_independence_json_def github_action_digest_json_def
      external_envelope_def external_candidate_def external_governance_def external_reviewer_def external_action_def)

lemma external_shapes:
  "valid_envelope_shape external_envelope" "valid_candidate_shape external_candidate"
  "valid_governance_shape external_governance" "valid_reviewer_shape external_reviewer" "valid_action_shape external_action"
  by code_simp+

lemma external_checks:
  "silent (document_reasons repair_policy external_policy True external_request
     external_envelope external_candidate external_governance external_reviewer external_action repair_now)"
  by code_simp

lemma external_holds:
  "authority_holds repair_sha repair_policy external_policy True external_request
     external_envelope external_candidate external_governance external_reviewer external_action repair_now"
proof -
  note d = external_documents [unfolded documents_def]
  have "validate_repair_authority repair_sha repair_policy external_policy True external_request repair_now = []"
    using authority_silent d external_shapes external_digests external_checks unfolding valid_document_shapes_def by blast
  with authority_accepts d show ?thesis by blast
qed

lemma external_request_ok:
  "validate_request_shape external_request = []" "gr_mode external_request = ''write''"
  "gr_ownership_class_assertion external_request = Some (rpo_repository_class external_policy)"
  by code_simp+

lemma external_authorized:
  "au_mutation_authorized (evaluate_repair_governance repair_sha (\<lambda>_. True) repair_policy external_request repair_now)"
  unfolding mutation_iff_authority [OF external_policy_of]
  using repair_policy_valid external_request_ok external_documents external_holds unfolding request_admitted_def by blast

definition sole_policy :: repository_policy where
  "sole_policy = the (map_of (gp_repository_policies repair_policy) ''fixture/sole-repair'')"

lemma sole_policy_of: "repository_policy_of repair_policy (gr_repository sole_request) = (sole_policy, True)"
  by code_simp

lemma sole_documents:
  "documents sole_request sole_envelope sole_candidate sole_governance sole_reviewer sole_action"
  by (simp add: documents_def sole_request_def)

lemma sole_digests:
  "digests_match repair_sha
     (digested_documents sole_envelope sole_candidate sole_governance sole_reviewer sole_action)"
  by (simp add: digests_match_iff digested_documents_def canonical_digest_def repair_sha_def repair_digest_def
      run_envelope_json_def candidate_decision_json_def governance_decision_json_def
      reviewer_independence_json_def github_action_digest_json_def
      sole_envelope_def sole_candidate_def sole_governance_def sole_reviewer_def sole_action_def)

lemma sole_shapes:
  "valid_envelope_shape sole_envelope" "valid_candidate_shape sole_candidate"
  "valid_governance_shape sole_governance" "valid_reviewer_shape sole_reviewer" "valid_action_shape sole_action"
  by code_simp+

lemma sole_checks:
  "silent (document_reasons repair_policy sole_policy True sole_request
     sole_envelope sole_candidate sole_governance sole_reviewer sole_action repair_now)"
  by code_simp

lemma sole_holds:
  "authority_holds repair_sha repair_policy sole_policy True sole_request
     sole_envelope sole_candidate sole_governance sole_reviewer sole_action repair_now"
proof -
  note d = sole_documents [unfolded documents_def]
  have "validate_repair_authority repair_sha repair_policy sole_policy True sole_request repair_now = []"
    using authority_silent d sole_shapes sole_digests sole_checks unfolding valid_document_shapes_def by blast
  with authority_accepts d show ?thesis by blast
qed

lemma sole_request_ok:
  "validate_request_shape sole_request = []" "gr_mode sole_request = ''write''"
  "gr_ownership_class_assertion sole_request = Some (rpo_repository_class sole_policy)"
  by code_simp+

lemma sole_authorized:
  "au_mutation_authorized (evaluate_repair_governance repair_sha (\<lambda>_. True) repair_policy sole_request repair_now)"
  unfolding mutation_iff_authority [OF sole_policy_of]
  using repair_policy_valid sole_request_ok sole_documents sole_holds unfolding request_admitted_def by blast

lemma team_class: "rpo_repository_class team_policy = ''team''"
  and external_class: "rpo_repository_class external_policy = ''external''"
  by code_simp+

lemma ascii_literals:
  "is_ascii_char (Char a b c d e f g False)" "is_ascii (replicate n x) \<longleftrightarrow> n = 0 \<or> is_ascii_char x"
  by (auto simp: is_ascii_char_def of_char_def is_ascii_def list_all_iff)

lemma external_utf8:
  "documents_utf8 external_envelope external_candidate external_governance external_reviewer external_action"
  by (simp add: documents_utf8_def digested_documents_def valid_utf8_ascii ascii_literals JStrs_def JOpt_def
      run_envelope_json_def candidate_decision_json_def governance_decision_json_def
      reviewer_independence_json_def github_action_digest_json_def repair_loop_json_def repair_trigger_json_def
      repair_discovery_json_def repair_budgets_json_def envelope_governance_json_def repair_routing_json_def
      repair_lineage_json_def candidate_eligibility_json_def merge_decision_json_def required_check_json_def
      external_envelope_def external_candidate_def external_governance_def external_reviewer_def external_action_def)

text \<open>The two requests were approved under one digest, for different documents: the stand-in for the hash collides.\<close>

lemma team_external_digest: "gr_approved_action_digest team_request = gr_approved_action_digest external_request"
  by code_simp

lemma team_external_differ: "team_action \<noteq> external_action"
  by code_simp

lemma team_utf8: "documents_utf8 team_envelope team_candidate team_governance team_reviewer team_action"
  by (simp add: documents_utf8_def digested_documents_def valid_utf8_ascii ascii_literals JStrs_def JOpt_def
      run_envelope_json_def candidate_decision_json_def governance_decision_json_def
      reviewer_independence_json_def github_action_digest_json_def repair_loop_json_def repair_trigger_json_def
      repair_discovery_json_def repair_budgets_json_def envelope_governance_json_def repair_routing_json_def
      repair_lineage_json_def candidate_eligibility_json_def merge_decision_json_def required_check_json_def
      team_envelope_def team_candidate_def team_governance_def team_reviewer_def team_action_def)

end
