(* ===== verification/Go_Any.thy ===== *)
theory Go_Any
  imports Go_Json
begin

text \<open>
  Documents decoded by \<open>encoding/json\<close> into \<open>map[string]any\<close>, and the accessors of
  \<open>policy/governance_authority.go\<close> and \<open>policy/claim_gate.go\<close> on them. A value is one of the
  dynamic types the code distinguishes. A Go map is the list of its entries; a missing key reads
  as the nil interface, which is also JSON null.

  A number is a \<open>float64\<close>: a mantissa and a power of two, or the negative zero. Conversion to
  \<open>int\<close> truncates; outside the range of 64 bits the language leaves the result open, and so does
  the model (\<open>undefined\<close>). \<open>json.Marshal\<close> prints an integral float below \<open>2 ^ 53\<close> as its decimal
  numeral; the shortest decimal of the others is left open.
\<close>

datatype float64 = NegZero | Float64 (mantissa: int) (exponent: int)

datatype go_any =
    AnyNil
  | AnyBool bool
  | AnyFloat float64
  | AnyInt int
  | AnyStr string
  | AnyArr "go_any list"
  | AnyMap "(string \<times> go_any) list"

type_synonym any_map = "(string \<times> go_any) list"

subsection \<open>Numbers\<close>

text \<open>Truncation toward zero.\<close>

definition float_truncated :: "float64 \<Rightarrow> int" where
  "float_truncated x = (case x of NegZero \<Rightarrow> 0
     | Float64 m e \<Rightarrow> if 0 \<le> e then m * 2 ^ nat e
                      else if m < 0 then - ((- m) div 2 ^ nat (- e)) else m div 2 ^ nat (- e))"

definition float_int :: "float64 \<Rightarrow> int" where
  "float_int x = (let n = float_truncated x in
     if - (2 ^ 63) \<le> n \<and> n < 2 ^ 63 then n else undefined x)"

definition float_integral :: "float64 \<Rightarrow> bool" where
  "float_integral x = (case x of NegZero \<Rightarrow> False
     | Float64 m e \<Rightarrow> 0 \<le> e \<or> m mod 2 ^ nat (- e) = 0)"

definition float_text :: "float64 \<Rightarrow> string" where
  "float_text x = (case x of NegZero \<Rightarrow> ''-0''
     | _ \<Rightarrow> if float_integral x \<and> \<bar>float_truncated x\<bar> < 2 ^ 53 then int_text (float_truncated x)
           else undefined x)"

subsection \<open>json.Marshal of a dynamic value\<close>

fun any_text :: "go_any \<Rightarrow> string" where
  "any_text AnyNil = ''null''"
| "any_text (AnyBool b) = (if b then ''true'' else ''false'')"
| "any_text (AnyFloat x) = float_text x"
| "any_text (AnyInt i) = int_text i"
| "any_text (AnyStr s) = json_string s"
| "any_text (AnyArr vs) = CHR ''['' # join_with '','' (map any_text vs) @ '']''"
| "any_text (AnyMap fs) =
     CHR 0x7B # join_with '',''
       (map snd (sort_key fst (map (\<lambda>(k, v). (k, json_string k @ '':'' @ any_text v)) fs))) @
     [CHR 0x7D]"

subsection \<open>Accessors\<close>

text \<open>\<open>document[key]\<close>\<close>

definition any_get :: "any_map \<Rightarrow> string \<Rightarrow> go_any" where
  "any_get m k = (case map_of m k of None \<Rightarrow> AnyNil | Some v \<Rightarrow> v)"

definition string_field :: "any_map \<Rightarrow> string \<Rightarrow> string" where
  "string_field m k = (case any_get m k of AnyStr s \<Rightarrow> s | _ \<Rightarrow> [])"

definition bool_field :: "any_map \<Rightarrow> string \<Rightarrow> bool" where
  "bool_field m k = (case any_get m k of AnyBool b \<Rightarrow> b | _ \<Rightarrow> False)"

definition int_field :: "any_map \<Rightarrow> string \<Rightarrow> int" where
  "int_field m k = (case any_get m k of AnyFloat x \<Rightarrow> float_int x | AnyInt i \<Rightarrow> i | _ \<Rightarrow> 0)"

text \<open>\<open>value.(map[string]any)\<close>\<close>

definition as_map :: "go_any \<Rightarrow> any_map option" where
  "as_map v = (case v of AnyMap m \<Rightarrow> Some m | _ \<Rightarrow> None)"

lemma as_map_AnyMap [simp]: "as_map (AnyMap m) = Some m"
  by (simp add: as_map_def)

lemma as_map_None [simp]: "as_map v = None \<longleftrightarrow> (\<forall>m. v \<noteq> AnyMap m)"
  by (cases v) (simp_all add: as_map_def)

fun collect_strings :: "go_any list \<Rightarrow> string list option" where
  "collect_strings [] = Some []"
| "collect_strings (v # vs) = (case v of
      AnyStr s \<Rightarrow> map_option (\<lambda>ss. s # ss) (collect_strings vs)
    | _ \<Rightarrow> None)"

definition string_slice :: "go_any \<Rightarrow> string list option" where
  "string_slice v = (case v of AnyArr vs \<Rightarrow> collect_strings vs | _ \<Rightarrow> None)"

fun collect_maps :: "go_any list \<Rightarrow> any_map list option" where
  "collect_maps [] = Some []"
| "collect_maps (v # vs) = (case v of
      AnyMap m \<Rightarrow> map_option (\<lambda>ms. m # ms) (collect_maps vs)
    | _ \<Rightarrow> None)"

definition map_slice :: "go_any \<Rightarrow> any_map list option" where
  "map_slice v = (case v of AnyArr vs \<Rightarrow> collect_maps vs | _ \<Rightarrow> None)"

definition json_equivalent :: "go_any \<Rightarrow> go_any \<Rightarrow> bool" where
  "json_equivalent a b \<longleftrightarrow> any_text a = any_text b"

fun array_contains :: "go_any list \<Rightarrow> string \<Rightarrow> bool" where
  "array_contains [] want = False"
| "array_contains (v # vs) want = (if v = AnyStr want then True else array_contains vs want)"

definition string_array_contains :: "go_any \<Rightarrow> string \<Rightarrow> bool" where
  "string_array_contains v want = (case v of AnyArr vs \<Rightarrow> array_contains vs want | _ \<Rightarrow> False)"

lemma collect_strings_Some: "collect_strings vs = Some ss \<longleftrightarrow> vs = map AnyStr ss"
proof (induction vs arbitrary: ss)
  case (Cons v vs)
  show ?case by (cases v; cases ss) (auto simp: Cons.IH)
qed auto

lemma string_slice_Some: "string_slice v = Some ss \<longleftrightarrow> v = AnyArr (map AnyStr ss)"
  by (cases v) (auto simp: string_slice_def collect_strings_Some)

lemma collect_maps_Some: "collect_maps vs = Some ms \<longleftrightarrow> vs = map AnyMap ms"
proof (induction vs arbitrary: ms)
  case (Cons v vs)
  show ?case by (cases v; cases ms) (auto simp: Cons.IH)
qed auto

lemma map_slice_Some: "map_slice v = Some ms \<longleftrightarrow> v = AnyArr (map AnyMap ms)"
  by (cases v) (auto simp: map_slice_def collect_maps_Some)

lemma array_contains_iff: "array_contains vs want \<longleftrightarrow> AnyStr want \<in> set vs"
  by (induction vs) auto

lemma as_map_Some [simp]: "as_map v = Some m \<longleftrightarrow> v = AnyMap m"
  by (cases v) (auto simp: as_map_def)

end
