(* ===== verification/Authority.thy ===== *)
theory Authority
  imports Go_Any Go_Time
begin

text \<open>
  The authority tickets of \<open>policy/governance_authority.go\<close>: the validation of a mutation-class
  ticket against its request, of the plan over several repositories, and of the live policy for
  low-risk code. \<open>sha\<close> is the hexadecimal SHA-256; marshalling a decoded document cannot fail.
  As elsewhere an error is its text, of which the part made by \<open>time.Parse\<close> is left open.
\<close>

subsection \<open>Helpers\<close>

definition mutation_classes :: "string list" where
  "mutation_classes = [''docs_only_single_file'', ''docs_only_multi_file'', ''docs_config_only'', ''test_only'',
     ''low_risk_code'', ''multi_repo_low_risk'', ''complex_repo_mutation'']"

definition valid_mutation_class :: "string \<Rightarrow> bool" where
  "valid_mutation_class c \<longleftrightarrow> c \<in> set mutation_classes"

definition digest_scope :: "(string \<Rightarrow> string) \<Rightarrow> any_map \<Rightarrow> string" where
  "digest_scope sha scope = sha (any_text (AnyMap scope))"

text \<open>The loop over fields that must be equivalent in two documents.\<close>

definition equivalent_fields :: "any_map \<Rightarrow> any_map \<Rightarrow> string list \<Rightarrow> bool" where
  "equivalent_fields a b fields \<longleftrightarrow> list_all (\<lambda>f. json_equivalent (any_get a f) (any_get b f)) fields"

text \<open>The checks on a digest object and on a boundaries object.\<close>

definition check_digest :: "(string \<Rightarrow> string) \<Rightarrow> any_map \<Rightarrow> string \<Rightarrow> any_map \<Rightarrow> go_error option" where
  "check_digest sha doc covered scope =
     (case as_map (any_get doc ''scope_digest'') of
        None \<Rightarrow> Some (Errorf ''scope_digest is required'')
      | Some digest \<Rightarrow> first_error
          [fail_if (string_field digest ''algorithm'' \<noteq> ''sha256'')
             (Errorf ''scope_digest algorithm must be sha256''),
           fail_if (\<not> string_array_contains (any_get digest ''covers'') covered)
             (Errorf (''scope_digest must cover '' @ covered)),
           fail_if (string_field digest ''value'' \<noteq> digest_scope sha scope)
             (Errorf (''scope_digest does not match '' @ covered))])"

definition check_boundaries :: "any_map \<Rightarrow> string list \<Rightarrow> string list \<Rightarrow> go_error option" where
  "check_boundaries doc trues falses =
     (case as_map (any_get doc ''authority_boundaries'') of
        None \<Rightarrow> Some (Errorf ''authority_boundaries are required'')
      | Some bs \<Rightarrow> first_error
          (map (\<lambda>f. fail_if (\<not> bool_field bs f) (Errorf (''authority boundary '' @ f @ '' must be true''))) trues @
           map (\<lambda>f. fail_if (bool_field bs f) (Errorf (''authority boundary '' @ f @ '' must be false''))) falses))"

subsection \<open>Plans over several repositories\<close>

definition plan_error :: go_error where
  "plan_error = Errorf ''ordered dependency is missing or not earlier''"

text \<open>One entry of the plan: its repository and dependencies, when it passes.\<close>

definition check_plan_entry :: "string list \<Rightarrow> nat \<Rightarrow> (string \<Rightarrow> bool) \<Rightarrow> any_map \<Rightarrow> bool" where
  "check_plan_entry order index seen entry =
     (let repo = string_field entry ''repo'' in
      \<not> (repo = [] \<or> repo \<noteq> order ! index \<or> int_field entry ''order'' \<noteq> int index + 1 \<or>
         string_field entry ''planned_pr'' = []) \<and>
      (case string_slice (any_get entry ''depends_on'') of
         None \<Rightarrow> False
       | Some dependencies \<Rightarrow>
           (case string_slice (any_get entry ''merge_after'') of
              None \<Rightarrow> False
            | Some merge_after \<Rightarrow>
                json_equivalent (any_get entry ''depends_on'') (any_get entry ''merge_after'') \<and>
                list_all seen dependencies \<and> list_all seen merge_after)))"

fun check_plan_entries ::
    "string list \<Rightarrow> nat \<Rightarrow> (string \<Rightarrow> bool) \<Rightarrow> string list \<Rightarrow> any_map list \<Rightarrow> string list go_result" where
  "check_plan_entries order index seen repos [] = Inr repos"
| "check_plan_entries order index seen repos (entry # es) =
     (if \<not> check_plan_entry order index seen entry then Inl plan_error
      else (let repo = string_field entry ''repo'' in
            check_plan_entries order (index + 1) (seen(repo := True)) (repos @ [repo]) es))"

definition validate_ordered_plan :: "any_map \<Rightarrow> string list go_result" where
  "validate_ordered_plan plan =
     (case string_slice (any_get plan ''order'') of
        None \<Rightarrow> Inl plan_error
      | Some order \<Rightarrow>
          if order = [] then Inl plan_error
          else (case map_slice (any_get plan ''ordered_merge_plan'') of
                  None \<Rightarrow> Inl plan_error
                | Some entries \<Rightarrow>
                    if length entries \<noteq> length order then Inl plan_error
                    else check_plan_entries order 0 (\<lambda>_. False) [] entries))"

text \<open>\<open>byRepo\<close>: a later entry of a repository replaces an earlier one.\<close>

definition entries_by_repo :: "any_map list \<Rightarrow> string \<Rightarrow> any_map option" where
  "entries_by_repo entries = foldl (\<lambda>m entry. m(string_field entry ''repo'' \<mapsto> entry)) (\<lambda>_. None) entries"

text \<open>The loop over the planned repositories: each needs an entry that passes a test.\<close>

definition check_repos ::
    "string \<Rightarrow> (any_map \<Rightarrow> bool) \<Rightarrow> string list \<Rightarrow> go_any \<Rightarrow> go_error option" where
  "check_repos msg good repos value =
     (case map_slice value of
        None \<Rightarrow> Some (Errorf msg)
      | Some entries \<Rightarrow> first_error (map (\<lambda>repo.
          fail_if (case entries_by_repo entries repo of None \<Rightarrow> True | Some entry \<Rightarrow> \<not> good entry) (Errorf msg)) repos))"

definition rollback_ready :: "any_map \<Rightarrow> bool" where
  "rollback_ready entry \<longleftrightarrow>
     string_field entry ''status'' = ''ready'' \<and>
     (case string_slice (any_get entry ''rollback_scope'') of None \<Rightarrow> False | Some scope \<Rightarrow> scope \<noteq> [])"

definition validate_per_repo_rollback :: "string list \<Rightarrow> go_any \<Rightarrow> go_error option" where
  "validate_per_repo_rollback = check_repos ''per-repo rollback is incomplete'' rollback_ready"

definition ci_passed :: "any_map \<Rightarrow> bool" where
  "ci_passed entry \<longleftrightarrow>
     bool_field entry ''required'' \<and>
     (string_field entry ''status'' = ''passed'' \<or> string_field entry ''status'' = ''success'')"

definition validate_per_repo_ci :: "string list \<Rightarrow> go_any \<Rightarrow> go_error option" where
  "validate_per_repo_ci = check_repos ''per-repo CI is incomplete'' ci_passed"

definition state_fresh :: "instant \<Rightarrow> any_map \<Rightarrow> bool" where
  "state_fresh now entry \<longleftrightarrow>
     string_field entry ''status'' = ''clean_synced'' \<and> string_field entry ''branch'' = ''main'' \<and>
     (case (parse_rfc3339 (string_field entry ''observed_at_utc''), parse_rfc3339 (string_field entry ''expires_at_utc'')) of
        (Some observed, Some expires) \<Rightarrow> \<not> observed > now \<and> expires > now
      | _ \<Rightarrow> False)"

definition validate_fresh_repo_state :: "string list \<Rightarrow> go_any \<Rightarrow> instant \<Rightarrow> go_error option" where
  "validate_fresh_repo_state repos value now = check_repos ''repo state evidence is stale'' (state_fresh now) repos value"

definition validate_multi_repo_scope :: "any_map \<Rightarrow> any_map \<Rightarrow> instant \<Rightarrow> go_error option" where
  "validate_multi_repo_scope request scope now =
     (if \<not> equivalent_fields scope request
            [''multi_repo_plan'', ''per_repo_rollback'', ''ci_by_repo'', ''repo_state_evidence'', ''kill_switch'']
      then Some (Errorf ''ticket scope does not exactly match multi_repo_low_risk request'')
      else (case as_map (any_get scope ''multi_repo_plan'') of
         None \<Rightarrow> Some (Errorf ''multi_repo_low_risk ordered merge plan is required'')
       | Some plan \<Rightarrow>
           if string_field plan ''status'' \<noteq> ''ready''
           then Some (Errorf ''multi_repo_low_risk ordered merge plan is not ready'')
           else (case validate_ordered_plan plan of
                   Inl e \<Rightarrow> Some e
                 | Inr repos \<Rightarrow> first_error
                     [validate_per_repo_rollback repos (any_get scope ''per_repo_rollback''),
                      validate_per_repo_ci repos (any_get scope ''ci_by_repo''),
                      validate_fresh_repo_state repos (any_get scope ''repo_state_evidence'') now,
                      fail_if (case as_map (any_get scope ''kill_switch'') of
                                 None \<Rightarrow> True
                               | Some k \<Rightarrow> \<not> bool_field k ''required'' \<or> string_field k ''status'' \<noteq> ''armed'')
                        (Errorf ''operator kill-switch must be armed for multi_repo_low_risk'')])))"

subsection \<open>Mutation-class tickets\<close>

definition check_ticket_request :: "any_map \<Rightarrow> go_error option" where
  "check_ticket_request request = first_error
     [fail_if (string_field request ''schema_version'' \<noteq> ''ao.foundry.mutation-class-authority-request.v0.1'')
        (Errorf ''request schema_version must be ao.foundry.mutation-class-authority-request.v0.1''),
      fail_if (string_field request ''status'' \<noteq> ''pending_covenant_authority'')
        (Errorf ''request status must be pending_covenant_authority''),
      fail_if (\<not> valid_mutation_class (string_field request ''mutation_class''))
        (Errorf ''request mutation_class is not supported''),
      fail_if (\<not> bool_field request ''safe_to_request'' \<or> bool_field request ''safe_to_execute'')
        (Errorf ''request must be safe_to_request=true and safe_to_execute=false'')]"

definition check_ticket_header :: "any_map \<Rightarrow> any_map \<Rightarrow> instant \<Rightarrow> go_error option" where
  "check_ticket_header request ticket now = first_error
     [fail_if (string_field ticket ''request_id'' \<noteq> string_field request ''request_id'')
        (Errorf ''ticket request_id does not match request''),
      fail_if (string_field ticket ''approval_state'' \<noteq> ''approved'') (Errorf ''approval_state must be approved''),
      fail_if (string_field ticket ''approver_identity'' = []) (Errorf ''approver_identity is required''),
      fail_if (bool_field ticket ''consumed'') (Errorf ''authority ticket has already been consumed''),
      (case parse_rfc3339 (string_field ticket ''expires_at'') of
         None \<Rightarrow> Some (Errorf (''authority ticket expires_at must be RFC3339: '' @
                    undefined (string_field ticket ''expires_at'')))
       | Some expires \<Rightarrow> fail_if (\<not> expires > now) (Errorf ''authority ticket expired'')),
      fail_if (string_field ticket ''mutation_class'' \<noteq> string_field request ''mutation_class'')
        (Errorf ''ticket mutation_class does not match request'')]"

definition check_ticket_scope :: "any_map \<Rightarrow> any_map \<Rightarrow> instant \<Rightarrow> go_error option" where
  "check_ticket_scope request scope now = first_error
     [fail_if (string_field scope ''mutation_class'' \<noteq> string_field request ''mutation_class'')
        (Errorf ''ticket mutation_class does not match request''),
      fail_if (\<not> json_equivalent (any_get scope ''allowed_paths'') (any_get request ''allowed_paths''))
        (Errorf ''ticket path scope is broader than request''),
      fail_if (\<not> json_equivalent (any_get scope ''max_changed_files'') (any_get request ''max_changed_files''))
        (Errorf ''ticket diff limit does not exactly match request''),
      fail_if (\<not> equivalent_fields scope request
                  [''repo'', ''branch_policy'', ''forbidden_paths'', ''required_gates'', ''authority_boundary''])
        (Errorf ''ticket scope does not exactly match request''),
      fail_if (\<not> bool_field request ''rollback_required'' \<or> \<not> bool_field scope ''rollback_required'')
        (Errorf ''rollback is required for mutation-class authority tickets''),
      fail_if (\<not> equivalent_fields scope request [''rollback_scope'', ''rollback_evidence''])
        (Errorf ''ticket rollback scope does not exactly match request''),
      (if string_field request ''mutation_class'' = ''multi_repo_low_risk''
       then validate_multi_repo_scope request scope now else None)]"

definition validate_authority_ticket ::
    "(string \<Rightarrow> string) \<Rightarrow> any_map \<Rightarrow> any_map \<Rightarrow> instant \<Rightarrow> go_error option" where
  "validate_authority_ticket sha request ticket now = first_error
     [check_ticket_request request,
      check_ticket_header request ticket now,
      (case as_map (any_get ticket ''approved_scope'') of
         None \<Rightarrow> Some (Errorf ''approved_scope is required'')
       | Some scope \<Rightarrow> first_error
           [check_ticket_scope request scope now,
            check_digest sha ticket ''approved_scope'' scope,
            check_boundaries ticket [''exact_scope'', ''class_bound'', ''digest_bound'', ''single_use'']
              [''live_mutation_grant'', ''provider_calls_allowed'', ''release_or_publish_allowed'']])]"

subsection \<open>The live policy for low-risk code\<close>

definition require_exact_slice :: "go_any \<Rightarrow> string list \<Rightarrow> string \<Rightarrow> go_error option" where
  "require_exact_slice v want label =
     (case string_slice v of
        None \<Rightarrow> Some (Errorf (label @ '' must be a string array''))
      | Some got \<Rightarrow> fail_if (got \<noteq> want) (Errorf (label @ '' must exactly match selected held candidate'')))"

definition check_dry_run_chain :: "any_map \<Rightarrow> go_error option" where
  "check_dry_run_chain scope =
     (case as_map (any_get scope ''dry_run_chain'') of
        None \<Rightarrow> Some (Errorf ''dry_run_chain is required'')
      | Some chain \<Rightarrow> first_error
          [fail_if (string_field chain ''path'' \<noteq> ''tmp/low-risk-code-live-rehearsal-20260630/chain/summary.json'')
             (Errorf ''dry_run_chain path must be tmp/low-risk-code-live-rehearsal-20260630/chain/summary.json''),
           fail_if (string_field chain ''sha256'' \<noteq> ''046dcdc9a17fcfd60877c8e61d1a15c722f7c34cacdeeb139651f153c6e1196e'')
             (Errorf ''dry_run_chain sha256 must match current held rehearsal chain'')])"

definition check_candidate_repo :: "any_map \<Rightarrow> go_error option" where
  "check_candidate_repo scope =
     (case as_map (any_get scope ''repo'') of
        None \<Rightarrow> Some (Errorf ''repo is required'')
      | Some repo \<Rightarrow> first_error
          [fail_if (string_field repo ''id'' \<noteq> ''ao-atlas'') (Errorf ''repo id must be ao-atlas''),
           fail_if (string_field repo ''remote'' \<noteq> ''uesugitorachiyo/ao-atlas'')
             (Errorf ''repo remote must be uesugitorachiyo/ao-atlas'')])"

definition check_rollback_plan :: "any_map \<Rightarrow> go_error option" where
  "check_rollback_plan scope =
     (case as_map (any_get scope ''rollback_plan'') of
        None \<Rightarrow> Some (Errorf ''rollback_plan is required'')
      | Some plan \<Rightarrow> first_error
          [fail_if (\<not> bool_field plan ''required'') (Errorf ''rollback_plan required must be true''),
           fail_if (string_field plan ''strategy'' = []) (Errorf ''rollback_plan strategy is required''),
           require_exact_slice (any_get plan ''scope'') [''internal/atlas/validate.go''] ''rollback_plan scope''])"

definition validate_candidate_scope :: "any_map \<Rightarrow> go_error option" where
  "validate_candidate_scope scope = first_error
     [check_dry_run_chain scope,
      check_candidate_repo scope,
      fail_if (string_field scope ''base_branch'' \<noteq> ''main'') (Errorf ''base_branch must be main''),
      fail_if (string_field scope ''proposed_branch'' \<noteq> ''codex/low-risk-code-rehearsal-one'')
        (Errorf ''proposed_branch must be codex/low-risk-code-rehearsal-one''),
      fail_if (string_field scope ''intent'' \<noteq> ''behavior-preserving cleanup in internal uniqueStrings helper'')
        (Errorf ''intent must match selected held candidate''),
      require_exact_slice (any_get scope ''file_allowlist'') [''internal/atlas/validate.go''] ''file_allowlist'',
      require_exact_slice (any_get scope ''command_allowlist'') [''git diff --check'', ''go test ./...''] ''command_allowlist'',
      check_rollback_plan scope]"

definition check_live_policy_header :: "any_map \<Rightarrow> instant \<Rightarrow> string \<Rightarrow> go_error option" where
  "check_live_policy_header policy now version = first_error
     [fail_if (string_field policy ''schema_version'' \<noteq> version) (Errorf (''schema_version must be '' @ version)),
      fail_if (string_field policy ''approval_state'' \<noteq> ''approved'') (Errorf ''approval_state must be approved''),
      fail_if (string_field policy ''approver_identity'' = []) (Errorf ''approver_identity is required''),
      fail_if (bool_field policy ''consumed'') (Errorf ''low_risk_code live policy has already been consumed''),
      fail_if (string_field policy ''mutation_class'' \<noteq> ''low_risk_code'')
        (Errorf ''mutation_class must be low_risk_code''),
      fail_if (\<not> bool_field policy ''safe_to_request'' \<or> bool_field policy ''safe_to_execute'')
        (Errorf ''policy must be safe_to_request=true and safe_to_execute=false''),
      (case (parse_rfc3339 (string_field policy ''issued_at''), parse_rfc3339 (string_field policy ''expires_at'')) of
         (Some issued, Some expires) \<Rightarrow>
           fail_if (issued > now \<or> \<not> expires > now) (Errorf ''low_risk_code live policy is stale or not yet valid'')
       | _ \<Rightarrow> Some (Errorf ''policy issued_at and expires_at must be RFC3339''))]"

definition validate_live_policy ::
    "(string \<Rightarrow> string) \<Rightarrow> any_map \<Rightarrow> instant \<Rightarrow> string \<Rightarrow> go_error option" where
  "validate_live_policy sha policy now version = first_error
     [check_live_policy_header policy now version,
      (case as_map (any_get policy ''candidate_scope'') of
         None \<Rightarrow> Some (Errorf ''candidate_scope is required'')
       | Some scope \<Rightarrow> first_error
           [validate_candidate_scope scope,
            check_digest sha policy ''candidate_scope'' scope,
            check_boundaries policy
              [''exact_scope'', ''class_bound'', ''digest_bound'', ''single_use'', ''single_repo'', ''single_branch'']
              [''live_mutation_grant'', ''multi_repo_mutation_allowed'', ''complex_repo_mutation_allowed'',
               ''fully_unsupervised_complex_mutation_allowed'', ''provider_calls_allowed'',
               ''release_or_publish_allowed'']])]"

subsection \<open>Tickets for live changes of documentation\<close>

text \<open>\<open>validateLiveDocsApprovalTicket\<close> of \<open>cli/cli_approval.go\<close>.\<close>

definition validate_live_docs_ticket :: "any_map \<Rightarrow> any_map \<Rightarrow> instant \<Rightarrow> go_error option" where
  "validate_live_docs_ticket request ticket now = first_error
     [fail_if (string_field request ''schema_version'' \<noteq> ''ao.foundry.live-mutation-approval-request.v0.1'')
        (Errorf ''request schema_version must be ao.foundry.live-mutation-approval-request.v0.1''),
      fail_if (string_field request ''status'' \<noteq> ''pending_operator_approval'')
        (Errorf ''request status must be pending_operator_approval''),
      fail_if (string_field request ''first_live_class'' \<noteq> ''docs_only'' \<or> \<not> bool_field request ''safe_to_request'' \<or>
               bool_field request ''safe_to_execute'')
        (Errorf ''request must be safe_to_request=true, safe_to_execute=false, first_live_class=docs_only''),
      fail_if (string_field ticket ''request_id'' \<noteq> string_field request ''request_id'')
        (Errorf ''ticket request_id does not match request''),
      fail_if (string_field ticket ''approval_state'' \<noteq> ''approved'') (Errorf ''approval_state must be approved''),
      fail_if (string_field ticket ''approver_identity'' = []) (Errorf ''approver_identity is required''),
      fail_if (bool_field ticket ''consumed'') (Errorf ''approval ticket has already been consumed''),
      (case parse_rfc3339 (string_field ticket ''expires_at'') of
         None \<Rightarrow> Some (Errorf (''approval ticket expires_at must be RFC3339: '' @
                    undefined (string_field ticket ''expires_at'')))
       | Some expires \<Rightarrow> fail_if (\<not> expires > now) (Errorf ''approval ticket expired'')),
      fail_if (string_field ticket ''foundry_required_ticket_schema'' \<noteq> ''ao.covenant.live-docs-approval-ticket.v0.1'')
        (Errorf ''foundry_required_ticket_schema does not match request expectation''),
      (case as_map (any_get ticket ''approved_scope'') of
         None \<Rightarrow> Some (Errorf ''approved_scope is required'')
       | Some scope \<Rightarrow> fail_if (\<not> equivalent_fields scope request
             [''repo'', ''branch_policy'', ''docs_only_path_allowlist'', ''forbidden_paths'', ''max_changed_files''])
           (Errorf ''ticket scope does not exactly match request''))]"

end
