(* ===== verification/Authority_Correct.thy ===== *)
theory Authority_Correct
  imports Authority Canonical_Json
begin

text \<open>
  What an accepted authority ticket guarantees: the plan of a multi-repository change is in
  dependency order, the scope is the one of the request, and the digest of the scope leaves no
  room to change it.
\<close>

subsection \<open>Plans in dependency order\<close>

text \<open>Entry \<open>i\<close> of a plan is the \<open>i\<close>-th repository and depends on earlier ones only.\<close>

definition plan_entry_ordered :: "string list \<Rightarrow> nat \<Rightarrow> any_map \<Rightarrow> bool" where
  "plan_entry_ordered repos i entry \<longleftrightarrow>
     string_field entry ''repo'' = repos ! i \<and> repos ! i \<noteq> [] \<and> int_field entry ''order'' = int i + 1 \<and>
     string_field entry ''planned_pr'' \<noteq> [] \<and>
     (\<exists>deps. any_get entry ''depends_on'' = AnyArr (map AnyStr deps) \<and>
             any_get entry ''merge_after'' = AnyArr (map AnyStr deps) \<and> set deps \<subseteq> set (take i repos))"

text \<open>A list of strings is determined by its JSON text when the strings are valid UTF-8.\<close>

definition strings_utf8 :: "go_any \<Rightarrow> bool" where
  "strings_utf8 v \<longleftrightarrow> (case string_slice v of None \<Rightarrow> True | Some ss \<Rightarrow> list_all valid_utf8 ss)"

definition entry_utf8 :: "any_map \<Rightarrow> bool" where
  "entry_utf8 entry \<longleftrightarrow> strings_utf8 (any_get entry ''depends_on'') \<and> strings_utf8 (any_get entry ''merge_after'')"

definition plan_utf8 :: "any_map \<Rightarrow> bool" where
  "plan_utf8 plan \<longleftrightarrow>
     (case map_slice (any_get plan ''ordered_merge_plan'') of None \<Rightarrow> True | Some es \<Rightarrow> list_all entry_utf8 es)"

lemma strings_utf8_Some: "strings_utf8 (AnyArr (map AnyStr ss)) = list_all valid_utf8 ss"
  using string_slice_Some [of "AnyArr (map AnyStr ss)" ss] by (simp add: strings_utf8_def)

lemma any_text_strings: "any_text (AnyArr (map AnyStr ss)) = json_text (JStrs ss)"
  by (simp add: JStrs_def o_def)

lemma json_ok_strings: "list_all valid_utf8 ss \<Longrightarrow> json_ok (JStrs ss)"
  by (simp add: JStrs_def list_all_iff)

lemma equivalent_strings:
  assumes "list_all valid_utf8 ss" and "list_all valid_utf8 ts"
  shows "json_equivalent (AnyArr (map AnyStr ss)) (AnyArr (map AnyStr ts)) \<longleftrightarrow> ss = ts"
  unfolding json_equivalent_def any_text_strings json_text_inject [OF json_ok_strings [OF assms(1)] json_ok_strings [OF assms(2)]]
  by (auto simp: JStrs_def intro: map_injective [of JStr] simp: inj_on_def)

lemma check_plan_entry_ordered:
  assumes "entry_utf8 entry" and "i < length order" and "\<And>d. seen d \<longleftrightarrow> d \<in> set (take i order)"
  shows "check_plan_entry order i seen entry \<longleftrightarrow> plan_entry_ordered order i entry"
proof
  assume ok: "check_plan_entry order i seen entry"
  then obtain ds ms where s: "any_get entry ''depends_on'' = AnyArr (map AnyStr ds)"
      "any_get entry ''merge_after'' = AnyArr (map AnyStr ms)"
    and eq: "json_equivalent (AnyArr (map AnyStr ds)) (AnyArr (map AnyStr ms))" and seen: "list_all seen ds"
    by (auto simp: check_plan_entry_def Let_def string_slice_Some split: option.splits)
  have "list_all valid_utf8 ds" "list_all valid_utf8 ms" using assms(1) s by (simp_all add: entry_utf8_def strings_utf8_Some)
  with eq equivalent_strings have "ds = ms" by blast
  with ok s seen assms(3) show "plan_entry_ordered order i entry"
    by (auto simp: check_plan_entry_def plan_entry_ordered_def Let_def list_all_iff)
next
  assume o: "plan_entry_ordered order i entry"
  then obtain ds where ds: "any_get entry ''depends_on'' = AnyArr (map AnyStr ds)"
      "any_get entry ''merge_after'' = AnyArr (map AnyStr ds)" "set ds \<subseteq> set (take i order)"
    by (auto simp: plan_entry_ordered_def)
  then have slices: "string_slice (any_get entry ''depends_on'') = Some ds"
      "string_slice (any_get entry ''merge_after'') = Some ds" by (simp_all add: string_slice_Some)
  have "list_all seen ds" using ds(3) assms(3) by (auto simp: list_all_iff)
  moreover have "json_equivalent (any_get entry ''depends_on'') (any_get entry ''merge_after'')"
    using ds by (simp add: json_equivalent_def)
  ultimately show "check_plan_entry order i seen entry"
    using o unfolding check_plan_entry_def slices option.case Let_def plan_entry_ordered_def by simp
qed

lemma check_plan_entries_ordered:
  assumes "list_all entry_utf8 es" and "i + length es = length order"
    and "\<And>d. seen d \<longleftrightarrow> d \<in> set (take i order)" and "repos = take i order"
  shows "check_plan_entries order i seen repos es = Inr rs \<longleftrightarrow>
    rs = order \<and> (\<forall>j < length es. plan_entry_ordered order (i + j) (es ! j))"
  using assms
proof (induction es arbitrary: i seen repos)
  case Nil
  then show ?case by auto
next
  case (Cons e es)
  have i: "i < length order" using Cons.prems(2) by simp
  have e: "check_plan_entry order i seen e \<longleftrightarrow> plan_entry_ordered order i e"
    using check_plan_entry_ordered [OF _ i, of e seen] Cons.prems(1,3) by simp
  show ?case
  proof (cases "plan_entry_ordered order i e")
    case False
    then show ?thesis using e by (auto intro: exI [of _ 0])
  next
    case True
    then have repo: "string_field e ''repo'' = order ! i" by (simp add: plan_entry_ordered_def)
    have "take (Suc i) order = take i order @ [order ! i]" using i by (rule take_Suc_conv_app_nth)
    then have "check_plan_entries order (i + 1) (seen(order ! i := True)) (repos @ [order ! i]) es = Inr rs \<longleftrightarrow>
        rs = order \<and> (\<forall>j < length es. plan_entry_ordered order (i + 1 + j) (es ! j))"
      using Cons.prems by (intro Cons.IH) auto
    then show ?thesis using True e repo by (simp add: Let_def All_less_Suc2)
  qed
qed

definition ordered_plan :: "any_map \<Rightarrow> string list \<Rightarrow> bool" where
  "ordered_plan plan repos \<longleftrightarrow> repos \<noteq> [] \<and> any_get plan ''order'' = AnyArr (map AnyStr repos) \<and>
     (\<exists>entries. any_get plan ''ordered_merge_plan'' = AnyArr (map AnyMap entries) \<and> length entries = length repos \<and>
        (\<forall>i < length entries. plan_entry_ordered repos i (entries ! i)))"

lemma plan_entries_utf8:
  "plan_utf8 plan \<Longrightarrow> any_get plan ''ordered_merge_plan'' = AnyArr (map AnyMap es) \<Longrightarrow> list_all entry_utf8 es"
  using map_slice_Some [of "AnyArr (map AnyMap es)" es] by (simp add: plan_utf8_def)

lemma validate_ordered_plan_iff:
  assumes "plan_utf8 plan"
  shows "validate_ordered_plan plan = Inr repos \<longleftrightarrow> ordered_plan plan repos"
proof
  assume v: "validate_ordered_plan plan = Inr repos"
  then obtain order entries where s: "any_get plan ''order'' = AnyArr (map AnyStr order)" "order \<noteq> []"
      "any_get plan ''ordered_merge_plan'' = AnyArr (map AnyMap entries)" "length entries = length order"
    and c: "check_plan_entries order 0 (\<lambda>_. False) [] entries = Inr repos"
    by (auto simp: validate_ordered_plan_def string_slice_Some map_slice_Some split: option.splits if_splits)
  have "repos = order \<and> (\<forall>j < length entries. plan_entry_ordered order (0 + j) (entries ! j))"
    using c check_plan_entries_ordered [OF plan_entries_utf8 [OF assms s(3)], of 0 order "\<lambda>_. False" "[]" repos] s(4) by simp
  with s show "ordered_plan plan repos" by (auto simp: ordered_plan_def)
next
  assume "ordered_plan plan repos"
  then obtain entries where s: "repos \<noteq> []" "any_get plan ''order'' = AnyArr (map AnyStr repos)"
      "any_get plan ''ordered_merge_plan'' = AnyArr (map AnyMap entries)" "length entries = length repos"
    and o: "\<forall>i < length entries. plan_entry_ordered repos i (entries ! i)"
    by (auto simp: ordered_plan_def)
  then have slices: "string_slice (any_get plan ''order'') = Some repos"
      "map_slice (any_get plan ''ordered_merge_plan'') = Some entries"
    by (simp_all add: string_slice_Some map_slice_Some)
  have "check_plan_entries repos 0 (\<lambda>_. False) [] entries = Inr repos"
    using check_plan_entries_ordered [OF plan_entries_utf8 [OF assms s(3)], of 0 repos "\<lambda>_. False" "[]" repos] s(4) o by simp
  with s slices show "validate_ordered_plan plan = Inr repos"
    unfolding validate_ordered_plan_def slices option.case by simp
qed

subsection \<open>Marshalled documents\<close>

text \<open>
  The JSON value of a document whose numbers are integral floats below \<open>2 ^ 53\<close>; its text is then
  the one of the first part of the development, and so determines it up to the order of fields.
\<close>

fun any_json :: "go_any \<Rightarrow> json" where
  "any_json AnyNil = JNull"
| "any_json (AnyBool b) = JBool b"
| "any_json (AnyFloat x) = JInt (float_truncated x)"
| "any_json (AnyInt i) = JInt i"
| "any_json (AnyStr s) = JStr s"
| "any_json (AnyArr vs) = JArr (map any_json vs)"
| "any_json (AnyMap fs) = JObj (map (\<lambda>(k, v). (k, any_json v)) fs)"

fun any_ok :: "go_any \<Rightarrow> bool" where
  "any_ok (AnyFloat x) = (x \<noteq> NegZero \<and> float_integral x \<and> \<bar>float_truncated x\<bar> < 2 ^ 53)"
| "any_ok (AnyStr s) = valid_utf8 s"
| "any_ok (AnyArr vs) = list_all any_ok vs"
| "any_ok (AnyMap fs) = (distinct (map fst fs) \<and> list_all (\<lambda>(k, v). valid_utf8 k \<and> any_ok v) fs)"
| "any_ok _ = True"

lemma any_text_json: "any_ok v \<Longrightarrow> any_text v = json_text (in_order (any_json v))"
proof (induction v)
  case (AnyFloat x)
  then show ?case by (cases x) (simp_all add: float_text_def)
next
  case (AnyArr vs)
  then have "map any_text vs = map (\<lambda>v. json_text (in_order (any_json v))) vs" by (simp add: list_all_iff)
  then show ?case by (simp add: o_def del: map_eq_conv)
next
  case (AnyMap fs)
  let ?text = "\<lambda>k v. json_string k @ '':'' @ any_text v"
  have eq: "any_text v = json_text (in_order (any_json v))" if "(k, v) \<in> set fs" for k v
    using AnyMap.IH [OF that] AnyMap.prems that by (auto simp: list_all_iff snds.simps)
  have "in_order (any_json (AnyMap fs)) = JObj (sort_key fst (map (\<lambda>(k, v). (k, in_order (any_json v))) fs))"
    by (simp add: case_prod_unfold o_def)
  moreover have "map (\<lambda>(k, v). json_string k @ '':'' @ json_text v) (sort_key fst (map (\<lambda>(k, v). (k, in_order (any_json v))) fs))
      = map snd (sort_key fst (map (\<lambda>(k, v). (k, ?text k v)) fs))"
    unfolding sort_map_values [where h = "\<lambda>k v. in_order (any_json v)"] sort_map_values [where h = ?text]
    using eq by auto
  ultimately show ?case by (simp add: case_prod_unfold)
qed simp_all

lemma json_ok_any: "any_ok v \<Longrightarrow> json_ok (in_order (any_json v))"
proof (rule json_ok_in_order, induction v)
  case (AnyMap fs)
  then show ?case by (fastforce simp: list_all_iff snds.simps)
qed (simp_all add: list_all_iff)

lemma any_ok_get: "any_ok (AnyMap m) \<Longrightarrow> any_ok (any_get m k)"
  by (auto simp: any_get_def list_all_iff dest: map_of_SomeD split: option.splits)

text \<open>Documents with the same text have the same fields.\<close>

lemma same_text_fields:
  assumes "any_ok (AnyMap m)" and "any_ok (AnyMap n)" and "any_text (AnyMap m) = any_text (AnyMap n)"
  shows "json_equivalent (any_get m k) (any_get n k)"
proof -
  let ?fs = "map (\<lambda>(k, v). (k, any_json v))"
  have "in_order (JObj (?fs m)) = in_order (JObj (?fs n))"
    using assms json_text_inject [OF json_ok_any json_ok_any] any_text_json
    by (metis any_json.simps(7))
  then have "map_option in_order (map_of (?fs m) k) = map_option in_order (map_of (?fs n) k)"
    by (rule in_order_member) (use assms in \<open>simp_all add: case_prod_unfold o_def\<close>)
  then have "map_option (\<lambda>v. in_order (any_json v)) (map_of m k) = map_option (\<lambda>v. in_order (any_json v)) (map_of n k)"
    by (simp add: map_of_map option.map_comp o_def)
  then have "in_order (any_json (any_get m k)) = in_order (any_json (any_get n k))"
    by (cases "map_of m k"; cases "map_of n k") (simp_all add: any_get_def)
  with any_text_json [OF any_ok_get [OF assms(1)]] any_text_json [OF any_ok_get [OF assms(2)]]
  show ?thesis by (simp add: json_equivalent_def)
qed

subsection \<open>Accepted tickets\<close>

text \<open>
  The fields of the scope whose values are compared: those of every ticket, and those of a change
  over several repositories. The class and the need for a rollback are compared by type.
\<close>

definition scope_fields :: "string list" where
  "scope_fields = [''allowed_paths'', ''max_changed_files'', ''repo'', ''branch_policy'', ''forbidden_paths'',
     ''required_gates'', ''authority_boundary'', ''rollback_scope'', ''rollback_evidence'']"

definition multi_repo_fields :: "string list" where
  "multi_repo_fields = [''multi_repo_plan'', ''per_repo_rollback'', ''ci_by_repo'', ''repo_state_evidence'', ''kill_switch'']"

definition all_true :: "any_map \<Rightarrow> string list \<Rightarrow> bool" where
  "all_true m fs \<longleftrightarrow> (\<forall>f \<in> set fs. bool_field m f)"

definition all_false :: "any_map \<Rightarrow> string list \<Rightarrow> bool" where
  "all_false m fs \<longleftrightarrow> (\<forall>f \<in> set fs. \<not> bool_field m f)"

lemma check_digest_None: "check_digest sha doc covered scope = None \<longleftrightarrow>
    (\<exists>d. any_get doc ''scope_digest'' = AnyMap d \<and> string_field d ''algorithm'' = ''sha256'' \<and>
       string_array_contains (any_get d ''covers'') covered \<and> string_field d ''value'' = digest_scope sha scope)"
  by (auto simp: check_digest_def split: option.splits)

lemma check_boundaries_None: "check_boundaries doc ts fs = None \<longleftrightarrow>
    (\<exists>b. any_get doc ''authority_boundaries'' = AnyMap b \<and> all_true b ts \<and> all_false b fs)"
  unfolding check_boundaries_def all_true_def all_false_def
  by (cases "any_get doc ''authority_boundaries''") (simp_all add: as_map_def ball_Un)

text \<open>What a ticket that is accepted for a request grants.\<close>

definition ticket_live :: "any_map \<Rightarrow> any_map \<Rightarrow> instant \<Rightarrow> bool" where
  "ticket_live request ticket now \<longleftrightarrow>
     string_field ticket ''request_id'' = string_field request ''request_id'' \<and>
     string_field ticket ''approval_state'' = ''approved'' \<and> string_field ticket ''approver_identity'' \<noteq> [] \<and>
     \<not> bool_field ticket ''consumed'' \<and>
     (\<exists>expires. parse_rfc3339 (string_field ticket ''expires_at'') = Some expires \<and> now < expires) \<and>
     string_field ticket ''mutation_class'' = string_field request ''mutation_class'' \<and>
     string_field request ''mutation_class'' \<in> set mutation_classes"

definition scope_granted :: "any_map \<Rightarrow> any_map \<Rightarrow> instant \<Rightarrow> bool" where
  "scope_granted request scope now \<longleftrightarrow>
     string_field scope ''mutation_class'' = string_field request ''mutation_class'' \<and>
     (\<forall>f \<in> set scope_fields. json_equivalent (any_get scope f) (any_get request f)) \<and>
     bool_field request ''rollback_required'' \<and> bool_field scope ''rollback_required'' \<and>
     (string_field request ''mutation_class'' = ''multi_repo_low_risk'' \<longrightarrow>
        validate_multi_repo_scope request scope now = None)"

lemma check_ticket_scope_None: "check_ticket_scope request scope now = None \<longleftrightarrow> scope_granted request scope now"
  by (auto simp: check_ticket_scope_def scope_granted_def scope_fields_def equivalent_fields_def)

lemma check_ticket_header_None:
  "check_ticket_request request = None \<Longrightarrow>
     check_ticket_header request ticket now = None \<longleftrightarrow> ticket_live request ticket now"
  by (auto simp: check_ticket_request_def check_ticket_header_def ticket_live_def valid_mutation_class_def
      split: option.splits)

lemma authority_ticket_accepted_iff:
  "validate_authority_ticket sha request ticket now = None \<longleftrightarrow>
     check_ticket_request request = None \<and> ticket_live request ticket now \<and>
     (\<exists>scope digest boundaries.
        any_get ticket ''approved_scope'' = AnyMap scope \<and> scope_granted request scope now \<and>
        any_get ticket ''scope_digest'' = AnyMap digest \<and> string_field digest ''algorithm'' = ''sha256'' \<and>
        string_array_contains (any_get digest ''covers'') ''approved_scope'' \<and>
        string_field digest ''value'' = digest_scope sha scope \<and>
        any_get ticket ''authority_boundaries'' = AnyMap boundaries \<and>
        all_true boundaries [''exact_scope'', ''class_bound'', ''digest_bound'', ''single_use''] \<and>
        all_false boundaries [''live_mutation_grant'', ''provider_calls_allowed'', ''release_or_publish_allowed''])"
proof -
  have "validate_authority_ticket sha request ticket now = None \<longleftrightarrow>
      check_ticket_request request = None \<and> check_ticket_header request ticket now = None \<and>
      (\<exists>scope. any_get ticket ''approved_scope'' = AnyMap scope \<and> check_ticket_scope request scope now = None \<and>
        check_digest sha ticket ''approved_scope'' scope = None \<and>
        check_boundaries ticket [''exact_scope'', ''class_bound'', ''digest_bound'', ''single_use'']
          [''live_mutation_grant'', ''provider_calls_allowed'', ''release_or_publish_allowed''] = None)"
    by (auto simp: validate_authority_ticket_def split: option.splits)
  then show ?thesis
    unfolding check_ticket_scope_None check_digest_None check_boundaries_None
    using check_ticket_header_None by blast
qed

text \<open>Tickets with the same digest value grant the same scope, whatever request they are presented with.\<close>

definition ticket_digest :: "any_map \<Rightarrow> string" where
  "ticket_digest ticket = (case any_get ticket ''scope_digest'' of AnyMap d \<Rightarrow> string_field d ''value'' | _ \<Rightarrow> [])"

definition ticket_scope :: "any_map \<Rightarrow> any_map" where
  "ticket_scope ticket = (case any_get ticket ''approved_scope'' of AnyMap s \<Rightarrow> s | _ \<Rightarrow> [])"

text \<open>Two requests ask for the same scope: they agree in everything the ticket is compared with.\<close>

definition same_scope_requested :: "any_map \<Rightarrow> any_map \<Rightarrow> bool" where
  "same_scope_requested r r' \<longleftrightarrow>
     string_field r ''mutation_class'' = string_field r' ''mutation_class'' \<and>
     bool_field r ''rollback_required'' = bool_field r' ''rollback_required'' \<and>
     list_all (\<lambda>f. json_equivalent (any_get r f) (any_get r' f)) scope_fields \<and>
     (string_field r ''mutation_class'' = ''multi_repo_low_risk'' \<longrightarrow>
        list_all (\<lambda>f. json_equivalent (any_get r f) (any_get r' f)) multi_repo_fields)"

lemma multi_repo_scope_equivalent:
  "validate_multi_repo_scope request scope now = None \<Longrightarrow> f \<in> set multi_repo_fields \<Longrightarrow>
     json_equivalent (any_get scope f) (any_get request f)"
  by (auto simp: validate_multi_repo_scope_def equivalent_fields_def multi_repo_fields_def split: if_splits)

lemma granted_scope:
  assumes "validate_authority_ticket sha r t n = None"
  shows "ticket_digest t = digest_scope sha (ticket_scope t)" and "scope_granted r (ticket_scope t) n"
  using assms unfolding authority_ticket_accepted_iff by (auto simp: ticket_digest_def ticket_scope_def)

text \<open>A string is told from its text.\<close>

lemma equivalent_string_field:
  assumes "any_ok (AnyMap m)" and "any_ok (AnyMap n)" and "json_equivalent (any_get m k) (any_get n k)"
  shows "string_field m k = string_field n k"
proof -
  have "in_order (any_json (any_get m k)) = in_order (any_json (any_get n k))"
    using assms(3) json_text_inject [OF json_ok_any json_ok_any] any_ok_get [OF assms(1)] any_ok_get [OF assms(2)]
      any_text_json unfolding json_equivalent_def by metis
  then show ?thesis
    unfolding string_field_def by (cases "any_get m k"; cases "any_get n k") simp_all
qed

lemma accepted_scopes_agree:
  assumes "validate_authority_ticket sha request ticket now = None"
    and "validate_authority_ticket sha request' ticket' now' = None"
    and "ticket_digest ticket = ticket_digest ticket'"
    and ok: "any_ok (AnyMap (ticket_scope ticket))" "any_ok (AnyMap (ticket_scope ticket'))"
  shows "same_scope_requested request request' \<or>
    collision sha {any_text (AnyMap (ticket_scope ticket)), any_text (AnyMap (ticket_scope ticket'))}"
proof (cases "any_text (AnyMap (ticket_scope ticket)) = any_text (AnyMap (ticket_scope ticket'))")
  case False
  moreover have "sha (any_text (AnyMap (ticket_scope ticket))) = sha (any_text (AnyMap (ticket_scope ticket')))"
    using granted_scope(1) [OF assms(1)] granted_scope(1) [OF assms(2)] assms(3) by (simp add: digest_scope_def)
  ultimately show ?thesis unfolding collision_def by auto
next
  case True
  note same = same_text_fields [OF ok True]
  note granted = granted_scope(2) [OF assms(1)] granted_scope(2) [OF assms(2)]
  have mc: "string_field request ''mutation_class'' = string_field request' ''mutation_class''"
    using granted equivalent_string_field [OF ok same, of "''mutation_class''"] by (simp add: scope_granted_def)
  have rr: "bool_field request ''rollback_required'' = bool_field request' ''rollback_required''"
    using granted by (simp add: scope_granted_def)
  have eq: "json_equivalent (any_get request f) (any_get request' f)"
    if "json_equivalent (any_get (ticket_scope ticket) f) (any_get request f)"
      "json_equivalent (any_get (ticket_scope ticket') f) (any_get request' f)" for f
    using same [of f] that unfolding json_equivalent_def by auto
  have fields: "list_all (\<lambda>f. json_equivalent (any_get request f) (any_get request' f)) scope_fields"
    using granted eq unfolding scope_granted_def list_all_iff by blast
  have "list_all (\<lambda>f. json_equivalent (any_get request f) (any_get request' f)) multi_repo_fields"
    if "string_field request ''mutation_class'' = ''multi_repo_low_risk''"
    using granted that mc eq multi_repo_scope_equivalent unfolding scope_granted_def list_all_iff by metis
  with mc rr fields show ?thesis by (simp add: same_scope_requested_def)
qed

end
