(* ===== verification/Claim_Gate.thy ===== *)
theory Claim_Gate
  imports Policy Go_Any
begin

text \<open>
  The publication gate for the full-autonomy claim (\<open>policy/claim_gate.go\<close>): the observations
  read from a claim-readiness document and a readback index, the blockers they raise, and the
  decision. A nil map reads like an empty one.
\<close>

record gate_blocker =
  bl_id :: string
  bl_evidence_state :: string
  bl_required_evidence :: string

record readiness_observation =
  cro_schema_version :: string
  cro_status :: string
  cro_full_claim_decision :: string
  cro_claim_publish_approved :: bool

record readback_observation =
  rbo_schema_version :: string
  rbo_status :: string
  rbo_control_plane_readback_status :: string
  rbo_retained_claim_level_evidence_status :: string
  rbo_full_claim_boundary_decision :: string

record gate_evidence =
  ob_claim_readiness :: readiness_observation
  ob_readback_index :: readback_observation

record gate_trust_boundary =
  tb_local_only :: bool
  tb_uses_network :: bool
  tb_mutates_repositories :: bool
  tb_publishes_claims :: bool
  tb_approves_rsi_claims :: bool
  tb_stores_credentials :: bool

record gate_result =
  cg_schema_version :: string
  cg_claim_level :: string
  cg_claim_publish_resource :: string
  cg_status :: string
  cg_decision :: string
  cg_publish_authority :: bool
  cg_reason :: string
  cg_blocker_count :: nat
  cg_blockers :: "gate_blocker list"
  cg_observed_evidence :: gate_evidence
  cg_trust_boundary :: gate_trust_boundary

subsection \<open>Reading the documents\<close>

fun nested_map :: "any_map \<Rightarrow> string list \<Rightarrow> any_map" where
  "nested_map root [] = root"
| "nested_map root (key # keys) =
     (case any_get root key of AnyMap next \<Rightarrow> nested_map next keys | _ \<Rightarrow> [])"

fun nonempty_strings :: "go_any list \<Rightarrow> string list" where
  "nonempty_strings [] = []"
| "nonempty_strings (v # vs) = (case v of
      AnyStr s \<Rightarrow> if s \<noteq> [] then s # nonempty_strings vs else nonempty_strings vs
    | _ \<Rightarrow> nonempty_strings vs)"

definition string_slice_field :: "any_map \<Rightarrow> string \<Rightarrow> string list" where
  "string_slice_field m key = (case any_get m key of AnyArr vs \<Rightarrow> nonempty_strings vs | _ \<Rightarrow> [])"

subsection \<open>Blockers\<close>

fun has_blocker :: "gate_blocker list \<Rightarrow> string \<Rightarrow> bool" where
  "has_blocker [] i = False"
| "has_blocker (b # bs) i = (if bl_id b = i then True else has_blocker bs i)"

definition append_blocker_if_missing :: "gate_blocker list \<Rightarrow> gate_blocker \<Rightarrow> gate_blocker list" where
  "append_blocker_if_missing bs b =
     (if bl_id b = [] then bs else if has_blocker bs (bl_id b) then bs else bs @ [b])"

definition blocker_for_id :: "string \<Rightarrow> gate_blocker" where
  "blocker_for_id i =
     (if i = ''covenant_claim_publish_approval'' then
        \<lparr>bl_id = i, bl_evidence_state = ''missing'',
         bl_required_evidence = ''Covenant approval to publish the full autonomous self-mutating RSI claim''\<rparr>
      else if i = ''rehearsal_not_claim_publish_evidence'' then
        \<lparr>bl_id = i, bl_evidence_state = ''blocking'',
         bl_required_evidence = ''live rehearsal and readback evidence must not be treated as claim-publish authority''\<rparr>
      else
        \<lparr>bl_id = i, bl_evidence_state = ''blocking'',
         bl_required_evidence = ''claim-publish blocker remains unresolved''\<rparr>)"

text \<open>One entry of the readiness document's blockers, and the loop over them.\<close>

definition readiness_blocker :: "go_any \<Rightarrow> gate_blocker option" where
  "readiness_blocker entry = (case entry of
      AnyMap m \<Rightarrow>
        (let i = string_field m ''id''; st = string_field m ''evidence_state''; ev = string_field m ''required_evidence''
         in if i = [] then None
            else Some \<lparr>bl_id = i,
              bl_evidence_state = (if st = [] then ''missing'' else st),
              bl_required_evidence = (if ev = [] then ''claim-publish blocker remains unresolved'' else ev)\<rparr>)
    | _ \<Rightarrow> None)"

fun add_readiness_blockers :: "gate_blocker list \<Rightarrow> go_any list \<Rightarrow> gate_blocker list" where
  "add_readiness_blockers bs [] = bs"
| "add_readiness_blockers bs (entry # es) = (case readiness_blocker entry of
      None \<Rightarrow> add_readiness_blockers bs es
    | Some b \<Rightarrow> add_readiness_blockers (append_blocker_if_missing bs b) es)"

definition claim_readiness_blockers :: "any_map \<Rightarrow> gate_blocker list" where
  "claim_readiness_blockers full_claim =
     (case any_get full_claim ''blockers'' of AnyArr raw \<Rightarrow> add_readiness_blockers [] raw | _ \<Rightarrow> [])"

subsection \<open>The gate\<close>

definition observe :: "any_map \<Rightarrow> any_map \<Rightarrow> gate_evidence" where
  "observe readiness index =
     (let full_claim = nested_map readiness [''claims'', claim_level_full];
          partial_readback = nested_map full_claim [''partial_evidence'', ''live_self_change_readback_index''];
          readback_source = nested_map index [''sources'', ''control_plane_readback''];
          retained = nested_map index [''retained_claim_level_evidence''];
          full_boundary = nested_map index [''full_claim_boundary'']
      in \<lparr>ob_claim_readiness = \<lparr>cro_schema_version = string_field readiness ''schema_version'',
            cro_status = string_field readiness ''status'',
            cro_full_claim_decision = string_field full_claim ''decision'',
            cro_claim_publish_approved = bool_field partial_readback ''claim_publish_approved''\<rparr>,
          ob_readback_index = \<lparr>rbo_schema_version = string_field index ''schema_version'',
            rbo_status = string_field index ''status'',
            rbo_control_plane_readback_status = string_field readback_source ''status'',
            rbo_retained_claim_level_evidence_status = string_field retained ''status'',
            rbo_full_claim_boundary_decision = string_field full_boundary ''decision''\<rparr>\<rparr>)"

text \<open>\<open>if cond { blockers = appendBlockerIfMissing(blockers, b) }\<close>\<close>

definition block_if :: "bool \<Rightarrow> gate_blocker \<Rightarrow> gate_blocker list \<Rightarrow> gate_blocker list" where
  "block_if c b bs = (if c then append_blocker_if_missing bs b else bs)"

definition missing_blocker :: "string \<Rightarrow> string \<Rightarrow> gate_blocker" where
  "missing_blocker i required = \<lparr>bl_id = i, bl_evidence_state = ''missing'', bl_required_evidence = required\<rparr>"

definition gate_blockers :: "any_map \<Rightarrow> any_map \<Rightarrow> gate_blocker list" where
  "gate_blockers readiness index =
     (let full_claim = nested_map readiness [''claims'', claim_level_full];
          full_boundary = nested_map index [''full_claim_boundary''];
          ob = observe readiness index;
          bs0 = claim_readiness_blockers full_claim;
          bs1 = foldl (\<lambda>bs i. append_blocker_if_missing bs (blocker_for_id i)) bs0
                  (string_slice_field full_boundary ''remaining_blockers'');
          bs2 = block_if (rbo_status (ob_readback_index ob) \<noteq> ''passed'')
                  (missing_blocker ''readback_index_not_passed''
                     ''AO2 live self-change readback evidence index must pass'') bs1;
          bs3 = block_if (rbo_control_plane_readback_status (ob_readback_index ob) \<noteq> ''passed'')
                  (missing_blocker ''control_plane_readback_not_passed''
                     ''ao2-control-plane readback must pass before claim publication'') bs2;
          bs4 = block_if (rbo_retained_claim_level_evidence_status (ob_readback_index ob) \<noteq> ''present'')
                  (missing_blocker ''retained_claim_level_evidence_missing''
                     ''retained claim-level readback evidence must be present'') bs3
      in block_if (\<not> cro_claim_publish_approved (ob_claim_readiness ob))
           (blocker_for_id ''covenant_claim_publish_approval'') bs4)"

definition publish_authority :: "gate_evidence \<Rightarrow> gate_blocker list \<Rightarrow> bool" where
  "publish_authority ob bs \<longleftrightarrow>
     cro_claim_publish_approved (ob_claim_readiness ob) \<and>
     cro_full_claim_decision (ob_claim_readiness ob) = ''allowed'' \<and>
     rbo_status (ob_readback_index ob) = ''passed'' \<and>
     rbo_full_claim_boundary_decision (ob_readback_index ob) \<noteq> ''denied'' \<and> length bs = 0"

definition gate_boundary :: gate_trust_boundary where
  "gate_boundary = \<lparr>tb_local_only = True, tb_uses_network = False, tb_mutates_repositories = False,
     tb_publishes_claims = False, tb_approves_rsi_claims = False, tb_stores_credentials = False\<rparr>"

definition evaluate_claim_publish_gate :: "any_map \<Rightarrow> any_map \<Rightarrow> gate_result" where
  "evaluate_claim_publish_gate readiness index =
     (let ob = observe readiness index; bs = gate_blockers readiness index; authority = publish_authority ob bs
      in \<lparr>cg_schema_version = ''covenant.rsi-claim-publish-gate.v1'',
          cg_claim_level = claim_level_full,
          cg_claim_publish_resource = ''full-autonomous-self-mutating-rsi'',
          cg_status = (if authority then ''approved'' else ''denied''),
          cg_decision = (if authority then decision_allow else decision_deny),
          cg_publish_authority = authority,
          cg_reason = (if authority
            then ''full autonomous self-mutating RSI claim publication approved by Covenant evidence gate''
            else ''full autonomous self-mutating RSI claim publication denied; retained readback evidence is not claim-publish authority''),
          cg_blocker_count = length bs, cg_blockers = bs, cg_observed_evidence = ob,
          cg_trust_boundary = gate_boundary\<rparr>)"

subsection \<open>What the gate guarantees\<close>

text \<open>The identifiers of the blockers: each once, none empty.\<close>

definition blockers_ok :: "gate_blocker list \<Rightarrow> bool" where
  "blockers_ok bs \<longleftrightarrow> distinct (map bl_id bs) \<and> [] \<notin> set (map bl_id bs)"

lemma has_blocker_iff [simp]: "has_blocker bs i \<longleftrightarrow> i \<in> set (map bl_id bs)"
  by (induction bs) auto

lemma append_blocker_ok: "blockers_ok bs \<Longrightarrow> blockers_ok (append_blocker_if_missing bs b)"
  by (auto simp: blockers_ok_def append_blocker_if_missing_def)

lemma block_if_ok: "blockers_ok bs \<Longrightarrow> blockers_ok (block_if c b bs)"
  by (simp add: block_if_def append_blocker_ok)

lemma readiness_blockers_ok: "blockers_ok bs \<Longrightarrow> blockers_ok (add_readiness_blockers bs es)"
  by (induction bs es rule: add_readiness_blockers.induct) (auto simp: append_blocker_ok split: option.splits)

lemma fold_blockers_ok:
  "blockers_ok bs \<Longrightarrow> blockers_ok (foldl (\<lambda>bs i. append_blocker_if_missing bs (blocker_for_id i)) bs is)"
  by (induction "is" arbitrary: bs) (simp_all add: append_blocker_ok)

lemma gate_blockers_ok: "blockers_ok (gate_blockers readiness index)"
proof -
  have "blockers_ok []" by (simp add: blockers_ok_def)
  then have "blockers_ok (claim_readiness_blockers m)" for m
    by (simp add: claim_readiness_blockers_def readiness_blockers_ok split: go_any.split)
  then show ?thesis unfolding gate_blockers_def Let_def by (intro block_if_ok fold_blockers_ok)
qed

text \<open>Blockers are only ever added, and what asks for one has one.\<close>

lemma append_blocker_keeps: "set bs \<subseteq> set (append_blocker_if_missing bs b)"
  by (auto simp: append_blocker_if_missing_def)

lemma block_if_Nil: "bl_id b \<noteq> [] \<Longrightarrow> block_if c b bs = [] \<longleftrightarrow> bs = [] \<and> \<not> c"
  by (auto simp: block_if_def append_blocker_if_missing_def)

lemma fold_blockers_Nil:
  "[] \<notin> set is \<Longrightarrow> foldl (\<lambda>bs i. append_blocker_if_missing bs (blocker_for_id i)) bs is = [] \<longleftrightarrow> bs = [] \<and> is = []"
proof (induction "is" arbitrary: bs)
  case (Cons i "is")
  have "append_blocker_if_missing bs (blocker_for_id i) \<noteq> []"
    using Cons.prems by (auto simp: append_blocker_if_missing_def blocker_for_id_def)
  with Cons show ?case by simp
qed simp

lemma nonempty_strings_ne: "[] \<notin> set (nonempty_strings vs)"
  by (induction vs) (auto split: go_any.split)

lemma gate_unblocked_iff:
  "gate_blockers readiness index = [] \<longleftrightarrow>
     claim_readiness_blockers (nested_map readiness [''claims'', claim_level_full]) = [] \<and>
     string_slice_field (nested_map index [''full_claim_boundary'']) ''remaining_blockers'' = [] \<and>
     rbo_status (ob_readback_index (observe readiness index)) = ''passed'' \<and>
     rbo_control_plane_readback_status (ob_readback_index (observe readiness index)) = ''passed'' \<and>
     rbo_retained_claim_level_evidence_status (ob_readback_index (observe readiness index)) = ''present'' \<and>
     cro_claim_publish_approved (ob_claim_readiness (observe readiness index))"
proof -
  have "[] \<notin> set (string_slice_field m k)" for m k
    using nonempty_strings_ne by (simp add: string_slice_field_def split: go_any.split)
  then show ?thesis
    unfolding gate_blockers_def Let_def
    by (subst block_if_Nil, simp add: blocker_for_id_def missing_blocker_def)+
      (simp add: fold_blockers_Nil conj_ac)
qed

end
