(* ===== verification/Authority_Examples.thy ===== *)
theory Authority_Examples
  imports Authority_Correct Claim_Gate
begin

text \<open>
  A request for a one-file documentation change with its ticket, a plan over two repositories,
  and two pairs of claim documents, on which the properties of the authority tickets and of the
  claim gate are applied.
\<close>

abbreviation astr :: "string \<Rightarrow> go_any" where "astr \<equiv> AnyStr"
abbreviation astrs :: "string list \<Rightarrow> go_any" where "astrs ss \<equiv> AnyArr (map AnyStr ss)"
abbreviation aflag :: "string \<Rightarrow> bool \<Rightarrow> string \<times> go_any" where "aflag k b \<equiv> (k, AnyBool b)"

definition docs_scope :: any_map where
  "docs_scope =
     [(''mutation_class'', astr ''docs_only_single_file''),
      (''repo'', astr ''ao-atlas''), (''branch_policy'', astr ''feature-branch''),
      (''allowed_paths'', astrs [''docs/guide.md'']), (''forbidden_paths'', astrs [''internal/'']),
      (''max_changed_files'', AnyFloat (Float64 1 0)), (''required_gates'', astrs [''go test'']),
      (''authority_boundary'', astr ''exact''), aflag ''rollback_required'' True,
      (''rollback_scope'', astrs [''docs/guide.md'']), (''rollback_evidence'', astr ''revert'')]"

definition docs_request :: any_map where
  "docs_request =
     [(''schema_version'', astr ''ao.foundry.mutation-class-authority-request.v0.1''),
      (''status'', astr ''pending_covenant_authority''), (''request_id'', astr ''r1''),
      aflag ''safe_to_request'' True, aflag ''safe_to_execute'' False] @ docs_scope"

definition docs_ticket :: any_map where
  "docs_ticket =
     [(''ticket_id'', astr ''t1''), (''request_id'', astr ''r1''), (''approval_state'', astr ''approved''),
      (''approver_identity'', astr ''operator''), aflag ''consumed'' False,
      (''expires_at'', astr ''2026-07-28T00:00:00Z''), (''mutation_class'', astr ''docs_only_single_file''),
      (''approved_scope'', AnyMap docs_scope),
      (''scope_digest'', AnyMap [(''algorithm'', astr ''sha256''), (''covers'', astrs [''approved_scope'']),
          (''value'', astr ''d1'')]),
      (''authority_boundaries'', AnyMap
         [aflag ''exact_scope'' True, aflag ''class_bound'' True, aflag ''digest_bound'' True, aflag ''single_use'' True])]"

text \<open>
  A second request and ticket for the same scope: another identifier, another operator and a later
  end, and the fields of the scope in another order.
\<close>

definition docs_request_2 :: any_map where
  "docs_request_2 =
     [(''request_id'', astr ''r2''), (''status'', astr ''pending_covenant_authority''),
      (''schema_version'', astr ''ao.foundry.mutation-class-authority-request.v0.1''),
      aflag ''safe_to_request'' True, aflag ''safe_to_execute'' False] @ rev docs_scope"

definition docs_ticket_2 :: any_map where
  "docs_ticket_2 =
     [(''ticket_id'', astr ''t2''), (''request_id'', astr ''r2''), (''approval_state'', astr ''approved''),
      (''approver_identity'', astr ''deputy''), aflag ''consumed'' False,
      (''expires_at'', astr ''2026-09-28T00:00:00Z''), (''mutation_class'', astr ''docs_only_single_file''),
      (''approved_scope'', AnyMap (rev docs_scope)),
      (''scope_digest'', AnyMap [(''algorithm'', astr ''sha256''), (''covers'', astrs [''approved_scope'']),
          (''value'', astr ''d1'')]),
      (''authority_boundaries'', AnyMap
         [aflag ''exact_scope'' True, aflag ''class_bound'' True, aflag ''digest_bound'' True, aflag ''single_use'' True])]"

definition docs_sha :: "string \<Rightarrow> string" where
  "docs_sha t = ''d1''"

definition docs_now :: instant where
  "docs_now = Instant 0"

lemma docs_digest: "check_digest docs_sha docs_ticket ''approved_scope'' docs_scope = None"
  unfolding check_digest_None
  by (rule exI [of _ "[(''algorithm'', astr ''sha256''), (''covers'', astrs [''approved_scope'']), (''value'', astr ''d1'')]"])
    (simp add: docs_ticket_def any_get_def string_field_def string_array_contains_def digest_scope_def docs_sha_def)

lemma docs_scope_of: "any_get docs_ticket ''approved_scope'' = AnyMap docs_scope"
  by (simp add: docs_ticket_def any_get_def)

lemma docs_parts:
  "check_ticket_request docs_request = None" "check_ticket_header docs_request docs_ticket docs_now = None"
  "check_ticket_scope docs_request docs_scope docs_now = None"
  "check_boundaries docs_ticket [''exact_scope'', ''class_bound'', ''digest_bound'', ''single_use'']
     [''live_mutation_grant'', ''provider_calls_allowed'', ''release_or_publish_allowed''] = None"
  by code_simp+

lemma docs_accepted: "validate_authority_ticket docs_sha docs_request docs_ticket docs_now = None"
  unfolding validate_authority_ticket_def docs_scope_of
  by (simp add: docs_parts docs_digest)

lemma docs_digest_2: "check_digest docs_sha docs_ticket_2 ''approved_scope'' (rev docs_scope) = None"
  unfolding check_digest_None
  by (rule exI [of _ "[(''algorithm'', astr ''sha256''), (''covers'', astrs [''approved_scope'']), (''value'', astr ''d1'')]"])
    (simp add: docs_ticket_2_def any_get_def string_field_def string_array_contains_def digest_scope_def docs_sha_def)

lemma docs_scope_of_2: "any_get docs_ticket_2 ''approved_scope'' = AnyMap (rev docs_scope)"
  by (simp add: docs_ticket_2_def any_get_def)

lemma docs_parts_2:
  "check_ticket_request docs_request_2 = None" "check_ticket_header docs_request_2 docs_ticket_2 docs_now = None"
  "check_ticket_scope docs_request_2 (rev docs_scope) docs_now = None"
  "check_boundaries docs_ticket_2 [''exact_scope'', ''class_bound'', ''digest_bound'', ''single_use'']
     [''live_mutation_grant'', ''provider_calls_allowed'', ''release_or_publish_allowed''] = None"
  by code_simp+

lemma docs_accepted_2: "validate_authority_ticket docs_sha docs_request_2 docs_ticket_2 docs_now = None"
  unfolding validate_authority_ticket_def docs_scope_of_2
  by (simp add: docs_parts_2 docs_digest_2)

lemma docs_scope_ok_2: "any_ok (AnyMap (rev docs_scope))"
  by code_simp

lemma docs_same_text: "any_text (AnyMap (rev docs_scope)) = any_text (AnyMap docs_scope)"
  by code_simp

lemma docs_requests_differ: "docs_request \<noteq> docs_request_2"
  by code_simp

lemma docs_scope_ok: "any_ok (AnyMap docs_scope)"
  by code_simp

definition two_repo_plan :: any_map where
  "two_repo_plan =
     [(''status'', astr ''ready''), (''order'', astrs [''ao-atlas'', ''ao-forge'']),
      (''ordered_merge_plan'', AnyArr
         [AnyMap [(''repo'', astr ''ao-atlas''), (''order'', AnyFloat (Float64 1 0)), (''planned_pr'', astr ''pr-1''),
                  (''depends_on'', astrs []), (''merge_after'', astrs [])],
          AnyMap [(''repo'', astr ''ao-forge''), (''order'', AnyFloat (Float64 2 0)), (''planned_pr'', astr ''pr-2''),
                  (''depends_on'', astrs [''ao-atlas'']), (''merge_after'', astrs [''ao-atlas''])]])]"

lemma two_repo_plan_utf8: "plan_utf8 two_repo_plan"
  by code_simp

lemma two_repo_plan_accepted: "validate_ordered_plan two_repo_plan = Inr [''ao-atlas'', ''ao-forge'']"
  by code_simp

text \<open>Documents that pass the claim gate, and documents it denies without a blocker.\<close>

definition readiness_doc :: "string \<Rightarrow> any_map" where
  "readiness_doc d =
     [(''claims'', AnyMap [(claim_level_full, AnyMap
        [(''decision'', astr d),
         (''partial_evidence'', AnyMap [(''live_self_change_readback_index'', AnyMap [aflag ''claim_publish_approved'' True])])])])]"

definition readback_doc :: any_map where
  "readback_doc =
     [(''status'', astr ''passed''),
      (''sources'', AnyMap [(''control_plane_readback'', AnyMap [(''status'', astr ''passed'')])]),
      (''retained_claim_level_evidence'', AnyMap [(''status'', astr ''present'')])]"

lemma gate_examples:
  "cg_publish_authority (evaluate_claim_publish_gate (readiness_doc ''allowed'') readback_doc)"
  "\<not> cg_publish_authority (evaluate_claim_publish_gate (readiness_doc ''denied'') readback_doc)"
  "cg_blocker_count (evaluate_claim_publish_gate (readiness_doc ''denied'') readback_doc) = 0"
  by code_simp+

lemma docs_ticket_scope: "ticket_scope docs_ticket = docs_scope"
  by (simp add: ticket_scope_def docs_scope_of)

lemma docs_ticket_scope_2: "ticket_scope docs_ticket_2 = rev docs_scope"
  by (simp add: ticket_scope_def docs_scope_of_2)

lemma docs_same_digest: "ticket_digest docs_ticket = ticket_digest docs_ticket_2"
  by (simp add: ticket_digest_def docs_ticket_def docs_ticket_2_def any_get_def string_field_def)

lemma docs_digest_value: "ticket_digest docs_ticket = ''d1''"
  by (simp add: ticket_digest_def docs_ticket_def any_get_def string_field_def)

end
