(* ===== verification/Output.thy ===== *)
theory Output
  imports Workspace Contract
begin

text \<open>
  The writers of \<open>internal/cli/cli_output.go\<close>, over the file system of \<open>Workspace\<close>: the checks
  in front of an \<open>--out\<close> path, the single file, the named file with its marker line, and the
  output pair (a primary file and its digest sidecar) with its rollback. Paths are absolute and
  cleaned. Permission bits are not part of the file system, so a snapshot holds the contents only;
  a path can be missing or lie below a file, and no other inspection fails.

  The rollback is a variable of the Go package that its tests replace. It is an argument here, and
  the locale \<open>rollback\<close> states what the writer needs of it: a file that was overwritten is put back
  as the snapshot has it. The program's own \<open>rollbackOutputFile\<close> is its interpretation.
\<close>

subsection \<open>Failures of an inspection\<close>

datatype errno = ENOENT | ENOTDIR

definition stat_errno :: "fs \<Rightarrow> string \<Rightarrow> errno" where
  "stat_errno fs p =
     (if list_ex (\<lambda>q. case fs q of Some (File _) \<Rightarrow> True | _ \<Rightarrow> False) (butlast (dir_chain p))
      then ENOTDIR else ENOENT)"

text \<open>\<open>os.Remove\<close> of a file. The removal of a directory depends on what is below it, and the
  program never asks for one.\<close>

definition os_remove :: "fs \<Rightarrow> string \<Rightarrow> fs go_result" where
  "os_remove fs p = (case fs p of
      None \<Rightarrow> Inl (Errorf (os_error ''remove'' p))
    | Some (File _) \<Rightarrow> Inr (fs(p := None))
    | Some Dir \<Rightarrow> undefined fs p)"

subsection \<open>One file\<close>

definition validate_output_file_target :: "fs \<Rightarrow> string \<Rightarrow> string \<Rightarrow> go_error option" where
  "validate_output_file_target fs command out_path =
     (if trim_space out_path = [] then Some (Errorf (command @ '' --out is required''))
      else let parent = path_dir out_path in
        case os_stat fs parent of
          Inl _ \<Rightarrow>
            if stat_errno fs parent = ENOENT
              then Some (Errorf (command @ '' --out parent directory does not exist: '' @ parent))
            else if stat_errno fs parent = ENOTDIR
              then Some (Errorf (command @ '' --out parent path is not a directory: '' @ parent))
            else Some (Errorf (command @ '' --out parent path cannot be inspected: '' @ os_error ''stat'' parent))
        | Inr (File _) \<Rightarrow> Some (Errorf (command @ '' --out parent path is not a directory: '' @ parent))
        | Inr Dir \<Rightarrow>
            (case os_stat fs out_path of
               Inr Dir \<Rightarrow> Some (Errorf (command @ '' --out points to a directory: '' @ out_path))
             | Inr (File _) \<Rightarrow> None
             | Inl _ \<Rightarrow>
                 if stat_errno fs out_path \<noteq> ENOENT
                 then Some (Errorf (command @ '' --out path cannot be inspected: '' @ os_error ''stat'' out_path))
                 else None))"

definition write_output_file_bytes :: "fs \<Rightarrow> string \<Rightarrow> string \<Rightarrow> string \<Rightarrow> fs go_result" where
  "write_output_file_bytes fs command out_path bytes =
     unless_error (validate_output_file_target fs command out_path)
       (case os_write_file fs out_path bytes of
          Inl _ \<Rightarrow> Inl (Errorf (command @ '' --out write failed: '' @ os_error ''open'' out_path))
        | Inr fs' \<Rightarrow> Inr fs')"

text \<open>The standard output and the file system after the call.\<close>

definition write_named_output_file ::
    "fs \<Rightarrow> string \<Rightarrow> string \<Rightarrow> string \<Rightarrow> string \<Rightarrow> (string \<times> fs) go_result" where
  "write_named_output_file fs command marker out_path bytes =
     (if trim_space out_path = [] then Inr (bytes, fs)
      else bind_result (write_output_file_bytes fs command out_path bytes)
             (\<lambda>fs'. Inr (marker @ ''='' @ out_path @ ''\<newline>'', fs')))"

definition write_schema_validation_output :: "fs \<Rightarrow> string \<Rightarrow> string \<Rightarrow> (string \<times> fs) go_result" where
  "write_schema_validation_output fs out_path bytes =
     write_named_output_file fs ''schema validate'' ''schema_validation_report'' out_path (bytes @ ''\<newline>'')"

lemma write_output_file_bytes_Inr:
  "write_output_file_bytes fs command p s = Inr fs' \<Longrightarrow>
     fs p \<noteq> Some Dir \<and> fs (path_dir p) = Some Dir \<and> fs' = fs(p \<mapsto> File s)"
  by (auto simp: write_output_file_bytes_def os_write_file_Inr split: sum.splits)

lemma validated_target:
  "validate_output_file_target fs command p = None \<Longrightarrow>
     trim_space p \<noteq> [] \<and> fs (path_dir p) = Some Dir \<and> fs p \<noteq> Some Dir"
  by (auto simp: validate_output_file_target_def os_stat_def Let_def split: if_splits option.splits node.splits)

lemma validated_target_written:
  assumes "validate_output_file_target fs command p = None"
  shows "write_output_file_bytes fs command p s = Inr (fs(p \<mapsto> File s))"
  using assms validated_target [OF assms] by (simp add: write_output_file_bytes_def os_write_file_def)

subsection \<open>An output pair\<close>

record output_file_snapshot =
  of_exists :: bool
  of_bytes :: string

definition snapshot_output_file :: "fs \<Rightarrow> string \<Rightarrow> output_file_snapshot go_result" where
  "snapshot_output_file fs p = (case os_stat fs p of
      Inl _ \<Rightarrow> if stat_errno fs p = ENOENT then Inr \<lparr>of_exists = False, of_bytes = []\<rparr>
               else Inl (Errorf (''snapshot output: '' @ os_error ''stat'' p))
    | Inr Dir \<Rightarrow> Inr \<lparr>of_exists = True, of_bytes = []\<rparr>
    | Inr (File _) \<Rightarrow>
        (case os_read_file fs p of
           Inl _ \<Rightarrow> Inl (Errorf (''snapshot output: '' @ os_error ''open'' p))
         | Inr bytes \<Rightarrow> Inr \<lparr>of_exists = True, of_bytes = bytes\<rparr>))"

definition rollback_output_file :: "fs \<Rightarrow> string \<Rightarrow> output_file_snapshot \<Rightarrow> fs go_result" where
  "rollback_output_file fs p snapshot =
     (if of_exists snapshot
      then (case os_write_file fs p (of_bytes snapshot) of
              Inl _ \<Rightarrow> Inl (Errorf (''restore output: '' @ os_error ''open'' p))
            | Inr fs' \<Rightarrow> Inr fs')
      else (case os_remove fs p of
              Inl _ \<Rightarrow> if stat_errno fs p = ENOENT then Inr fs
                       else Inl (Errorf (''remove output: '' @ os_error ''remove'' p))
            | Inr fs' \<Rightarrow> Inr fs'))"

text \<open>\<open>outputPairError\<close>: the stage that failed and the error it wraps.\<close>

datatype output_error = Plain_Error go_error | Pair_Error (pe_stage: string) (pe_err: go_error)

definition output_pair_error_stage :: "output_error \<Rightarrow> string" where
  "output_pair_error_stage err = (case err of Pair_Error stage _ \<Rightarrow> stage | Plain_Error _ \<Rightarrow> ''main'')"

text \<open>
  The file system is returned whether the pair was written or not: what a failed call leaves behind
  is what the rollback is about.
\<close>

definition write_output_pair_with_rollback ::
    "(fs \<Rightarrow> string \<Rightarrow> output_file_snapshot \<Rightarrow> fs go_result) \<Rightarrow> fs \<Rightarrow> string \<Rightarrow> string \<Rightarrow> string \<Rightarrow>
     string \<Rightarrow> string \<Rightarrow> fs \<times> output_error option" where
  "write_output_pair_with_rollback rollback fs command out_path bytes sidecar_path sidecar_bytes =
     (case validate_output_file_target fs command out_path of
        Some e \<Rightarrow> (fs, Some (Pair_Error ''main'' e))
      | None \<Rightarrow>
          (case snapshot_output_file fs out_path of
             Inl e \<Rightarrow> (fs, Some (Pair_Error ''main'' e))
           | Inr snapshot \<Rightarrow>
               (case write_output_file_bytes fs command out_path bytes of
                  Inl e \<Rightarrow> (fs, Some (Pair_Error ''main'' e))
                | Inr fs1 \<Rightarrow>
                    (case write_output_file_bytes fs1 command sidecar_path sidecar_bytes of
                       Inr fs2 \<Rightarrow> (fs2, None)
                     | Inl e \<Rightarrow>
                         (case rollback fs1 out_path snapshot of
                            Inl r \<Rightarrow> (fs1, Some (Pair_Error ''sidecar''
                              (Errorf (error_text e @ ''; rollback output: '' @ error_text r))))
                          | Inr fs0 \<Rightarrow> (fs0, Some (Pair_Error ''sidecar'' e)))))))"

locale rollback =
  fixes undo :: "fs \<Rightarrow> string \<Rightarrow> output_file_snapshot \<Rightarrow> fs go_result"
  assumes undo_write:
    "\<lbrakk>snapshot_output_file fs p = Inr snapshot; fs p \<noteq> Some Dir; fs (path_dir p) = Some Dir\<rbrakk>
      \<Longrightarrow> undo (fs(p \<mapsto> File s)) p snapshot = Inr fs"
begin

lemma all_or_nothing:
  "case write_output_pair_with_rollback undo fs command p s q t of
     (fs', None) \<Rightarrow> fs' = fs(p \<mapsto> File s, q \<mapsto> File t)
   | (fs', Some e) \<Rightarrow> fs' = fs"
proof (cases "validate_output_file_target fs command p")
  case None
  note target = validated_target [OF None] and written = validated_target_written [OF None]
  show ?thesis
  proof (cases "snapshot_output_file fs p")
    case (Inr snapshot)
    show ?thesis
    proof (cases "write_output_file_bytes (fs(p \<mapsto> File s)) command q t")
      case (Inl e)
      with None Inr target show ?thesis
        by (simp add: write_output_pair_with_rollback_def written undo_write)
    next
      case (Inr fs2)
      with write_output_file_bytes_Inr [OF Inr] None \<open>snapshot_output_file fs p = Inr snapshot\<close>
      show ?thesis by (simp add: write_output_pair_with_rollback_def written)
    qed
  qed (simp add: write_output_pair_with_rollback_def None)
qed (simp add: write_output_pair_with_rollback_def)

end

interpretation program_rollback: rollback rollback_output_file
proof unfold_locales
  fix fs p snapshot s
  assume snap: "snapshot_output_file fs p = Inr snapshot"
    and target: "fs p \<noteq> Some Dir" "fs (path_dir p) = Some Dir"
  then have ne: "path_dir p \<noteq> p" by auto
  show "rollback_output_file (fs(p \<mapsto> File s)) p snapshot = Inr fs"
  proof (cases "fs p")
    case None
    with snap have "\<not> of_exists snapshot"
      by (auto simp: snapshot_output_file_def os_stat_def split: if_splits)
    with None show ?thesis by (simp add: rollback_output_file_def os_remove_def fun_upd_idem)
  next
    case (Some n)
    with target obtain c where c: "fs p = Some (File c)" by (cases n) auto
    with snap have "snapshot = \<lparr>of_exists = True, of_bytes = c\<rparr>"
      by (auto simp: snapshot_output_file_def os_stat_def os_read_file_def)
    with c ne target show ?thesis by (auto simp: rollback_output_file_def os_write_file_def)
  qed
qed

lemma sidecar_stage:
  assumes "write_output_pair_with_rollback rollback_output_file fs command p s q t = (fs', Some e)"
    and "validate_output_file_target fs command p = None" and "snapshot_output_file fs p = Inr snapshot"
  shows "output_pair_error_stage e = ''sidecar''"
  using assms validated_target_written [OF assms(2)]
  by (auto simp: write_output_pair_with_rollback_def output_pair_error_stage_def split: sum.splits)

end
