(* ===== verification/Go_Base64.thy ===== *)
theory Go_Base64
  imports Go_Strings Prelude
begin

text \<open>
  Go's \<open>base64.StdEncoding\<close> on byte strings: the padded encoding, and the decoder, which skips
  carriage returns and line feeds, asks for the padding and does not look at the trailing bits
  before it. Decoding what was encoded gives the bytes back.
\<close>

definition b64_char :: "nat \<Rightarrow> char" where
  "b64_char v = char_of
     (if v < 26 then 65 + v else if v < 52 then 71 + v else if v < 62 then v - 4
      else if v = 62 then 43 else (47::nat))"

definition b64_value :: "char \<Rightarrow> nat option" where
  "b64_value c =
     (if is_upper c then Some (byte c - 65) else if is_lower c then Some (byte c - 71)
      else if is_digit c then Some (byte c + 4)
      else if byte c = 43 then Some 62 else if byte c = 47 then Some 63 else None)"

fun base64_encode :: "string \<Rightarrow> string" where
  "base64_encode [] = []"
| "base64_encode [a] = [b64_char (byte a div 4), b64_char (byte a mod 4 * 16), CHR ''='', CHR ''='']"
| "base64_encode [a, b] =
     [b64_char (byte a div 4), b64_char (byte a mod 4 * 16 + byte b div 16),
      b64_char (byte b mod 16 * 4), CHR ''='']"
| "base64_encode (a # b # c # s) =
     b64_char (byte a div 4) # b64_char (byte a mod 4 * 16 + byte b div 16) #
     b64_char (byte b mod 16 * 4 + byte c div 64) # b64_char (byte c mod 64) # base64_encode s"

definition b64_first :: "nat \<Rightarrow> nat \<Rightarrow> char" where
  "b64_first v w = char_of (v * 4 + w div 16)"

definition b64_second :: "nat \<Rightarrow> nat \<Rightarrow> char" where
  "b64_second v w = char_of (v mod 16 * 16 + w div 4)"

definition b64_third :: "nat \<Rightarrow> nat \<Rightarrow> char" where
  "b64_third v w = char_of (v mod 4 * 64 + w)"

fun base64_groups :: "string \<Rightarrow> string option" where
  "base64_groups [] = Some []"
| "base64_groups (a # b # c # d # s) =
     (case (b64_value a, b64_value b) of
        (Some v, Some w) \<Rightarrow>
          if d = CHR ''='' then
            if s \<noteq> [] then None
            else if c = CHR ''='' then Some [b64_first v w]
            else (case b64_value c of Some x \<Rightarrow> Some [b64_first v w, b64_second w x] | None \<Rightarrow> None)
          else (case (b64_value c, b64_value d, base64_groups s) of
              (Some x, Some y, Some r) \<Rightarrow> Some (b64_first v w # b64_second w x # b64_third x y # r)
            | _ \<Rightarrow> None)
      | _ \<Rightarrow> None)"
| "base64_groups _ = None"

definition base64_decode :: "string \<Rightarrow> string go_result" where
  "base64_decode s =
     (case base64_groups (filter (\<lambda>c. c \<noteq> CHR 0x0D \<and> c \<noteq> CHR 0x0A) s) of
        Some r \<Rightarrow> Inr r | None \<Rightarrow> Inl (Errorf (undefined s)))"

lemma byte_b64_char:
  "v < 64 \<Longrightarrow> byte (b64_char v) =
     (if v < 26 then 65 + v else if v < 52 then 71 + v else if v < 62 then v - 4 else if v = 62 then 43 else 47)"
  by (simp add: b64_char_def)

lemma b64_value_char [simp]: "v < 64 \<Longrightarrow> b64_value (b64_char v) = Some v"
  unfolding b64_value_def is_upper_def is_lower_def is_digit_def by (simp add: byte_b64_char) arith

lemma b64_char_not_special [simp]:
  assumes "v < 64"
  shows "b64_char v \<noteq> CHR ''=''" "b64_char v \<noteq> CHR 0x0D" "b64_char v \<noteq> CHR 0x0A"
  using byte_b64_char [OF assms] by (auto split: if_splits)

lemma b64_bounds [simp]:
  "byte a div 4 < 64" "byte a mod 4 * 16 < 64" "byte a mod 4 * 16 + byte b div 16 < 64"
  "byte b mod 16 * 4 < 64" "byte b mod 16 * 4 + byte c div 64 < 64" "byte c mod 64 < 64"
  using byte_lt_256 [of a] byte_lt_256 [of b] byte_lt_256 [of c] by arith+

lemma byte_of_eqI: "n = byte c \<Longrightarrow> char_of n = c"
  by simp

lemma b64_first_byte [simp]:
  "b64_first (byte a div 4) (byte a mod 4 * 16) = a"
  "b64_first (byte a div 4) (byte a mod 4 * 16 + byte b div 16) = a"
proof -
  have "byte b div 16 < 16" using byte_lt_256 [of b] by arith
  then show "b64_first (byte a div 4) (byte a mod 4 * 16 + byte b div 16) = a"
    unfolding b64_first_def by (intro byte_of_eqI) simp
qed (simp add: b64_first_def)

lemma b64_second_byte [simp]:
  "b64_second (byte a mod 4 * 16 + byte b div 16) (byte b mod 16 * 4) = b"
  "b64_second (byte a mod 4 * 16 + byte b div 16) (byte b mod 16 * 4 + byte c div 64) = b"
proof -
  have "byte b div 16 < 16" "byte c div 64 < 4" using byte_lt_256 [of b] byte_lt_256 [of c] by arith+
  then show "b64_second (byte a mod 4 * 16 + byte b div 16) (byte b mod 16 * 4) = b"
    "b64_second (byte a mod 4 * 16 + byte b div 16) (byte b mod 16 * 4 + byte c div 64) = b"
    unfolding b64_second_def by (auto intro!: byte_of_eqI simp: mod_mult_self3)
qed

lemma b64_third_byte [simp]:
  "b64_third (byte b mod 16 * 4 + byte c div 64) (byte c mod 64) = c"
proof -
  have "byte c div 64 < 4" using byte_lt_256 [of c] by arith
  then show ?thesis unfolding b64_third_def by (auto intro!: byte_of_eqI simp: mod_mult_self3)
qed

lemma base64_groups_encode: "base64_groups (base64_encode s) = Some s"
  by (induction s rule: base64_encode.induct) simp_all

lemma base64_encode_no_breaks:
  "filter (\<lambda>c. c \<noteq> CHR 0x0D \<and> c \<noteq> CHR 0x0A) (base64_encode s) = base64_encode s"
  by (induction s rule: base64_encode.induct) simp_all

lemma base64_round_trip [simp]: "base64_decode (base64_encode s) = Inr s"
  by (simp add: base64_decode_def base64_encode_no_breaks base64_groups_encode)

end
