(* ===== verification/Go_IO.thy ===== *)
theory Go_IO
  imports Workspace Contract
begin

text \<open>
  Functions of the program that read and change the file system and may return an error. Such a
  function is one from the file system to its result and the file system it leaves behind; an
  error keeps what was changed before it. Paths are the code's own, relative to the working
  directory or absolute; they are resolved lexically, as \<open>filepath.Abs\<close> does.
\<close>

type_synonym 'a io = "fs \<Rightarrow> 'a go_result \<times> fs"

definition io_return :: "'a \<Rightarrow> 'a io" where
  "io_return x = (\<lambda>fs. (Inr x, fs))"

definition io_result :: "'a go_result \<Rightarrow> 'a io" where
  "io_result r = (\<lambda>fs. (r, fs))"

definition io_check :: "go_error option \<Rightarrow> unit io" where
  "io_check e = (\<lambda>fs. (case e of Some x \<Rightarrow> Inl x | None \<Rightarrow> Inr (), fs))"

definition io_bind :: "'a io \<Rightarrow> ('a \<Rightarrow> 'b io) \<Rightarrow> 'b io" where
  "io_bind m k = (\<lambda>fs. case m fs of (Inl e, fs') \<Rightarrow> (Inl e, fs') | (Inr x, fs') \<Rightarrow> k x fs')"

text \<open>\<open>fmt.Errorf("label: %w", err)\<close>\<close>

definition io_wrap :: "string \<Rightarrow> 'a io \<Rightarrow> 'a io" where
  "io_wrap prefix_text m =
     (\<lambda>fs. case m fs of (Inl e, fs') \<Rightarrow> (Inl (Errorf (prefix_text @ error_text e)), fs') | r \<Rightarrow> r)"

text \<open>A loop over a list that threads a state and returns at the first error.\<close>

fun io_fold :: "('a \<Rightarrow> 's \<Rightarrow> 's io) \<Rightarrow> 'a list \<Rightarrow> 's \<Rightarrow> 's io" where
  "io_fold f [] s = io_return s"
| "io_fold f (x # xs) s = io_bind (f x s) (io_fold f xs)"

lemma io_return_Inr [simp]: "io_return x fs = (Inr y, fs') \<longleftrightarrow> y = x \<and> fs' = fs"
  by (auto simp: io_return_def)

lemma io_result_Inr [simp]: "io_result r fs = (Inr y, fs') \<longleftrightarrow> r = Inr y \<and> fs' = fs"
  by (auto simp: io_result_def)

lemma io_check_Inr [simp]: "io_check e fs = (Inr u, fs') \<longleftrightarrow> e = None \<and> fs' = fs"
  by (auto simp: io_check_def split: option.splits)

lemma io_bind_Inr: "io_bind m k fs = (Inr y, fs'') \<longleftrightarrow> (\<exists>x fs'. m fs = (Inr x, fs') \<and> k x fs' = (Inr y, fs''))"
  by (auto simp: io_bind_def split: prod.splits sum.splits)

text \<open>Running a step on a given file system.\<close>

lemma io_apply:
  "io_return x fs = (Inr x, fs)"
  "io_result r fs = (r, fs)"
  "io_check e fs = (case e of Some x \<Rightarrow> Inl x | None \<Rightarrow> Inr (), fs)"
  "io_bind m k fs = (case m fs of (Inl e, fs') \<Rightarrow> (Inl e, fs') | (Inr x, fs') \<Rightarrow> k x fs')"
  "io_wrap l m fs = (case m fs of (Inl e, fs') \<Rightarrow> (Inl (Errorf (l @ error_text e)), fs') | r \<Rightarrow> r)"
  by (simp_all add: io_return_def io_result_def io_check_def io_bind_def io_wrap_def)

lemma io_bindI: "m fs = (Inr x, fs') \<Longrightarrow> io_bind m k fs = k x fs'"
  by (simp add: io_bind_def)

lemma io_wrap_Inr [simp]: "io_wrap l m fs = (Inr y, fs') \<longleftrightarrow> m fs = (Inr y, fs')"
  by (auto simp: io_wrap_def split: prod.splits sum.splits)

text \<open>An invariant of the loop state and the file system, kept by every round.\<close>

lemma io_fold_invariant:
  assumes "io_fold f xs s fs = (Inr s', fs')" and "P [] s fs"
    and "\<And>seen x s fs s' fs'. \<lbrakk>P seen s fs; f x s fs = (Inr s', fs'); x \<in> set xs\<rbrakk> \<Longrightarrow> P (seen @ [x]) s' fs'"
  shows "P xs s' fs'"
proof -
  have "P seen s fs \<Longrightarrow> set ys \<subseteq> set xs \<Longrightarrow> io_fold f ys s fs = (Inr s', fs') \<Longrightarrow> P (seen @ ys) s' fs'"
    for seen ys
  proof (induction ys arbitrary: seen s fs)
    case (Cons y ys)
    then obtain s1 fs1 where y: "f y s fs = (Inr s1, fs1)" and rest: "io_fold f ys s1 fs1 = (Inr s', fs')"
      by (auto simp: io_bind_Inr)
    from assms(3) [OF Cons.prems(1) y] Cons.prems(2) have "P (seen @ [y]) s1 fs1" by simp
    from Cons.IH [OF this _ rest] Cons.prems(2) show ?case by simp
  qed simp
  from this [of "[]" xs] assms(1,2) show ?thesis by simp
qed

lemma io_fold_preserves:
  assumes "io_fold f xs s fs = (Inr s', fs')" and "P s fs"
    and "\<And>x s fs s' fs'. P s fs \<Longrightarrow> f x s fs = (Inr s', fs') \<Longrightarrow> P s' fs'"
  shows "P s' fs'"
  using io_fold_invariant [OF assms(1), where P = "\<lambda>_. P"] assms(2,3) by blast

subsection \<open>Calls of the operating system on the code's paths\<close>

text \<open>\<open>filepath.Abs\<close>\<close>

definition abs_path :: "string \<Rightarrow> string \<Rightarrow> string" where
  "abs_path cwd p = (if is_abs p then path_clean p else path_join [cwd, p])"

definition read_at :: "string \<Rightarrow> fs \<Rightarrow> string \<Rightarrow> string go_result" where
  "read_at cwd fs p = (case os_read_file fs (abs_path cwd p) of
      Inl _ \<Rightarrow> Inl (Errorf (os_error ''open'' p)) | Inr s \<Rightarrow> Inr s)"

lemma read_at_Inr [simp]: "read_at cwd fs p = Inr s \<longleftrightarrow> fs (abs_path cwd p) = Some (File s)"
  by (simp add: read_at_def os_read_file_def split: option.splits node.splits)

lemma read_at_file: "fs (abs_path cwd p) = Some (File s) \<Longrightarrow> read_at cwd fs p = Inr s"
  by simp

definition io_read :: "string \<Rightarrow> string \<Rightarrow> string io" where
  "io_read cwd p = (\<lambda>fs. (read_at cwd fs p, fs))"

definition io_write :: "string \<Rightarrow> string \<Rightarrow> string \<Rightarrow> unit io" where
  "io_write cwd p s = (\<lambda>fs. case os_write_file fs (abs_path cwd p) s of
      Inl _ \<Rightarrow> (Inl (Errorf (os_error ''open'' p)), fs) | Inr fs' \<Rightarrow> (Inr (), fs'))"

definition io_mkdir_all :: "string \<Rightarrow> string \<Rightarrow> unit io" where
  "io_mkdir_all cwd p = (\<lambda>fs. case os_mkdir_all fs (abs_path cwd p) of
      Inl _ \<Rightarrow> (Inl (Errorf (os_error ''mkdir'' p)), fs) | Inr fs' \<Rightarrow> (Inr (), fs'))"

lemma io_read_Inr [simp]: "io_read cwd p fs = (Inr s, fs') \<longleftrightarrow> fs (abs_path cwd p) = Some (File s) \<and> fs' = fs"
  by (auto simp: io_read_def)

lemma io_write_Inr: "io_write cwd p s fs = (Inr u, fs') \<longleftrightarrow>
    fs (abs_path cwd p) \<noteq> Some Dir \<and> fs (path_dir (abs_path cwd p)) = Some Dir \<and>
    fs' = fs(abs_path cwd p \<mapsto> File s)"
  by (auto simp: io_write_def os_write_file_def split: sum.splits if_splits)

lemma io_mkdir_all_files:
  "io_mkdir_all cwd p fs = (Inr u, fs') \<Longrightarrow> fs q = Some (File s) \<Longrightarrow> fs' q = Some (File s)"
  using os_mkdir_all_files by (auto simp: io_mkdir_all_def split: sum.splits)

end
