(* ===== verification/Release_Types.thy ===== *)
theory Release_Types
  imports Go_Base64 Go_Json Go_IO
begin

text \<open>
  The data of \<open>internal/release/release.go\<close> and \<open>internal/buildinfo\<close>, and what the release
  package calls outside this repository, collected in the record \<open>release_env\<close>: the hash
  (as hex digits), the verdicts of the schema validator, the JSON decoders of the files it reads, the signature scheme,
  the Go tool chain and the binaries it runs. The JSON documents the package itself prints are
  written out.
\<close>

subsection \<open>Build information\<close>

record build_vars =
  bv_version :: string
  bv_commit :: string
  bv_date :: string

text \<open>The values when nothing is set at link time.\<close>

definition default_build_vars :: build_vars where
  "default_build_vars = \<lparr>bv_version = ''dev'', bv_commit = ''unknown'', bv_date = ''unknown''\<rparr>"

record build_info =
  bi_schema_version :: string
  bi_version :: string
  bi_commit :: string
  bi_date :: string
  bi_go_version :: string
  bi_os :: string
  bi_arch :: string

definition current_build :: "build_vars \<Rightarrow> string \<Rightarrow> string \<Rightarrow> string \<Rightarrow> build_info" where
  "current_build v go_version goos goarch =
     \<lparr>bi_schema_version = ''covenant.version-result.v1'', bi_version = bv_version v,
      bi_commit = bv_commit v, bi_date = bv_date v, bi_go_version = go_version,
      bi_os = goos, bi_arch = goarch\<rparr>"

subsection \<open>The manifest\<close>

record release_target =
  rt_os :: string
  rt_arch :: string

record attestation =
  at_name :: string
  at_kind :: string
  at_path :: string
  at_sha256 :: string
  at_size_bytes :: int

record release_artifact =
  rf_name :: string
  rf_target :: release_target
  rf_path :: string
  rf_sha256 :: string
  rf_size_bytes :: int
  rf_attestations :: "attestation list"

record supplemental =
  su_kind :: string
  su_name :: string
  su_path :: string
  su_sha256 :: string
  su_size_bytes :: int

record release_manifest =
  rm_schema_version :: string
  rm_version :: string
  rm_commit :: string
  rm_date :: string
  rm_artifacts :: "release_artifact list"
  rm_supplemental :: "supplemental list"

definition target_json :: "release_target \<Rightarrow> json" where
  "target_json t = JObj (field ''os'' (JStr (rt_os t)) @ field ''arch'' (JStr (rt_arch t)))"

definition attestation_json :: "attestation \<Rightarrow> json" where
  "attestation_json a = JObj (
     field ''name'' (JStr (at_name a)) @ field_str_opt ''kind'' (at_kind a) @
     field ''path'' (JStr (at_path a)) @ field ''sha256'' (JStr (at_sha256 a)) @
     field ''size_bytes'' (JInt (at_size_bytes a)))"

definition release_artifact_json :: "release_artifact \<Rightarrow> json" where
  "release_artifact_json a = JObj (
     field ''name'' (JStr (rf_name a)) @ field ''target'' (target_json (rf_target a)) @
     field ''path'' (JStr (rf_path a)) @ field ''sha256'' (JStr (rf_sha256 a)) @
     field ''size_bytes'' (JInt (rf_size_bytes a)) @
     field_list_opt ''attestations'' (map attestation_json (rf_attestations a)))"

definition supplemental_json :: "supplemental \<Rightarrow> json" where
  "supplemental_json s = JObj (
     field ''kind'' (JStr (su_kind s)) @ field ''name'' (JStr (su_name s)) @
     field ''path'' (JStr (su_path s)) @ field ''sha256'' (JStr (su_sha256 s)) @
     field ''size_bytes'' (JInt (su_size_bytes s)))"

definition release_manifest_json :: "release_manifest \<Rightarrow> json" where
  "release_manifest_json m = JObj (
     field ''schema_version'' (JStr (rm_schema_version m)) @ field ''version'' (JStr (rm_version m)) @
     field ''commit'' (JStr (rm_commit m)) @ field ''date'' (JStr (rm_date m)) @
     field ''artifacts'' (JArr (map release_artifact_json (rm_artifacts m))) @
     field_list_opt ''supplemental_artifacts'' (map supplemental_json (rm_supplemental m)))"

subsection \<open>Keys and signatures\<close>

record private_key_file =
  pk_file_schema_version :: string
  pk_file_algorithm :: string
  pk_file_public_key :: string
  pk_file_private_key :: string

record public_key_file =
  pub_file_schema_version :: string
  pub_file_algorithm :: string
  pub_file_public_key :: string

record signature_file =
  sf_schema_version :: string
  sf_algorithm :: string
  sf_signed_entry :: string
  sf_public_key_sha256 :: string
  sf_signature :: string

definition signature_file_json :: "signature_file \<Rightarrow> json" where
  "signature_file_json s = JObj (
     field ''schema_version'' (JStr (sf_schema_version s)) @ field ''algorithm'' (JStr (sf_algorithm s)) @
     field ''signed_entry'' (JStr (sf_signed_entry s)) @
     field ''public_key_sha256'' (JStr (sf_public_key_sha256 s)) @
     field ''signature'' (JStr (sf_signature s)))"

subsection \<open>Options and results\<close>

record build_request =
  br_source_dir :: string
  br_output_path :: string
  br_target :: release_target
  br_ldflags :: string

record release_options =
  ro_source_dir :: string
  ro_out_dir :: string
  ro_version :: string
  ro_commit :: string
  ro_date :: string
  ro_targets :: "release_target list"
  ro_prebuilt :: "(string \<times> string) list"
  ro_build :: "(build_request \<Rightarrow> unit io) option"
  ro_sign_key_path :: string
  ro_sbom_paths :: "string list"
  ro_provenance_paths :: "string list"
  ro_attestation_paths :: "string list"

record release_result =
  rr_manifest_path :: string
  rr_checksums_path :: string
  rr_signature_path :: string
  rr_artifacts :: "release_artifact list"
  rr_manifest :: release_manifest
  rr_public_key_sha256 :: string

text \<open>\<open>MetadataFunc\<close>: a reader of the version a binary reports, or nil.\<close>

type_synonym metadata_func = "(string \<Rightarrow> build_info go_result) option"

record release_verify_options =
  rvo_dir :: string
  rvo_public_key_path :: string
  rvo_metadata :: metadata_func
  rvo_host_metadata :: metadata_func

text \<open>What lies outside the repository.\<close>

record release_env =
  re_sha :: "string \<Rightarrow> string"
  re_cwd :: string
  re_goos :: string
  re_goarch :: string
  re_build_vars :: build_vars
  re_go_build :: "build_request \<Rightarrow> unit io"
  re_schema_manifest :: "release_manifest \<Rightarrow> go_error option"
  re_schema_bytes :: "string \<Rightarrow> string \<Rightarrow> go_error option"
  re_decode_manifest :: "string \<Rightarrow> release_manifest go_result"
  re_decode_signature :: "string \<Rightarrow> signature_file go_result"
  re_decode_private_key :: "string \<Rightarrow> private_key_file go_result"
  re_decode_public_key :: "string \<Rightarrow> public_key_file go_result"
  re_sign :: "string \<Rightarrow> string \<Rightarrow> string"
  re_public_of :: "string \<Rightarrow> string"
  re_verify :: "string \<Rightarrow> string \<Rightarrow> string \<Rightarrow> bool"
  re_map_order :: "string list \<Rightarrow> string list"

subsection \<open>Reports\<close>

record attestation_report =
  ar_name :: string
  ar_kind :: string
  ar_path :: string
  ar_verified :: bool
  ar_path_valid :: bool
  ar_digest_verified :: bool
  ar_size_verified :: bool
  ar_checksum_verified :: bool
  ar_sha256 :: string
  ar_size_bytes :: int
  ar_actual_sha256 :: string
  ar_actual_size_bytes :: int
  ar_problems :: "string list"

record supplemental_report =
  sr_kind :: string
  sr_name :: string
  sr_path :: string
  sr_verified :: bool
  sr_path_valid :: bool
  sr_digest_verified :: bool
  sr_size_verified :: bool
  sr_checksum_verified :: bool
  sr_sha256 :: string
  sr_size_bytes :: int
  sr_actual_sha256 :: string
  sr_actual_size_bytes :: int
  sr_problems :: "string list"

record artifact_report =
  fr_name :: string
  fr_target :: release_target
  fr_path :: string
  fr_verified :: bool
  fr_path_valid :: bool
  fr_digest_verified :: bool
  fr_size_verified :: bool
  fr_checksum_verified :: bool
  fr_metadata_verified :: bool
  fr_host_metadata_checked :: bool
  fr_sha256 :: string
  fr_size_bytes :: int
  fr_actual_sha256 :: string
  fr_actual_size_bytes :: int
  fr_problems :: "string list"
  fr_attestations :: "attestation_report list"

record attestation_provenance =
  ap_kind :: string
  ap_name :: string
  ap_path :: string
  ap_status :: string
  ap_sha256 :: string
  ap_size_bytes :: int

record artifact_provenance =
  fp_name :: string
  fp_target :: release_target
  fp_status :: string
  fp_metadata_verified :: bool
  fp_binary_metadata :: "build_info option"
  fp_attestations :: "attestation_provenance list"

record supplemental_provenance =
  sp_kind :: string
  sp_name :: string
  sp_path :: string
  sp_status :: string
  sp_sha256 :: string
  sp_size_bytes :: int

record release_provenance =
  pv_version :: string
  pv_commit :: string
  pv_date :: string
  pv_public_key_sha256 :: string
  pv_signature_verified :: bool
  pv_artifacts :: "artifact_provenance list"
  pv_supplemental :: "supplemental_provenance list"

record release_verify_report =
  rv_verified :: bool
  rv_manifest_path :: string
  rv_checksums_path :: string
  rv_signature_path :: string
  rv_artifact_count :: nat
  rv_problems :: "string list"
  rv_public_key_sha256 :: string
  rv_artifacts :: "artifact_report list"
  rv_supplemental :: "supplemental_report list"
  rv_provenance :: release_provenance

end
