(* ===== verification/Release_Package.thy ===== *)
theory Release_Package
  imports Release_Types
begin

text \<open>
  \<open>internal/release/publication_package.go\<close>: the packaging of a release. One binary per target is
  built or copied into the output directory, attestations and supplemental files are copied beside
  them, and the manifest, the checksum list and the optional signature are written. The map of
  occupied names is a function whose empty value is a missing entry, as the code reads it. A
  prebuilt map is the list of its entries.
\<close>

subsection \<open>Targets and names\<close>

definition default_targets :: "release_target list" where
  "default_targets =
     [\<lparr>rt_os = ''linux'', rt_arch = ''amd64''\<rparr>, \<lparr>rt_os = ''linux'', rt_arch = ''arm64''\<rparr>,
      \<lparr>rt_os = ''darwin'', rt_arch = ''amd64''\<rparr>, \<lparr>rt_os = ''darwin'', rt_arch = ''arm64''\<rparr>,
      \<lparr>rt_os = ''windows'', rt_arch = ''amd64''\<rparr>]"

definition parse_target :: "string \<Rightarrow> release_target go_result" where
  "parse_target raw = (case split_on slash raw of
      [os, arch] \<Rightarrow> if trim_space os = [] \<or> trim_space arch = []
                    then Inl (Errorf ''target must be os/arch'')
                    else Inr \<lparr>rt_os = os, rt_arch = arch\<rparr>
    | _ \<Rightarrow> Inl (Errorf ''target must be os/arch''))"

definition target_key :: "release_target \<Rightarrow> string" where
  "target_key t = rt_os t @ [slash] @ rt_arch t"

definition artifact_name :: "string \<Rightarrow> release_target \<Rightarrow> string" where
  "artifact_name version t =
     ''ao-covenant_'' @ version @ ''_'' @ rt_os t @ ''_'' @ rt_arch t @
     (if rt_os t = ''windows'' then ''.exe'' else [])"

definition release_default :: "string \<Rightarrow> string \<Rightarrow> string" where
  "release_default value fallback = (if trim_space value = [] then fallback else value)"

definition build_ldflags :: "string \<Rightarrow> string \<Rightarrow> string \<Rightarrow> string" where
  "build_ldflags version commit date =
     (let pre = ''github.com/uesugitorachiyo/ao-covenant/internal/buildinfo''
      in join_with '' '' [''-s'', ''-w'', ''-X'', pre @ ''.Version='' @ version,
           ''-X'', pre @ ''.Commit='' @ commit, ''-X'', pre @ ''.Date='' @ date])"

lemma target_key_inject:
  fixes t u :: release_target
  assumes "slash \<notin> set (rt_os t)" and "slash \<notin> set (rt_os u)" and "target_key t = target_key u"
  shows "t = u"
proof -
  have "cut_at slash (target_key t) = Some (rt_os t, rt_arch t)"
    "cut_at slash (target_key u) = Some (rt_os u, rt_arch u)"
    using assms(1,2) by (simp_all add: cut_at_Some target_key_def)
  with assms(3) have "rt_os t = rt_os u" "rt_arch t = rt_arch u" by simp_all
  then show ?thesis by simp
qed

lemma parse_target_key:
  assumes "parse_target raw = Inr t"
  shows "target_key t = raw \<and> slash \<notin> set (rt_os t) \<and> slash \<notin> set (rt_arch t)"
proof -
  from assms obtain a b where s: "split_on slash raw = [a, b]" and t: "t = \<lparr>rt_os = a, rt_arch = b\<rparr>"
    by (auto simp: parse_target_def split: list.splits if_splits)
  have "join_with [slash] [a, b] = raw" by (metis join_split s)
  moreover have "slash \<notin> set a" "slash \<notin> set b" using split_on_elem_free [of _ slash raw] s by auto
  ultimately show ?thesis by (simp add: t target_key_def)
qed

subsection \<open>Files\<close>

definition file_digest_size :: "release_env \<Rightarrow> string \<Rightarrow> (string \<times> int) io" where
  "file_digest_size en p =
     io_bind (io_read (re_cwd en) p) (\<lambda>s. io_return (re_sha en s, int (length s)))"

text \<open>The candidate is read and written under a new name; an existing output is an error.\<close>

definition copy_prebuilt_candidate :: "release_env \<Rightarrow> string \<Rightarrow> string \<Rightarrow> unit io" where
  "copy_prebuilt_candidate en source output =
     (\<lambda>fs. case fs (abs_path (re_cwd en) source) of
        None \<Rightarrow> (Inl (Errorf (os_error ''lstat'' source)), fs)
      | Some Dir \<Rightarrow> (Inl (Errorf ''candidate must be a regular file''), fs)
      | Some (File s) \<Rightarrow>
          if fs (abs_path (re_cwd en) output) \<noteq> None
          then (Inl (Errorf (os_error ''open'' output)), fs)
          else io_write (re_cwd en) output s fs)"

lemma file_digest_size_Inr: "file_digest_size en p fs = (Inr r, fs') \<longleftrightarrow>
    (\<exists>s. fs (abs_path (re_cwd en) p) = Some (File s) \<and> r = (re_sha en s, int (length s)) \<and> fs' = fs)"
  by (auto simp: file_digest_size_def io_bind_Inr)

lemma copy_prebuilt_Inr: "copy_prebuilt_candidate en source output fs = (Inr u, fs') \<longleftrightarrow>
    (\<exists>s. fs (abs_path (re_cwd en) source) = Some (File s)) \<and> fs (abs_path (re_cwd en) output) = None \<and>
    fs (path_dir (abs_path (re_cwd en) output)) = Some Dir \<and>
    (\<exists>s. fs (abs_path (re_cwd en) source) = Some (File s) \<and> fs' = fs(abs_path (re_cwd en) output \<mapsto> File s))"
  by (auto simp: copy_prebuilt_candidate_def io_write_Inr split: option.splits node.splits if_splits)

text \<open>
  The part that the supplemental files and the attestations share: a source file is copied to its
  destination unless it is the same path, and the destination is digested.
\<close>

definition copy_and_digest :: "release_env \<Rightarrow> string \<Rightarrow> string \<Rightarrow> string \<Rightarrow> (string \<times> int) io" where
  "copy_and_digest en label source destination =
     io_bind
       (if abs_path (re_cwd en) source \<noteq> abs_path (re_cwd en) destination
        then io_bind (io_wrap (''read '' @ label @ '' '' @ quoted source @ '': '') (io_read (re_cwd en) source))
               (\<lambda>s. io_wrap (''write '' @ label @ '' '' @ quoted destination @ '': '')
                      (io_write (re_cwd en) destination s))
        else io_return ())
       (\<lambda>_. io_wrap (''digest '' @ label @ '' '' @ quoted destination @ '': '') (file_digest_size en destination))"

definition invalid_file_name :: "string \<Rightarrow> bool" where
  "invalid_file_name name \<longleftrightarrow> name = ''.'' \<or> name = [slash]"

type_synonym names = "string \<Rightarrow> string"

definition name_taken :: "names \<Rightarrow> string \<Rightarrow> go_error option" where
  "name_taken occupied name = fail_if (occupied name \<noteq> [])
     (Errorf (''duplicate release artifact name '' @ quoted name @ '' already used by '' @ occupied name))"

lemma copy_and_digest_Inr:
  assumes "copy_and_digest en label source destination fs = (Inr r, fs')"
  shows "\<exists>s. fs' (abs_path (re_cwd en) destination) = Some (File s) \<and> r = (re_sha en s, int (length s)) \<and>
    fs' = fs(abs_path (re_cwd en) destination \<mapsto> File s)"
  using assms
  by (auto simp: copy_and_digest_def io_bind_Inr io_write_Inr file_digest_size_Inr fun_upd_idem split: if_splits)

subsection \<open>Supplemental files\<close>

definition add_supplemental ::
    "release_env \<Rightarrow> string \<Rightarrow> string \<Rightarrow> string \<Rightarrow> supplemental list \<times> names \<Rightarrow> (supplemental list \<times> names) io" where
  "add_supplemental en out_dir kind raw = (\<lambda>(items, occupied).
     let source = trim_space raw; name = path_base (path_clean source) in
     if source = [] then io_return (items, occupied)
     else if invalid_file_name name
       then io_result (Inl (Errorf (kind @ '' path '' @ quoted source @ '' has invalid file name'')))
     else io_bind (io_check (name_taken occupied name)) (\<lambda>_.
       io_bind (copy_and_digest en (kind @ '' supplemental artifact'') source (path_join [out_dir, name]))
         (\<lambda>(digest, size). io_return
            (items @ [\<lparr>su_kind = kind, su_name = name, su_path = name, su_sha256 = digest, su_size_bytes = size\<rparr>],
             occupied(name := kind @ '' supplemental artifact'')))))"

definition build_supplemental_artifacts ::
    "release_env \<Rightarrow> string \<Rightarrow> release_options \<Rightarrow> names \<Rightarrow> (supplemental list \<times> names) io" where
  "build_supplemental_artifacts en out_dir opts occupied =
     io_bind (io_fold (add_supplemental en out_dir ''sbom'') (ro_sbom_paths opts) ([], occupied))
       (io_fold (add_supplemental en out_dir ''provenance'') (ro_provenance_paths opts))"

subsection \<open>Attestations\<close>

definition parse_attestation_selector :: "string \<Rightarrow> (string \<times> string) go_result" where
  "parse_attestation_selector raw =
     (let selector = trim_space raw in
      case cut_at (CHR '','') selector of
        Some (pre, rest) \<Rightarrow>
          if prefix ''kind:'' pre then
            let kind = trim_space (drop 5 pre); sel = trim_space rest in
            if kind = [] then Inl (Errorf ''attestation kind label is empty'')
            else if sel = [] then Inl (Errorf ''attestation selector is empty'')
            else Inr (sel, kind)
          else Inr (selector, [])
      | None \<Rightarrow> Inr (selector, []))"

definition attestation_selector_matches :: "release_artifact \<Rightarrow> string \<Rightarrow> string \<Rightarrow> bool" where
  "attestation_selector_matches a kind value =
     (if kind = ''name'' then value = rf_name a
      else if kind = ''target'' then value = target_key (rf_target a)
      else if kind = ''path'' then value = rf_path a
      else value = rf_name a \<or> value = target_key (rf_target a))"

definition attestation_selector_choices :: "release_artifact list \<Rightarrow> string list" where
  "attestation_selector_choices artifacts =
     concat (map (\<lambda>a. [''name:'' @ rf_name a, ''target:'' @ target_key (rf_target a), ''path:'' @ rf_path a]) artifacts)"

text \<open>The index of the first match of a predicate.\<close>

fun first_index :: "('a \<Rightarrow> bool) \<Rightarrow> 'a list \<Rightarrow> nat option" where
  "first_index P [] = None"
| "first_index P (x # xs) = (if P x then Some 0 else map_option Suc (first_index P xs))"

lemma first_index_Some: "first_index P xs = Some i \<Longrightarrow> i < length xs \<and> P (xs ! i)"
  by (induction xs arbitrary: i) (auto split: if_splits)

definition match_attestation_selector :: "release_artifact list \<Rightarrow> string \<Rightarrow> nat go_result" where
  "match_attestation_selector artifacts selector =
     (let (kind, value) = (case cut_at (CHR 0x3A) selector of
            Some (pre, rest) \<Rightarrow> if pre \<in> {''name'', ''target'', ''path''} then (pre, rest) else (''bare'', selector)
          | None \<Rightarrow> (''bare'', selector))
      in case first_index (\<lambda>a. attestation_selector_matches a kind value) artifacts of
           Some i \<Rightarrow> Inr i
         | None \<Rightarrow> Inl (Errorf (''attestation selector '' @ quoted selector @
             '' did not match a release artifact; available selectors: '' @
             join_with '', '' (attestation_selector_choices artifacts))))"

definition attestation_form :: string where
  "attestation_form = ''attestation must be '' @ [CHR 0x27] @ ''<artifact-or-target>=<path>'' @ [CHR 0x27]"

definition attach_attestation ::
    "release_env \<Rightarrow> string \<Rightarrow> string \<Rightarrow> release_artifact list \<times> names \<Rightarrow> (release_artifact list \<times> names) io" where
  "attach_attestation en out_dir spec = (\<lambda>(artifacts, occupied).
     let raw = trim_space spec in
     if raw = [] then io_return (artifacts, occupied)
     else case cut_at (CHR ''='') raw of
       None \<Rightarrow> io_result (Inl (Errorf attestation_form))
     | Some (lhs, rhs) \<Rightarrow>
         if trim_space lhs = [] \<or> trim_space rhs = []
         then io_result (Inl (Errorf attestation_form))
         else io_bind (io_result (parse_attestation_selector (trim_space lhs))) (\<lambda>(selector, kind).
           let source = trim_space rhs in
           io_bind (io_result (match_attestation_selector artifacts selector)) (\<lambda>i.
           let source_name = path_base (path_clean source);
               name = rf_name (artifacts ! i) @ ''.'' @ source_name in
           if invalid_file_name source_name
           then io_result (Inl (Errorf (''attestation path '' @ quoted source @ '' has invalid file name'')))
           else io_bind (io_check (name_taken occupied name)) (\<lambda>_.
             io_bind (copy_and_digest en ''artifact attestation'' source (path_join [out_dir, name]))
               (\<lambda>(digest, size). io_return
                  (artifacts[i := (artifacts ! i)\<lparr>rf_attestations := rf_attestations (artifacts ! i) @
                     [\<lparr>at_name = source_name, at_kind = kind, at_path = name, at_sha256 = digest,
                       at_size_bytes = size\<rparr>]\<rparr>],
                   occupied(name := ''artifact attestation'')))))))"

definition attach_artifact_attestations ::
    "release_env \<Rightarrow> string \<Rightarrow> release_artifact list \<Rightarrow> string list \<Rightarrow> names \<Rightarrow> (release_artifact list \<times> names) io" where
  "attach_artifact_attestations en out_dir artifacts specs occupied =
     io_fold (attach_attestation en out_dir) specs (artifacts, occupied)"

subsection \<open>Signing\<close>

definition decode_public_key :: "string \<Rightarrow> string \<Rightarrow> string go_result" where
  "decode_public_key encoded label = (case base64_decode encoded of
      Inl e \<Rightarrow> Inl (Errorf (''decode '' @ label @ '': '' @ error_text e))
    | Inr bytes \<Rightarrow> if length bytes \<noteq> 32
        then Inl (Errorf (label @ '' length = '' @ int_text (int (length bytes)) @ '', want 32''))
        else Inr bytes)"

definition public_key_fingerprint :: "release_env \<Rightarrow> string \<Rightarrow> string" where
  "public_key_fingerprint en public_key = re_sha en public_key"

definition private_key_schema :: string where
  "private_key_schema = ''covenant.bundle-private-key.v1''"

definition public_key_schema :: string where
  "public_key_schema = ''covenant.bundle-public-key.v1''"

definition release_signature_schema :: string where
  "release_signature_schema = ''covenant.release-signature.v1''"

definition release_manifest_schema :: string where
  "release_manifest_schema = ''covenant.release-manifest.v1''"

text \<open>\<open>readPrivateKey\<close> after the file is read: the pair of the private and the public key.\<close>

definition open_private_key :: "release_env \<Rightarrow> string \<Rightarrow> (string \<times> string) go_result" where
  "open_private_key en bytes =
     unless_error (re_schema_bytes en private_key_schema bytes)
       (case re_decode_private_key en bytes of
          Inl e \<Rightarrow> Inl (Errorf (''decode private key: '' @ error_text e))
        | Inr k \<Rightarrow>
            if pk_file_schema_version k \<noteq> private_key_schema
            then Inl (Errorf (''unsupported private key schema_version '' @ quoted (pk_file_schema_version k)))
            else if pk_file_algorithm k \<noteq> ''ed25519''
            then Inl (Errorf (''unsupported private key algorithm '' @ quoted (pk_file_algorithm k)))
            else bind_result (decode_public_key (pk_file_public_key k) ''private key public key'') (\<lambda>public_key.
              case base64_decode (pk_file_private_key k) of
                Inl e \<Rightarrow> Inl (Errorf (''decode private key bytes: '' @ error_text e))
              | Inr private_key \<Rightarrow>
                  if length private_key \<noteq> 64
                  then Inl (Errorf (''private key length = '' @ int_text (int (length private_key)) @ '', want 64''))
                  else if re_public_of en private_key \<noteq> public_key
                  then Inl (Errorf ''private key public key mismatch'')
                  else Inr (private_key, public_key)))"

definition read_private_key :: "release_env \<Rightarrow> string \<Rightarrow> (string \<times> string) io" where
  "read_private_key en p =
     io_bind (io_wrap ''read private key: '' (io_read (re_cwd en) p)) (\<lambda>s. io_result (open_private_key en s))"

definition sign_release_manifest :: "release_env \<Rightarrow> string \<Rightarrow> string \<Rightarrow> (string \<times> string) io" where
  "sign_release_manifest en key_path manifest_bytes =
     io_bind (read_private_key en key_path) (\<lambda>(private_key, public_key).
       let fingerprint = public_key_fingerprint en public_key;
           file = \<lparr>sf_schema_version = release_signature_schema, sf_algorithm = ''ed25519'',
             sf_signed_entry = ''manifest.json'', sf_public_key_sha256 = fingerprint,
             sf_signature = base64_encode (re_sign en private_key manifest_bytes)\<rparr>;
           bytes = json_indent 0 (signature_file_json file) @ [CHR 0x0A]
       in io_bind (io_check (re_schema_bytes en release_signature_schema bytes))
            (\<lambda>_. io_return (bytes, fingerprint)))"

subsection \<open>The manifest and the checksum list\<close>

text \<open>\<open>schema.WriteJSONFile\<close>: the value is validated before the file is touched.\<close>

definition write_manifest :: "release_env \<Rightarrow> string \<Rightarrow> release_manifest \<Rightarrow> unit io" where
  "write_manifest en p m =
     io_wrap ''validate release manifest: ''
       (io_bind (io_check (re_schema_manifest en m)) (\<lambda>_.
          io_bind (io_wrap (''create parent directory for '' @ p @ '': '') (io_mkdir_all (re_cwd en) (path_dir p)))
            (\<lambda>_. io_wrap (''open '' @ p @ '': '')
               (io_write (re_cwd en) p (json_indent 0 (release_manifest_json m) @ [CHR 0x0A])))))"

definition checksum_line :: "string \<Rightarrow> string \<Rightarrow> string" where
  "checksum_line digest name = digest @ ''  '' @ name @ [CHR 0x0A]"

definition checksums_text :: "release_artifact list \<Rightarrow> supplemental list \<Rightarrow> string" where
  "checksums_text artifacts supplementals =
     concat (map (\<lambda>a. checksum_line (rf_sha256 a) (rf_name a) @
       concat (map (\<lambda>t. checksum_line (at_sha256 t) (at_path t)) (rf_attestations a))) artifacts) @
     concat (map (\<lambda>s. checksum_line (su_sha256 s) (su_path s)) supplementals)"

definition write_checksums :: "release_env \<Rightarrow> string \<Rightarrow> release_artifact list \<Rightarrow> supplemental list \<Rightarrow> unit io" where
  "write_checksums en p artifacts supplementals =
     io_write (re_cwd en) p (checksums_text artifacts supplementals)"

subsection \<open>Package\<close>

definition build_target ::
    "release_env \<Rightarrow> release_options \<Rightarrow> string \<Rightarrow> string \<Rightarrow> string \<Rightarrow> string \<Rightarrow> release_target \<Rightarrow>
     release_artifact list \<times> names \<Rightarrow> (release_artifact list \<times> names) io" where
  "build_target en opts source_dir out_dir version ldflags t = (\<lambda>(artifacts, occupied).
     let name = artifact_name version t;
         output_path = path_join [out_dir, name];
         build_output_path = path_join [abs_path (re_cwd en) out_dir, name];
         build = (case ro_build opts of Some f \<Rightarrow> f | None \<Rightarrow> re_go_build en)
     in io_bind (io_check (name_taken occupied name)) (\<lambda>_.
        io_bind
          (if ro_prebuilt opts \<noteq> [] then
             (case map_of (ro_prebuilt opts) (target_key t) of
                None \<Rightarrow> io_result (Inl (Errorf (''prebuilt candidate for target '' @ target_key t @ '' is required'')))
              | Some prebuilt \<Rightarrow> io_wrap (''copy prebuilt candidate for '' @ target_key t @ '': '')
                  (copy_prebuilt_candidate en prebuilt build_output_path))
           else build \<lparr>br_source_dir = source_dir, br_output_path = build_output_path, br_target = t, br_ldflags = ldflags\<rparr>)
          (\<lambda>_. io_bind (file_digest_size en output_path) (\<lambda>(digest, size).
             io_return
               (artifacts @ [\<lparr>rf_name = name, rf_target = t, rf_path = name, rf_sha256 = digest,
                  rf_size_bytes = size, rf_attestations = []\<rparr>],
                occupied(name := ''binary artifact''))))))"

definition sign_release :: "release_env \<Rightarrow> release_options \<Rightarrow> string \<Rightarrow> string \<Rightarrow> (string \<times> string) io" where
  "sign_release en opts out_dir manifest_path =
     (if trim_space (ro_sign_key_path opts) = [] then io_return ([], [])
      else io_bind (io_wrap ''read manifest for signing: '' (io_read (re_cwd en) manifest_path)) (\<lambda>manifest_bytes.
        io_bind (sign_release_manifest en (ro_sign_key_path opts) manifest_bytes) (\<lambda>(signature_bytes, fingerprint).
          let signature_path = path_join [out_dir, ''release-signature.json''] in
          io_bind (io_wrap ''write release signature: '' (io_write (re_cwd en) signature_path signature_bytes))
            (\<lambda>_. io_return (signature_path, fingerprint)))))"

text \<open>The files of the release and its manifest, then the manifest file and the checksum list.\<close>

definition package_contents :: "release_env \<Rightarrow> release_options \<Rightarrow> string \<Rightarrow> release_manifest io" where
  "package_contents en opts out_dir =
     (let source_dir = release_default (ro_source_dir opts) ''.'';
          version = release_default (ro_version opts) (bv_version (re_build_vars en));
          commit = release_default (ro_commit opts) (bv_commit (re_build_vars en));
          date = release_default (ro_date opts) (bv_date (re_build_vars en));
          targets = (if ro_targets opts = [] then default_targets else ro_targets opts);
          ldflags = build_ldflags version commit date
      in io_bind (io_wrap ''create release dir: '' (io_mkdir_all (re_cwd en) out_dir)) (\<lambda>_.
         io_bind (io_check (fail_if (ro_prebuilt opts \<noteq> [] \<and> length (ro_prebuilt opts) \<noteq> length targets)
           (Errorf (''prebuilt candidate count = '' @ int_text (int (length (ro_prebuilt opts))) @ '', want '' @
              int_text (int (length targets)) @ '' targets'')))) (\<lambda>_.
         io_bind (io_fold (build_target en opts source_dir out_dir version ldflags) targets ([], (\<lambda>_. [])))
           (\<lambda>(built, occupied).
         io_bind (attach_artifact_attestations en out_dir built (ro_attestation_paths opts) occupied)
           (\<lambda>(artifacts, occupied).
         io_bind (build_supplemental_artifacts en out_dir opts occupied) (\<lambda>(supplementals, _).
         io_return \<lparr>rm_schema_version = release_manifest_schema, rm_version = version, rm_commit = commit,
           rm_date = date, rm_artifacts = artifacts, rm_supplemental = supplementals\<rparr>))))))"

definition package_files :: "release_env \<Rightarrow> release_options \<Rightarrow> string \<Rightarrow> release_manifest io" where
  "package_files en opts out_dir =
     io_bind (package_contents en opts out_dir) (\<lambda>manifest.
     io_bind (io_wrap ''write manifest: '' (write_manifest en (path_join [out_dir, ''manifest.json'']) manifest)) (\<lambda>_.
     io_bind (io_wrap ''write checksums: '' (write_checksums en (path_join [out_dir, ''SHA256SUMS''])
         (rm_artifacts manifest) (rm_supplemental manifest))) (\<lambda>_.
     io_return manifest)))"

definition release_package :: "release_env \<Rightarrow> release_options \<Rightarrow> release_result io" where
  "release_package en opts =
     (let out_dir = release_default (ro_out_dir opts) ''dist'';
          manifest_path = path_join [out_dir, ''manifest.json'']
      in io_bind (package_files en opts out_dir) (\<lambda>manifest.
         io_bind (sign_release en opts out_dir manifest_path) (\<lambda>(signature_path, fingerprint).
         io_return \<lparr>rr_manifest_path = manifest_path, rr_checksums_path = path_join [out_dir, ''SHA256SUMS''],
           rr_signature_path = signature_path, rr_artifacts = rm_artifacts manifest, rr_manifest = manifest,
           rr_public_key_sha256 = fingerprint\<rparr>)))"

end
