(* ===== verification/Go_Words.thy ===== *)
theory Go_Words
  imports Go_Strings
begin

text \<open>
  \<open>strings.Fields\<close> (the words between runs of white space) and \<open>strings.ReplaceAll\<close>, with the
  facts about words of plain ASCII text.
\<close>

fun first_word :: "string \<Rightarrow> string" where
  "first_word [] = []"
| "first_word (c # s) = (if space_len (c # s) \<noteq> 0 then [] else c # first_word s)"

lemma trim_left_length: "length (trim_left s) \<le> length s"
proof (induction s rule: trim_left.induct)
  case (1 s)
  show ?case
  proof (cases "s = [] \<or> space_len s = 0")
    case False
    with 1 have "length (trim_left (drop (space_len s) s)) \<le> length (drop (space_len s) s)" by blast
    with False show ?thesis by (subst trim_left.simps) (simp add: le_diff_conv)
  qed (subst trim_left.simps, simp)
qed

lemma trim_left_no_space: "trim_left s = [] \<or> space_len (trim_left s) = 0"
proof (induction s rule: trim_left.induct)
  case (1 s)
  then show ?case
    using trim_left.simps [of s] by (cases "s = [] \<or> space_len s = 0") auto
qed

function words_of :: "string \<Rightarrow> string list" where
  "words_of s =
     (let t = trim_left s in
      if t = [] then [] else first_word t # words_of (drop (length (first_word t)) t))"
  by pat_completeness auto
termination
proof (relation "measure length")
  fix s t :: string
  assume t: "t = trim_left s" "t \<noteq> []"
  with trim_left_no_space [of s] have "space_len t = 0" by auto
  with t(2) have "0 < length (first_word t)" by (cases t) simp_all
  moreover from t(2) have "0 < length t" by simp
  moreover have "length t \<le> length s" using t(1) trim_left_length by simp
  ultimately have "length t - length (first_word t) < length s" by arith
  then show "(drop (length (first_word t)) t, s) \<in> measure length" by simp
qed simp

declare words_of.simps [simp del]

definition plain_word :: "string \<Rightarrow> bool" where
  "plain_word w \<longleftrightarrow> w \<noteq> [] \<and> is_ascii w \<and> list_all (\<lambda>c. \<not> ascii_space c) w"

lemma plain_word_trim [simp]: "plain_word w \<Longrightarrow> trim_space w = w"
  by (simp add: plain_word_def trim_space_no_space)

lemma first_word_plain:
  assumes "is_ascii w" and "list_all (\<lambda>c. \<not> ascii_space c) w" and "rest = [] \<or> space_len rest \<noteq> 0"
  shows "first_word (w @ rest) = w"
  using assms
proof (induction w)
  case Nil
  then show ?case by (cases rest) auto
next
  case (Cons c w)
  then have "space_len (c # w @ rest) = 0"
    by (simp add: space_len_ascii is_ascii_def is_ascii_char_def)
  with Cons show ?case by (simp add: is_ascii_def)
qed

lemma trim_left_plain: "plain_word w \<Longrightarrow> trim_left (w @ rest) = w @ rest"
  by (cases w) (auto simp: plain_word_def trim_left.simps space_len_ascii is_ascii_def is_ascii_char_def)

lemma trim_left_space: "ascii_space c \<Longrightarrow> trim_left (c # s) = trim_left s"
  by (subst trim_left.simps) (simp add: space_len_def)

lemma words_of_space: "ascii_space c \<Longrightarrow> words_of (c # s) = words_of s"
  by (subst (1 2) words_of.simps) (simp add: trim_left_space)

lemma words_of_Nil [simp]: "words_of [] = []"
  by (subst words_of.simps) (simp add: trim_left.simps)

lemma words_of_plain:
  assumes "plain_word w" and "rest = [] \<or> space_len rest \<noteq> 0"
  shows "words_of (w @ rest) = w # words_of rest"
  using assms first_word_plain [of w rest] trim_left_plain [OF assms(1), of rest]
  by (subst words_of.simps) (auto simp: plain_word_def)

lemma words_of_two:
  assumes "plain_word a" and "plain_word b"
  shows "words_of (a @ ''  '' @ b) = [a, b]"
  using words_of_plain [OF assms(1), of "''  '' @ b"] words_of_plain [OF assms(2), of "[]"]
  by (simp add: words_of_space space_len_def ascii_space_def)

text \<open>\<open>strings.ReplaceAll\<close> of a non-empty text.\<close>

function replace_all :: "string \<Rightarrow> string \<Rightarrow> string \<Rightarrow> string" where
  "replace_all old new s =
     (if s = [] then []
      else if old \<noteq> [] \<and> prefix old s then new @ replace_all old new (drop (length old) s)
      else hd s # replace_all old new (tl s))"
  by pat_completeness auto
termination by (relation "measure (\<lambda>(old, new, s). length s)") auto

declare replace_all.simps [simp del]

lemma replace_all_absent: "\<not> sublist old s \<Longrightarrow> replace_all old new s = s"
proof (induction s)
  case Nil
  then show ?case by (subst replace_all.simps) simp
next
  case (Cons c s)
  then have "\<not> prefix old (c # s)" "\<not> sublist old s"
    by (auto dest: prefix_imp_sublist simp: sublist_Cons_right)
  with Cons.IH show ?case by (subst replace_all.simps) simp
qed

end
