(* ===== verification/Release_Verify.thy ===== *)
theory Release_Verify
  imports Release_Package Go_Words "HOL-Library.AList"
begin

text \<open>
  \<open>internal/release/publication_verify.go\<close>: the verification of a release directory against its
  manifest, its checksum list and, with a public key, its signature. Verification reads files
  and changes none, so it is a function of the file system. A problem is recorded and the
  verification goes on; only unreadable or malformed manifests and checksum lists end it with an
  error (no caller looks at the report then). The checksum map is the list of its entries, and
  the order in which Go iterates over it is the argument \<open>re_map_order\<close>.
\<close>

subsection \<open>The checksum list\<close>

type_synonym checksums = "(string \<times> string) list"

fun parse_checksum_lines :: "nat \<Rightarrow> string list \<Rightarrow> checksums \<Rightarrow> checksums go_result" where
  "parse_checksum_lines i [] sums = Inr sums"
| "parse_checksum_lines i (w # ws) sums =
     (let line = trim_space w in
      if line = [] then parse_checksum_lines (Suc i) ws sums
      else case words_of line of
        [digest, name] \<Rightarrow>
          if length digest \<noteq> 64
          then Inl (Errorf (''parse checksums line '' @ decimal (i + 1) @ '': invalid sha256 '' @ quoted digest))
          else parse_checksum_lines (Suc i) ws (AList.update name digest sums)
      | _ \<Rightarrow> Inl (Errorf (''parse checksums line '' @ decimal (i + 1) @ '': expected '' @ [CHR 0x27] @
                 ''<sha256>  <artifact>'' @ [CHR 0x27])))"

definition parse_checksums :: "string \<Rightarrow> checksums go_result" where
  "parse_checksums s = parse_checksum_lines 0 (split_on (CHR 0x0A) (trim_space s)) []"

definition read_checksums :: "release_env \<Rightarrow> fs \<Rightarrow> string \<Rightarrow> checksums go_result" where
  "read_checksums en fs p = (case read_at (re_cwd en) fs p of
      Inl e \<Rightarrow> Inl (Errorf (''read checksums: '' @ error_text e))
    | Inr s \<Rightarrow> parse_checksums s)"

text \<open>\<open>checksums[path]\<close>, or \<open>checksums[name]\<close> when there is none.\<close>

definition lookup_checksum :: "checksums \<Rightarrow> string \<Rightarrow> string \<Rightarrow> string option" where
  "lookup_checksum sums path name =
     (case map_of sums path of Some d \<Rightarrow> Some d | None \<Rightarrow> map_of sums name)"

subsection \<open>Signatures and keys\<close>

definition open_public_key :: "release_env \<Rightarrow> string \<Rightarrow> string go_result" where
  "open_public_key en bytes =
     unless_error (re_schema_bytes en public_key_schema bytes)
       (case re_decode_public_key en bytes of
          Inl e \<Rightarrow> Inl (Errorf (''decode public key: '' @ error_text e))
        | Inr k \<Rightarrow>
            if pub_file_schema_version k \<noteq> public_key_schema
            then Inl (Errorf (''unsupported public key schema_version '' @ quoted (pub_file_schema_version k)))
            else if pub_file_algorithm k \<noteq> ''ed25519''
            then Inl (Errorf (''unsupported public key algorithm '' @ quoted (pub_file_algorithm k)))
            else decode_public_key (pub_file_public_key k) ''public key'')"

definition read_public_key :: "release_env \<Rightarrow> fs \<Rightarrow> string \<Rightarrow> string go_result" where
  "read_public_key en fs p = (case read_at (re_cwd en) fs p of
      Inl e \<Rightarrow> Inl (Errorf (''read public key: '' @ error_text e))
    | Inr s \<Rightarrow> open_public_key en s)"

definition check_signature :: "release_env \<Rightarrow> string \<Rightarrow> string \<Rightarrow> signature_file \<Rightarrow> string go_result" where
  "check_signature en public_key manifest_bytes s =
     (let fingerprint = public_key_fingerprint en public_key in
      if sf_schema_version s \<noteq> release_signature_schema
      then Inl (Errorf (''unsupported release signature schema_version '' @ quoted (sf_schema_version s)))
      else if sf_algorithm s \<noteq> ''ed25519''
      then Inl (Errorf (''unsupported release signature algorithm '' @ quoted (sf_algorithm s)))
      else if sf_signed_entry s \<noteq> ''manifest.json''
      then Inl (Errorf (''release signature signed_entry '' @ quoted (sf_signed_entry s) @
             '' does not match manifest.json''))
      else if sf_public_key_sha256 s \<noteq> fingerprint
      then Inl (Errorf ''release signature public key fingerprint mismatch'')
      else case base64_decode (sf_signature s) of
        Inl e \<Rightarrow> Inl (Errorf (''decode release signature bytes: '' @ error_text e))
      | Inr signature \<Rightarrow>
          if \<not> re_verify en public_key manifest_bytes signature
          then Inl (Errorf ''signature does not match manifest.json'')
          else Inr fingerprint)"

definition verify_release_signature :: "release_env \<Rightarrow> fs \<Rightarrow> string \<Rightarrow> string \<Rightarrow> string \<Rightarrow> string go_result" where
  "verify_release_signature en fs signature_path manifest_bytes public_key_path =
     bind_result (read_public_key en fs public_key_path) (\<lambda>public_key.
       case read_at (re_cwd en) fs signature_path of
         Inl e \<Rightarrow> Inl (Errorf (''read release signature: '' @ error_text e))
       | Inr signature_bytes \<Rightarrow>
           unless_error (re_schema_bytes en release_signature_schema signature_bytes)
             (case re_decode_signature en signature_bytes of
                Inl e \<Rightarrow> Inl (Errorf (''decode release signature: '' @ error_text e))
              | Inr s \<Rightarrow> check_signature en public_key manifest_bytes s))"

subsection \<open>One file of the release\<close>

definition status_for_bool :: "bool \<Rightarrow> string" where
  "status_for_bool ok = (if ok then ''verified'' else ''invalid'')"

definition leaves_release :: "string \<Rightarrow> bool" where
  "leaves_release p \<longleftrightarrow> (let n = path_clean p in n = ''.'' \<or> n = ''..'' \<or> prefix ''../'' n)"

text \<open>The problem of a path, if any.\<close>

definition path_problem :: "string \<Rightarrow> string \<Rightarrow> string \<Rightarrow> string option" where
  "path_problem label name p =
     (if trim_space p = [] \<or> is_abs p
      then Some (label @ '' '' @ quoted name @ '' has invalid relative path '' @ quoted p)
      else if leaves_release p
      then Some (label @ '' '' @ quoted name @ '' has escaping path '' @ quoted p)
      else None)"

definition release_file_digest :: "release_env \<Rightarrow> fs \<Rightarrow> string \<Rightarrow> string \<Rightarrow> (string \<times> int) go_result" where
  "release_file_digest en fs dir p =
     bind_result (read_at (re_cwd en) fs (path_join [dir, path_clean p]))
       (\<lambda>s. Inr (re_sha en s, int (length s)))"

definition digest_problems :: "string \<Rightarrow> string \<Rightarrow> string \<Rightarrow> string \<Rightarrow> string list" where
  "digest_problems label name digest want =
     (if digest \<noteq> want then [label @ '' '' @ quoted name @ '' sha256 mismatch: got '' @ digest @ '' want '' @ want]
      else [])"

definition size_problems :: "string \<Rightarrow> string \<Rightarrow> int \<Rightarrow> int \<Rightarrow> string list" where
  "size_problems label name sz want =
     (if sz \<noteq> want then [label @ '' '' @ quoted name @ '' size mismatch: got '' @ int_text sz @ '' want '' @ int_text want]
      else [])"

definition checksum_problems :: "string \<Rightarrow> string \<Rightarrow> string option \<Rightarrow> string \<Rightarrow> string list" where
  "checksum_problems label name listed want = (case listed of
      None \<Rightarrow> [label @ '' '' @ quoted name @ '' missing SHA256SUMS entry'']
    | Some d \<Rightarrow> if d \<noteq> want
        then [label @ '' '' @ quoted name @ '' SHA256SUMS mismatch: got '' @ d @ '' want '' @ want] else [])"

lemma file_problems_Nil [simp]:
  "digest_problems label name d w = [] \<longleftrightarrow> d = w"
  "size_problems label name i j = [] \<longleftrightarrow> i = j"
  "checksum_problems label name listed w = [] \<longleftrightarrow> listed = Some w"
  by (auto simp: digest_problems_def size_problems_def checksum_problems_def split: option.splits)

definition verify_attestation :: "release_env \<Rightarrow> fs \<Rightarrow> string \<Rightarrow> checksums \<Rightarrow> attestation \<Rightarrow> attestation_report" where
  "verify_attestation en fs dir sums a =
     (let report = \<lparr>ar_name = at_name a, ar_kind = at_kind a, ar_path = at_path a, ar_verified = True,
            ar_path_valid = True, ar_digest_verified = True, ar_size_verified = True,
            ar_checksum_verified = True, ar_sha256 = at_sha256 a, ar_size_bytes = at_size_bytes a,
            ar_actual_sha256 = [], ar_actual_size_bytes = 0, ar_problems = []\<rparr>
      in case path_problem ''attestation'' (at_name a) (at_path a) of
           Some m \<Rightarrow> report\<lparr>ar_path_valid := False, ar_verified := False, ar_problems := [m]\<rparr>
         | None \<Rightarrow>
             (case release_file_digest en fs dir (at_path a) of
                Inl e \<Rightarrow> report\<lparr>ar_digest_verified := False, ar_size_verified := False, ar_verified := False,
                  ar_problems := [''attestation '' @ quoted (at_name a) @ '' read failed: '' @ error_text e]\<rparr>
              | Inr (digest, sz) \<Rightarrow>
                  let listed = lookup_checksum sums (at_path a) (at_name a);
                      ms = digest_problems ''attestation'' (at_name a) digest (at_sha256 a) @
                           size_problems ''attestation'' (at_name a) sz (at_size_bytes a) @
                           checksum_problems ''attestation'' (at_name a) listed (at_sha256 a)
                  in report\<lparr>ar_actual_sha256 := digest, ar_actual_size_bytes := sz,
                       ar_digest_verified := (digest = at_sha256 a),
                       ar_size_verified := (sz = at_size_bytes a),
                       ar_checksum_verified := (listed = Some (at_sha256 a)),
                       ar_verified := (ms = []), ar_problems := ms\<rparr>))"

definition verify_supplemental :: "release_env \<Rightarrow> fs \<Rightarrow> string \<Rightarrow> checksums \<Rightarrow> supplemental \<Rightarrow> supplemental_report" where
  "verify_supplemental en fs dir sums s =
     (let report = \<lparr>sr_kind = su_kind s, sr_name = su_name s, sr_path = su_path s, sr_verified = True,
            sr_path_valid = True, sr_digest_verified = True, sr_size_verified = True,
            sr_checksum_verified = True, sr_sha256 = su_sha256 s, sr_size_bytes = su_size_bytes s,
            sr_actual_sha256 = [], sr_actual_size_bytes = 0, sr_problems = []\<rparr>
      in case path_problem ''supplemental artifact'' (su_name s) (su_path s) of
           Some m \<Rightarrow> report\<lparr>sr_path_valid := False, sr_verified := False, sr_problems := [m]\<rparr>
         | None \<Rightarrow>
             (case release_file_digest en fs dir (su_path s) of
                Inl e \<Rightarrow> report\<lparr>sr_digest_verified := False, sr_size_verified := False, sr_verified := False,
                  sr_problems := [''supplemental artifact '' @ quoted (su_name s) @ '' read failed: '' @ error_text e]\<rparr>
              | Inr (digest, sz) \<Rightarrow>
                  let listed = lookup_checksum sums (su_path s) (su_name s);
                      ms = digest_problems ''supplemental artifact'' (su_name s) digest (su_sha256 s) @
                           size_problems ''supplemental artifact'' (su_name s) sz (su_size_bytes s) @
                           checksum_problems ''supplemental artifact'' (su_name s) listed (su_sha256 s)
                  in report\<lparr>sr_actual_sha256 := digest, sr_actual_size_bytes := sz,
                       sr_digest_verified := (digest = su_sha256 s),
                       sr_size_verified := (sz = su_size_bytes s),
                       sr_checksum_verified := (listed = Some (su_sha256 s)),
                       sr_verified := (ms = []), sr_problems := ms\<rparr>))"

subsection \<open>Binaries\<close>

definition is_host_target :: "release_env \<Rightarrow> release_target \<Rightarrow> bool" where
  "is_host_target en t \<longleftrightarrow> rt_os t = re_goos en \<and> rt_arch t = re_goarch en"

definition metadata_mismatch :: "string \<Rightarrow> string \<Rightarrow> string \<Rightarrow> string \<Rightarrow> string list" where
  "metadata_mismatch what name got want =
     (if got \<noteq> want then [''artifact '' @ quoted name @ '' '' @ what @ '' metadata mismatch: got '' @ got @ '' want '' @ want]
      else [])"

definition compare_build_metadata :: "release_artifact \<Rightarrow> release_manifest \<Rightarrow> build_info \<Rightarrow> bool \<Rightarrow> string list" where
  "compare_build_metadata a m info check_target =
     metadata_mismatch ''version'' (rf_name a) (bi_version info) (rm_version m) @
     metadata_mismatch ''commit'' (rf_name a) (bi_commit info) (rm_commit m) @
     metadata_mismatch ''date'' (rf_name a) (bi_date info) (rm_date m) @
     (if check_target then
        metadata_mismatch ''os'' (rf_name a) (bi_os info) (rt_os (rf_target a)) @
        metadata_mismatch ''arch'' (rf_name a) (bi_arch info) (rt_arch (rf_target a))
      else [])"

text \<open>The problems of a binary's own version report, and the report.\<close>

definition metadata_check ::
    "metadata_func \<Rightarrow> string \<Rightarrow> release_artifact \<Rightarrow> release_manifest \<Rightarrow> string \<Rightarrow> bool \<Rightarrow> string list \<times> build_info option" where
  "metadata_check reader what a m p check_target = (case reader of
      None \<Rightarrow> ([], None)
    | Some f \<Rightarrow> (case f p of
        Inl e \<Rightarrow> ([''artifact '' @ quoted (rf_name a) @ '' '' @ what @ '' read failed: '' @ error_text e], None)
      | Inr info \<Rightarrow> (compare_build_metadata a m info check_target, Some info)))"

definition new_artifact_report :: "release_env \<Rightarrow> release_verify_options \<Rightarrow> release_artifact \<Rightarrow> artifact_report" where
  "new_artifact_report en opts a =
     \<lparr>fr_name = rf_name a, fr_target = rf_target a, fr_path = rf_path a, fr_verified = True,
      fr_path_valid = True, fr_digest_verified = True, fr_size_verified = True, fr_checksum_verified = True,
      fr_metadata_verified = True,
      fr_host_metadata_checked = (rvo_host_metadata opts \<noteq> None \<and> is_host_target en (rf_target a)),
      fr_sha256 = rf_sha256 a, fr_size_bytes = rf_size_bytes a, fr_actual_sha256 = [],
      fr_actual_size_bytes = 0, fr_problems = [], fr_attestations = []\<rparr>"

definition attestation_provenance_of :: "attestation \<Rightarrow> attestation_report \<Rightarrow> attestation_provenance" where
  "attestation_provenance_of a r =
     \<lparr>ap_kind = at_kind a, ap_name = at_name a, ap_path = at_path a,
      ap_status = status_for_bool (ar_verified r), ap_sha256 = at_sha256 a, ap_size_bytes = at_size_bytes a\<rparr>"

text \<open>
  An artifact that was read: its report, its provenance, and all problems in order. \<open>dup\<close> holds the
  problem of a repeated name.
\<close>

definition verify_contents ::
    "release_env \<Rightarrow> release_verify_options \<Rightarrow> fs \<Rightarrow> string \<Rightarrow> checksums \<Rightarrow> release_manifest \<Rightarrow>
     release_artifact \<Rightarrow> string list \<Rightarrow> string \<Rightarrow> int \<Rightarrow> artifact_report \<times> artifact_provenance \<times> string list" where
  "verify_contents en opts fs dir sums m a dup digest sz =
     (let p = path_join [dir, path_clean (rf_path a)];
          listed = lookup_checksum sums (rf_path a) (rf_name a);
          (metadata_ms, info) = metadata_check (rvo_metadata opts) ''metadata'' a m p False;
          (host_ms, host_info) = (if is_host_target en (rf_target a)
             then metadata_check (rvo_host_metadata opts) ''host metadata'' a m p True else ([], None));
          ms = dup @ digest_problems ''artifact'' (rf_name a) digest (rf_sha256 a) @
               size_problems ''artifact'' (rf_name a) sz (rf_size_bytes a) @
               checksum_problems ''artifact'' (rf_name a) listed (rf_sha256 a) @ metadata_ms @ host_ms;
          attested = map (verify_attestation en fs dir sums) (rf_attestations a);
          verified = (ms = [] \<and> list_all ar_verified attested)
      in ((new_artifact_report en opts a)
            \<lparr>fr_actual_sha256 := digest, fr_actual_size_bytes := sz,
             fr_digest_verified := (digest = rf_sha256 a), fr_size_verified := (sz = rf_size_bytes a),
             fr_checksum_verified := (listed = Some (rf_sha256 a)),
             fr_metadata_verified := (metadata_ms = [] \<and> host_ms = []),
             fr_verified := verified, fr_problems := ms, fr_attestations := attested\<rparr>,
          \<lparr>fp_name = rf_name a, fp_target = rf_target a, fp_status = status_for_bool verified,
             fp_metadata_verified = (metadata_ms = [] \<and> host_ms = []),
             fp_binary_metadata = (case host_info of Some i \<Rightarrow> Some i | None \<Rightarrow> info),
             fp_attestations = map2 attestation_provenance_of (rf_attestations a) attested\<rparr>,
          ms @ concat (map ar_problems attested)))"

subsection \<open>The walk over the manifest\<close>

record verify_state =
  vs_report :: release_verify_report
  vs_seen :: "string \<Rightarrow> bool"
  vs_manifested :: "string \<Rightarrow> bool"

text \<open>The closure \<open>problem\<close>, called once for each message.\<close>

definition add_problems :: "string list \<Rightarrow> release_verify_report \<Rightarrow> release_verify_report" where
  "add_problems ms r = r\<lparr>rv_verified := (rv_verified r \<and> ms = []), rv_problems := rv_problems r @ ms\<rparr>"

definition add_artifact_report :: "artifact_report \<Rightarrow> release_verify_report \<Rightarrow> release_verify_report" where
  "add_artifact_report a r = r\<lparr>rv_artifacts := rv_artifacts r @ [a]\<rparr>"

definition add_artifact_provenance :: "artifact_provenance \<Rightarrow> release_verify_report \<Rightarrow> release_verify_report" where
  "add_artifact_provenance p r =
     r\<lparr>rv_provenance := (rv_provenance r)\<lparr>pv_artifacts := pv_artifacts (rv_provenance r) @ [p]\<rparr>\<rparr>"

definition verify_release_artifact ::
    "release_env \<Rightarrow> release_verify_options \<Rightarrow> fs \<Rightarrow> string \<Rightarrow> checksums \<Rightarrow> release_manifest \<Rightarrow>
     verify_state \<Rightarrow> release_artifact \<Rightarrow> verify_state" where
  "verify_release_artifact en opts fs dir sums m s a =
     (let manifested = (vs_manifested s)(rf_path a := True, rf_name a := True);
          report = new_artifact_report en opts a
      in case path_problem ''artifact'' (rf_name a) (rf_path a) of
           Some msg \<Rightarrow> s\<lparr>vs_manifested := manifested,
             vs_report := add_artifact_report
               (report\<lparr>fr_path_valid := False, fr_verified := False, fr_problems := [msg]\<rparr>)
               (add_problems [msg] (vs_report s))\<rparr>
         | None \<Rightarrow>
             let dup = (if vs_seen s (rf_name a) then [''duplicate artifact '' @ quoted (rf_name a)] else []);
                 seen = (vs_seen s)(rf_name a := True)
             in case release_file_digest en fs dir (rf_path a) of
                  Inl e \<Rightarrow>
                    let ms = dup @ [''artifact '' @ quoted (rf_name a) @ '' read failed: '' @ error_text e]
                    in \<lparr>vs_report = add_artifact_report
                            (report\<lparr>fr_digest_verified := False, fr_size_verified := False,
                               fr_verified := False, fr_problems := ms\<rparr>)
                            (add_problems ms (vs_report s)),
                          vs_seen = seen, vs_manifested = manifested\<rparr>
                | Inr (digest, sz) \<Rightarrow>
                    let (entry, provenance, ms) = verify_contents en opts fs dir sums m a dup digest sz
                    in \<lparr>vs_report = add_artifact_provenance provenance
                            (add_artifact_report entry (add_problems ms (vs_report s))),
                          vs_seen = seen,
                          vs_manifested = (\<lambda>k. manifested k \<or>
                            list_ex (\<lambda>t. k = at_path t \<or> k = at_name t) (rf_attestations a))\<rparr>)"

definition supplemental_provenance_of :: "supplemental \<Rightarrow> supplemental_report \<Rightarrow> supplemental_provenance" where
  "supplemental_provenance_of s r =
     \<lparr>sp_kind = su_kind s, sp_name = su_name s, sp_path = su_path s,
      sp_status = status_for_bool (sr_verified r), sp_sha256 = su_sha256 s, sp_size_bytes = su_size_bytes s\<rparr>"

definition verify_release_supplemental ::
    "release_env \<Rightarrow> fs \<Rightarrow> string \<Rightarrow> checksums \<Rightarrow> verify_state \<Rightarrow> supplemental \<Rightarrow> verify_state" where
  "verify_release_supplemental en fs dir sums s item =
     (let entry = verify_supplemental en fs dir sums item;
          r = add_problems (sr_problems entry) (vs_report s)
      in s\<lparr>vs_manifested := (vs_manifested s)(su_path item := True, su_name item := True),
           vs_report := r\<lparr>rv_supplemental := rv_supplemental r @ [entry],
             rv_provenance := (rv_provenance r)\<lparr>pv_supplemental :=
               pv_supplemental (rv_provenance r) @ [supplemental_provenance_of item entry]\<rparr>\<rparr>\<rparr>)"

definition unmanifested :: "release_env \<Rightarrow> checksums \<Rightarrow> (string \<Rightarrow> bool) \<Rightarrow> string list" where
  "unmanifested en sums manifested =
     map (\<lambda>p. ''SHA256SUMS contains unmanifested artifact '' @ quoted p)
       (filter (\<lambda>p. \<not> manifested p) (re_map_order en (map fst sums)))"

text \<open>The report before the files are looked at, with the verdict on the signature.\<close>

definition start_report ::
    "release_env \<Rightarrow> release_verify_options \<Rightarrow> fs \<Rightarrow> string \<Rightarrow> string \<Rightarrow> release_manifest \<Rightarrow> release_verify_report" where
  "start_report en opts fs dir manifest_bytes m =
     (let signature_path = path_join [dir, ''release-signature.json''];
          fingerprint = (if trim_space (rvo_public_key_path opts) = [] then Inr []
            else verify_release_signature en fs signature_path manifest_bytes (rvo_public_key_path opts));
          key = (case fingerprint of Inl _ \<Rightarrow> [] | Inr k \<Rightarrow> k)
      in add_problems
           (case fingerprint of
              Inl e \<Rightarrow> [''release signature verification failed: '' @ error_text e] | Inr _ \<Rightarrow> [])
           \<lparr>rv_verified = True, rv_manifest_path = path_join [dir, ''manifest.json''],
            rv_checksums_path = path_join [dir, ''SHA256SUMS''], rv_signature_path = signature_path,
            rv_artifact_count = length (rm_artifacts m), rv_problems = [],
            rv_public_key_sha256 = key, rv_artifacts = [], rv_supplemental = [],
            rv_provenance = \<lparr>pv_version = rm_version m, pv_commit = rm_commit m, pv_date = rm_date m,
              pv_public_key_sha256 = key,
              pv_signature_verified = (trim_space (rvo_public_key_path opts) \<noteq> [] \<and> error_of fingerprint = None),
              pv_artifacts = [], pv_supplemental = []\<rparr>\<rparr>)"

definition load_manifest :: "release_env \<Rightarrow> fs \<Rightarrow> string \<Rightarrow> (string \<times> release_manifest) go_result" where
  "load_manifest en fs p = (case read_at (re_cwd en) fs p of
      Inl e \<Rightarrow> Inl (Errorf (''read manifest: '' @ error_text e))
    | Inr bytes \<Rightarrow> (case re_schema_bytes en release_manifest_schema bytes of
        Some e \<Rightarrow> Inl (Errorf (''validate manifest schema: '' @ error_text e))
      | None \<Rightarrow> (case re_decode_manifest en bytes of
          Inl e \<Rightarrow> Inl (Errorf (''decode manifest: '' @ error_text e))
        | Inr m \<Rightarrow> Inr (bytes, m))))"

definition check_release ::
    "release_env \<Rightarrow> release_verify_options \<Rightarrow> fs \<Rightarrow> string \<Rightarrow> checksums \<Rightarrow> release_manifest \<Rightarrow>
     release_verify_report \<Rightarrow> release_verify_report" where
  "check_release en opts fs dir sums m report =
     (let s0 = \<lparr>vs_report = report, vs_seen = (\<lambda>_. False), vs_manifested = (\<lambda>_. False)\<rparr>;
          s1 = foldl (verify_release_artifact en opts fs dir sums m) s0 (rm_artifacts m);
          s2 = foldl (verify_release_supplemental en fs dir sums) s1 (rm_supplemental m)
      in add_problems (unmanifested en sums (vs_manifested s2)) (vs_report s2))"

definition release_verify :: "release_env \<Rightarrow> release_verify_options \<Rightarrow> fs \<Rightarrow> release_verify_report go_result" where
  "release_verify en opts fs =
     (let dir = release_default (rvo_dir opts) ''dist'' in
      bind_result (load_manifest en fs (path_join [dir, ''manifest.json''])) (\<lambda>(bytes, m).
        let report = start_report en opts fs dir bytes m in
        bind_result (read_checksums en fs (path_join [dir, ''SHA256SUMS''])) (\<lambda>sums.
          Inr (check_release en opts fs dir sums m report))))"

end
