(* ===== verification/Go_Location.thy ===== *)
theory Go_Location
  imports Go_IO
begin

text \<open>
  Where the paths the code builds lead: a plain name joined to a directory, relative or absolute,
  resolves to the entry of that name below the directory. So different names are different files.
\<close>

lemma clean_elems_no_dotdot: "''..'' \<notin> set out \<Longrightarrow> ''..'' \<notin> set (clean_elems True out es)"
proof (induction "True" out es rule: clean_elems.induct)
  case (2 out e es)
  then show ?case by (cases out) auto
qed simp

text \<open>Cleaning a relative path first makes no difference to where it leads.\<close>

lemma rooted_of_cleaned:
  assumes "''..'' \<notin> set out" and "\<forall>e \<in> set acc. e \<noteq> [] \<and> e \<noteq> ''.''"
  shows "clean_elems True out (clean_elems False acc es) =
    clean_elems True (rev (clean_elems True out (rev acc))) es"
  using assms(2)
proof (induction False acc es rule: clean_elems.induct)
  case (2 acc e es)
  let ?S = "rev (clean_elems True out (rev acc))"
  have nd: "''..'' \<notin> set ?S" using clean_elems_no_dotdot [OF assms(1)] by simp
  consider (skip) "e = [] \<or> e = ''.''" | (up) "e = ''..''" | (keep) "e \<noteq> []" "e \<noteq> ''.''" "e \<noteq> ''..''"
    by blast
  then show ?case
  proof cases
    case skip
    with 2 show ?thesis by auto
  next
    case keep
    with 2 show ?thesis by (simp add: clean_elems_append)
  next
    case up
    show ?thesis
    proof (cases acc)
      case Nil
      with up 2(2) [of] 2 assms(1) show ?thesis by (cases out) auto
    next
      case (Cons t below)
      show ?thesis
      proof (cases "t = ''..''")
        case True
        with up Cons 2 have "clean_elems True out (clean_elems False acc (e # es)) =
          clean_elems True (rev (clean_elems True out (rev acc @ [''..'']))) es" by simp
        also have "clean_elems True out (rev acc @ [''..'']) = clean_elems True ?S [''..'']"
          by (simp add: clean_elems_append)
        finally show ?thesis using up nd by (cases ?S) auto
      next
        case False
        with Cons "2.prems" have t: "clean_elems True out (rev acc) = clean_elems True out (rev below) @ [t]"
          by (simp add: clean_elems_append)
        from up Cons False 2 have "clean_elems True out (clean_elems False acc (e # es)) =
          clean_elems True (rev (clean_elems True out (rev below))) es" by simp
        with up t nd \<open>t \<noteq> ''..''\<close> show ?thesis by simp
      qed
    qed
  qed
qed (simp add: clean_elems_append)

lemma split_of_clean:
  assumes "\<not> is_abs p"
  shows "clean_elems r out (split_on slash (path_clean p)) = clean_elems r out (path_elems p)"
proof (cases "path_elems p = []")
  case True
  with assms show ?thesis by (simp add: path_clean_def)
next
  case False
  then have "split_on slash (path_clean p) = path_elems p"
    using split_join_normal [OF path_elems_normal False] assms by (simp add: path_clean_def)
  then show ?thesis by simp
qed

lemma is_abs_append: "p \<noteq> [] \<Longrightarrow> is_abs (p @ q) = is_abs p"
  by (cases p) (auto simp: is_abs_def)

lemma is_abs_not_Nil: "is_abs p \<Longrightarrow> p \<noteq> []"
  by (auto simp: is_abs_def)

lemma path_elems_append:
  "p \<noteq> [] \<Longrightarrow> path_elems (p @ slash # q) = clean_elems (is_abs p) (rev (path_elems p)) (split_on slash q)"
  by (simp add: path_elems_def split_on_append clean_elems_append is_abs_append)

lemma abs_path_elems:
  assumes "is_abs cwd"
  shows "path_elems (abs_path cwd p) =
    (if is_abs p then path_elems p else clean_elems True (rev (path_elems cwd)) (split_on slash p))"
proof (cases "is_abs p \<or> p = []")
  case True
  moreover from assms have "cwd \<noteq> []" by (auto simp: is_abs_def)
  moreover have "clean_elems True (rev (path_elems cwd)) [[]] = path_elems cwd" by simp
  ultimately show ?thesis by (auto simp: abs_path_def path_join_def is_abs_def)
next
  case False
  moreover from assms have "cwd \<noteq> []" by (auto simp: is_abs_def)
  ultimately show ?thesis using assms by (simp add: abs_path_def path_join_def path_elems_append)
qed

lemma abs_path_cleaned: "is_abs cwd \<Longrightarrow> \<exists>q. is_abs q \<and> abs_path cwd p = path_clean q"
  using is_abs_not_Nil [of cwd] is_abs_append [of cwd]
  by (cases "is_abs p"; cases "p = []") (auto simp: abs_path_def path_join_def)

lemma abs_path_is_abs: "is_abs cwd \<Longrightarrow> is_abs (abs_path cwd p)"
  using abs_path_cleaned [of cwd p] by auto

lemma abs_path_clean: "is_abs cwd \<Longrightarrow> path_clean (abs_path cwd p) = abs_path cwd p"
  using abs_path_cleaned [of cwd p] by auto

lemma abs_path_form: "is_abs cwd \<Longrightarrow> abs_path cwd p = slash # join_with [slash] (path_elems (abs_path cwd p))"
  using abs_path_is_abs [of cwd p] abs_path_clean [of cwd p] by (simp add: path_clean_def)

lemma abs_path_eqI:
  "is_abs cwd \<Longrightarrow> path_elems (abs_path cwd p) = path_elems (abs_path cwd q) \<Longrightarrow> abs_path cwd p = abs_path cwd q"
  by (metis abs_path_form)

lemma plain_elem_split: "plain_elem n \<Longrightarrow> split_on slash n = [n]"
  by (simp add: plain_elem_def split_on_free)

lemma plain_elem_clean: "plain_elem n \<Longrightarrow> path_clean n = n"
  by (auto simp: path_clean_def path_elems_def plain_elem_split plain_elem_def is_abs_def split: list.splits)

lemma path_join_name: "dir \<noteq> [] \<Longrightarrow> plain_elem n \<Longrightarrow> path_join [dir, n] = path_clean (dir @ slash # n)"
  by (auto simp: path_join_def plain_elem_def)

lemma plain_elems_split:
  assumes "list_all plain_elem es" and "es \<noteq> []"
  shows "split_on slash (join_with [slash] es) = es" and "join_with [slash] es \<noteq> []"
    and "\<not> is_abs (join_with [slash] es)"
proof -
  from assms(1) have "normal_elems True es" by (auto simp: normal_elems_def intro!: exI [of _ "0::nat"])
  then show "split_on slash (join_with [slash] es) = es" "join_with [slash] es \<noteq> []"
    "\<not> is_abs (join_with [slash] es)"
    using assms(2) split_join_normal join_head_not_slash by auto
qed

lemma path_join_rel:
  assumes "dir \<noteq> []" and "list_all plain_elem es" and "es \<noteq> []"
  shows "path_join [dir, join_with [slash] es] = path_clean (dir @ slash # join_with [slash] es)"
    and "path_elems (path_join [dir, join_with [slash] es]) = path_elems dir @ es"
  using assms plain_elems_split [OF assms(2,3)]
  by (simp_all add: path_join_def path_elems_append clean_elems_plain)

lemma location_elems_list:
  assumes "is_abs cwd" and "dir \<noteq> []" and "list_all plain_elem es" and "es \<noteq> []"
  shows "path_elems (abs_path cwd (path_join [dir, join_with [slash] es])) = path_elems (abs_path cwd dir) @ es"
proof -
  let ?n = "join_with [slash] es"
  have n: "clean_elems r (rev xs) es = xs @ es" for r xs using clean_elems_plain [OF assms(3)] by simp
  note joined = path_join_rel [OF assms(2,3,4)]
  show ?thesis
  proof (cases "is_abs dir")
    case True
    then have "is_abs (path_clean (dir @ slash # ?n))" using assms(2) by (simp add: is_abs_append)
    with True show ?thesis using joined by (simp add: abs_path_elems [OF assms(1)])
  next
    case False
    with assms(2) have rel: "\<not> is_abs (dir @ slash # ?n)" by (simp add: is_abs_append)
    let ?c = "rev (path_elems cwd)"
    have nd: "''..'' \<notin> set ?c"
      using assms(1) clean_elems_no_dotdot [of "[]"] by (simp add: path_elems_def)
    have "clean_elems True ?c (path_elems dir) = clean_elems True ?c (split_on slash dir)"
      using rooted_of_cleaned [OF nd, of "[]" "split_on slash dir"] False by (simp add: path_elems_def)
    then have "clean_elems True ?c (path_elems dir @ es) = clean_elems True ?c (split_on slash dir) @ es"
      by (simp only: clean_elems_append n)
    moreover have "clean_elems True ?c (split_on slash (path_clean (dir @ slash # ?n))) =
        clean_elems True ?c (path_elems dir @ es)"
      using split_of_clean [OF rel] joined by simp
    ultimately show ?thesis using rel False joined(1) by (simp add: abs_path_elems [OF assms(1)])
  qed
qed

lemma location_elems:
  assumes "is_abs cwd" and "dir \<noteq> []" and "plain_elem n"
  shows "path_elems (abs_path cwd (path_join [dir, n])) = path_elems (abs_path cwd dir) @ [n]"
  using location_elems_list [OF assms(1,2), of "[n]"] assms(3) by simp

lemma location_inject:
  assumes "is_abs cwd" and "dir \<noteq> []" and "plain_elem m" and "plain_elem n"
    and "abs_path cwd (path_join [dir, m]) = abs_path cwd (path_join [dir, n])"
  shows "m = n"
proof -
  have "path_elems (abs_path cwd dir) @ [m] = path_elems (abs_path cwd (path_join [dir, m]))"
    by (rule location_elems [OF assms(1,2,3), symmetric])
  also have "\<dots> = path_elems (abs_path cwd dir) @ [n]"
    unfolding assms(5) by (rule location_elems [OF assms(1,2,4)])
  finally show ?thesis by simp
qed

text \<open>The directory may be resolved first.\<close>

lemma location_of_abs:
  assumes "is_abs cwd" and "dir \<noteq> []" and "plain_elem n"
  shows "abs_path cwd (path_join [abs_path cwd dir, n]) = abs_path cwd (path_join [dir, n])"
proof (rule abs_path_eqI [OF assms(1)])
  note a = abs_path_is_abs [OF assms(1), of dir]
  have "abs_path cwd (abs_path cwd dir) = abs_path cwd dir"
    unfolding abs_path_def [of cwd "abs_path cwd dir"] using a abs_path_clean [OF assms(1)] by simp
  then show "path_elems (abs_path cwd (path_join [abs_path cwd dir, n])) =
    path_elems (abs_path cwd (path_join [dir, n]))"
    unfolding location_elems [OF assms(1) is_abs_not_Nil [OF a] assms(3)] location_elems [OF assms] by (rule arg_cong)
qed

text \<open>Cleaning brings in no bytes but separators and dots.\<close>

lemma clean_elems_from: "e \<in> set (clean_elems r out es) \<Longrightarrow> e \<in> set out \<or> e \<in> set es \<or> e = ''..''"
  by (induction r out es rule: clean_elems.induct) (auto split: list.splits if_splits)

lemma join_with_bytes: "c \<in> set (join_with sep ws) \<Longrightarrow> c \<in> set sep \<or> (\<exists>w \<in> set ws. c \<in> set w)"
  by (induction sep ws rule: join_with.induct) auto

lemma set_join_with: "w \<in> set ws \<Longrightarrow> set w \<subseteq> set (join_with sep ws)"
  by (induction sep ws rule: join_with.induct) auto

lemma split_on_bytes: "w \<in> set (split_on sep s) \<Longrightarrow> c \<in> set w \<Longrightarrow> c \<in> set s"
  using set_join_with [of w "split_on sep s" "[sep]"] by auto

lemma path_clean_bytes:
  assumes "c \<in> set (path_clean p)"
  shows "c \<in> set p \<or> c = slash \<or> c = CHR ''.''"
proof -
  have "c \<in> set p \<or> c = CHR ''.''" if "c \<in> set e" "e \<in> set (path_elems p)" for e
    using that clean_elems_from [of e "is_abs p" "[]" "split_on slash p"] split_on_bytes
    by (auto simp: path_elems_def)
  with assms join_with_bytes [of c "[slash]" "path_elems p"] show ?thesis
    by (auto simp: path_clean_def Let_def split: if_splits)
qed

text \<open>A path that ends in a file name: its directory, resolved, is the directory of the resolved path.\<close>

definition names_file :: "string \<Rightarrow> bool" where
  "names_file p \<longleftrightarrow> plain_elem (last (split_on slash p))"

lemma split_on_snoc: "split_on slash p = ws @ [e] \<Longrightarrow> ws \<noteq> [] \<Longrightarrow> p = join_with [slash] ws @ slash # e"
  using join_split [of slash p] join_with_append [of ws "[e]" "[slash]"] by simp

lemma dir_part:
  assumes "split_on slash p = ws @ [e]"
  shows "rev (dropWhile (\<lambda>c. c \<noteq> slash) (rev p)) = (if ws = [] then [] else join_with [slash] ws @ [slash])"
proof -
  have e: "slash \<notin> set e" using split_on_elem_free [of e slash p] assms by simp
  then have d: "dropWhile (\<lambda>c. c \<noteq> slash) (rev e @ s) = dropWhile (\<lambda>c. c \<noteq> slash) s" for s
    by (intro dropWhile_append2) auto
  show ?thesis
  proof (cases "ws = []")
    case True
    with assms join_split [of slash p] have "p = e" by simp
    with d [of "[]"] True show ?thesis by simp
  next
    case False
    then show ?thesis using d [of "slash # rev (join_with [slash] ws)"] split_on_snoc [OF assms] by simp
  qed
qed

lemma path_elems_parent:
  assumes "split_on slash p = ws @ [e]" and "plain_elem e"
  shows "path_elems (path_dir p) = clean_elems (is_abs p) [] ws \<and> is_abs (path_dir p) = is_abs p"
proof (cases "ws = []")
  case True
  with assms(1) join_split [of slash p] have "p = e" by simp
  with assms(2) have "\<not> is_abs p" by (auto simp: plain_elem_def is_abs_def split: list.splits)
  moreover have "path_dir p = path_clean []" using True assms(1) by (simp add: path_dir_def dir_part)
  moreover have "path_elems [] = []" "\<not> is_abs []" by (simp_all add: path_elems_def is_abs_def)
  ultimately show ?thesis using True by simp
next
  case False
  let ?d = "join_with [slash] ws @ [slash]"
  have s: "split_on slash ?d = ws @ [[]]"
  proof -
    have "?d = join_with [slash] (ws @ [[]])" using False by (simp add: join_with_append)
    moreover have "slash \<notin> set w" if "w \<in> set (ws @ [[]])" for w
      using that split_on_elem_free [of w slash p] assms(1) by auto
    ultimately show ?thesis using split_join [of "ws @ [[]]" slash] by simp
  qed
  have a: "is_abs ?d = is_abs p"
    unfolding split_on_snoc [OF assms(1) False] by (cases "join_with [slash] ws") (simp_all add: is_abs_def)
  from s a have "path_elems ?d = clean_elems (is_abs p) [] ws" by (simp add: path_elems_def clean_elems_append)
  moreover have "path_dir p = path_clean ?d" using False assms(1) by (simp add: path_dir_def dir_part)
  ultimately show ?thesis using a by simp
qed

end
