(* ===== verification/Release_Correct.thy ===== *)
theory Release_Correct
  imports Release_Verify Go_Location
begin

text \<open>
  What a release verification establishes. \<open>release_intact\<close> states it without the reports: every
  file the manifest names is inside the directory, has the recorded digest and size and is listed
  with that digest; the names of the artifacts are distinct; the binaries report the manifest's
  version; nothing else is listed; and a public key that was given opens the signature. The verdict
  of \<open>release_verify\<close> is exactly this, whatever problems are found and in whatever order.
\<close>

subsection \<open>The specification\<close>

definition file_intact :: "release_env \<Rightarrow> fs \<Rightarrow> string \<Rightarrow> checksums \<Rightarrow> string \<Rightarrow> string \<Rightarrow> string \<Rightarrow> int \<Rightarrow> bool" where
  "file_intact en fs dir sums p name digest sz \<longleftrightarrow>
     trim_space p \<noteq> [] \<and> \<not> is_abs p \<and> \<not> leaves_release p \<and>
     release_file_digest en fs dir p = Inr (digest, sz) \<and> lookup_checksum sums p name = Some digest"

definition reported_metadata_ok :: "metadata_func \<Rightarrow> release_artifact \<Rightarrow> release_manifest \<Rightarrow> string \<Rightarrow> bool \<Rightarrow> bool" where
  "reported_metadata_ok reader a m p check_target = (case reader of None \<Rightarrow> True
     | Some f \<Rightarrow> (case f p of Inl _ \<Rightarrow> False
       | Inr info \<Rightarrow> bi_version info = rm_version m \<and> bi_commit info = rm_commit m \<and> bi_date info = rm_date m \<and>
           (check_target \<longrightarrow> bi_os info = rt_os (rf_target a) \<and> bi_arch info = rt_arch (rf_target a))))"

abbreviation supplemental_intact :: "release_env \<Rightarrow> fs \<Rightarrow> string \<Rightarrow> checksums \<Rightarrow> supplemental \<Rightarrow> bool" where
  "supplemental_intact en fs dir sums s \<equiv>
     file_intact en fs dir sums (su_path s) (su_name s) (su_sha256 s) (su_size_bytes s)"

abbreviation attestation_intact :: "release_env \<Rightarrow> fs \<Rightarrow> string \<Rightarrow> checksums \<Rightarrow> attestation \<Rightarrow> bool" where
  "attestation_intact en fs dir sums a \<equiv>
     file_intact en fs dir sums (at_path a) (at_name a) (at_sha256 a) (at_size_bytes a)"

definition artifact_intact ::
    "release_env \<Rightarrow> release_verify_options \<Rightarrow> fs \<Rightarrow> string \<Rightarrow> checksums \<Rightarrow> release_manifest \<Rightarrow> release_artifact \<Rightarrow> bool" where
  "artifact_intact en opts fs dir sums m a \<longleftrightarrow>
     (let p = path_join [dir, path_clean (rf_path a)] in
      file_intact en fs dir sums (rf_path a) (rf_name a) (rf_sha256 a) (rf_size_bytes a) \<and>
      reported_metadata_ok (rvo_metadata opts) a m p False \<and>
      (is_host_target en (rf_target a) \<longrightarrow> reported_metadata_ok (rvo_host_metadata opts) a m p True) \<and>
      list_all (attestation_intact en fs dir sums)
        (rf_attestations a))"

definition manifest_names :: "release_manifest \<Rightarrow> string set" where
  "manifest_names m =
     set (map rf_path (rm_artifacts m)) \<union> set (map rf_name (rm_artifacts m)) \<union>
     (\<Union>a \<in> set (rm_artifacts m). at_path ` set (rf_attestations a) \<union> at_name ` set (rf_attestations a)) \<union>
     set (map su_path (rm_supplemental m)) \<union> set (map su_name (rm_supplemental m))"

definition release_intact ::
    "release_env \<Rightarrow> release_verify_options \<Rightarrow> fs \<Rightarrow> string \<Rightarrow> string \<Rightarrow> checksums \<Rightarrow> release_manifest \<Rightarrow> bool" where
  "release_intact en opts fs dir bytes sums m \<longleftrightarrow>
     (trim_space (rvo_public_key_path opts) \<noteq> [] \<longrightarrow>
        (\<exists>k. verify_release_signature en fs (path_join [dir, ''release-signature.json'']) bytes
           (rvo_public_key_path opts) = Inr k)) \<and>
     distinct (map rf_name (rm_artifacts m)) \<and>
     list_all (artifact_intact en opts fs dir sums m) (rm_artifacts m) \<and>
     list_all (supplemental_intact en fs dir sums)
       (rm_supplemental m) \<and>
     fst ` set sums \<subseteq> manifest_names m"

subsection \<open>One file\<close>

lemma path_problem_None:
  "path_problem label name p = None \<longleftrightarrow> trim_space p \<noteq> [] \<and> \<not> is_abs p \<and> \<not> leaves_release p"
  by (simp add: path_problem_def)

lemma attestation_problems_Nil:
  "ar_problems (verify_attestation en fs dir sums a) = [] \<longleftrightarrow>
     file_intact en fs dir sums (at_path a) (at_name a) (at_sha256 a) (at_size_bytes a)"
proof (cases "path_problem ''attestation'' (at_name a) (at_path a)")
  case None
  with None [unfolded path_problem_None] show ?thesis
    by (cases "release_file_digest en fs dir (at_path a)")
       (auto simp: verify_attestation_def file_intact_def Let_def)
next
  case (Some m)
  then have "\<not> (trim_space (at_path a) \<noteq> [] \<and> \<not> is_abs (at_path a) \<and> \<not> leaves_release (at_path a))"
    using path_problem_None by (metis option.distinct(1))
  with Some show ?thesis by (auto simp: verify_attestation_def file_intact_def Let_def)
qed

lemma attestation_verified_iff:
  "ar_verified (verify_attestation en fs dir sums a) \<longleftrightarrow> ar_problems (verify_attestation en fs dir sums a) = []"
  by (auto simp: verify_attestation_def Let_def split: option.splits sum.splits prod.splits)

lemma supplemental_problems_Nil:
  "sr_problems (verify_supplemental en fs dir sums s) = [] \<longleftrightarrow>
     file_intact en fs dir sums (su_path s) (su_name s) (su_sha256 s) (su_size_bytes s)"
proof (cases "path_problem ''supplemental artifact'' (su_name s) (su_path s)")
  case None
  with None [unfolded path_problem_None] show ?thesis
    by (cases "release_file_digest en fs dir (su_path s)")
       (auto simp: verify_supplemental_def file_intact_def Let_def)
next
  case (Some m)
  then have "\<not> (trim_space (su_path s) \<noteq> [] \<and> \<not> is_abs (su_path s) \<and> \<not> leaves_release (su_path s))"
    using path_problem_None by (metis option.distinct(1))
  with Some show ?thesis by (auto simp: verify_supplemental_def file_intact_def Let_def)
qed

lemma metadata_mismatch_Nil [simp]: "metadata_mismatch what name got want = [] \<longleftrightarrow> got = want"
  by (simp add: metadata_mismatch_def)

lemma metadata_check_Nil:
  "fst (metadata_check reader what a m p check_target) = [] \<longleftrightarrow> reported_metadata_ok reader a m p check_target"
  by (auto simp: metadata_check_def reported_metadata_ok_def compare_build_metadata_def
      split: option.splits sum.splits)

subsection \<open>The walk\<close>

lemma add_problems_simps [simp]:
  "rv_problems (add_problems ms r) = rv_problems r @ ms"
  "rv_verified (add_problems ms r) = (rv_verified r \<and> ms = [])"
  by (simp_all add: add_problems_def)

lemma add_reports_simps [simp]:
  "rv_problems (add_artifact_report x r) = rv_problems r"
  "rv_verified (add_artifact_report x r) = rv_verified r"
  "rv_problems (add_artifact_provenance p r) = rv_problems r"
  "rv_verified (add_artifact_provenance p r) = rv_verified r"
  by (simp_all add: add_artifact_report_def add_artifact_provenance_def)

lemma verify_contents_problems:
  assumes "verify_contents en opts fs dir sums m a dup digest sz = (entry, provenance, ms)"
  shows "ms = [] \<longleftrightarrow> dup = [] \<and> digest = rf_sha256 a \<and> sz = rf_size_bytes a \<and>
    lookup_checksum sums (rf_path a) (rf_name a) = Some (rf_sha256 a) \<and>
    (let p = path_join [dir, path_clean (rf_path a)] in
     reported_metadata_ok (rvo_metadata opts) a m p False \<and>
     (is_host_target en (rf_target a) \<longrightarrow> reported_metadata_ok (rvo_host_metadata opts) a m p True)) \<and>
    list_all (attestation_intact en fs dir sums)
      (rf_attestations a)"
proof -
  let ?p = "path_join [dir, path_clean (rf_path a)]"
  let ?md = "metadata_check (rvo_metadata opts) ''metadata'' a m ?p False"
  let ?host = "if is_host_target en (rf_target a)
    then metadata_check (rvo_host_metadata opts) ''host metadata'' a m ?p True else ([], None)"
  have "ms = dup @ digest_problems ''artifact'' (rf_name a) digest (rf_sha256 a) @
       size_problems ''artifact'' (rf_name a) sz (rf_size_bytes a) @
       checksum_problems ''artifact'' (rf_name a) (lookup_checksum sums (rf_path a) (rf_name a)) (rf_sha256 a) @
       fst ?md @ fst ?host @ concat (map ar_problems (map (verify_attestation en fs dir sums) (rf_attestations a)))"
    using assms unfolding verify_contents_def Let_def by (cases ?md; cases ?host) simp
  moreover have "concat (map ar_problems (map (verify_attestation en fs dir sums) (rf_attestations a))) = [] \<longleftrightarrow>
      list_all (attestation_intact en fs dir sums)
        (rf_attestations a)"
    by (simp add: attestation_problems_Nil list_all_iff)
  moreover have "fst ?host = [] \<longleftrightarrow>
      (is_host_target en (rf_target a) \<longrightarrow> reported_metadata_ok (rvo_host_metadata opts) a m ?p True)"
    by (simp add: metadata_check_Nil)
  ultimately show ?thesis by (auto simp: metadata_check_Nil Let_def)
qed

text \<open>
  One round: problems are only added, the verdict is dropped exactly when there are any, and there
  are none exactly when the artifact is intact and its name new; then it counts as seen and listed.
\<close>

lemma verify_release_artifact_step:
  obtains ms where
    "rv_problems (vs_report (verify_release_artifact en opts fs dir sums m s a)) = rv_problems (vs_report s) @ ms"
    "rv_verified (vs_report (verify_release_artifact en opts fs dir sums m s a)) = (rv_verified (vs_report s) \<and> ms = [])"
    "ms = [] \<longleftrightarrow> \<not> vs_seen s (rf_name a) \<and> artifact_intact en opts fs dir sums m a"
    "ms = [] \<Longrightarrow> vs_seen (verify_release_artifact en opts fs dir sums m s a) = (vs_seen s)(rf_name a := True)"
    "ms = [] \<Longrightarrow> vs_manifested (verify_release_artifact en opts fs dir sums m s a) =
       (\<lambda>k. vs_manifested s k \<or> k = rf_path a \<or> k = rf_name a \<or>
          list_ex (\<lambda>t. k = at_path t \<or> k = at_name t) (rf_attestations a))"
proof (cases "path_problem ''artifact'' (rf_name a) (rf_path a)")
  case (Some msg)
  then have "\<not> artifact_intact en opts fs dir sums m a"
    using path_problem_None [of "''artifact''" "rf_name a" "rf_path a"]
    by (auto simp: artifact_intact_def file_intact_def)
  with Some show ?thesis by (intro that [of "[msg]"]) (simp_all add: verify_release_artifact_def Let_def)
next
  case None
  note path_ok = this [unfolded path_problem_None]
  show ?thesis
  proof (cases "release_file_digest en fs dir (rf_path a)")
    case (Inl e)
    then have "\<not> artifact_intact en opts fs dir sums m a"
      by (auto simp: artifact_intact_def file_intact_def)
    with None Inl show ?thesis
      by (intro that [of "(if vs_seen s (rf_name a) then [''duplicate artifact '' @ quoted (rf_name a)] else []) @
           [''artifact '' @ quoted (rf_name a) @ '' read failed: '' @ error_text e]"])
         (simp_all add: verify_release_artifact_def Let_def)
  next
    case (Inr r)
    obtain digest sz where r: "r = (digest, sz)" by (cases r)
    let ?dup = "if vs_seen s (rf_name a) then [''duplicate artifact '' @ quoted (rf_name a)] else []"
    obtain entry provenance ms where
      c: "verify_contents en opts fs dir sums m a ?dup digest sz = (entry, provenance, ms)"
      by (cases "verify_contents en opts fs dir sums m a ?dup digest sz")
    have "ms = [] \<longleftrightarrow> \<not> vs_seen s (rf_name a) \<and> artifact_intact en opts fs dir sums m a"
      unfolding verify_contents_problems [OF c] artifact_intact_def file_intact_def Inr r Let_def
      using path_ok by auto
    with None Inr r c show ?thesis
      by (intro that [of ms]) (auto simp: verify_release_artifact_def Let_def)
  qed
qed

lemma verify_release_supplemental_step:
  obtains ms where
    "rv_problems (vs_report (verify_release_supplemental en fs dir sums s item)) = rv_problems (vs_report s) @ ms"
    "rv_verified (vs_report (verify_release_supplemental en fs dir sums s item)) = (rv_verified (vs_report s) \<and> ms = [])"
    "ms = [] \<longleftrightarrow> supplemental_intact en fs dir sums item"
    "vs_manifested (verify_release_supplemental en fs dir sums s item) =
       (\<lambda>k. vs_manifested s k \<or> k = su_path item \<or> k = su_name item)"
  by (rule that [of "sr_problems (verify_supplemental en fs dir sums item)"])
     (simp_all add: verify_release_supplemental_def Let_def supplemental_problems_Nil fun_eq_iff)

lemma walk_artifacts:
  fixes s :: verify_state
  assumes "s' = foldl (verify_release_artifact en opts fs dir sums m) s as"
  shows "\<exists>ms. rv_problems (vs_report s') = rv_problems (vs_report s) @ ms \<and>
    rv_verified (vs_report s') = (rv_verified (vs_report s) \<and> ms = []) \<and>
    (ms = [] \<longleftrightarrow> distinct (map rf_name as) \<and> (\<forall>a \<in> set as. \<not> vs_seen s (rf_name a)) \<and>
       list_all (artifact_intact en opts fs dir sums m) as) \<and>
    (ms = [] \<longrightarrow> vs_manifested s' = (\<lambda>k. vs_manifested s k \<or>
       (\<exists>a \<in> set as. k = rf_path a \<or> k = rf_name a \<or>
          list_ex (\<lambda>t. k = at_path t \<or> k = at_name t) (rf_attestations a))))"
  using assms
proof (induction as arbitrary: s s')
  case (Cons a as)
  let ?s1 = "verify_release_artifact en opts fs dir sums m s a"
  obtain ms1 where one:
    "rv_problems (vs_report ?s1) = rv_problems (vs_report s) @ ms1"
    "rv_verified (vs_report ?s1) = (rv_verified (vs_report s) \<and> ms1 = [])"
    "ms1 = [] \<longleftrightarrow> \<not> vs_seen s (rf_name a) \<and> artifact_intact en opts fs dir sums m a"
    "ms1 = [] \<Longrightarrow> vs_seen ?s1 = (vs_seen s)(rf_name a := True)"
    "ms1 = [] \<Longrightarrow> vs_manifested ?s1 = (\<lambda>k. vs_manifested s k \<or> k = rf_path a \<or> k = rf_name a \<or>
       list_ex (\<lambda>t. k = at_path t \<or> k = at_name t) (rf_attestations a))"
    by (rule verify_release_artifact_step [where en = en and opts = opts and fs = fs and dir = dir and
        sums = sums and m = m and s = s and a = a]) (rule that)
  from Cons.prems have "s' = foldl (verify_release_artifact en opts fs dir sums m) ?s1 as" by simp
  from Cons.IH [OF this] obtain ms2 where rest:
    "rv_problems (vs_report s') = rv_problems (vs_report ?s1) @ ms2"
    "rv_verified (vs_report s') = (rv_verified (vs_report ?s1) \<and> ms2 = [])"
    "ms2 = [] \<longleftrightarrow> distinct (map rf_name as) \<and> (\<forall>a \<in> set as. \<not> vs_seen ?s1 (rf_name a)) \<and>
       list_all (artifact_intact en opts fs dir sums m) as"
    "ms2 = [] \<Longrightarrow> vs_manifested s' = (\<lambda>k. vs_manifested ?s1 k \<or>
       (\<exists>a \<in> set as. k = rf_path a \<or> k = rf_name a \<or>
          list_ex (\<lambda>t. k = at_path t \<or> k = at_name t) (rf_attestations a)))"
    by blast
  show ?case
  proof (intro exI [of _ "ms1 @ ms2"] conjI impI)
    show "(ms1 @ ms2 = []) = (distinct (map rf_name (a # as)) \<and> (\<forall>x \<in> set (a # as). \<not> vs_seen s (rf_name x)) \<and>
      list_all (artifact_intact en opts fs dir sums m) (a # as))"
    proof (cases "ms1 = []")
      case True
      with one(3,4) rest(3) show ?thesis by (auto simp: image_iff)
    next
      case False
      with one(3) show ?thesis by auto
    qed
  next
    assume "ms1 @ ms2 = []"
    with one(5) rest(4) show "vs_manifested s' = (\<lambda>k. vs_manifested s k \<or>
       (\<exists>x \<in> set (a # as). k = rf_path x \<or> k = rf_name x \<or>
          list_ex (\<lambda>t. k = at_path t \<or> k = at_name t) (rf_attestations x)))" by (auto intro!: ext)
  qed (use one rest in auto)
qed auto

lemma walk_supplemental:
  fixes s :: verify_state
  assumes "s' = foldl (verify_release_supplemental en fs dir sums) s items"
  shows "\<exists>ms. rv_problems (vs_report s') = rv_problems (vs_report s) @ ms \<and>
    rv_verified (vs_report s') = (rv_verified (vs_report s) \<and> ms = []) \<and>
    (ms = [] \<longleftrightarrow> list_all (supplemental_intact en fs dir sums) items) \<and>
    vs_manifested s' = (\<lambda>k. vs_manifested s k \<or> (\<exists>i \<in> set items. k = su_path i \<or> k = su_name i))"
  using assms
proof (induction items arbitrary: s s')
  case (Cons i items)
  let ?s1 = "verify_release_supplemental en fs dir sums s i"
  obtain ms1 where one:
    "rv_problems (vs_report ?s1) = rv_problems (vs_report s) @ ms1"
    "rv_verified (vs_report ?s1) = (rv_verified (vs_report s) \<and> ms1 = [])"
    "ms1 = [] \<longleftrightarrow> supplemental_intact en fs dir sums i"
    "vs_manifested ?s1 = (\<lambda>k. vs_manifested s k \<or> k = su_path i \<or> k = su_name i)"
    by (rule verify_release_supplemental_step [where en = en and fs = fs and dir = dir and
        sums = sums and s = s and item = i]) (rule that)
  from Cons.prems have "s' = foldl (verify_release_supplemental en fs dir sums) ?s1 items" by simp
  from Cons.IH [OF this] obtain ms2 where rest:
    "rv_problems (vs_report s') = rv_problems (vs_report ?s1) @ ms2"
    "rv_verified (vs_report s') = (rv_verified (vs_report ?s1) \<and> ms2 = [])"
    "ms2 = [] \<longleftrightarrow> list_all (supplemental_intact en fs dir sums) items"
    "vs_manifested s' = (\<lambda>k. vs_manifested ?s1 k \<or> (\<exists>i \<in> set items. k = su_path i \<or> k = su_name i))"
    by blast
  show ?case
    by (rule exI [of _ "ms1 @ ms2"]) (use one rest in auto)
qed auto

lemma manifest_names_iff: "k \<in> manifest_names m \<longleftrightarrow>
    (\<exists>a \<in> set (rm_artifacts m). k = rf_path a \<or> k = rf_name a \<or>
       list_ex (\<lambda>t. k = at_path t \<or> k = at_name t) (rf_attestations a)) \<or>
    (\<exists>i \<in> set (rm_supplemental m). k = su_path i \<or> k = su_name i)"
  by (auto simp: manifest_names_def list_ex_iff)

text \<open>The verdict and the problems say the same, and both say what the specification says.\<close>

lemma check_release_verdict:
  fixes en :: release_env and opts :: release_verify_options and fs :: fs and dir :: string
    and sums :: checksums and m :: release_manifest and report :: release_verify_report
  assumes order: "\<And>ks. set (re_map_order en ks) = set ks"
    and start: "rv_verified report = (rv_problems report = [])"
  defines "r \<equiv> check_release en opts fs dir sums m report"
  shows "rv_verified r = (rv_problems r = [])"
    and "rv_problems r = [] \<longleftrightarrow> rv_problems report = [] \<and> distinct (map rf_name (rm_artifacts m)) \<and>
      list_all (artifact_intact en opts fs dir sums m) (rm_artifacts m) \<and>
      list_all (supplemental_intact en fs dir sums)
        (rm_supplemental m) \<and> fst ` set sums \<subseteq> manifest_names m"
proof -
  let ?s0 = "\<lparr>vs_report = report, vs_seen = (\<lambda>_. False), vs_manifested = (\<lambda>_. False)\<rparr>"
  define s1 where "s1 = foldl (verify_release_artifact en opts fs dir sums m) ?s0 (rm_artifacts m)"
  define s2 where "s2 = foldl (verify_release_supplemental en fs dir sums) s1 (rm_supplemental m)"
  define extra where "extra = unmanifested en sums (vs_manifested s2)"
  have r: "r = add_problems extra (vs_report s2)"
    by (simp add: r_def check_release_def s1_def s2_def extra_def Let_def)
  from walk_artifacts [OF s1_def] obtain ms1 where one:
    "rv_problems (vs_report s1) = rv_problems report @ ms1"
    "rv_verified (vs_report s1) = (rv_verified report \<and> ms1 = [])"
    "ms1 = [] \<longleftrightarrow> distinct (map rf_name (rm_artifacts m)) \<and>
       list_all (artifact_intact en opts fs dir sums m) (rm_artifacts m)"
    "ms1 = [] \<Longrightarrow> vs_manifested s1 = (\<lambda>k. \<exists>a \<in> set (rm_artifacts m). k = rf_path a \<or> k = rf_name a \<or>
       list_ex (\<lambda>t. k = at_path t \<or> k = at_name t) (rf_attestations a))" by auto
  from walk_supplemental [OF s2_def] obtain ms2 where two:
    "rv_problems (vs_report s2) = rv_problems (vs_report s1) @ ms2"
    "rv_verified (vs_report s2) = (rv_verified (vs_report s1) \<and> ms2 = [])"
    "ms2 = [] \<longleftrightarrow> list_all (supplemental_intact en fs dir sums)
       (rm_supplemental m)"
    "vs_manifested s2 = (\<lambda>k. vs_manifested s1 k \<or> (\<exists>i \<in> set (rm_supplemental m). k = su_path i \<or> k = su_name i))"
    by blast
  show "rv_verified r = (rv_problems r = [])" using one two start by (auto simp: r)
  have "extra = [] \<longleftrightarrow> (\<forall>k \<in> fst ` set sums. vs_manifested s2 k)"
    by (auto simp: extra_def unmanifested_def filter_empty_conv order)
  moreover have "ms1 = [] \<Longrightarrow> (\<forall>k \<in> fst ` set sums. vs_manifested s2 k) \<longleftrightarrow> fst ` set sums \<subseteq> manifest_names m"
    unfolding two(4) subset_eq manifest_names_iff using one(4) by simp
  ultimately show "rv_problems r = [] \<longleftrightarrow> rv_problems report = [] \<and> distinct (map rf_name (rm_artifacts m)) \<and>
      list_all (artifact_intact en opts fs dir sums m) (rm_artifacts m) \<and>
      list_all (supplemental_intact en fs dir sums)
        (rm_supplemental m) \<and> fst ` set sums \<subseteq> manifest_names m"
    unfolding r add_problems_simps two(1) one(1) append_is_Nil_conv two(3) using one(3) by blast
qed

lemma start_report_verdict:
  "rv_verified (start_report en opts fs dir bytes m) = (rv_problems (start_report en opts fs dir bytes m) = [])"
  "rv_problems (start_report en opts fs dir bytes m) = [] \<longleftrightarrow>
     (trim_space (rvo_public_key_path opts) \<noteq> [] \<longrightarrow>
        (\<exists>k. verify_release_signature en fs (path_join [dir, ''release-signature.json'']) bytes
           (rvo_public_key_path opts) = Inr k))"
  by (auto simp: start_report_def Let_def split: sum.splits)

text \<open>The directory of a release, its manifest and its checksum list, as the verification loads them.\<close>

definition release_loads ::
    "release_env \<Rightarrow> release_verify_options \<Rightarrow> fs \<Rightarrow> string \<Rightarrow> release_manifest \<Rightarrow> checksums \<Rightarrow> bool" where
  "release_loads en opts fs bytes m sums \<longleftrightarrow>
     (let dir = release_default (rvo_dir opts) ''dist'' in
      load_manifest en fs (path_join [dir, ''manifest.json'']) = Inr (bytes, m) \<and>
      read_checksums en fs (path_join [dir, ''SHA256SUMS'']) = Inr sums)"

lemma release_verify_iff_intact:
  assumes "release_loads en opts fs bytes m sums" and "\<And>ks. set (re_map_order en ks) = set ks"
  shows "\<exists>r. release_verify en opts fs = Inr r \<and> rv_verified r = (rv_problems r = []) \<and>
    (rv_verified r \<longleftrightarrow> release_intact en opts fs (release_default (rvo_dir opts) ''dist'') bytes sums m)"
proof -
  let ?dir = "release_default (rvo_dir opts) ''dist''"
  let ?r = "check_release en opts fs ?dir sums m (start_report en opts fs ?dir bytes m)"
  from assms(1) have "release_verify en opts fs = Inr ?r"
    by (simp add: release_loads_def release_verify_def Let_def)
  moreover note check_release_verdict [OF assms(2) start_report_verdict(1) [of en opts fs ?dir bytes m],
      where opts = opts and fs = fs and dir = ?dir and sums = sums and m = m]
  ultimately show ?thesis by (auto simp: release_intact_def start_report_verdict(2))
qed

subsection \<open>What the walk leaves alone\<close>

definition report_header :: "release_verify_report \<Rightarrow> string \<times> string \<times> bool" where
  "report_header r = (rv_manifest_path r, rv_public_key_sha256 r, pv_signature_verified (rv_provenance r))"

lemma report_header_simps [simp]:
  "report_header (add_problems ms r) = report_header r"
  "report_header (add_artifact_report x r) = report_header r"
  "report_header (add_artifact_provenance p r) = report_header r"
  by (simp_all add: report_header_def add_problems_def add_artifact_report_def add_artifact_provenance_def)

lemma artifact_header:
  "report_header (vs_report (verify_release_artifact en opts fs dir sums m s a)) = report_header (vs_report s)"
  by (auto simp: verify_release_artifact_def Let_def split: option.splits sum.splits prod.splits)

lemma supplemental_header:
  "report_header (vs_report (verify_release_supplemental en fs dir sums s i)) = report_header (vs_report s)"
  by (simp add: verify_release_supplemental_def Let_def) (simp add: report_header_def add_problems_def)

lemma foldl_header:
  "(\<And>s x. report_header (vs_report (f s x)) = report_header (vs_report s)) \<Longrightarrow>
     report_header (vs_report (foldl f s xs)) = report_header (vs_report s)"
  by (induction xs arbitrary: s) simp_all

lemma check_release_header: "report_header (check_release en opts fs dir sums m report) = report_header report"
  by (simp add: check_release_def Let_def foldl_header artifact_header supplemental_header)

lemma verified_signature:
  assumes "release_verify en opts fs = Inr r" and "trim_space (rvo_public_key_path opts) \<noteq> []" and "rv_problems r = []"
    and "\<And>ks. set (re_map_order en ks) = set ks"
  shows "pv_signature_verified (rv_provenance r) \<and>
    (\<exists>bytes m. load_manifest en fs (path_join [release_default (rvo_dir opts) ''dist'', ''manifest.json'']) = Inr (bytes, m) \<and>
       verify_release_signature en fs (path_join [release_default (rvo_dir opts) ''dist'', ''release-signature.json'']) bytes
         (rvo_public_key_path opts) = Inr (rv_public_key_sha256 r))"
proof -
  let ?dir = "release_default (rvo_dir opts) ''dist''"
  from assms(1) obtain bytes m sums where
    load: "load_manifest en fs (path_join [?dir, ''manifest.json'']) = Inr (bytes, m)"
    and r: "r = check_release en opts fs ?dir sums m (start_report en opts fs ?dir bytes m)"
    by (auto simp: release_verify_def Let_def)
  have "rv_problems (start_report en opts fs ?dir bytes m) = []"
    using check_release_verdict(2) [OF assms(4) start_report_verdict(1)] assms(3) unfolding r by blast
  with assms(2) obtain k where k: "verify_release_signature en fs (path_join [?dir, ''release-signature.json'']) bytes
      (rvo_public_key_path opts) = Inr k"
    by (auto simp: start_report_verdict(2))
  with assms(2) have "report_header (start_report en opts fs ?dir bytes m) = (path_join [?dir, ''manifest.json''], k, True)"
    by (simp add: start_report_def report_header_def add_problems_def Let_def)
  with check_release_header have "report_header r = (path_join [?dir, ''manifest.json''], k, True)"
    unfolding r by metis
  with load k show ?thesis by (auto simp: report_header_def)
qed

lemma verified_manifest_path:
  "release_verify en opts fs = Inr r \<Longrightarrow> rv_manifest_path r = path_join [release_default (rvo_dir opts) ''dist'', ''manifest.json'']"
proof -
  assume "release_verify en opts fs = Inr r"
  then obtain bytes m sums where
    "r = check_release en opts fs (release_default (rvo_dir opts) ''dist'') sums m
      (start_report en opts fs (release_default (rvo_dir opts) ''dist'') bytes m)"
    by (auto simp: release_verify_def Let_def)
  then have "report_header r = report_header (start_report en opts fs (release_default (rvo_dir opts) ''dist'') bytes m)"
    by (simp add: check_release_header)
  then show ?thesis by (simp add: report_header_def start_report_def add_problems_def Let_def)
qed

end
