(* ===== verification/Release_Roundtrip.thy ===== *)
theory Release_Roundtrip
  imports Release_Correct
begin

text \<open>
  A release that was packaged verifies. The files the manifest names keep the contents they were
  digested with until the end: every name is taken once, plain names lead to different files, and
  the manifest, the checksum list and the signature have names of their own. The checksum list is
  read back as it was written.
\<close>

subsection \<open>Reading back the checksum list\<close>

type_synonym release_entry = "string \<times> string \<times> int"

definition artifact_entries :: "release_artifact \<Rightarrow> release_entry list" where
  "artifact_entries a = (rf_name a, rf_sha256 a, rf_size_bytes a) #
     map (\<lambda>t. (at_path t, at_sha256 t, at_size_bytes t)) (rf_attestations a)"

definition supplemental_entry :: "supplemental \<Rightarrow> release_entry" where
  "supplemental_entry s = (su_path s, su_sha256 s, su_size_bytes s)"

definition release_entries :: "release_artifact list \<Rightarrow> supplemental list \<Rightarrow> release_entry list" where
  "release_entries as ss = concat (map artifact_entries as) @ map supplemental_entry ss"

definition entry_line :: "release_entry \<Rightarrow> string" where
  "entry_line e = fst (snd e) @ ''  '' @ fst e"

definition listable :: "release_entry \<Rightarrow> bool" where
  "listable e \<longleftrightarrow> plain_word (fst e) \<and> plain_word (fst (snd e)) \<and> length (fst (snd e)) = 64"

lemma checksums_text_lines:
  "checksums_text as ss = concat (map (\<lambda>l. l @ [CHR 0x0A]) (map entry_line (release_entries as ss)))"
proof -
  have "checksum_line (rf_sha256 a) (rf_name a) @
      concat (map (\<lambda>t. checksum_line (at_sha256 t) (at_path t)) (rf_attestations a)) =
    concat (map (\<lambda>l. l @ [CHR 0x0A]) (map entry_line (artifact_entries a)))" for a
    by (simp add: artifact_entries_def checksum_line_def entry_line_def comp_def)
  then have "concat (map (\<lambda>a. checksum_line (rf_sha256 a) (rf_name a) @
      concat (map (\<lambda>t. checksum_line (at_sha256 t) (at_path t)) (rf_attestations a))) as) =
    concat (map (\<lambda>l. l @ [CHR 0x0A]) (map entry_line (concat (map artifact_entries as))))"
    by (induction as) simp_all
  moreover have "concat (map (\<lambda>s. checksum_line (su_sha256 s) (su_path s)) ss) =
    concat (map (\<lambda>l. l @ [CHR 0x0A]) (map entry_line (map supplemental_entry ss)))"
    by (simp add: supplemental_entry_def checksum_line_def entry_line_def comp_def)
  ultimately show ?thesis by (simp add: checksums_text_def release_entries_def)
qed

lemma concat_terminated: "ls \<noteq> [] \<Longrightarrow> concat (map (\<lambda>l. l @ [c]) ls) = join_with [c] ls @ [c]"
proof (induction ls)
  case (Cons l ls)
  then show ?case by (cases ls) (simp_all add: join_with_Cons)
qed simp

text \<open>ASCII text that starts and ends with a visible character.\<close>

definition bounded_text :: "string \<Rightarrow> bool" where
  "bounded_text w \<longleftrightarrow> w \<noteq> [] \<and> is_ascii w \<and> \<not> ascii_space (hd w) \<and> \<not> ascii_space (last w)"

lemma is_ascii_append [simp]: "is_ascii (v @ w) \<longleftrightarrow> is_ascii v \<and> is_ascii w"
  by (simp add: is_ascii_def)

lemma bounded_text_trim:
  assumes "bounded_text w"
  shows "trim_space w = w" and "trim_space (w @ [CHR 0x0A]) = w"
proof -
  obtain c v where w: "w = c # v" using assms by (cases w) (auto simp: bounded_text_def)
  have start: "space_len (w @ r) = 0" for r
    using assms by (simp add: w bounded_text_def space_len_ascii is_ascii_def is_ascii_char_def)
  from start [of "[]"] assms show "trim_space w = w"
    by (intro trim_space_id) (auto simp: bounded_text_def space_suffix_len_ascii)
  have "is_ascii (w @ [CHR 0x0A])" using assms by (simp add: bounded_text_def is_ascii_def is_ascii_char_def)
  then have "space_suffix_len (w @ [CHR 0x0A]) = 1"
    by (simp add: space_suffix_len_ascii ascii_space_def)
  then have "trim_right (w @ [CHR 0x0A]) = trim_right w"
    by (subst trim_right.simps) simp
  also have "\<dots> = w"
    using assms by (subst trim_right.simps) (simp add: bounded_text_def space_suffix_len_ascii)
  finally show "trim_space (w @ [CHR 0x0A]) = w"
    using start [of "[CHR 0x0A]"] by (simp add: trim_space_def trim_left.simps)
qed

lemma entry_line_bounded: "listable e \<Longrightarrow> bounded_text (entry_line e)"
  by (cases e) (auto simp: listable_def plain_word_def bounded_text_def entry_line_def list_all_iff
      is_ascii_def is_ascii_char_def hd_append)

lemma entry_line_free: "listable e \<Longrightarrow> CHR 0x0A \<notin> set (entry_line e)"
  by (auto simp: listable_def plain_word_def entry_line_def list_all_iff ascii_space_def)

lemma join_bounded:
  assumes "ls \<noteq> []" and "list_all bounded_text ls"
  shows "bounded_text (join_with [CHR 0x0A] ls)"
  using assms
proof (induction ls)
  case (Cons l ls)
  show ?case
  proof (cases "ls = []")
    case False
    with Cons have "bounded_text l" "bounded_text (join_with [CHR 0x0A] ls)" by simp_all
    with False show ?thesis
      by (auto simp: join_with_Cons bounded_text_def is_ascii_def is_ascii_char_def)
  qed (use Cons.prems in simp)
qed simp

definition record_entry :: "checksums \<Rightarrow> release_entry \<Rightarrow> checksums" where
  "record_entry sums e = AList.update (fst e) (fst (snd e)) sums"

lemma parse_entry_lines:
  assumes "list_all listable es"
  shows "parse_checksum_lines i (map entry_line es) sums = Inr (foldl record_entry sums es)"
  using assms
proof (induction es arbitrary: i sums)
  case (Cons e es)
  then have l: "listable e" by simp
  then have "words_of (entry_line e) = [fst (snd e), fst e]" "entry_line e \<noteq> []"
    by (auto simp: entry_line_def listable_def words_of_two [simplified])
  with Cons l show ?case
    by (simp add: bounded_text_trim(1) entry_line_bounded listable_def record_entry_def)
qed simp

lemma parse_checksums_text:
  assumes "list_all listable (release_entries as ss)"
  shows "parse_checksums (checksums_text as ss) = Inr (foldl record_entry [] (release_entries as ss))"
proof (cases "release_entries as ss = []")
  case True
  then show ?thesis by (simp add: parse_checksums_def checksums_text_lines)
next
  case False
  let ?ls = "map entry_line (release_entries as ss)"
  have "bounded_text (join_with [CHR 0x0A] ?ls)"
    using False assms entry_line_bounded by (intro join_bounded) (auto simp: list_all_iff)
  then have "trim_space (checksums_text as ss) = join_with [CHR 0x0A] ?ls"
    using False by (simp add: checksums_text_lines concat_terminated bounded_text_trim(2) del: map_map)
  moreover have "split_on (CHR 0x0A) (join_with [CHR 0x0A] ?ls) = ?ls"
    using False assms entry_line_free by (intro split_join) (auto simp: list_all_iff)
  ultimately show ?thesis using parse_entry_lines [OF assms] by (simp add: parse_checksums_def)
qed

lemma recorded_keys: "fst ` set (foldl record_entry sums es) = fst ` set sums \<union> fst ` set es"
proof (induction es arbitrary: sums)
  case (Cons e es)
  have "fst ` set (record_entry sums e) = insert (fst e) (fst ` set sums)"
    by (simp add: record_entry_def dom_update)
  with Cons.IH show ?case by simp
qed simp

lemma recorded_digest:
  assumes "\<forall>e \<in> set es. fst e = n \<longrightarrow> fst (snd e) = d"
  shows "n \<in> fst ` set es \<or> map_of sums n = Some d \<Longrightarrow> map_of (foldl record_entry sums es) n = Some d"
  using assms
proof (induction es arbitrary: sums)
  case (Cons e es)
  have step: "map_of (record_entry sums e) n = (if fst e = n then Some (fst (snd e)) else map_of sums n)"
    by (auto simp: record_entry_def update_conv)
  from Cons.prems have "n \<in> fst ` set es \<or> map_of (record_entry sums e) n = Some d"
    unfolding step by auto
  with Cons show ?case by simp
qed simp

subsection \<open>The files of a release\<close>

definition release_file :: "release_env \<Rightarrow> string \<Rightarrow> string \<Rightarrow> string" where
  "release_file en dir n = abs_path (re_cwd en) (path_join [dir, n])"

definition stored :: "release_env \<Rightarrow> string \<Rightarrow> fs \<Rightarrow> release_entry list \<Rightarrow> bool" where
  "stored en dir fs es \<longleftrightarrow>
     (\<forall>e \<in> set es. \<exists>s. fs (release_file en dir (fst e)) = Some (File s) \<and>
        fst (snd e) = re_sha en s \<and> snd (snd e) = int (length s))"

definition plain_names :: "release_entry list \<Rightarrow> bool" where
  "plain_names es \<longleftrightarrow> (\<forall>e \<in> set es. plain_elem (fst e))"

lemma stored_append [simp]: "stored en dir fs (es @ es') \<longleftrightarrow> stored en dir fs es \<and> stored en dir fs es'"
  by (simp add: stored_def ball_Un)

lemma plain_names_append [simp]: "plain_names (es @ es') \<longleftrightarrow> plain_names es \<and> plain_names es'"
  by (auto simp: plain_names_def)

lemma stored_elsewhere:
  assumes "is_abs (re_cwd en)" and "dir \<noteq> []" and "stored en dir fs es" and "plain_names es"
    and "plain_elem n" and "n \<notin> fst ` set es" and "\<And>q. q \<noteq> release_file en dir n \<Longrightarrow> fs' q = fs q"
  shows "stored en dir fs' es"
proof -
  have "fs' (release_file en dir (fst e)) = fs (release_file en dir (fst e))" if "e \<in> set es" for e
  proof (rule assms(7))
    from that assms(4,6) have "plain_elem (fst e)" "fst e \<noteq> n" by (auto simp: plain_names_def)
    then show "release_file en dir (fst e) \<noteq> release_file en dir n"
      using location_inject [OF assms(1,2) _ assms(5)] by (auto simp: release_file_def)
  qed
  with assms(3) show ?thesis by (simp add: stored_def)
qed

lemma stored_functional:
  "stored en dir fs es \<Longrightarrow> e \<in> set es \<Longrightarrow> e' \<in> set es \<Longrightarrow> fst e = fst e' \<Longrightarrow> fst (snd e) = fst (snd e')"
  unfolding stored_def by (metis node.inject option.inject)

text \<open>
  What packaging maintains. The names may still turn out not to be plain; the files are as recorded
  if they are.
\<close>

definition well_packed ::
    "release_env \<Rightarrow> string \<Rightarrow> release_artifact list \<Rightarrow> supplemental list \<Rightarrow> names \<Rightarrow> fs \<Rightarrow> bool" where
  "well_packed en dir as ss occupied fs \<longleftrightarrow>
     (\<forall>a \<in> set as. rf_path a = rf_name a) \<and> (\<forall>s \<in> set ss. su_path s = su_name s) \<and>
     distinct (map rf_name as) \<and>
     (\<forall>e \<in> set (release_entries as ss). occupied (fst e) \<noteq> []) \<and>
     (plain_names (release_entries as ss) \<longrightarrow> stored en dir fs (release_entries as ss))"

lemma set_release_entries:
  "set (release_entries as ss) = (\<Union>a \<in> set as. set (artifact_entries a)) \<union> supplemental_entry ` set ss"
  by (auto simp: release_entries_def)

text \<open>One more entry under a free name, and a file system that differs only there.\<close>

lemma well_packed_step:
  assumes packed: "well_packed en dir as ss occupied fs"
    and env: "is_abs (re_cwd en)" "dir \<noteq> []"
    and free: "occupied n = []" and taken: "label \<noteq> []"
    and entries: "set (release_entries as' ss') = insert (n, d, z) (set (release_entries as ss))"
    and shape: "\<forall>a \<in> set as'. rf_path a = rf_name a" "\<forall>s \<in> set ss'. su_path s = su_name s"
      "distinct (map rf_name as')"
    and contents: "plain_elem n \<Longrightarrow> (\<forall>q. q \<noteq> release_file en dir n \<longrightarrow> fs' q = fs q) \<and>
      (\<exists>s. fs' (release_file en dir n) = Some (File s) \<and> d = re_sha en s \<and> z = int (length s))"
  shows "well_packed en dir as' ss' (occupied(n := label)) fs'"
proof -
  have old: "\<forall>e \<in> set (release_entries as ss). occupied (fst e) \<noteq> []"
    and kept: "plain_names (release_entries as ss) \<Longrightarrow> stored en dir fs (release_entries as ss)"
    using packed by (auto simp: well_packed_def)
  have "stored en dir fs' (release_entries as' ss')" if plain: "plain_names (release_entries as' ss')"
  proof -
    from plain entries have n: "plain_elem n" and pl: "plain_names (release_entries as ss)"
      by (auto simp: plain_names_def)
    from old free have new: "n \<notin> fst ` set (release_entries as ss)" by auto
    from contents [OF n] have "stored en dir fs' (release_entries as ss)"
      by (intro stored_elsewhere [OF env kept [OF pl] pl n new]) simp
    with contents [OF n] entries show ?thesis by (auto simp: stored_def)
  qed
  with old taken entries shape show ?thesis by (auto simp: well_packed_def)
qed

text \<open>A step that writes the files of a release and no other.\<close>

definition confined :: "release_env \<Rightarrow> (build_request \<Rightarrow> unit io) \<Rightarrow> bool" where
  "confined en build \<longleftrightarrow> (\<forall>req fs u fs'. build req fs = (Inr u, fs') \<longrightarrow>
     (\<forall>q. q \<noteq> abs_path (re_cwd en) (br_output_path req) \<longrightarrow> fs' q = fs q))"

definition builder :: "release_env \<Rightarrow> release_options \<Rightarrow> build_request \<Rightarrow> unit io" where
  "builder en opts = (case ro_build opts of Some f \<Rightarrow> f | None \<Rightarrow> re_go_build en)"

lemma build_target_packed:
  assumes step: "build_target en opts src dir version ldflags t (as, occupied) fs = (Inr (as', occupied'), fs')"
    and packed: "well_packed en dir as [] occupied fs"
    and env: "is_abs (re_cwd en)" "dir \<noteq> []" "confined en (builder en opts)"
  shows "well_packed en dir as' [] occupied' fs'"
proof -
  let ?n = "artifact_name version t"
  let ?out = "path_join [abs_path (re_cwd en) dir, ?n]"
  from step obtain u fs1 d z where free: "occupied ?n = []"
    and made: "(if ro_prebuilt opts \<noteq> [] then
             (case map_of (ro_prebuilt opts) (target_key t) of
                None \<Rightarrow> io_result (Inl (Errorf (''prebuilt candidate for target '' @ target_key t @ '' is required'')))
              | Some prebuilt \<Rightarrow> io_wrap (''copy prebuilt candidate for '' @ target_key t @ '': '')
                  (copy_prebuilt_candidate en prebuilt ?out))
           else builder en opts \<lparr>br_source_dir = src, br_output_path = ?out, br_target = t, br_ldflags = ldflags\<rparr>) fs
         = (Inr u, fs1)"
    and digest: "file_digest_size en (path_join [dir, ?n]) fs1 = (Inr (d, z), fs')"
    and as': "as' = as @ [\<lparr>rf_name = ?n, rf_target = t, rf_path = ?n, rf_sha256 = d, rf_size_bytes = z, rf_attestations = []\<rparr>]"
    and occ: "occupied' = occupied(?n := ''binary artifact'')"
    unfolding build_target_def Let_def prod.case io_bind_Inr name_taken_def builder_def [symmetric]
    by auto
  have elsewhere: "fs1 q = fs q" if "q \<noteq> abs_path (re_cwd en) ?out" for q
  proof (cases "ro_prebuilt opts \<noteq> []")
    case True
    with made that show ?thesis by (auto simp: copy_prebuilt_Inr split: option.splits)
  next
    case False
    with made have "builder en opts \<lparr>br_source_dir = src, br_output_path = ?out, br_target = t, br_ldflags = ldflags\<rparr> fs
      = (Inr u, fs1)" by simp
    with env(3) that show ?thesis unfolding confined_def by fastforce
  qed
  show ?thesis unfolding occ
  proof (rule well_packed_step [OF packed env(1,2) free, where d = d and z = z])
    show "set (release_entries as' []) = insert (?n, d, z) (set (release_entries as []))"
      by (auto simp: set_release_entries as' artifact_entries_def)
    show "distinct (map rf_name as')"
      using packed free by (force simp: as' well_packed_def set_release_entries artifact_entries_def)
    show "\<forall>a \<in> set as'. rf_path a = rf_name a" using packed by (auto simp: as' well_packed_def)
  next
    assume n: "plain_elem ?n"
    have loc: "abs_path (re_cwd en) ?out = release_file en dir ?n"
      unfolding release_file_def by (rule location_of_abs [OF env(1,2) n])
    from digest have "fs' = fs1" by (auto simp: file_digest_size_Inr)
    with elsewhere digest loc show "(\<forall>q. q \<noteq> release_file en dir ?n \<longrightarrow> fs' q = fs q) \<and>
      (\<exists>s. fs' (release_file en dir ?n) = Some (File s) \<and> d = re_sha en s \<and> z = int (length s))"
      by (auto simp: file_digest_size_Inr release_file_def)
  qed simp_all
qed

lemma copy_packed:
  assumes "copy_and_digest en label source (path_join [dir, n]) fs = (Inr (d, z), fs')"
  shows "(\<forall>q. q \<noteq> release_file en dir n \<longrightarrow> fs' q = fs q) \<and>
    (\<exists>s. fs' (release_file en dir n) = Some (File s) \<and> d = re_sha en s \<and> z = int (length s))"
  using copy_and_digest_Inr [OF assms] by (auto simp: release_file_def)

lemma add_supplemental_packed:
  assumes step: "add_supplemental en dir kind raw (ss, occupied) fs = (Inr (ss', occupied'), fs')"
    and packed: "well_packed en dir as ss occupied fs"
    and env: "is_abs (re_cwd en)" "dir \<noteq> []"
  shows "well_packed en dir as ss' occupied' fs'"
proof (cases "trim_space raw = []")
  case True
  with step packed show ?thesis by (simp add: add_supplemental_def)
next
  case False
  let ?n = "path_base (path_clean (trim_space raw))"
  from step False obtain d z where free: "occupied ?n = []"
    and copied: "copy_and_digest en (kind @ '' supplemental artifact'') (trim_space raw) (path_join [dir, ?n]) fs = (Inr (d, z), fs')"
    and ss': "ss' = ss @ [\<lparr>su_kind = kind, su_name = ?n, su_path = ?n, su_sha256 = d, su_size_bytes = z\<rparr>]"
    and occ: "occupied' = occupied(?n := kind @ '' supplemental artifact'')"
    unfolding add_supplemental_def Let_def prod.case
    by (auto simp: io_bind_Inr name_taken_def split: if_splits)
  show ?thesis unfolding occ
  proof (rule well_packed_step [OF packed env free, where d = d and z = z])
    show "set (release_entries as ss') = insert (?n, d, z) (set (release_entries as ss))"
      by (auto simp: set_release_entries ss' supplemental_entry_def)
    show "\<forall>s \<in> set ss'. su_path s = su_name s" using packed by (auto simp: ss' well_packed_def)
  qed (use packed copy_packed [OF copied] in \<open>auto simp: well_packed_def\<close>)
qed

lemma attach_attestation_packed:
  assumes step: "attach_attestation en dir spec (as, occupied) fs = (Inr (as', occupied'), fs')"
    and packed: "well_packed en dir as ss occupied fs"
    and env: "is_abs (re_cwd en)" "dir \<noteq> []"
  shows "well_packed en dir as' ss occupied' fs'"
proof (cases "trim_space spec = []")
  case True
  with step packed show ?thesis by (simp add: attach_attestation_def)
next
  case False
  from step False obtain selector kind i source sname n d z where
    i: "match_attestation_selector as selector = Inr i"
    and free: "occupied n = []"
    and copied: "copy_and_digest en ''artifact attestation'' source (path_join [dir, n]) fs = (Inr (d, z), fs')"
    and as': "as' = as[i := (as ! i)\<lparr>rf_attestations := rf_attestations (as ! i) @
       [\<lparr>at_name = sname, at_kind = kind, at_path = n, at_sha256 = d, at_size_bytes = z\<rparr>]\<rparr>]"
    and occ: "occupied' = occupied(n := ''artifact attestation'')"
    unfolding attach_attestation_def Let_def prod.case
    by (auto simp: io_bind_Inr name_taken_def split: if_splits option.splits prod.splits)
  from i have len: "i < length as"
    by (auto simp: match_attestation_selector_def Let_def dest: first_index_Some split: option.splits prod.splits)
  let ?a = "(as ! i)\<lparr>rf_attestations := rf_attestations (as ! i) @
       [\<lparr>at_name = sname, at_kind = kind, at_path = n, at_sha256 = d, at_size_bytes = z\<rparr>]\<rparr>"
  have names: "map rf_name as' = map rf_name as"
  proof -
    have "rf_name ?a = map rf_name as ! i" using len by simp
    then have "(map rf_name as)[i := rf_name ?a] = map rf_name as" by (simp only: list_update_id)
    then show ?thesis unfolding as' map_update .
  qed
  let ?others = "set (take i as) \<union> set (drop (Suc i) as)"
  have "as' = take i as @ ?a # drop (Suc i) as" unfolding as' by (rule upd_conv_take_nth_drop [OF len])
  then have sets: "set as' = insert ?a ?others" by simp
  have "as = take i as @ as ! i # drop (Suc i) as" by (rule id_take_nth_drop [OF len])
  then have "set as = set (take i as @ as ! i # drop (Suc i) as)" by (rule arg_cong)
  then have old_sets: "set as = insert (as ! i) ?others" by simp
  have "set (artifact_entries ?a) = insert (n, d, z) (set (artifact_entries (as ! i)))"
    by (auto simp: artifact_entries_def)
  then have entries: "set (release_entries as' ss) = insert (n, d, z) (set (release_entries as ss))"
    unfolding set_release_entries sets old_sets by simp
  show ?thesis unfolding occ
  proof (rule well_packed_step [OF packed env free _ entries])
    show "\<forall>a \<in> set as'. rf_path a = rf_name a"
      using packed unfolding sets well_packed_def old_sets by simp
  qed (use packed copy_packed [OF copied] names in \<open>auto simp: well_packed_def\<close>)
qed

subsection \<open>From the packaging to the verification\<close>

definition manifest_text :: "release_manifest \<Rightarrow> string" where
  "manifest_text m = json_indent 0 (release_manifest_json m) @ [CHR 0x0A]"

definition release_dir :: "release_options \<Rightarrow> string" where
  "release_dir opts = release_default (ro_out_dir opts) ''dist''"

lemma release_default_not_Nil: "d \<noteq> [] \<Longrightarrow> release_default v d \<noteq> []"
  by (auto simp: release_default_def)

lemma stored_mono:
  assumes "stored en dir fs es" and "\<And>q s. fs q = Some (File s) \<Longrightarrow> fs' q = Some (File s)"
  shows "stored en dir fs' es"
  using assms unfolding stored_def by blast

definition reserved_names :: "string list" where
  "reserved_names = [''manifest.json'', ''SHA256SUMS'', ''release-signature.json'']"

lemma reserved_plain: "n \<in> set reserved_names \<Longrightarrow> plain_elem n"
  by (auto simp: reserved_names_def plain_elem_def)

lemma well_packed_empty: "well_packed en dir [] [] occupied fs"
  by (simp add: well_packed_def release_entries_def stored_def)

text \<open>
  The three last files, in the order they are written. \<open>files\<close> is the file system before them.
\<close>

lemma release_package_stages:
  assumes run: "release_package en opts fs = (Inr res, fs')"
    and env: "is_abs (re_cwd en)" "confined en (builder en opts)"
  defines "dir \<equiv> release_dir opts"
  obtains files occupied fs1 sig where
    "well_packed en dir (rr_artifacts res) (rm_supplemental (rr_manifest res)) occupied files"
    "rm_artifacts (rr_manifest res) = rr_artifacts res"
    "\<And>q s. files q = Some (File s) \<Longrightarrow> fs1 q = Some (File s)"
    "sign_release en opts dir (path_join [dir, ''manifest.json''])
       (fs1(release_file en dir ''manifest.json'' \<mapsto> File (manifest_text (rr_manifest res)),
            release_file en dir ''SHA256SUMS'' \<mapsto>
              File (checksums_text (rr_artifacts res) (rm_supplemental (rr_manifest res))))) = (Inr sig, fs')"
proof -
  let ?version = "release_default (ro_version opts) (bv_version (re_build_vars en))"
  let ?ldflags = "build_ldflags ?version (release_default (ro_commit opts) (bv_commit (re_build_vars en)))
    (release_default (ro_date opts) (bv_date (re_build_vars en)))"
  let ?targets = "if ro_targets opts = [] then default_targets else ro_targets opts"
  let ?src = "release_default (ro_source_dir opts) ''.''"
  have dir: "dir \<noteq> []" unfolding dir_def release_dir_def by (rule release_default_not_Nil) simp
  note unfolded = run [unfolded release_package_def package_files_def package_contents_def Let_def release_dir_def [symmetric] dir_def [symmetric]]
  from unfolded obtain fs0 built occ1 fsb as occ2 fsa ss occ3 fss fsm fsc sig m where
    targets: "io_fold (build_target en opts ?src dir ?version ?ldflags) ?targets ([], (\<lambda>_. [])) fs0 = (Inr (built, occ1), fsb)"
    and attached: "attach_artifact_attestations en dir built (ro_attestation_paths opts) occ1 fsb = (Inr (as, occ2), fsa)"
    and supplemented: "build_supplemental_artifacts en dir opts occ2 fsa = (Inr (ss, occ3), fss)"
    and m: "rr_manifest res = m" "rm_artifacts m = as" "rm_supplemental m = ss" "rr_artifacts res = as"
    and manifest: "write_manifest en (path_join [dir, ''manifest.json'']) m fss = (Inr (), fsm)"
    and listed: "write_checksums en (path_join [dir, ''SHA256SUMS'']) as ss fsm = (Inr (), fsc)"
    and signed: "sign_release en opts dir (path_join [dir, ''manifest.json'']) fsc = (Inr sig, fs')"
    by (auto simp: io_bind_Inr)
  have "well_packed en dir (fst (built, occ1)) [] (snd (built, occ1)) fsb"
    by (rule io_fold_preserves [OF targets, where P = "\<lambda>s fs. well_packed en dir (fst s) [] (snd s) fs"])
       (auto intro: well_packed_empty build_target_packed [OF _ _ env(1) dir env(2)])
  then have packed1: "well_packed en dir built [] occ1 fsb" by simp
  have "well_packed en dir (fst (as, occ2)) [] (snd (as, occ2)) fsa"
    by (rule io_fold_preserves [OF attached [unfolded attach_artifact_attestations_def],
          where P = "\<lambda>s fs. well_packed en dir (fst s) [] (snd s) fs"])
       (auto intro: packed1 attach_attestation_packed [OF _ _ env(1) dir])
  then have packed2: "well_packed en dir as [] occ2 fsa" by simp
  from supplemented obtain ss1 occ2' fsx where
    sbom: "io_fold (add_supplemental en dir ''sbom'') (ro_sbom_paths opts) ([], occ2) fsa = (Inr (ss1, occ2'), fsx)"
    and prov: "io_fold (add_supplemental en dir ''provenance'') (ro_provenance_paths opts) (ss1, occ2') fsx = (Inr (ss, occ3), fss)"
    by (auto simp: build_supplemental_artifacts_def io_bind_Inr)
  have "well_packed en dir as (fst (ss1, occ2')) (snd (ss1, occ2')) fsx"
    by (rule io_fold_preserves [OF sbom, where P = "\<lambda>s fs. well_packed en dir as (fst s) (snd s) fs"])
       (auto intro: packed2 add_supplemental_packed [OF _ _ env(1) dir])
  then have packed3: "well_packed en dir as ss1 occ2' fsx" by simp
  have "well_packed en dir as (fst (ss, occ3)) (snd (ss, occ3)) fss"
    by (rule io_fold_preserves [OF prov, where P = "\<lambda>s fs. well_packed en dir as (fst s) (snd s) fs"])
       (auto intro: packed3 add_supplemental_packed [OF _ _ env(1) dir])
  then have final: "well_packed en dir as ss occ3 fss" by simp
  from manifest obtain fs1 where made: "io_mkdir_all (re_cwd en) (path_dir (path_join [dir, ''manifest.json''])) fss = (Inr (), fs1)"
    and fsm: "fsm = fs1(release_file en dir ''manifest.json'' \<mapsto> File (manifest_text m))"
    by (auto simp: write_manifest_def io_bind_Inr io_write_Inr release_file_def manifest_text_def)
  from listed have "fsc = fsm(release_file en dir ''SHA256SUMS'' \<mapsto> File (checksums_text as ss))"
    by (auto simp: write_checksums_def io_write_Inr release_file_def)
  with signed fsm m final io_mkdir_all_files [OF made] show thesis
    by (intro that [of occ3 fss fs1 sig]) auto
qed

text \<open>What the packaging and the verification rely on outside the repository.\<close>

definition release_laws :: "release_env \<Rightarrow> bool" where
  "release_laws en \<longleftrightarrow>
     is_abs (re_cwd en) \<and> (\<forall>s. plain_word (re_sha en s) \<and> length (re_sha en s) = 64) \<and>
     (\<forall>ks. set (re_map_order en ks) = set ks)"

text \<open>The manifest is accepted by its schema and decodes to itself.\<close>

definition manifest_readable :: "release_env \<Rightarrow> release_manifest \<Rightarrow> bool" where
  "manifest_readable en m \<longleftrightarrow>
     re_schema_bytes en release_manifest_schema (manifest_text m) = None \<and>
     re_decode_manifest en (manifest_text m) = Inr m"

definition signature_for :: "release_env \<Rightarrow> string \<Rightarrow> string \<Rightarrow> string \<Rightarrow> signature_file" where
  "signature_for en private_key public_key msg =
     \<lparr>sf_schema_version = release_signature_schema, sf_algorithm = ''ed25519'',
      sf_signed_entry = ''manifest.json'', sf_public_key_sha256 = re_sha en public_key,
      sf_signature = base64_encode (re_sign en private_key msg)\<rparr>"

definition signature_text :: "signature_file \<Rightarrow> string" where
  "signature_text s = json_indent 0 (signature_file_json s) @ [CHR 0x0A]"

text \<open>
  A verifier without a key, or with the public half of the key the release was signed with, which
  is still on file.
\<close>

definition key_matches :: "release_env \<Rightarrow> release_options \<Rightarrow> release_verify_options \<Rightarrow> fs \<Rightarrow> bool" where
  "key_matches en opts v fs \<longleftrightarrow> trim_space (rvo_public_key_path v) = [] \<or>
     trim_space (ro_sign_key_path opts) \<noteq> [] \<and>
     abs_path (re_cwd en) (ro_sign_key_path opts) \<noteq> release_file en (release_dir opts) ''release-signature.json'' \<and>
     (\<exists>private_key public_key.
        read_private_key en (ro_sign_key_path opts) fs = (Inr (private_key, public_key), fs) \<and>
        read_public_key en fs (rvo_public_key_path v) = Inr public_key \<and>
        (\<forall>msg. re_verify en public_key msg (re_sign en private_key msg) \<and>
           (let s = signature_for en private_key public_key msg
            in re_decode_signature en (signature_text s) = Inr s)))"

lemma read_private_key_same:
  assumes "fs (abs_path (re_cwd en) p) = fs' (abs_path (re_cwd en) p)"
    and "read_private_key en p fs = (Inr k, fs)" and "read_private_key en p fs' = (Inr k', fs')"
  shows "k = k'"
  using assms by (auto simp: read_private_key_def io_bind_Inr)

lemma signed_release_opens:
  assumes sign: "sign_release en opts dir (path_join [dir, ''manifest.json'']) fsc = (Inr sig, fs')"
    and dir: "dir = release_dir opts" and key: "trim_space (rvo_public_key_path v) \<noteq> []" "key_matches en opts v fs'"
    and on_disk: "fsc (release_file en dir ''manifest.json'') = Some (File bytes)"
  shows "\<exists>k. verify_release_signature en fs' (path_join [dir, ''release-signature.json'']) bytes
    (rvo_public_key_path v) = Inr k"
proof -
  let ?sig = "release_file en dir ''release-signature.json''"
  from key obtain priv pub where path: "trim_space (ro_sign_key_path opts) \<noteq> []"
    and other: "abs_path (re_cwd en) (ro_sign_key_path opts) \<noteq> ?sig"
    and now: "read_private_key en (ro_sign_key_path opts) fs' = (Inr (priv, pub), fs')"
    and opens: "read_public_key en fs' (rvo_public_key_path v) = Inr pub"
    and verifies: "\<And>msg. re_verify en pub msg (re_sign en priv msg)"
    and decodes: "\<And>msg. re_decode_signature en (signature_text (signature_for en priv pub msg)) =
      Inr (signature_for en priv pub msg)"
    by (auto simp: key_matches_def dir Let_def)
  let ?text = "\<lambda>priv pub. signature_text (signature_for en priv pub bytes)"
  from sign path on_disk obtain k where
    "read_private_key en (ro_sign_key_path opts) fsc = (Inr k, fsc)"
    and "re_schema_bytes en release_signature_schema (?text (fst k) (snd k)) = None"
    and fs': "fs' = fsc(?sig \<mapsto> File (?text (fst k) (snd k)))"
    by (auto simp: sign_release_def sign_release_manifest_def io_bind_Inr io_write_Inr release_file_def
        Let_def public_key_fingerprint_def read_private_key_def signature_text_def signature_for_def)
  moreover have "k = (priv, pub)"
    using read_private_key_same [OF _ calculation(1) now] other fs' by simp
  ultimately have accepted: "re_schema_bytes en release_signature_schema (?text priv pub) = None"
    and sig_file: "fs' ?sig = Some (File (?text priv pub))" by simp_all
  with opens verifies decodes [of bytes] show ?thesis
    by (simp add: verify_release_signature_def check_signature_def public_key_fingerprint_def
        release_file_def read_at_def os_read_file_def signature_for_def)
qed

text \<open>
  The version, commit and date that are linked into the binaries, and the law of the readers of
  binary metadata: a binary at its place in the release, asked for its version, answers with these,
  and with the platform it was built for. The host reader is only asked about binaries of the host.
\<close>

definition linked_version :: "release_env \<Rightarrow> release_options \<Rightarrow> string \<times> string \<times> string" where
  "linked_version en opts =
     (release_default (ro_version opts) (bv_version (re_build_vars en)),
      release_default (ro_commit opts) (bv_commit (re_build_vars en)),
      release_default (ro_date opts) (bv_date (re_build_vars en)))"

definition answers_for :: "release_env \<Rightarrow> release_options \<Rightarrow> (string \<Rightarrow> build_info go_result) \<Rightarrow> release_artifact \<Rightarrow> bool" where
  "answers_for en opts reader a \<longleftrightarrow>
     (\<exists>info. reader (path_join [release_dir opts, rf_name a]) = Inr info \<and>
        (bi_version info, bi_commit info, bi_date info) = linked_version en opts \<and>
        bi_os info = rt_os (rf_target a) \<and> bi_arch info = rt_arch (rf_target a))"

definition binaries_answer :: "release_env \<Rightarrow> release_options \<Rightarrow> release_verify_options \<Rightarrow> release_artifact list \<Rightarrow> bool" where
  "binaries_answer en opts v as \<longleftrightarrow>
     (\<forall>reader. rvo_metadata v = Some reader \<longrightarrow> list_all (answers_for en opts reader) as) \<and>
     (\<forall>reader. rvo_host_metadata v = Some reader \<longrightarrow>
        list_all (answers_for en opts reader) (filter (\<lambda>a. is_host_target en (rf_target a)) as))"

lemma packaged_version:
  assumes "release_package en opts fs = (Inr res, fs')"
  shows "(rm_version (rr_manifest res), rm_commit (rr_manifest res), rm_date (rr_manifest res)) = linked_version en opts"
  using assms
  by (auto simp: release_package_def package_files_def package_contents_def Let_def io_bind_Inr linked_version_def)

lemma answer_reported:
  assumes "answers_for en opts reader a"
    and "(rm_version m, rm_commit m, rm_date m) = linked_version en opts"
  shows "reported_metadata_ok (Some reader) a m (path_join [release_dir opts, rf_name a]) check_target"
proof -
  from assms(1) obtain info where info: "reader (path_join [release_dir opts, rf_name a]) = Inr info"
    "bi_os info = rt_os (rf_target a)" "bi_arch info = rt_arch (rf_target a)"
    and "(bi_version info, bi_commit info, bi_date info) = linked_version en opts"
    by (auto simp: answers_for_def)
  then have "(bi_version info, bi_commit info, bi_date info) = (rm_version m, rm_commit m, rm_date m)" by (simp only: assms(2))
  with info show ?thesis by (simp add: reported_metadata_ok_def)
qed

lemma binaries_answer_reported:
  assumes "binaries_answer en opts v as" and "a \<in> set as"
    and "(rm_version m, rm_commit m, rm_date m) = linked_version en opts"
  shows "reported_metadata_ok (rvo_metadata v) a m (path_join [release_dir opts, rf_name a]) False"
    and "is_host_target en (rf_target a) \<Longrightarrow>
      reported_metadata_ok (rvo_host_metadata v) a m (path_join [release_dir opts, rf_name a]) True"
proof -
  have none: "reported_metadata_ok None a m p b" for p b by (simp add: reported_metadata_ok_def)
  show "reported_metadata_ok (rvo_metadata v) a m (path_join [release_dir opts, rf_name a]) False"
    using assms answer_reported none unfolding binaries_answer_def list_all_iff
    by (cases "rvo_metadata v") auto
  show "is_host_target en (rf_target a) \<Longrightarrow>
      reported_metadata_ok (rvo_host_metadata v) a m (path_join [release_dir opts, rf_name a]) True"
    using assms answer_reported none unfolding binaries_answer_def list_all_iff
    by (cases "rvo_host_metadata v") auto
qed

lemma packaged_release_intact:
  assumes run: "release_package en opts fs = (Inr res, fs')"
    and laws: "release_laws en" and conf: "confined en (builder en opts)"
    and readable: "manifest_readable en (rr_manifest res)"
    and names: "list_all (\<lambda>e. plain_elem (fst e) \<and> plain_word (fst e) \<and> fst e \<notin> set reserved_names)
      (release_entries (rr_artifacts res) (rm_supplemental (rr_manifest res)))"
    and same_dir: "release_default (rvo_dir v) ''dist'' = release_dir opts"
    and answer: "binaries_answer en opts v (rr_artifacts res)"
    and key: "key_matches en opts v fs'"
  shows "\<exists>sums. release_loads en v fs' (manifest_text (rr_manifest res)) (rr_manifest res) sums \<and>
    release_intact en v fs' (release_dir opts) (manifest_text (rr_manifest res)) sums (rr_manifest res)"
proof -
  let ?dir = "release_dir opts" and ?m = "rr_manifest res"
  let ?es = "release_entries (rr_artifacts res) (rm_supplemental ?m)"
  let ?sums = "foldl record_entry [] ?es"
  from laws have abs: "is_abs (re_cwd en)" by (simp add: release_laws_def)
  have dir: "?dir \<noteq> []" unfolding release_dir_def by (rule release_default_not_Nil) simp
  let ?manifest = "release_file en ?dir ''manifest.json''" and ?list = "release_file en ?dir ''SHA256SUMS''"
    and ?sig = "release_file en ?dir ''release-signature.json''"
  obtain files occupied fs1 sig where
    packed: "well_packed en ?dir (rr_artifacts res) (rm_supplemental ?m) occupied files"
    and m: "rm_artifacts ?m = rr_artifacts res"
    and kept: "\<And>q s. files q = Some (File s) \<Longrightarrow> fs1 q = Some (File s)"
    and signed: "sign_release en opts ?dir (path_join [?dir, ''manifest.json''])
       (fs1(?manifest \<mapsto> File (manifest_text ?m),
            ?list \<mapsto> File (checksums_text (rr_artifacts res) (rm_supplemental ?m)))) = (Inr sig, fs')"
    by (rule release_package_stages [OF run abs conf]) (rule that)
  let ?fsc = "fs1(?manifest \<mapsto> File (manifest_text ?m),
            ?list \<mapsto> File (checksums_text (rr_artifacts res) (rm_supplemental ?m)))"
  have plain: "plain_names ?es" using names by (auto simp: plain_names_def list_all_iff)
  have differ: "release_file en ?dir a = release_file en ?dir b \<longleftrightarrow> a = b" if "plain_elem a" "plain_elem b" for a b
    using location_inject [OF abs dir that] by (auto simp: release_file_def)
  have apart: "?manifest \<noteq> ?list" "?manifest \<noteq> ?sig" "?list \<noteq> ?sig"
    by (simp_all add: differ reserved_plain reserved_names_def)
  have fs': "fs' = ?fsc \<or> (\<exists>s. fs' = ?fsc(?sig \<mapsto> File s))"
    using signed
    by (auto simp: sign_release_def io_bind_Inr io_write_Inr release_file_def Let_def
        sign_release_manifest_def read_private_key_def split: if_splits)
  have at_manifest: "fs' ?manifest = Some (File (manifest_text ?m))"
    and at_list: "fs' ?list = Some (File (checksums_text (rr_artifacts res) (rm_supplemental ?m)))"
    using fs' apart by auto
  have "stored en ?dir fs1 ?es"
    using packed plain by (intro stored_mono [OF _ kept]) (auto simp: well_packed_def)
  moreover have "fs' (release_file en ?dir (fst e)) = fs1 (release_file en ?dir (fst e))" if "e \<in> set ?es" for e
  proof -
    from names that have e: "plain_elem (fst e)" "fst e \<notin> set reserved_names" by (auto simp: list_all_iff)
    have "release_file en ?dir (fst e) \<noteq> release_file en ?dir n" if n: "n \<in> set reserved_names" for n
      unfolding differ [OF e(1) reserved_plain [OF n]] using e(2) n by metis
    then have "release_file en ?dir (fst e) \<noteq> ?manifest" "release_file en ?dir (fst e) \<noteq> ?list"
      "release_file en ?dir (fst e) \<noteq> ?sig" by (simp_all add: reserved_names_def)
    note off = this [THEN fun_upd_other]
    from fs' show ?thesis by (elim disjE exE) (simp_all only: off)
  qed
  ultimately have files: "stored en ?dir fs' ?es" by (simp add: stored_def)
  have "list_all listable ?es"
    using names files laws by (auto simp: list_all_iff listable_def stored_def release_laws_def dest!: bspec)
  then have sums: "read_checksums en fs' (path_join [?dir, ''SHA256SUMS'']) = Inr ?sums"
    using at_list by (simp add: read_checksums_def read_at_def os_read_file_def release_file_def parse_checksums_text)
  have load: "load_manifest en fs' (path_join [?dir, ''manifest.json'']) = Inr (manifest_text ?m, ?m)"
    using at_manifest readable
    by (simp add: load_manifest_def read_at_def os_read_file_def release_file_def manifest_readable_def)
  have intact: "file_intact en fs' ?dir ?sums n name d z" if "(n, d, z) \<in> set ?es" for n name d z
  proof -
    from that names have n: "plain_elem n" "plain_word n" by (auto simp: list_all_iff)
    from that files obtain s where s: "fs' (release_file en ?dir n) = Some (File s)" "d = re_sha en s" "z = int (length s)"
      by (auto simp: stored_def)
    have "\<forall>e \<in> set ?es. fst e = n \<longrightarrow> fst (snd e) = d"
      using stored_functional [OF files _ that] by auto
    moreover from that have "n \<in> fst ` set ?es" by force
    ultimately have "map_of ?sums n = Some d" by (intro recorded_digest) simp_all
    moreover from n(1) have "\<not> is_abs n" "\<not> leaves_release n"
      by (auto simp: plain_elem_def is_abs_def leaves_release_def plain_elem_clean [OF n(1)] prefix_def split: list.splits)
    moreover have "trim_space n \<noteq> []" using n(2) by (simp add: plain_word_def)
    ultimately show ?thesis using s
      by (simp add: file_intact_def release_file_digest_def lookup_checksum_def plain_elem_clean [OF n(1)]
          release_file_def read_at_def os_read_file_def)
  qed
  have "release_intact en v fs' ?dir (manifest_text ?m) ?sums ?m"
    unfolding release_intact_def
  proof (intro conjI impI)
    assume "trim_space (rvo_public_key_path v) \<noteq> []"
    then show "\<exists>k. verify_release_signature en fs' (path_join [?dir, ''release-signature.json'']) (manifest_text ?m)
        (rvo_public_key_path v) = Inr k"
      by (intro signed_release_opens [OF signed refl _ key]) (simp_all add: apart)
  next
    show "distinct (map rf_name (rm_artifacts ?m))" using packed m by (simp add: well_packed_def)
  next
    show "list_all (artifact_intact en v fs' ?dir ?sums ?m) (rm_artifacts ?m)"
      unfolding list_all_iff
    proof
      fix a assume a: "a \<in> set (rm_artifacts ?m)"
      with m have sub: "set (artifact_entries a) \<subseteq> set ?es" by (auto simp: set_release_entries)
      have p: "rf_path a = rf_name a" using a m packed by (simp add: well_packed_def)
      have "file_intact en fs' ?dir ?sums (rf_path a) (rf_name a) (rf_sha256 a) (rf_size_bytes a)"
        unfolding p by (rule intact) (use sub in \<open>auto simp: artifact_entries_def\<close>)
      moreover have "attestation_intact en fs' ?dir ?sums t" if "t \<in> set (rf_attestations a)" for t
        by (rule intact) (use sub that in \<open>auto simp: artifact_entries_def\<close>)
      moreover have "path_clean (rf_name a) = rf_name a"
      proof (rule plain_elem_clean)
        have "(rf_name a, rf_sha256 a, rf_size_bytes a) \<in> set ?es" using sub by (auto simp: artifact_entries_def)
        with names show "plain_elem (rf_name a)" by (auto simp: list_all_iff)
      qed
      ultimately show "artifact_intact en v fs' ?dir ?sums ?m a"
        using binaries_answer_reported [OF answer _ packaged_version [OF run], of a] a
        by (simp add: artifact_intact_def list_all_iff p m)
    qed
  next
    show "list_all (supplemental_intact en fs' ?dir ?sums) (rm_supplemental ?m)"
      unfolding list_all_iff
      by (intro ballI intact) (auto simp: set_release_entries supplemental_entry_def)
  next
    have "fst ` set ?es \<subseteq> manifest_names ?m"
      using m by (auto simp: set_release_entries artifact_entries_def supplemental_entry_def manifest_names_def)
    then show "fst ` set ?sums \<subseteq> manifest_names ?m" unfolding recorded_keys by simp
  qed
  with sums load show ?thesis by (auto simp: release_loads_def same_dir)
qed

end
