(* ===== verification/Schema_Report.thy ===== *)
theory Schema_Report
  imports Go_Strings
begin

text \<open>
  The reports of \<open>internal/schema/schema.go\<close>: the SARIF log that schema validation, release
  inspection and release comparison share, its baseline of accepted findings, and the JUnit report.
  Wrapper structs with a single field (a message, a location) are the value they hold.
\<close>

subsection \<open>SARIF\<close>

record report_baseline_entry =
  be_rule_id :: string
  be_source_uri :: string
  be_field :: string
  be_justification :: string

record report_baseline =
  rb_accepted :: "report_baseline_entry list"

record report_rule =
  rl_id :: string
  rl_short_description :: string
  rl_help :: string

record report_suppression =
  sup_kind :: string
  sup_justification :: string

record report_properties =
  pr_schema_id :: string
  pr_location :: string
  pr_component :: string
  pr_kind :: string
  pr_name :: string
  pr_release_dir :: string
  pr_artifact_name :: string

definition no_properties :: report_properties where
  "no_properties = \<lparr>pr_schema_id = [], pr_location = [], pr_component = [], pr_kind = [],
     pr_name = [], pr_release_dir = [], pr_artifact_name = []\<rparr>"

text \<open>A location is its URI.\<close>

record report_result =
  rs_rule_id :: string
  rs_level :: string
  rs_message :: string
  rs_locations :: "string list"
  rs_suppressions :: "report_suppression list"
  rs_properties :: report_properties

record report_driver =
  dr_name :: string
  dr_information_uri :: string
  dr_rules :: "report_rule list"

record report_run =
  run_driver :: report_driver
  run_results :: "report_result list"

record report_log =
  log_schema :: string
  log_version :: string
  log_runs :: "report_run list"

text \<open>A log of one run, as every caller builds it.\<close>

definition one_run_log :: "string \<Rightarrow> report_rule list \<Rightarrow> report_result list \<Rightarrow> report_log" where
  "one_run_log name rules results =
     \<lparr>log_schema = ''https://json.schemastore.org/sarif-2.1.0.json'', log_version = ''2.1.0'',
      log_runs = [\<lparr>run_driver = \<lparr>dr_name = name,
          dr_information_uri = ''https://github.com/uesugitorachiyo/ao-covenant'', dr_rules = rules\<rparr>,
        run_results = results\<rparr>]\<rparr>"

text \<open>The first accepted entry for a rule whose file and field, where given, are those of a finding.\<close>

definition entry_accepts :: "string \<Rightarrow> string \<Rightarrow> string \<Rightarrow> report_baseline_entry \<Rightarrow> bool" where
  "entry_accepts rule uri fld e \<longleftrightarrow>
     be_rule_id e = rule \<and> (be_source_uri e \<noteq> [] \<longrightarrow> be_source_uri e = uri) \<and>
     (be_field e \<noteq> [] \<longrightarrow> be_field e = fld)"

subsection \<open>Schema validation\<close>

record validation_report =
  vr_schema_id :: string
  vr_file :: string
  vr_valid :: bool
  vr_error :: string
  vr_location :: string

definition validation_rule :: string where
  "validation_rule = ''SCHEMA_VALIDATION_FAILED''"

definition matching_validation_entry :: "validation_report \<Rightarrow> report_baseline \<Rightarrow> report_baseline_entry option" where
  "matching_validation_entry r b = find (entry_accepts validation_rule (vr_file r) (vr_location r)) (rb_accepted b)"

definition validation_suppressions :: "validation_report \<Rightarrow> report_baseline \<Rightarrow> report_suppression list" where
  "validation_suppressions r b = (case matching_validation_entry r b of
      None \<Rightarrow> []
    | Some e \<Rightarrow> [\<lparr>sup_kind = ''external'', sup_justification = be_justification e\<rparr>])"

definition validation_result :: "report_baseline \<Rightarrow> validation_report \<Rightarrow> report_result" where
  "validation_result b r =
     \<lparr>rs_rule_id = validation_rule, rs_level = ''error'', rs_message = vr_error r,
      rs_locations = (if trim_space (vr_file r) \<noteq> [] then [vr_file r] else []),
      rs_suppressions = validation_suppressions r b,
      rs_properties = no_properties\<lparr>pr_schema_id := vr_schema_id r, pr_location := vr_location r\<rparr>\<rparr>"

definition validation_sarif_with_options :: "validation_report list \<Rightarrow> report_baseline \<Rightarrow> report_log" where
  "validation_sarif_with_options reports b =
     (let results = map (validation_result b) (filter (\<lambda>r. \<not> vr_valid r) reports)
      in one_run_log ''AO Covenant Schema Validator''
           (if results \<noteq> [] then [\<lparr>rl_id = validation_rule, rl_short_description = ''Schema validation failed'',
              rl_help = ''Validate the JSON document against its AO Covenant public schema.''\<rparr>] else [])
           results)"

definition validation_sarif :: "validation_report list \<Rightarrow> report_log" where
  "validation_sarif reports = validation_sarif_with_options reports \<lparr>rb_accepted = []\<rparr>"

text \<open>The loop of \<open>ValidationSARIFReportsAllSuppressed\<close>, with its flag.\<close>

fun all_suppressed_from :: "bool \<Rightarrow> report_baseline \<Rightarrow> validation_report list \<Rightarrow> bool" where
  "all_suppressed_from has_invalid b [] = has_invalid"
| "all_suppressed_from has_invalid b (r # rs) =
     (if vr_valid r then all_suppressed_from has_invalid b rs
      else if validation_suppressions r b = [] then False
      else all_suppressed_from True b rs)"

definition validation_reports_all_suppressed :: "validation_report list \<Rightarrow> report_baseline \<Rightarrow> bool" where
  "validation_reports_all_suppressed reports b = all_suppressed_from False b reports"

text \<open>\<open>sarifResultsAllSuppressed\<close> of the command line, on a finished log.\<close>

definition sarif_results_all_suppressed :: "report_log \<Rightarrow> bool" where
  "sarif_results_all_suppressed log \<longleftrightarrow>
     list_all (\<lambda>run. list_all (\<lambda>r. rs_suppressions r \<noteq> []) (run_results run)) (log_runs log) \<and>
     0 < sum_list (map (\<lambda>run. length (run_results run)) (log_runs log))"

lemma all_suppressed_from_iff:
  "all_suppressed_from h b rs \<longleftrightarrow>
     (\<forall>r \<in> set rs. \<not> vr_valid r \<longrightarrow> validation_suppressions r b \<noteq> []) \<and> (h \<or> (\<exists>r \<in> set rs. \<not> vr_valid r))"
  by (induction h b rs rule: all_suppressed_from.induct) auto

text \<open>
  The exit status of a validation with a baseline agrees with its log: everything is suppressed
  exactly when the log has results and each carries a suppression.
\<close>

lemma all_suppressed_iff_log:
  "validation_reports_all_suppressed reports b \<longleftrightarrow>
     sarif_results_all_suppressed (validation_sarif_with_options reports b)"
  by (auto simp: validation_reports_all_suppressed_def all_suppressed_from_iff one_run_log_def
      sarif_results_all_suppressed_def validation_sarif_with_options_def validation_result_def
      list_all_iff filter_empty_conv Let_def)

subsection \<open>JUnit\<close>

record junit_failure =
  jf_message :: string
  jf_text :: string

record junit_case =
  jc_class_name :: string
  jc_name :: string
  jc_failure :: "junit_failure option"

record junit_suite =
  js_name :: string
  js_tests :: nat
  js_failures :: nat
  js_cases :: "junit_case list"

record junit_suites =
  jx_tests :: nat
  jx_failures :: nat
  jx_suites :: "junit_suite list"

definition junit_case_of :: "validation_report \<Rightarrow> junit_case" where
  "junit_case_of r =
     \<lparr>jc_class_name = vr_schema_id r,
      jc_name = (let name = trim_space (vr_file r) in if name = [] then vr_schema_id r else name),
      jc_failure = (if vr_valid r then None
        else Some \<lparr>jf_message = ''schema validation failed'',
          jf_text = (if vr_location r \<noteq> [] then ''location='' @ vr_location r @ '' '' @ vr_error r else vr_error r)\<rparr>)\<rparr>"

definition validation_junit :: "validation_report list \<Rightarrow> string \<Rightarrow> junit_suites" where
  "validation_junit reports suite_name =
     (let name = (if trim_space suite_name = [] then ''AO Covenant schema validation'' else trim_space suite_name);
          cases = map junit_case_of reports;
          failures = length (filter (\<lambda>r. \<not> vr_valid r) reports)
      in \<lparr>jx_tests = length cases, jx_failures = failures,
          jx_suites = [\<lparr>js_name = name, js_tests = length cases, js_failures = failures, js_cases = cases\<rparr>]\<rparr>)"

text \<open>The counters of the JUnit report are those of its cases.\<close>

lemma junit_counts:
  "jx_failures (validation_junit reports name) =
     length (filter (\<lambda>c. jc_failure c \<noteq> None) (js_cases (hd (jx_suites (validation_junit reports name)))))"
  by (simp add: validation_junit_def junit_case_of_def filter_map comp_def Let_def)

end
