(* ===== verification/Release_Report.thy ===== *)
theory Release_Report
  imports Release_Verify Schema_Report
begin

text \<open>
  \<open>internal/release/publication_report.go\<close>: inspection, redacted report, comparison of two releases
  and their SARIF logs. The code redacts an inspection by overwriting its slices in place; every
  caller goes on with the returned value, which is what the model returns.
\<close>

definition redacted_path :: string where "redacted_path = ''[REDACTED_PATH]''"

definition redacted_digest :: string where "redacted_digest = replicate 64 (CHR ''0'')"

subsection \<open>Data\<close>

record signature_inspection =
  si_status :: string
  si_algorithm :: string
  si_signed_entry :: string
  si_public_key_sha256 :: string
  si_problem :: string

record release_inspection =
  in_schema_version :: string
  in_release_dir :: string
  in_manifest_path :: string
  in_checksums_path :: string
  in_signature_path :: string
  in_manifest_valid :: bool
  in_checksum_status :: string
  in_signature :: signature_inspection
  in_artifact_count :: nat
  in_artifacts :: "artifact_report list"
  in_supplemental :: "supplemental_report list"
  in_problems :: "string list"

record release_inspect_options =
  rio_dir :: string
  rio_public_key_path :: string
  rio_metadata :: metadata_func

record redaction_options =
  rd_paths :: bool
  rd_digests :: bool
  rd_profile :: string

record release_report_options =
  rpo_dir :: string
  rpo_public_key_path :: string
  rpo_audience :: string
  rpo_redaction :: redaction_options

record provenance_summary =
  ps_signature_status :: string
  ps_attestation_verified :: nat
  ps_attestation_invalid :: nat
  ps_sbom_verified :: nat
  ps_sbom_invalid :: nat
  ps_provenance_verified :: nat
  ps_provenance_invalid :: nat
  ps_invalid_evidence :: nat

record release_report =
  rpt_schema_version :: string
  rpt_valid :: bool
  rpt_format :: string
  rpt_audience :: string
  rpt_redacted :: bool
  rpt_redactions :: "string list"
  rpt_redaction_profile :: string
  rpt_provenance_summary :: provenance_summary
  rpt_inspection :: release_inspection

record release_diff_options =
  do_from_dir :: string
  do_to_dir :: string
  do_redaction :: redaction_options
  do_from_public_key_path :: string
  do_to_public_key_path :: string

record diff_entry =
  de_category :: string
  de_action :: string
  de_name :: string
  de_detail :: string

record diff_report =
  df_schema_version :: string
  df_from_dir :: string
  df_to_dir :: string
  df_changed :: bool
  df_redacted :: bool
  df_redactions :: "string list"
  df_redaction_profile :: string
  df_entries :: "diff_entry list"

subsection \<open>Inspection\<close>

definition unsigned_inspection :: "string \<Rightarrow> string \<Rightarrow> signature_inspection" where
  "unsigned_inspection status problem =
     \<lparr>si_status = status, si_algorithm = [], si_signed_entry = [], si_public_key_sha256 = [], si_problem = problem\<rparr>"

definition inspect_release_signature :: "release_env \<Rightarrow> fs \<Rightarrow> string \<Rightarrow> string \<Rightarrow> string \<Rightarrow> signature_inspection" where
  "inspect_release_signature en fs signature_path public_key_path fingerprint =
     (case read_at (re_cwd en) fs signature_path of
        Inl e \<Rightarrow> if trim_space public_key_path = [] then unsigned_inspection ''unsigned'' []
                 else unsigned_inspection ''invalid'' (error_text e)
      | Inr bytes \<Rightarrow> (case re_decode_signature en bytes of
          Inl e \<Rightarrow> unsigned_inspection ''invalid'' (error_text e)
        | Inr s \<Rightarrow>
            \<lparr>si_status = (if trim_space public_key_path \<noteq> []
                then (if fingerprint \<noteq> [] then ''verified'' else ''invalid'') else ''present_unverified''),
             si_algorithm = sf_algorithm s, si_signed_entry = sf_signed_entry s,
             si_public_key_sha256 = sf_public_key_sha256 s, si_problem = []\<rparr>))"

definition non_empty_file_path :: "release_env \<Rightarrow> fs \<Rightarrow> string \<Rightarrow> string" where
  "non_empty_file_path en fs p = (if fs (abs_path (re_cwd en) p) \<noteq> None then p else [])"

definition checksum_status :: "bool \<Rightarrow> string" where
  "checksum_status verified = (if verified then ''verified'' else ''invalid'')"

definition release_inspect :: "release_env \<Rightarrow> release_inspect_options \<Rightarrow> fs \<Rightarrow> release_inspection go_result" where
  "release_inspect en opts fs =
     (let dir = release_default (rio_dir opts) ''dist'' in
      bind_result (release_verify en \<lparr>rvo_dir = dir, rvo_public_key_path = rio_public_key_path opts,
          rvo_metadata = rio_metadata opts, rvo_host_metadata = None\<rparr> fs) (\<lambda>r.
        Inr \<lparr>in_schema_version = ''covenant.release-inspect-result.v1'', in_release_dir = dir,
          in_manifest_path = rv_manifest_path r, in_checksums_path = rv_checksums_path r,
          in_signature_path = non_empty_file_path en fs (rv_signature_path r), in_manifest_valid = True,
          in_checksum_status = checksum_status (rv_verified r),
          in_signature = inspect_release_signature en fs (rv_signature_path r) (rio_public_key_path opts)
            (rv_public_key_sha256 r),
          in_artifact_count = rv_artifact_count r, in_artifacts = rv_artifacts r,
          in_supplemental = rv_supplemental r, in_problems = rv_problems r\<rparr>))"

subsection \<open>Summary\<close>

definition count_attestation :: "provenance_summary \<Rightarrow> attestation_report \<Rightarrow> provenance_summary" where
  "count_attestation s a =
     (if ar_verified a then s\<lparr>ps_attestation_verified := ps_attestation_verified s + 1\<rparr>
      else s\<lparr>ps_attestation_invalid := ps_attestation_invalid s + 1,
             ps_invalid_evidence := ps_invalid_evidence s + 1\<rparr>)"

definition count_supplemental :: "provenance_summary \<Rightarrow> supplemental_report \<Rightarrow> provenance_summary" where
  "count_supplemental s r =
     (if sr_kind r = ''sbom'' then
        (if sr_verified r then s\<lparr>ps_sbom_verified := ps_sbom_verified s + 1\<rparr>
         else s\<lparr>ps_sbom_invalid := ps_sbom_invalid s + 1, ps_invalid_evidence := ps_invalid_evidence s + 1\<rparr>)
      else if sr_kind r = ''provenance'' then
        (if sr_verified r then s\<lparr>ps_provenance_verified := ps_provenance_verified s + 1\<rparr>
         else s\<lparr>ps_provenance_invalid := ps_provenance_invalid s + 1, ps_invalid_evidence := ps_invalid_evidence s + 1\<rparr>)
      else s)"

definition summarize_provenance :: "release_inspection \<Rightarrow> provenance_summary" where
  "summarize_provenance i =
     (let status = si_status (in_signature i);
          s0 = \<lparr>ps_signature_status = (if status = [] then ''unsigned'' else status),
            ps_attestation_verified = 0, ps_attestation_invalid = 0, ps_sbom_verified = 0, ps_sbom_invalid = 0,
            ps_provenance_verified = 0, ps_provenance_invalid = 0, ps_invalid_evidence = 0\<rparr>;
          s1 = foldl (\<lambda>s a. foldl count_attestation s (fr_attestations a)) s0 (in_artifacts i);
          s2 = foldl count_supplemental s1 (in_supplemental i)
      in if status = ''invalid'' then s2\<lparr>ps_invalid_evidence := ps_invalid_evidence s2 + 1\<rparr> else s2)"

subsection \<open>Redaction\<close>

definition is_lower_hex :: "string \<Rightarrow> bool" where
  "is_lower_hex s \<longleftrightarrow> list_all is_hex_lower s"

text \<open>The punctuation trimmed from a word.\<close>

definition digest_punctuation :: string where
  "digest_punctuation = [CHR 0x22, CHR 0x27] @ ''.,:;()[]''"

definition digest_word :: "string \<Rightarrow> string option" where
  "digest_word w = (let candidate = trim_set digest_punctuation w in
     if length candidate = 64 \<and> is_lower_hex candidate then Some candidate else None)"

definition redact_problem_digest :: "string \<Rightarrow> string" where
  "redact_problem_digest problem =
     foldl (\<lambda>p w. case digest_word w of Some d \<Rightarrow> replace_all d ''[REDACTED_DIGEST]'' p | None \<Rightarrow> p)
       problem (words_of problem)"

definition redact_problem_digests :: "string list \<Rightarrow> string list" where
  "redact_problem_digests = map redact_problem_digest"

definition redact_problem_paths :: "string list \<Rightarrow> string list" where
  "redact_problem_paths = map (replace_byte backslash slash)"

definition redact_problem :: "redaction_options \<Rightarrow> string \<Rightarrow> string" where
  "redact_problem opts problem =
     (let p = (if rd_digests opts then redact_problem_digest problem else problem)
      in if rd_paths opts then replace_byte backslash slash p else p)"

definition redaction_names :: "redaction_options \<Rightarrow> string list" where
  "redaction_names opts = (if rd_paths opts then [''paths''] else []) @ (if rd_digests opts then [''digests''] else [])"

definition redact_attestation :: "redaction_options \<Rightarrow> attestation_report \<Rightarrow> attestation_report" where
  "redact_attestation opts a =
     (let a1 = (if rd_paths opts then a\<lparr>ar_path := redacted_path\<rparr> else a)
      in if rd_digests opts then a1\<lparr>ar_sha256 := redacted_digest, ar_actual_sha256 := redacted_digest\<rparr> else a1)"

definition redact_artifact :: "redaction_options \<Rightarrow> artifact_report \<Rightarrow> artifact_report" where
  "redact_artifact opts a =
     (let a1 = (if rd_paths opts then a\<lparr>fr_path := redacted_path\<rparr> else a);
          a2 = (if rd_digests opts then a1\<lparr>fr_sha256 := redacted_digest, fr_actual_sha256 := redacted_digest\<rparr> else a1)
      in a2\<lparr>fr_attestations := map (redact_attestation opts) (fr_attestations a2)\<rparr>)"

definition redact_supplemental :: "redaction_options \<Rightarrow> supplemental_report \<Rightarrow> supplemental_report" where
  "redact_supplemental opts s =
     (let s1 = (if rd_paths opts then s\<lparr>sr_path := redacted_path\<rparr> else s)
      in if rd_digests opts then s1\<lparr>sr_sha256 := redacted_digest, sr_actual_sha256 := redacted_digest\<rparr> else s1)"

definition redact_inspect :: "release_inspection \<Rightarrow> redaction_options \<Rightarrow> release_inspection" where
  "redact_inspect i opts =
     (let i1 = (if rd_paths opts
            then i\<lparr>in_release_dir := redacted_path, in_manifest_path := redacted_path,
              in_checksums_path := redacted_path,
              in_signature_path := (if in_signature_path i \<noteq> [] then redacted_path else [])\<rparr>
            else i);
          i2 = (if rd_digests opts
            then i1\<lparr>in_signature := (in_signature i1)\<lparr>si_public_key_sha256 := redacted_digest\<rparr>\<rparr> else i1);
          i3 = i2\<lparr>in_artifacts := map (redact_artifact opts) (in_artifacts i2),
            in_supplemental := map (redact_supplemental opts) (in_supplemental i2)\<rparr>;
          i4 = (if rd_digests opts then i3\<lparr>in_problems := redact_problem_digests (in_problems i3)\<rparr> else i3)
      in if rd_paths opts then i4\<lparr>in_problems := redact_problem_paths (in_problems i4)\<rparr> else i4)"

subsection \<open>Report\<close>

definition release_report_of :: "release_env \<Rightarrow> release_report_options \<Rightarrow> fs \<Rightarrow> release_report go_result" where
  "release_report_of en opts fs =
     (let audience = (if trim_space (rpo_audience opts) = [] then ''internal'' else trim_space (rpo_audience opts));
          redaction = rpo_redaction opts;
          redacted = (rd_paths redaction \<or> rd_digests redaction)
      in bind_result (release_inspect en \<lparr>rio_dir = rpo_dir opts, rio_public_key_path = rpo_public_key_path opts,
            rio_metadata = None\<rparr> fs) (\<lambda>inspected.
         let i = (if redacted then redact_inspect inspected redaction else inspected)
         in Inr \<lparr>rpt_schema_version = ''covenant.release-report-result.v1'',
              rpt_valid = (in_checksum_status i = ''verified'' \<and> si_status (in_signature i) \<noteq> ''invalid'' \<and>
                in_problems i = []),
              rpt_format = ''json'', rpt_audience = audience, rpt_redacted = redacted,
              rpt_redactions = redaction_names redaction, rpt_redaction_profile = rd_profile redaction,
              rpt_provenance_summary = summarize_provenance i, rpt_inspection = i\<rparr>))"

definition redact_report :: "release_report \<Rightarrow> redaction_options \<Rightarrow> release_report" where
  "redact_report r opts =
     r\<lparr>rpt_redacted := (rd_paths opts \<or> rd_digests opts), rpt_redactions := redaction_names opts,
       rpt_redaction_profile := rd_profile opts, rpt_inspection := redact_inspect (rpt_inspection r) opts\<rparr>"

subsection \<open>Comparison\<close>

definition redact_digest_pair :: "string \<Rightarrow> string \<Rightarrow> redaction_options \<Rightarrow> string" where
  "redact_digest_pair a b opts =
     (if rd_digests opts then ''[REDACTED_DIGEST] -> [REDACTED_DIGEST]'' else a @ '' -> '' @ b)"

definition read_manifest_file :: "release_env \<Rightarrow> fs \<Rightarrow> string \<Rightarrow> release_manifest go_result" where
  "read_manifest_file en fs p = bind_result (read_at (re_cwd en) fs p) (re_decode_manifest en)"

text \<open>The maps by name: a later entry of the same name replaces an earlier one.\<close>

definition by_name :: "('a \<Rightarrow> string) \<Rightarrow> 'a list \<Rightarrow> (string \<times> 'a) list" where
  "by_name name xs = foldl (\<lambda>m x. AList.update (name x) x m) [] xs"

text \<open>
  Both comparisons walk over the map of the first release in the order Go iterates over it, then
  over that of the second. \<open>digest\<close> and \<open>detail\<close> read an item.
\<close>

definition compare_items ::
    "release_env \<Rightarrow> string \<Rightarrow> ('a \<Rightarrow> string) \<Rightarrow> ('a \<Rightarrow> string) \<Rightarrow> redaction_options \<Rightarrow>
     (string \<times> 'a) list \<Rightarrow> (string \<times> 'a) list \<Rightarrow> diff_entry list" where
  "compare_items en category digest detail opts old new =
     concat (map (\<lambda>name. case map_of old name of
         None \<Rightarrow> []
       | Some a \<Rightarrow> (case map_of new name of
           None \<Rightarrow> [\<lparr>de_category = category, de_action = ''removed'', de_name = name, de_detail = detail a\<rparr>]
         | Some b \<Rightarrow> if digest a \<noteq> digest b
             then [\<lparr>de_category = category, de_action = ''changed'', de_name = name,
                    de_detail = redact_digest_pair (digest a) (digest b) opts\<rparr>] else []))
       (re_map_order en (map fst old))) @
     concat (map (\<lambda>name. case map_of new name of
         None \<Rightarrow> []
       | Some b \<Rightarrow> if map_of old name = None
           then [\<lparr>de_category = category, de_action = ''added'', de_name = name, de_detail = detail b\<rparr>] else [])
       (re_map_order en (map fst new)))"

definition diff_artifacts ::
    "release_env \<Rightarrow> redaction_options \<Rightarrow> release_artifact list \<Rightarrow> release_artifact list \<Rightarrow> diff_entry list" where
  "diff_artifacts en opts old new =
     compare_items en ''artifacts'' rf_sha256 (\<lambda>a. target_key (rf_target a)) opts (by_name rf_name old) (by_name rf_name new)"

definition diff_supplemental ::
    "release_env \<Rightarrow> redaction_options \<Rightarrow> supplemental list \<Rightarrow> supplemental list \<Rightarrow> diff_entry list" where
  "diff_supplemental en opts old new =
     compare_items en ''supplemental_artifacts'' su_sha256 su_kind opts (by_name su_name old) (by_name su_name new)"

definition diff_entries ::
    "release_env \<Rightarrow> redaction_options \<Rightarrow> release_inspection \<Rightarrow> release_manifest \<Rightarrow> release_inspection \<Rightarrow>
     release_manifest \<Rightarrow> diff_entry list" where
  "diff_entries en opts i m j n =
     (if rm_version m \<noteq> rm_version n
      then [\<lparr>de_category = ''metadata'', de_action = ''changed'', de_name = ''version'',
             de_detail = rm_version m @ '' -> '' @ rm_version n\<rparr>] else []) @
     (if rm_commit m \<noteq> rm_commit n
      then [\<lparr>de_category = ''metadata'', de_action = ''changed'', de_name = ''commit'',
             de_detail = redact_digest_pair (rm_commit m) (rm_commit n) opts\<rparr>] else []) @
     diff_artifacts en opts (rm_artifacts m) (rm_artifacts n) @
     diff_supplemental en opts (rm_supplemental m) (rm_supplemental n) @
     (if si_public_key_sha256 (in_signature i) \<noteq> si_public_key_sha256 (in_signature j)
      then [\<lparr>de_category = ''signatures'', de_action = ''changed'', de_name = ''public_key_sha256'',
             de_detail = redact_digest_pair (si_public_key_sha256 (in_signature i))
               (si_public_key_sha256 (in_signature j)) opts\<rparr>] else []) @
     map (\<lambda>p. \<lparr>de_category = ''problems'', de_action = ''present'', de_name = ''from'',
             de_detail = redact_problem opts p\<rparr>) (in_problems i) @
     map (\<lambda>p. \<lparr>de_category = ''problems'', de_action = ''present'', de_name = ''to'',
             de_detail = redact_problem opts p\<rparr>) (in_problems j)"

definition inspect_for_diff :: "release_env \<Rightarrow> string \<Rightarrow> string \<Rightarrow> string \<Rightarrow> fs \<Rightarrow> release_inspection go_result" where
  "inspect_for_diff en which dir key fs =
     (case release_inspect en \<lparr>rio_dir = dir, rio_public_key_path = key, rio_metadata = None\<rparr> fs of
        Inl e \<Rightarrow> Inl (Errorf (''inspect '' @ which @ '' release: '' @ error_text e)) | Inr i \<Rightarrow> Inr i)"

definition release_diff :: "release_env \<Rightarrow> release_diff_options \<Rightarrow> fs \<Rightarrow> diff_report go_result" where
  "release_diff en opts fs =
     (let redaction = do_redaction opts in
      bind_result (inspect_for_diff en ''from'' (do_from_dir opts) (do_from_public_key_path opts) fs) (\<lambda>i.
      bind_result (inspect_for_diff en ''to'' (do_to_dir opts) (do_to_public_key_path opts) fs) (\<lambda>j.
      bind_result (read_manifest_file en fs (in_manifest_path i)) (\<lambda>m.
      bind_result (read_manifest_file en fs (in_manifest_path j)) (\<lambda>n.
        let entries = diff_entries en redaction i m j n
        in Inr \<lparr>df_schema_version = ''covenant.release-diff-result.v1'',
             df_from_dir = (if rd_paths redaction then redacted_path else do_from_dir opts),
             df_to_dir = (if rd_paths redaction then redacted_path else do_to_dir opts),
             df_changed = (entries \<noteq> []), df_redacted = (rd_paths redaction \<or> rd_digests redaction),
             df_redactions = redaction_names redaction, df_redaction_profile = rd_profile redaction,
             df_entries = entries\<rparr>)))))"

subsection \<open>SARIF\<close>

definition release_rule :: "string \<Rightarrow> string \<Rightarrow> report_rule" where
  "release_rule rule_id text = \<lparr>rl_id = rule_id, rl_short_description = text, rl_help = []\<rparr>"

text \<open>On Unix \<open>filepath.ToSlash\<close> is the identity.\<close>

definition matching_release_baseline :: "string \<Rightarrow> string \<Rightarrow> string \<Rightarrow> report_baseline \<Rightarrow> report_baseline_entry option" where
  "matching_release_baseline rule uri fld b = find (entry_accepts rule uri fld) (rb_accepted b)"

definition release_sarif_result ::
    "string \<Rightarrow> string \<Rightarrow> string \<Rightarrow> report_properties \<Rightarrow> report_baseline \<Rightarrow> string \<Rightarrow> report_result" where
  "release_sarif_result rule message uri properties b fld =
     \<lparr>rs_rule_id = rule, rs_level = ''error'', rs_message = message,
      rs_locations = (if uri \<noteq> [] then [uri] else []),
      rs_suppressions = (case matching_release_baseline rule uri fld b of
          Some e \<Rightarrow> [\<lparr>sup_kind = ''external'', sup_justification = be_justification e\<rparr>] | None \<Rightarrow> []),
      rs_properties = properties\<rparr>"

definition problem_covered :: "release_inspection \<Rightarrow> string \<Rightarrow> bool" where
  "problem_covered i message \<longleftrightarrow>
     list_ex (\<lambda>a. list_ex (\<lambda>p. p = message) (fr_problems a) \<or>
       list_ex (\<lambda>t. list_ex (\<lambda>p. p = message) (ar_problems t)) (fr_attestations a)) (in_artifacts i) \<or>
     list_ex (\<lambda>s. list_ex (\<lambda>p. p = message) (sr_problems s)) (in_supplemental i)"

definition artifact_results :: "release_inspection \<Rightarrow> report_baseline \<Rightarrow> artifact_report \<Rightarrow> report_result list" where
  "artifact_results i b a =
     map (\<lambda>message. let fld = ''artifact:'' @ fr_name a in
        release_sarif_result ''RELEASE_ARTIFACT_PROBLEM'' message (fr_path a)
          (no_properties\<lparr>pr_component := ''artifact'', pr_name := fr_name a, pr_location := fld,
             pr_release_dir := in_release_dir i\<rparr>) b fld) (fr_problems a) @
     concat (map (\<lambda>t. map (\<lambda>message.
        let fld = ''attestation:'' @ fr_name a @ [slash] @ ar_name t in
        release_sarif_result ''RELEASE_ATTESTATION_PROBLEM'' message (ar_path t)
          (no_properties\<lparr>pr_component := ''attestation'', pr_name := ar_name t, pr_artifact_name := fr_name a,
             pr_location := fld, pr_release_dir := in_release_dir i\<rparr>) b fld) (ar_problems t)) (fr_attestations a))"

definition supplemental_results :: "release_inspection \<Rightarrow> report_baseline \<Rightarrow> supplemental_report \<Rightarrow> report_result list" where
  "supplemental_results i b s =
     map (\<lambda>message. let fld = ''supplemental:'' @ sr_kind s @ [slash] @ sr_name s in
        release_sarif_result ''RELEASE_SUPPLEMENTAL_PROBLEM'' message (sr_path s)
          (no_properties\<lparr>pr_component := ''supplemental_artifact'', pr_kind := sr_kind s, pr_name := sr_name s,
             pr_location := fld, pr_release_dir := in_release_dir i\<rparr>) b fld) (sr_problems s)"

definition release_results :: "release_inspection \<Rightarrow> report_baseline \<Rightarrow> report_result list" where
  "release_results i b =
     map (\<lambda>message. release_sarif_result ''RELEASE_PROBLEM'' message (in_checksums_path i)
        (no_properties\<lparr>pr_component := ''release'', pr_location := ''release'', pr_release_dir := in_release_dir i\<rparr>)
        b ''release'')
       (filter (\<lambda>message. \<not> problem_covered i message) (in_problems i))"

definition release_inspect_sarif :: "release_inspection \<Rightarrow> report_baseline \<Rightarrow> report_log" where
  "release_inspect_sarif i b =
     one_run_log ''AO Covenant Release Inspector''
       [release_rule ''RELEASE_ARTIFACT_PROBLEM'' ''Release artifact problem'',
        release_rule ''RELEASE_ATTESTATION_PROBLEM'' ''Release attestation problem'',
        release_rule ''RELEASE_SUPPLEMENTAL_PROBLEM'' ''Release supplemental artifact problem'',
        release_rule ''RELEASE_PROBLEM'' ''Release problem'']
       (concat (map (artifact_results i b) (in_artifacts i)) @
        concat (map (supplemental_results i b) (in_supplemental i)) @ release_results i b)"

definition diff_rule_id :: "string \<Rightarrow> string" where
  "diff_rule_id category =
     (if category = ''metadata'' then ''RELEASE_DIFF_METADATA''
      else if category = ''artifacts'' then ''RELEASE_DIFF_ARTIFACT''
      else if category = ''supplemental_artifacts'' then ''RELEASE_DIFF_SUPPLEMENTAL_ARTIFACT''
      else if category = ''signatures'' then ''RELEASE_DIFF_SIGNATURE''
      else ''RELEASE_DIFF_PROBLEM'')"

definition diff_result :: "diff_report \<Rightarrow> report_baseline \<Rightarrow> diff_entry \<Rightarrow> report_result" where
  "diff_result r b e =
     (let fld = de_category e @ '':'' @ de_name e;
          dir = (if de_category e = ''problems'' \<and> de_name e = ''from'' then df_from_dir r else df_to_dir r)
      in (release_sarif_result (diff_rule_id (de_category e)) (de_detail e) (path_join [dir, ''manifest.json''])
           (no_properties\<lparr>pr_component := de_category e, pr_kind := de_action e, pr_name := de_name e,
              pr_location := fld, pr_release_dir := df_to_dir r\<rparr>) b fld)\<lparr>rs_level := ''warning''\<rparr>)"

definition release_diff_sarif :: "diff_report \<Rightarrow> report_baseline \<Rightarrow> report_log" where
  "release_diff_sarif r b =
     one_run_log ''AO Covenant Release Diff''
       [release_rule ''RELEASE_DIFF_METADATA'' ''Release metadata changed'',
        release_rule ''RELEASE_DIFF_ARTIFACT'' ''Release artifact changed'',
        release_rule ''RELEASE_DIFF_SUPPLEMENTAL_ARTIFACT'' ''Release supplemental artifact changed'',
        release_rule ''RELEASE_DIFF_SIGNATURE'' ''Release signature changed'',
        release_rule ''RELEASE_DIFF_PROBLEM'' ''Release problem changed'']
       (map (diff_result r b) (df_entries r))"

end
