(* ===== verification/Release_Report_Correct.thy ===== *)
theory Release_Report_Correct
  imports Release_Report
begin

text \<open>
  Facts about release reports: redaction changes no verdict and no count, and leaves the problem
  lists of the components as they are; the SARIF log of an inspection carries every problem; a
  comparison is unchanged exactly when versions, commits, named digests and keys agree and neither
  release has a problem.
\<close>

subsection \<open>Redaction\<close>

lemma redact_attestation_keeps [simp]:
  "ar_verified (redact_attestation opts a) = ar_verified a" "ar_problems (redact_attestation opts a) = ar_problems a"
  "ar_name (redact_attestation opts a) = ar_name a"
  by (simp_all add: redact_attestation_def Let_def)

lemma redact_supplemental_keeps [simp]:
  "sr_verified (redact_supplemental opts s) = sr_verified s" "sr_problems (redact_supplemental opts s) = sr_problems s"
  "sr_kind (redact_supplemental opts s) = sr_kind s"
  by (simp_all add: redact_supplemental_def Let_def)

lemma redact_artifact_keeps [simp]:
  "fr_problems (redact_artifact opts a) = fr_problems a"
  "fr_attestations (redact_artifact opts a) = map (redact_attestation opts) (fr_attestations a)"
  by (simp_all add: redact_artifact_def Let_def)

lemma redact_inspect_keeps [simp]:
  "in_artifacts (redact_inspect i opts) = map (redact_artifact opts) (in_artifacts i)"
  "in_supplemental (redact_inspect i opts) = map (redact_supplemental opts) (in_supplemental i)"
  "si_status (in_signature (redact_inspect i opts)) = si_status (in_signature i)"
  "in_checksum_status (redact_inspect i opts) = in_checksum_status i"
  "length (in_problems (redact_inspect i opts)) = length (in_problems i)"
  by (simp_all add: redact_inspect_def redact_problem_digests_def redact_problem_paths_def Let_def)

lemma count_attestation_redacted [simp]: "count_attestation s (redact_attestation opts a) = count_attestation s a"
  by (simp add: count_attestation_def)

lemma count_supplemental_redacted [simp]: "count_supplemental s (redact_supplemental opts r) = count_supplemental s r"
  by (simp add: count_supplemental_def)

lemma foldl_map_same: "(\<And>s x. f s (g x) = f s x) \<Longrightarrow> foldl f s (map g xs) = foldl f s xs"
  by (induction xs arbitrary: s) simp_all

lemma summary_redacted: "summarize_provenance (redact_inspect i opts) = summarize_provenance i"
  by (simp add: summarize_provenance_def foldl_map_same)

lemma report_verdict_redacted:
  assumes "rpo_dir o1 = rpo_dir o2" and "rpo_public_key_path o1 = rpo_public_key_path o2"
    and "release_report_of en o1 fs = Inr r1" and "release_report_of en o2 fs = Inr r2"
  shows "rpt_valid r1 = rpt_valid r2 \<and> rpt_provenance_summary r1 = rpt_provenance_summary r2"
proof -
  let ?io = "\<lparr>rio_dir = rpo_dir o1, rio_public_key_path = rpo_public_key_path o1, rio_metadata = None\<rparr>"
  from assms(3) obtain i where i: "release_inspect en ?io fs = Inr i"
    by (auto simp: release_report_of_def Let_def)
  have v: "rpt_valid r = (in_checksum_status i = ''verified'' \<and> si_status (in_signature i) \<noteq> ''invalid'' \<and> in_problems i = [])
      \<and> rpt_provenance_summary r = summarize_provenance i"
    if "release_report_of en opts fs = Inr r" "rpo_dir opts = rpo_dir o1" "rpo_public_key_path opts = rpo_public_key_path o1"
    for opts r
  proof -
    have len: "in_problems (redact_inspect i x) = [] \<longleftrightarrow> in_problems i = []" for x
      using redact_inspect_keeps(5) [of i x] by (metis length_0_conv)
    from that i show ?thesis
      by (cases "rd_paths (rpo_redaction opts) \<or> rd_digests (rpo_redaction opts)")
         (auto simp: release_report_of_def Let_def summary_redacted len)
  qed
  from v [OF assms(3)] v [OF assms(4)] assms(1,2) show ?thesis by simp
qed

text \<open>What redaction leaves alone.\<close>

definition component_problems :: "release_inspection \<Rightarrow> string list" where
  "component_problems i =
     concat (map (\<lambda>a. fr_problems a @ concat (map ar_problems (fr_attestations a))) (in_artifacts i)) @
     concat (map sr_problems (in_supplemental i))"

lemma component_problems_redacted: "component_problems (redact_inspect i opts) = component_problems i"
  by (simp add: component_problems_def comp_def)

subsection \<open>SARIF\<close>

lemma covered_iff: "problem_covered i m \<longleftrightarrow> m \<in> set (component_problems i)"
  by (auto simp: problem_covered_def component_problems_def list_ex_iff)

lemma sarif_message [simp]: "rs_message (release_sarif_result rule message uri properties b fld) = message"
  by (simp add: release_sarif_result_def)

lemma release_sarif_messages:
  "set (map rs_message (run_results (hd (log_runs (release_inspect_sarif i b))))) =
     set (component_problems i) \<union> set (in_problems i)"
proof -
  have "set (map rs_message (artifact_results i b a)) =
      set (fr_problems a @ concat (map ar_problems (fr_attestations a)))" for a
    by (simp add: artifact_results_def image_Un image_UN image_image Let_def)
  then have "(\<Union>a \<in> set (in_artifacts i). rs_message ` set (artifact_results i b a)) =
      (\<Union>a \<in> set (in_artifacts i). set (fr_problems a @ concat (map ar_problems (fr_attestations a))))" by simp
  moreover have "(\<Union>s \<in> set (in_supplemental i). rs_message ` set (supplemental_results i b s)) =
      (\<Union>s \<in> set (in_supplemental i). set (sr_problems s))"
    by (simp add: supplemental_results_def image_image Let_def)
  moreover have "rs_message ` set (release_results i b) = {m \<in> set (in_problems i). m \<notin> set (component_problems i)}"
    by (auto simp: release_results_def image_image covered_iff)
  ultimately show ?thesis
    by (auto simp: release_inspect_sarif_def one_run_log_def image_Un image_UN component_problems_def)
qed

subsection \<open>Comparison\<close>

lemma by_name_keys: "fst ` set (by_name f xs) = f ` set xs"
proof -
  have "fst ` set (foldl (\<lambda>m x. AList.update (f x) x m) m xs) = fst ` set m \<union> f ` set xs" for m
    by (induction xs arbitrary: m) (auto simp: dom_update)
  then show ?thesis by (simp add: by_name_def)
qed

lemma map_of_in_keys: "map_of m k = None \<longleftrightarrow> k \<notin> fst ` set m"
  by (rule map_of_eq_None_iff)

lemma compare_items_Nil:
  assumes order: "\<And>ks. set (re_map_order en ks) = set ks"
  shows "compare_items en category digest detail opts old new = [] \<longleftrightarrow>
    map_option digest \<circ> map_of old = map_option digest \<circ> map_of new"
proof -
  have "compare_items en category digest detail opts old new = [] \<longleftrightarrow>
    (\<forall>k \<in> fst ` set old. \<exists>b. map_of new k = Some b \<and> (\<forall>a. map_of old k = Some a \<longrightarrow> digest a = digest b)) \<and>
    (\<forall>k \<in> fst ` set new. map_of old k \<noteq> None)"
    (is "_ \<longleftrightarrow> ?kept \<and> ?no_added")
    unfolding compare_items_def append_is_Nil_conv concat_eq_Nil_conv list.set_map order
    by (auto split: option.splits if_splits simp: map_of_eq_None_iff)
       (metis (no_types) fst_conv image_eqI map_of_eq_None_iff not_None_eq option.inject)+
  also have "\<dots> \<longleftrightarrow> (\<forall>k. map_option digest (map_of old k) = map_option digest (map_of new k))"
  proof
    assume l: "?kept \<and> ?no_added"
    show "\<forall>k. map_option digest (map_of old k) = map_option digest (map_of new k)"
    proof
      fix k
      show "map_option digest (map_of old k) = map_option digest (map_of new k)"
      proof (cases "map_of old k")
        case None
        with l have "k \<notin> fst ` set new" by auto
        then have "map_of new k = None" by (simp only: map_of_eq_None_iff not_False_eq_True)
        with None show ?thesis by simp
      next
        case (Some a)
        then have "k \<in> fst ` set old" by (metis map_of_eq_None_iff option.distinct(1))
        with l Some show ?thesis by fastforce
      qed
    qed
  next
    assume r: "\<forall>k. map_option digest (map_of old k) = map_option digest (map_of new k)"
    have "\<exists>b. map_of new k = Some b \<and> (\<forall>a. map_of old k = Some a \<longrightarrow> digest a = digest b)" if "k \<in> fst ` set old" for k
    proof -
      from that obtain a where a: "map_of old k = Some a" by (metis map_of_eq_None_iff not_None_eq)
      with r [rule_format, of k] show ?thesis by (cases "map_of new k") auto
    qed
    moreover have "map_of old k \<noteq> None" if "k \<in> fst ` set new" for k
    proof -
      from that have "map_of new k \<noteq> None" by (simp only: map_of_eq_None_iff not_not)
      with r [rule_format, of k] show ?thesis by (cases "map_of old k") auto
    qed
    ultimately show "?kept \<and> ?no_added" by blast
  qed
  finally show ?thesis by (auto simp: fun_eq_iff)
qed

text \<open>What a comparison looks at.\<close>

definition same_release :: "release_inspection \<Rightarrow> release_manifest \<Rightarrow> release_inspection \<Rightarrow> release_manifest \<Rightarrow> bool" where
  "same_release i m j n \<longleftrightarrow>
     rm_version m = rm_version n \<and> rm_commit m = rm_commit n \<and>
     map_option rf_sha256 \<circ> map_of (by_name rf_name (rm_artifacts m)) =
       map_option rf_sha256 \<circ> map_of (by_name rf_name (rm_artifacts n)) \<and>
     map_option su_sha256 \<circ> map_of (by_name su_name (rm_supplemental m)) =
       map_option su_sha256 \<circ> map_of (by_name su_name (rm_supplemental n)) \<and>
     si_public_key_sha256 (in_signature i) = si_public_key_sha256 (in_signature j) \<and>
     in_problems i = [] \<and> in_problems j = []"

lemma diff_entries_Nil:
  assumes "\<And>ks. set (re_map_order en ks) = set ks"
  shows "diff_entries en opts i m j n = [] \<longleftrightarrow> same_release i m j n"
  by (simp add: diff_entries_def same_release_def diff_artifacts_def diff_supplemental_def
      compare_items_Nil [OF assms])

lemma release_diff_changed:
  assumes "\<And>ks. set (re_map_order en ks) = set ks" and "release_diff en opts fs = Inr r"
  obtains i j m n where
    "release_inspect en \<lparr>rio_dir = do_from_dir opts, rio_public_key_path = do_from_public_key_path opts,
       rio_metadata = None\<rparr> fs = Inr i"
    "release_inspect en \<lparr>rio_dir = do_to_dir opts, rio_public_key_path = do_to_public_key_path opts,
       rio_metadata = None\<rparr> fs = Inr j"
    "read_manifest_file en fs (in_manifest_path i) = Inr m" "read_manifest_file en fs (in_manifest_path j) = Inr n"
    "df_changed r \<longleftrightarrow> \<not> same_release i m j n"
proof -
  from assms(2) obtain i j m n where
    "inspect_for_diff en ''from'' (do_from_dir opts) (do_from_public_key_path opts) fs = Inr i"
    "inspect_for_diff en ''to'' (do_to_dir opts) (do_to_public_key_path opts) fs = Inr j"
    and mn: "read_manifest_file en fs (in_manifest_path i) = Inr m" "read_manifest_file en fs (in_manifest_path j) = Inr n"
    and "df_changed r = (diff_entries en (do_redaction opts) i m j n \<noteq> [])"
    by (auto simp: release_diff_def Let_def)
  then show thesis
    by (intro that [OF _ _ mn])
       (auto simp: inspect_for_diff_def diff_entries_Nil [OF assms(1)] split: sum.splits)
qed

end
