(* ===== verification/Release_Examples.thy ===== *)
theory Release_Examples
  imports Release_Roundtrip Release_Report_Correct
begin

text \<open>
  A release of one prebuilt binary with one attestation and one bill of materials, signed, on which
  the properties of releases are applied.
\<close>

definition toy_sha :: "string \<Rightarrow> string" where
  "toy_sha s = replicate 63 (CHR ''a'') @ [hex_digit (length s mod 16)]"

definition toy_sign :: "string \<Rightarrow> string \<Rightarrow> string" where
  "toy_sign k msg = ''s''"

definition release_target_1 :: release_target where
  "release_target_1 = \<lparr>rt_os = ''linux'', rt_arch = ''x''\<rparr>"

definition release_options_1 :: release_options where
  "release_options_1 =
     \<lparr>ro_source_dir = [], ro_out_dir = [], ro_version = ''v'', ro_commit = ''c'', ro_date = ''d'',
      ro_targets = [release_target_1], ro_prebuilt = [(''linux/x'', ''/p'')], ro_build = None,
      ro_sign_key_path = ''/k'', ro_sbom_paths = [''/b.txt''], ro_provenance_paths = [],
      ro_attestation_paths = [''target:linux/x=/t'']\<rparr>"

definition release_artifact_1 :: release_artifact where
  "release_artifact_1 =
     \<lparr>rf_name = ''ao-covenant_v_linux_x'', rf_target = release_target_1, rf_path = ''ao-covenant_v_linux_x'',
      rf_sha256 = toy_sha ''bin'', rf_size_bytes = 3, rf_attestations =
        [\<lparr>at_name = ''t'', at_kind = [], at_path = ''ao-covenant_v_linux_x.t'', at_sha256 = toy_sha ''ok'', at_size_bytes = 2\<rparr>]\<rparr>"

definition release_manifest_1 :: release_manifest where
  "release_manifest_1 =
     \<lparr>rm_schema_version = release_manifest_schema, rm_version = ''v'', rm_commit = ''c'', rm_date = ''d'',
      rm_artifacts = [release_artifact_1],
      rm_supplemental = [\<lparr>su_kind = ''sbom'', su_name = ''b.txt'', su_path = ''b.txt'', su_sha256 = toy_sha ''bom'', su_size_bytes = 3\<rparr>]\<rparr>"

definition toy_public :: string where
  "toy_public = replicate 32 (CHR ''k'')"

definition toy_private :: string where
  "toy_private = toy_public @ replicate 32 (CHR ''p'')"

definition toy_signature :: signature_file where
  "toy_signature = \<lparr>sf_schema_version = release_signature_schema, sf_algorithm = ''ed25519'',
     sf_signed_entry = ''manifest.json'', sf_public_key_sha256 = toy_sha toy_public,
     sf_signature = base64_encode ''s''\<rparr>"

definition release_env_1 :: release_env where
  "release_env_1 =
     \<lparr>re_sha = toy_sha, re_cwd = ''/w'', re_goos = ''linux'', re_goarch = ''x'', re_build_vars = default_build_vars,
      re_go_build = (\<lambda>_ fs. (Inl (Errorf ''no tool chain''), fs)), re_schema_manifest = (\<lambda>_. None),
      re_schema_bytes = (\<lambda>_ _. None), re_decode_manifest = (\<lambda>_. Inr release_manifest_1),
      re_decode_signature = (\<lambda>_. Inr toy_signature),
      re_decode_private_key = (\<lambda>_. Inr \<lparr>pk_file_schema_version = private_key_schema, pk_file_algorithm = ''ed25519'',
        pk_file_public_key = base64_encode toy_public, pk_file_private_key = base64_encode toy_private\<rparr>),
      re_decode_public_key = (\<lambda>_. Inr \<lparr>pub_file_schema_version = public_key_schema,
        pub_file_algorithm = ''ed25519'', pub_file_public_key = base64_encode toy_public\<rparr>),
      re_sign = toy_sign, re_public_of = take 32, re_verify = (\<lambda>k m s. k = toy_public \<and> s = ''s''),
      re_map_order = (\<lambda>ks. ks)\<rparr>"

definition release_fs_1 :: fs where
  "release_fs_1 = (\<lambda>p.
     if p \<in> {''/'', ''/w''} then Some Dir else if p = ''/p'' then Some (File ''bin'')
     else if p = ''/t'' then Some (File ''ok'') else if p = ''/b.txt'' then Some (File ''bom'')
     else if p \<in> {''/k'', ''/u''} then Some (File ''key'') else None)"

definition release_verify_options_1 :: release_verify_options where
  "release_verify_options_1 = \<lparr>rvo_dir = ''dist'', rvo_public_key_path = ''/u'', rvo_metadata = None, rvo_host_metadata = None\<rparr>"

definition is_file :: "node option \<Rightarrow> bool" where
  "is_file n = (case n of Some (File _) \<Rightarrow> True | _ \<Rightarrow> False)"

lemma contents_1:
  "case package_contents release_env_1 release_options_1 ''dist'' release_fs_1 of
     (Inr m, fs) \<Rightarrow> m = release_manifest_1 \<and> fs ''/w/dist'' = Some Dir \<and> fs ''/w'' = Some Dir \<and> fs ''/'' = Some Dir \<and>
       is_file (fs ''/k'') \<and> is_file (fs ''/u'') \<and> fs ''/w/dist/manifest.json'' = None \<and>
       fs ''/w/dist/SHA256SUMS'' = None \<and> fs ''/w/dist/release-signature.json'' = None
   | _ \<Rightarrow> False"
  by code_simp

lemma places_1:
  "abs_path ''/w'' (path_join [''dist'', ''manifest.json'']) = ''/w/dist/manifest.json''"
  "abs_path ''/w'' (path_join [''dist'', ''SHA256SUMS'']) = ''/w/dist/SHA256SUMS''"
  "abs_path ''/w'' (path_join [''dist'', ''release-signature.json'']) = ''/w/dist/release-signature.json''"
  "path_dir ''/w/dist/manifest.json'' = ''/w/dist''" "path_dir ''/w/dist/SHA256SUMS'' = ''/w/dist''"
  "path_dir ''/w/dist/release-signature.json'' = ''/w/dist''"
  "dir_chain (abs_path ''/w'' (path_dir (path_join [''dist'', ''manifest.json'']))) = [''/'', ''/w'', ''/w/dist'']"
  "abs_path ''/w'' ''/k'' = ''/k''" "abs_path ''/w'' ''/u'' = ''/u''"
  "trim_space ''/k'' = ''/k''" "trim_space ''/u'' = ''/u''"
  by code_simp+

lemma signature_place_1: "path_join [''dist'', ''release-signature.json''] = ''dist/release-signature.json''"
  and manifest_place_1: "path_join [''dist'', ''manifest.json''] = ''dist/manifest.json''"
    "path_join [''dist'', ''SHA256SUMS''] = ''dist/SHA256SUMS''"
  by code_simp+

lemma key_opens_1: "open_private_key release_env_1 s = Inr (toy_private, toy_public)"
  by (simp add: open_private_key_def release_env_1_def decode_public_key_def toy_private_def)
     (simp add: toy_public_def)

lemma public_key_opens_1: "open_public_key release_env_1 s = Inr toy_public"
  by (simp add: open_public_key_def release_env_1_def decode_public_key_def) (simp add: toy_public_def)

definition release_result_1 :: release_result where
  "release_result_1 = \<lparr>rr_manifest_path = ''dist/manifest.json'', rr_checksums_path = ''dist/SHA256SUMS'',
     rr_signature_path = ''dist/release-signature.json'', rr_artifacts = [release_artifact_1],
     rr_manifest = release_manifest_1, rr_public_key_sha256 = toy_sha toy_public\<rparr>"

lemma env_1 [simp]:
  "re_cwd release_env_1 = ''/w''" "re_schema_manifest release_env_1 m = None" "re_schema_bytes release_env_1 i s = None"
  "re_sha release_env_1 = toy_sha" "re_decode_signature release_env_1 s = Inr toy_signature"
  "re_decode_manifest release_env_1 s = Inr release_manifest_1" "re_sign release_env_1 k s = ''s''"
  "re_verify release_env_1 k s v \<longleftrightarrow> k = toy_public \<and> v = ''s''" "re_map_order release_env_1 ks = ks"
  by (simp_all add: release_env_1_def toy_sign_def)

lemma options_1 [simp]:
  "ro_sign_key_path release_options_1 = ''/k''" "release_default (ro_out_dir release_options_1) ''dist'' = ''dist''"
  "release_dir release_options_1 = ''dist''"
  by (simp_all add: release_options_1_def release_default_def release_dir_def)

lemma is_fileE: "is_file n \<Longrightarrow> (\<And>s. n = Some (File s) \<Longrightarrow> P) \<Longrightarrow> P"
  by (auto simp: is_file_def split: option.splits node.splits)

lemma release_run_1:
  "\<exists>fs. release_package release_env_1 release_options_1 release_fs_1 = (Inr release_result_1, fs) \<and>
     is_file (fs ''/k'') \<and> is_file (fs ''/u'')"
proof -
  obtain m fs where c: "package_contents release_env_1 release_options_1 ''dist'' release_fs_1 = (Inr m, fs)"
    using contents_1 by (cases "package_contents release_env_1 release_options_1 ''dist'' release_fs_1")
      (auto split: sum.splits)
  with contents_1 have m: "m = release_manifest_1" and dirs: "fs ''/w/dist'' = Some Dir" "fs ''/w'' = Some Dir" "fs ''/'' = Some Dir"
    and keys: "is_file (fs ''/k'')" "is_file (fs ''/u'')" and free: "fs ''/w/dist/manifest.json'' = None"
      "fs ''/w/dist/SHA256SUMS'' = None" "fs ''/w/dist/release-signature.json'' = None" by auto
  let ?sums = "checksums_text (rm_artifacts m) (rm_supplemental m)"
  define made where "made = (\<lambda>q. if q \<in> set [''/'', ''/w'', ''/w/dist''] then Some Dir else fs q)"
  have mk: "io_mkdir_all ''/w'' (path_dir (path_join [''dist'', ''manifest.json''])) fs = (Inr (), made)"
    unfolding io_mkdir_all_def os_mkdir_all_def places_1 made_def using dirs by simp
  have made_at: "made ''/w/dist'' = Some Dir" "made ''/w/dist/manifest.json'' = None" "made ''/w/dist/SHA256SUMS'' = None"
    "made ''/w/dist/release-signature.json'' = None" "made ''/k'' = fs ''/k''" "made ''/u'' = fs ''/u''"
    using free by (simp_all add: made_def)
  let ?fs2 = "made(''/w/dist/manifest.json'' \<mapsto> File (manifest_text m), ''/w/dist/SHA256SUMS'' \<mapsto> File ?sums)"
  have files: "package_files release_env_1 release_options_1 ''dist'' release_fs_1 = (Inr m, ?fs2)"
    using made_at
    by (simp add: package_files_def io_apply c write_manifest_def write_checksums_def mk io_write_def
        os_write_file_def places_1 manifest_text_def m release_manifest_1_def)
  from keys obtain k u where ku: "fs ''/k'' = Some (File k)" "fs ''/u'' = Some (File u)"
    by (elim is_fileE)
  obtain fs3 where signed: "sign_release release_env_1 release_options_1 ''dist'' (path_join [''dist'', ''manifest.json'']) ?fs2 =
      (Inr (path_join [''dist'', ''release-signature.json''], toy_sha toy_public), fs3)" and fs3: "is_file (fs3 ''/k'')" "is_file (fs3 ''/u'')"
    using made_at ku
    by (simp add: sign_release_def io_apply io_read_def read_at_def os_read_file_def places_1 sign_release_manifest_def
        read_private_key_def key_opens_1 public_key_fingerprint_def io_write_def os_write_file_def is_file_def
        Let_def)
  have "release_package release_env_1 release_options_1 release_fs_1 = (Inr release_result_1, fs3)"
    by (simp add: release_package_def io_apply files signed Let_def)
       (simp add: release_result_1_def m release_manifest_1_def manifest_place_1 signature_place_1)
  with fs3 show ?thesis by blast
qed

subsection \<open>The hypotheses hold here\<close>

lemma laws_1: "release_laws release_env_1"
proof -
  have "plain_word (toy_sha s)" for s
  proof -
    have "length s mod 16 < 16" by simp
    then have b: "byte (hex_digit (length s mod 16)) = (if length s mod 16 < 10 then 48 + length s mod 16 else 87 + length s mod 16)"
      by (rule byte_hex_digit)
    moreover have "length s mod 16 < 16" by simp
    ultimately have "byte (hex_digit (length s mod 16)) < 128" "32 < byte (hex_digit (length s mod 16))" by (auto split: if_splits)
    then show ?thesis
      by (simp add: plain_word_def toy_sha_def is_ascii_def is_ascii_char_def ascii_space_def list_all_iff)
  qed
  then show ?thesis by (simp add: release_laws_def is_abs_def toy_sha_def)
qed

lemma confined_1: "confined release_env_1 (builder release_env_1 release_options_1)"
  by (simp add: confined_def builder_def release_options_1_def release_env_1_def)

lemma readable_1: "manifest_readable release_env_1 (rr_manifest release_result_1)"
  by (simp add: manifest_readable_def release_result_1_def)

lemma names_1: "list_all (\<lambda>e. plain_elem (fst e) \<and> plain_word (fst e) \<and> fst e \<notin> set reserved_names)
  (release_entries (rr_artifacts release_result_1) (rm_supplemental (rr_manifest release_result_1)))"
  by code_simp

lemma keys_match_1:
  assumes "is_file (fs ''/k'')" and "is_file (fs ''/u'')"
  shows "key_matches release_env_1 release_options_1 release_verify_options_1 fs"
proof -
  obtain k u where ku: "fs ''/k'' = Some (File k)" "fs ''/u'' = Some (File u)"
    using assms by (elim is_fileE)
  have "abs_path ''/w'' ''/k'' \<noteq> release_file release_env_1 ''dist'' ''release-signature.json''"
    by (simp add: release_file_def places_1)
  moreover have "read_private_key release_env_1 ''/k'' fs = (Inr (toy_private, toy_public), fs)"
    using ku by (simp add: read_private_key_def io_apply io_read_def read_at_def os_read_file_def places_1 key_opens_1)
  moreover have "read_public_key release_env_1 fs ''/u'' = Inr toy_public"
    using ku by (simp add: read_public_key_def read_at_def os_read_file_def places_1 public_key_opens_1)
  moreover have "signature_for release_env_1 toy_private toy_public msg = toy_signature" for msg
    by (simp add: signature_for_def toy_signature_def)
  ultimately show ?thesis
    unfolding key_matches_def by (simp add: release_verify_options_1_def places_1 Let_def)
qed

definition release_fs_2 :: fs where
  "release_fs_2 = snd (release_package release_env_1 release_options_1 release_fs_1)"

lemma release_run_2: "release_package release_env_1 release_options_1 release_fs_1 = (Inr release_result_1, release_fs_2)"
  and keys_match_2: "key_matches release_env_1 release_options_1 release_verify_options_1 release_fs_2"
  using release_run_1 keys_match_1 by (auto simp: release_fs_2_def)

lemma same_dir_1: "release_default (rvo_dir release_verify_options_1) ''dist'' = release_dir release_options_1"
  by (simp add: release_verify_options_1_def release_default_def)

lemma answers_1: "binaries_answer release_env_1 release_options_1 release_verify_options_1 as"
  by (simp add: binaries_answer_def release_verify_options_1_def)

text \<open>
  The command line always passes a reader for binaries of the host. This one knows the binary of
  the release, which is one of the host, and no other.
\<close>

definition host_reader_1 :: "string \<Rightarrow> build_info go_result" where
  "host_reader_1 p =
     (if p = ''dist/ao-covenant_v_linux_x''
      then Inr \<lparr>bi_schema_version = [], bi_version = ''v'', bi_commit = ''c'', bi_date = ''d'', bi_go_version = [],
             bi_os = ''linux'', bi_arch = ''x''\<rparr>
      else Inl (Errorf ''run version --json''))"

definition host_options_1 :: release_verify_options where
  "host_options_1 = release_verify_options_1\<lparr>rvo_host_metadata := Some host_reader_1\<rparr>"

lemma host_target_1: "is_host_target release_env_1 release_target_1"
  by (simp add: is_host_target_def release_env_1_def release_target_1_def)

lemma host_answers_1: "binaries_answer release_env_1 release_options_1 host_options_1 (rr_artifacts release_result_1)"
proof -
  have "path_join [''dist'', ''ao-covenant_v_linux_x''] = ''dist/ao-covenant_v_linux_x''"
    "linked_version release_env_1 release_options_1 = (''v'', ''c'', ''d'')" by code_simp+
  then have "answers_for release_env_1 release_options_1 host_reader_1 release_artifact_1"
    by (simp add: answers_for_def host_reader_1_def release_artifact_1_def release_target_1_def)
  then show ?thesis
    by (simp add: binaries_answer_def host_options_1_def release_verify_options_1_def release_result_1_def)
qed

lemma host_same_dir_1: "release_default (rvo_dir host_options_1) ''dist'' = release_dir release_options_1"
  by (simp add: host_options_1_def same_dir_1)

lemma host_keys_match_1: "key_matches release_env_1 release_options_1 host_options_1 release_fs_2"
  using keys_match_2 by (simp add: key_matches_def host_options_1_def)

lemma verified_1:
  "\<exists>r. release_verify release_env_1 release_verify_options_1 release_fs_2 = Inr r \<and> rv_problems r = []"
proof -
  obtain sums where loads: "release_loads release_env_1 release_verify_options_1 release_fs_2
      (manifest_text (rr_manifest release_result_1)) (rr_manifest release_result_1) sums"
    and intact: "release_intact release_env_1 release_verify_options_1 release_fs_2 (release_dir release_options_1)
      (manifest_text (rr_manifest release_result_1)) sums (rr_manifest release_result_1)"
    using packaged_release_intact [OF release_run_2 laws_1 confined_1 readable_1 names_1 same_dir_1 answers_1 keys_match_2]
    by blast
  have "set (re_map_order release_env_1 ks) = set ks" for ks by simp
  from release_verify_iff_intact [OF loads this] intact show ?thesis by (auto simp: same_dir_1)
qed

lemma inspected_1:
  "\<exists>i. release_inspect release_env_1 \<lparr>rio_dir = ''dist'', rio_public_key_path = ''/u'', rio_metadata = None\<rparr>
      release_fs_2 = Inr i \<and> in_problems i = [] \<and> in_manifest_path i = path_join [''dist'', ''manifest.json'']"
proof -
  obtain r where r: "release_verify release_env_1 release_verify_options_1 release_fs_2 = Inr r" "rv_problems r = []"
    using verified_1 by blast
  have d: "release_default ''dist'' ''dist'' = ''dist''" by (simp add: release_default_def)
  have "rv_manifest_path r = path_join [''dist'', ''manifest.json'']"
    using verified_manifest_path [OF r(1)] by (simp only: release_verify_options_1_def release_verify_options.simps d)
  with r show ?thesis unfolding release_inspect_def Let_def release_verify_options_1_def by (simp add: d)
qed

lemma manifest_on_disk_1:
  "read_manifest_file release_env_1 release_fs_2 (path_join [''dist'', ''manifest.json'']) = Inr release_manifest_1"
proof -
  obtain sums where "release_loads release_env_1 release_verify_options_1 release_fs_2
      (manifest_text (rr_manifest release_result_1)) (rr_manifest release_result_1) sums"
    using packaged_release_intact [OF release_run_2 laws_1 confined_1 readable_1 names_1 same_dir_1 answers_1 keys_match_2]
    by blast
  then have "load_manifest release_env_1 release_fs_2 (path_join [''dist'', ''manifest.json'']) =
      Inr (manifest_text (rr_manifest release_result_1), rr_manifest release_result_1)"
    unfolding release_loads_def Let_def same_dir_1 by (simp only: options_1)
  then show ?thesis
    by (auto simp: load_manifest_def read_manifest_file_def release_result_1_def split: sum.splits)
qed

definition report_options_1 :: release_report_options where
  "report_options_1 = \<lparr>rpo_dir = ''dist'', rpo_public_key_path = ''/u'', rpo_audience = [],
     rpo_redaction = \<lparr>rd_paths = False, rd_digests = False, rd_profile = []\<rparr>\<rparr>"

definition redacted_options_1 :: release_report_options where
  "redacted_options_1 = report_options_1\<lparr>rpo_redaction := \<lparr>rd_paths = True, rd_digests = True, rd_profile = []\<rparr>\<rparr>"

definition diff_options_1 :: release_diff_options where
  "diff_options_1 = \<lparr>do_from_dir = ''dist'', do_to_dir = ''dist'',
     do_redaction = \<lparr>rd_paths = False, rd_digests = False, rd_profile = []\<rparr>,
     do_from_public_key_path = ''/u'', do_to_public_key_path = ''/u''\<rparr>"

lemma report_exists_1:
  "\<exists>r1 r2. release_report_of release_env_1 report_options_1 release_fs_2 = Inr r1 \<and>
     release_report_of release_env_1 redacted_options_1 release_fs_2 = Inr r2"
  using inspected_1 by (auto simp: release_report_of_def report_options_1_def redacted_options_1_def Let_def)

lemma diff_exists_1:
  "\<exists>i r. release_inspect release_env_1 \<lparr>rio_dir = ''dist'', rio_public_key_path = ''/u'', rio_metadata = None\<rparr>
      release_fs_2 = Inr i \<and> in_problems i = [] \<and> release_diff release_env_1 diff_options_1 release_fs_2 = Inr r"
proof -
  obtain i where i: "release_inspect release_env_1 \<lparr>rio_dir = ''dist'', rio_public_key_path = ''/u'', rio_metadata = None\<rparr>
      release_fs_2 = Inr i" "in_problems i = []" "in_manifest_path i = path_join [''dist'', ''manifest.json'']"
    using inspected_1 by blast
  then show ?thesis using manifest_on_disk_1
    by (simp add: release_diff_def diff_options_1_def inspect_for_diff_def Let_def)
qed

end
