(* ===== verification/Schema_Pointer.thy ===== *)
theory Schema_Pointer
  imports Go_Any Go_Words Go_Path
begin

text \<open>
  Schema documents as \<open>internal/schema/schema.go\<close> walks over them: JSON pointers, the positions of
  a schema that hold schemas, and the walk that visits them. A Go map is the list of its entries in
  the order in which the program ranges over it, which the language leaves open.
\<close>

subsection \<open>Pointers\<close>

text \<open>\<open>escapeJSONPointerSegment\<close>, \<open>pathJoin\<close>\<close>

definition escape_segment :: "string \<Rightarrow> string" where
  "escape_segment segment = replace_all ''/'' ''~1'' (replace_all ''~'' ''~0'' segment)"

definition unescape_segment :: "string \<Rightarrow> string" where
  "unescape_segment raw = replace_all ''~0'' ''~'' (replace_all ''~1'' ''/'' raw)"

definition pointer_join :: "string \<Rightarrow> string list \<Rightarrow> string" where
  "pointer_join base segments = foldl (\<lambda>out s. out @ ''/'' @ escape_segment s) base segments"

definition trim_prefix :: "string \<Rightarrow> string \<Rightarrow> string" where
  "trim_prefix p s = (if prefix p s then drop (length p) s else s)"

text \<open>The loop of \<open>resolveJSONPointer\<close> over the raw segments. Only objects are entered.\<close>

fun resolve_segments :: "go_any \<Rightarrow> string list \<Rightarrow> go_any option" where
  "resolve_segments current [] = Some current"
| "resolve_segments current (raw # rest) = (case current of
      AnyMap m \<Rightarrow> (case map_of m (unescape_segment raw) of
          None \<Rightarrow> None | Some next \<Rightarrow> resolve_segments next rest)
    | _ \<Rightarrow> None)"

definition resolve_pointer :: "go_any \<Rightarrow> string \<Rightarrow> go_any option" where
  "resolve_pointer root pointer =
     (if pointer = [] then Some root
      else let p = trim_prefix ''/'' pointer in
        if p = [] then Some root else resolve_segments root (split_on slash p))"

text \<open>Following unescaped keys: what a pointer is about.\<close>

fun follow_keys :: "go_any \<Rightarrow> string list \<Rightarrow> go_any option" where
  "follow_keys v [] = Some v"
| "follow_keys v (k # ks) = (case v of
      AnyMap m \<Rightarrow> (case map_of m k of None \<Rightarrow> None | Some w \<Rightarrow> follow_keys w ks)
    | _ \<Rightarrow> None)"

subsection \<open>Escaping is undone by unescaping\<close>

lemma replace_all_Nil [simp]: "replace_all old new [] = []"
  by (subst replace_all.simps) simp

lemma replace_all_Cons: "replace_all old new (c # s) =
    (if old \<noteq> [] \<and> prefix old (c # s) then new @ replace_all old new (drop (length old) (c # s))
     else c # replace_all old new s)"
  by (subst replace_all.simps) simp

lemma replace_byte_all: "replace_all [c] new s = concat (map (\<lambda>x. if x = c then new else [x]) s)"
  by (induction s) (auto simp: replace_all_Cons)

lemma escape_segment_alt:
  "escape_segment s = concat (map (\<lambda>c. if c = CHR ''~'' then ''~0'' else if c = slash then ''~1'' else [c]) s)"
  by (induction s) (auto simp: escape_segment_def replace_byte_all)

lemma unslash_escaped:
  "replace_all ''~1'' ''/'' (escape_segment s) = replace_all ''~'' ''~0'' s"
  by (induction s) (auto simp: escape_segment_alt replace_byte_all replace_all_Cons)

lemma untilde_escaped: "replace_all ''~0'' ''~'' (replace_all ''~'' ''~0'' s) = s"
  by (induction s) (auto simp: replace_byte_all replace_all_Cons)

lemma unescape_escape [simp]: "unescape_segment (escape_segment s) = s"
  by (simp add: unescape_segment_def unslash_escaped untilde_escaped)

lemma escape_segment_free: "slash \<notin> set (escape_segment s)"
  by (induction s) (auto simp: escape_segment_alt)

lemma escape_segment_inject: "escape_segment s = escape_segment t \<longleftrightarrow> s = t"
  by (metis unescape_escape)

lemma escape_segment_Nil [simp]: "escape_segment s = [] \<longleftrightarrow> s = []"
  by (cases s) (auto simp: escape_segment_alt)

lemma pointer_join_Nil [simp]: "pointer_join base [] = base"
  by (simp add: pointer_join_def)

lemma pointer_join_append: "pointer_join base (as @ bs) = pointer_join (pointer_join base as) bs"
  by (simp add: pointer_join_def)

lemma pointer_join_Cons: "pointer_join base (a # as) = pointer_join (base @ [slash] @ escape_segment a) as"
  by (simp add: pointer_join_def)

lemma pointer_join_base: "pointer_join base as = base @ pointer_join [] as"
proof (induction as arbitrary: base)
  case (Cons a as)
  show ?case using Cons.IH [of "base @ [slash] @ escape_segment a"] Cons.IH [of "[slash] @ escape_segment a"]
    by (simp add: pointer_join_Cons)
qed simp

lemma pointer_join_joined: "as \<noteq> [] \<Longrightarrow> pointer_join [] as = slash # join_with [slash] (map escape_segment as)"
proof (induction as)
  case (Cons a as)
  show ?case
  proof (cases "as = []")
    case False
    then show ?thesis using Cons.IH pointer_join_base [of "slash # escape_segment a" as]
      by (simp add: pointer_join_Cons join_with_Cons)
  qed (simp add: pointer_join_Cons)
qed simp

lemma pointer_join_inject: "pointer_join [] as = pointer_join [] bs \<longleftrightarrow> as = bs"
proof
  have split: "split_on slash (join_with [slash] (map escape_segment ks)) = map escape_segment ks" if "ks \<noteq> []" for ks
    using that escape_segment_free by (intro split_join) auto
  assume eq: "pointer_join [] as = pointer_join [] bs"
  show "as = bs"
  proof (cases "as = []"; cases "bs = []")
    assume "as \<noteq> []" "bs \<noteq> []"
    with eq have "join_with [slash] (map escape_segment as) = join_with [slash] (map escape_segment bs)"
      by (simp add: pointer_join_joined)
    with split [OF \<open>as \<noteq> []\<close>] split [OF \<open>bs \<noteq> []\<close>] have "map escape_segment as = map escape_segment bs" by metis
    moreover have "inj escape_segment" by (rule injI) (simp only: escape_segment_inject)
    ultimately show ?thesis by (simp only: inj_map_eq_map)
  qed (use eq in \<open>simp_all add: pointer_join_joined\<close>)
qed simp

lemma resolve_segments_escaped: "resolve_segments v (map escape_segment ks) = follow_keys v ks"
  by (induction ks arbitrary: v) (simp_all split: go_any.splits option.splits)

text \<open>A pointer made of escaped keys leads where the keys lead, the empty key alone excepted.\<close>

lemma resolve_pointer_join:
  assumes "ks \<noteq> [[]]"
  shows "resolve_pointer root (pointer_join [] ks) = follow_keys root ks"
proof (cases "ks = []")
  case False
  then have j: "pointer_join [] ks = slash # join_with [slash] (map escape_segment ks)"
    by (rule pointer_join_joined)
  have "join_with [slash] (map escape_segment ks) \<noteq> []"
    using False assms by (auto simp: join_with_eq_Nil map_eq_Cons_conv)
  moreover have "split_on slash (join_with [slash] (map escape_segment ks)) = map escape_segment ks"
    using False escape_segment_free by (intro split_join) auto
  ultimately show ?thesis
    by (simp add: resolve_pointer_def j trim_prefix_def Let_def resolve_segments_escaped)
qed (simp add: resolve_pointer_def)

lemma resolve_pointer_empty_key: "resolve_pointer root (pointer_join [] [[]]) = Some root"
  by (simp add: resolve_pointer_def pointer_join_Cons trim_prefix_def)

end
