(* ===== verification/Schema_Walk.thy ===== *)
theory Schema_Walk
  imports Schema_Pointer
begin

text \<open>
  \<open>walkSchema\<close> of \<open>internal/schema/schema.go\<close>: the objects found at the positions of a schema that
  hold schemas, each with its path, and the \<open>$ref\<close> step that the searches for \<open>schema_version\<close> share,
  with the measure by which those searches end.
\<close>

subsection \<open>Children\<close>

text \<open>The entries of an object-valued keyword, and the elements of an array-valued one.\<close>

definition object_at :: "any_map \<Rightarrow> string \<Rightarrow> any_map" where
  "object_at m k = (case map_of m k of Some (AnyMap ps) \<Rightarrow> ps | _ \<Rightarrow> [])"

definition array_at :: "any_map \<Rightarrow> string \<Rightarrow> go_any list" where
  "array_at m k = (case map_of m k of Some (AnyArr vs) \<Rightarrow> vs | _ \<Rightarrow> [])"

definition index_text :: "nat \<Rightarrow> string" where
  "index_text i = int_text (int i)"

definition object_children :: "any_map \<Rightarrow> string \<Rightarrow> (string list \<times> go_any) list" where
  "object_children m k = map (\<lambda>(name, child). ([k, name], child)) (object_at m k)"

definition array_children :: "any_map \<Rightarrow> string \<Rightarrow> (string list \<times> go_any) list" where
  "array_children m k = map (\<lambda>(i, child). ([k, index_text i], child)) (enumerate 0 (array_at m k))"

definition value_children :: "any_map \<Rightarrow> string \<Rightarrow> (string list \<times> go_any) list" where
  "value_children m k = (case map_of m k of Some v \<Rightarrow> [([k], v)] | None \<Rightarrow> [])"

definition object_keywords :: "string list" where
  "object_keywords = [''properties'', ''patternProperties'', ''$defs'']"

definition value_keywords :: "string list" where
  "value_keywords = [''additionalProperties'', ''unevaluatedProperties'', ''items'', ''contains'',
     ''unevaluatedItems'', ''not'', ''if'', ''then'', ''else'']"

definition array_keywords :: "string list" where
  "array_keywords = [''prefixItems'', ''allOf'', ''anyOf'', ''oneOf'']"

definition schema_children :: "any_map \<Rightarrow> (string list \<times> go_any) list" where
  "schema_children m =
     concat (map (object_children m) object_keywords) @
     concat (map (value_children m) value_keywords) @
     concat (map (array_children m) array_keywords)"

lemma map_entry_size: "(k, v) \<in> set m \<Longrightarrow> size v < size (AnyMap m)"
  by (induction m) fastforce+

lemma map_of_size: "map_of m k = Some v \<Longrightarrow> size v < size (AnyMap m)"
  by (rule map_entry_size) (rule map_of_SomeD)

lemma array_entry_size: "v \<in> set vs \<Longrightarrow> size v < size (AnyArr vs)"
  by (induction vs) auto

lemma object_at_size: "(n, v) \<in> set (object_at m k) \<Longrightarrow> size v < size (AnyMap m)"
  using map_entry_size [of n v "object_at m k"] map_of_size [of m k "AnyMap (object_at m k)"]
  by (auto simp: object_at_def split: option.splits go_any.splits)

lemma array_at_size: "v \<in> set (array_at m k) \<Longrightarrow> size v < size (AnyMap m)"
  using array_entry_size [of v "array_at m k"] map_of_size [of m k "AnyArr (array_at m k)"]
  by (auto simp: array_at_def split: option.splits go_any.splits)

lemma enumerate_snd: "(i, v) \<in> set (enumerate n vs) \<Longrightarrow> v \<in> set vs"
  by (auto simp: enumerate_eq_zip dest: set_zip_rightD)

lemma object_children_size: "c \<in> set (object_children m k) \<Longrightarrow> size (snd c) < size (AnyMap m)"
  by (auto simp: object_children_def simp del: go_any.size dest: object_at_size)

lemma value_children_size: "c \<in> set (value_children m k) \<Longrightarrow> size (snd c) < size (AnyMap m)"
  using map_of_size [of m k "snd c"] by (auto simp: value_children_def split: option.splits)

lemma array_children_size: "c \<in> set (array_children m k) \<Longrightarrow> size (snd c) < size (AnyMap m)"
proof -
  assume "c \<in> set (array_children m k)"
  then obtain i where "(i, snd c) \<in> set (enumerate 0 (array_at m k))" by (auto simp: array_children_def)
  from enumerate_snd [OF this] show ?thesis by (rule array_at_size)
qed

lemma schema_children_size:
  assumes "c \<in> set (schema_children m)"
  shows "size (snd c) < size (AnyMap m)"
proof -
  from assms obtain k where "c \<in> set (object_children m k) \<or> c \<in> set (value_children m k) \<or>
      c \<in> set (array_children m k)"
    by (auto simp: schema_children_def)
  then show ?thesis using object_children_size value_children_size array_children_size by blast
qed

subsection \<open>The walk\<close>

function walk_schema :: "string \<Rightarrow> go_any \<Rightarrow> (string \<times> any_map) list" where
  "walk_schema path node = (case node of
      AnyMap m \<Rightarrow> (path, m) #
        concat (map (\<lambda>c. walk_schema (pointer_join path (fst c)) (snd c)) (schema_children m))
    | _ \<Rightarrow> [])"
  by pat_completeness auto
termination
  by (relation "measure (\<lambda>(path, node). size node)") (auto simp del: go_any.size dest: schema_children_size)

declare walk_schema.simps [simp del]

lemma walk_schema_object:
  "walk_schema path (AnyMap m) =
     (path, m) # concat (map (\<lambda>c. walk_schema (pointer_join path (fst c)) (snd c)) (schema_children m))"
  by (subst walk_schema.simps) simp

lemma walk_schema_value: "as_map v = None \<Longrightarrow> walk_schema path v = []"
  by (subst walk_schema.simps) (simp split: go_any.splits)

text \<open>The positions of a schema that hold an object, by rules.\<close>

inductive schema_node :: "go_any \<Rightarrow> string list \<Rightarrow> any_map \<Rightarrow> bool" for root :: go_any where
  schema_root: "root = AnyMap m \<Longrightarrow> schema_node root [] m"
| schema_child: "schema_node root ks m \<Longrightarrow> (ss, AnyMap m') \<in> set (schema_children m) \<Longrightarrow>
    schema_node root (ks @ ss) m'"

inductive_cases schema_node_cases: "schema_node root ks m"

lemma schema_node_below:
  assumes "schema_node v ks m" and "schema_node root js n" and "(ss, v) \<in> set (schema_children n)"
  shows "schema_node root (js @ ss @ ks) m"
  using assms(1)
proof (induction rule: schema_node.induct)
  case (schema_root m)
  with assms(2,3) show ?case by (simp add: schema_node.schema_child)
next
  case (schema_child ks m ss' m')
  then show ?case using schema_node.schema_child [of root "js @ ss @ ks" m ss' m'] by simp
qed

lemma walk_schema_sound:
  "(p, m) \<in> set (walk_schema path v) \<Longrightarrow> \<exists>ks. schema_node v ks m \<and> p = pointer_join path ks"
proof (induction path v rule: walk_schema.induct)
  case (1 path node)
  show ?case
  proof (cases node)
    case (AnyMap n)
    with "1.prems" consider "p = path" "m = n"
      | c where "c \<in> set (schema_children n)" "(p, m) \<in> set (walk_schema (pointer_join path (fst c)) (snd c))"
      by (auto simp: walk_schema_object)
    then show ?thesis
    proof cases
      case 1
      with AnyMap show ?thesis by (intro exI [of _ "[]"]) (simp add: schema_root)
    next
      case 2
      with "1.IH" [OF AnyMap] obtain ks where "schema_node (snd c) ks m"
        and p: "p = pointer_join (pointer_join path (fst c)) ks" by blast
      then have "schema_node node ([] @ fst c @ ks) m"
        using 2(1) AnyMap by (cases c) (intro schema_node_below [where n = n], simp_all add: schema_root)
      with p show ?thesis by (auto simp: pointer_join_append)
    qed
  qed (use "1.prems" in \<open>simp_all add: walk_schema_value\<close>)
qed


lemma walk_schema_closed:
  assumes "(p, m) \<in> set (walk_schema path v)" and "(ss, AnyMap m') \<in> set (schema_children m)"
  shows "(pointer_join p ss, m') \<in> set (walk_schema path v)"
  using assms
proof (induction path v rule: walk_schema.induct)
  case (1 path node)
  show ?case
  proof (cases node)
    case (AnyMap n)
    with "1.prems"(1) consider "p = path" "m = n"
      | c where "c \<in> set (schema_children n)" "(p, m) \<in> set (walk_schema (pointer_join path (fst c)) (snd c))"
      by (auto simp: walk_schema_object)
    then show ?thesis
    proof cases
      case 1
      have "(pointer_join path ss, m') \<in> set (walk_schema (pointer_join path (fst (ss, AnyMap m'))) (snd (ss, AnyMap m')))"
        by (simp add: walk_schema_object)
      with 1 "1.prems"(2) AnyMap show ?thesis by (auto simp: walk_schema_object intro!: bexI [where x = "(ss, AnyMap m')"])
    next
      case 2
      have "(pointer_join p ss, m') \<in> set (walk_schema (pointer_join path (fst c)) (snd c))"
        using "1.IH" [OF AnyMap] 2 "1.prems"(2) by blast
      with 2(1) AnyMap show ?thesis by (auto simp: walk_schema_object)
    qed
  qed (use "1.prems" in \<open>simp_all add: walk_schema_value\<close>)
qed

lemma walk_schema_complete: "schema_node v ks m \<Longrightarrow> (pointer_join path ks, m) \<in> set (walk_schema path v)"
proof (induction rule: schema_node.induct)
  case (schema_root m)
  then show ?case by (simp add: walk_schema_object)
next
  case (schema_child ks m ss m')
  then show ?case using walk_schema_closed by (simp add: pointer_join_append)
qed

text \<open>The walk visits exactly the objects at schema positions, each under its pointer.\<close>

lemma walk_schema_iff:
  "(p, m) \<in> set (walk_schema path v) \<longleftrightarrow> (\<exists>ks. schema_node v ks m \<and> p = pointer_join path ks)"
  using walk_schema_sound walk_schema_complete by blast

subsection \<open>Where the printed paths lead\<close>

text \<open>
  The node a list of keys and array positions names, and whether a position of an array is on the
  way. The resolver of \<open>$ref\<close> enters objects only.
\<close>

fun follow_path :: "go_any \<Rightarrow> string list \<Rightarrow> go_any option" where
  "follow_path v [] = Some v"
| "follow_path v (k # ks) = (case v of
      AnyMap m \<Rightarrow> (case map_of m k of None \<Rightarrow> None | Some w \<Rightarrow> follow_path w ks)
    | AnyArr vs \<Rightarrow> (case map_of (map (\<lambda>(i, w). (index_text i, w)) (enumerate 0 vs)) k of
        None \<Rightarrow> None | Some w \<Rightarrow> follow_path w ks)
    | _ \<Rightarrow> None)"

fun enters_array :: "go_any \<Rightarrow> string list \<Rightarrow> bool" where
  "enters_array v [] = False"
| "enters_array v (k # ks) = (case v of
      AnyMap m \<Rightarrow> (case map_of m k of None \<Rightarrow> False | Some w \<Rightarrow> enters_array w ks)
    | AnyArr vs \<Rightarrow> True
    | _ \<Rightarrow> False)"

text \<open>Go's maps have each key once.\<close>

fun unique_keys :: "go_any \<Rightarrow> bool" where
  "unique_keys (AnyMap fs) = (distinct (map fst fs) \<and> list_all (\<lambda>(k, v). unique_keys v) fs)"
| "unique_keys (AnyArr vs) = list_all unique_keys vs"
| "unique_keys _ = True"

lemma follow_path_append:
  "follow_path v (as @ bs) = (case follow_path v as of None \<Rightarrow> None | Some w \<Rightarrow> follow_path w bs)"
  by (induction v as rule: follow_path.induct) (simp_all split: go_any.splits option.splits)

lemma follow_keys_through:
  "follow_path v ks = Some w \<Longrightarrow> follow_keys v ks = (if enters_array v ks then None else Some w)"
  by (induction v ks rule: follow_path.induct) (auto split: go_any.splits option.splits)

lemma unique_keys_entry: "unique_keys (AnyMap m) \<Longrightarrow> map_of m k = Some v \<Longrightarrow> unique_keys v"
  by (auto simp: list_all_iff dest!: map_of_SomeD)

lemma index_text_inject [simp]: "index_text i = index_text j \<longleftrightarrow> i = j"
  by (simp add: index_text_def int_text_def)

lemma object_child_follows:
  assumes "unique_keys (AnyMap m)" and "(ss, v) \<in> set (object_children m k)"
  shows "follow_path (AnyMap m) ss = Some v \<and> unique_keys v"
proof -
  from assms(2) obtain ps n where ps: "map_of m k = Some (AnyMap ps)" "ss = [k, n]" "(n, v) \<in> set ps"
    by (cases "map_of m k") (auto simp: object_children_def object_at_def split: go_any.splits)
  from unique_keys_entry [OF assms(1) ps(1)] ps(3) have "distinct (map fst ps)" "unique_keys v"
    by (auto simp: list_all_iff)
  with ps show ?thesis by simp
qed

lemma array_child_follows:
  assumes "unique_keys (AnyMap m)" and "(ss, v) \<in> set (array_children m k)"
  shows "follow_path (AnyMap m) ss = Some v \<and> unique_keys v"
proof -
  from assms(2) obtain vs i where vs: "map_of m k = Some (AnyArr vs)" "ss = [k, index_text i]" "(i, v) \<in> set (enumerate 0 vs)"
    by (cases "map_of m k") (auto simp: array_children_def array_at_def split: go_any.splits)
  let ?positions = "map (\<lambda>(i, w). (index_text i, w)) (enumerate 0 vs)"
  have "map fst ?positions = map index_text (map fst (enumerate 0 vs))"
    unfolding map_map by (rule map_cong [OF refl]) (simp add: case_prod_unfold)
  then have "distinct (map fst ?positions)" by (simp add: distinct_map inj_on_def)
  moreover have "(index_text i, v) \<in> set ?positions" using vs(3) by force
  ultimately have "map_of ?positions (index_text i) = Some v" by (rule map_of_is_SomeI)
  moreover have "unique_keys v"
    using unique_keys_entry [OF assms(1) vs(1)] enumerate_snd [OF vs(3)] by (simp add: list_all_iff)
  ultimately show ?thesis using vs by simp
qed

lemma schema_child_follows:
  assumes "unique_keys (AnyMap m)" and "(ss, v) \<in> set (schema_children m)"
  shows "follow_path (AnyMap m) ss = Some v \<and> unique_keys v"
proof -
  have "follow_path (AnyMap m) ss = Some v \<and> unique_keys v" if "(ss, v) \<in> set (value_children m k)" for k
    using that unique_keys_entry [OF assms(1)] by (auto simp: value_children_def split: option.splits)
  with assms object_child_follows array_child_follows show ?thesis
    unfolding schema_children_def set_append set_concat set_map by blast
qed

lemma schema_child_segments: "(ss, v) \<in> set (schema_children m) \<Longrightarrow> ss \<noteq> [] \<and> ss \<noteq> [[]]"
  by (auto simp: schema_children_def object_children_def value_children_def array_children_def
      object_keywords_def value_keywords_def array_keywords_def split: option.splits)

lemma schema_node_follows:
  assumes "schema_node root ks m" and "unique_keys root"
  shows "follow_path root ks = Some (AnyMap m) \<and> unique_keys (AnyMap m) \<and> ks \<noteq> [[]]"
  using assms
proof (induction rule: schema_node.induct)
  case (schema_child ks m ss m')
  with schema_child_follows [of m ss "AnyMap m'"] schema_child_segments [OF schema_child.hyps(2)] show ?case
    by (auto simp: follow_path_append append_eq_Cons_conv)
qed simp

lemma walked_path_resolves:
  assumes "unique_keys root" and "(p, m) \<in> set (walk_schema [] root)"
  shows "\<exists>ks. p = pointer_join [] ks \<and> follow_path root ks = Some (AnyMap m) \<and>
    resolve_pointer root p = (if enters_array root ks then None else Some (AnyMap m))"
proof -
  from walk_schema_sound [OF assms(2)] obtain ks where ks: "schema_node root ks m" "p = pointer_join [] ks" by blast
  from schema_node_follows [OF ks(1) assms(1)] have f: "follow_path root ks = Some (AnyMap m)" and "ks \<noteq> [[]]" by simp_all
  then have "resolve_pointer root p = (if enters_array root ks then None else Some (AnyMap m))"
    unfolding ks(2) resolve_pointer_join [OF \<open>ks \<noteq> [[]]\<close>] by (intro follow_keys_through)
  with f ks(2) show ?thesis by blast
qed

end
