(* ===== verification/Schema_Version.thy ===== *)
theory Schema_Version
  imports Schema_Walk
begin

text \<open>
  The check of \<open>internal/schema/schema.go\<close> that a schema pins \<open>schema_version\<close>: three searches that
  follow local references and end because a reference is never followed twice on a path. The set of
  seen references is a list.
\<close>

subsection \<open>One reference\<close>

datatype ref_step = No_Ref | Dead_Ref | Ref_To go_any "string list"

definition local_ref :: "any_map \<Rightarrow> string option" where
  "local_ref m = (case map_of m ''$ref'' of
      Some (AnyStr r) \<Rightarrow> if prefix ''#'' r then Some r else None | _ \<Rightarrow> None)"

definition follow_ref :: "go_any \<Rightarrow> any_map \<Rightarrow> string list \<Rightarrow> ref_step" where
  "follow_ref root m seen = (case local_ref m of
      None \<Rightarrow> No_Ref
    | Some r \<Rightarrow> if r \<in> set seen then Dead_Ref
        else (case resolve_pointer root (trim_prefix ''#'' r) of
            None \<Rightarrow> Dead_Ref | Some resolved \<Rightarrow> Ref_To resolved (r # seen)))"

text \<open>The strings of a document; a reference is one of them.\<close>

fun any_strings :: "go_any \<Rightarrow> string set" where
  "any_strings (AnyStr s) = {s}"
| "any_strings (AnyArr vs) = (\<Union>v \<in> set vs. any_strings v)"
| "any_strings (AnyMap m) = (\<Union>e \<in> set m. any_strings (snd e))"
| "any_strings _ = {}"

lemma any_strings_finite [simp]: "finite (any_strings v)"
  by (induction v rule: any_strings.induct) auto

lemma any_strings_entry: "map_of m k = Some v \<Longrightarrow> any_strings v \<subseteq> any_strings (AnyMap m)"
  by (force dest: map_of_SomeD)

lemma array_at_member: "v \<in> set (array_at m k) \<longleftrightarrow> (\<exists>vs. map_of m k = Some (AnyArr vs) \<and> v \<in> set vs)"
  by (cases "map_of m k") (auto simp: array_at_def split: go_any.splits)

lemma array_at_strings: "v \<in> set (array_at m k) \<Longrightarrow> any_strings v \<subseteq> any_strings (AnyMap m)"
  using any_strings_entry by (fastforce simp: array_at_member simp del: any_strings.simps(3))

lemma local_ref_string: "local_ref m = Some r \<Longrightarrow> r \<in> any_strings (AnyMap m)"
  using any_strings_entry [of m "''$ref''" "AnyStr r"]
  by (auto simp del: any_strings.simps(3) simp: local_ref_def split: option.splits go_any.splits if_splits)

lemma resolve_segments_strings: "resolve_segments v ks = Some w \<Longrightarrow> any_strings w \<subseteq> any_strings v"
proof (induction v ks rule: resolve_segments.induct)
  case (2 current raw rest)
  from "2.prems" obtain m x where "current = AnyMap m" "map_of m (unescape_segment raw) = Some x"
      "resolve_segments x rest = Some w"
    by (auto split: go_any.splits option.splits)
  with "2.IH" any_strings_entry show ?case by blast
qed simp

lemma resolve_pointer_strings: "resolve_pointer v p = Some w \<Longrightarrow> any_strings w \<subseteq> any_strings v"
  using resolve_segments_strings by (auto simp: resolve_pointer_def Let_def split: if_splits)

text \<open>The references still to be seen get fewer with a reference and do not get more below a node.\<close>

definition unseen_refs :: "go_any \<Rightarrow> go_any \<Rightarrow> string list \<Rightarrow> nat" where
  "unseen_refs root node seen = card ((any_strings root \<union> any_strings node) - set seen)"

lemma follow_ref_unseen:
  assumes "follow_ref root m seen = Ref_To resolved seen'"
  shows "unseen_refs root resolved seen' < unseen_refs root (AnyMap m) seen"
proof -
  from assms obtain r where r: "local_ref m = Some r" "r \<notin> set seen" and s: "seen' = r # seen"
      and t: "resolve_pointer root (trim_prefix ''#'' r) = Some resolved"
    by (auto simp: follow_ref_def split: option.splits if_splits)
  have "(any_strings root \<union> any_strings resolved) - set seen' \<subset>
      (any_strings root \<union> any_strings (AnyMap m)) - set seen"
    using r s resolve_pointer_strings [OF t] local_ref_string [OF r(1)] by auto
  then show ?thesis unfolding unseen_refs_def by (intro psubset_card_mono) simp_all
qed

lemma child_unseen:
  "v \<in> set (array_at m k) \<Longrightarrow> unseen_refs root v seen \<le> unseen_refs root (AnyMap m) seen"
  unfolding unseen_refs_def using array_at_strings by (intro card_mono) fastforce+

lemma child_measure:
  assumes "v \<in> set (array_at m k)"
  shows "unseen_refs root v seen < unseen_refs root (AnyMap m) seen \<or>
    unseen_refs root v seen = unseen_refs root (AnyMap m) seen \<and> size v < size (AnyMap m)"
  using child_unseen [OF assms, of root seen] array_at_size [OF assms] by linarith

subsection \<open>The searches\<close>

fun first_some :: "'a option list \<Rightarrow> 'a option" where
  "first_some [] = None"
| "first_some (x # xs) = (case x of Some y \<Rightarrow> Some y | None \<Rightarrow> first_some xs)"

definition own_version_const :: "any_map \<Rightarrow> string option" where
  "own_version_const m = (case map_of (object_at (object_at m ''properties'') ''schema_version'') ''const'' of
      Some (AnyStr c) \<Rightarrow> Some c | _ \<Rightarrow> None)"

function first_version_const :: "go_any \<Rightarrow> go_any \<Rightarrow> string list \<Rightarrow> string option" where
  "first_version_const root node seen = (case node of
      AnyMap m \<Rightarrow> (case follow_ref root m seen of
          Dead_Ref \<Rightarrow> None
        | Ref_To resolved seen' \<Rightarrow> first_version_const root resolved seen'
        | No_Ref \<Rightarrow> (case own_version_const m of
              Some c \<Rightarrow> Some c
            | None \<Rightarrow> first_some (concat (map
                (\<lambda>k. map (\<lambda>child. first_version_const root child seen) (array_at m k))
                [''allOf'', ''oneOf'', ''anyOf'']))))
    | _ \<Rightarrow> None)"
  by pat_completeness auto
termination
  by (relation "measures [\<lambda>(root, node, seen). unseen_refs root node seen, \<lambda>(root, node, seen). size node]")
    (auto simp del: go_any.size dest: follow_ref_unseen child_measure)

definition string_slice_contains :: "go_any \<Rightarrow> string \<Rightarrow> bool" where
  "string_slice_contains v want = (case v of AnyArr vs \<Rightarrow> list_ex (\<lambda>item. item = AnyStr want) vs | _ \<Rightarrow> False)"

function requires_version_field :: "go_any \<Rightarrow> go_any \<Rightarrow> string list \<Rightarrow> bool" where
  "requires_version_field root node seen = (case node of
      AnyMap m \<Rightarrow> (case follow_ref root m seen of
          Dead_Ref \<Rightarrow> False
        | Ref_To resolved seen' \<Rightarrow> requires_version_field root resolved seen'
        | No_Ref \<Rightarrow>
            string_slice_contains (any_get m ''required'') ''schema_version'' \<or>
            list_ex (\<lambda>k. array_at m k \<noteq> [] \<and>
              list_all (\<lambda>child. requires_version_field root child seen) (array_at m k)) [''oneOf'', ''anyOf''] \<or>
            list_ex (\<lambda>child. requires_version_field root child seen) (array_at m ''allOf''))
    | _ \<Rightarrow> False)"
  by pat_completeness auto
termination
  by (relation "measures [\<lambda>(root, node, seen). unseen_refs root node seen, \<lambda>(root, node, seen). size node]")
    (auto simp del: go_any.size dest: follow_ref_unseen child_measure)

definition mentions_version :: "go_any \<Rightarrow> go_any \<Rightarrow> string list \<Rightarrow> bool" where
  "mentions_version root node seen =
     (if first_version_const root node seen \<noteq> None then True else requires_version_field root node seen)"

definition direct_version_const :: "any_map \<Rightarrow> string \<Rightarrow> bool" where
  "direct_version_const m sid \<longleftrightarrow>
     string_slice_contains (any_get m ''required'') ''schema_version'' \<and>
     any_get (object_at (object_at m ''properties'') ''schema_version'') ''const'' = AnyStr sid"

function requires_version :: "string \<Rightarrow> go_any \<Rightarrow> go_any \<Rightarrow> string list \<Rightarrow> bool" where
  "requires_version sid root node seen = (case node of
      AnyMap m \<Rightarrow> (case follow_ref root m seen of
          Dead_Ref \<Rightarrow> False
        | Ref_To resolved seen' \<Rightarrow> requires_version sid root resolved seen'
        | No_Ref \<Rightarrow>
            direct_version_const m sid \<or>
            list_ex (\<lambda>child. requires_version sid root child seen) (array_at m ''allOf'') \<or>
            list_ex (\<lambda>child. requires_version_field root child seen) (array_at m ''allOf'') \<and>
              list_ex (\<lambda>child. first_version_const root child seen = Some sid) (array_at m ''allOf'') \<or>
            list_ex (\<lambda>k. array_at m k \<noteq> [] \<and>
              list_all (\<lambda>child. requires_version sid root child seen) (array_at m k))
              [''oneOf'', ''anyOf'', ''allOf''])
    | _ \<Rightarrow> False)"
  by pat_completeness auto
termination
  by (relation "measures [\<lambda>(sid, root, node, seen). unseen_refs root node seen, \<lambda>(sid, root, node, seen). size node]")
    (auto simp del: go_any.size dest: follow_ref_unseen child_measure)

declare first_version_const.simps [simp del] requires_version_field.simps [simp del] requires_version.simps [simp del]

definition validate_version_declaration :: "string \<Rightarrow> string \<Rightarrow> any_map \<Rightarrow> string list" where
  "validate_version_declaration file_name sid m =
     (let root = AnyMap m in
      if \<not> mentions_version root root [] then []
      else if requires_version sid root root [] then []
      else case first_version_const root root [] of
        Some got \<Rightarrow>
          if got \<noteq> sid then [file_name @ '' schema_version const = '' @ got @ '', want '' @ sid]
          else [file_name @ '' required schema_version const '' @ quoted sid @ '' is missing'']
      | None \<Rightarrow> [file_name @ '' required schema_version const '' @ quoted sid @ '' is missing''])"

end
