(* ===== verification/Schema_Keywords.thy ===== *)
theory Schema_Keywords
  imports Schema_Walk
begin

text \<open>
  The keyword checks of \<open>internal/schema/schema.go\<close> on one schema object. Each returns its problems in
  order. The compiler of ECMA regular expressions is a parameter: the error of a pattern, if any. A
  number is what \<open>encoding/json\<close> decodes without \<open>UseNumber\<close>, a \<open>float64\<close>.
\<close>

subsection \<open>Values\<close>

definition is_schema_value :: "go_any \<Rightarrow> bool" where
  "is_schema_value v = (case v of AnyBool _ \<Rightarrow> True | AnyMap _ \<Rightarrow> True | _ \<Rightarrow> False)"

definition number_value :: "go_any \<Rightarrow> float64 option" where
  "number_value v = (case v of
      AnyFloat x \<Rightarrow> Some x
    | AnyInt i \<Rightarrow> Some (if \<bar>i\<bar> \<le> 2 ^ 53 then Float64 i 0 else undefined i)
    | _ \<Rightarrow> None)"

definition is_number :: "go_any \<Rightarrow> bool" where
  "is_number v \<longleftrightarrow> number_value v \<noteq> None"

definition float_nonneg :: "float64 \<Rightarrow> bool" where
  "float_nonneg x = (case x of NegZero \<Rightarrow> True | Float64 m e \<Rightarrow> 0 \<le> m)"

definition float_positive :: "float64 \<Rightarrow> bool" where
  "float_positive x = (case x of NegZero \<Rightarrow> False | Float64 m e \<Rightarrow> 0 < m)"

text \<open>\<open>number == float64(int64(number))\<close>; the conversion is left open outside the range of 64 bits.\<close>

definition float_is_int64 :: "float64 \<Rightarrow> bool" where
  "float_is_int64 x = (case x of NegZero \<Rightarrow> True
     | Float64 m e \<Rightarrow> let n = float_truncated x in
         if - (2 ^ 63) \<le> n \<and> n < 2 ^ 63 then float_integral x else undefined x)"

definition is_non_negative_integer :: "go_any \<Rightarrow> bool" where
  "is_non_negative_integer v = (case number_value v of
      None \<Rightarrow> False | Some x \<Rightarrow> float_nonneg x \<and> float_is_int64 x)"

definition value_matches_type :: "go_any \<Rightarrow> string \<Rightarrow> bool" where
  "value_matches_type v t =
     (if t = ''array'' then (case v of AnyArr _ \<Rightarrow> True | _ \<Rightarrow> False)
      else if t = ''boolean'' then (case v of AnyBool _ \<Rightarrow> True | _ \<Rightarrow> False)
      else if t = ''integer'' then (case number_value v of None \<Rightarrow> False | Some x \<Rightarrow> float_is_int64 x)
      else if t = ''null'' then v = AnyNil
      else if t = ''number'' then is_number v
      else if t = ''object'' then (case v of AnyMap _ \<Rightarrow> True | _ \<Rightarrow> False)
      else if t = ''string'' then (case v of AnyStr _ \<Rightarrow> True | _ \<Rightarrow> False)
      else True)"

definition schema_type_values :: "go_any \<Rightarrow> string list" where
  "schema_type_values raw = (case raw of
      AnyStr t \<Rightarrow> [t]
    | AnyArr vs \<Rightarrow> concat (map (\<lambda>v. case v of AnyStr t \<Rightarrow> [t] | _ \<Rightarrow> []) vs)
    | _ \<Rightarrow> [])"

definition value_matches_type_keyword :: "go_any \<Rightarrow> go_any \<Rightarrow> bool" where
  "value_matches_type_keyword v type_raw =
     (let types = schema_type_values type_raw in
      if types = [] then True else list_ex (value_matches_type v) types)"

subsection \<open>Problems\<close>

definition problem_if :: "bool \<Rightarrow> string \<Rightarrow> string list" where
  "problem_if b message = (if b then [message] else [])"

lemma problem_if_Nil [simp]: "problem_if b m = [] \<longleftrightarrow> \<not> b"
  by (simp add: problem_if_def)

text \<open>A loop over the elements of an array with their index.\<close>

definition indexed :: "(nat \<Rightarrow> 'a \<Rightarrow> string list) \<Rightarrow> 'a list \<Rightarrow> string list" where
  "indexed f vs = concat (map (\<lambda>(i, v). f i v) (enumerate 0 vs))"

lemma indexed_Nil: "indexed f vs = [] \<longleftrightarrow> (\<forall>i < length vs. f i (vs ! i) = [])"
proof -
  have "indexed f vs = [] \<longleftrightarrow> (\<forall>p \<in> set (enumerate 0 vs). f (fst p) (snd p) = [])"
    by (auto simp: indexed_def concat_eq_Nil_conv)
  also have "\<dots> \<longleftrightarrow> (\<forall>i < length vs. f i (vs ! i) = [])"
    by (auto simp: in_set_enumerate_eq Ball_def)
  finally show ?thesis .
qed

text \<open>A keyword that, when present, must be a schema.\<close>

definition schema_valued :: "string \<Rightarrow> any_map \<Rightarrow> string \<Rightarrow> string list" where
  "schema_valued path m k = (case map_of m k of
      Some raw \<Rightarrow> problem_if (\<not> is_schema_value raw)
        (pointer_join path [k] @ '' '' @ k @ '' keyword must be a schema object or boolean'')
    | None \<Rightarrow> [])"

definition requires_properties :: "any_map \<Rightarrow> bool" where
  "requires_properties m \<longleftrightarrow> any_get m ''type'' = AnyStr ''object'' \<or>
     map_of m ''additionalProperties'' \<noteq> None \<or> map_of m ''unevaluatedProperties'' \<noteq> None"

definition required_keyword :: "string \<Rightarrow> any_map \<Rightarrow> string list" where
  "required_keyword path m = (case map_of m ''required'' of
      None \<Rightarrow> []
    | Some (AnyArr required) \<Rightarrow> (case map_of m ''properties'' of
          Some (AnyMap properties) \<Rightarrow> indexed (\<lambda>i raw. case raw of
              AnyStr fld \<Rightarrow> problem_if (map_of properties fld = None)
                (path @ '' required field '' @ quoted fld @ '' is missing from properties'')
            | _ \<Rightarrow> [path @ ''/required/'' @ index_text i @ '' required keyword must be an array of strings'']) required
        | _ \<Rightarrow> problem_if (requires_properties m) (path @ '' required keyword requires a properties object''))
    | Some _ \<Rightarrow> [path @ '' required keyword must be an array of strings''])"

definition properties_keyword :: "string \<Rightarrow> any_map \<Rightarrow> string list" where
  "properties_keyword path m = (case map_of m ''properties'' of
      None \<Rightarrow> []
    | Some (AnyMap properties) \<Rightarrow> concat (map (\<lambda>(name, definition).
        problem_if (\<not> is_schema_value definition)
          (pointer_join path [''properties'', name] @ '' property definition '' @ quoted name @
             '' must be a schema object or boolean'')) properties)
    | Some _ \<Rightarrow> [path @ ''/properties properties keyword must be an object''])"

definition pattern_properties_keyword :: "(string \<Rightarrow> string option) \<Rightarrow> string \<Rightarrow> any_map \<Rightarrow> string list" where
  "pattern_properties_keyword regex path m = (case map_of m ''patternProperties'' of
      None \<Rightarrow> []
    | Some (AnyMap patterns) \<Rightarrow> concat (map (\<lambda>(pattern, definition).
        let child_path = pointer_join path [''patternProperties'', pattern] in
        (case regex pattern of
           Some e \<Rightarrow> [child_path @ '' patternProperties pattern '' @ quoted pattern @
             '' must compile as ECMA regex: '' @ e]
         | None \<Rightarrow> []) @
        problem_if (\<not> is_schema_value definition)
          (child_path @ '' patternProperties definition '' @ quoted pattern @ '' must be a schema object or boolean''))
        patterns)
    | Some _ \<Rightarrow> [path @ ''/patternProperties patternProperties keyword must be an object''])"

definition boundary_keywords :: "string \<Rightarrow> any_map \<Rightarrow> string list" where
  "boundary_keywords path m =
     concat (map (schema_valued path m) [''additionalProperties'', ''unevaluatedProperties'', ''unevaluatedItems''])"

definition array_schema_keywords :: "string \<Rightarrow> any_map \<Rightarrow> string list" where
  "array_schema_keywords path m =
     concat (map (schema_valued path m) [''items'', ''contains'']) @
     (case map_of m ''prefixItems'' of
        None \<Rightarrow> []
      | Some (AnyArr items) \<Rightarrow> indexed (\<lambda>i item. problem_if (\<not> is_schema_value item)
          (pointer_join path [''prefixItems'', index_text i] @ '' prefixItems entry must be a schema object or boolean'')) items
      | Some _ \<Rightarrow> [pointer_join path [''prefixItems''] @ '' prefixItems keyword must be an array''])"

definition composition_keyword :: "string \<Rightarrow> any_map \<Rightarrow> string \<Rightarrow> string list" where
  "composition_keyword path m k = (case map_of m k of
      None \<Rightarrow> []
    | Some (AnyArr (c # cs)) \<Rightarrow> indexed (\<lambda>i child. problem_if (\<not> is_schema_value child)
        (pointer_join path [k, index_text i] @ '' '' @ k @ '' entry must be a schema object or boolean'')) (c # cs)
    | Some _ \<Rightarrow> [pointer_join path [k] @ '' '' @ k @ '' keyword must be a non-empty array''])"

definition composition_keywords :: "string \<Rightarrow> any_map \<Rightarrow> string list" where
  "composition_keywords path m =
     concat (map (composition_keyword path m) [''allOf'', ''anyOf'', ''oneOf'']) @ schema_valued path m ''not''"

definition conditional_keywords :: "string \<Rightarrow> any_map \<Rightarrow> string list" where
  "conditional_keywords path m = concat (map (schema_valued path m) [''if'', ''then'', ''else''])"

text \<open>The types a schema may name, each at most once.\<close>

definition json_types :: "string list" where
  "json_types = [''array'', ''boolean'', ''integer'', ''null'', ''number'', ''object'', ''string'']"

definition type_names_message :: string where
  "type_names_message =
     '' type keyword must be one of array, boolean, integer, null, number, object, string''"

fun type_values :: "(nat \<Rightarrow> string) \<Rightarrow> nat \<Rightarrow> string list \<Rightarrow> go_any list \<Rightarrow> string list" where
  "type_values value_path i seen [] = []"
| "type_values value_path i seen (v # vs) = (case v of
      AnyStr t \<Rightarrow>
        if t \<notin> set json_types then (value_path i @ type_names_message) # type_values value_path (Suc i) seen vs
        else problem_if (t \<in> set seen) (value_path i @ '' type keyword must not contain duplicates'') @
          type_values value_path (Suc i) (t # seen) vs
    | _ \<Rightarrow> (value_path i @ type_names_message) # type_values value_path (Suc i) seen vs)"

definition type_keyword :: "string \<Rightarrow> go_any \<Rightarrow> string list" where
  "type_keyword path raw = (case raw of
      AnyStr t \<Rightarrow> type_values (\<lambda>_. path) 0 [] [AnyStr t]
    | AnyArr vs \<Rightarrow>
        if vs = [] then [path @ type_names_message]
        else type_values (\<lambda>i. pointer_join path [index_text i]) 0 [] vs
    | _ \<Rightarrow> [path @ type_names_message])"

fun enum_values :: "string \<Rightarrow> nat \<Rightarrow> string list \<Rightarrow> go_any list \<Rightarrow> string list" where
  "enum_values path i seen [] = []"
| "enum_values path i seen (v # vs) =
     problem_if (any_text v \<in> set seen)
       (pointer_join path [index_text i] @ '' enum keyword must not contain duplicate values'') @
     enum_values path (Suc i) (any_text v # seen) vs"

definition enum_keyword :: "string \<Rightarrow> go_any \<Rightarrow> string list" where
  "enum_keyword path raw = (case raw of
      AnyArr vs \<Rightarrow> if vs = [] then [path @ '' enum keyword must be a non-empty array''] else enum_values path 0 [] vs
    | _ \<Rightarrow> [path @ '' enum keyword must be a non-empty array''])"

text \<open>A check of the value of a keyword that may be absent.\<close>

definition when_present :: "any_map \<Rightarrow> string \<Rightarrow> (go_any \<Rightarrow> string list) \<Rightarrow> string list" where
  "when_present m k f = (case map_of m k of None \<Rightarrow> [] | Some raw \<Rightarrow> f raw)"

definition pattern_keyword :: "(string \<Rightarrow> string option) \<Rightarrow> string \<Rightarrow> go_any \<Rightarrow> string list" where
  "pattern_keyword regex path raw = (case raw of
      AnyStr pattern \<Rightarrow> (case regex pattern of
          Some e \<Rightarrow> [path @ '' pattern keyword must compile as ECMA regex: '' @ e] | None \<Rightarrow> [])
    | _ \<Rightarrow> [path @ '' pattern keyword must be a string''])"

definition format_keyword :: "string \<Rightarrow> go_any \<Rightarrow> string list" where
  "format_keyword path raw = problem_if (case raw of AnyStr f \<Rightarrow> trim_space f = [] | _ \<Rightarrow> True)
     (path @ '' format keyword must be a non-empty string'')"

definition multiple_of_keyword :: "string \<Rightarrow> go_any \<Rightarrow> string list" where
  "multiple_of_keyword path raw = problem_if (case number_value raw of None \<Rightarrow> True | Some x \<Rightarrow> \<not> float_positive x)
     (path @ '' multipleOf keyword must be a number greater than zero'')"

definition const_keyword :: "string \<Rightarrow> any_map \<Rightarrow> go_any \<Rightarrow> string list" where
  "const_keyword path m raw = (case map_of m ''type'' of
      None \<Rightarrow> []
    | Some type_raw \<Rightarrow> problem_if (\<not> value_matches_type_keyword raw type_raw)
        (path @ '' const keyword must match the sibling type keyword''))"

definition scalar_keywords :: "(string \<Rightarrow> string option) \<Rightarrow> string \<Rightarrow> any_map \<Rightarrow> string list" where
  "scalar_keywords regex path m =
     when_present m ''pattern'' (pattern_keyword regex (pointer_join path [''pattern''])) @
     when_present m ''format'' (format_keyword (pointer_join path [''format''])) @
     concat (map (\<lambda>k. when_present m k (\<lambda>raw. problem_if (\<not> is_non_negative_integer raw)
       (pointer_join path [k] @ '' '' @ k @ '' keyword must be a non-negative integer''))) [''minLength'', ''maxLength'']) @
     concat (map (\<lambda>k. when_present m k (\<lambda>raw. problem_if (\<not> is_number raw)
       (pointer_join path [k] @ '' '' @ k @ '' keyword must be a number'')))
       [''minimum'', ''maximum'', ''exclusiveMinimum'', ''exclusiveMaximum'']) @
     when_present m ''multipleOf'' (multiple_of_keyword (pointer_join path [''multipleOf''])) @
     when_present m ''type'' (type_keyword (pointer_join path [''type''])) @
     when_present m ''enum'' (enum_keyword (pointer_join path [''enum''])) @
     when_present m ''const'' (const_keyword (pointer_join path [''const'']) m)"

subsection \<open>All keywords of all objects\<close>

definition node_problems :: "(string \<Rightarrow> string option) \<Rightarrow> string \<Rightarrow> any_map \<Rightarrow> string list" where
  "node_problems regex path m =
     required_keyword path m @ properties_keyword path m @ pattern_properties_keyword regex path m @
     boundary_keywords path m @ array_schema_keywords path m @ composition_keywords path m @
     conditional_keywords path m @ scalar_keywords regex path m"

definition validate_required_properties :: "(string \<Rightarrow> string option) \<Rightarrow> any_map \<Rightarrow> string list" where
  "validate_required_properties regex schema =
     concat (map (\<lambda>(path, m). node_problems regex path m) (walk_schema ''#'' (AnyMap schema)))"

definition reference_problems :: "any_map \<Rightarrow> string list \<Rightarrow> string \<Rightarrow> any_map \<Rightarrow> string list" where
  "reference_problems schema registered_ids path m = (case map_of m ''$ref'' of
      Some (AnyStr ref) \<Rightarrow>
        if prefix ''#'' ref then
          problem_if (resolve_pointer (AnyMap schema) (trim_prefix ''#'' ref) = None)
            (pointer_join path [''$ref''] @ '' unresolved local $ref '' @ quoted ref)
        else problem_if (ref \<notin> set registered_ids)
            (pointer_join path [''$ref''] @ '' unregistered external $ref '' @ quoted ref)
    | _ \<Rightarrow> [])"

definition validate_schema_refs :: "any_map \<Rightarrow> string list \<Rightarrow> string list" where
  "validate_schema_refs schema registered_ids =
     concat (map (\<lambda>(path, m). reference_problems schema registered_ids path m) (walk_schema ''#'' (AnyMap schema)))"

end
