(* ===== verification/Schema_Registry.thy ===== *)
theory Schema_Registry
  imports Schema_Version Schema_Keywords Go_IO
begin

text \<open>
  The registry of \<open>internal/schema/schema.go\<close>: the table of public schemas, the invariant that
  \<open>ValidateRegistry\<close> checks on it and on the embedded schema files, look-up, catalogue and export.
  The embedded files are a function from names to their bytes, and the decoding of a JSON object is
  a parameter.
\<close>

subsection \<open>The table\<close>

record required_schema_entry =
  rq_file_name :: string
  rq_id :: string
  rq_schema_path :: string

definition required_schema :: "string \<Rightarrow> string \<Rightarrow> required_schema_entry" where
  "required_schema file_name sid =
     \<lparr>rq_file_name = file_name, rq_id = sid, rq_schema_path = ''schemas/'' @ file_name\<rparr>"

definition required_schema_table :: "required_schema_entry list" where
  "required_schema_table =
     [required_schema ''covenant.contract.v1.schema.json'' ''covenant.contract.v1'',
      required_schema ''covenant.task.v1.schema.json'' ''covenant.task.v1'',
      required_schema ''covenant.event.v1.schema.json'' ''covenant.event.v1'',
      required_schema ''covenant.artifact-ref.v1.schema.json'' ''covenant.artifact-ref.v1'',
      required_schema ''covenant.input-snapshot.v1.schema.json'' ''covenant.input-snapshot.v1'',
      required_schema ''covenant.policy-decision.v1.schema.json'' ''covenant.policy-decision.v1'',
      required_schema ''covenant.approval-ticket.v1.schema.json'' ''covenant.approval-ticket.v1'',
      required_schema ''covenant.live-docs-approval-ticket.v1.schema.json'' ''covenant.live-docs-approval-ticket.v1'',
      required_schema ''covenant.mutation-class-authority-ticket.v1.schema.json'' ''covenant.mutation-class-authority-ticket.v1'',
      required_schema ''covenant.low-risk-code-live-policy.v1.schema.json'' ''covenant.low-risk-code-live-policy.v1'',
      required_schema ''covenant.autonomous-repair-governance-policy.v1.schema.json'' ''covenant.autonomous-repair-governance-policy.v1'',
      required_schema ''covenant.autonomous-repair-governance-request.v1.schema.json'' ''covenant.autonomous-repair-governance-request.v1'',
      required_schema ''covenant.autonomous-repair-github-execution-policy.v1.schema.json'' ''covenant.autonomous-repair-github-execution-policy.v1'',
      required_schema ''covenant.live-self-change-authority.v1.schema.json'' ''covenant.live-self-change-authority.v1'',
      required_schema ''covenant.live-mutation-authority.v1.schema.json'' ''covenant.live-mutation-authority.v1'',
      required_schema ''covenant.gateway-intent-authority-denial.v1.schema.json'' ''covenant.gateway-intent-authority-denial.v1'',
      required_schema ''covenant.telegram-intent-authority-denial.v1.schema.json'' ''covenant.telegram-intent-authority-denial.v1'',
      required_schema ''covenant.a2a-intent-authority-denial.v1.schema.json'' ''covenant.a2a-intent-authority-denial.v1'',
      required_schema ''covenant.gateway-scheduler-authority-denial-bundle.v1.schema.json'' ''covenant.gateway-scheduler-authority-denial-bundle.v1'',
      required_schema ''covenant.scheduler-recovery-authority-denial.v1.schema.json'' ''covenant.scheduler-recovery-authority-denial.v1'',
      required_schema ''covenant.approval-revocations.v1.schema.json'' ''covenant.approval-revocations.v1'',
      required_schema ''covenant.approval-create-result.v1.schema.json'' ''covenant.approval-create-result.v1'',
      required_schema ''covenant.approval-validate-result.v1.schema.json'' ''covenant.approval-validate-result.v1'',
      required_schema ''covenant.approval-attach-result.v1.schema.json'' ''covenant.approval-attach-result.v1'',
      required_schema ''covenant.approval-revoke-result.v1.schema.json'' ''covenant.approval-revoke-result.v1'',
      required_schema ''covenant.approval-revocations-inspect-result.v1.schema.json'' ''covenant.approval-revocations-inspect-result.v1'',
      required_schema ''covenant.report-redaction-policy.v1.schema.json'' ''covenant.report-redaction-policy.v1'',
      required_schema ''covenant.lint-sarif-baseline.v1.schema.json'' ''covenant.lint-sarif-baseline.v1'',
      required_schema ''covenant.lint-result.v1.schema.json'' ''covenant.lint-result.v1'',
      required_schema ''covenant.schema-validation-report.v1.schema.json'' ''covenant.schema-validation-report.v1'',
      required_schema ''covenant.run-result.v1.schema.json'' ''covenant.run-result.v1'',
      required_schema ''covenant.self-run-result.v1.schema.json'' ''covenant.self-run-result.v1'',
      required_schema ''covenant.compile-result.v1.schema.json'' ''covenant.compile-result.v1'',
      required_schema ''covenant.compile-summary.v1.schema.json'' ''covenant.compile-summary.v1'',
      required_schema ''covenant.verify-result.v1.schema.json'' ''covenant.verify-result.v1'',
      required_schema ''covenant.version-result.v1.schema.json'' ''covenant.version-result.v1'',
      required_schema ''covenant.release-manifest.v1.schema.json'' ''covenant.release-manifest.v1'',
      required_schema ''covenant.release-package-result.v1.schema.json'' ''covenant.release-package-result.v1'',
      required_schema ''covenant.release-verify-result.v1.schema.json'' ''covenant.release-verify-result.v1'',
      required_schema ''covenant.release-diff-result.v1.schema.json'' ''covenant.release-diff-result.v1'',
      required_schema ''covenant.release-signature.v1.schema.json'' ''covenant.release-signature.v1'',
      required_schema ''covenant.release-inspect-result.v1.schema.json'' ''covenant.release-inspect-result.v1'',
      required_schema ''covenant.release-report-result.v1.schema.json'' ''covenant.release-report-result.v1'',
      required_schema ''covenant.release-consumer-smoke-result.v1.schema.json'' ''covenant.release-consumer-smoke-result.v1'',
      required_schema ''covenant.release-fixture-index.v1.schema.json'' ''covenant.release-fixture-index.v1'',
      required_schema ''covenant.release-attestation-fixture.v1.schema.json'' ''covenant.release-attestation-fixture.v1'',
      required_schema ''covenant.release-readiness-summary.v1.schema.json'' ''covenant.release-readiness-summary.v1'',
      required_schema ''covenant.release-dry-run-artifact-audit.v1.schema.json'' ''covenant.release-dry-run-artifact-audit.v1'',
      required_schema ''covenant.release-replacement-policy.v1.schema.json'' ''covenant.release-replacement-policy.v1'',
      required_schema ''covenant.release-replacement-preflight-report.v1.schema.json'' ''covenant.release-replacement-preflight-report.v1'',
      required_schema ''covenant.policy-explain-result.v1.schema.json'' ''covenant.policy-explain-result.v1'',
      required_schema ''covenant.policy-index-result.v1.schema.json'' ''covenant.policy-index-result.v1'',
      required_schema ''covenant.policy-spine-result.v1.schema.json'' ''covenant.policy-spine-result.v1'',
      required_schema ''covenant.scoped-credential-policy-checklist.v1.schema.json'' ''covenant.scoped-credential-policy-checklist.v1'',
      required_schema ''covenant.rsi-claim-publish-gate.v1.schema.json'' ''covenant.rsi-claim-publish-gate.v1'',
      required_schema ''covenant.schema-catalog-result.v1.schema.json'' ''covenant.schema-catalog-result.v1'',
      required_schema ''covenant.schema-export-result.v1.schema.json'' ''covenant.schema-export-result.v1'',
      required_schema ''covenant.bundle-inspect-result.v1.schema.json'' ''covenant.bundle-inspect-result.v1'',
      required_schema ''covenant.bundle-report-result.v1.schema.json'' ''covenant.bundle-report-result.v1'',
      required_schema ''covenant.bundle-export-result.v1.schema.json'' ''covenant.bundle-export-result.v1'',
      required_schema ''covenant.bundle-keygen-result.v1.schema.json'' ''covenant.bundle-keygen-result.v1'',
      required_schema ''covenant.bundle-private-key.v1.schema.json'' ''covenant.bundle-private-key.v1'',
      required_schema ''covenant.bundle-public-key.v1.schema.json'' ''covenant.bundle-public-key.v1'',
      required_schema ''covenant.bundle-signature.v1.schema.json'' ''covenant.bundle-signature.v1'',
      required_schema ''covenant.closure-matrix.v1.schema.json'' ''covenant.closure-matrix.v1'',
      required_schema ''covenant.contract-ownership-matrix.v1.schema.json'' ''covenant.contract-ownership-matrix.v1'',
      required_schema ''covenant.schema-deprecation-ledger.v1.schema.json'' ''covenant.schema-deprecation-ledger.v1'',
      required_schema ''covenant.registry-compatibility-ci-handoff.v1.schema.json'' ''covenant.registry-compatibility-ci-handoff.v1'',
      required_schema ''covenant.producer-consumer-contract-digest-comparison.v1.schema.json'' ''covenant.producer-consumer-contract-digest-comparison.v1'',
      required_schema ''covenant.compatibility-matrix-stale-owner-warning.v1.schema.json'' ''covenant.compatibility-matrix-stale-owner-warning.v1'',
      required_schema ''covenant.failure.v1.schema.json'' ''covenant.failure.v1'',
      required_schema ''covenant.evidence-bundle.v1.schema.json'' ''covenant.evidence-bundle.v1'',
      required_schema ''covenant.evidence-pack.v1.schema.json'' ''covenant.evidence-pack.v1'']"

text \<open>\<open>requiredSchemasByID\<close>: a later entry of the same id replaces an earlier one.\<close>

definition schemas_by_id :: "string \<Rightarrow> required_schema_entry option" where
  "schemas_by_id = map_of (rev (map (\<lambda>e. (rq_id e, e)) required_schema_table))"

definition required_schema_by_id :: "string \<Rightarrow> required_schema_entry option" where
  "required_schema_by_id sid = schemas_by_id sid"

definition known_schema_id :: "string \<Rightarrow> bool" where
  "known_schema_id sid \<longleftrightarrow> schemas_by_id sid \<noteq> None"

record catalog_entry =
  ce_id :: string
  ce_file_name :: string
  ce_schema_path :: string

definition catalog :: "catalog_entry list" where
  "catalog = map (\<lambda>e. \<lparr>ce_id = rq_id e, ce_file_name = rq_file_name e, ce_schema_path = rq_schema_path e\<rparr>)
     required_schema_table"

subsection \<open>Names\<close>

text \<open>\<open>^covenant\.[a-z0-9][a-z0-9.-]*\.v[0-9]+$\<close>, read from both ends.\<close>

definition id_char :: "char \<Rightarrow> bool" where
  "id_char c \<longleftrightarrow> is_lower c \<or> is_digit c \<or> c = CHR ''.'' \<or> c = CHR ''-''"

definition schema_id_pattern :: "string \<Rightarrow> bool" where
  "schema_id_pattern s =
     (let pre = ''covenant.''; body = drop (length pre) s;
          digits = takeWhile is_digit (rev body); rest = rev (dropWhile is_digit (rev body))
      in prefix pre s \<and> digits \<noteq> [] \<and> suffix ''.v'' rest \<and>
         (case take (length rest - 2) rest of
            [] \<Rightarrow> False | c # w \<Rightarrow> (is_lower c \<or> is_digit c) \<and> list_all id_char w))"

definition schema_naming :: "required_schema_entry \<Rightarrow> string list" where
  "schema_naming e =
     (let want_file = rq_id e @ ''.schema.json''; want_path = ''schemas/'' @ want_file in
      problem_if (\<not> schema_id_pattern (rq_id e))
        (''schema id '' @ quoted (rq_id e) @ '' must be lowercase covenant.<name>.vN'') @
      problem_if (rq_file_name e \<noteq> want_file)
        (''schema file for '' @ quoted (rq_id e) @ '' = '' @ quoted (rq_file_name e) @ '', want '' @ quoted want_file) @
      problem_if (rq_schema_path e \<noteq> want_path)
        (''schema path for '' @ quoted (rq_id e) @ '' = '' @ quoted (rq_schema_path e) @ '', want '' @ quoted want_path))"

text \<open>The first loop, with the entries seen so far.\<close>

fun entry_problems :: "required_schema_entry list \<Rightarrow> required_schema_entry list \<Rightarrow> string list" where
  "entry_problems seen [] = []"
| "entry_problems seen (e # es) =
     problem_if (rq_id e \<in> set (map rq_id seen)) (''duplicate schema id '' @ quoted (rq_id e)) @
     problem_if (rq_file_name e \<in> set (map rq_file_name seen)) (''duplicate schema file '' @ quoted (rq_file_name e)) @
     problem_if (rq_schema_path e \<in> set (map rq_schema_path seen))
       (''duplicate schema path '' @ quoted (rq_schema_path e)) @
     schema_naming e @ entry_problems (e # seen) es"

subsection \<open>Embedded files\<close>

text \<open>\<open>fmt\<close>'s \<open>%v\<close> of a decoded value. Floating-point numbers it prints with an exponent or a
  fraction are left open.\<close>

fun value_text :: "go_any \<Rightarrow> string" where
  "value_text AnyNil = ''<nil>''"
| "value_text (AnyBool b) = (if b then ''true'' else ''false'')"
| "value_text (AnyFloat x) = (case x of NegZero \<Rightarrow> ''-0''
     | _ \<Rightarrow> if float_integral x \<and> \<bar>float_truncated x\<bar> < 1000000 then int_text (float_truncated x) else undefined x)"
| "value_text (AnyInt i) = int_text i"
| "value_text (AnyStr s) = s"
| "value_text (AnyArr vs) = ''['' @ join_with '' '' (map value_text vs) @ '']''"
| "value_text (AnyMap fs) =
     ''map['' @ join_with '' '' (map snd (sort_key fst (map (\<lambda>(k, v). (k, k @ '':'' @ value_text v)) fs))) @ '']''"

definition public_schema_draft :: string where
  "public_schema_draft = ''https://json-schema.org/draft/2020-12/schema''"

definition closed_problems :: "string \<Rightarrow> any_map \<Rightarrow> string list" where
  "closed_problems file_name m = (case map_of m ''additionalProperties'' of
      Some got \<Rightarrow> problem_if (got \<noteq> AnyBool False)
        (file_name @ '' additionalProperties = '' @ value_text got @ '', want false'')
    | None \<Rightarrow> problem_if (any_get m ''unevaluatedProperties'' \<noteq> AnyBool False)
        (file_name @ '' additionalProperties or unevaluatedProperties = '' @
           value_text (any_get m ''unevaluatedProperties'') @ '', want false''))"

definition document_problems :: "(string \<Rightarrow> string option) \<Rightarrow> string list \<Rightarrow> string \<Rightarrow> string \<Rightarrow> any_map \<Rightarrow> string list" where
  "document_problems regex registered_ids file_name sid m =
     problem_if (any_get m ''$id'' \<noteq> AnyStr sid)
       (file_name @ '' $id = '' @ value_text (any_get m ''$id'') @ '', want '' @ sid) @
     problem_if (any_get m ''$schema'' \<noteq> AnyStr public_schema_draft)
       (file_name @ '' $schema = '' @ value_text (any_get m ''$schema'') @ '', want '' @ public_schema_draft) @
     problem_if (any_get m ''type'' \<noteq> AnyStr ''object'')
       (file_name @ '' type = '' @ value_text (any_get m ''type'') @ '', want object'') @
     closed_problems file_name m @
     validate_version_declaration file_name sid m @
     validate_required_properties regex m @
     validate_schema_refs m registered_ids"

record schema_source =
  ss_files :: "string \<Rightarrow> string go_result"
  ss_decode :: "string \<Rightarrow> any_map go_result"
  ss_regex :: "string \<Rightarrow> string option"

definition registered_file :: "required_schema_entry list \<Rightarrow> string \<Rightarrow> required_schema_entry option" where
  "registered_file required = map_of (rev (map (\<lambda>e. (rq_file_name e, e)) required))"

definition embedded_problems :: "schema_source \<Rightarrow> required_schema_entry list \<Rightarrow> string \<Rightarrow> string list" where
  "embedded_problems src required file_name = (case registered_file required file_name of
      None \<Rightarrow> [''unregistered embedded schema '' @ quoted file_name]
    | Some e \<Rightarrow> (case ss_files src file_name of
        Inl err \<Rightarrow> [''read embedded schema '' @ quoted file_name @ '': '' @ error_text err]
      | Inr bytes \<Rightarrow> (case ss_decode src bytes of
          Inl err \<Rightarrow> [''parse embedded schema '' @ quoted file_name @ '': '' @ error_text err]
        | Inr parsed \<Rightarrow> document_problems (ss_regex src) (map rq_id required) file_name (rq_id e) parsed)))"

definition missing_problems :: "required_schema_entry list \<Rightarrow> string list \<Rightarrow> string list" where
  "missing_problems required schema_files = concat (map (\<lambda>e.
     problem_if (rq_file_name e \<notin> set schema_files)
       (''registered schema '' @ quoted (rq_id e) @ '' missing embedded file '' @ quoted (rq_file_name e))) required)"

definition registry_problems :: "schema_source \<Rightarrow> required_schema_entry list \<Rightarrow> string list \<Rightarrow> string list" where
  "registry_problems src required schema_files =
     entry_problems [] required @
     concat (map (embedded_problems src required) schema_files) @
     missing_problems required schema_files"

definition validate_required_schemas :: "schema_source \<Rightarrow> required_schema_entry list \<Rightarrow> string list \<Rightarrow> go_error option" where
  "validate_required_schemas src required schema_files =
     (let problems = registry_problems src required schema_files in
      fail_if (problems \<noteq> [])
        (Errorf (''schema registry invariant violations: '' @ join_with ''; '' problems)))"

text \<open>The entries of the embedded directory: names, and whether they are directories.\<close>

definition embedded_schema_file_names :: "(string \<times> bool) list \<Rightarrow> string list" where
  "embedded_schema_file_names entries =
     map fst (filter (\<lambda>(name, is_dir). \<not> is_dir \<and> suffix ''.schema.json'' name) entries)"

definition validate_registry :: "schema_source \<Rightarrow> (string \<times> bool) list go_result \<Rightarrow> go_error option" where
  "validate_registry src entries = (case entries of
      Inl e \<Rightarrow> Some (Errorf (''read embedded schemas: '' @ error_text e))
    | Inr es \<Rightarrow> validate_required_schemas src required_schema_table (embedded_schema_file_names es))"

subsection \<open>Export\<close>

record exported_schema =
  xs_id :: string
  xs_file_name :: string
  xs_schema_path :: string
  xs_written_path :: string

definition export_entry :: "schema_source \<Rightarrow> string \<Rightarrow> string \<Rightarrow> required_schema_entry \<Rightarrow> exported_schema list \<Rightarrow> exported_schema list io" where
  "export_entry src cwd out_dir e exported =
     (let written_path = path_join [out_dir, rq_file_name e] in
      io_bind (io_wrap (''read embedded schema '' @ rq_file_name e @ '': '') (io_result (ss_files src (rq_file_name e))))
        (\<lambda>bytes. io_bind (io_wrap (''write schema '' @ written_path @ '': '') (io_write cwd written_path bytes))
        (\<lambda>_. io_return (exported @ [\<lparr>xs_id = rq_id e, xs_file_name = rq_file_name e,
           xs_schema_path = rq_schema_path e, xs_written_path = written_path\<rparr>]))))"

definition export_schemas :: "schema_source \<Rightarrow> string \<Rightarrow> string \<Rightarrow> exported_schema list io" where
  "export_schemas src cwd out_dir =
     io_bind (io_wrap ''create schema export directory: '' (io_mkdir_all cwd out_dir))
       (\<lambda>_. io_fold (export_entry src cwd out_dir) required_schema_table [])"

end
