(* ===== verification/Schema_Document.thy ===== *)
theory Schema_Document
  imports Schema_Registry
begin

text \<open>
  Validation of documents in \<open>internal/schema/schema.go\<close>: the compilation of the embedded schemas, the
  verdict on a document with the location of its first problem, and the writing of a validated
  document. The schema engine and the JSON decoder are parameters; the numbers of a decoded value
  are only carried along here. An error keeps the engine's error that it wraps.
\<close>

subsection \<open>Errors of the engine\<close>

datatype validation_error = Validation_Error (ve_location: "string list") (ve_causes: "validation_error list")

datatype schema_error = Schema_Error (se_text: string) (se_cause: "validation_error option")

type_synonym 'a schema_result = "schema_error + 'a"

text \<open>\<open>fmt.Errorf("label: %w", err)\<close>\<close>

definition schema_wrap :: "string \<Rightarrow> 'a schema_result \<Rightarrow> 'a schema_result" where
  "schema_wrap label r = (case r of
      Inl e \<Rightarrow> Inl (Schema_Error (label @ se_text e) (se_cause e)) | Inr x \<Rightarrow> Inr x)"

definition plain_error :: "string \<Rightarrow> schema_error" where
  "plain_error message = Schema_Error message None"

definition schema_bind :: "'a schema_result \<Rightarrow> ('a \<Rightarrow> 'b schema_result) \<Rightarrow> 'b schema_result" where
  "schema_bind r k = (case r of Inl e \<Rightarrow> Inl e | Inr x \<Rightarrow> k x)"

lemma schema_bind_Inr: "schema_bind r k = Inr y \<longleftrightarrow> (\<exists>x. r = Inr x \<and> k x = Inr y)"
  by (cases r) (simp_all add: schema_bind_def)

lemma schema_wrap_Inr [simp]: "schema_wrap label r = Inr x \<longleftrightarrow> r = Inr x"
  by (cases r) (simp_all add: schema_wrap_def)

definition instance_pointer :: "string list \<Rightarrow> string" where
  "instance_pointer segments =
     (if segments = [] then ''/'' else slash # join_with [slash] (map escape_segment segments))"

text \<open>The first cause that has a location below the document, or the error's own location.\<close>

fun deepest_location :: "validation_error \<Rightarrow> string" where
  "deepest_location (Validation_Error loc causes) =
     (case find (\<lambda>l. l \<noteq> [] \<and> l \<noteq> ''/'') (map deepest_location causes) of
        Some l \<Rightarrow> l | None \<Rightarrow> instance_pointer loc)"

definition validation_error_location :: "schema_error \<Rightarrow> string" where
  "validation_error_location e = (case se_cause e of Some v \<Rightarrow> deepest_location v | None \<Rightarrow> [])"

subsection \<open>Compilation\<close>

definition schema_resource_uri :: "string \<Rightarrow> string" where
  "schema_resource_uri sid = ''https://ao-covenant.local/schemas/'' @ sid"

fun embedded_schema_for_compiler :: "string \<Rightarrow> go_any \<Rightarrow> go_any" where
  "embedded_schema_for_compiler sid (AnyMap fs) = AnyMap (map (\<lambda>(k, v).
     (k, if k = ''$id'' then AnyStr (schema_resource_uri sid)
         else if k = ''$ref'' then (case v of
             AnyStr r \<Rightarrow> if known_schema_id r then AnyStr (schema_resource_uri r)
                         else embedded_schema_for_compiler sid v
           | _ \<Rightarrow> embedded_schema_for_compiler sid v)
         else embedded_schema_for_compiler sid v)) fs)"
| "embedded_schema_for_compiler sid (AnyArr vs) = AnyArr (map (embedded_schema_for_compiler sid) vs)"
| "embedded_schema_for_compiler sid v = v"

text \<open>
  The engine: decoding one value of a text and whether the text ends after it, adding a resource to
  the compiler, and compiling a resource of those added into a verdict on values.
\<close>

type_synonym verdict = "go_any \<Rightarrow> schema_error option"

record schema_engine =
  en_source :: schema_source
  en_decode :: "string \<Rightarrow> (go_any \<times> bool) go_result"
  en_add :: "(string \<times> go_any) list \<Rightarrow> string \<Rightarrow> go_any \<Rightarrow> schema_error option"
  en_compile :: "(string \<times> go_any) list \<Rightarrow> string \<Rightarrow> verdict schema_result"

definition lift_error :: "'a go_result \<Rightarrow> 'a schema_result" where
  "lift_error r = (case r of Inl e \<Rightarrow> Inl (plain_error (error_text e)) | Inr x \<Rightarrow> Inr x)"

lemma lift_error_Inr [simp]: "lift_error r = Inr x \<longleftrightarrow> r = Inr x"
  by (cases r) (simp_all add: lift_error_def)

fun add_resources :: "schema_engine \<Rightarrow> required_schema_entry list \<Rightarrow> (string \<times> go_any) list \<Rightarrow>
    (string \<times> go_any) list schema_result" where
  "add_resources eng [] added = Inr added"
| "add_resources eng (e # es) added =
     schema_bind (schema_wrap (''read embedded schema '' @ rq_file_name e @ '': '')
         (lift_error (ss_files (en_source eng) (rq_file_name e)))) (\<lambda>bytes.
     schema_bind (schema_wrap (''parse embedded schema '' @ rq_file_name e @ '': '')
         (lift_error (en_decode eng bytes))) (\<lambda>(parsed, _).
     let uri = schema_resource_uri (rq_id e); resource = embedded_schema_for_compiler (rq_id e) parsed in
     case en_add eng added uri resource of
       Some err \<Rightarrow> schema_wrap (''register schema '' @ rq_id e @ '': '') (Inl err)
     | None \<Rightarrow> add_resources eng es (added @ [(uri, resource)])))"

fun compile_each :: "schema_engine \<Rightarrow> (string \<times> go_any) list \<Rightarrow> required_schema_entry list \<Rightarrow>
    (string \<times> verdict) list \<Rightarrow> (string \<times> verdict) list schema_result" where
  "compile_each eng added [] compiled = Inr compiled"
| "compile_each eng added (e # es) compiled =
     schema_bind (schema_wrap (''compile schema '' @ rq_id e @ '': '')
         (en_compile eng added (schema_resource_uri (rq_id e))))
       (\<lambda>v. compile_each eng added es ((rq_id e, v) # compiled))"

definition compile_schemas :: "schema_engine \<Rightarrow> (string \<times> verdict) list schema_result" where
  "compile_schemas eng =
     schema_bind (add_resources eng required_schema_table [])
       (\<lambda>added. compile_each eng added required_schema_table [])"

text \<open>\<open>compiledSchema\<close>; the cache keeps the result of the one compilation.\<close>

definition compiled_schema :: "schema_engine \<Rightarrow> string \<Rightarrow> verdict schema_result" where
  "compiled_schema eng sid = schema_bind (compile_schemas eng) (\<lambda>by_id. case map_of by_id sid of
      None \<Rightarrow> Inl (plain_error (''unknown schema '' @ quoted sid)) | Some v \<Rightarrow> Inr v)"

subsection \<open>Validation\<close>

text \<open>A value handed to the validation: a decoded document, or a struct, known by its JSON.\<close>

datatype native_value = Native_Any go_any | Native_Struct json

definition normalize_json_value :: "schema_engine \<Rightarrow> native_value \<Rightarrow> go_any go_result" where
  "normalize_json_value eng v = (case v of
      Native_Any a \<Rightarrow> Inr a
    | Native_Struct j \<Rightarrow> (case en_decode eng (json_text j) of
        Inl e \<Rightarrow> Inl (Errorf (''decode normalized JSON value: '' @ error_text e))
      | Inr (a, _) \<Rightarrow> Inr a))"

definition validate_value :: "schema_engine \<Rightarrow> string \<Rightarrow> native_value \<Rightarrow> schema_error option" where
  "validate_value eng sid v = (case compiled_schema eng sid of
      Inl e \<Rightarrow> Some e
    | Inr verdict \<Rightarrow> (case normalize_json_value eng v of
        Inl e \<Rightarrow> Some (plain_error (''schema validation failed for '' @ sid @ '': '' @ error_text e))
      | Inr a \<Rightarrow> (case verdict a of
          Some e \<Rightarrow> Some (Schema_Error (''schema validation failed for '' @ sid @ '': '' @ se_text e) (se_cause e))
        | None \<Rightarrow> None)))"

definition validate_bytes :: "schema_engine \<Rightarrow> string \<Rightarrow> string \<Rightarrow> schema_error option" where
  "validate_bytes eng sid bytes = (case en_decode eng bytes of
      Inl e \<Rightarrow> Some (plain_error (''schema validation failed for '' @ sid @ '': parse JSON document: '' @ error_text e))
    | Inr (document, ended) \<Rightarrow>
        if \<not> ended
        then Some (plain_error (''schema validation failed for '' @ sid @ '': JSON document must contain exactly one value''))
        else validate_value eng sid (Native_Any document))"

record document_report =
  dr_schema_id :: string
  dr_valid :: bool
  dr_error :: string
  dr_location :: string

definition validate_document_bytes :: "schema_engine \<Rightarrow> string \<Rightarrow> string \<Rightarrow> document_report" where
  "validate_document_bytes eng sid bytes = (case validate_bytes eng sid bytes of
      Some e \<Rightarrow> \<lparr>dr_schema_id = sid, dr_valid = False, dr_error = se_text e,
                dr_location = validation_error_location e\<rparr>
    | None \<Rightarrow> \<lparr>dr_schema_id = sid, dr_valid = True, dr_error = [], dr_location = []\<rparr>)"

definition infer_schema_id :: "schema_engine \<Rightarrow> string \<Rightarrow> string go_result" where
  "infer_schema_id eng bytes = (case ss_decode (en_source eng) bytes of
      Inl e \<Rightarrow> Inl (Errorf (''parse JSON document: '' @ error_text e))
    | Inr document \<Rightarrow> (case map_of document ''schema_version'' of
        Some (AnyStr sid) \<Rightarrow>
          if trim_space sid = [] then Inl (Errorf ''schema_version is required'')
          else if \<not> known_schema_id sid then Inl (Errorf (''unknown schema '' @ quoted sid))
          else Inr sid
      | _ \<Rightarrow> Inl (Errorf ''schema_version is required'')))"

subsection \<open>Writing\<close>

definition schema_check :: "schema_engine \<Rightarrow> string \<Rightarrow> json \<Rightarrow> unit io" where
  "schema_check eng sid j = io_check (map_option (\<lambda>e. Errorf (se_text e)) (validate_value eng sid (Native_Struct j)))"

text \<open>\<open>WriteJSON\<close> to a file that has been opened: validated again, then printed with indentation.\<close>

definition write_json :: "schema_engine \<Rightarrow> string \<Rightarrow> string \<Rightarrow> string \<Rightarrow> json \<Rightarrow> unit io" where
  "write_json eng cwd p sid j =
     io_bind (schema_check eng sid j) (\<lambda>_. io_write cwd p (json_indent 0 j @ [CHR 0x0A]))"

definition write_json_file :: "schema_engine \<Rightarrow> string \<Rightarrow> string \<Rightarrow> string \<Rightarrow> json \<Rightarrow> unit io" where
  "write_json_file eng cwd p sid j =
     io_bind (schema_check eng sid j) (\<lambda>_.
     io_bind (io_wrap (''create parent directory for '' @ p @ '': '') (io_mkdir_all cwd (path_dir p))) (\<lambda>_.
     io_bind (io_wrap (''open '' @ p @ '': '') (io_write cwd p [])) (\<lambda>_.
     write_json eng cwd p sid j)))"

end
