(* ===== verification/Schema_Correct.thy ===== *)
theory Schema_Correct
  imports Schema_Document
begin

text \<open>
  What the registry check of \<open>Schema_Registry\<close> establishes: a declarative form of a conforming schema
  object, and the equivalence of an empty list of problems with a registry whose entries are named
  apart and whose embedded files are the conforming schemas they are registered as.
\<close>

subsection \<open>Conforming objects\<close>

definition strings_among :: "go_any list \<Rightarrow> string list \<Rightarrow> bool" where
  "strings_among vs ks \<longleftrightarrow> (\<forall>v \<in> set vs. \<exists>k \<in> set ks. v = AnyStr k)"

definition required_conforms :: "any_map \<Rightarrow> bool" where
  "required_conforms m \<longleftrightarrow> (\<forall>raw. map_of m ''required'' = Some raw \<longrightarrow>
     (\<exists>vs. raw = AnyArr vs \<and>
       (case map_of m ''properties'' of
          Some (AnyMap ps) \<Rightarrow> strings_among vs (map fst ps) | _ \<Rightarrow> \<not> requires_properties m)))"

definition schema_map :: "go_any \<Rightarrow> bool" where
  "schema_map v \<longleftrightarrow> (\<exists>ps. v = AnyMap ps \<and> list_all (\<lambda>p. is_schema_value (snd p)) ps)"

definition schema_array :: "go_any \<Rightarrow> bool" where
  "schema_array v \<longleftrightarrow> (\<exists>vs. v = AnyArr vs \<and> list_all is_schema_value vs)"

text \<open>Every present value of the keywords satisfies a predicate.\<close>

definition keywords_are :: "any_map \<Rightarrow> string list \<Rightarrow> (go_any \<Rightarrow> bool) \<Rightarrow> bool" where
  "keywords_are m ks P \<longleftrightarrow> (\<forall>k \<in> set ks. \<forall>v. map_of m k = Some v \<longrightarrow> P v)"

definition type_conforms :: "go_any \<Rightarrow> bool" where
  "type_conforms v \<longleftrightarrow> (\<exists>t. v = AnyStr t \<and> t \<in> set json_types) \<or>
     (\<exists>ts. v = AnyArr (map AnyStr ts) \<and> ts \<noteq> [] \<and> distinct ts \<and> set ts \<subseteq> set json_types)"

definition enum_conforms :: "go_any \<Rightarrow> bool" where
  "enum_conforms v \<longleftrightarrow> (\<exists>vs. v = AnyArr vs \<and> vs \<noteq> [] \<and> distinct (map any_text vs))"

definition node_conforms :: "(string \<Rightarrow> string option) \<Rightarrow> any_map \<Rightarrow> bool" where
  "node_conforms regex m \<longleftrightarrow>
     required_conforms m \<and>
     keywords_are m [''properties'', ''patternProperties''] schema_map \<and>
     keywords_are m [''patternProperties''] (\<lambda>v. \<forall>ps. v = AnyMap ps \<longrightarrow> list_all (\<lambda>p. regex (fst p) = None) ps) \<and>
     keywords_are m [''additionalProperties'', ''unevaluatedProperties'', ''unevaluatedItems'', ''items'', ''contains'',
       ''not'', ''if'', ''then'', ''else''] is_schema_value \<and>
     keywords_are m [''prefixItems'', ''allOf'', ''anyOf'', ''oneOf''] schema_array \<and>
     keywords_are m [''allOf'', ''anyOf'', ''oneOf''] (\<lambda>v. v \<noteq> AnyArr []) \<and>
     keywords_are m [''pattern''] (\<lambda>v. \<exists>p. v = AnyStr p \<and> regex p = None) \<and>
     keywords_are m [''format''] (\<lambda>v. \<exists>f. v = AnyStr f \<and> trim_space f \<noteq> []) \<and>
     keywords_are m [''minLength'', ''maxLength''] is_non_negative_integer \<and>
     keywords_are m [''minimum'', ''maximum'', ''exclusiveMinimum'', ''exclusiveMaximum''] is_number \<and>
     keywords_are m [''multipleOf''] (\<lambda>v. \<exists>x. number_value v = Some x \<and> float_positive x) \<and>
     keywords_are m [''type''] type_conforms \<and>
     keywords_are m [''enum''] enum_conforms \<and>
     keywords_are m [''const''] (\<lambda>v. \<forall>t. map_of m ''type'' = Some t \<longrightarrow> value_matches_type_keyword v t)"

lemma concat_Nil_all: "concat (map f xs) = [] \<longleftrightarrow> (\<forall>x \<in> set xs. f x = [])"
  by (auto simp: concat_eq_Nil_conv)

lemma indexed_all: "(\<And>i v. f i v = [] \<longleftrightarrow> P v) \<Longrightarrow> indexed f vs = [] \<longleftrightarrow> list_all P vs"
  by (simp add: indexed_Nil list_all_length)

lemma indexed_problem_if: "indexed (\<lambda>i v. problem_if (\<not> P v) (msg i v)) vs = [] \<longleftrightarrow> list_all P vs"
  by (simp add: indexed_Nil list_all_length)

lemma schema_valued_Nil: "schema_valued path m k = [] \<longleftrightarrow> keywords_are m [k] is_schema_value"
  by (auto simp: schema_valued_def keywords_are_def split: option.splits)

lemma when_present_Nil: "when_present m k f = [] \<longleftrightarrow> keywords_are m [k] (\<lambda>v. f v = [])"
  by (auto simp: when_present_def keywords_are_def split: option.splits)

lemma keywords_are_Cons: "keywords_are m (k # ks) P \<longleftrightarrow> keywords_are m [k] P \<and> keywords_are m ks P"
  by (auto simp: keywords_are_def)

lemma keywords_are_Nil [simp]: "keywords_are m [] P"
  by (simp add: keywords_are_def)

lemma keywords_are_cong: "(\<And>v. P v \<longleftrightarrow> Q v) \<Longrightarrow> keywords_are m ks P \<longleftrightarrow> keywords_are m ks Q"
  by (simp add: keywords_are_def)

lemma keywords_are_conj: "keywords_are m ks (\<lambda>v. P v \<and> Q v) \<longleftrightarrow> keywords_are m ks P \<and> keywords_are m ks Q"
  by (auto simp: keywords_are_def)

lemma required_keyword_Nil: "required_keyword path m = [] \<longleftrightarrow> required_conforms m"
proof -
  have "(case v of AnyStr f \<Rightarrow> problem_if (map_of ps f = None) (msg f) | _ \<Rightarrow> [other i]) = [] \<longleftrightarrow>
      (\<exists>k \<in> set (map fst ps). v = AnyStr k)" for v ps msg and other :: "nat \<Rightarrow> string" and i
    by (cases v) (auto simp: map_of_eq_None_iff)
  then have field: "indexed (\<lambda>i v. case v of AnyStr f \<Rightarrow> problem_if (map_of ps f = None) (msg f) | _ \<Rightarrow> [other i]) vs = [] \<longleftrightarrow>
      strings_among vs (map fst ps)" for vs ps msg and other :: "nat \<Rightarrow> string"
    unfolding strings_among_def list_all_iff [symmetric] by (rule indexed_all)
  show ?thesis
  proof (cases "map_of m ''required''")
    case (Some raw)
    show ?thesis
    proof (cases raw)
      case (AnyArr vs)
      with Some show ?thesis
        by (simp add: required_keyword_def required_conforms_def field split: option.split go_any.split)
    qed (simp_all add: Some required_keyword_def required_conforms_def)
  qed (simp add: required_keyword_def required_conforms_def)
qed

lemma properties_keyword_Nil: "properties_keyword path m = [] \<longleftrightarrow> keywords_are m [''properties''] schema_map"
  by (auto simp: properties_keyword_def keywords_are_def schema_map_def concat_Nil_all list_all_iff
      split: option.splits go_any.splits)

lemma pattern_properties_keyword_Nil:
  "pattern_properties_keyword regex path m = [] \<longleftrightarrow> keywords_are m [''patternProperties''] schema_map \<and>
    keywords_are m [''patternProperties''] (\<lambda>v. \<forall>ps. v = AnyMap ps \<longrightarrow> list_all (\<lambda>p. regex (fst p) = None) ps)"
proof (cases "map_of m ''patternProperties''")
  case (Some v)
  show ?thesis
  proof (cases v)
    case (AnyMap ps)
    have "(case regex k of Some e \<Rightarrow> [msg e] | None \<Rightarrow> []) = [] \<longleftrightarrow> regex k = None" for k and msg :: "string \<Rightarrow> string"
      by (simp split: option.splits)
    with Some AnyMap show ?thesis
      by (auto simp: pattern_properties_keyword_def keywords_are_def schema_map_def concat_Nil_all list_all_iff Let_def)
  qed (simp_all add: Some pattern_properties_keyword_def keywords_are_def schema_map_def)
qed (simp add: pattern_properties_keyword_def keywords_are_def)

lemma array_schema_keywords_Nil:
  "array_schema_keywords path m = [] \<longleftrightarrow> keywords_are m [''items'', ''contains''] is_schema_value \<and>
    keywords_are m [''prefixItems''] schema_array"
proof -
  have "(case map_of m k of None \<Rightarrow> []
      | Some (AnyArr items) \<Rightarrow> indexed (\<lambda>i item. problem_if (\<not> is_schema_value item) (msg i)) items
      | Some _ \<Rightarrow> [other]) = [] \<longleftrightarrow> keywords_are m [k] schema_array" for k msg other
  proof (cases "map_of m k")
    case (Some v)
    then show ?thesis by (cases v) (simp_all add: keywords_are_def schema_array_def indexed_problem_if)
  qed (simp add: keywords_are_def)
  then show ?thesis
    by (simp add: array_schema_keywords_def schema_valued_Nil keywords_are_Cons [of m "''items''" "[''contains'']"])
qed

lemma composition_keyword_Nil:
  "composition_keyword path m k = [] \<longleftrightarrow> keywords_are m [k] schema_array \<and> keywords_are m [k] (\<lambda>v. v \<noteq> AnyArr [])"
proof (cases "map_of m k")
  case (Some v)
  show ?thesis
  proof (cases v)
    case (AnyArr vs)
    then show ?thesis
      by (cases vs) (simp_all add: Some composition_keyword_def keywords_are_def schema_array_def indexed_problem_if
)
  qed (simp_all add: Some composition_keyword_def keywords_are_def schema_array_def)
qed (simp add: composition_keyword_def keywords_are_def)

lemma ex_strings_Cons: "(\<exists>ts. AnyStr t # vs = map AnyStr ts \<and> P ts) \<longleftrightarrow> (\<exists>ts. vs = map AnyStr ts \<and> P (t # ts))"
  by (auto simp: Cons_eq_map_conv)

lemma type_values_Nil:
  "type_values value_path i seen vs = [] \<longleftrightarrow>
    (\<exists>ts. vs = map AnyStr ts \<and> distinct ts \<and> set ts \<subseteq> set json_types \<and> set ts \<inter> set seen = {})"
proof (induction vs arbitrary: i seen)
  case (Cons v vs)
  show ?case
  proof (cases v)
    case (AnyStr t)
    have "type_values value_path i seen (v # vs) = [] \<longleftrightarrow>
        (t \<in> set json_types \<and> t \<notin> set seen \<and> type_values value_path (Suc i) (t # seen) vs = [])"
      by (simp add: AnyStr)
    also have "(t \<in> set json_types \<and> t \<notin> set seen \<and> type_values value_path (Suc i) (t # seen) vs = []) \<longleftrightarrow>
        (\<exists>ts. vs = map AnyStr ts \<and> distinct (t # ts) \<and> set (t # ts) \<subseteq> set json_types \<and> set (t # ts) \<inter> set seen = {})"
      unfolding Cons.IH by auto
    also have "\<dots> \<longleftrightarrow> (\<exists>ts. v # vs = map AnyStr ts \<and> distinct ts \<and> set ts \<subseteq> set json_types \<and> set ts \<inter> set seen = {})"
      unfolding AnyStr ex_strings_Cons ..
    finally show ?thesis .
  qed (auto simp: Cons_eq_map_conv)
qed simp

lemma type_keyword_Nil: "type_keyword path v = [] \<longleftrightarrow> type_conforms v"
proof (cases v)
  case (AnyStr t)
  then show ?thesis by (simp add: type_keyword_def type_conforms_def)
next
  case (AnyArr vs)
  then show ?thesis by (auto simp: type_keyword_def type_conforms_def type_values_Nil)
qed (simp_all add: type_keyword_def type_conforms_def)

lemma enum_values_Nil:
  "enum_values path i seen vs = [] \<longleftrightarrow> distinct (map any_text vs) \<and> any_text ` set vs \<inter> set seen = {}"
  by (induction vs arbitrary: i seen) auto

lemma enum_keyword_Nil: "enum_keyword path v = [] \<longleftrightarrow> enum_conforms v"
  by (cases v) (auto simp: enum_keyword_def enum_conforms_def enum_values_Nil)

lemma pattern_keyword_Nil: "pattern_keyword regex path v = [] \<longleftrightarrow> (\<exists>p. v = AnyStr p \<and> regex p = None)"
  by (cases v) (simp_all add: pattern_keyword_def split: option.splits)

lemma format_keyword_Nil: "format_keyword path v = [] \<longleftrightarrow> (\<exists>f. v = AnyStr f \<and> trim_space f \<noteq> [])"
  by (cases v) (simp_all add: format_keyword_def)

lemma multiple_of_keyword_Nil:
  "multiple_of_keyword path v = [] \<longleftrightarrow> (\<exists>x. number_value v = Some x \<and> float_positive x)"
  by (simp add: multiple_of_keyword_def split: option.splits)

lemma const_keyword_Nil:
  "const_keyword path m v = [] \<longleftrightarrow> (\<forall>t. map_of m ''type'' = Some t \<longrightarrow> value_matches_type_keyword v t)"
  by (simp add: const_keyword_def split: option.splits)

lemma scalar_keywords_Nil:
  "scalar_keywords regex path m = [] \<longleftrightarrow>
     keywords_are m [''pattern''] (\<lambda>v. \<exists>p. v = AnyStr p \<and> regex p = None) \<and>
     keywords_are m [''format''] (\<lambda>v. \<exists>f. v = AnyStr f \<and> trim_space f \<noteq> []) \<and>
     keywords_are m [''minLength'', ''maxLength''] is_non_negative_integer \<and>
     keywords_are m [''minimum'', ''maximum'', ''exclusiveMinimum'', ''exclusiveMaximum''] is_number \<and>
     keywords_are m [''multipleOf''] (\<lambda>v. \<exists>x. number_value v = Some x \<and> float_positive x) \<and>
     keywords_are m [''type''] type_conforms \<and>
     keywords_are m [''enum''] enum_conforms \<and>
     keywords_are m [''const''] (\<lambda>v. \<forall>t. map_of m ''type'' = Some t \<longrightarrow> value_matches_type_keyword v t)"
  by (simp only: scalar_keywords_def append_is_Nil_conv list.map concat.simps when_present_Nil pattern_keyword_Nil
      format_keyword_Nil multiple_of_keyword_Nil type_keyword_Nil enum_keyword_Nil const_keyword_Nil problem_if_Nil
      not_not keywords_are_Cons [of m "''minLength''" "[''maxLength'']"]
      keywords_are_Cons [of m "''minimum''" "[''maximum'', ''exclusiveMinimum'', ''exclusiveMaximum'']"]
      keywords_are_Cons [of m "''maximum''" "[''exclusiveMinimum'', ''exclusiveMaximum'']"]
      keywords_are_Cons [of m "''exclusiveMinimum''" "[''exclusiveMaximum'']"] conj_assoc simp_thms)

lemma keywords_are_append: "keywords_are m (as @ bs) P \<longleftrightarrow> keywords_are m as P \<and> keywords_are m bs P"
  by (auto simp: keywords_are_def)

lemma schema_valued_all_Nil: "concat (map (schema_valued path m) ks) = [] \<longleftrightarrow> keywords_are m ks is_schema_value"
  by (auto simp: concat_Nil_all schema_valued_Nil keywords_are_def)

lemma composition_all_Nil:
  "concat (map (composition_keyword path m) ks) = [] \<longleftrightarrow>
    keywords_are m ks schema_array \<and> keywords_are m ks (\<lambda>v. v \<noteq> AnyArr [])"
  by (auto simp: concat_Nil_all composition_keyword_Nil keywords_are_def)

text \<open>The checks on an object are silent exactly when it conforms.\<close>

lemma node_problems_Nil: "node_problems regex path m = [] \<longleftrightarrow> node_conforms regex m"
proof -
  have bounds: "keywords_are m [''additionalProperties'', ''unevaluatedProperties'', ''unevaluatedItems'', ''items'',
        ''contains'', ''not'', ''if'', ''then'', ''else''] is_schema_value \<longleftrightarrow>
      keywords_are m [''additionalProperties'', ''unevaluatedProperties'', ''unevaluatedItems''] is_schema_value \<and>
      keywords_are m [''items'', ''contains''] is_schema_value \<and> keywords_are m [''not''] is_schema_value \<and>
      keywords_are m [''if'', ''then'', ''else''] is_schema_value"
    unfolding keywords_are_append [symmetric] by simp
  have arrays: "keywords_are m [''prefixItems'', ''allOf'', ''anyOf'', ''oneOf''] schema_array \<longleftrightarrow>
      keywords_are m [''prefixItems''] schema_array \<and> keywords_are m [''allOf'', ''anyOf'', ''oneOf''] schema_array"
    unfolding keywords_are_append [symmetric] by simp
  have maps: "keywords_are m [''properties'', ''patternProperties''] schema_map \<longleftrightarrow>
      keywords_are m [''properties''] schema_map \<and> keywords_are m [''patternProperties''] schema_map"
    unfolding keywords_are_append [symmetric] by simp
  show ?thesis
    unfolding node_problems_def node_conforms_def boundary_keywords_def composition_keywords_def conditional_keywords_def
      append_is_Nil_conv scalar_keywords_Nil required_keyword_Nil properties_keyword_Nil
      pattern_properties_keyword_Nil array_schema_keywords_Nil schema_valued_all_Nil composition_all_Nil
      schema_valued_Nil bounds arrays maps
    by (simp only: conj_ac)
qed

subsection \<open>The registry\<close>

definition entry_named :: "required_schema_entry \<Rightarrow> bool" where
  "entry_named e \<longleftrightarrow> schema_id_pattern (rq_id e) \<and> rq_file_name e = rq_id e @ ''.schema.json'' \<and>
     rq_schema_path e = ''schemas/'' @ rq_file_name e"

lemma schema_naming_Nil: "schema_naming e = [] \<longleftrightarrow> entry_named e"
  by (auto simp: schema_naming_def entry_named_def Let_def)

lemma entry_problems_from:
  "entry_problems seen es = [] \<longleftrightarrow> list_all entry_named es \<and>
    distinct (map rq_id es) \<and> distinct (map rq_file_name es) \<and> distinct (map rq_schema_path es) \<and>
    rq_id ` set es \<inter> rq_id ` set seen = {} \<and> rq_file_name ` set es \<inter> rq_file_name ` set seen = {} \<and>
    rq_schema_path ` set es \<inter> rq_schema_path ` set seen = {}"
  by (induction es arbitrary: seen) (auto simp: schema_naming_Nil)

text \<open>With conforming names, distinct ids make file names and paths distinct.\<close>

lemma entry_problems_Nil:
  "entry_problems [] es = [] \<longleftrightarrow> list_all entry_named es \<and> distinct (map rq_id es)"
proof -
  have "distinct (map rq_file_name es) \<and> distinct (map rq_schema_path es)"
    if "list_all entry_named es" "distinct (map rq_id es)"
  proof -
    from that(1) have "map rq_file_name es = map (\<lambda>i. i @ ''.schema.json'') (map rq_id es)"
      "map rq_schema_path es = map (\<lambda>i. ''schemas/'' @ i @ ''.schema.json'') (map rq_id es)"
      by (induction es) (simp_all add: entry_named_def)
    moreover have "inj_on (\<lambda>i. i @ ''.schema.json'') A" "inj_on (\<lambda>i. ''schemas/'' @ i @ ''.schema.json'') A" for A
      by (auto intro: inj_onI)
    ultimately show ?thesis using that(2) by (simp only: distinct_map)
  qed
  then show ?thesis by (auto simp: entry_problems_from)
qed

definition document_closed :: "any_map \<Rightarrow> bool" where
  "document_closed m \<longleftrightarrow> map_of m ''additionalProperties'' = Some (AnyBool False) \<or>
     map_of m ''additionalProperties'' = None \<and> map_of m ''unevaluatedProperties'' = Some (AnyBool False)"

definition reference_resolves :: "any_map \<Rightarrow> string list \<Rightarrow> string \<Rightarrow> bool" where
  "reference_resolves schema ids r \<longleftrightarrow>
     (if prefix ''#'' r then resolve_pointer (AnyMap schema) (drop 1 r) \<noteq> None else r \<in> set ids)"

text \<open>What the registry says of a schema file.\<close>

definition document_conforms :: "(string \<Rightarrow> string option) \<Rightarrow> string list \<Rightarrow> string \<Rightarrow> any_map \<Rightarrow> bool" where
  "document_conforms regex ids sid m \<longleftrightarrow>
     map_of m ''$id'' = Some (AnyStr sid) \<and> map_of m ''$schema'' = Some (AnyStr public_schema_draft) \<and>
     map_of m ''type'' = Some (AnyStr ''object'') \<and> document_closed m \<and>
     (mentions_version (AnyMap m) (AnyMap m) [] \<longrightarrow> requires_version sid (AnyMap m) (AnyMap m) []) \<and>
     (\<forall>ks n. schema_node (AnyMap m) ks n \<longrightarrow> node_conforms regex n \<and>
        (\<forall>r. map_of n ''$ref'' = Some (AnyStr r) \<longrightarrow> reference_resolves m ids r))"

lemma any_get_is: "x \<noteq> AnyNil \<Longrightarrow> any_get m k = x \<longleftrightarrow> map_of m k = Some x"
  by (auto simp: any_get_def split: option.splits)

lemma closed_problems_Nil: "closed_problems file_name m = [] \<longleftrightarrow> document_closed m"
  by (auto simp: closed_problems_def document_closed_def any_get_is split: option.splits)

lemma version_declaration_Nil:
  "validate_version_declaration file_name sid m = [] \<longleftrightarrow>
    (mentions_version (AnyMap m) (AnyMap m) [] \<longrightarrow> requires_version sid (AnyMap m) (AnyMap m) [])"
  by (simp add: validate_version_declaration_def Let_def split: option.splits)

lemma walk_concat_Nil:
  "concat (map (\<lambda>(path, m). f path m) (walk_schema p v)) = [] \<longleftrightarrow>
    (\<forall>ks n. schema_node v ks n \<longrightarrow> f (pointer_join p ks) n = [])"
proof -
  have "concat (map (\<lambda>(path, m). f path m) (walk_schema p v)) = [] \<longleftrightarrow>
      (\<forall>q n. (q, n) \<in> set (walk_schema p v) \<longrightarrow> f q n = [])"
    by (auto simp: concat_Nil_all)
  also have "\<dots> \<longleftrightarrow> (\<forall>ks n. schema_node v ks n \<longrightarrow> f (pointer_join p ks) n = [])"
    by (auto simp: walk_schema_iff)
  finally show ?thesis .
qed

lemma reference_problems_Nil:
  "reference_problems schema ids path m = [] \<longleftrightarrow>
    (\<forall>r. map_of m ''$ref'' = Some (AnyStr r) \<longrightarrow> reference_resolves schema ids r)"
proof (cases "map_of m ''$ref''")
  case (Some v)
  show ?thesis
    by (cases v) (simp_all add: Some reference_problems_def reference_resolves_def trim_prefix_def)
qed (simp add: reference_problems_def)

lemma document_problems_Nil:
  "document_problems regex ids file_name sid m = [] \<longleftrightarrow> document_conforms regex ids sid m"
  unfolding document_problems_def document_conforms_def append_is_Nil_conv problem_if_Nil not_not
    closed_problems_Nil version_declaration_Nil validate_required_properties_def validate_schema_refs_def
    walk_concat_Nil node_problems_Nil reference_problems_Nil
  by (simp add: any_get_is) blast

text \<open>
  The registry is consistent: ids have the public form and are distinct, files and paths are named
  after them, the embedded files are exactly the registered ones, and each decodes to a schema that
  conforms to its entry.
\<close>

definition registry_consistent :: "schema_source \<Rightarrow> required_schema_entry list \<Rightarrow> string list \<Rightarrow> bool" where
  "registry_consistent src required schema_files \<longleftrightarrow>
     list_all entry_named required \<and> distinct (map rq_id required) \<and>
     set schema_files = rq_file_name ` set required \<and>
     list_all (\<lambda>e. \<exists>bytes m. ss_files src (rq_file_name e) = Inr bytes \<and> ss_decode src bytes = Inr m \<and>
       document_conforms (ss_regex src) (map rq_id required) (rq_id e) m) required"

lemma missing_problems_Nil:
  "missing_problems required schema_files = [] \<longleftrightarrow> rq_file_name ` set required \<subseteq> set schema_files"
  by (auto simp: missing_problems_def concat_Nil_all)

lemma registered_file_Some:
  assumes "distinct (map rq_file_name required)"
  shows "registered_file required f = Some e \<longleftrightarrow> e \<in> set required \<and> rq_file_name e = f"
proof -
  have "distinct (map fst (rev (map (\<lambda>e. (rq_file_name e, e)) required)))"
    using assms by (simp add: rev_map [symmetric] comp_def)
  then show ?thesis by (auto simp: registered_file_def)
qed

lemma embedded_problems_Nil:
  "embedded_problems src required f = [] \<longleftrightarrow>
    (\<exists>e bytes m. registered_file required f = Some e \<and> ss_files src f = Inr bytes \<and> ss_decode src bytes = Inr m \<and>
      document_conforms (ss_regex src) (map rq_id required) (rq_id e) m)"
  by (auto simp: embedded_problems_def document_problems_Nil split: option.splits sum.splits)

lemma files_are_entries:
  assumes "inj_on name R"
  shows "(\<forall>f \<in> F. \<exists>e. (e \<in> R \<and> name e = f) \<and> P f e) \<and> name ` R \<subseteq> F \<longleftrightarrow>
    F = name ` R \<and> (\<forall>e \<in> R. P (name e) e)"
proof
  assume l: "(\<forall>f \<in> F. \<exists>e. (e \<in> R \<and> name e = f) \<and> P f e) \<and> name ` R \<subseteq> F"
  have "P (name e) e" if "e \<in> R" for e
  proof -
    from l that obtain e' where "e' \<in> R" "name e' = name e" "P (name e) e'" by blast
    with assms that show ?thesis by (metis inj_onD)
  qed
  moreover have "F \<subseteq> name ` R"
  proof
    fix f assume "f \<in> F"
    with l obtain e where "e \<in> R" "name e = f" by meson
    then show "f \<in> name ` R" by (metis imageI)
  qed
  ultimately show "F = name ` R \<and> (\<forall>e \<in> R. P (name e) e)" using l by (simp add: subset_antisym)
next
  assume r: "F = name ` R \<and> (\<forall>e \<in> R. P (name e) e)"
  have "\<exists>e. (e \<in> R \<and> name e = f) \<and> P f e" if "f \<in> F" for f
  proof -
    from r that obtain e where "e \<in> R" "f = name e" by (elim conjE) (simp add: image_iff, meson)
    with r show ?thesis by (intro exI [of _ e]) simp
  qed
  with r show "(\<forall>f \<in> F. \<exists>e. (e \<in> R \<and> name e = f) \<and> P f e) \<and> name ` R \<subseteq> F" by simp
qed

lemma registry_valid_iff:
  "validate_required_schemas src required schema_files = None \<longleftrightarrow> registry_consistent src required schema_files"
proof (cases "list_all entry_named required \<and> distinct (map rq_id required)")
  case True
  then have "entry_problems [] required = []" by (simp only: entry_problems_Nil)
  then have d: "distinct (map rq_file_name required)" by (simp add: entry_problems_from)
  have "validate_required_schemas src required schema_files = None \<longleftrightarrow>
      (\<forall>f \<in> set schema_files. embedded_problems src required f = []) \<and>
      rq_file_name ` set required \<subseteq> set schema_files"
    using True by (simp add: validate_required_schemas_def registry_problems_def Let_def entry_problems_Nil
        missing_problems_Nil concat_Nil_all)
  also have "\<dots> \<longleftrightarrow> registry_consistent src required schema_files"
  proof -
    have "inj_on rq_file_name (set required)" using d by (simp add: distinct_map)
    from files_are_entries [OF this, where F = "set schema_files" and P = "\<lambda>f e. \<exists>bytes m.
        ss_files src f = Inr bytes \<and> ss_decode src bytes = Inr m \<and>
        document_conforms (ss_regex src) (map rq_id required) (rq_id e) m"]
    show ?thesis
      using True unfolding embedded_problems_Nil registered_file_Some [OF d] registry_consistent_def list_all_iff
      by (simp only: ex_simps simp_thms conj_assoc) blast
  qed
  finally show ?thesis .
next
  case False
  then show ?thesis
    by (auto simp: validate_required_schemas_def registry_problems_def Let_def entry_problems_Nil registry_consistent_def)
qed

end
