(* ===== verification/Schema_Enforced.thy ===== *)
theory Schema_Enforced
  imports Schema_Correct
begin

text \<open>
  What the registry's check on \<open>schema_version\<close> means for documents. The validator is known by laws of
  JSON Schema: what a document accepted by a schema object satisfies. A schema that passes the check
  accepts only documents that carry the field; without \<open>oneOf\<close> and \<open>anyOf\<close> only documents of its own
  version. With them the version can be missed: the check reads the first alternative only.
\<close>

subsection \<open>Laws of JSON Schema\<close>

locale json_schema =
  fixes root :: go_any and accepts :: "go_any \<Rightarrow> go_any \<Rightarrow> bool"
  assumes law_required: "accepts (AnyMap m) (AnyMap d) \<Longrightarrow>
      string_slice_contains (any_get m ''required'') k \<Longrightarrow> map_of d k \<noteq> None"
    and law_property: "accepts (AnyMap m) (AnyMap d) \<Longrightarrow> map_of (object_at m ''properties'') k = Some s \<Longrightarrow>
      map_of d k = Some w \<Longrightarrow> accepts s w"
    and law_const: "accepts (AnyMap m) v \<Longrightarrow> map_of m ''const'' = Some (AnyStr c) \<Longrightarrow> v = AnyStr c"
    and law_ref: "accepts (AnyMap m) v \<Longrightarrow> local_ref m = Some r \<Longrightarrow>
      resolve_pointer root (trim_prefix ''#'' r) = Some t \<Longrightarrow> accepts t v"
    and law_all: "accepts (AnyMap m) v \<Longrightarrow> s \<in> set (array_at m ''allOf'') \<Longrightarrow> accepts s v"
    and law_some: "accepts (AnyMap m) v \<Longrightarrow> k = ''oneOf'' \<or> k = ''anyOf'' \<Longrightarrow> array_at m k \<noteq> [] \<Longrightarrow>
      \<exists>s \<in> set (array_at m k). accepts s v"
begin

lemma law_followed: "accepts (AnyMap m) v \<Longrightarrow> follow_ref root m seen = Ref_To t seen' \<Longrightarrow> accepts t v"
  using law_ref by (auto simp: follow_ref_def split: option.splits if_splits)

lemma law_some_of_all:
  assumes "accepts (AnyMap m) v" and "k = ''oneOf'' \<or> k = ''anyOf'' \<or> k = ''allOf''" and "array_at m k \<noteq> []"
  shows "\<exists>s \<in> set (array_at m k). accepts s v"
proof (cases "k = ''allOf''")
  case True
  with assms(3) have "hd (array_at m k) \<in> set (array_at m ''allOf'')" by simp
  with law_all [OF assms(1)] True assms(3) show ?thesis by (meson hd_in_set)
next
  case False
  with assms(2) law_some [OF assms(1) _ assms(3)] show ?thesis by simp
qed

end

subsection \<open>The field is required\<close>

context json_schema
begin

lemma required_field_present:
  "requires_version_field r node seen \<Longrightarrow> r = root \<Longrightarrow> accepts node (AnyMap d) \<Longrightarrow> map_of d ''schema_version'' \<noteq> None"
proof (induction r node seen rule: requires_version_field.induct)
  case (1 r node seen)
  from "1.prems"(1) obtain m where node: "node = AnyMap m"
    by (subst (asm) requires_version_field.simps) (auto split: go_any.splits)
  note ok = "1.prems"(3) [unfolded node] and r = "1.prems"(2)
  show ?case
  proof (cases "follow_ref r m seen")
    case No_Ref
    from "1.prems"(1) consider "string_slice_contains (any_get m ''required'') ''schema_version''"
      | k where "k = ''oneOf'' \<or> k = ''anyOf''" "array_at m k \<noteq> []"
          "\<forall>c \<in> set (array_at m k). requires_version_field r c seen"
      | c where "c \<in> set (array_at m ''allOf'')" "requires_version_field r c seen"
      by (subst (asm) requires_version_field.simps) (auto simp: node No_Ref list_all_iff list_ex_iff)
    then show ?thesis
    proof cases
      case 1
      with law_required [OF ok] show ?thesis by blast
    next
      case 2
      from law_some [OF ok 2(1,2)] obtain c where c: "c \<in> set (array_at m k)" "accepts c (AnyMap d)" by blast
      with 2 show ?thesis using "1.IH"(1) [OF node No_Ref, of k c] r by auto
    next
      case 3
      with law_all [OF ok] "1.IH"(2) [OF node No_Ref] r show ?thesis by blast
    qed
  next
    case Dead_Ref
    with "1.prems"(1) show ?thesis by (subst (asm) requires_version_field.simps) (simp add: node)
  next
    case (Ref_To t seen')
    from "1.prems"(1) have "requires_version_field r t seen'"
      by (subst (asm) requires_version_field.simps) (simp add: node Ref_To)
    with "1.IH"(3) [OF node Ref_To] law_followed [OF ok Ref_To [unfolded r]] r show ?thesis by blast
  qed
qed

lemma required_version_present:
  "requires_version sid r node seen \<Longrightarrow> r = root \<Longrightarrow> accepts node (AnyMap d) \<Longrightarrow> map_of d ''schema_version'' \<noteq> None"
proof (induction sid r node seen rule: requires_version.induct)
  case (1 sid r node seen)
  from "1.prems"(1) obtain m where node: "node = AnyMap m"
    by (subst (asm) requires_version.simps) (auto split: go_any.splits)
  note ok = "1.prems"(3) [unfolded node] and r = "1.prems"(2)
  show ?case
  proof (cases "follow_ref r m seen")
    case No_Ref
    from "1.prems"(1) consider "direct_version_const m sid"
      | c where "c \<in> set (array_at m ''allOf'')" "requires_version sid r c seen"
      | c where "c \<in> set (array_at m ''allOf'')" "requires_version_field r c seen"
      | k where "k = ''oneOf'' \<or> k = ''anyOf'' \<or> k = ''allOf''" "array_at m k \<noteq> []"
          "\<forall>c \<in> set (array_at m k). requires_version sid r c seen"
      by (subst (asm) requires_version.simps) (auto simp: node No_Ref list_all_iff list_ex_iff)
    then show ?thesis
    proof cases
      case 1
      with law_required [OF ok] show ?thesis by (auto simp: direct_version_const_def)
    next
      case 2
      with law_all [OF ok] "1.IH"(1) [OF node No_Ref] r show ?thesis by blast
    next
      case 3
      with law_all [OF ok] required_field_present r show ?thesis by blast
    next
      case 4
      from law_some_of_all [OF ok 4(1,2)] obtain c where c: "c \<in> set (array_at m k)" "accepts c (AnyMap d)" by blast
      with 4 show ?thesis using "1.IH"(2) [OF node No_Ref, of k c] r by auto
    qed
  next
    case Dead_Ref
    with "1.prems"(1) show ?thesis by (subst (asm) requires_version.simps) (simp add: node)
  next
    case (Ref_To t seen')
    from "1.prems"(1) have "requires_version sid r t seen'"
      by (subst (asm) requires_version.simps) (simp add: node Ref_To)
    with "1.IH"(3) [OF node Ref_To] law_followed [OF ok Ref_To [unfolded r]] r show ?thesis by blast
  qed
qed

end

subsection \<open>The version is the schema's own\<close>

text \<open>No object of the document has one of the keys \<open>oneOf\<close> and \<open>anyOf\<close>.\<close>

fun alternative_free :: "go_any \<Rightarrow> bool" where
  "alternative_free (AnyArr vs) = (\<forall>v \<in> set vs. alternative_free v)"
| "alternative_free (AnyMap m) = (map_of m ''oneOf'' = None \<and> map_of m ''anyOf'' = None \<and>
     (\<forall>e \<in> set m. alternative_free (snd e)))"
| "alternative_free _ = True"

lemma alternative_free_entry: "alternative_free (AnyMap m) \<Longrightarrow> map_of m k = Some v \<Longrightarrow> alternative_free v"
  by (force dest: map_of_SomeD)

lemma alternative_free_array: "alternative_free (AnyMap m) \<Longrightarrow> v \<in> set (array_at m k) \<Longrightarrow> alternative_free v"
  unfolding array_at_member using alternative_free_entry by fastforce

lemma alternative_free_resolved: "resolve_segments v ks = Some w \<Longrightarrow> alternative_free v \<Longrightarrow> alternative_free w"
proof (induction v ks rule: resolve_segments.induct)
  case (2 current raw rest)
  from "2.prems"(1) obtain m x where "current = AnyMap m" "map_of m (unescape_segment raw) = Some x"
      "resolve_segments x rest = Some w"
    by (auto split: go_any.splits option.splits)
  with "2.IH" "2.prems"(2) alternative_free_entry show ?case by blast
qed simp

lemma alternative_free_followed:
  "follow_ref root m seen = Ref_To t seen' \<Longrightarrow> alternative_free root \<Longrightarrow> alternative_free t"
  using alternative_free_resolved
  by (auto simp: follow_ref_def resolve_pointer_def Let_def split: option.splits if_splits)

lemma no_alternatives: "alternative_free (AnyMap m) \<Longrightarrow> array_at m ''oneOf'' = [] \<and> array_at m ''anyOf'' = []"
  by (simp add: array_at_def)

lemma first_some_Some: "first_some xs = Some y \<Longrightarrow> Some y \<in> set xs"
  by (induction xs) (auto split: option.splits)

context json_schema
begin

lemma own_const_exact:
  assumes "own_version_const m = Some c" and "accepts (AnyMap m) (AnyMap d)" and "map_of d ''schema_version'' = Some v"
  shows "v = AnyStr c"
proof -
  obtain s where s: "map_of (object_at m ''properties'') ''schema_version'' = Some (AnyMap s)"
      "map_of s ''const'' = Some (AnyStr c)"
    using assms(1) by (auto simp: own_version_const_def object_at_def split: option.splits go_any.splits)
  from law_property [OF assms(2) s(1) assms(3)] law_const s(2) show ?thesis by blast
qed

lemma first_const_exact:
  "first_version_const r node seen = Some c \<Longrightarrow> r = root \<Longrightarrow> alternative_free root \<Longrightarrow> alternative_free node \<Longrightarrow>
     accepts node (AnyMap d) \<Longrightarrow> map_of d ''schema_version'' = Some v \<Longrightarrow> v = AnyStr c"
proof (induction r node seen rule: first_version_const.induct)
  case (1 r node seen)
  from "1.prems"(1) obtain m where node: "node = AnyMap m"
    by (subst (asm) first_version_const.simps) (auto split: go_any.splits)
  note ok = "1.prems"(5) [unfolded node] and r = "1.prems"(2)
  show ?case
  proof (cases "follow_ref r m seen")
    case No_Ref
    show ?thesis
    proof (cases "own_version_const m")
      case None
      with "1.prems"(1) have "first_some (concat (map (\<lambda>k. map (\<lambda>child. first_version_const r child seen) (array_at m k))
          [''allOf'', ''oneOf'', ''anyOf''])) = Some c"
        by (subst (asm) first_version_const.simps) (simp add: node No_Ref)
      from first_some_Some [OF this] no_alternatives "1.prems"(4)
      obtain child where child: "child \<in> set (array_at m ''allOf'')" "first_version_const r child seen = Some c"
        by (auto simp: node)
      with alternative_free_array law_all [OF ok] "1.prems" show ?thesis
        using "1.IH"(1) [OF node No_Ref None, of "''allOf''" child] by (simp add: node)
    next
      case (Some c')
      with "1.prems"(1) have "c' = c" by (subst (asm) first_version_const.simps) (simp add: node No_Ref)
      with own_const_exact [OF _ ok "1.prems"(6)] Some show ?thesis by simp
    qed
  next
    case Dead_Ref
    with "1.prems"(1) show ?thesis by (subst (asm) first_version_const.simps) (simp add: node)
  next
    case (Ref_To t seen')
    from "1.prems"(1) have "first_version_const r t seen' = Some c"
      by (subst (asm) first_version_const.simps) (simp add: node Ref_To)
    with "1.IH"(2) [OF node Ref_To] law_followed [OF ok Ref_To [unfolded r]] "1.prems"
      alternative_free_followed [OF Ref_To] show ?thesis by blast
  qed
qed

lemma required_version_exact:
  "requires_version sid r node seen \<Longrightarrow> r = root \<Longrightarrow> alternative_free root \<Longrightarrow> alternative_free node \<Longrightarrow>
     accepts node (AnyMap d) \<Longrightarrow> map_of d ''schema_version'' = Some v \<Longrightarrow> v = AnyStr sid"
proof (induction sid r node seen rule: requires_version.induct)
  case (1 sid r node seen)
  from "1.prems"(1) obtain m where node: "node = AnyMap m"
    by (subst (asm) requires_version.simps) (auto split: go_any.splits)
  note ok = "1.prems"(5) [unfolded node] and r = "1.prems"(2)
  have free: "array_at m ''oneOf'' = []" "array_at m ''anyOf'' = []"
    using no_alternatives "1.prems"(4) by (auto simp: node)
  have child_free: "c \<in> set (array_at m k) \<Longrightarrow> alternative_free c" for c k
    using alternative_free_array "1.prems"(4) node by blast
  show ?case
  proof (cases "follow_ref r m seen")
    case No_Ref
    from "1.prems"(1) consider "direct_version_const m sid"
      | c where "c \<in> set (array_at m ''allOf'')" "requires_version sid r c seen"
      | c where "c \<in> set (array_at m ''allOf'')" "first_version_const r c seen = Some sid"
      by (subst (asm) requires_version.simps)
        (auto simp: node No_Ref list_all_iff list_ex_iff free dest: hd_in_set)
    then show ?thesis
    proof cases
      case 1
      then have "own_version_const m = Some sid"
        by (auto simp: direct_version_const_def own_version_const_def any_get_is)
      with own_const_exact [OF _ ok "1.prems"(6)] show ?thesis by simp
    next
      case 2
      with law_all [OF ok] "1.IH"(1) [OF node No_Ref] "1.prems" child_free show ?thesis by blast
    next
      case 3
      with law_all [OF ok] first_const_exact "1.prems" child_free show ?thesis by blast
    qed
  next
    case Dead_Ref
    with "1.prems"(1) show ?thesis by (subst (asm) requires_version.simps) (simp add: node)
  next
    case (Ref_To t seen')
    from "1.prems"(1) have "requires_version sid r t seen'"
      by (subst (asm) requires_version.simps) (simp add: node Ref_To)
    with "1.IH"(3) [OF node Ref_To] law_followed [OF ok Ref_To [unfolded r]] "1.prems"
      alternative_free_followed [OF Ref_To] show ?thesis by blast
  qed
qed

end

subsection \<open>The laws hold of the keywords themselves\<close>

text \<open>
  A relation that does just what the laws say. It stands for no code: it shows that the laws can hold
  together, and on which documents.
\<close>

inductive core_accepts :: "go_any \<Rightarrow> go_any \<Rightarrow> go_any \<Rightarrow> bool" for root :: go_any where
  core_true: "core_accepts root (AnyBool True) v"
| core_object: "(\<And>d k. v = AnyMap d \<Longrightarrow> string_slice_contains (any_get m ''required'') k \<Longrightarrow> map_of d k \<noteq> None) \<Longrightarrow>
    (\<And>d k s w. v = AnyMap d \<Longrightarrow> map_of (object_at m ''properties'') k = Some s \<Longrightarrow> map_of d k = Some w \<Longrightarrow>
       core_accepts root s w) \<Longrightarrow>
    (\<And>c. map_of m ''const'' = Some (AnyStr c) \<Longrightarrow> v = AnyStr c) \<Longrightarrow>
    (\<And>r t. local_ref m = Some r \<Longrightarrow> resolve_pointer root (trim_prefix ''#'' r) = Some t \<Longrightarrow> core_accepts root t v) \<Longrightarrow>
    (\<And>s. s \<in> set (array_at m ''allOf'') \<Longrightarrow> core_accepts root s v) \<Longrightarrow>
    (\<And>k. k = ''oneOf'' \<or> k = ''anyOf'' \<Longrightarrow> array_at m k \<noteq> [] \<Longrightarrow>
       \<exists>s \<in> set (array_at m k). core_accepts root s v) \<Longrightarrow>
    core_accepts root (AnyMap m) v"

inductive_cases core_accepts_object: "core_accepts root (AnyMap m) v"

interpretation core: json_schema root "core_accepts root" for root
proof
  fix m d k assume "core_accepts root (AnyMap m) (AnyMap d)" "string_slice_contains (any_get m ''required'') k"
  then show "map_of d k \<noteq> None" by (elim core_accepts_object) simp
next
  fix m d k s w assume "core_accepts root (AnyMap m) (AnyMap d)" "map_of (object_at m ''properties'') k = Some s"
    "map_of d k = Some w"
  then show "core_accepts root s w" by (elim core_accepts_object) simp
next
  fix m v c assume "core_accepts root (AnyMap m) v" "map_of m ''const'' = Some (AnyStr c)"
  then show "v = AnyStr c" by (elim core_accepts_object) simp
next
  fix m v r t assume "core_accepts root (AnyMap m) v" "local_ref m = Some r"
    "resolve_pointer root (trim_prefix ''#'' r) = Some t"
  then show "core_accepts root t v" by (elim core_accepts_object) simp
next
  fix m v s assume "core_accepts root (AnyMap m) v" "s \<in> set (array_at m ''allOf'')"
  then show "core_accepts root s v" by (elim core_accepts_object) simp
next
  fix m v k assume "core_accepts root (AnyMap m) v" "k = ''oneOf'' \<or> k = ''anyOf''" "array_at m k \<noteq> []"
  then show "\<exists>s \<in> set (array_at m k). core_accepts root s v" by (elim core_accepts_object) simp
qed

text \<open>
  Without the condition on alternatives the version is not fixed: here the field is required, its
  constant stands in one alternative only, and the other alternative is the schema of every document.
  The check is satisfied all the same.
\<close>

definition gap_schema :: "string \<Rightarrow> go_any" where
  "gap_schema sid = AnyMap [(''allOf'', AnyArr
     [AnyMap [(''required'', AnyArr [AnyStr ''schema_version''])],
      AnyMap [(''anyOf'', AnyArr
        [AnyMap [(''properties'', AnyMap [(''schema_version'', AnyMap [(''const'', AnyStr sid)])])],
         AnyBool True])]])]"

lemma gap_schema_checked: "requires_version sid (gap_schema sid) (gap_schema sid) []"
  by (simp add: gap_schema_def requires_version.simps requires_version_field.simps first_version_const.simps
      follow_ref_def local_ref_def direct_version_const_def string_slice_contains_def any_get_def array_at_def
      object_at_def own_version_const_def)

end
