(* ===== verification/Schema_Examples.thy ===== *)
theory Schema_Examples
  imports Schema_Enforced
begin

text \<open>
  The built-in table of schemas evaluated, what export, inference and validation of documents give, and
  a small registry on which the theorems about registries are applied.
\<close>

subsection \<open>Public names\<close>

text \<open>The regular expression as a set of strings.\<close>

lemma schema_id_pattern_iff:
  "schema_id_pattern s \<longleftrightarrow> (\<exists>c w ds. s = ''covenant.'' @ c # w @ ''.v'' @ ds \<and> (is_lower c \<or> is_digit c) \<and>
     list_all id_char w \<and> ds \<noteq> [] \<and> list_all is_digit ds)"
proof
  assume "schema_id_pattern s"
  then obtain body where s: "s = ''covenant.'' @ body" and
    p: "takeWhile is_digit (rev body) \<noteq> []" "suffix ''.v'' (rev (dropWhile is_digit (rev body)))"
      "case take (length (rev (dropWhile is_digit (rev body))) - 2) (rev (dropWhile is_digit (rev body))) of
         [] \<Rightarrow> False | c # w \<Rightarrow> (is_lower c \<or> is_digit c) \<and> list_all id_char w"
    by (auto simp: schema_id_pattern_def Let_def prefix_def)
  define ds rest where "ds = rev (takeWhile is_digit (rev body))" and "rest = rev (dropWhile is_digit (rev body))"
  have body: "body = rest @ ds"
    unfolding ds_def rest_def by (metis rev_append rev_rev_ident takeWhile_dropWhile_id)
  have ds: "ds \<noteq> []" "list_all is_digit ds"
    using p(1) by (auto simp: ds_def list_all_iff dest: set_takeWhileD)
  from p(2) obtain pre where rest: "rest = pre @ ''.v''" by (auto simp: rest_def [symmetric] suffix_def)
  have pre: "case pre of [] \<Rightarrow> False | c # w \<Rightarrow> (is_lower c \<or> is_digit c) \<and> list_all id_char w"
    using p(3) unfolding rest_def [symmetric] rest by simp
  obtain c w where "pre = c # w" "is_lower c \<or> is_digit c" "list_all id_char w"
    using pre by (cases pre) auto
  with s body ds rest
  have "s = ''covenant.'' @ c # w @ ''.v'' @ ds \<and> (is_lower c \<or> is_digit c) \<and>
      list_all id_char w \<and> ds \<noteq> [] \<and> list_all is_digit ds" by simp
  then show "\<exists>c w ds. s = ''covenant.'' @ c # w @ ''.v'' @ ds \<and> (is_lower c \<or> is_digit c) \<and>
     list_all id_char w \<and> ds \<noteq> [] \<and> list_all is_digit ds" by blast
next
  assume "\<exists>c w ds. s = ''covenant.'' @ c # w @ ''.v'' @ ds \<and> (is_lower c \<or> is_digit c) \<and>
     list_all id_char w \<and> ds \<noteq> [] \<and> list_all is_digit ds"
  then obtain c w ds where s: "s = ''covenant.'' @ c # w @ ''.v'' @ ds" and c: "is_lower c \<or> is_digit c"
    and w: "list_all id_char w" and ds: "ds \<noteq> []" "list_all is_digit ds" by blast
  have v: "\<not> is_digit (CHR ''v'')" by (simp add: is_digit_def)
  have r: "rev (c # w @ ''.v'' @ ds) = rev ds @ CHR ''v'' # CHR ''.'' # rev w @ [c]" by simp
  have all: "\<forall>x \<in> set (rev ds). is_digit x" using ds(2) by (simp add: list_all_iff)
  have "takeWhile is_digit (rev (c # w @ ''.v'' @ ds)) = rev ds"
    "dropWhile is_digit (rev (c # w @ ''.v'' @ ds)) = CHR ''v'' # CHR ''.'' # rev w @ [c]"
    unfolding r using all v by (auto simp: takeWhile_append dropWhile_append)
  then show "schema_id_pattern s"
    using c w ds(1) by (simp add: schema_id_pattern_def s Let_def suffix_def)
qed

lemma table_named: "list_all entry_named required_schema_table"
  by code_simp

lemma table_distinct: "distinct (map rq_id required_schema_table)"
  by code_simp

text \<open>Every entry is found by its id.\<close>

lemma table_lookup: "schemas_by_id sid = Some e \<longleftrightarrow> e \<in> set required_schema_table \<and> rq_id e = sid"
proof -
  have "distinct (map fst (rev (map (\<lambda>e. (rq_id e, e)) required_schema_table)))"
    using table_distinct by (simp add: rev_map [symmetric] comp_def)
  then show ?thesis by (auto simp: schemas_by_id_def)
qed

subsection \<open>Documents\<close>

lemma inferred_schema:
  "infer_schema_id eng bytes = Inr sid \<longleftrightarrow>
    (\<exists>m. ss_decode (en_source eng) bytes = Inr m \<and> map_of m ''schema_version'' = Some (AnyStr sid) \<and>
       trim_space sid \<noteq> [] \<and> (\<exists>e \<in> set required_schema_table. rq_id e = sid))"
  by (auto simp: infer_schema_id_def known_schema_id_def table_lookup split: sum.splits option.splits go_any.splits)

text \<open>The locations of an error and of its causes.\<close>

fun error_locations :: "validation_error \<Rightarrow> string list set" where
  "error_locations (Validation_Error loc causes) = {loc} \<union> (\<Union>c \<in> set causes. error_locations c)"

lemma deepest_location_known: "\<exists>loc \<in> error_locations e. deepest_location e = instance_pointer loc"
proof (induction e)
  case (Validation_Error loc causes)
  show ?case
  proof (cases "find (\<lambda>l. l \<noteq> [] \<and> l \<noteq> ''/'') (map deepest_location causes)")
    case (Some l)
    from find_in_set [OF Some] obtain c where "c \<in> set causes" "l = deepest_location c" by auto
    with Validation_Error.IH Some show ?thesis by fastforce
  qed simp
qed

lemma compile_each_ids:
  "compile_each eng added es compiled = Inr by_id \<Longrightarrow> map fst by_id = rev (map rq_id es) @ map fst compiled"
  by (induction es arbitrary: compiled) (auto simp: schema_bind_Inr)

text \<open>When the schemas compile, the known ids are exactly those with a verdict.\<close>

lemma compiled_iff_known:
  assumes "compile_schemas eng = Inr by_id"
  shows "(\<exists>v. compiled_schema eng sid = Inr v) \<longleftrightarrow> known_schema_id sid"
proof -
  from assms obtain added where "compile_each eng added required_schema_table [] = Inr by_id"
    by (auto simp: compile_schemas_def schema_bind_Inr)
  from compile_each_ids [OF this] have ids: "fst ` set by_id = rq_id ` set required_schema_table"
    by (metis append_Nil2 image_set list.simps(8) rev_map set_rev)
  have "(\<exists>v. compiled_schema eng sid = Inr v) \<longleftrightarrow> sid \<in> fst ` set by_id"
    by (auto simp: compiled_schema_def assms schema_bind_def map_of_eq_None_iff split: option.splits)
      (metis map_of_eq_None_iff option.distinct(1))
  also have "\<dots> \<longleftrightarrow> known_schema_id sid"
    unfolding ids known_schema_id_def by (auto simp: table_lookup)
  finally show ?thesis .
qed

subsection \<open>Export\<close>

lemma export_entry_Inr:
  "export_entry src cwd out_dir e xs fs = (Inr ys, fs') \<longleftrightarrow>
     (\<exists>bytes. ss_files src (rq_file_name e) = Inr bytes \<and>
        io_write cwd (path_join [out_dir, rq_file_name e]) bytes fs = (Inr (), fs') \<and>
        ys = xs @ [\<lparr>xs_id = rq_id e, xs_file_name = rq_file_name e, xs_schema_path = rq_schema_path e,
          xs_written_path = path_join [out_dir, rq_file_name e]\<rparr>])"
  by (auto simp: export_entry_def Let_def io_bind_Inr io_wrap_Inr)

text \<open>A successful export lists the table in its order.\<close>

lemma export_entries:
  "io_fold (export_entry src cwd out_dir) es xs fs = (Inr ys, fs') \<Longrightarrow> map xs_id ys = map xs_id xs @ map rq_id es"
proof (induction es arbitrary: xs fs)
  case (Cons e es)
  then obtain zs fs1 where "export_entry src cwd out_dir e xs fs = (Inr zs, fs1)"
      "io_fold (export_entry src cwd out_dir) es zs fs1 = (Inr ys, fs')"
    by (auto simp: io_bind_Inr)
  with Cons.IH [of zs fs1] show ?case by (auto simp: export_entry_Inr)
qed simp

subsection \<open>A small registry\<close>

definition note_id :: string where "note_id = ''covenant.note.v1''"

definition note_entry :: required_schema_entry where
  "note_entry = required_schema (note_id @ ''.schema.json'') note_id"

definition note_schema :: any_map where
  "note_schema =
     [(''$id'', AnyStr note_id), (''$schema'', AnyStr public_schema_draft), (''type'', AnyStr ''object''),
      (''additionalProperties'', AnyBool False), (''required'', AnyArr [AnyStr ''schema_version'']),
      (''properties'', AnyMap [(''schema_version'', AnyMap [(''const'', AnyStr note_id)])])]"

definition note_source :: schema_source where
  "note_source = \<lparr>ss_files = (\<lambda>f. Inr f), ss_decode = (\<lambda>_. Inr note_schema), ss_regex = (\<lambda>_. None)\<rparr>"

definition note_document :: any_map where
  "note_document = [(''schema_version'', AnyStr note_id)]"

lemma note_registry_valid: "validate_required_schemas note_source [note_entry] [rq_file_name note_entry] = None"
proof -
  have "registry_problems note_source [note_entry] [rq_file_name note_entry] = []" by code_simp
  then show ?thesis by (simp add: validate_required_schemas_def)
qed

lemma note_mentions: "mentions_version (AnyMap note_schema) (AnyMap note_schema) []"
  by code_simp

lemma note_keys:
  "any_get note_schema ''required'' = AnyArr [AnyStr ''schema_version'']" "map_of note_schema ''const'' = None"
  "local_ref note_schema = None" "array_at note_schema ''allOf'' = []" "array_at note_schema ''oneOf'' = []"
  "array_at note_schema ''anyOf'' = []"
  "object_at note_schema ''properties'' = [(''schema_version'', AnyMap [(''const'', AnyStr note_id)])]"
  by (simp_all add: note_schema_def any_get_def local_ref_def array_at_def object_at_def)

lemma note_const_accepts: "core_accepts root (AnyMap [(''const'', AnyStr note_id)]) (AnyStr note_id)"
proof (rule core_object)
  fix k assume "k = ''oneOf'' \<or> k = ''anyOf''" "array_at [(''const'', AnyStr note_id)] k \<noteq> []"
  then show "\<exists>s \<in> set (array_at [(''const'', AnyStr note_id)] k). core_accepts root s (AnyStr note_id)"
    by (elim disjE) (simp_all add: array_at_def)
qed (simp_all add: local_ref_def array_at_def)

lemma note_accepts: "core_accepts root (AnyMap note_schema) (AnyMap note_document)"
proof (rule core_object)
  fix d k assume d: "AnyMap note_document = AnyMap d"
  {
    assume "string_slice_contains (any_get note_schema ''required'') k"
    with d show "map_of d k \<noteq> None"
      unfolding note_keys by (auto simp: string_slice_contains_def note_document_def)
  next
    fix s w assume "map_of (object_at note_schema ''properties'') k = Some s" "map_of d k = Some w"
    with d have "s = AnyMap [(''const'', AnyStr note_id)]" "w = AnyStr note_id"
      unfolding note_keys by (auto simp: note_document_def split: if_splits)
    then show "core_accepts root s w" using note_const_accepts by simp
  }
next
  fix k assume "k = ''oneOf'' \<or> k = ''anyOf''" "array_at note_schema k \<noteq> []"
  then show "\<exists>s \<in> set (array_at note_schema k). core_accepts root s (AnyMap note_document)"
    by (elim disjE) (simp_all add: note_keys)
qed (simp_all add: note_keys)

lemma note_free: "alternative_free (AnyMap note_schema)"
  by code_simp

text \<open>A schema with nodes under a key that has to be escaped and under a position of an array.\<close>

definition pointed_schema :: go_any where
  "pointed_schema = AnyMap
     [(''$defs'', AnyMap [(''a/b'', AnyMap [(''type'', AnyStr ''string'')])]),
      (''allOf'', AnyArr [AnyMap [(''$ref'', AnyStr ''#/$defs/a~1b'')]])]"

lemma pointed_unique: "unique_keys pointed_schema"
  by code_simp

lemma pointed_paths:
  "''/$defs/a~1b'' = pointer_join [] [''$defs'', ''a/b'']" "''/allOf/0'' = pointer_join [] [''allOf'', ''0'']"
  by code_simp+

lemma pointed_arrays:
  "\<not> enters_array pointed_schema [''$defs'', ''a/b'']" "enters_array pointed_schema [''allOf'', ''0'']"
  by code_simp+

lemma pointed_nodes:
  "(''/$defs/a~1b'', [(''type'', AnyStr ''string'')]) \<in> set (walk_schema [] pointed_schema)"
  "(''/allOf/0'', [(''$ref'', AnyStr ''#/$defs/a~1b'')]) \<in> set (walk_schema [] pointed_schema)"
  by code_simp+

end
