(* ===== verification/Approval_Files.thy ===== *)
theory Approval_Files
  imports Approval Verify Schema_Document
begin

text \<open>
  The files of \<open>internal/approval/ticket_lifecycle.go\<close>: tickets and revocation lists are read
  after a verdict of the schema validator on their bytes, and written through
  \<open>schema.WriteJSONFile\<close>. A revocation list is checked on both ways, a ticket only when it is written.
\<close>

definition revocation_list_schema :: string where
  "revocation_list_schema = ''covenant.approval-revocations.v1''"

definition revocation_list_json :: "revocation_list \<Rightarrow> json" where
  "revocation_list_json l = JObj (
     field ''schema_version'' (JStr (rl_schema_version l)) @
     field ''revoked_tickets'' (JArr (map (\<lambda>r. JObj (
       field ''ticket_id'' (JStr (rv_ticket_id r)) @ field ''reason'' (JStr (rv_reason r)))) (rl_revoked_tickets l))))"

text \<open>The verdict of the schema validator on a value, as the checks above take it.\<close>

definition value_verdict :: "schema_engine \<Rightarrow> string \<Rightarrow> json \<Rightarrow> go_error option" where
  "value_verdict eng sid j = map_option (\<lambda>e. Errorf (se_text e)) (validate_value eng sid (Native_Struct j))"

type_synonym byte_verdict = "string \<Rightarrow> string \<Rightarrow> go_error option"

definition read_ticket ::
    "byte_verdict \<Rightarrow> (string \<Rightarrow> approval_ticket go_result) \<Rightarrow> string \<Rightarrow> fs \<Rightarrow> string \<Rightarrow> approval_ticket go_result" where
  "read_ticket schema_bytes decode cwd fs p =
     bind_result (labelled ''read approval ticket: '' (read_at cwd fs p)) (\<lambda>bytes.
       unless_error (schema_bytes ticket_schema_version bytes)
         (labelled ''decode approval ticket: '' (decode bytes)))"

definition write_ticket :: "schema_engine \<Rightarrow> string \<Rightarrow> string \<Rightarrow> approval_ticket \<Rightarrow> unit io" where
  "write_ticket eng cwd p tk =
     io_bind (io_check (validate_ticket (\<lambda>t. value_verdict eng ticket_schema_version (ticket_json t)) tk)) (\<lambda>_.
       io_wrap ''write approval ticket: '' (write_json_file eng cwd p ticket_schema_version (ticket_json tk)))"

definition read_revocation_list ::
    "byte_verdict \<Rightarrow> (string \<Rightarrow> revocation_list go_result) \<Rightarrow> (revocation_list \<Rightarrow> go_error option) \<Rightarrow> string \<Rightarrow>
     fs \<Rightarrow> string \<Rightarrow> revocation_list go_result" where
  "read_revocation_list schema_bytes decode schema_list cwd fs p =
     bind_result (labelled ''read approval revocation list: '' (read_at cwd fs p)) (\<lambda>bytes.
       unless_error (schema_bytes revocation_list_schema bytes)
         (bind_result (labelled ''decode approval revocation list: '' (decode bytes)) (\<lambda>l.
            unless_error (validate_revocation_list schema_list l) (Inr l))))"

definition write_revocation_list :: "schema_engine \<Rightarrow> string \<Rightarrow> string \<Rightarrow> revocation_list \<Rightarrow> unit io" where
  "write_revocation_list eng cwd p l =
     io_bind (io_check (validate_revocation_list
         (\<lambda>k. value_verdict eng revocation_list_schema (revocation_list_json k)) l)) (\<lambda>_.
       io_wrap ''write approval revocation list: ''
         (write_json_file eng cwd p revocation_list_schema (revocation_list_json l)))"

lemma read_revocation_list_Inr:
  "read_revocation_list schema_bytes decode schema_list cwd fs p = Inr l \<longleftrightarrow>
     (\<exists>s. fs (abs_path cwd p) = Some (File s) \<and> schema_bytes revocation_list_schema s = None \<and>
       decode s = Inr l \<and> validate_revocation_list schema_list l = None)"
  by (auto simp: read_revocation_list_def)

text \<open>A written document is the indented text of the value, and the value passed its checks.\<close>

lemma write_json_file_Inr:
  assumes "write_json_file eng cwd p sid j fs = (Inr u, fs')"
  shows "fs' (abs_path cwd p) = Some (File (json_indent 0 j @ [CHR 0x0A])) \<and> value_verdict eng sid j = None"
  using assms by (auto simp: write_json_file_def write_json_def io_bind_Inr io_write_Inr schema_check_def value_verdict_def)

lemma write_revocation_list_Inr:
  assumes "write_revocation_list eng cwd p l fs = (Inr u, fs')"
  shows "fs' (abs_path cwd p) = Some (File (json_indent 0 (revocation_list_json l) @ [CHR 0x0A])) \<and>
    validate_revocation_list (\<lambda>k. value_verdict eng revocation_list_schema (revocation_list_json k)) l = None"
  using assms write_json_file_Inr by (auto simp: write_revocation_list_def io_bind_Inr)

lemma write_ticket_Inr:
  assumes "write_ticket eng cwd p tk fs = (Inr u, fs')"
  shows "fs' (abs_path cwd p) = Some (File (json_indent 0 (ticket_json tk) @ [CHR 0x0A])) \<and>
    value_verdict eng ticket_schema_version (ticket_json tk) = None"
  using assms write_json_file_Inr by (auto simp: write_ticket_def io_bind_Inr validate_ticket_def)

end
