(* ===== verification/Bundle_Types.thy ===== *)
theory Bundle_Types
  imports Approval_Files Release_Verify
begin

text \<open>
  The data of \<open>internal/bundle/bundle.go\<close>. What the package calls outside this repository is
  collected in the record \<open>bundle_env\<close>: the part it shares with the release package (hash, schema
  verdicts, key and signature decoders, signatures), the ZIP library, the temporary directory the
  system hands out, directory listings, and \<open>json.Unmarshal\<close> into the types it reads.
\<close>

subsection \<open>The manifest\<close>

record bundle_entry =
  bt_path :: string
  bt_source :: string
  bt_sha256 :: string
  bt_size_bytes :: int

record verification_summary =
  sm_verified :: bool
  sm_event_count :: nat
  sm_artifact_count :: nat
  sm_input_snapshot_count :: nat
  sm_failure_count :: nat

record bundle_manifest =
  bm_schema_version :: string
  bm_run_id :: string
  bm_contract_digest :: string
  bm_ledger_digest :: string
  bm_verification :: verification_summary
  bm_entries :: "bundle_entry list"

definition bundle_entry_json :: "bundle_entry \<Rightarrow> json" where
  "bundle_entry_json e = JObj (
     field ''path'' (JStr (bt_path e)) @ field ''source'' (JStr (bt_source e)) @
     field ''sha256'' (JStr (bt_sha256 e)) @ field ''size_bytes'' (JInt (bt_size_bytes e)))"

definition verification_summary_json :: "verification_summary \<Rightarrow> json" where
  "verification_summary_json s = JObj (
     field ''verified'' (JBool (sm_verified s)) @ field ''event_count'' (JInt (int (sm_event_count s))) @
     field ''artifact_count'' (JInt (int (sm_artifact_count s))) @
     field ''input_snapshot_count'' (JInt (int (sm_input_snapshot_count s))) @
     field ''failure_count'' (JInt (int (sm_failure_count s))))"

definition bundle_manifest_json :: "bundle_manifest \<Rightarrow> json" where
  "bundle_manifest_json m = JObj (
     field ''schema_version'' (JStr (bm_schema_version m)) @ field ''run_id'' (JStr (bm_run_id m)) @
     field ''contract_digest'' (JStr (bm_contract_digest m)) @
     field ''ledger_digest'' (JStr (bm_ledger_digest m)) @
     field ''verification'' (verification_summary_json (bm_verification m)) @
     field ''entries'' (JArr (map bundle_entry_json (bm_entries m))))"

subsection \<open>Names of the archive's entries\<close>

abbreviation contract_entry :: string where "contract_entry \<equiv> ''contract.json''"
abbreviation ledger_entry :: string where "ledger_entry \<equiv> ''events.ndjson''"
abbreviation evidence_entry :: string where "evidence_entry \<equiv> ''evidence-pack.json''"
abbreviation signed_manifest_path :: string where "signed_manifest_path \<equiv> ''bundle-manifest.json''"
abbreviation signature_entry_path :: string where "signature_entry_path \<equiv> ''bundle-signature.json''"
abbreviation checksums_entry :: string where "checksums_entry \<equiv> ''SHA256SUMS''"

definition bundle_manifest_schema :: string where
  "bundle_manifest_schema = ''covenant.evidence-bundle.v1''"

definition bundle_signature_schema :: string where
  "bundle_signature_schema = ''covenant.bundle-signature.v1''"

subsection \<open>Options and results\<close>

record bundle_options =
  bo_contract_path :: string
  bo_ledger_path :: string
  bo_evidence_path :: string
  bo_workspace_dir :: string
  bo_out_path :: string
  bo_sign_key_path :: string
  bo_revocation_paths :: "string list"

record bundle_result =
  bx_bundle_path :: string
  bx_manifest :: bundle_manifest
  bx_public_key_sha256 :: string

text \<open>A nil map of revoked tickets is the map without entries.\<close>

record bundle_verify_options =
  bv_bundle_path :: string
  bv_public_key_path :: string
  bv_revoked :: "string \<Rightarrow> bool"

record key_pair_result =
  kp_private_key_path :: string
  kp_public_key_path :: string
  kp_public_key_sha256 :: string

record bundle_file =
  bf_path :: string
  bf_source :: string
  bf_bytes :: string

text \<open>Reading one entry of an archive: its contents, or where it went wrong.\<close>

datatype zip_contents = Zip_Open_Error go_error | Zip_Read_Error go_error | Zip_Close_Error go_error | Zip_Contents string

text \<open>What lies outside the repository.\<close>

record bundle_env =
  bn_base :: release_env
  bn_engine :: schema_engine
  bn_zip_read :: "string \<Rightarrow> (string \<times> zip_contents) list go_result"
  bn_zip_write :: "(string \<times> string) list \<Rightarrow> string"
  bn_tmp_dir :: string
  bn_read_dir :: "fs \<Rightarrow> string \<Rightarrow> string list"
  bn_generate_key :: "(string \<times> string) go_result"
  bn_decode_event :: "string \<Rightarrow> event go_result"
  bn_decode_evidence :: "string \<Rightarrow> evidence_pack go_result"
  bn_unmarshal_event :: "string \<Rightarrow> event go_result"
  bn_unmarshal_evidence :: "string \<Rightarrow> evidence_pack go_result"
  bn_unmarshal_contract :: "string \<Rightarrow> contract go_result"
  bn_unmarshal_manifest :: "string \<Rightarrow> bundle_manifest go_result"
  bn_unmarshal_revocations :: "string \<Rightarrow> revocation_list go_result"
  bn_schema_revocations :: "revocation_list \<Rightarrow> go_error option"

definition bundle_sha :: "bundle_env \<Rightarrow> string \<Rightarrow> string" where
  "bundle_sha en = re_sha (bn_base en)"

definition bundle_cwd :: "bundle_env \<Rightarrow> string" where
  "bundle_cwd en = re_cwd (bn_base en)"

end
