(* ===== verification/Bundle_Archive.thy ===== *)
theory Bundle_Archive
  imports Bundle_Types Go_Location
begin

text \<open>
  The archive of \<open>internal/bundle/bundle.go\<close>: the paths of its entries, reading and writing the ZIP
  file, the list of checksums and the signature of the manifest. The map of entries is the list
  of its entries, in the order they were read; the ZIP format itself is a parameter.
\<close>

subsection \<open>Paths of entries\<close>

definition archive_clean :: "string \<Rightarrow> string" where
  "archive_clean raw = path_clean (to_slash raw)"

definition slash_join :: "string list \<Rightarrow> string" where
  "slash_join parts = archive_clean (path_join parts)"

definition validate_bundle_path :: "string \<Rightarrow> string go_result" where
  "validate_bundle_path raw =
     (let n = archive_clean raw in
      if n = [] \<or> n = ''.'' then Inl (Errorf ''bundle path is required'')
      else if prefix ''//'' (to_slash raw) then Inl (Errorf (''bundle path '' @ quoted raw @ '' escapes archive''))
      else if escapes n then Inl (Errorf (''bundle path '' @ quoted raw @ '' escapes archive''))
      else Inr n)"

subsection \<open>Reading\<close>

type_synonym entries = "(string \<times> string) list"

definition zip_contents_of :: "string \<Rightarrow> zip_contents \<Rightarrow> string go_result" where
  "zip_contents_of name z = (case z of
      Zip_Open_Error e \<Rightarrow> Inl (Errorf (''open bundle entry '' @ name @ '': '' @ error_text e))
    | Zip_Read_Error e \<Rightarrow> Inl (Errorf (''read bundle entry '' @ name @ '': '' @ error_text e))
    | Zip_Close_Error e \<Rightarrow> Inl (Errorf (''close bundle entry '' @ name @ '': '' @ error_text e))
    | Zip_Contents s \<Rightarrow> Inr s)"

fun gather_zip_entries :: "(string \<times> zip_contents) list \<Rightarrow> entries \<Rightarrow> entries go_result" where
  "gather_zip_entries [] entries = Inr entries"
| "gather_zip_entries ((raw, z) # zs) entries =
     bind_result (validate_bundle_path raw) (\<lambda>name.
       if map_of entries name \<noteq> None then Inl (Errorf (''duplicate bundle entry '' @ name))
       else bind_result (zip_contents_of name z) (\<lambda>s. gather_zip_entries zs (entries @ [(name, s)])))"

definition read_zip_entries :: "bundle_env \<Rightarrow> fs \<Rightarrow> string \<Rightarrow> entries go_result" where
  "read_zip_entries en fs bundle_path =
     bind_result (labelled ''open bundle: '' (bind_result (read_at (bundle_cwd en) fs bundle_path) (bn_zip_read en)))
       (\<lambda>zs. gather_zip_entries zs [])"

definition required_entries :: "string list" where
  "required_entries = [contract_entry, ledger_entry, evidence_entry, signed_manifest_path, checksums_entry]"

definition require_bundle_entries :: "entries \<Rightarrow> go_error option" where
  "require_bundle_entries entries =
     first_error (map (\<lambda>r. fail_if (map_of entries r = None) (Errorf (''bundle missing required entry '' @ r)))
       required_entries)"

text \<open>\<open>entries[path]\<close>: nil when there is no such entry.\<close>

definition entry_bytes :: "entries \<Rightarrow> string \<Rightarrow> string" where
  "entry_bytes entries p = (case map_of entries p of Some s \<Rightarrow> s | None \<Rightarrow> [])"

subsection \<open>Checksums\<close>

text \<open>\<open>strings.Cut\<close> at two spaces.\<close>

fun cut_two_spaces :: "string \<Rightarrow> (string \<times> string) option" where
  "cut_two_spaces (c # d # cs) = (if c = CHR '' '' \<and> d = CHR '' '' then Some ([], cs)
     else map_option (\<lambda>(k, v). (c # k, v)) (cut_two_spaces (d # cs)))"
| "cut_two_spaces _ = None"

definition verify_checksum_line :: "bundle_env \<Rightarrow> entries \<Rightarrow> string \<Rightarrow> go_error option" where
  "verify_checksum_line en entries line = (case cut_two_spaces line of
      None \<Rightarrow> Some (Errorf (''invalid bundle checksum line '' @ quoted line))
    | Some (digest, raw) \<Rightarrow> (case validate_bundle_path raw of
        Inl e \<Rightarrow> Some e
      | Inr p \<Rightarrow> (case map_of entries p of
          None \<Rightarrow> Some (Errorf (''bundle checksum references missing entry '' @ p))
        | Some s \<Rightarrow> fail_if (bundle_sha en s \<noteq> digest)
            (Errorf (''bundle checksum mismatch for '' @ p @ '': expected '' @ digest @ '' actual '' @ bundle_sha en s)))))"

definition checksum_lines :: "entries \<Rightarrow> string list" where
  "checksum_lines entries = split_on (CHR 0x0A) (trim_space (entry_bytes entries checksums_entry))"

definition verify_bundle_checksums :: "bundle_env \<Rightarrow> entries \<Rightarrow> go_error option" where
  "verify_bundle_checksums en entries =
     (let lines = checksum_lines entries in
      first_error (fail_if (lines = [] \<or> trim_space (hd lines) = []) (Errorf ''bundle checksums are empty'') #
        map (verify_checksum_line en entries) lines))"

subsection \<open>The signature\<close>

text \<open>The two readers of keys are those of the release package, line by line.\<close>

definition bundle_private_key :: "bundle_env \<Rightarrow> string \<Rightarrow> (string \<times> string) io" where
  "bundle_private_key en p = read_private_key (bn_base en) p"

definition bundle_public_key :: "bundle_env \<Rightarrow> fs \<Rightarrow> string \<Rightarrow> string go_result" where
  "bundle_public_key en fs p = read_public_key (bn_base en) fs p"

definition public_key_file_fingerprint :: "bundle_env \<Rightarrow> fs \<Rightarrow> string \<Rightarrow> string go_result" where
  "public_key_file_fingerprint en fs p =
     bind_result (bundle_public_key en fs p) (\<lambda>k. Inr (public_key_fingerprint (bn_base en) k))"

definition check_bundle_signature :: "bundle_env \<Rightarrow> string \<Rightarrow> string \<Rightarrow> signature_file \<Rightarrow> go_error option" where
  "check_bundle_signature en public_key manifest_bytes s =
     first_error [
       fail_if (sf_schema_version s \<noteq> bundle_signature_schema)
         (Errorf (''unsupported bundle signature schema_version '' @ quoted (sf_schema_version s))),
       fail_if (sf_algorithm s \<noteq> ''ed25519'')
         (Errorf (''unsupported bundle signature algorithm '' @ quoted (sf_algorithm s))),
       fail_if (sf_signed_entry s \<noteq> signed_manifest_path)
         (Errorf (''bundle signature signed_entry '' @ quoted (sf_signed_entry s) @ '' does not match '' @ signed_manifest_path)),
       fail_if (sf_public_key_sha256 s \<noteq> public_key_fingerprint (bn_base en) public_key)
         (Errorf ''bundle signature public key fingerprint mismatch''),
       (case base64_decode (sf_signature s) of
          Inl e \<Rightarrow> Some (Errorf (''decode bundle signature bytes: '' @ error_text e))
        | Inr signature \<Rightarrow> fail_if (\<not> re_verify (bn_base en) public_key manifest_bytes signature)
            (Errorf ''bundle signature verification failed''))]"

definition verify_bundle_signature :: "bundle_env \<Rightarrow> fs \<Rightarrow> entries \<Rightarrow> string \<Rightarrow> go_error option" where
  "verify_bundle_signature en fs entries public_key_path = (case map_of entries signed_manifest_path of
      None \<Rightarrow> Some (Errorf (''bundle missing required entry '' @ signed_manifest_path))
    | Some manifest_bytes \<Rightarrow> (case map_of entries signature_entry_path of
        None \<Rightarrow> Some (Errorf ''bundle signature is required when public key is supplied'')
      | Some signature_bytes \<Rightarrow> (case bundle_public_key en fs public_key_path of
          Inl e \<Rightarrow> Some e
        | Inr public_key \<Rightarrow> (case re_schema_bytes (bn_base en) bundle_signature_schema signature_bytes of
            Some e \<Rightarrow> Some e
          | None \<Rightarrow> (case re_decode_signature (bn_base en) signature_bytes of
              Inl e \<Rightarrow> Some (Errorf (''decode bundle signature: '' @ error_text e))
            | Inr s \<Rightarrow> check_bundle_signature en public_key manifest_bytes s)))))"

definition sign_bundle_manifest :: "bundle_env \<Rightarrow> string \<Rightarrow> string \<Rightarrow> (string \<times> string) io" where
  "sign_bundle_manifest en key_path manifest_bytes =
     io_bind (bundle_private_key en key_path) (\<lambda>(private_key, public_key).
       let fingerprint = public_key_fingerprint (bn_base en) public_key;
           sf = \<lparr>sf_schema_version = bundle_signature_schema, sf_algorithm = ''ed25519'',
             sf_signed_entry = signed_manifest_path, sf_public_key_sha256 = fingerprint,
             sf_signature = base64_encode (re_sign (bn_base en) private_key manifest_bytes)\<rparr>;
           bytes = json_indent 0 (signature_file_json sf) @ [CHR 0x0A]
       in io_bind (io_check (re_schema_bytes (bn_base en) bundle_signature_schema bytes))
            (\<lambda>_. io_return (bytes, fingerprint)))"

subsection \<open>Keys\<close>

definition private_key_json :: "private_key_file \<Rightarrow> json" where
  "private_key_json k = JObj (
     field ''schema_version'' (JStr (pk_file_schema_version k)) @ field ''algorithm'' (JStr (pk_file_algorithm k)) @
     field ''public_key'' (JStr (pk_file_public_key k)) @ field ''private_key'' (JStr (pk_file_private_key k)))"

definition public_key_json :: "public_key_file \<Rightarrow> json" where
  "public_key_json k = JObj (
     field ''schema_version'' (JStr (pub_file_schema_version k)) @ field ''algorithm'' (JStr (pub_file_algorithm k)) @
     field ''public_key'' (JStr (pub_file_public_key k)))"

definition generate_key_pair :: "bundle_env \<Rightarrow> string \<Rightarrow> string \<Rightarrow> key_pair_result io" where
  "generate_key_pair en private_path public_path =
     io_bind (io_check (first_error [
       fail_if (trim_space private_path = []) (Errorf ''private key path is required''),
       fail_if (trim_space public_path = []) (Errorf ''public key path is required'')])) (\<lambda>_.
     io_bind (io_result (labelled ''generate ed25519 key: '' (bn_generate_key en))) (\<lambda>(public_key, private_key).
     let encoded = base64_encode public_key;
         private_file = \<lparr>pk_file_schema_version = private_key_schema, pk_file_algorithm = ''ed25519'',
           pk_file_public_key = encoded, pk_file_private_key = base64_encode private_key\<rparr>;
         public_file = \<lparr>pub_file_schema_version = public_key_schema, pub_file_algorithm = ''ed25519'',
           pub_file_public_key = encoded\<rparr>
     in io_bind (io_wrap ''write private key: ''
            (write_json_file (bn_engine en) (bundle_cwd en) private_path private_key_schema (private_key_json private_file))) (\<lambda>_.
        io_bind (io_wrap ''write public key: ''
            (write_json_file (bn_engine en) (bundle_cwd en) public_path public_key_schema (public_key_json public_file))) (\<lambda>_.
        io_return \<lparr>kp_private_key_path = private_path, kp_public_key_path = public_path,
          kp_public_key_sha256 = public_key_fingerprint (bn_base en) public_key\<rparr>))))"

subsection \<open>Collecting and writing\<close>

definition new_bundle_file :: "bundle_env \<Rightarrow> fs \<Rightarrow> string \<Rightarrow> string \<Rightarrow> bundle_file go_result" where
  "new_bundle_file en fs bundle_path source_path =
     bind_result (validate_bundle_path bundle_path) (\<lambda>normalized.
     bind_result (labelled (''read bundle source '' @ source_path @ '': '') (read_at (bundle_cwd en) fs source_path)) (\<lambda>s.
       Inr \<lparr>bf_path = normalized, bf_source = source_path, bf_bytes = s\<rparr>))"

definition entry_for :: "bundle_env \<Rightarrow> bundle_file \<Rightarrow> bundle_entry" where
  "entry_for en f = \<lparr>bt_path = bf_path f, bt_source = bf_source f, bt_sha256 = bundle_sha en (bf_bytes f),
     bt_size_bytes = int (length (bf_bytes f))\<rparr>"

definition entries_for_files :: "bundle_env \<Rightarrow> bundle_file list \<Rightarrow> bundle_entry list go_result" where
  "entries_for_files en fls =
     unless_error (first_seen_error (\<lambda>_. False) bf_path
         (\<lambda>seen f. fail_if (seen (bf_path f)) (Errorf (''duplicate bundle path '' @ bf_path f))) fls)
       (Inr (map (entry_for en) fls))"

definition checksums_for_entries :: "bundle_entry list \<Rightarrow> string" where
  "checksums_for_entries es = concat (map (\<lambda>e. checksum_line (bt_sha256 e) (bt_path e)) es)"

text \<open>
  The parent directory is made, the file created, and the archive written into it. The errors of
  creating and writing single entries have no counterpart: they come from the device, or from names
  of 64 KiB and more, which no file of a run has.
\<close>

definition write_zip :: "bundle_env \<Rightarrow> string \<Rightarrow> bundle_file list \<Rightarrow> unit io" where
  "write_zip en out_path fls =
     (let sorted_files = sort_key bf_path fls in
      io_bind (io_wrap ''create bundle dir: '' (io_mkdir_all (bundle_cwd en) (path_dir out_path))) (\<lambda>_.
      io_wrap ''create bundle: ''
        (io_write (bundle_cwd en) out_path (bn_zip_write en (map (\<lambda>f. (bf_path f, bf_bytes f)) sorted_files)))))"

subsection \<open>Lemmas\<close>

lemma validate_bundle_path_Inr: "validate_bundle_path raw = Inr n \<longleftrightarrow>
    n = archive_clean raw \<and> n \<noteq> ''.'' \<and> \<not> prefix ''//'' (to_slash raw) \<and> \<not> escapes n"
  by (auto simp: validate_bundle_path_def archive_clean_def Let_def)

lemma archive_clean_no_backslash: "backslash \<notin> set (archive_clean raw)"
  using path_clean_bytes [of backslash "to_slash raw"] backslash_free_to_slash [of raw]
  by (auto simp: archive_clean_def)

lemma archive_clean_idem [simp]: "archive_clean (archive_clean raw) = archive_clean raw"
  unfolding archive_clean_def [of "archive_clean raw"] to_slash_clean [OF archive_clean_no_backslash]
  by (simp add: archive_clean_def)

lemma validate_bundle_path_idem:
  assumes "validate_bundle_path raw = Inr n"
  shows "validate_bundle_path n = Inr n"
proof -
  from assms have n: "n = archive_clean raw" "n \<noteq> ''.''" "\<not> escapes n"
    by (auto simp: validate_bundle_path_Inr)
  from n(3) have "\<not> prefix ''//'' n" by (auto simp: escapes_def is_abs_def prefix_def)
  moreover have "to_slash n = n" unfolding n(1) by (rule to_slash_clean) (rule archive_clean_no_backslash)
  moreover have "archive_clean n = n" by (simp add: n(1))
  ultimately show ?thesis using n(2,3) by (simp add: validate_bundle_path_Inr)
qed

text \<open>Names come out once each, and none of them leaves the archive.\<close>

definition archive_names :: "entries \<Rightarrow> bool" where
  "archive_names entries \<longleftrightarrow>
     distinct (map fst entries) \<and> list_all (\<lambda>(n, _). validate_bundle_path n = Inr n) entries"

lemma gather_zip_entries_names:
  "gather_zip_entries zs entries = Inr all \<Longrightarrow> archive_names entries \<Longrightarrow> archive_names all"
proof (induction zs entries rule: gather_zip_entries.induct)
  case (2 raw z zs entries)
  from "2.prems"(1) obtain n s where n: "validate_bundle_path raw = Inr n" "map_of entries n = None"
    and s: "zip_contents_of n z = Inr s" and rest: "gather_zip_entries zs (entries @ [(n, s)]) = Inr all"
    by (auto split: if_splits)
  from n(2) have "n \<notin> fst ` set entries" by (simp add: map_of_eq_None_iff)
  then have "archive_names (entries @ [(n, s)])"
    using "2.prems"(2) validate_bundle_path_idem [OF n(1)] by (simp add: archive_names_def)
  with "2.IH" [OF _ rest] n(2) show ?case by simp
qed simp

lemma read_zip_entries_names: "read_zip_entries en fs p = Inr entries \<Longrightarrow> archive_names entries"
  using gather_zip_entries_names [of _ "[]" entries] by (auto simp: read_zip_entries_def archive_names_def)

end
