(* ===== verification/Bundle_Export.thy ===== *)
theory Bundle_Export
  imports Bundle_Archive
begin

text \<open>
  \<open>Export\<close> and \<open>Verify\<close> of \<open>internal/bundle/bundle.go\<close>. A run is exported after it has been verified
  where it is; a bundle is verified by unpacking it into a fresh temporary directory and
  verifying the run there. The temporary directory is removed on every way out. The run's
  verifier works on absolute paths, which the paths of an export are resolved to.
\<close>

subsection \<open>What both read\<close>

definition read_bundle_evidence :: "bundle_env \<Rightarrow> fs \<Rightarrow> string \<Rightarrow> evidence_pack go_result" where
  "read_bundle_evidence en fs p =
     bind_result (labelled ''read evidence: '' (read_at (bundle_cwd en) fs p))
       (\<lambda>s. labelled ''decode evidence: '' (bn_unmarshal_evidence en s))"

definition verify_contract_digest :: "bundle_env \<Rightarrow> fs \<Rightarrow> string \<Rightarrow> string \<Rightarrow> go_error option" where
  "verify_contract_digest en fs contract_path want_digest =
     (case labelled ''read contract: '' (read_at (bundle_cwd en) fs contract_path) of
        Inl e \<Rightarrow> Some e
      | Inr s \<Rightarrow> (case labelled ''decode contract: '' (bn_unmarshal_contract en s) of
          Inl e \<Rightarrow> Some e
        | Inr c \<Rightarrow> fail_if (contract_digest (bundle_sha en) c \<noteq> want_digest)
            (Errorf (''contract digest mismatch: evidence '' @ want_digest @ '' != contract '' @
               contract_digest (bundle_sha en) c))))"

definition run_verified ::
    "bundle_env \<Rightarrow> string \<Rightarrow> string \<Rightarrow> string \<Rightarrow> (string \<Rightarrow> bool) \<Rightarrow> fs \<Rightarrow> verify_result go_result" where
  "run_verified en ledger_path evidence_path workspace_dir revoked fs =
     verify_run (bundle_sha en) (bn_decode_event en) (bn_decode_evidence en) (bundle_cwd en)
       \<lparr>vo_ledger_path = abs_path (bundle_cwd en) ledger_path, vo_evidence_path = abs_path (bundle_cwd en) evidence_path,
        vo_workspace_dir = workspace_dir, vo_revoked = revoked\<rparr> fs"

definition read_revocations :: "bundle_env \<Rightarrow> fs \<Rightarrow> string \<Rightarrow> revocation_list go_result" where
  "read_revocations en =
     read_revocation_list (re_schema_bytes (bn_base en)) (bn_unmarshal_revocations en) (bn_schema_revocations en) (bundle_cwd en)"

subsection \<open>Export\<close>

definition snapshot_bundle_path :: "input_snapshot \<Rightarrow> string" where
  "snapshot_bundle_path s =
     slash_join [''input-snapshots'', trim_prefix ''input-snapshots/'' (archive_clean (sn_snapshot_path s))]"

definition artifact_bundle_path :: "artifact_ref \<Rightarrow> string" where
  "artifact_bundle_path a = slash_join [''artifacts'', archive_clean (artifact_ref.ar_path a)]"

text \<open>Every file to be packed: its path in the archive and its source.\<close>

definition bundle_sources :: "bundle_options \<Rightarrow> string \<Rightarrow> evidence_pack \<Rightarrow> (string \<times> string) list" where
  "bundle_sources opts workspace_dir pk =
     [(contract_entry, bo_contract_path opts), (ledger_entry, bo_ledger_path opts), (evidence_entry, bo_evidence_path opts)] @
     map (\<lambda>s. (snapshot_bundle_path s, path_join [path_dir (bo_evidence_path opts), sn_snapshot_path s])) (pk_input_snapshots pk) @
     map (\<lambda>a. (artifact_bundle_path a, path_join [workspace_dir, archive_clean (artifact_ref.ar_path a)])) (pk_artifact_manifest pk)"

definition gather_bundle_files :: "bundle_env \<Rightarrow> fs \<Rightarrow> bundle_options \<Rightarrow> string \<Rightarrow> evidence_pack \<Rightarrow> bundle_file list go_result" where
  "gather_bundle_files en fs opts workspace_dir pk =
     map_result (\<lambda>(p, source). new_bundle_file en fs p source) (bundle_sources opts workspace_dir pk)"

definition load_revocation_file :: "bundle_env \<Rightarrow> fs \<Rightarrow> string \<Rightarrow> (bundle_file \<times> revocation_list) go_result" where
  "load_revocation_file en fs p =
     unless_error (fail_if (trim_space p = []) (Errorf ''revocation path is required''))
       (bind_result (read_revocations en fs p) (\<lambda>l.
        bind_result (new_bundle_file en fs (slash_join [''revocations'', path_base (archive_clean p)]) p) (\<lambda>f.
          Inr (f, l))))"

definition load_revocation_files ::
    "bundle_env \<Rightarrow> fs \<Rightarrow> string list \<Rightarrow> (bundle_file list \<times> (string \<Rightarrow> bool)) go_result" where
  "load_revocation_files en fs paths =
     bind_result (map_result (load_revocation_file en fs) paths) (\<lambda>loaded.
       Inr (map fst loaded, revoked_ticket_ids (map snd loaded)))"

definition bundle_manifest_for :: "evidence_pack \<Rightarrow> verify_result \<Rightarrow> bundle_entry list \<Rightarrow> bundle_manifest" where
  "bundle_manifest_for pk v entries =
     \<lparr>bm_schema_version = bundle_manifest_schema, bm_run_id = pk_run_id pk, bm_contract_digest = pk_contract_digest pk,
      bm_ledger_digest = pk_ledger_digest pk,
      bm_verification = \<lparr>sm_verified = verify_result.vr_verified v, sm_event_count = vr_event_count v,
        sm_artifact_count = vr_artifact_count v, sm_input_snapshot_count = vr_input_snapshot_count v,
        sm_failure_count = vr_failure_count v\<rparr>,
      bm_entries = entries\<rparr>"

definition manifest_bytes_of :: "bundle_manifest \<Rightarrow> string" where
  "manifest_bytes_of m = json_indent 0 (bundle_manifest_json m) @ [CHR 0x0A]"

definition generated_file :: "string \<Rightarrow> string \<Rightarrow> bundle_file" where
  "generated_file p s = \<lparr>bf_path = p, bf_source = ''generated'', bf_bytes = s\<rparr>"

text \<open>The checks and the files of the run and of the revocations, with the manifest over them.\<close>

definition collect_bundle :: "bundle_env \<Rightarrow> fs \<Rightarrow> bundle_options \<Rightarrow> (bundle_file list \<times> bundle_manifest) go_result" where
  "collect_bundle en fs opts =
     unless_error (first_error [
       fail_if (trim_space (bo_contract_path opts) = []) (Errorf ''contract path is required''),
       fail_if (trim_space (bo_ledger_path opts) = []) (Errorf ''ledger path is required''),
       fail_if (trim_space (bo_evidence_path opts) = []) (Errorf ''evidence path is required''),
       fail_if (trim_space (bo_out_path opts) = []) (Errorf ''out path is required'')])
     (let workspace_dir = (if trim_space (bo_workspace_dir opts) = [] then ''.'' else bo_workspace_dir opts) in
      bind_result (labelled ''verify run before bundle export: ''
          (run_verified en (bo_ledger_path opts) (bo_evidence_path opts) workspace_dir (\<lambda>_. False) fs)) (\<lambda>v.
      bind_result (read_bundle_evidence en fs (bo_evidence_path opts)) (\<lambda>pk.
      unless_error (verify_contract_digest en fs (bo_contract_path opts) (pk_contract_digest pk)) (
      bind_result (gather_bundle_files en fs opts workspace_dir pk) (\<lambda>fls.
      bind_result (load_revocation_files en fs (bo_revocation_paths opts)) (\<lambda>(revocation_files, _).
      bind_result (entries_for_files en (fls @ revocation_files)) (\<lambda>entries.
        Inr (fls @ revocation_files, bundle_manifest_for pk v entries))))))))"

text \<open>The signature's file, when a key is given, and the fingerprint of the key.\<close>

definition signature_files :: "bundle_env \<Rightarrow> string \<Rightarrow> string \<Rightarrow> (bundle_file list \<times> string) io" where
  "signature_files en key_path manifest_bytes =
     (if trim_space key_path = [] then io_return ([], [])
      else io_bind (sign_bundle_manifest en key_path manifest_bytes)
        (\<lambda>(bytes, fingerprint). io_return ([generated_file signature_entry_path bytes], fingerprint)))"

definition bundle_export :: "bundle_env \<Rightarrow> bundle_options \<Rightarrow> bundle_result io" where
  "bundle_export en opts = (\<lambda>fs0. io_bind (io_result (collect_bundle en fs0 opts)) (\<lambda>(fls, manifest).
     let manifest_bytes = manifest_bytes_of manifest in
     io_bind (signature_files en (bo_sign_key_path opts) manifest_bytes) (\<lambda>(signatures, fingerprint).
     let all = fls @ [generated_file signed_manifest_path manifest_bytes] @ signatures in
     io_bind (io_result (entries_for_files en all)) (\<lambda>checksum_entries.
     io_bind (write_zip en (bo_out_path opts)
         (all @ [generated_file checksums_entry (checksums_for_entries checksum_entries)])) (\<lambda>_.
     io_return \<lparr>bx_bundle_path = bo_out_path opts, bx_manifest = manifest, bx_public_key_sha256 = fingerprint\<rparr>)))) fs0)"

subsection \<open>Verify\<close>

definition make_temp_dir :: "string \<Rightarrow> string io" where
  "make_temp_dir tmp = (\<lambda>fs.
     if fs tmp = None \<and> list_all (\<lambda>q. fs q = Some Dir) (dir_chain (path_dir tmp))
     then (Inr tmp, fs(tmp \<mapsto> Dir)) else (Inl (Errorf (os_error ''mkdir'' tmp)), fs))"

definition remove_all :: "string \<Rightarrow> fs \<Rightarrow> fs" where
  "remove_all p fs = (\<lambda>q. if within p q then None else fs q)"

definition extract_entry :: "bundle_env \<Rightarrow> string \<Rightarrow> entries \<Rightarrow> string \<Rightarrow> unit \<Rightarrow> unit io" where
  "extract_entry en tmp entries name u =
     (let target = path_join [tmp, name] in
      io_bind (io_wrap ''create extracted dir: '' (io_mkdir_all (bundle_cwd en) (path_dir target))) (\<lambda>_.
      io_wrap (''write extracted entry '' @ name @ '': '')
        (io_write (bundle_cwd en) target (entry_bytes entries name))))"

definition extract_entries :: "bundle_env \<Rightarrow> string \<Rightarrow> entries \<Rightarrow> unit io" where
  "extract_entries en tmp entries =
     io_fold (extract_entry en tmp entries)
       (filter (\<lambda>n. n \<noteq> signed_manifest_path \<and> n \<noteq> checksums_entry) (re_map_order (bn_base en) (map fst entries))) ()"

definition read_bundled_revocations :: "bundle_env \<Rightarrow> fs \<Rightarrow> string \<Rightarrow> (string \<Rightarrow> bool) go_result" where
  "read_bundled_revocations en fs dir = (case fs (abs_path (bundle_cwd en) dir) of
      None \<Rightarrow> Inr (\<lambda>_. False)
    | Some (File _) \<Rightarrow> Inl (Errorf (''read bundled revocations: '' @ os_error ''readdir'' dir))
    | Some Dir \<Rightarrow> bind_result (map_result
        (\<lambda>name. labelled (''read bundled revocation '' @ name @ '': '') (read_revocations en fs (path_join [dir, name])))
        (filter (\<lambda>name. fs (abs_path (bundle_cwd en) (path_join [dir, name])) \<noteq> Some Dir)
           (bn_read_dir en fs (abs_path (bundle_cwd en) dir))))
        (\<lambda>lists. Inr (revoked_ticket_ids lists)))"

definition merge_revoked :: "(string \<Rightarrow> bool) \<Rightarrow> (string \<Rightarrow> bool) \<Rightarrow> string \<Rightarrow> bool" where
  "merge_revoked left right = (\<lambda>i. left i \<or> right i)"

text \<open>The verification of the unpacked run.\<close>

definition verify_extracted :: "bundle_env \<Rightarrow> bundle_verify_options \<Rightarrow> string \<Rightarrow> fs \<Rightarrow> (verify_result \<times> string) go_result" where
  "verify_extracted en opts tmp fs =
     bind_result (read_bundle_evidence en fs (path_join [tmp, evidence_entry])) (\<lambda>pk.
     unless_error (verify_contract_digest en fs (path_join [tmp, contract_entry]) (pk_contract_digest pk)) (
     bind_result (read_bundled_revocations en fs (path_join [tmp, ''revocations''])) (\<lambda>bundled.
     bind_result (run_verified en (path_join [tmp, ledger_entry]) (path_join [tmp, evidence_entry])
         (path_join [tmp, ''artifacts'']) (merge_revoked (bv_revoked opts) bundled) fs) (\<lambda>v.
     if trim_space (bv_public_key_path opts) = [] then Inr (v, [])
     else bind_result (public_key_file_fingerprint en fs (bv_public_key_path opts)) (\<lambda>k. Inr (v, k))))))"

text \<open>What is checked before anything is unpacked.\<close>

definition checked_bundle :: "bundle_env \<Rightarrow> fs \<Rightarrow> string \<Rightarrow> entries go_result" where
  "checked_bundle en fs p =
     bind_result (read_zip_entries en fs p) (\<lambda>entries.
       unless_error (first_error [require_bundle_entries entries, verify_bundle_checksums en entries]) (Inr entries))"

definition authentic_bundle :: "bundle_env \<Rightarrow> bundle_verify_options \<Rightarrow> fs \<Rightarrow> entries go_result" where
  "authentic_bundle en opts fs =
     unless_error (fail_if (trim_space (bv_bundle_path opts) = []) (Errorf ''bundle path is required''))
       (bind_result (checked_bundle en fs (bv_bundle_path opts)) (\<lambda>entries.
          unless_error (if trim_space (bv_public_key_path opts) = [] then None
              else verify_bundle_signature en fs entries (bv_public_key_path opts))
            (Inr entries)))"

text \<open>The last step runs on every way out once the directory is made.\<close>

definition with_temp_dir :: "bundle_env \<Rightarrow> (string \<Rightarrow> 'a io) \<Rightarrow> 'a io" where
  "with_temp_dir en body =
     io_bind (io_wrap ''create bundle verification dir: '' (make_temp_dir (bn_tmp_dir en)))
       (\<lambda>tmp fs. case body tmp fs of (r, fs') \<Rightarrow> (r, remove_all tmp fs'))"

definition bundle_verify :: "bundle_env \<Rightarrow> bundle_verify_options \<Rightarrow> (verify_result \<times> string) io" where
  "bundle_verify en opts = (\<lambda>fs. io_bind (io_result (authentic_bundle en opts fs)) (\<lambda>entries.
     with_temp_dir en (\<lambda>tmp. io_bind (extract_entries en tmp entries)
       (\<lambda>_ fs'. (verify_extracted en opts tmp fs', fs')))) fs)"

end
