(* ===== verification/Go_Tree.thy ===== *)
theory Go_Tree
  imports Go_Location
begin

text \<open>
  Absolute cleaned paths as the lists of the names on the way from the root. Joining, the parent
  directory and the chain of ancestors become operations on lists.
\<close>

definition plain :: "string list \<Rightarrow> bool" where
  "plain es \<longleftrightarrow> list_all plain_elem es"

definition tree_path :: "string list \<Rightarrow> string" where
  "tree_path es = slash # join_with [slash] es"

lemma plain_simps [simp]:
  "plain []" "plain (e # es) \<longleftrightarrow> plain_elem e \<and> plain es" "plain (es @ fs) \<longleftrightarrow> plain es \<and> plain fs"
  by (simp_all add: plain_def)

lemma plain_take [simp]: "plain es \<Longrightarrow> plain (take k es)"
  by (auto simp: plain_def list_all_iff dest: in_set_takeD)

lemma plain_prefix: "plain es \<Longrightarrow> prefix ds es \<Longrightarrow> plain ds"
  by (auto elim!: prefixE)

lemma plain_split: "plain es \<Longrightarrow> es \<noteq> [] \<Longrightarrow> split_on slash (join_with [slash] es) = es"
  by (rule split_join_normal [where r = True])
     (auto simp: plain_def normal_elems_def intro!: exI [of _ "0::nat"])

lemma is_abs_tree_path [simp]: "is_abs (tree_path es)"
  by (simp add: tree_path_def is_abs_def)

lemma split_on_slash: "split_on slash (slash # s) = [] # split_on slash s"
  by simp

lemma path_elems_tree_path [simp]: "plain es \<Longrightarrow> path_elems (tree_path es) = es"
proof (cases "es = []")
  case True
  then show ?thesis by (simp add: path_elems_def tree_path_def)
next
  case False
  assume p: "plain es"
  have "path_elems (tree_path es) = clean_elems True [] ([] # split_on slash (join_with [slash] es))"
    by (simp add: path_elems_def tree_path_def is_abs_def)
  also have "\<dots> = clean_elems True [] es" using plain_split [OF p False] by simp
  also have "\<dots> = es" using p clean_elems_plain [of es True "[]"] by (simp add: plain_def)
  finally show ?thesis .
qed

lemma tree_path_clean [simp]: "plain es \<Longrightarrow> path_clean (tree_path es) = tree_path es"
  by (simp add: path_clean_def) (simp add: tree_path_def)

lemma tree_path_abs [simp]: "plain es \<Longrightarrow> abs_path cwd (tree_path es) = tree_path es"
  by (simp add: abs_path_def)

lemma tree_path_inject [simp]: "plain es \<Longrightarrow> plain fs \<Longrightarrow> tree_path es = tree_path fs \<longleftrightarrow> es = fs"
  by (metis path_elems_tree_path)

lemma tree_path_of: "is_abs p \<Longrightarrow> path_clean p = p \<Longrightarrow> p = tree_path (path_elems p)"
  by (simp add: path_clean_def tree_path_def)

lemma abs_elems_plain: "is_abs p \<Longrightarrow> plain (path_elems p)"
  using path_elems_normal [of p] by (auto simp: normal_elems_def plain_def)

lemma tree_path_cases:
  assumes "is_abs p" and "path_clean p = p"
  obtains es where "plain es" and "p = tree_path es"
  using assms abs_elems_plain tree_path_of by blast

lemma tree_path_within [simp]: "plain es \<Longrightarrow> plain fs \<Longrightarrow> within (tree_path es) (tree_path fs) \<longleftrightarrow> prefix es fs"
  by (simp add: within_def)

text \<open>Joining a path that stays inside.\<close>

lemma clean_path_form: "is_abs p \<Longrightarrow> path_clean p = tree_path (path_elems p)"
  by (simp add: path_clean_def tree_path_def)

lemma path_join_clean: "es \<noteq> [] \<Longrightarrow> \<forall>e \<in> set es. e \<noteq> [] \<Longrightarrow> path_clean (path_join es) = path_join es"
  by (cases es) (auto simp: path_join_def)

lemma path_join_tree:
  assumes "plain es" and "\<not> escapes n" and "path_clean n = n"
  shows "path_join [tree_path es, n] = tree_path (es @ path_elems n) \<and> plain (path_elems n)"
proof -
  have n: "\<not> escapes (path_clean n)" using assms by simp
  have j: "path_elems (path_join [tree_path es, n]) = es @ path_elems n" "is_abs (path_join [tree_path es, n])"
    using path_elems_join_inside [OF _ n, of "tree_path es"] assms(1,3) by simp_all
  have "n \<noteq> []" using assms(3) path_clean_not_Nil [of n] by auto
  then have "path_clean (path_join [tree_path es, n]) = path_join [tree_path es, n]"
    by (intro path_join_clean) (auto simp: tree_path_def)
  with j clean_path_form [of "path_join [tree_path es, n]"] inside_elems [OF n] show ?thesis
    by (simp add: plain_def)
qed

text \<open>The parent and the ancestors.\<close>

lemma tree_path_snoc: "plain es \<Longrightarrow> tree_path (es @ [e]) = (if es = [] then [slash] else tree_path es @ [slash]) @ e"
  by (simp add: tree_path_def join_with_append)

lemma path_dir_tree [simp]:
  assumes "plain es" and "plain_elem e"
  shows "path_dir (tree_path (es @ [e])) = tree_path es"
proof -
  let ?d = "if es = [] then [slash] else tree_path es @ [slash]"
  have e: "\<forall>c \<in> set (rev e). c \<noteq> slash" using assms(2) by (auto simp: plain_elem_def)
  have "dropWhile (\<lambda>c. c \<noteq> slash) (rev (?d @ e)) = rev ?d"
    using e by (subst rev_append, subst dropWhile_append2) auto
  then have "path_dir (tree_path (es @ [e])) = path_clean ?d"
    unfolding path_dir_def tree_path_snoc [OF assms(1)] by simp
  moreover have "path_elems ?d = es"
    using assms(1) path_elems_append [of "tree_path es" "[]"]
    by (auto simp: path_elems_def [of "[slash]"]) (simp add: tree_path_def)
  moreover have "is_abs ?d" by (auto simp: is_abs_append tree_path_def) (simp_all add: is_abs_def)
  ultimately show ?thesis by (simp add: clean_path_form)
qed

lemma path_dir_root [simp]: "path_dir (tree_path []) = tree_path []"
  by (simp add: path_dir_def tree_path_def path_clean_def path_elems_def is_abs_def)

lemma dir_chain_tree: "plain es \<Longrightarrow> dir_chain (tree_path es) = map (\<lambda>k. tree_path (take k es)) [0 ..< Suc (length es)]"
  by (simp add: dir_chain_def) (simp add: tree_path_def)

lemma set_dir_chain_tree:
  assumes "plain es"
  shows "set (dir_chain (tree_path es)) = {tree_path fs | fs. prefix fs es}"
proof -
  have "\<exists>k \<in> {..length es}. fs = take k es" if "prefix fs es" for fs
    using that by (metis append_eq_conv_conj atMost_iff prefixE prefix_length_le)
  then have "{fs. prefix fs es} = (\<lambda>k. take k es) ` {..length es}" by (auto simp: take_is_prefix)
  moreover have "{tree_path fs | fs. prefix fs es} = tree_path ` {fs. prefix fs es}" by auto
  moreover have "set [0 ..< Suc (length es)] = {..length es}" by auto
  ultimately show ?thesis unfolding dir_chain_tree [OF assms] set_map by (simp only: image_image)
qed

lemma clean_elems_plain_last: "plain_elem e \<Longrightarrow> clean_elems r out (ws @ [e]) = clean_elems r out ws @ [e]"
  by (simp add: clean_elems_append) (simp add: plain_elem_def)

lemma abs_path_dir:
  assumes cwd: "is_abs cwd" and f: "names_file p"
  shows "abs_path cwd (path_dir p) = path_dir (abs_path cwd p)"
proof -
  obtain ws e where w: "split_on slash p = ws @ [e]" by (metis append_butlast_last_id split_on_not_Nil)
  with f have e: "plain_elem e" by (simp add: names_file_def)
  note parent = path_elems_parent [OF w e]
  let ?X = "clean_elems True (if is_abs p then [] else rev (path_elems cwd)) ws"
  have "path_elems (abs_path cwd p) = ?X @ [e]"
    using w clean_elems_plain_last [OF e] by (simp add: abs_path_elems [OF cwd] path_elems_def [of p])
  moreover have abs: "is_abs (abs_path cwd p)" "path_clean (abs_path cwd p) = abs_path cwd p"
    using cwd abs_path_is_abs abs_path_clean by auto
  ultimately have q: "abs_path cwd p = tree_path (?X @ [e])" and X: "plain ?X"
    using tree_path_of [OF abs] abs_elems_plain [OF abs(1)] by simp_all
  have "path_elems (abs_path cwd (path_dir p)) = ?X"
  proof (cases "is_abs p")
    case True
    with parent show ?thesis by (simp add: abs_path_elems [OF cwd])
  next
    case False
    have nd: "''..'' \<notin> set (rev (path_elems cwd))"
      using cwd clean_elems_no_dotdot [of "[]"] by (simp add: path_elems_def)
    have "path_clean (path_dir p) = path_dir p" by (simp add: path_dir_def)
    then have "clean_elems True (rev (path_elems cwd)) (split_on slash (path_dir p)) =
        clean_elems True (rev (path_elems cwd)) (path_elems (path_dir p))"
      using split_of_clean [of "path_dir p"] parent False by metis
    with parent False rooted_of_cleaned [OF nd, of "[]" ws] show ?thesis
      by (simp add: abs_path_elems [OF cwd])
  qed
  moreover have "is_abs (abs_path cwd (path_dir p))" "path_clean (abs_path cwd (path_dir p)) = abs_path cwd (path_dir p)"
    using cwd abs_path_is_abs abs_path_clean by auto
  ultimately have "abs_path cwd (path_dir p) = tree_path ?X" using tree_path_of by metis
  with path_dir_tree [OF X e] q show ?thesis by simp
qed

subsection \<open>Paths below a directory\<close>

definition rel_path :: "string list \<Rightarrow> string" where
  "rel_path es = join_with [slash] es"

lemma rel_path_facts:
  assumes "plain es" and "es \<noteq> []"
  shows "path_elems (rel_path es) = es" and "path_clean (rel_path es) = rel_path es"
    and "\<not> is_abs (rel_path es)" and "rel_path es \<noteq> []"
proof -
  note s = plain_elems_split [OF assms(1) [unfolded plain_def] assms(2)]
  show "\<not> is_abs (rel_path es)" "rel_path es \<noteq> []" using s by (simp_all add: rel_path_def)
  show e: "path_elems (rel_path es) = es"
    using s clean_elems_plain [of es False "[]"] assms(1) by (simp add: path_elems_def rel_path_def plain_def)
  show "path_clean (rel_path es) = rel_path es"
    using e s(3) assms(2) by (simp add: path_clean_def rel_path_def)
qed

lemma location_below:
  assumes "is_abs cwd" and "dir \<noteq> []" and "plain es" and "es \<noteq> []"
  shows "abs_path cwd (path_join [dir, rel_path es]) = tree_path (path_elems (abs_path cwd dir) @ es)"
  using location_elems_list [OF assms(1,2) assms(3) [unfolded plain_def] assms(4)]
    abs_path_is_abs [OF assms(1)] abs_path_clean [OF assms(1)] tree_path_of rel_path_def by metis

lemma join_below:
  assumes "is_abs dir" and "plain es" and "es \<noteq> []"
  shows "path_join [dir, rel_path es] = tree_path (path_elems dir @ es)"
proof -
  have d: "dir \<noteq> []" using assms(1) is_abs_not_Nil by blast
  note j = path_join_rel [OF d assms(2) [unfolded plain_def] assms(3)]
  have "is_abs (path_join [dir, rel_path es])" using j(1) d assms(1) by (simp add: rel_path_def is_abs_append)
  moreover have "path_clean (path_join [dir, rel_path es]) = path_join [dir, rel_path es]"
    using j(1) by (simp add: rel_path_def)
  ultimately show ?thesis using tree_path_of j(2) by (metis rel_path_def)
qed

text \<open>An absolute path is never blank.\<close>

lemma trim_right_rooted: "\<exists>t. trim_right (slash # s) = slash # t"
proof (induction "length s" arbitrary: s rule: less_induct)
  case less
  let ?p = "slash # s" and ?k = "space_suffix_len (slash # s)"
  have rooted: "space_len ?p = 0" by (simp add: space_len_ascii ascii_space_def)
  show ?case
  proof (cases "?k = 0")
    case True
    then show ?thesis by (simp add: trim_right.simps [of ?p])
  next
    case False
    then have k: "?k \<le> length ?p" "space_len (drop (length ?p - ?k) ?p) = ?k"
      by (auto simp: space_suffix_len_def Let_def simp del: drop_Suc_Cons split: if_splits)
    have "?k < length ?p"
    proof (rule ccontr)
      assume "\<not> ?k < length ?p"
      with k(1) have "?k = length ?p" by simp
      with k(2) rooted False show False by simp
    qed
    then obtain j where j: "length ?p - ?k = Suc j" by (cases "length ?p - ?k") auto
    with False have "length (take j s) < length s" by auto
    from less [OF this] False j show ?thesis by (simp add: trim_right.simps [of ?p])
  qed
qed

lemma tree_path_not_blank: "trim_space (tree_path es) \<noteq> []"
proof -
  have "space_len (slash # s) = 0" for s by (simp add: space_len_ascii ascii_space_def)
  then have "trim_left (tree_path es) = tree_path es" by (simp add: tree_path_def trim_left.simps)
  with trim_right_rooted [of "join_with [slash] es"] show ?thesis by (auto simp: trim_space_def tree_path_def)
qed

subsection \<open>Calls of the operating system\<close>

definition made_dirs :: "string list \<Rightarrow> fs \<Rightarrow> fs" where
  "made_dirs ps fs = (\<lambda>q. if q \<in> {tree_path rs | rs. prefix rs ps} then Some Dir else fs q)"

lemma io_mkdir_all_tree:
  assumes "plain ps"
  shows "io_mkdir_all cwd (tree_path ps) fs =
    (if \<exists>rs s. prefix rs ps \<and> fs (tree_path rs) = Some (File s)
     then (Inl (Errorf (os_error ''mkdir'' (tree_path ps))), fs) else (Inr (), made_dirs ps fs))"
proof -
  have "(case x of Some (File _) \<Rightarrow> True | _ \<Rightarrow> False) \<longleftrightarrow> (\<exists>s. x = Some (File s))" for x
    by (auto split: option.splits node.splits)
  then have "list_ex (\<lambda>q. case fs q of Some (File _) \<Rightarrow> True | _ \<Rightarrow> False) (dir_chain (tree_path ps)) \<longleftrightarrow>
    (\<exists>rs s. prefix rs ps \<and> fs (tree_path rs) = Some (File s))"
    unfolding list_ex_iff set_dir_chain_tree [OF assms] by blast
  then show ?thesis using set_dir_chain_tree [OF assms] assms
    by (simp add: io_mkdir_all_def os_mkdir_all_def made_dirs_def)
qed

lemma io_write_tree:
  assumes "plain ps" and "plain_elem e"
  shows "io_write cwd (tree_path (ps @ [e])) s fs =
    (if fs (tree_path (ps @ [e])) = Some Dir \<or> fs (tree_path ps) \<noteq> Some Dir
     then (Inl (Errorf (os_error ''open'' (tree_path (ps @ [e])))), fs)
     else (Inr (), fs(tree_path (ps @ [e]) \<mapsto> File s)))"
  using assms by (simp add: io_write_def os_write_file_def)

end
