(* ===== verification/Bundle_Unpack.thy ===== *)
theory Bundle_Unpack
  imports Bundle_Export Go_Tree
begin

text \<open>
  What unpacking a bundle does to the file system. Every entry lands below the temporary directory, so
  that removing the directory afterwards leaves the file system as it was; and when no
  entry's path runs through another entry, all entries are there.
\<close>

subsection \<open>Paths of entries\<close>

lemma entry_path:
  assumes "validate_bundle_path n = Inr n"
  obtains ds e where "path_elems n = ds @ [e]" and "plain ds" and "plain_elem e"
    and "n = join_with [slash] (ds @ [e])"
proof -
  from assms have n: "archive_clean n = n" "n \<noteq> ''.''" "\<not> escapes n" by (auto simp: validate_bundle_path_Inr)
  from n(1) archive_clean_no_backslash [of n] have "to_slash n = n" by (simp add: to_slash_clean)
  with n(1) have c: "path_clean n = n" by (simp add: archive_clean_def)
  with n(3) have pl: "\<not> is_abs n" "plain (path_elems n)" using inside_elems [of n] by (auto simp: plain_def)
  with c have f: "n = (if path_elems n = [] then ''.'' else join_with [slash] (path_elems n))"
    by (simp add: path_clean_def)
  with n(2) have ne: "path_elems n \<noteq> []" by auto
  then obtain ds e where d: "path_elems n = ds @ [e]" by (cases "path_elems n" rule: rev_cases) auto
  show thesis
  proof (rule that)
    show "path_elems n = ds @ [e]" by (rule d)
    show "plain ds" "plain_elem e" using pl(2) d by simp_all
    show "n = join_with [slash] (ds @ [e])" using f ne d by simp
  qed
qed

lemma entry_target:
  assumes "plain ts" and "validate_bundle_path n = Inr n"
  shows "path_join [tree_path ts, n] = tree_path (ts @ path_elems n)"
proof -
  from assms(2) have n: "archive_clean n = n" "\<not> escapes n" by (auto simp: validate_bundle_path_Inr)
  from n(1) archive_clean_no_backslash [of n] have "to_slash n = n" by (simp add: to_slash_clean)
  with n(1) have "path_clean n = n" by (simp add: archive_clean_def)
  with path_join_tree [OF assms(1) n(2)] show ?thesis by simp
qed

lemma entry_inject:
  assumes "validate_bundle_path m = Inr m" and "validate_bundle_path n = Inr n" and "path_elems m = path_elems n"
  shows "m = n"
  using assms by (elim entry_path) simp

subsection \<open>The unpacked tree\<close>

definition unpacked :: "string list \<Rightarrow> entries \<Rightarrow> fs \<Rightarrow> string list \<Rightarrow> fs \<Rightarrow> bool" where
  "unpacked ts entries fs0 seen fs \<longleftrightarrow>
     (\<forall>q. \<not> within (tree_path ts) q \<longrightarrow> fs q = fs0 q) \<and>
     (\<forall>ps. prefix ps ts \<longrightarrow> fs (tree_path ps) = Some Dir) \<and>
     (\<forall>n \<in> set seen. fs (tree_path (ts @ path_elems n)) = Some (File (entry_bytes entries n))) \<and>
     (\<forall>q s. within (tree_path ts) q \<and> fs q = Some (File s) \<longrightarrow> (\<exists>n \<in> set seen. q = tree_path (ts @ path_elems n))) \<and>
     (\<forall>q. within (tree_path ts) q \<and> fs q = Some Dir \<longrightarrow>
        (\<exists>ks. q = tree_path (ts @ ks) \<and> (ks = [] \<or> (\<exists>n \<in> set seen. strict_prefix ks (path_elems n)))))"

text \<open>No entry's path runs through another entry.\<close>

definition apart :: "string list \<Rightarrow> bool" where
  "apart ns \<longleftrightarrow> (\<forall>m \<in> set ns. \<forall>n \<in> set ns. \<not> strict_prefix (path_elems m) (path_elems n))"

lemma made_dirs_outside:
  assumes "plain ts" and "plain ds" and "\<forall>ps. prefix ps ts \<longrightarrow> fs (tree_path ps) = Some Dir"
    and "\<not> within (tree_path ts) q"
  shows "made_dirs (ts @ ds) fs q = fs q"
  using assms plain_prefix [OF assms(2)] by (auto simp: made_dirs_def within_def prefix_append)

lemma entry_plain: "validate_bundle_path n = Inr n \<Longrightarrow> plain (path_elems n)"
  by (elim entry_path) simp

lemma unpackedD:
  assumes "unpacked ts entries fs0 seen fs"
  shows "\<not> within (tree_path ts) q \<Longrightarrow> fs q = fs0 q"
    and "prefix ps ts \<Longrightarrow> fs (tree_path ps) = Some Dir"
    and "n \<in> set seen \<Longrightarrow> fs (tree_path (ts @ path_elems n)) = Some (File (entry_bytes entries n))"
    and "within (tree_path ts) q \<Longrightarrow> fs q = Some (File s) \<Longrightarrow> \<exists>n \<in> set seen. q = tree_path (ts @ path_elems n)"
    and "within (tree_path ts) q \<Longrightarrow> fs q = Some Dir \<Longrightarrow>
      \<exists>ks. q = tree_path (ts @ ks) \<and> (ks = [] \<or> (\<exists>n \<in> set seen. strict_prefix ks (path_elems n)))"
  using assms unfolding unpacked_def by blast+

text \<open>Where a file or a directory of the tree is.\<close>

lemma unpacked_file:
  assumes "unpacked ts entries fs0 seen fs" and "plain ts" and "plain ks" and "fs (tree_path (ts @ ks)) = Some (File s)"
    and "\<forall>m \<in> set seen. validate_bundle_path m = Inr m"
  shows "\<exists>m \<in> set seen. ks = path_elems m"
proof -
  from assms(2,3) have "within (tree_path ts) (tree_path (ts @ ks))" by simp
  from unpackedD(4) [OF assms(1) this assms(4)]
  obtain m where m: "m \<in> set seen" "tree_path (ts @ ks) = tree_path (ts @ path_elems m)" by blast
  with assms(5) entry_plain have "plain (path_elems m)" by blast
  with m assms(2,3) show ?thesis by auto
qed

lemma unpacked_dir:
  assumes "unpacked ts entries fs0 seen fs" and "plain ts" and "plain ks" and "fs (tree_path (ts @ ks)) = Some Dir"
    and "\<forall>m \<in> set seen. validate_bundle_path m = Inr m"
  shows "ks = [] \<or> (\<exists>m \<in> set seen. strict_prefix ks (path_elems m))"
proof -
  from assms(2,3) have "within (tree_path ts) (tree_path (ts @ ks))" by simp
  from unpackedD(5) [OF assms(1) this assms(4)]
  obtain js where j: "tree_path (ts @ ks) = tree_path (ts @ js)"
      "js = [] \<or> (\<exists>m \<in> set seen. strict_prefix js (path_elems m))" by blast
  from j(2) have "plain js"
  proof
    assume "\<exists>m \<in> set seen. strict_prefix js (path_elems m)"
    then obtain m where m: "m \<in> set seen" "strict_prefix js (path_elems m)" ..
    with assms(5) entry_plain have "plain (path_elems m)" by blast
    with m(2) plain_prefix show ?thesis by (auto simp: strict_prefix_def)
  qed simp
  with j assms(2,3) show ?thesis by simp
qed

lemma extract_outcome:
  assumes ts: "plain ts" and pl: "plain ds" "plain_elem e" and d: "path_elems n = ds @ [e]"
    and n: "validate_bundle_path n = Inr n"
    and step: "extract_entry en (tree_path ts) entries n v fs = (r, fs')"
  shows "(\<exists>rs s. prefix rs (ts @ ds) \<and> fs (tree_path rs) = Some (File s)) \<and> r \<noteq> Inr () \<and> fs' = fs \<or>
    fs (tree_path (ts @ path_elems n)) = Some Dir \<and> r \<noteq> Inr () \<and> fs' = made_dirs (ts @ ds) fs \<or>
    (\<nexists>rs s. prefix rs (ts @ ds) \<and> fs (tree_path rs) = Some (File s)) \<and> r = Inr () \<and>
      fs' = (made_dirs (ts @ ds) fs)(tree_path (ts @ path_elems n) \<mapsto> File (entry_bytes entries n))"
proof -
  have t: "path_join [tree_path ts, n] = tree_path ((ts @ ds) @ [e])" using entry_target [OF ts n] d by simp
  have p: "plain (ts @ ds)" using ts pl by simp
  have "tree_path ((ts @ ds) @ [e]) \<notin> {tree_path rs | rs. prefix rs (ts @ ds)}"
  proof
    assume "tree_path ((ts @ ds) @ [e]) \<in> {tree_path rs | rs. prefix rs (ts @ ds)}"
    then obtain rs where rs: "prefix rs (ts @ ds)" "tree_path ((ts @ ds) @ [e]) = tree_path rs" by blast
    moreover have "plain rs" "plain ((ts @ ds) @ [e])" using plain_prefix [OF p rs(1)] p pl by simp_all
    ultimately have "prefix ((ts @ ds) @ [e]) (ts @ ds)" using tree_path_inject by metis
    then show False by (auto dest: prefix_length_le)
  qed
  then have same: "made_dirs (ts @ ds) fs (tree_path ((ts @ ds) @ [e])) = fs (tree_path ((ts @ ds) @ [e]))"
    unfolding made_dirs_def by (rule if_not_P)
  have made: "made_dirs (ts @ ds) fs (tree_path (ts @ ds)) = Some Dir"
    by (auto simp: made_dirs_def)
  let ?q = "tree_path ((ts @ ds) @ [e])"
  have el: "tree_path (ts @ path_elems n) = ?q" using d by simp
  have mk: "io_mkdir_all cwd (path_dir ?q) fs =
    (if \<exists>rs s. prefix rs (ts @ ds) \<and> fs (tree_path rs) = Some (File s)
     then (Inl (Errorf (os_error ''mkdir'' (tree_path (ts @ ds)))), fs) else (Inr (), made_dirs (ts @ ds) fs))" for cwd
    unfolding path_dir_tree [OF p pl(2)] by (rule io_mkdir_all_tree [OF p])
  have wr: "io_write cwd ?q s (made_dirs (ts @ ds) fs) =
    (if fs ?q = Some Dir then (Inl (Errorf (os_error ''open'' ?q)), made_dirs (ts @ ds) fs)
     else (Inr (), (made_dirs (ts @ ds) fs)(?q \<mapsto> File s)))" for cwd s
    unfolding io_write_tree [OF p pl(2)] same made by simp
  have run: "extract_entry en (tree_path ts) entries n v = io_bind
      (io_wrap ''create extracted dir: '' (io_mkdir_all (bundle_cwd en) (path_dir ?q)))
      (\<lambda>_. io_wrap (''write extracted entry '' @ n @ '': '') (io_write (bundle_cwd en) ?q (entry_bytes entries n)))"
    by (simp only: extract_entry_def Let_def t)
  show ?thesis
    using step unfolding run el io_bind_def io_wrap_def mk
    by (auto simp: wr simp del: append_assoc split: if_splits)
qed

lemma apart_Cons: "apart (n # seen) \<longleftrightarrow> apart seen \<and>
    (\<forall>m \<in> set seen. \<not> strict_prefix (path_elems m) (path_elems n) \<and> \<not> strict_prefix (path_elems n) (path_elems m))"
  by (auto simp: apart_def)

lemma unpacked_snoc:
  assumes ts: "plain ts" and u: "unpacked ts entries fs0 seen fs" and d: "path_elems n = ds @ [e]"
    and pl: "plain ds" "plain_elem e" and n: "validate_bundle_path n = Inr n"
    and seen: "\<forall>m \<in> set seen. validate_bundle_path m = Inr m" "n \<notin> set seen"
    and free: "\<nexists>rs s. prefix rs (ts @ ds) \<and> fs (tree_path rs) = Some (File s)"
  shows "unpacked ts entries fs0 (seen @ [n])
    ((made_dirs (ts @ ds) fs)(tree_path (ts @ path_elems n) \<mapsto> File (entry_bytes entries n)))"
  (is "unpacked _ _ _ _ (?fs1(?q \<mapsto> _))")
proof -
  have p: "plain (ts @ ds)" "plain (path_elems n)" using ts pl d by simp_all
  have q: "within (tree_path ts) ?q" using ts p by simp
  have dirs: "\<forall>ps. prefix ps ts \<longrightarrow> fs (tree_path ps) = Some Dir" using unpackedD(2) [OF u] by blast
  have file1: "?fs1 q' = Some (File s) \<Longrightarrow> fs q' = Some (File s)" for q' s
    by (auto simp: made_dirs_def split: if_splits)
  have keep: "fs q' = Some (File s) \<Longrightarrow> ?fs1 q' = Some (File s)" for q' s
    using free by (auto simp: made_dirs_def)
  have other: "tree_path (ts @ path_elems m) \<noteq> ?q" if "m \<in> set seen" for m
  proof -
    from that seen have m: "validate_bundle_path m = Inr m" "m \<noteq> n" by auto
    with entry_inject [OF m(1) n] entry_plain [OF m(1)] p(2) ts show ?thesis by auto
  qed
  have "(?fs1(?q \<mapsto> File (entry_bytes entries n))) q' = fs0 q'" if "\<not> within (tree_path ts) q'" for q'
    using that q made_dirs_outside [OF ts pl(1) dirs that] unpackedD(1) [OF u that] by auto
  moreover have "(?fs1(?q \<mapsto> File (entry_bytes entries n))) (tree_path ps) = Some Dir" if ps: "prefix ps ts" for ps
  proof -
    have "tree_path ps \<noteq> ?q" using ps plain_prefix [OF ts ps] ts p(2) d by (auto dest: prefix_length_le)
    moreover have "?fs1 (tree_path ps) = Some Dir" using ps by (auto simp: made_dirs_def)
    ultimately show ?thesis by simp
  qed
  moreover have "(?fs1(?q \<mapsto> File (entry_bytes entries n))) (tree_path (ts @ path_elems m)) = Some (File (entry_bytes entries m))"
    if "m \<in> set (seen @ [n])" for m
    using that other [of m] keep [OF unpackedD(3) [OF u, of m]] by auto
  moreover have "\<exists>m \<in> set (seen @ [n]). q' = tree_path (ts @ path_elems m)"
    if "within (tree_path ts) q'" "(?fs1(?q \<mapsto> File (entry_bytes entries n))) q' = Some (File s)" for q' s
    using that file1 [of q' s] unpackedD(4) [OF u that(1), of s] by (auto split: if_splits)
  moreover have "\<exists>ks. q' = tree_path (ts @ ks) \<and> (ks = [] \<or> (\<exists>m \<in> set (seen @ [n]). strict_prefix ks (path_elems m)))"
    if w: "within (tree_path ts) q'" "(?fs1(?q \<mapsto> File (entry_bytes entries n))) q' = Some Dir" for q'
  proof (cases "q' \<in> {tree_path rs | rs. prefix rs (ts @ ds)}")
    case True
    then obtain rs where rs: "q' = tree_path rs" "prefix rs (ts @ ds)" by blast
    with w(1) plain_prefix [OF p(1) rs(2)] ts have "prefix ts rs" by simp
    then obtain ks where ks: "rs = ts @ ks" by (auto elim: prefixE)
    with rs(2) have "prefix ks ds" by simp
    with d have "strict_prefix ks (path_elems n)" by (auto simp: strict_prefix_def dest: prefix_length_le)
    with rs ks show ?thesis by auto
  next
    case False
    with w(2) have "fs q' = Some Dir" by (simp add: made_dirs_def split: if_splits)
    from unpackedD(5) [OF u w(1) this] show ?thesis by auto
  qed
  ultimately show ?thesis unfolding unpacked_def by blast
qed

lemma extract_step:
  assumes ts: "plain ts" and u: "unpacked ts entries fs0 seen fs"
    and n: "validate_bundle_path n = Inr n" and seen: "\<forall>m \<in> set seen. validate_bundle_path m = Inr m" "n \<notin> set seen"
    and step: "extract_entry en (tree_path ts) entries n v fs = (r, fs')"
  shows "(\<forall>q. \<not> within (tree_path ts) q \<longrightarrow> fs' q = fs0 q) \<and>
    (r = Inr () \<longrightarrow> unpacked ts entries fs0 (seen @ [n]) fs') \<and> (apart (n # seen) \<longrightarrow> r = Inr ())"
proof -
  from n obtain ds e where d: "path_elems n = ds @ [e]" and pl: "plain ds" "plain_elem e" by (rule entry_path)
  have outside: "\<not> within (tree_path ts) q \<Longrightarrow> made_dirs (ts @ ds) fs q = fs0 q" for q
    using made_dirs_outside [OF ts pl(1), of fs q] unpackedD(1,2) [OF u] by auto
  from extract_outcome [OF ts pl d n step] show ?thesis
  proof (elim disjE conjE)
    assume "\<exists>rs s. prefix rs (ts @ ds) \<and> fs (tree_path rs) = Some (File s)" and r: "r \<noteq> Inr ()" "fs' = fs"
    then obtain rs s where rs: "prefix rs (ts @ ds)" "fs (tree_path rs) = Some (File s)" by blast
    with unpackedD(2) [OF u] have "\<not> prefix rs ts" by auto
    with rs(1) obtain ks where ks: "rs = ts @ ks" "prefix ks ds" by (auto simp: prefix_append)
    with plain_prefix [OF pl(1)] rs(2) obtain m where "m \<in> set seen" "ks = path_elems m"
      using unpacked_file [OF u ts _ _ seen(1)] by blast
    moreover from ks(2) d have "strict_prefix ks (path_elems n)"
      by (auto simp: strict_prefix_def dest: prefix_length_le)
    ultimately have "\<not> apart (n # seen)" by (auto simp: apart_Cons)
    with r unpackedD(1) [OF u] show ?thesis by simp
  next
    assume dir: "fs (tree_path (ts @ path_elems n)) = Some Dir" and r: "r \<noteq> Inr ()" "fs' = made_dirs (ts @ ds) fs"
    from unpacked_dir [OF u ts entry_plain [OF n] dir seen(1)] d have "\<not> apart (n # seen)" by (auto simp: apart_Cons)
    with r outside show ?thesis by simp
  next
    assume "\<nexists>rs s. prefix rs (ts @ ds) \<and> fs (tree_path rs) = Some (File s)" and r: "r = Inr ()"
      and f: "fs' = (made_dirs (ts @ ds) fs)(tree_path (ts @ path_elems n) \<mapsto> File (entry_bytes entries n))"
    from unpacked_snoc [OF ts u d pl n seen this(1)] have "unpacked ts entries fs0 (seen @ [n]) fs'" by (simp add: f)
    with r unpackedD(1) [OF this] show ?thesis by simp
  qed
qed

subsection \<open>All entries\<close>

lemma extract_all:
  assumes ts: "plain ts"
  shows "unpacked ts entries fs0 seen fs \<Longrightarrow> \<forall>m \<in> set (seen @ ns). validate_bundle_path m = Inr m \<Longrightarrow>
    distinct (seen @ ns) \<Longrightarrow> io_fold (extract_entry en (tree_path ts) entries) ns () fs = (r, fs') \<Longrightarrow>
    (\<forall>q. \<not> within (tree_path ts) q \<longrightarrow> fs' q = fs0 q) \<and>
    (r = Inr () \<longrightarrow> unpacked ts entries fs0 (seen @ ns) fs') \<and> (apart (seen @ ns) \<longrightarrow> r = Inr ())"
proof (induction ns arbitrary: seen fs)
  case Nil
  then show ?case using unpackedD(1) by (auto simp: io_return_def)
next
  case (Cons n ns)
  obtain r1 fs1 where s: "extract_entry en (tree_path ts) entries n () fs = (r1, fs1)" by (cases "extract_entry en (tree_path ts) entries n () fs")
  from Cons.prems(2,3) have v: "validate_bundle_path n = Inr n" "\<forall>m \<in> set seen. validate_bundle_path m = Inr m" "n \<notin> set seen"
    by auto
  note st = extract_step [OF ts Cons.prems(1) v s]
  show ?case
  proof (cases r1)
    case (Inl e)
    with Cons.prems(4) s have "fs' = fs1" "r = Inl e" by (auto simp: io_bind_def)
    moreover from Inl st have "\<not> apart (n # seen)" by auto
    then have "\<not> apart (seen @ n # ns)" by (auto simp: apart_def)
    ultimately show ?thesis using st by simp
  next
    case (Inr u)
    with Cons.prems(4) s have "io_fold (extract_entry en (tree_path ts) entries) ns () fs1 = (r, fs')" by (simp add: io_bind_def)
    from Cons.IH [OF _ _ _ this, of "seen @ [n]"] st Inr Cons.prems(2,3) show ?thesis by simp
  qed
qed

definition unpacked_names :: "bundle_env \<Rightarrow> entries \<Rightarrow> string list" where
  "unpacked_names en entries =
     filter (\<lambda>n. n \<noteq> signed_manifest_path \<and> n \<noteq> checksums_entry) (re_map_order (bn_base en) (map fst entries))"

text \<open>Go iterates over a map in some order of its keys.\<close>

definition map_ordered :: "release_env \<Rightarrow> bool" where
  "map_ordered en \<longleftrightarrow> (\<forall>ks. distinct ks \<longrightarrow> distinct (re_map_order en ks) \<and> set (re_map_order en ks) = set ks)"

definition fresh_dir :: "fs \<Rightarrow> string \<Rightarrow> bool" where
  "fresh_dir fs tmp \<longleftrightarrow> is_abs tmp \<and> path_clean tmp = tmp \<and> (\<forall>q. within tmp q \<longrightarrow> fs q = None)"

lemma extract_entries_outcome:
  assumes "plain ts" and "map_ordered (bn_base en)" and "archive_names entries"
    and start: "unpacked ts entries fs0 [] fs"
    and run: "extract_entries en (tree_path ts) entries fs = (r, fs')"
  shows "(\<forall>q. \<not> within (tree_path ts) q \<longrightarrow> fs' q = fs0 q) \<and>
    (r = Inr () \<longrightarrow> unpacked ts entries fs0 (unpacked_names en entries) fs') \<and>
    (apart (unpacked_names en entries) \<longrightarrow> r = Inr ())"
proof -
  from assms(2,3) have "distinct (unpacked_names en entries)"
    "\<forall>m \<in> set (unpacked_names en entries). validate_bundle_path m = Inr m"
    by (auto simp: unpacked_names_def map_ordered_def archive_names_def list_all_iff)
  with extract_all [OF assms(1) start, of "unpacked_names en entries" en r fs'] run show ?thesis
    by (simp add: extract_entries_def unpacked_names_def)
qed

subsection \<open>The temporary directory\<close>

lemma make_temp_dir_unpacked:
  assumes ts: "plain ts" and fresh: "fresh_dir fs (tree_path ts)"
    and run: "make_temp_dir (tree_path ts) fs = (Inr tmp, fs1)"
  shows "tmp = tree_path ts \<and> unpacked ts entries fs [] fs1"
proof -
  from run have tmp: "tmp = tree_path ts" "fs1 = fs(tree_path ts \<mapsto> Dir)" "fs (tree_path ts) = None"
    and chain: "\<forall>q \<in> set (dir_chain (path_dir (tree_path ts))). fs q = Some Dir"
    by (auto simp: make_temp_dir_def list_all_iff split: if_splits)
  have "ts \<noteq> []"
  proof
    assume "ts = []"
    with chain set_dir_chain_tree [of "[]"] have "fs (tree_path ts) = Some Dir" by simp
    with tmp(3) show False by simp
  qed
  then obtain ps e where pe: "ts = ps @ [e]" by (cases ts rule: rev_cases) auto
  with ts chain have up: "prefix rs ps \<Longrightarrow> fs (tree_path rs) = Some Dir" for rs
    by (auto simp: set_dir_chain_tree)
  have none: "within (tree_path ts) q \<Longrightarrow> fs q = None" for q using fresh by (simp add: fresh_dir_def)
  have "fs1 (tree_path rs) = Some Dir" if "prefix rs ts" for rs using that up pe tmp(2) by (auto simp: prefix_snoc)
  moreover have "within (tree_path ts) (tree_path ts)" using ts by simp
  ultimately have "unpacked ts entries fs [] fs1" unfolding unpacked_def tmp(2) using none
    by (auto intro!: exI [of _ "[]::string list"] split: if_splits)
  with tmp(1) show ?thesis by simp
qed

lemma removed_unpacked:
  assumes "fresh_dir fs tmp" and "\<forall>q. \<not> within tmp q \<longrightarrow> fs' q = fs q"
  shows "remove_all tmp fs' = fs"
  using assms by (auto simp: remove_all_def fresh_dir_def)

text \<open>
  Verification of a bundle leaves the file system as it found it, whatever the archive holds and however
  it ends.
\<close>

lemma bundle_verify_restores:
  assumes fresh: "fresh_dir fs (bn_tmp_dir en)" and order: "map_ordered (bn_base en)"
  shows "snd (bundle_verify en opts fs) = fs"
proof (cases "authentic_bundle en opts fs")
  case (Inl e)
  then show ?thesis by (simp add: bundle_verify_def io_bind_def io_result_def)
next
  case (Inr entries)
  then have names: "archive_names entries" using read_zip_entries_names
    by (auto simp: authentic_bundle_def checked_bundle_def)
  from fresh obtain ts where ts: "plain ts" "bn_tmp_dir en = tree_path ts"
    unfolding fresh_dir_def by (blast elim: tree_path_cases)
  obtain r fs1 where m: "make_temp_dir (tree_path ts) fs = (r, fs1)" by (cases "make_temp_dir (tree_path ts) fs")
  show ?thesis
  proof (cases r)
    case (Inl e)
    with m have "fs1 = fs" by (auto simp: make_temp_dir_def split: if_splits)
    with \<open>authentic_bundle en opts fs = Inr entries\<close> m Inl ts(2) show ?thesis
      by (simp add: bundle_verify_def with_temp_dir_def io_bind_def io_result_def io_wrap_def)
  next
    case (Inr tmp)
    from make_temp_dir_unpacked [OF ts(1) _ m [unfolded Inr]] fresh ts(2)
    have u: "tmp = tree_path ts" "unpacked ts entries fs [] fs1" by simp_all
    obtain r2 fs2 where x: "extract_entries en (tree_path ts) entries fs1 = (r2, fs2)"
      by (cases "extract_entries en (tree_path ts) entries fs1")
    from extract_entries_outcome [OF ts(1) order names u(2) x]
    have "remove_all (tree_path ts) fs2 = fs" using removed_unpacked [of fs "tree_path ts" fs2] fresh ts(2) by simp
    with \<open>authentic_bundle en opts fs = Inr entries\<close> m Inr ts(2) u(1) x show ?thesis
      by (cases r2) (simp_all add: bundle_verify_def with_temp_dir_def io_bind_def io_result_def io_wrap_def)
  qed
qed

end
