(* ===== verification/Bundle_Packed.thy ===== *)
theory Bundle_Packed
  imports Bundle_Unpack Release_Roundtrip
begin

text \<open>
  What an export puts into the archive: which paths the files of a run get, that the archive read
  back has the same entries, and that the list of checksums and the signature hold for them.
\<close>

subsection \<open>Paths in the archive\<close>

lemma archive_clean_plain:
  assumes "n = archive_clean x" and "\<not> escapes n" and "n \<noteq> ''.''"
  shows "plain (path_elems n)" and "path_elems n \<noteq> []" and "n = rel_path (path_elems n)" and "path_clean n = n"
proof -
  from assms(1) show c: "path_clean n = n" by (simp add: archive_clean_def)
  with assms(2) inside_elems [of n] have i: "\<not> is_abs n" "plain (path_elems n)" by (simp_all add: plain_def)
  then show "plain (path_elems n)" by simp
  from c i assms(3) show "path_elems n \<noteq> []" "n = rel_path (path_elems n)"
    by (auto simp: path_clean_def rel_path_def Let_def split: if_splits)
qed

lemma rel_path_bytes: "c \<in> set (rel_path es) \<Longrightarrow> c = slash \<or> (\<exists>e \<in> set es. c \<in> set e)"
  using join_with_bytes [of c "[slash]" es] by (auto simp: rel_path_def)

lemma rel_path_Cons: "es \<noteq> [] \<Longrightarrow> rel_path (e # es) = e @ slash # rel_path es"
  by (simp add: rel_path_def join_with_Cons)

lemma slash_join_below:
  assumes d: "plain_elem d" "backslash \<notin> set d" and n: "n = archive_clean x" "\<not> escapes n" "n \<noteq> ''.''"
  shows "slash_join [d, n] = rel_path (d # path_elems n)"
proof -
  note p = archive_clean_plain [OF n]
  have pl: "plain (d # path_elems n)" using d(1) p(1) by simp
  have dn: "d \<noteq> []" "n \<noteq> []" using d(1) rel_path_facts(4) [OF p(1,2)] p(3) by (auto simp: plain_elem_def)
  have join: "rel_path (d # path_elems n) = d @ slash # n" using rel_path_Cons [OF p(2), of d] p(3) by simp
  then have "path_join [d, n] = path_clean (rel_path (d # path_elems n))" using dn by (simp add: path_join_def)
  then have j: "path_join [d, n] = rel_path (d # path_elems n)" using rel_path_facts(2) [OF pl] by simp
  have "backslash \<notin> set (rel_path (d # path_elems n))"
  proof -
    have "backslash \<notin> set n" unfolding n(1) by (rule archive_clean_no_backslash)
    with d(2) show ?thesis unfolding join by simp
  qed
  then show ?thesis using j rel_path_facts(2) [OF pl] by (simp add: slash_join_def archive_clean_def to_slash_clean)
qed

text \<open>The conditions on the paths of a run under which it can be packed and unpacked.\<close>

definition packable_snapshot :: "input_snapshot \<Rightarrow> bool" where
  "packable_snapshot s \<longleftrightarrow> archive_clean (sn_snapshot_path s) = sn_snapshot_path s \<and>
     prefix ''input-snapshots/'' (sn_snapshot_path s)"

definition packable_revocation :: "string \<Rightarrow> bool" where
  "packable_revocation p \<longleftrightarrow> plain_elem (path_base (archive_clean p)) \<and> \<not> escapes (path_base (archive_clean p)) \<and>
     archive_clean (path_base (archive_clean p)) = path_base (archive_clean p)"

lemma snapshot_bundle_path_same:
  assumes "packable_snapshot s"
  shows "snapshot_bundle_path s = sn_snapshot_path s"
proof -
  let ?p = "sn_snapshot_path s"
  from assms obtain t where t: "?p = ''input-snapshots/'' @ t" and c: "archive_clean ?p = ?p"
    by (auto simp: packable_snapshot_def prefix_def)
  have "t \<noteq> []"
  proof
    assume "t = []"
    with c t have "archive_clean ''input-snapshots/'' = ''input-snapshots/''" by simp
    then show False by code_simp
  qed
  then have "path_join [''input-snapshots'', t] = path_clean ?p" using t by (simp add: path_join_def)
  moreover from c have "path_clean ?p = ?p" by (metis archive_clean_def path_clean_idem)
  ultimately have "slash_join [''input-snapshots'', t] = ?p" using c by (simp add: slash_join_def)
  with t c show ?thesis by (simp add: snapshot_bundle_path_def trim_prefix_def)
qed

lemma artifact_bundle_path_below:
  assumes "workspace_artifact_path d (artifact_ref.ar_path a) = Inr target"
  shows "artifact_bundle_path a = rel_path (''artifacts'' # path_elems (archive_clean (artifact_ref.ar_path a)))"
    and "\<not> escapes (archive_clean (artifact_ref.ar_path a))" and "archive_clean (artifact_ref.ar_path a) \<noteq> ''.''"
    and "target = path_join [d, archive_clean (artifact_ref.ar_path a)]"
proof -
  let ?n = "archive_clean (artifact_ref.ar_path a)"
  from assms show n: "\<not> escapes ?n" "?n \<noteq> ''.''" "target = path_join [d, ?n]"
    by (auto simp: workspace_artifact_path_def archive_clean_def Let_def split: if_splits)
  have "plain_elem ''artifacts''" "backslash \<notin> set ''artifacts''" by code_simp+
  from slash_join_below [OF this refl n(1,2)] show "artifact_bundle_path a = rel_path (''artifacts'' # path_elems ?n)"
    by (simp add: artifact_bundle_path_def)
qed

lemma revocation_bundle_path:
  assumes "packable_revocation p"
  shows "slash_join [''revocations'', path_base (archive_clean p)] = rel_path [''revocations'', path_base (archive_clean p)]"
proof -
  let ?b = "path_base (archive_clean p)"
  from assms have b: "plain_elem ?b" "?b = archive_clean ?b" "\<not> escapes ?b" "?b \<noteq> ''.''"
    by (auto simp: packable_revocation_def plain_elem_def)
  have "plain_elem ''revocations''" "backslash \<notin> set ''revocations''" by code_simp+
  from slash_join_below [OF this b(2,3,4)]
  have "slash_join [''revocations'', ?b] = rel_path (''revocations'' # path_elems ?b)" .
  moreover have "path_elems ?b = [?b]" using rel_path_facts(1) [of "[?b]"] b(1) by (simp add: rel_path_def)
  ultimately show ?thesis by simp
qed

subsection \<open>The archive read back\<close>

definition contents_of :: "bundle_file list \<Rightarrow> entries" where
  "contents_of fls = map (\<lambda>f. (bf_path f, bf_bytes f)) fls"

text \<open>The ZIP library reads what it wrote under names that are clean paths inside the archive.\<close>

definition zip_law :: "bundle_env \<Rightarrow> bool" where
  "zip_law en \<longleftrightarrow> (\<forall>cs. distinct (map fst cs) \<and> list_all (\<lambda>(n, s). validate_bundle_path n = Inr n) cs \<longrightarrow>
     bn_zip_read en (bn_zip_write en cs) = Inr (map (\<lambda>(n, s). (n, Zip_Contents s)) cs))"

lemma gather_contents:
  "distinct (map fst (acc @ cs)) \<Longrightarrow> list_all (\<lambda>(n, s). validate_bundle_path n = Inr n) cs \<Longrightarrow>
   gather_zip_entries (map (\<lambda>(n, s). (n, Zip_Contents s)) cs) acc = Inr (acc @ cs)"
proof (induction cs arbitrary: acc)
  case (Cons c cs)
  obtain n s where c: "c = (n, s)" by (cases c)
  from Cons.prems(1) c have "n \<notin> fst ` set acc" by auto
  then have "\<forall>s. (n, s) \<notin> set acc" by force
  with Cons.prems Cons.IH [of "acc @ [(n, s)]"] show ?case by (simp add: c zip_contents_of_def)
qed simp

lemma entries_for_files_Inr: "entries_for_files en fls = Inr es \<longleftrightarrow>
    distinct (map bf_path fls) \<and> es = map (entry_for en) fls"
  using first_seen_error_None [of "\<lambda>seen f. fail_if (seen (bf_path f)) (Errorf (''duplicate bundle path '' @ bf_path f))"
      bf_path "\<lambda>_. True" "\<lambda>_. False" fls]
  by (auto simp: entries_for_files_def)

definition valid_file :: "bundle_file \<Rightarrow> bool" where
  "valid_file f \<longleftrightarrow> validate_bundle_path (bf_path f) = Inr (bf_path f)"

lemma new_bundle_file_Inr:
  assumes "new_bundle_file en fs p src = Inr f"
  shows "bf_path f = archive_clean p" and "valid_file f"
    and "fs (abs_path (bundle_cwd en) src) = Some (File (bf_bytes f))"
  using assms validate_bundle_path_idem [of p] by (auto simp: new_bundle_file_def valid_file_def validate_bundle_path_Inr)

lemma map_of_contents:
  assumes "distinct (map bf_path fls)" and "f \<in> set fls"
  shows "map_of (contents_of fls) (bf_path f) = Some (bf_bytes f)"
  using assms by (auto simp: contents_of_def comp_def intro!: map_of_is_SomeI)

lemma written_archive:
  assumes zip: "zip_law en" and d: "distinct (map bf_path fls)" and v: "list_all valid_file fls"
    and w: "write_zip en out_path fls fs = (Inr u, fs')"
  shows "read_zip_entries en fs' out_path = Inr (contents_of (sort_key bf_path fls))"
proof -
  let ?cs = "contents_of (sort_key bf_path fls)"
  have on_disk: "fs' (abs_path (bundle_cwd en) out_path) = Some (File (bn_zip_write en ?cs))"
    using w by (auto simp: write_zip_def Let_def io_bind_Inr io_write_Inr contents_of_def)
  have names: "map fst ?cs = map bf_path (sort_key bf_path fls)" by (simp add: contents_of_def)
  moreover have "distinct (map bf_path (sort_key bf_path fls))"
    using d by (simp add: distinct_map)
  ultimately have "distinct (map fst ([] @ ?cs))" by simp
  moreover have valid: "list_all (\<lambda>(n, s). validate_bundle_path n = Inr n) ?cs"
    using v by (auto simp: contents_of_def list_all_iff valid_file_def)
  ultimately have "gather_zip_entries (map (\<lambda>(n, s). (n, Zip_Contents s)) ?cs) [] = Inr ?cs"
    using gather_contents [of "[]" ?cs] by simp
  moreover have "bn_zip_read en (bn_zip_write en ?cs) = Inr (map (\<lambda>(n, s). (n, Zip_Contents s)) ?cs)"
    using zip \<open>distinct (map fst ([] @ ?cs))\<close> valid by (simp add: zip_law_def)
  ultimately show ?thesis using read_at_file [of fs' _ out_path, OF on_disk] by (simp add: read_zip_entries_def)
qed

subsection \<open>The list of checksums\<close>

text \<open>A path that a line of the list can hold.\<close>

definition listable_path :: "string \<Rightarrow> bool" where
  "listable_path p \<longleftrightarrow> p \<noteq> [] \<and> is_ascii p \<and> CHR 0x0A \<notin> set p \<and> \<not> ascii_space (last p)"

definition file_line :: "bundle_env \<Rightarrow> bundle_file \<Rightarrow> string" where
  "file_line en f = bundle_sha en (bf_bytes f) @ ''  '' @ bf_path f"

lemma checksums_for_lines:
  "checksums_for_entries (map (entry_for en) fls) = concat (map (\<lambda>l. l @ [CHR 0x0A]) (map (file_line en) fls))"
  by (simp add: checksums_for_entries_def checksum_line_def entry_for_def file_line_def comp_def)

lemma cut_two_spaces_first: "CHR '' '' \<notin> set d \<Longrightarrow> cut_two_spaces (d @ ''  '' @ p) = Some (d, p)"
proof (induction d)
  case (Cons c d)
  then show ?case by (cases d) auto
qed simp

definition digests_visible :: "bundle_env \<Rightarrow> bool" where
  "digests_visible en \<longleftrightarrow> (\<forall>s. plain_word (bundle_sha en s))"

lemma file_line_shape:
  assumes "digests_visible en" and "listable_path (bf_path f)"
  shows "bounded_text (file_line en f)" and "CHR 0x0A \<notin> set (file_line en f)"
    and "cut_two_spaces (file_line en f) = Some (bundle_sha en (bf_bytes f), bf_path f)"
proof -
  from assms(1) have w: "plain_word (bundle_sha en (bf_bytes f))" by (simp add: digests_visible_def)
  then have "bundle_sha en (bf_bytes f) \<noteq> []" "\<forall>c \<in> set (bundle_sha en (bf_bytes f)). \<not> ascii_space c"
    by (simp_all add: plain_word_def list_all_iff)
  moreover from this have "CHR '' '' \<notin> set (bundle_sha en (bf_bytes f))" "CHR 0x0A \<notin> set (bundle_sha en (bf_bytes f))"
    by (auto simp: ascii_space_def)
  ultimately show "bounded_text (file_line en f)" "CHR 0x0A \<notin> set (file_line en f)"
    "cut_two_spaces (file_line en f) = Some (bundle_sha en (bf_bytes f), bf_path f)"
    using w assms(2) cut_two_spaces_first
    by (auto simp: bounded_text_def file_line_def listable_path_def plain_word_def is_ascii_def is_ascii_char_def)
qed

lemma packed_checksums_hold:
  assumes dig: "digests_visible en" and ne: "fls \<noteq> []" and d: "distinct (map bf_path all)"
    and sub: "set fls \<subseteq> set all" and v: "list_all valid_file fls" and l: "list_all (\<lambda>f. listable_path (bf_path f)) fls"
    and sums: "entry_bytes entries checksums_entry = checksums_for_entries (map (entry_for en) fls)"
    and entries: "\<forall>f \<in> set all. map_of entries (bf_path f) = Some (bf_bytes f)"
  shows "verify_bundle_checksums en entries = None"
proof -
  let ?ls = "map (file_line en) fls"
  have shape: "list_all bounded_text ?ls" "\<forall>w \<in> set ?ls. CHR 0x0A \<notin> set w"
    using file_line_shape [OF dig] l by (auto simp: list_all_iff)
  have "bounded_text (join_with [CHR 0x0A] ?ls)" using ne shape(1) by (intro join_bounded) simp_all
  then have "trim_space (checksums_for_entries (map (entry_for en) fls)) = join_with [CHR 0x0A] ?ls"
    using ne by (simp add: checksums_for_lines concat_terminated bounded_text_trim(2) del: map_map)
  moreover have "split_on (CHR 0x0A) (join_with [CHR 0x0A] ?ls) = ?ls"
    using ne shape(2) by (intro split_join) auto
  ultimately have lines: "checksum_lines entries = ?ls" by (simp add: checksum_lines_def sums)
  have "trim_space (hd ?ls) \<noteq> []"
    using ne shape(1) by (cases fls) (auto simp: bounded_text_trim(1) bounded_text_def)
  moreover have "verify_checksum_line en entries (file_line en f) = None" if f: "f \<in> set fls" for f
    using f v l sub entries file_line_shape(3) [OF dig, of f]
    by (auto simp: verify_checksum_line_def list_all_iff valid_file_def)
  ultimately show ?thesis using ne by (auto simp: verify_bundle_checksums_def lines)
qed

end
