(* ===== verification/Bundle_Roundtrip.thy ===== *)
theory Bundle_Roundtrip
  imports Bundle_Packed Ledger_File
begin

text \<open>
  An exported bundle verifies: unpacked in an empty directory, the run is verified with the result it had
  when it was exported, and with the public half of the signing key if one is given.
\<close>

subsection \<open>The stages of an export\<close>

definition bundle_workspace :: "bundle_options \<Rightarrow> string" where
  "bundle_workspace opts = (if trim_space (bo_workspace_dir opts) = [] then ''.'' else bo_workspace_dir opts)"

definition exported_run :: "bundle_env \<Rightarrow> bundle_options \<Rightarrow> fs \<Rightarrow> verify_result go_result" where
  "exported_run en opts fs =
     run_verified en (bo_ledger_path opts) (bo_evidence_path opts) (bundle_workspace opts) (\<lambda>_. False) fs"

lemma collect_bundle_Inr:
  assumes "collect_bundle en fs opts = Inr (fls, m)"
  obtains res pk run_files loaded where
    "exported_run en opts fs = Inr res" "read_bundle_evidence en fs (bo_evidence_path opts) = Inr pk"
    "verify_contract_digest en fs (bo_contract_path opts) (pk_contract_digest pk) = None"
    "gather_bundle_files en fs opts (bundle_workspace opts) pk = Inr run_files"
    "map_result (load_revocation_file en fs) (bo_revocation_paths opts) = Inr loaded"
    "fls = run_files @ map fst loaded" "distinct (map bf_path fls)"
    "m = bundle_manifest_for pk res (map (entry_for en) fls)"
    "trim_space (bo_out_path opts) \<noteq> []" "trim_space (bo_evidence_path opts) \<noteq> []"
proof -
  from assms obtain res pk run_files rfs ids entries where
    a: "trim_space (bo_out_path opts) \<noteq> []" "trim_space (bo_evidence_path opts) \<noteq> []" "exported_run en opts fs = Inr res"
      "read_bundle_evidence en fs (bo_evidence_path opts) = Inr pk"
      "verify_contract_digest en fs (bo_contract_path opts) (pk_contract_digest pk) = None"
      "gather_bundle_files en fs opts (bundle_workspace opts) pk = Inr run_files"
    and l: "load_revocation_files en fs (bo_revocation_paths opts) = Inr (rfs, ids)"
    and e: "entries_for_files en (run_files @ rfs) = Inr entries"
    and f: "fls = run_files @ rfs" "m = bundle_manifest_for pk res entries"
    unfolding collect_bundle_def Let_def bundle_workspace_def [symmetric] exported_run_def by auto
  from l obtain loaded where k: "map_result (load_revocation_file en fs) (bo_revocation_paths opts) = Inr loaded" "rfs = map fst loaded"
    by (auto simp: load_revocation_files_def)
  from e f have "distinct (map bf_path fls)" "m = bundle_manifest_for pk res (map (entry_for en) fls)"
    by (simp_all only: entries_for_files_Inr)
  with a(3-6) k(1) f(1) [unfolded k(2)] show thesis using a(1,2) by (rule that)
qed

lemma signature_files_Inr:
  assumes "signature_files en key mb fs = (Inr (sigs, fp), fs')"
  shows "fs' = fs \<and> (sigs = [] \<or> (\<exists>s. sigs = [generated_file signature_entry_path s]))"
  using assms
  by (auto simp: signature_files_def sign_bundle_manifest_def bundle_private_key_def read_private_key_def
      io_bind_Inr Let_def split: if_splits)

lemma bundle_export_Inr:
  assumes "bundle_export en opts fs = (Inr r, fs')"
  obtains fls m sigs fp u where
    "collect_bundle en fs opts = Inr (fls, m)" "bx_manifest r = m"
    "signature_files en (bo_sign_key_path opts) (manifest_bytes_of m) fs = (Inr (sigs, fp), fs)"
    "distinct (map bf_path (fls @ generated_file signed_manifest_path (manifest_bytes_of m) # sigs))"
    "write_zip en (bo_out_path opts) ((fls @ generated_file signed_manifest_path (manifest_bytes_of m) # sigs) @
       [generated_file checksums_entry (checksums_for_entries (map (entry_for en)
          (fls @ generated_file signed_manifest_path (manifest_bytes_of m) # sigs)))]) fs = (Inr u, fs')"
proof -
  from assms obtain fls m sigs fp fs1 es u where
    c: "collect_bundle en fs opts = Inr (fls, m)"
    and s: "signature_files en (bo_sign_key_path opts) (manifest_bytes_of m) fs = (Inr (sigs, fp), fs1)"
    and e: "entries_for_files en (fls @ [generated_file signed_manifest_path (manifest_bytes_of m)] @ sigs) = Inr es"
    and w: "write_zip en (bo_out_path opts) ((fls @ [generated_file signed_manifest_path (manifest_bytes_of m)] @ sigs) @
       [generated_file checksums_entry (checksums_for_entries es)]) fs1 = (Inr u, fs')"
    and r: "bx_manifest r = m"
    by (fastforce simp: bundle_export_def io_bind_Inr Let_def)
  from s signature_files_Inr have "fs1 = fs" by blast
  with c s e w r that show thesis by (simp add: entries_for_files_Inr)
qed

subsection \<open>The signature\<close>

definition bundle_signature_for :: "bundle_env \<Rightarrow> string \<Rightarrow> string \<Rightarrow> string \<Rightarrow> signature_file" where
  "bundle_signature_for en priv pub msg =
     \<lparr>sf_schema_version = bundle_signature_schema, sf_algorithm = ''ed25519'',
      sf_signed_entry = signed_manifest_path, sf_public_key_sha256 = public_key_fingerprint (bn_base en) pub,
      sf_signature = base64_encode (re_sign (bn_base en) priv msg)\<rparr>"

text \<open>No key to check, or the public half of the key the bundle was signed with.\<close>

definition bundle_key_matches :: "bundle_env \<Rightarrow> bundle_options \<Rightarrow> bundle_verify_options \<Rightarrow> fs \<Rightarrow> fs \<Rightarrow> bool" where
  "bundle_key_matches en opts v fs fs' \<longleftrightarrow> trim_space (bv_public_key_path v) = [] \<or>
     trim_space (bo_sign_key_path opts) \<noteq> [] \<and>
     (\<exists>priv pub. bundle_private_key en (bo_sign_key_path opts) fs = (Inr (priv, pub), fs) \<and>
        bundle_public_key en fs' (bv_public_key_path v) = Inr pub \<and>
        (\<forall>msg. re_verify (bn_base en) pub msg (re_sign (bn_base en) priv msg) \<and>
           re_decode_signature (bn_base en) (signature_text (bundle_signature_for en priv pub msg)) =
             Inr (bundle_signature_for en priv pub msg)))"

lemma signed_bundle_opens:
  assumes sigs: "signature_files en (bo_sign_key_path opts) mb fs = (Inr (sigs, fp), fs)"
    and key: "bundle_key_matches en opts v fs fs'" "trim_space (bv_public_key_path v) \<noteq> []"
    and manifest: "map_of entries signed_manifest_path = Some mb"
    and packed: "\<forall>f \<in> set sigs. map_of entries (bf_path f) = Some (bf_bytes f)"
  shows "verify_bundle_signature en fs' entries (bv_public_key_path v) = None"
proof -
  from key obtain priv pub where k: "trim_space (bo_sign_key_path opts) \<noteq> []"
      "bundle_private_key en (bo_sign_key_path opts) fs = (Inr (priv, pub), fs)"
      "bundle_public_key en fs' (bv_public_key_path v) = Inr pub"
    and verifies: "re_verify (bn_base en) pub mb (re_sign (bn_base en) priv mb)"
    and decodes: "re_decode_signature (bn_base en) (signature_text (bundle_signature_for en priv pub mb)) =
      Inr (bundle_signature_for en priv pub mb)"
    by (auto simp: bundle_key_matches_def)
  let ?text = "signature_text (bundle_signature_for en priv pub mb)"
  from sigs k(1,2) have "sigs = [generated_file signature_entry_path ?text]"
    "re_schema_bytes (bn_base en) bundle_signature_schema ?text = None"
    by (auto simp: signature_files_def sign_bundle_manifest_def io_bind_Inr Let_def signature_text_def bundle_signature_for_def)
  with packed manifest k(3) verifies decodes show ?thesis
    by (simp add: verify_bundle_signature_def check_bundle_signature_def generated_file_def bundle_signature_for_def)
qed

subsection \<open>A run in another place\<close>

lemma verify_run_moved:
  assumes "verify_run sha decode_event decode_evidence cwd opts fs = Inr res"
    and "fs (vo_ledger_path opts) = Some (File ledger)" and "fs' (vo_ledger_path opts') = Some (File ledger)"
    and "fs (vo_evidence_path opts) = Some (File evidence)" and "fs' (vo_evidence_path opts') = Some (File evidence)"
    and "decode_evidence evidence = Inr pk" and "resolve_workspace_dir cwd opts' = Inr d"
    and "\<forall>s \<in> set (pk_input_snapshots pk). snapshot_on_disk sha fs' (path_dir (vo_evidence_path opts')) s"
    and "\<forall>a \<in> set (pk_artifact_manifest pk). artifact_on_disk sha fs' d a"
    and "verify_revoked_approval_tickets (pk_policy_decisions pk) (vo_revoked opts') = None"
  shows "verify_run sha decode_event decode_evidence cwd opts' fs' = Inr res"
proof -
  have ok: "verify_input_snapshots sha fs' (path_dir (vo_evidence_path opts')) (pk_input_snapshots pk) = None"
    "verify_artifacts sha fs' d (pk_artifact_manifest pk) = None"
    using assms(8,9) by (simp_all add: verify_input_snapshots_def verify_artifacts_def verify_input_snapshot_None verify_artifact_None)
  have read: "os_read_file fs' (vo_ledger_path opts') = Inr ledger" "os_read_file fs' (vo_evidence_path opts') = Inr evidence"
    "os_read_file fs (vo_ledger_path opts) = Inr ledger" "os_read_file fs (vo_evidence_path opts) = Inr evidence"
    using assms(2-5) by simp_all
  have l: "labelled label (Inr x :: 'x go_result) = Inr x" for label and x :: 'x by simp
  from assms(1) show ?thesis
    by (auto simp: verify_run_def read l assms(6,7,10) ok)
qed

lemma run_verified_Inr:
  assumes "run_verified en ledger_path evidence_path ws revoked fs = Inr res"
  obtains ledger evidence pk d where
    "fs (abs_path (bundle_cwd en) ledger_path) = Some (File ledger)"
    "fs (abs_path (bundle_cwd en) evidence_path) = Some (File evidence)" "bn_decode_evidence en evidence = Inr pk"
    "resolve_workspace_dir (bundle_cwd en) \<lparr>vo_ledger_path = abs_path (bundle_cwd en) ledger_path,
       vo_evidence_path = abs_path (bundle_cwd en) evidence_path, vo_workspace_dir = ws, vo_revoked = revoked\<rparr> = Inr d"
    "\<forall>s \<in> set (pk_input_snapshots pk).
       snapshot_on_disk (bundle_sha en) fs (path_dir (abs_path (bundle_cwd en) evidence_path)) s"
    "\<forall>a \<in> set (pk_artifact_manifest pk). artifact_on_disk (bundle_sha en) fs d a"
proof -
  have snaps: "verify_input_snapshots (bundle_sha en) fs dir ss = None \<longleftrightarrow> (\<forall>s \<in> set ss. snapshot_on_disk (bundle_sha en) fs dir s)"
    for dir ss by (simp add: verify_input_snapshots_def verify_input_snapshot_None)
  have arts: "verify_artifacts (bundle_sha en) fs dir as = None \<longleftrightarrow> (\<forall>a \<in> set as. artifact_on_disk (bundle_sha en) fs dir a)"
    for dir as by (simp add: verify_artifacts_def verify_artifact_None)
  from assms obtain ledger evidence pk d where
    "fs (abs_path (bundle_cwd en) ledger_path) = Some (File ledger)"
    "fs (abs_path (bundle_cwd en) evidence_path) = Some (File evidence)" "bn_decode_evidence en evidence = Inr pk"
    "resolve_workspace_dir (bundle_cwd en) \<lparr>vo_ledger_path = abs_path (bundle_cwd en) ledger_path,
       vo_evidence_path = abs_path (bundle_cwd en) evidence_path, vo_workspace_dir = ws, vo_revoked = revoked\<rparr> = Inr d"
    "verify_input_snapshots (bundle_sha en) fs (path_dir (abs_path (bundle_cwd en) evidence_path)) (pk_input_snapshots pk) = None"
    "verify_artifacts (bundle_sha en) fs d (pk_artifact_manifest pk) = None"
    by (auto simp: run_verified_def verify_run_def)
  then show thesis unfolding snaps arts by (rule that)
qed

subsection \<open>The files of an export\<close>

lemma map_result_member: "map_result f xs = Inr ys \<Longrightarrow> x \<in> set xs \<Longrightarrow> \<exists>y \<in> set ys. f x = Inr y"
  unfolding map_result_Inr_iff by (induction rule: list_all2_induct) auto

text \<open>Sorts of packed paths, told apart by their first byte.\<close>

lemma run_file_head:
  assumes gather: "gather_bundle_files en fs opts ws pk = Inr run_files" and f: "f \<in> set run_files"
    and snaps: "list_all packable_snapshot (pk_input_snapshots pk)"
    and arts: "\<forall>a \<in> set (pk_artifact_manifest pk). artifact_on_disk sha fs d a"
  shows "hd (bf_path f) \<in> {CHR ''c'', CHR ''e'', CHR ''i'', CHR ''a''}"
proof -
  from map_result_set [OF gather [unfolded gather_bundle_files_def] f] obtain p src where
    src: "(p, src) \<in> set (bundle_sources opts ws pk)" and new: "new_bundle_file en fs p src = Inr f" by auto
  note path = new_bundle_file_Inr(1) [OF new]
  have fixed: "archive_clean contract_entry = contract_entry" "archive_clean ledger_entry = ledger_entry"
    "archive_clean evidence_entry = evidence_entry" by code_simp+
  from src consider "p \<in> {contract_entry, ledger_entry, evidence_entry}"
    | (snap) s where "s \<in> set (pk_input_snapshots pk)" "p = snapshot_bundle_path s"
    | (art) a where "a \<in> set (pk_artifact_manifest pk)" "p = artifact_bundle_path a"
    unfolding bundle_sources_def by auto
  then show ?thesis
  proof cases
    case 1
    with path fixed show ?thesis by auto
  next
    case snap
    with snaps have k: "packable_snapshot s" by (simp add: list_all_iff)
    with snap path have "bf_path f = sn_snapshot_path s" by (simp add: snapshot_bundle_path_same packable_snapshot_def)
    with k show ?thesis by (auto simp: packable_snapshot_def prefix_def)
  next
    case art
    with arts obtain target where t: "workspace_artifact_path d (artifact_ref.ar_path a) = Inr target"
      by (auto simp: artifact_on_disk_def)
    note a = artifact_bundle_path_below [OF t]
    have "p = archive_clean p" unfolding art(2) by (simp add: artifact_bundle_path_def slash_join_def)
    with path have "bf_path f = p" by simp
    with art(2) a(1) archive_clean_plain [OF refl a(2,3)] show ?thesis by (simp add: rel_path_Cons)
  qed
qed

lemma revocation_file:
  assumes "load_revocation_file en fs p = Inr (f, l)" and "packable_revocation p"
  shows "bf_path f = rel_path [''revocations'', path_base (archive_clean p)]" and "valid_file f"
    and "read_revocations en fs p = Inr l" and "fs (abs_path (bundle_cwd en) p) = Some (File (bf_bytes f))"
proof -
  from assms(1) have new: "new_bundle_file en fs (slash_join [''revocations'', path_base (archive_clean p)]) p = Inr f"
    and "read_revocations en fs p = Inr l" by (auto simp: load_revocation_file_def)
  then show "read_revocations en fs p = Inr l" by simp
  note n = new_bundle_file_Inr [OF new]
  from n(2,3) show "valid_file f" "fs (abs_path (bundle_cwd en) p) = Some (File (bf_bytes f))" .
  show "bf_path f = rel_path [''revocations'', path_base (archive_clean p)]"
    unfolding n(1) revocation_bundle_path [OF assms(2), symmetric] by (simp add: slash_join_def)
qed

lemma revocation_path_elems:
  assumes "packable_revocation p"
  shows "path_elems (rel_path [''revocations'', path_base (archive_clean p)]) = [''revocations'', path_base (archive_clean p)]"
    and "hd (rel_path [''revocations'', path_base (archive_clean p)]) = CHR ''r''"
proof -
  have "plain_elem ''revocations''" by code_simp
  with assms rel_path_facts(1) show "path_elems (rel_path [''revocations'', path_base (archive_clean p)]) =
    [''revocations'', path_base (archive_clean p)]" by (simp add: packable_revocation_def)
  show "hd (rel_path [''revocations'', path_base (archive_clean p)]) = CHR ''r''" by (simp add: rel_path_Cons)
qed

end
