(* ===== verification/Bundle_Verified.thy ===== *)
theory Bundle_Verified
  imports Bundle_Roundtrip
begin

text \<open>
  The second half of the round trip: the unpacked files are those of the run, so the verification of the
  unpacked run comes to the result of the verification before the export.
\<close>

subsection \<open>Conditions\<close>

text \<open>A directory listing names only what is there.\<close>

definition listing_law :: "bundle_env \<Rightarrow> bool" where
  "listing_law en \<longleftrightarrow> (\<forall>fs ds n. plain ds \<longrightarrow> n \<in> set (bn_read_dir en fs (tree_path ds)) \<longrightarrow>
     plain_elem n \<and> fs (tree_path (ds @ [n])) \<noteq> None)"

text \<open>Validation and then decoding gives what decoding gives.\<close>

definition decoding_law :: "bundle_env \<Rightarrow> bool" where
  "decoding_law en \<longleftrightarrow> (\<forall>s pk. bn_decode_evidence en s = Inr pk \<longrightarrow> bn_unmarshal_evidence en s = Inr pk)"

definition bundle_laws :: "bundle_env \<Rightarrow> bool" where
  "bundle_laws en \<longleftrightarrow> is_abs (bundle_cwd en) \<and> zip_law en \<and> digests_visible en \<and> map_ordered (bn_base en) \<and>
     listing_law en \<and> decoding_law en"

definition packable_run :: "bundle_options \<Rightarrow> evidence_pack \<Rightarrow> bool" where
  "packable_run opts pk \<longleftrightarrow> names_file (bo_evidence_path opts) \<and>
     list_all packable_snapshot (pk_input_snapshots pk) \<and> list_all packable_revocation (bo_revocation_paths opts)"

definition unrevoked :: "bundle_env \<Rightarrow> bundle_options \<Rightarrow> bundle_verify_options \<Rightarrow> fs \<Rightarrow> evidence_pack \<Rightarrow> bool" where
  "unrevoked en opts v fs pk \<longleftrightarrow> (\<forall>d \<in> set (pk_policy_decisions pk). dc_ticket_id d \<noteq> [] \<longrightarrow>
     \<not> bv_revoked v (dc_ticket_id d) \<and>
     (\<forall>p \<in> set (bo_revocation_paths opts). \<forall>l. read_revocations en fs p = Inr l \<longrightarrow>
        dc_ticket_id d \<notin> rv_ticket_id ` set (rl_revoked_tickets l)))"

subsection \<open>Snapshots and artifacts\<close>

lemma packable_snapshot_path:
  assumes "packable_snapshot s" and "input_snapshot_path d (sn_snapshot_path s) = Inr target"
  shows "plain (path_elems (sn_snapshot_path s))" and "path_elems (sn_snapshot_path s) \<noteq> []"
    and "sn_snapshot_path s = rel_path (path_elems (sn_snapshot_path s))"
    and "\<And>e. input_snapshot_path e (sn_snapshot_path s) = Inr (path_join [e, sn_snapshot_path s])"
proof -
  let ?p = "sn_snapshot_path s"
  from assms(1) have c: "path_clean (to_slash ?p) = ?p" by (simp add: packable_snapshot_def archive_clean_def)
  with assms(2) have n: "\<not> escapes ?p" "?p \<noteq> ''.''" "\<not> prefix ''//'' (to_slash ?p)"
    "?p = ''input-snapshots'' \<or> prefix ''input-snapshots/'' ?p"
    by (auto simp: input_snapshot_path_def Let_def split: if_splits)
  with c show "input_snapshot_path e ?p = Inr (path_join [e, ?p])" for e
    by (auto simp: input_snapshot_path_def Let_def)
  have "?p = archive_clean ?p" using c by (simp add: archive_clean_def)
  from archive_clean_plain(1-3) [OF this n(1,2)] show "plain (path_elems ?p)" "path_elems ?p \<noteq> []" "?p = rel_path (path_elems ?p)" .
qed

lemma snapshot_unpacked:
  assumes cwd: "is_abs (bundle_cwd en)" and E: "names_file E" and s: "packable_snapshot s" and ts: "plain ts"
    and disk: "snapshot_on_disk sha fs (path_dir (abs_path (bundle_cwd en) E)) s"
    and new: "new_bundle_file en fs (snapshot_bundle_path s) (path_join [path_dir E, sn_snapshot_path s]) = Inr f"
    and there: "fs2 (tree_path (ts @ path_elems (bf_path f))) = Some (File (bf_bytes f))"
  shows "snapshot_on_disk sha fs2 (tree_path ts) s"
proof -
  let ?p = "sn_snapshot_path s" and ?d = "path_dir (abs_path (bundle_cwd en) E)"
  from disk obtain target tx where t: "input_snapshot_path ?d ?p = Inr target" "fs target = Some (File tx)"
    "sha tx = sn_digest s" by (auto simp: snapshot_on_disk_def)
  note p = packable_snapshot_path [OF s t(1)]
  have dir: "abs_path (bundle_cwd en) (path_dir E) = ?d" by (rule abs_path_dir [OF cwd E])
  then have d: "is_abs ?d" using abs_path_is_abs [OF cwd, of "path_dir E"] by simp
  have "target = tree_path (path_elems ?d @ path_elems ?p)"
    using t(1) p(4) [of ?d] join_below [OF d p(1,2)] p(3) by simp
  moreover have "path_dir E \<noteq> []" by (simp add: path_dir_def)
  then have "abs_path (bundle_cwd en) (path_join [path_dir E, ?p]) = tree_path (path_elems ?d @ path_elems ?p)"
    using location_below [OF cwd _ p(1,2)] p(3) dir by simp
  ultimately have "bf_bytes f = tx" using new_bundle_file_Inr(3) [OF new] t(2) by simp
  moreover have "bf_path f = ?p"
    using new_bundle_file_Inr(1) [OF new] s by (simp add: snapshot_bundle_path_same packable_snapshot_def)
  moreover have "path_join [tree_path ts, ?p] = tree_path (ts @ path_elems ?p)"
    using join_below [of "tree_path ts", OF _ p(1,2)] p(3) ts by simp
  ultimately show ?thesis using there p(4) [of "tree_path ts"] t(3) by (auto simp: snapshot_on_disk_def)
qed

lemma artifact_unpacked:
  assumes cwd: "is_abs (bundle_cwd en)" and ws: "ws \<noteq> []" and d: "d = abs_path (bundle_cwd en) ws" and ts: "plain ts"
    and disk: "artifact_on_disk sha fs d a"
    and new: "new_bundle_file en fs (artifact_bundle_path a) (path_join [ws, archive_clean (artifact_ref.ar_path a)]) = Inr f"
    and there: "fs2 (tree_path (ts @ path_elems (bf_path f))) = Some (File (bf_bytes f))"
  shows "artifact_on_disk sha fs2 (tree_path (ts @ [''artifacts''])) a"
proof -
  let ?n = "archive_clean (artifact_ref.ar_path a)"
  from disk obtain target tx where t: "workspace_artifact_path d (artifact_ref.ar_path a) = Inr target"
    "fs target = Some (File tx)" "sha tx = ar_digest a" "ar_uri a = ''covenant-artifact://sha256/'' @ ar_digest a"
    by (auto simp: artifact_on_disk_def)
  note n = artifact_bundle_path_below [OF t(1)]
  note p = archive_clean_plain [OF refl n(2,3)]
  have art: "plain_elem ''artifacts''" by code_simp
  have "is_abs d" using d abs_path_is_abs [OF cwd] by simp
  then have "target = tree_path (path_elems d @ path_elems ?n)" using n(4) join_below [OF _ p(1,2)] p(3) by simp
  moreover have "abs_path (bundle_cwd en) (path_join [ws, ?n]) = tree_path (path_elems d @ path_elems ?n)"
    using location_below [OF cwd ws p(1,2)] p(3) d by simp
  ultimately have bytes: "bf_bytes f = tx" using new_bundle_file_Inr(3) [OF new] t(2) by simp
  have "archive_clean (artifact_bundle_path a) = artifact_bundle_path a"
    by (simp add: artifact_bundle_path_def slash_join_def)
  then have "path_elems (bf_path f) = ''artifacts'' # path_elems ?n"
    using new_bundle_file_Inr(1) [OF new] n(1) rel_path_facts(1) [of "''artifacts'' # path_elems ?n"] p(1) art by simp
  moreover have "path_join [tree_path (ts @ [''artifacts'']), ?n] = tree_path ((ts @ [''artifacts'']) @ path_elems ?n)"
    using join_below [of "tree_path (ts @ [''artifacts''])", OF _ p(1,2)] p(3) ts art by simp
  moreover have "workspace_artifact_path e (artifact_ref.ar_path a) = Inr (path_join [e, ?n])" for e
    using t(1) by (auto simp: workspace_artifact_path_def archive_clean_def Let_def split: if_splits)
  ultimately show ?thesis using there bytes t(3,4) by (simp add: artifact_on_disk_def)
qed

subsection \<open>Revocations\<close>

lemma join_name:
  assumes "plain ts" and "plain_elem n"
  shows "path_join [tree_path ts, n] = tree_path (ts @ [n])"
proof -
  have "plain [n]" "[n] \<noteq> []" using assms(2) by simp_all
  from join_below [OF is_abs_tree_path this, of ts] assms(1) show ?thesis by (simp add: rel_path_def)
qed

lemma entry_rel_path: "validate_bundle_path n = Inr n \<Longrightarrow> n = rel_path (path_elems n)"
  by (elim entry_path) (simp add: rel_path_def)

definition holds_only :: "string list \<Rightarrow> bundle_file list \<Rightarrow> fs \<Rightarrow> bool" where
  "holds_only ts fls fs \<longleftrightarrow> (\<forall>ks s. plain ks \<longrightarrow> fs (tree_path (ts @ ks)) = Some (File s) \<longrightarrow>
     ks = [signature_entry_path] \<or> (\<exists>f \<in> set fls. ks = path_elems (bf_path f)))"

definition holds_all :: "string list \<Rightarrow> bundle_file list \<Rightarrow> fs \<Rightarrow> bool" where
  "holds_all ts fls fs \<longleftrightarrow> (\<forall>f \<in> set fls. fs (tree_path (ts @ path_elems (bf_path f))) = Some (File (bf_bytes f)))"

lemma listing_lawD:
  "listing_law en \<Longrightarrow> plain ds \<Longrightarrow> n \<in> set (bn_read_dir en fs (tree_path ds)) \<Longrightarrow>
   plain_elem n \<and> fs (tree_path (ds @ [n])) \<noteq> None"
  unfolding listing_law_def by blast

lemma bundled_revocations_known:
  assumes laws: "bundle_laws en" and ts: "plain ts"
    and load: "map_result (load_revocation_file en fs) paths = Inr loaded"
    and pack: "list_all packable_revocation paths"
    and heads: "\<forall>f \<in> set run_files. valid_file f \<and> hd (bf_path f) \<noteq> CHR ''r''"
    and all: "holds_all ts (run_files @ map fst loaded) fs2" and only: "holds_only ts (run_files @ map fst loaded) fs2"
  shows "\<exists>ids. read_bundled_revocations en fs2 (path_join [tree_path ts, ''revocations'']) = Inr ids \<and>
    (\<forall>i. ids i \<longrightarrow> (\<exists>p \<in> set paths. \<exists>l. read_revocations en fs p = Inr l \<and>
       i \<in> rv_ticket_id ` set (rl_revoked_tickets l)))"
proof -
  have r: "plain_elem ''revocations''" by code_simp
  have dir: "path_join [tree_path ts, ''revocations''] = tree_path (ts @ [''revocations''])" by (rule join_name [OF ts r])
  have origin: "\<exists>p \<in> set paths. \<exists>f l. load_revocation_file en fs p = Inr (f, l) \<and> f \<in> set (map fst loaded) \<and>
      ks = [''revocations'', path_base (archive_clean p)]"
    if there: "fs2 (tree_path (ts @ ks)) = Some (File s)" and ks: "plain ks" "ks \<noteq> []" "hd ks = ''revocations''" for ks s
  proof -
    have "ks \<noteq> [signature_entry_path]" using ks(3) by auto
    then obtain f where f: "f \<in> set (run_files @ map fst loaded)" "ks = path_elems (bf_path f)"
      using only ks(1) there unfolding holds_only_def by blast
    have "f \<notin> set run_files"
    proof
      assume "f \<in> set run_files"
      with heads have v: "valid_file f" "hd (bf_path f) \<noteq> CHR ''r''" by auto
      obtain ks' where "ks = ''revocations'' # ks'" using ks by (cases ks) auto
      with entry_rel_path [of "bf_path f"] v(1) f(2) have "bf_path f = rel_path (''revocations'' # ks')"
        by (simp add: valid_file_def)
      then have "hd (bf_path f) = CHR ''r''" by (cases ks') (simp_all add: rel_path_def)
      with v(2) show False by simp
    qed
    with f(1) obtain l where l: "(f, l) \<in> set loaded" by auto
    from map_result_set [OF load l] obtain p where p: "p \<in> set paths" "load_revocation_file en fs p = Inr (f, l)" by blast
    with pack have k: "packable_revocation p" by (simp add: list_all_iff)
    have "ks = [''revocations'', path_base (archive_clean p)]"
      using f(2) revocation_file(1) [OF p(2) k] revocation_path_elems(1) [OF k] by simp
    with p l show ?thesis by force
  qed
  show ?thesis
  proof (cases "fs2 (tree_path (ts @ [''revocations'']))")
    case None
    with dir ts r show ?thesis by (intro exI [of _ "\<lambda>_. False"]) (simp add: read_bundled_revocations_def)
  next
    case (Some node)
    show ?thesis
    proof (cases node)
      case (File s)
      with origin [of "[''revocations'']" s] Some r show ?thesis by auto
    next
      case Dir
      let ?d = "tree_path (ts @ [''revocations''])"
      let ?names = "filter (\<lambda>n. fs2 (abs_path (bundle_cwd en) (path_join [?d, n])) \<noteq> Some Dir) (bn_read_dir en fs2 ?d)"
      let ?read = "\<lambda>n. labelled (''read bundled revocation '' @ n @ '': '') (read_revocations en fs2 (path_join [?d, n]))"
      have known: "\<exists>p \<in> set paths. \<exists>l. ?read n = Inr l \<and> read_revocations en fs p = Inr l" if n: "n \<in> set ?names" for n
      proof -
        have "listing_law en" using laws by (simp add: bundle_laws_def)
        from listing_lawD [OF this, of "ts @ [''revocations'']" n fs2] n ts r
        have pn: "plain_elem n" "fs2 (tree_path (ts @ [''revocations'', n])) \<noteq> None" by auto
        have j: "path_join [?d, n] = tree_path (ts @ [''revocations'', n])"
          using join_name [of "ts @ [''revocations'']" n] ts r pn(1) by simp
        with n pn have "fs2 (tree_path (ts @ [''revocations'', n])) \<noteq> Some Dir" using ts r by auto
        with pn(2) obtain s where s: "fs2 (tree_path (ts @ [''revocations'', n])) = Some (File s)"
          by (metis node.exhaust not_None_eq)
        from origin [OF this] r pn(1) obtain p f l where p: "p \<in> set paths"
          "load_revocation_file en fs p = Inr (f, l)" "f \<in> set (map fst loaded)" "n = path_base (archive_clean p)" by auto
        with pack have k: "packable_revocation p" by (simp add: list_all_iff)
        note rf = revocation_file [OF p(2) k]
        have "f \<in> set (run_files @ map fst loaded)" using p(3) by simp
        with all have "fs2 (tree_path (ts @ path_elems (bf_path f))) = Some (File (bf_bytes f))"
          unfolding holds_all_def by blast
        then have "fs2 (tree_path (ts @ [''revocations'', n])) = Some (File (bf_bytes f))"
          unfolding rf(1) revocation_path_elems(1) [OF k] p(4) .
        then have "read_revocations en fs2 (path_join [?d, n]) = Inr l"
          using rf(3,4) j ts r pn(1) unfolding read_revocations_def read_revocation_list_Inr by simp
        with p(1) rf(3) show ?thesis by auto
      qed
      let ?g = "\<lambda>n. projr (?read n)"
      have g: "?read n = Inr (?g n)" if "n \<in> set ?names" for n
      proof -
        from known [OF that] obtain l where "?read n = Inr l" by blast
        then show ?thesis by (simp only: sum.sel)
      qed
      have "map_result ?read ?names = Inr (map ?g ?names)" by (rule map_result_total) (rule g)
      moreover have "\<exists>p \<in> set paths. \<exists>l. read_revocations en fs p = Inr l \<and> i \<in> rv_ticket_id ` set (rl_revoked_tickets l)"
        if i: "revoked_ticket_ids (map ?g ?names) i" for i
      proof -
        from i obtain n t where n: "n \<in> set ?names" and t: "t \<in> set (rl_revoked_tickets (?g n))" "rv_ticket_id t = i"
          unfolding revoked_ticket_ids_iff by (auto simp del: set_filter)
        from known [OF n] obtain p l where p: "p \<in> set paths" "?read n = Inr l" "read_revocations en fs p = Inr l" by blast
        from p(2) have "?g n = l" by (simp only: sum.sel)
        with t p(1,3) show ?thesis by auto
      qed
      ultimately show ?thesis using Some Dir ts r unfolding dir
        by (intro exI [of _ "revoked_ticket_ids (map ?g ?names)"]) (simp add: read_bundled_revocations_def)
    qed
  qed
qed

subsection \<open>The unpacked run\<close>

lemma run_file_there:
  assumes gather: "gather_bundle_files en fs opts ws pk = Inr run_files" and all: "holds_all ts (run_files @ rest) fs2"
    and src: "(p, src) \<in> set (bundle_sources opts ws pk)"
  obtains f where "new_bundle_file en fs p src = Inr f" "f \<in> set run_files"
    "fs2 (tree_path (ts @ path_elems (bf_path f))) = Some (File (bf_bytes f))"
proof -
  from map_result_member [OF gather [unfolded gather_bundle_files_def] src]
  obtain f where f: "f \<in> set run_files" "new_bundle_file en fs p src = Inr f" by auto
  with all that show thesis by (auto simp: holds_all_def)
qed

text \<open>The three files with fixed names.\<close>

lemma fixed_file_there:
  assumes gather: "gather_bundle_files en fs opts ws pk = Inr run_files" and all: "holds_all ts (run_files @ rest) fs2"
    and src: "(p, src) \<in> set (bundle_sources opts ws pk)" and p: "plain_elem p" "archive_clean p = p" and ts: "plain ts"
  shows "path_join [tree_path ts, p] = tree_path (ts @ [p])"
    and "fs2 (tree_path (ts @ [p])) = fs (abs_path (bundle_cwd en) src)"
    and "\<exists>s. fs (abs_path (bundle_cwd en) src) = Some (File s)"
proof -
  from run_file_there [OF gather all src] obtain f where f: "new_bundle_file en fs p src = Inr f"
    "fs2 (tree_path (ts @ path_elems (bf_path f))) = Some (File (bf_bytes f))" by blast
  note n = new_bundle_file_Inr [OF f(1)]
  have "path_elems p = [p]" using rel_path_facts(1) [of "[p]"] p(1) by (simp add: rel_path_def)
  with n(1) p(2) f(2) n(3) show "fs2 (tree_path (ts @ [p])) = fs (abs_path (bundle_cwd en) src)" by simp
  from n(3) show "\<exists>s. fs (abs_path (bundle_cwd en) src) = Some (File s)" by simp
  show "path_join [tree_path ts, p] = tree_path (ts @ [p])" by (rule join_name [OF ts p(1)])
qed

lemma verify_contract_digest_None:
  "verify_contract_digest en fs p want = None \<longleftrightarrow> (\<exists>s c. fs (abs_path (bundle_cwd en) p) = Some (File s) \<and>
     bn_unmarshal_contract en s = Inr c \<and> contract_digest (bundle_sha en) c = want)"
proof (cases "read_at (bundle_cwd en) fs p")
  case (Inl e)
  then have "\<nexists>s. fs (abs_path (bundle_cwd en) p) = Some (File s)" using read_at_file by (metis sum.distinct(1))
  with Inl show ?thesis by (simp add: verify_contract_digest_def labelled_def)
next
  case (Inr s)
  then have "fs (abs_path (bundle_cwd en) p) = Some (File s)" by simp
  with Inr show ?thesis
    by (cases "bn_unmarshal_contract en s") (auto simp: verify_contract_digest_def labelled_def simp del: read_at_Inr)
qed

lemma unpacked_run_verifies:
  assumes laws: "bundle_laws en" and ts: "plain ts" and run: "exported_run en opts fs = Inr res"
    and ev: "read_bundle_evidence en fs (bo_evidence_path opts) = Inr pk"
    and dig: "verify_contract_digest en fs (bo_contract_path opts) (pk_contract_digest pk) = None"
    and gather: "gather_bundle_files en fs opts (bundle_workspace opts) pk = Inr run_files"
    and load: "map_result (load_revocation_file en fs) (bo_revocation_paths opts) = Inr loaded"
    and pack: "packable_run opts pk" and unrev: "unrevoked en opts v fs pk"
    and all: "holds_all ts (run_files @ map fst loaded) fs2" and only: "holds_only ts (run_files @ map fst loaded) fs2"
    and key: "trim_space (bv_public_key_path v) \<noteq> [] \<Longrightarrow> \<exists>pub. bundle_public_key en fs2 (bv_public_key_path v) = Inr pub"
  shows "\<exists>k. verify_extracted en v (tree_path ts) fs2 = Inr (res, k)"
proof -
  let ?cwd = "bundle_cwd en" and ?ws = "bundle_workspace opts"
  have cwd: "is_abs ?cwd" and dec: "decoding_law en" using laws by (simp_all add: bundle_laws_def)
  have ws: "trim_space ?ws \<noteq> []"
  proof -
    have "trim_space ''.'' \<noteq> []" by code_simp
    then show ?thesis by (simp add: bundle_workspace_def)
  qed
  then have ws_ne: "?ws \<noteq> []" using trim_space_Nil by auto
  from run [unfolded exported_run_def] obtain ledger evidence pk' d where
    led: "fs (abs_path ?cwd (bo_ledger_path opts)) = Some (File ledger)"
    and evi: "fs (abs_path ?cwd (bo_evidence_path opts)) = Some (File evidence)" "bn_decode_evidence en evidence = Inr pk'"
    and res_dir: "resolve_workspace_dir ?cwd \<lparr>vo_ledger_path = abs_path ?cwd (bo_ledger_path opts),
       vo_evidence_path = abs_path ?cwd (bo_evidence_path opts), vo_workspace_dir = ?ws, vo_revoked = (\<lambda>_. False)\<rparr> = Inr d"
    and snaps: "\<forall>s \<in> set (pk_input_snapshots pk').
       snapshot_on_disk (bundle_sha en) fs (path_dir (abs_path ?cwd (bo_evidence_path opts))) s"
    and arts: "\<forall>a \<in> set (pk_artifact_manifest pk'). artifact_on_disk (bundle_sha en) fs d a"
    by (rule run_verified_Inr)
  have unm: "bn_unmarshal_evidence en evidence = Inr pk'" using dec evi(2) by (simp add: decoding_law_def)
  with ev evi(1) have same: "pk' = pk" by (simp add: read_bundle_evidence_def)
  have d: "d = abs_path ?cwd ?ws"
    using res_dir ws by (auto simp: resolve_workspace_dir_def absolute_dir_def abs_path_def split: if_splits)
  have names: "plain_elem contract_entry" "plain_elem ledger_entry" "plain_elem evidence_entry"
    "archive_clean contract_entry = contract_entry" "archive_clean ledger_entry = ledger_entry"
    "archive_clean evidence_entry = evidence_entry" by code_simp+
  note fixed = fixed_file_there [OF gather all _ _ _ ts]
  have src: "(contract_entry, bo_contract_path opts) \<in> set (bundle_sources opts ?ws pk)"
    "(ledger_entry, bo_ledger_path opts) \<in> set (bundle_sources opts ?ws pk)"
    "(evidence_entry, bo_evidence_path opts) \<in> set (bundle_sources opts ?ws pk)"
    by (simp_all add: bundle_sources_def)
  note con = fixed [OF src(1) names(1,4)] and le = fixed [OF src(2) names(2,5)] and ee = fixed [OF src(3) names(3,6)]
  have abs: "abs_path ?cwd (tree_path (ts @ [p])) = tree_path (ts @ [p])" if "plain_elem p" for p using that ts by simp
  have ee2: "fs2 (tree_path (ts @ [evidence_entry])) = Some (File evidence)" using ee(2) evi(1) by simp
  have le2: "fs2 (tree_path (ts @ [ledger_entry])) = Some (File ledger)" using le(2) led by simp
  have evidence2: "read_bundle_evidence en fs2 (path_join [tree_path ts, evidence_entry]) = Inr pk"
    unfolding ee(1) using unm same ee2 abs [OF names(3)] by (simp add: read_bundle_evidence_def)
  have digest2: "verify_contract_digest en fs2 (path_join [tree_path ts, contract_entry]) (pk_contract_digest pk) = None"
    using dig con(2) abs [OF names(1)] unfolding con(1) by (simp add: verify_contract_digest_None)
  have heads: "\<forall>f \<in> set run_files. valid_file f \<and> hd (bf_path f) \<noteq> CHR ''r''"
  proof
    fix f assume f: "f \<in> set run_files"
    from map_result_set [OF gather [unfolded gather_bundle_files_def] f] have "valid_file f"
      using new_bundle_file_Inr(2) by auto
    moreover have "hd (bf_path f) \<in> {CHR ''c'', CHR ''e'', CHR ''i'', CHR ''a''}"
      using run_file_head [OF gather f _ arts [unfolded same]] pack by (simp add: packable_run_def)
    ultimately show "valid_file f \<and> hd (bf_path f) \<noteq> CHR ''r''" by auto
  qed
  from bundled_revocations_known [OF laws ts load _ heads all only] pack obtain ids where
    ids: "read_bundled_revocations en fs2 (path_join [tree_path ts, ''revocations'']) = Inr ids"
    and known: "\<forall>i. ids i \<longrightarrow> (\<exists>p \<in> set (bo_revocation_paths opts). \<exists>l. read_revocations en fs p = Inr l \<and>
       i \<in> rv_ticket_id ` set (rl_revoked_tickets l))"
    unfolding packable_run_def by blast
  have none: "verify_revoked_approval_tickets (pk_policy_decisions pk) (merge_revoked (bv_revoked v) ids) = None"
    using unrev known unfolding unrevoked_def verify_revoked_approval_tickets_def merge_revoked_def by fastforce
  have art: "plain_elem ''artifacts''" by code_simp
  have run2: "run_verified en (path_join [tree_path ts, ledger_entry]) (path_join [tree_path ts, evidence_entry])
      (path_join [tree_path ts, ''artifacts'']) (merge_revoked (bv_revoked v) ids) fs2 = Inr res"
  proof -
    have snaps2: "snapshot_on_disk (bundle_sha en) fs2 (tree_path ts) s" if s: "s \<in> set (pk_input_snapshots pk)" for s
    proof -
      from s have "(snapshot_bundle_path s, path_join [path_dir (bo_evidence_path opts), sn_snapshot_path s])
        \<in> set (bundle_sources opts ?ws pk)" by (auto simp: bundle_sources_def)
      from run_file_there [OF gather all this] obtain f where "new_bundle_file en fs (snapshot_bundle_path s)
          (path_join [path_dir (bo_evidence_path opts), sn_snapshot_path s]) = Inr f"
        "fs2 (tree_path (ts @ path_elems (bf_path f))) = Some (File (bf_bytes f))" by blast
      with snapshot_unpacked [OF cwd _ _ ts] s snaps same pack show ?thesis
        unfolding packable_run_def list_all_iff by blast
    qed
    have arts2: "artifact_on_disk (bundle_sha en) fs2 (tree_path (ts @ [''artifacts''])) a"
      if a: "a \<in> set (pk_artifact_manifest pk)" for a
    proof -
      from a have "(artifact_bundle_path a, path_join [?ws, archive_clean (artifact_ref.ar_path a)])
        \<in> set (bundle_sources opts ?ws pk)" by (auto simp: bundle_sources_def)
      from run_file_there [OF gather all this] obtain f where "new_bundle_file en fs (artifact_bundle_path a)
          (path_join [?ws, archive_clean (artifact_ref.ar_path a)]) = Inr f"
        "fs2 (tree_path (ts @ path_elems (bf_path f))) = Some (File (bf_bytes f))" by blast
      with artifact_unpacked [OF cwd ws_ne d ts] a arts same show ?thesis by blast
    qed
    let ?o = "\<lparr>vo_ledger_path = tree_path (ts @ [ledger_entry]), vo_evidence_path = tree_path (ts @ [evidence_entry]),
      vo_workspace_dir = tree_path (ts @ [''artifacts'']), vo_revoked = merge_revoked (bv_revoked v) ids\<rparr>"
    have "resolve_workspace_dir ?cwd ?o = Inr (tree_path (ts @ [''artifacts'']))"
      using tree_path_not_blank [of "ts @ [''artifacts'']"] ts art
      by (simp add: resolve_workspace_dir_def absolute_dir_def)
    moreover have "path_dir (tree_path (ts @ [evidence_entry])) = tree_path ts" by (rule path_dir_tree [OF ts names(3)])
    ultimately have "verify_run (bundle_sha en) (bn_decode_event en) (bn_decode_evidence en) ?cwd ?o fs2 = Inr res"
      using verify_run_moved [OF run [unfolded exported_run_def run_verified_def], of ledger fs2 ?o evidence pk]
        led le2 evi ee2 same snaps2 arts2 none by simp
    then show ?thesis
      unfolding run_verified_def le(1) ee(1) join_name [OF ts art] abs [OF names(2)] abs [OF names(3)] .
  qed
  show ?thesis
  proof (cases "trim_space (bv_public_key_path v) = []")
    case True
    then show ?thesis by (simp add: verify_extracted_def evidence2 digest2 ids run2)
  next
    case False
    with key obtain pub where "bundle_public_key en fs2 (bv_public_key_path v) = Inr pub" by blast
    with False show ?thesis
      by (simp add: verify_extracted_def evidence2 digest2 ids run2 public_key_file_fingerprint_def)
  qed
qed

subsection \<open>The round trip\<close>

lemma generated_valid:
  "valid_file (generated_file signed_manifest_path s)" "valid_file (generated_file signature_entry_path s)"
  "valid_file (generated_file checksums_entry s)"
proof -
  have "validate_bundle_path signed_manifest_path = Inr signed_manifest_path"
    "validate_bundle_path signature_entry_path = Inr signature_entry_path"
    "validate_bundle_path checksums_entry = Inr checksums_entry" by code_simp+
  then show "valid_file (generated_file signed_manifest_path s)" "valid_file (generated_file signature_entry_path s)"
    "valid_file (generated_file checksums_entry s)" by (simp_all add: valid_file_def generated_file_def)
qed

lemma generated_listable: "listable_path signed_manifest_path" "listable_path signature_entry_path"
  by code_simp+

lemma public_key_kept:
  assumes "bundle_public_key en fs p = Inr pub" and "fresh_dir fs tmp"
    and "\<forall>q. \<not> within tmp q \<longrightarrow> fs2 q = fs q"
  shows "bundle_public_key en fs2 p = Inr pub"
proof -
  from assms(1) obtain s where s: "read_at (re_cwd (bn_base en)) fs p = Inr s" "open_public_key (bn_base en) s = Inr pub"
    by (auto simp: bundle_public_key_def read_public_key_def split: sum.splits)
  then have "fs (abs_path (re_cwd (bn_base en)) p) = Some (File s)" by simp
  moreover from this assms(2) have "\<not> within tmp (abs_path (re_cwd (bn_base en)) p)"
    by (metis fresh_dir_def option.distinct(1))
  ultimately have "fs2 (abs_path (re_cwd (bn_base en)) p) = Some (File s)" using assms(3) by simp
  then have "read_at (re_cwd (bn_base en)) fs2 p = Inr s" by simp
  with s(2) show ?thesis by (simp add: bundle_public_key_def read_public_key_def del: read_at_Inr)
qed

text \<open>What the verification finds in an archive whose files are known.\<close>

definition archive_holds :: "entries \<Rightarrow> bundle_file list \<Rightarrow> bool" where
  "archive_holds entries fls \<longleftrightarrow> fst ` set entries = bf_path ` set fls \<and>
     (\<forall>f \<in> set fls. map_of entries (bf_path f) = Some (bf_bytes f))"

lemma written_archive_holds:
  assumes "distinct (map bf_path fls)"
  shows "archive_holds (contents_of (sort_key bf_path fls)) fls"
proof -
  have "distinct (map bf_path (sort_key bf_path fls))" using assms by (simp add: distinct_map)
  from map_of_contents [OF this] have "\<forall>f \<in> set fls. map_of (contents_of (sort_key bf_path fls)) (bf_path f) = Some (bf_bytes f)"
    by simp
  then show ?thesis by (auto simp: archive_holds_def contents_of_def image_comp comp_def)
qed

lemma unpacked_names_of:
  assumes holds: "archive_holds entries (fls @ generated_file signed_manifest_path mb # sigs @ [generated_file checksums_entry cs])"
    and order: "map_ordered (bn_base en)" and names: "archive_names entries"
    and sigs: "sigs = [] \<or> (\<exists>s. sigs = [generated_file signature_entry_path s])"
  shows "set (unpacked_names en entries) = {n \<in> fst ` set entries. n \<noteq> signed_manifest_path \<and> n \<noteq> checksums_entry}"
    and "set (unpacked_names en entries) \<subseteq> insert signature_entry_path (bf_path ` set fls)"
proof -
  have "set (re_map_order (bn_base en) (map fst entries)) = fst ` set entries"
    using order names by (simp add: map_ordered_def archive_names_def)
  then show set_names: "set (unpacked_names en entries) = {n \<in> fst ` set entries. n \<noteq> signed_manifest_path \<and> n \<noteq> checksums_entry}"
    by (auto simp: unpacked_names_def)
  have "fst ` set entries = bf_path ` set fls \<union> {signed_manifest_path, checksums_entry} \<union> bf_path ` set sigs"
    using conjunct1 [OF holds [unfolded archive_holds_def]] by (auto simp: generated_file_def)
  moreover have "bf_path ` set sigs \<subseteq> {signature_entry_path}" using sigs by (auto simp: generated_file_def)
  ultimately show "set (unpacked_names en entries) \<subseteq> insert signature_entry_path (bf_path ` set fls)"
    unfolding set_names by blast
qed

lemma unpacked_archive:
  assumes holds: "archive_holds entries (fls @ generated_file signed_manifest_path mb # sigs @ [generated_file checksums_entry cs])"
    and order: "map_ordered (bn_base en)" and names: "archive_names entries"
    and sigs: "sigs = [] \<or> (\<exists>s. sigs = [generated_file signature_entry_path s])"
    and plain_names: "\<forall>f \<in> set fls. bf_path f \<noteq> signed_manifest_path \<and> bf_path f \<noteq> checksums_entry"
    and ts: "plain ts" and u: "unpacked ts entries fs0 (unpacked_names en entries) fs2"
  shows "holds_all ts fls fs2" and "holds_only ts fls fs2"
proof -
  note set_names = unpacked_names_of(1) [OF holds order names sigs] and sub = unpacked_names_of(2) [OF holds order names sigs]
  have fl: "bf_path f \<in> set (unpacked_names en entries) \<and> entry_bytes entries (bf_path f) = bf_bytes f"
    if f: "f \<in> set fls" for f
  proof -
    have "map_of entries (bf_path f) = Some (bf_bytes f)" using f holds unfolding archive_holds_def by simp
    moreover from this have "bf_path f \<in> fst ` set entries" by (force dest: map_of_SomeD)
    ultimately show ?thesis using f plain_names by (simp add: set_names entry_bytes_def)
  qed
  show "holds_all ts fls fs2" unfolding holds_all_def
  proof
    fix f assume "f \<in> set fls"
    from fl [OF this] unpackedD(3) [OF u, of "bf_path f"]
    show "fs2 (tree_path (ts @ path_elems (bf_path f))) = Some (File (bf_bytes f))" by simp
  qed
  have valid: "\<forall>m \<in> set (unpacked_names en entries). validate_bundle_path m = Inr m"
    using names by (auto simp: set_names archive_names_def list_all_iff)
  have sig: "path_elems signature_entry_path = [signature_entry_path]" by code_simp
  show "holds_only ts fls fs2" unfolding holds_only_def
  proof (intro allI impI)
    fix ks s assume "plain ks" "fs2 (tree_path (ts @ ks)) = Some (File s)"
    from unpacked_file [OF u ts this valid] obtain m where "m \<in> set (unpacked_names en entries)" "ks = path_elems m" by blast
    with sub sig show "ks = [signature_entry_path] \<or> (\<exists>f \<in> set fls. ks = path_elems (bf_path f))" by auto
  qed
qed

definition packed_files :: "bundle_env \<Rightarrow> bundle_file list \<Rightarrow> string \<Rightarrow> bundle_file list \<Rightarrow> bundle_file list" where
  "packed_files en fls mb sigs = fls @ generated_file signed_manifest_path mb # sigs @
     [generated_file checksums_entry (checksums_for_entries (map (entry_for en)
        (fls @ generated_file signed_manifest_path mb # sigs)))]"

lemma packed_archive_opens:
  assumes laws: "bundle_laws en"
    and written: "write_zip en out_path (packed_files en fls mb sigs) fs = (Inr u, fs')"
    and d: "distinct (map bf_path (fls @ generated_file signed_manifest_path mb # sigs))"
    and fls: "list_all valid_file fls" "list_all listable_path (map bf_path fls)"
      "\<forall>f \<in> set fls. bf_path f \<noteq> checksums_entry"
    and fixed: "{contract_entry, ledger_entry, evidence_entry} \<subseteq> bf_path ` set fls"
    and sigs: "sigs = [] \<or> (\<exists>s. sigs = [generated_file signature_entry_path s])"
  shows "\<exists>entries. checked_bundle en fs' out_path = Inr entries \<and> archive_names entries \<and>
    archive_holds entries (packed_files en fls mb sigs)"
proof -
  let ?zip = "packed_files en fls mb sigs" and ?all = "fls @ generated_file signed_manifest_path mb # sigs"
  let ?entries = "contents_of (sort_key bf_path ?zip)"
  have dz: "distinct (map bf_path ?zip)"
    using d fls(3) sigs by (auto simp: packed_files_def generated_file_def)
  have vz: "list_all valid_file ?zip" using fls(1) sigs generated_valid by (auto simp: packed_files_def)
  have zip: "zip_law en" and dig: "digests_visible en" using laws by (simp_all add: bundle_laws_def)
  from written_archive [OF zip dz vz written] have read: "read_zip_entries en fs' out_path = Inr ?entries" .
  have holds: "archive_holds ?entries ?zip" by (rule written_archive_holds [OF dz])
  have paths: "bf_path ` set ?zip \<subseteq> fst ` set ?entries"
    using conjunct1 [OF holds [unfolded archive_holds_def]] by simp
  have "set required_entries \<subseteq> bf_path ` set ?zip"
    using fixed by (auto simp: required_entries_def packed_files_def generated_file_def)
  then have req: "require_bundle_entries ?entries = None"
    using paths unfolding require_bundle_entries_def by (force simp: map_of_eq_None_iff)
  have "verify_bundle_checksums en ?entries = None"
  proof (rule packed_checksums_hold [OF dig _ dz])
    show "?all \<noteq> []" by simp
    show "set ?all \<subseteq> set ?zip" by (auto simp: packed_files_def)
    show "list_all valid_file ?all" using vz by (auto simp: packed_files_def)
    show "list_all (\<lambda>f. listable_path (bf_path f)) ?all"
      using fls(2) sigs generated_listable by (auto simp: list_all_iff generated_file_def)
    let ?sums = "generated_file checksums_entry (checksums_for_entries (map (entry_for en) ?all))"
    have "?sums \<in> set ?zip" by (simp add: packed_files_def)
    with holds have "map_of ?entries (bf_path ?sums) = Some (bf_bytes ?sums)" unfolding archive_holds_def by blast
    then show "entry_bytes ?entries checksums_entry = checksums_for_entries (map (entry_for en) ?all)"
      by (simp add: entry_bytes_def generated_file_def)
    show "\<forall>f \<in> set ?zip. map_of ?entries (bf_path f) = Some (bf_bytes f)" using holds unfolding archive_holds_def by blast
  qed
  with read req have "checked_bundle en fs' out_path = Inr ?entries" by (simp add: checked_bundle_def)
  with read_zip_entries_names [OF read] holds show ?thesis by blast
qed

lemma exported_files:
  assumes run: "exported_run en opts fs = Inr res" and ev: "read_bundle_evidence en fs (bo_evidence_path opts) = Inr pk"
    and gather: "gather_bundle_files en fs opts (bundle_workspace opts) pk = Inr run_files"
    and load: "map_result (load_revocation_file en fs) (bo_revocation_paths opts) = Inr loaded"
    and pack: "packable_run opts pk" and laws: "bundle_laws en"
  shows "list_all valid_file (run_files @ map fst loaded)"
    and "\<forall>f \<in> set (run_files @ map fst loaded). bf_path f \<noteq> signed_manifest_path \<and> bf_path f \<noteq> checksums_entry"
    and "{contract_entry, ledger_entry, evidence_entry} \<subseteq> bf_path ` set (run_files @ map fst loaded)"
proof -
  let ?cwd = "bundle_cwd en"
  from run [unfolded exported_run_def] obtain evidence pk' d where
    evi: "fs (abs_path ?cwd (bo_evidence_path opts)) = Some (File evidence)" "bn_decode_evidence en evidence = Inr pk'"
    and arts: "\<forall>a \<in> set (pk_artifact_manifest pk'). artifact_on_disk (bundle_sha en) fs d a"
    by (rule run_verified_Inr)
  have "bn_unmarshal_evidence en evidence = Inr pk'" using laws evi(2) by (simp add: bundle_laws_def decoding_law_def)
  with ev evi(1) have same: "pk' = pk" by (simp add: read_bundle_evidence_def)
  have run_file: "valid_file f \<and> hd (bf_path f) \<in> {CHR ''c'', CHR ''e'', CHR ''i'', CHR ''a''}" if f: "f \<in> set run_files" for f
    using map_result_set [OF gather [unfolded gather_bundle_files_def] f] new_bundle_file_Inr(2)
      run_file_head [OF gather f _ arts [unfolded same]] pack by (auto simp: packable_run_def)
  have loaded_file: "valid_file f \<and> hd (bf_path f) = CHR ''r''" if f: "f \<in> set (map fst loaded)" for f
  proof -
    from f obtain l where "(f, l) \<in> set loaded" by auto
    from map_result_set [OF load this] obtain p where p: "p \<in> set (bo_revocation_paths opts)"
      "load_revocation_file en fs p = Inr (f, l)" by blast
    with pack have k: "packable_revocation p" by (simp add: packable_run_def list_all_iff)
    from revocation_file(1,2) [OF p(2) k] revocation_path_elems(2) [OF k] show ?thesis by simp
  qed
  show "list_all valid_file (run_files @ map fst loaded)" using run_file loaded_file by (auto simp: list_all_iff)
  show "\<forall>f \<in> set (run_files @ map fst loaded). bf_path f \<noteq> signed_manifest_path \<and> bf_path f \<noteq> checksums_entry"
    using run_file loaded_file by fastforce
  have fixed: "archive_clean contract_entry = contract_entry" "archive_clean ledger_entry = ledger_entry"
    "archive_clean evidence_entry = evidence_entry" by code_simp+
  have "p \<in> bf_path ` set run_files" if "(p, src) \<in> set (bundle_sources opts (bundle_workspace opts) pk)" "archive_clean p = p" for p src
    using map_result_member [OF gather [unfolded gather_bundle_files_def] that(1)] new_bundle_file_Inr(1) that(2) by force
  note packed = this [OF _ fixed(1)] this [OF _ fixed(2)] this [OF _ fixed(3)]
  have "contract_entry \<in> bf_path ` set run_files" "ledger_entry \<in> bf_path ` set run_files"
    "evidence_entry \<in> bf_path ` set run_files"
    by (rule packed(1) [of "bo_contract_path opts"], simp add: bundle_sources_def,
        rule packed(2) [of "bo_ledger_path opts"], simp add: bundle_sources_def,
        rule packed(3) [of "bo_evidence_path opts"], simp add: bundle_sources_def)
  then show "{contract_entry, ledger_entry, evidence_entry} \<subseteq> bf_path ` set (run_files @ map fst loaded)" by auto
qed

lemma apart_subset: "apart ns \<Longrightarrow> set ms \<subseteq> set ns \<Longrightarrow> apart ms"
  unfolding apart_def by blast

lemma exported_bundle_round_trip:
  assumes export: "bundle_export en opts fs = (Inr r, fs')" and laws: "bundle_laws en"
    and fresh: "fresh_dir fs' (bn_tmp_dir en)" and parents: "list_all (\<lambda>q. fs' q = Some Dir) (dir_chain (path_dir (bn_tmp_dir en)))"
    and same_path: "bv_bundle_path v = bo_out_path opts" and key: "bundle_key_matches en opts v fs fs'"
    and ev: "read_bundle_evidence en fs (bo_evidence_path opts) = Inr pk"
    and pack: "packable_run opts pk" and unrev: "unrevoked en opts v fs pk"
    and listable: "list_all listable_path (map bt_path (bm_entries (bx_manifest r)))"
    and apart: "apart (signature_entry_path # map bt_path (bm_entries (bx_manifest r)))"
  shows "\<exists>res k. exported_run en opts fs = Inr res \<and> bundle_verify en v fs' = (Inr (res, k), fs')"
proof -
  from bundle_export_Inr [OF export] obtain fls m sigs fp u where
    collect: "collect_bundle en fs opts = Inr (fls, m)" and r: "bx_manifest r = m"
    and sig: "signature_files en (bo_sign_key_path opts) (manifest_bytes_of m) fs = (Inr (sigs, fp), fs)"
    and d: "distinct (map bf_path (fls @ generated_file signed_manifest_path (manifest_bytes_of m) # sigs))"
    and w: "write_zip en (bo_out_path opts) (packed_files en fls (manifest_bytes_of m) sigs) fs = (Inr u, fs')"
    unfolding packed_files_def by (metis append.assoc append_Cons)
  from collect_bundle_Inr [OF collect] obtain res pk' run_files loaded where
    run: "exported_run en opts fs = Inr res" and ev': "read_bundle_evidence en fs (bo_evidence_path opts) = Inr pk'"
    and dig: "verify_contract_digest en fs (bo_contract_path opts) (pk_contract_digest pk') = None"
    and gather: "gather_bundle_files en fs opts (bundle_workspace opts) pk' = Inr run_files"
    and load: "map_result (load_revocation_file en fs) (bo_revocation_paths opts) = Inr loaded"
    and fls: "fls = run_files @ map fst loaded" and m: "m = bundle_manifest_for pk' res (map (entry_for en) fls)"
    and out: "trim_space (bo_out_path opts) \<noteq> []" by metis
  from ev ev' have same: "pk' = pk" by simp
  have sigs: "sigs = [] \<or> (\<exists>s. sigs = [generated_file signature_entry_path s])" using signature_files_Inr [OF sig] by blast
  have names: "map bt_path (bm_entries (bx_manifest r)) = map bf_path fls"
    by (simp add: r m bundle_manifest_for_def entry_for_def)
  note files = exported_files [OF run ev gather [unfolded same] load pack laws, folded fls]
  have nc: "\<forall>f \<in> set fls. bf_path f \<noteq> checksums_entry" using files(2) by blast
  obtain entries where opened: "checked_bundle en fs' (bo_out_path opts) = Inr entries" "archive_names entries"
    and holds: "archive_holds entries (packed_files en fls (manifest_bytes_of m) sigs)"
    using packed_archive_opens [OF laws w d files(1) listable [unfolded names] nc files(3) sigs] by blast
  have order: "map_ordered (bn_base en)" using laws by (simp add: bundle_laws_def)
  have signed: "trim_space (bv_public_key_path v) \<noteq> [] \<Longrightarrow>
    verify_bundle_signature en fs' entries (bv_public_key_path v) = None"
  proof (rule signed_bundle_opens [OF sig key])
    let ?mf = "generated_file signed_manifest_path (manifest_bytes_of m)"
    have packed: "set (?mf # sigs) \<subseteq> set (packed_files en fls (manifest_bytes_of m) sigs)" by (auto simp: packed_files_def)
    then have "map_of entries (bf_path f) = Some (bf_bytes f)" if "f \<in> set (?mf # sigs)" for f
      using holds that unfolding archive_holds_def by blast
    from this [of ?mf] this show "map_of entries signed_manifest_path = Some (manifest_bytes_of m)"
      "\<forall>f \<in> set sigs. map_of entries (bf_path f) = Some (bf_bytes f)" by (simp_all add: generated_file_def)
  qed
  have authentic: "authentic_bundle en v fs' = Inr entries"
    using out opened(1) signed by (simp add: authentic_bundle_def same_path)
  obtain ts where ts: "plain ts" "bn_tmp_dir en = tree_path ts" using fresh unfolding fresh_dir_def by (blast elim: tree_path_cases)
  have "fs' (tree_path ts) = None" using fresh ts by (simp add: fresh_dir_def)
  then have made: "make_temp_dir (tree_path ts) fs' = (Inr (tree_path ts), fs'(tree_path ts \<mapsto> Dir))"
    using parents by (simp add: make_temp_dir_def ts(2))
  from make_temp_dir_unpacked [OF ts(1) _ made] fresh ts(2)
  have start: "unpacked ts entries fs' [] (fs'(tree_path ts \<mapsto> Dir))" by simp
  obtain x fs2 where ex: "extract_entries en (tree_path ts) entries (fs'(tree_path ts \<mapsto> Dir)) = (x, fs2)"
    by (cases "extract_entries en (tree_path ts) entries (fs'(tree_path ts \<mapsto> Dir))")
  note outcome = extract_entries_outcome [OF ts(1) order opened(2) start ex]
  note holds' = holds [unfolded packed_files_def]
  have "apart (unpacked_names en entries)"
    using apart_subset [OF apart [unfolded names]] unpacked_names_of(2) [OF holds' order opened(2) sigs] by simp
  with outcome have x: "x = Inr ()" and u2: "unpacked ts entries fs' (unpacked_names en entries) fs2"
    and outside: "\<forall>q. \<not> within (tree_path ts) q \<longrightarrow> fs2 q = fs' q" by auto
  note tree = unpacked_archive [OF holds' order opened(2) sigs files(2) ts(1) u2]
  have key2: "\<exists>pub. bundle_public_key en fs2 (bv_public_key_path v) = Inr pub" if "trim_space (bv_public_key_path v) \<noteq> []"
    using key that public_key_kept [OF _ fresh, of en _ _ fs2] outside ts(2) unfolding bundle_key_matches_def by metis
  from unpacked_run_verifies [OF laws ts(1) run ev dig [unfolded same] gather [unfolded same] load pack unrev
      tree [unfolded fls] key2]
  obtain k where k: "verify_extracted en v (tree_path ts) fs2 = Inr (res, k)" by blast
  have "remove_all (tree_path ts) fs2 = fs'" using removed_unpacked [of fs' "tree_path ts" fs2] fresh outside ts(2) by simp
  with authentic made ex x k ts(2) have "bundle_verify en v fs' = (Inr (res, k), fs')"
    by (simp add: bundle_verify_def with_temp_dir_def io_bind_def io_result_def io_wrap_def)
  with run show ?thesis by blast
qed

subsection \<open>What the signature leaves open\<close>

text \<open>The files of some run, whoever made it.\<close>

definition run_bundle_files :: "bundle_file list \<Rightarrow> bool" where
  "run_bundle_files fls \<longleftrightarrow> distinct (map bf_path fls) \<and> list_all valid_file fls \<and> list_all listable_path (map bf_path fls) \<and>
     {contract_entry, ledger_entry, evidence_entry} \<subseteq> bf_path ` set fls \<and>
     bf_path ` set fls \<inter> {signed_manifest_path, signature_entry_path, checksums_entry} = {}"

lemma verify_bundle_signature_cong:
  assumes "map_of a signed_manifest_path = map_of b signed_manifest_path"
    and "map_of a signature_entry_path = map_of b signature_entry_path"
  shows "verify_bundle_signature en fs a key = verify_bundle_signature en fs b key"
  by (simp only: verify_bundle_signature_def assms)

lemma signature_transplanted:
  assumes laws: "bundle_laws en" and signed: "verify_bundle_signature en fs' original (bv_public_key_path v) = None"
    and entries: "map_of original signed_manifest_path = Some mb" "map_of original signature_entry_path = Some s"
    and files: "run_bundle_files fls" and path: "trim_space (bv_bundle_path v) \<noteq> []"
    and written: "write_zip en (bv_bundle_path v) (packed_files en fls mb [generated_file signature_entry_path s]) fs = (Inr u, fs')"
  shows "\<exists>entries. authentic_bundle en v fs' = Inr entries \<and> (\<forall>f \<in> set fls. map_of entries (bf_path f) = Some (bf_bytes f))"
proof -
  let ?sigs = "[generated_file signature_entry_path s]"
  from files have free: "bf_path ` set fls \<inter> {signed_manifest_path, signature_entry_path, checksums_entry} = {}"
    and names: "distinct (map bf_path fls)" by (simp_all only: run_bundle_files_def)
  from free names have d: "distinct (map bf_path (fls @ generated_file signed_manifest_path mb # ?sigs))"
    by (auto simp: generated_file_def)
  from free have sums: "\<forall>f \<in> set fls. bf_path f \<noteq> checksums_entry" by blast
  have f: "list_all valid_file fls" "list_all listable_path (map bf_path fls)"
    "{contract_entry, ledger_entry, evidence_entry} \<subseteq> bf_path ` set fls"
    using files by (simp_all add: run_bundle_files_def)
  obtain entries where opened: "checked_bundle en fs' (bv_bundle_path v) = Inr entries"
    and holds: "\<forall>f \<in> set (packed_files en fls mb ?sigs). map_of entries (bf_path f) = Some (bf_bytes f)"
    using packed_archive_opens [OF laws written d f(1,2) sums f(3)] unfolding archive_holds_def by blast
  have "{generated_file signed_manifest_path mb, generated_file signature_entry_path s} \<subseteq> set (packed_files en fls mb ?sigs)"
    by (simp add: packed_files_def)
  with holds have "map_of entries signed_manifest_path = Some mb" "map_of entries signature_entry_path = Some s"
    by (auto simp: generated_file_def)
  with entries signed verify_bundle_signature_cong [of entries original en fs' "bv_public_key_path v"]
  have "verify_bundle_signature en fs' entries (bv_public_key_path v) = None" by simp
  with opened path have "authentic_bundle en v fs' = Inr entries" by (simp add: authentic_bundle_def)
  moreover have "set fls \<subseteq> set (packed_files en fls mb ?sigs)" by (auto simp: packed_files_def)
  ultimately show ?thesis using holds by blast
qed

end
