(* ===== verification/Bundle_Report.thy ===== *)
theory Bundle_Report
  imports Bundle_Export Release_Report
begin

text \<open>
  The inspection of a bundle in \<open>internal/bundle/bundle.go\<close>, its report, their redaction and the report
  as Markdown. Inspection checks the archive, its checksums and the signature, and shows what the
  manifest and the packed run claim; it does not verify the run. The copy through JSON that the
  redaction starts with is the value itself here.
\<close>

subsection \<open>Data\<close>

record bundle_signature_inspection =
  bs_status :: string
  bs_algorithm :: string
  bs_signed_entry :: string
  bs_public_key_sha256 :: string

record artifact_inspection =
  ai_artifact_id :: string
  ai_path :: string
  ai_digest :: string
  ai_media_type :: string
  ai_producer_event_id :: string
  ai_producer_task_id :: string
  ai_producer_found :: bool

record event_inspection =
  ei_event_id :: string
  ei_sequence :: int
  ei_line :: nat
  ei_type :: string
  ei_task_id :: string
  ei_status :: string
  ei_message :: string
  ei_artifact_ids :: "string list"
  ei_decision_id :: string
  ei_decision :: string
  ei_effect_type :: string
  ei_resource :: string
  ei_approval_ticket_id :: string

record snapshot_inspection =
  ni_snapshot_id :: string
  ni_source_path :: string
  ni_snapshot_path :: string
  ni_digest :: string
  ni_media_type :: string

record failure_inspection =
  fi_failure_id :: string
  fi_event_id :: string
  fi_event_line :: nat
  fi_event_found :: bool
  fi_task_id :: string
  fi_phase :: string
  fi_reason :: string

record revoked_inspection =
  ti_ticket_id :: string
  ti_reason :: string

record revocation_inspection =
  ri_path :: string
  ri_revoked_count :: nat
  ri_revoked_tickets :: "revoked_inspection list"

record row_inspection =
  wi_obligation_id :: string
  wi_required :: bool
  wi_status :: string
  wi_task_ids :: "string list"
  wi_artifact_ids :: "string list"
  wi_missing_artifact_ids :: "string list"
  wi_policy_decision_ids :: "string list"
  wi_missing_policy_decision_ids :: "string list"
  wi_reason :: string

record bundle_inspection =
  ib_bundle_path :: string
  ib_schema_version :: string
  ib_run_id :: string
  ib_contract_digest :: string
  ib_ledger_digest :: string
  ib_entry_count :: nat
  ib_checksum_status :: string
  ib_signature :: bundle_signature_inspection
  ib_verification :: verification_summary
  ib_event_count :: nat
  ib_artifact_count :: nat
  ib_input_snapshot_count :: nat
  ib_policy_decision_count :: nat
  ib_closure_row_count :: nat
  ib_failure_count :: nat
  ib_revocation_list_count :: nat
  ib_revoked_ticket_count :: nat
  ib_entries :: "bundle_entry list"
  ib_artifacts :: "artifact_inspection list"
  ib_input_snapshots :: "snapshot_inspection list"
  ib_policy_explanations :: "explanation list"
  ib_revocations :: "revocation_inspection list"

text \<open>
  A report repeats every field of an inspection, under a schema version of its own, and adds five.
\<close>

record bundle_report = bundle_inspection +
  ib_events :: "event_inspection list"
  ib_policy_decisions :: "decision list"
  ib_failures :: "failure_inspection list"
  ib_closure_rows :: "row_inspection list"

subsection \<open>Inspection\<close>

definition decode_bundle_evidence :: "bundle_env \<Rightarrow> string \<Rightarrow> evidence_pack go_result" where
  "decode_bundle_evidence en s = labelled ''decode evidence: '' (bn_unmarshal_evidence en s)"

definition decode_ledger_events :: "bundle_env \<Rightarrow> string \<Rightarrow> event list go_result" where
  "decode_ledger_events en s =
     map_result (\<lambda>line. labelled ''decode ledger event: '' (bn_unmarshal_event en line))
       (filter (\<lambda>line. trim_space line \<noteq> []) (split_on (CHR 0x0A) (trim_space s)))"

definition decode_signature_inspection :: "bundle_env \<Rightarrow> string \<Rightarrow> string \<Rightarrow> bundle_signature_inspection go_result" where
  "decode_signature_inspection en status s =
     bind_result (labelled ''decode bundle signature: '' (re_decode_signature (bn_base en) s)) (\<lambda>f.
       Inr \<lparr>bs_status = status, bs_algorithm = sf_algorithm f, bs_signed_entry = sf_signed_entry f,
            bs_public_key_sha256 = sf_public_key_sha256 f\<rparr>)"

definition inspect_signature :: "bundle_env \<Rightarrow> fs \<Rightarrow> entries \<Rightarrow> string \<Rightarrow> bundle_signature_inspection go_result" where
  "inspect_signature en fs entries public_key_path =
     (if trim_space public_key_path \<noteq> [] then
        unless_error (verify_bundle_signature en fs entries public_key_path)
          (decode_signature_inspection en ''verified'' (entry_bytes entries signature_entry_path))
      else case map_of entries signature_entry_path of
        None \<Rightarrow> Inr \<lparr>bs_status = ''unsigned'', bs_algorithm = [], bs_signed_entry = [], bs_public_key_sha256 = []\<rparr>
      | Some s \<Rightarrow> decode_signature_inspection en ''present_unverified'' s)"

definition inspect_artifacts :: "artifact_ref list \<Rightarrow> event list \<Rightarrow> artifact_inspection list" where
  "inspect_artifacts artifacts es = map (\<lambda>a.
     let found = event_by_id es (ar_producer_event_id a) in
     \<lparr>ai_artifact_id = ar_artifact_id a, ai_path = artifact_ref.ar_path a, ai_digest = ar_digest a,
      ai_media_type = ar_media_type a, ai_producer_event_id = ar_producer_event_id a,
      ai_producer_task_id = (case found of Some e \<Rightarrow> ev_task_id e | None \<Rightarrow> []),
      ai_producer_found = (found \<noteq> None)\<rparr>) artifacts"

definition inspect_event :: "nat \<Rightarrow> event \<Rightarrow> event_inspection" where
  "inspect_event line e =
     \<lparr>ei_event_id = ev_event_id e, ei_sequence = ev_sequence e, ei_line = line, ei_type = ev_type e,
      ei_task_id = ev_task_id e, ei_status = ev_status e, ei_message = ev_message e,
      ei_artifact_ids = ev_artifact_ids e, ei_decision_id = ev_decision_id e, ei_decision = ev_decision e,
      ei_effect_type = ev_effect_type e, ei_resource = ev_resource e,
      ei_approval_ticket_id = ev_approval_ticket_id e\<rparr>"

definition inspect_events :: "event list \<Rightarrow> event_inspection list" where
  "inspect_events es = map (\<lambda>(i, e). inspect_event i e) (enumerate 1 es)"

definition inspect_input_snapshots :: "input_snapshot list \<Rightarrow> snapshot_inspection list" where
  "inspect_input_snapshots ss = map (\<lambda>s. \<lparr>ni_snapshot_id = sn_snapshot_id s, ni_source_path = sn_source_path s,
     ni_snapshot_path = sn_snapshot_path s, ni_digest = sn_digest s, ni_media_type = sn_media_type s\<rparr>) ss"

definition revocation_paths :: "entries \<Rightarrow> string list" where
  "revocation_paths entries =
     sort (filter (\<lambda>p. prefix ''revocations/'' p \<and> suffix ''.json'' p) (map fst entries))"

definition inspect_revocation :: "bundle_env \<Rightarrow> entries \<Rightarrow> string \<Rightarrow> revocation_inspection go_result" where
  "inspect_revocation en entries p =
     bind_result (labelled (''decode bundled revocation '' @ p @ '': '')
         (bn_unmarshal_revocations en (entry_bytes entries p))) (\<lambda>l.
     unless_error (map_option (\<lambda>e. Errorf (''validate bundled revocation '' @ p @ '': '' @ error_text e))
         (validate_revocation_list (bn_schema_revocations en) l))
       (let tickets = map (\<lambda>r. \<lparr>ti_ticket_id = rv_ticket_id r, ti_reason = rv_reason r\<rparr>) (rl_revoked_tickets l)
        in Inr \<lparr>ri_path = p, ri_revoked_count = length tickets, ri_revoked_tickets = tickets\<rparr>))"

definition inspect_bundled_revocations :: "bundle_env \<Rightarrow> entries \<Rightarrow> revocation_inspection list go_result" where
  "inspect_bundled_revocations en entries = map_result (inspect_revocation en entries) (revocation_paths entries)"

definition revoked_inspection_count :: "revocation_inspection list \<Rightarrow> nat" where
  "revoked_inspection_count rs = sum_list (map (\<lambda>r. length (ri_revoked_tickets r)) rs)"

definition bundle_inspect :: "bundle_env \<Rightarrow> string \<Rightarrow> string \<Rightarrow> fs \<Rightarrow> bundle_inspection go_result" where
  "bundle_inspect en bundle_path public_key_path fs =
     unless_error (fail_if (trim_space bundle_path = []) (Errorf ''bundle path is required'')) (
     bind_result (checked_bundle en fs bundle_path) (\<lambda>entries.
     let manifest_bytes = entry_bytes entries signed_manifest_path in
     unless_error (map_option (\<lambda>e. Errorf (''validate bundle manifest: '' @ error_text e))
         (re_schema_bytes (bn_base en) bundle_manifest_schema manifest_bytes)) (
     bind_result (labelled ''decode bundle manifest: '' (bn_unmarshal_manifest en manifest_bytes)) (\<lambda>m.
     bind_result (decode_bundle_evidence en (entry_bytes entries evidence_entry)) (\<lambda>pk.
     bind_result (decode_ledger_events en (entry_bytes entries ledger_entry)) (\<lambda>es.
     bind_result (inspect_signature en fs entries public_key_path) (\<lambda>signature.
     bind_result (inspect_bundled_revocations en entries) (\<lambda>revocations.
       Inr \<lparr>ib_bundle_path = bundle_path, ib_schema_version = ''covenant.bundle-inspect-result.v1'',
         ib_run_id = bm_run_id m, ib_contract_digest = bm_contract_digest m, ib_ledger_digest = bm_ledger_digest m,
         ib_entry_count = length entries, ib_checksum_status = ''verified'', ib_signature = signature,
         ib_verification = bm_verification m, ib_event_count = length es,
         ib_artifact_count = length (pk_artifact_manifest pk),
         ib_input_snapshot_count = length (pk_input_snapshots pk),
         ib_policy_decision_count = length (pk_policy_decisions pk),
         ib_closure_row_count = length (mx_rows (pk_closure_matrix pk)), ib_failure_count = length (pk_failures pk),
         ib_revocation_list_count = length revocations, ib_revoked_ticket_count = revoked_inspection_count revocations,
         ib_entries = bm_entries m, ib_artifacts = inspect_artifacts (pk_artifact_manifest pk) es,
         ib_input_snapshots = inspect_input_snapshots (pk_input_snapshots pk),
         ib_policy_explanations = explain_decisions (pk_policy_decisions pk),
         ib_revocations = revocations\<rparr>))))))))"

subsection \<open>Report\<close>

definition inspect_failure :: "event list \<Rightarrow> failure_record \<Rightarrow> failure_inspection" where
  "inspect_failure es f = (let line = event_lines_from es (fr_event_id f) in
     \<lparr>fi_failure_id = fr_failure_id f, fi_event_id = fr_event_id f,
      fi_event_line = (case line of Some i \<Rightarrow> i | None \<Rightarrow> 0), fi_event_found = (line \<noteq> None),
      fi_task_id = fr_task_id f, fi_phase = fr_phase f, fi_reason = fr_reason f\<rparr>)"

definition inspect_failures :: "failure_record list \<Rightarrow> event list \<Rightarrow> failure_inspection list" where
  "inspect_failures failures es = map (inspect_failure es) failures"

definition missing_ids :: "string list \<Rightarrow> (string \<Rightarrow> bool) \<Rightarrow> string list" where
  "missing_ids references known = filter (\<lambda>r. \<not> known r) references"

definition inspect_closure_rows :: "closure_matrix \<Rightarrow> artifact_ref list \<Rightarrow> decision list \<Rightarrow> row_inspection list" where
  "inspect_closure_rows matrix artifacts decisions =
     (let artifact_ids = (\<lambda>i. i \<in> set (map ar_artifact_id artifacts));
          decision_ids = (\<lambda>i. i \<in> set (map dc_decision_id decisions))
      in map (\<lambda>row. \<lparr>wi_obligation_id = rw_obligation_id row, wi_required = rw_required row,
           wi_status = rw_status row, wi_task_ids = rw_task_ids row, wi_artifact_ids = rw_artifact_ids row,
           wi_missing_artifact_ids = missing_ids (rw_artifact_ids row) artifact_ids,
           wi_policy_decision_ids = rw_policy_decision_ids row,
           wi_missing_policy_decision_ids = missing_ids (rw_policy_decision_ids row) decision_ids,
           wi_reason = rw_reason row\<rparr>) (mx_rows matrix))"

definition report_from :: "bundle_inspection \<Rightarrow> evidence_pack \<Rightarrow> event list \<Rightarrow> bundle_report" where
  "report_from i pk es = bundle_inspection.extend
     (i\<lparr>ib_schema_version := ''covenant.bundle-report-result.v1''\<rparr>)
     (bundle_report.fields (inspect_events es) (pk_policy_decisions pk) (inspect_failures (pk_failures pk) es)
       (inspect_closure_rows (pk_closure_matrix pk) (pk_artifact_manifest pk) (pk_policy_decisions pk)))"

definition bundle_report_of :: "bundle_env \<Rightarrow> string \<Rightarrow> string \<Rightarrow> fs \<Rightarrow> bundle_report go_result" where
  "bundle_report_of en bundle_path public_key_path fs =
     bind_result (bundle_inspect en bundle_path public_key_path fs) (\<lambda>i.
     bind_result (read_zip_entries en fs bundle_path) (\<lambda>entries.
     bind_result (decode_bundle_evidence en (entry_bytes entries evidence_entry)) (\<lambda>pk.
     bind_result (decode_ledger_events en (entry_bytes entries ledger_entry)) (\<lambda>es.
       Inr (report_from i pk es)))))"

subsection \<open>Redaction\<close>

definition bundle_redacted_digest :: string where
  "bundle_redacted_digest = ''[REDACTED_DIGEST]''"

definition redact_inspection_paths :: "'a bundle_inspection_scheme \<Rightarrow> 'a bundle_inspection_scheme" where
  "redact_inspection_paths i = i
     \<lparr>ib_bundle_path := redacted_path,
      ib_entries := map (\<lambda>e. e\<lparr>bt_path := redacted_path, bt_source := redacted_path\<rparr>) (ib_entries i),
      ib_artifacts := map (\<lambda>a. a\<lparr>ai_path := redacted_path\<rparr>) (ib_artifacts i),
      ib_input_snapshots := map (\<lambda>s. s\<lparr>ni_source_path := redacted_path, ni_snapshot_path := redacted_path\<rparr>)
        (ib_input_snapshots i),
      ib_revocations := map (\<lambda>r. r\<lparr>ri_path := redacted_path\<rparr>) (ib_revocations i)\<rparr>"

definition redact_inspection_digests :: "'a bundle_inspection_scheme \<Rightarrow> 'a bundle_inspection_scheme" where
  "redact_inspection_digests i = i
     \<lparr>ib_contract_digest := bundle_redacted_digest, ib_ledger_digest := bundle_redacted_digest,
      ib_entries := map (\<lambda>e. e\<lparr>bt_sha256 := bundle_redacted_digest\<rparr>) (ib_entries i),
      ib_artifacts := map (\<lambda>a. a\<lparr>ai_digest := bundle_redacted_digest\<rparr>) (ib_artifacts i),
      ib_input_snapshots := map (\<lambda>s. s\<lparr>ni_digest := bundle_redacted_digest\<rparr>) (ib_input_snapshots i),
      ib_revocations := map (\<lambda>r. r\<lparr>ri_revoked_tickets := map
        (\<lambda>t. t\<lparr>ti_ticket_id := bundle_redacted_digest, ti_reason := bundle_redacted_digest\<rparr>)
        (ri_revoked_tickets r)\<rparr>) (ib_revocations i)\<rparr>"

text \<open>\<open>RedactInspect\<close>, which \<open>RedactReport\<close> applies to the part it shares with an inspection.\<close>

definition redact_bundle_inspection ::
    "redaction_options \<Rightarrow> 'a bundle_inspection_scheme \<Rightarrow> 'a bundle_inspection_scheme" where
  "redact_bundle_inspection opts i =
     (let i1 = (if rd_paths opts then redact_inspection_paths i else i)
      in if rd_digests opts then redact_inspection_digests i1 else i1)"

definition redact_text_path :: "string \<Rightarrow> string" where
  "redact_text_path s =
     replace_all ''examples/risky-change/brief.md'' redacted_path (replace_all ''demo-output/report.txt'' redacted_path s)"

definition redact_bundle_report :: "redaction_options \<Rightarrow> bundle_report \<Rightarrow> bundle_report" where
  "redact_bundle_report opts r =
     (let r1 = redact_bundle_inspection opts r in
      if rd_paths opts then r1
        \<lparr>ib_events := map (\<lambda>e. if ei_resource e \<noteq> [] then e\<lparr>ei_resource := redacted_path\<rparr> else e) (ib_events r1),
         ib_policy_decisions := map (\<lambda>d. d\<lparr>dc_resource := redacted_path\<rparr>) (ib_policy_decisions r1),
         ib_policy_explanations := map (\<lambda>x. x\<lparr>ex_resource := redacted_path,
           ex_summary := redact_text_path (ex_summary x), ex_detail := redact_text_path (ex_detail x)\<rparr>)
           (ib_policy_explanations r1)\<rparr>
      else r1)"

subsection \<open>Markdown\<close>

definition bool_text :: "bool \<Rightarrow> string" where
  "bool_text b = (if b then ''true'' else ''false'')"

definition table_row :: "string list \<Rightarrow> string" where
  "table_row cells = ''| '' @ join_with '' | '' cells @ '' |'' @ [CHR 0x0A]"

text \<open>A section: an empty line, the heading, an empty line, and the table's two head lines.\<close>

definition table_section :: "string \<Rightarrow> string list \<Rightarrow> string list \<Rightarrow> string" where
  "table_section heading columns rules =
     [CHR 0x0A] @ ''## '' @ heading @ [CHR 0x0A, CHR 0x0A] @ table_row columns @ table_row rules"

definition revocation_rows :: "revocation_inspection \<Rightarrow> string" where
  "revocation_rows r =
     (let count = int_text (int (ri_revoked_count r)) in
      if ri_revoked_tickets r = [] then table_row [ri_path r, count, [], []]
      else concat (map (\<lambda>t. table_row [ri_path r, count, ti_ticket_id t, ti_reason t]) (ri_revoked_tickets r)))"

definition decision_rows :: "explanation list \<Rightarrow> decision \<Rightarrow> string" where
  "decision_rows explanations d =
     (let found = map_of (rev (map (\<lambda>x. (ex_decision_id x, x)) explanations)) (dc_decision_id d) in
      table_row [dc_decision_id d, dc_task_id d, dc_decision d, dc_effect_type d, dc_resource d,
        (case found of Some x \<Rightarrow> ex_summary x | None \<Rightarrow> [])])"

definition markdown_report :: "bundle_report \<Rightarrow> string" where
  "markdown_report r =
     ''# AO Covenant Bundle Report'' @ [CHR 0x0A, CHR 0x0A] @
     table_row [''Field'', ''Value''] @ table_row [''---'', ''---''] @
     table_row [''Bundle'', ib_bundle_path r] @ table_row [''Run ID'', ib_run_id r] @
     table_row [''Contract Digest'', ib_contract_digest r] @ table_row [''Ledger Digest'', ib_ledger_digest r] @
     table_row [''Verified'', bool_text (sm_verified (ib_verification r))] @
     table_section ''Manifest Entries'' [''Path'', ''Source'', ''SHA256'', ''Size''] [''---'', ''---'', ''---'', ''---:''] @
     concat (map (\<lambda>e. table_row [bt_path e, bt_source e, bt_sha256 e, int_text (bt_size_bytes e)]) (ib_entries r)) @
     table_section ''Ledger Events'' [''Event ID'', ''Sequence'', ''Line'', ''Type'', ''Status'']
       [''---'', ''---:'', ''---:'', ''---'', ''---''] @
     concat (map (\<lambda>e. table_row [ei_event_id e, int_text (ei_sequence e), int_text (int (ei_line e)), ei_type e, ei_status e])
       (ib_events r)) @
     table_section ''Artifacts'' [''Artifact ID'', ''Path'', ''Digest''] [''---'', ''---'', ''---''] @
     concat (map (\<lambda>a. table_row [ai_artifact_id a, ai_path a, ai_digest a]) (ib_artifacts r)) @
     table_section ''Input Snapshots'' [''Snapshot ID'', ''Source Path'', ''Snapshot Path'', ''Digest'']
       [''---'', ''---'', ''---'', ''---''] @
     concat (map (\<lambda>s. table_row [ni_snapshot_id s, ni_source_path s, ni_snapshot_path s, ni_digest s]) (ib_input_snapshots r)) @
     table_section ''Policy Decisions'' [''Decision ID'', ''Task ID'', ''Decision'', ''Effect'', ''Resource'', ''Summary'']
       [''---'', ''---'', ''---'', ''---'', ''---'', ''---''] @
     concat (map (decision_rows (ib_policy_explanations r)) (ib_policy_decisions r)) @
     table_section ''Closure Rows'' [''Obligation ID'', ''Required'', ''Status'', ''Reason'']
       [''---'', ''---'', ''---'', ''---''] @
     concat (map (\<lambda>w. table_row [wi_obligation_id w, bool_text (wi_required w), wi_status w, wi_reason w]) (ib_closure_rows r)) @
     (if ib_revocations r = [] then []
      else table_section ''Revocations'' [''Path'', ''Revoked Count'', ''Ticket ID'', ''Reason'']
             [''---'', ''---:'', ''---'', ''---''] @
           concat (map revocation_rows (ib_revocations r)))"

end
