(* ===== verification/Bundle_Examples.thy ===== *)
theory Bundle_Examples
  imports Bundle_Verified Bundle_Report Examples Release_Examples
begin

text \<open>
  A run of two events with one artifact, one input snapshot, one decision that used a ticket and a revocation of
  another ticket, exported into a signed bundle, on which the properties of bundles are applied.
  The archive format here writes the length of every text in front of it.
\<close>

subsection \<open>An archive format\<close>

definition packed_text :: "string \<Rightarrow> string" where
  "packed_text s = replicate (length s) (CHR ''1'') @ CHR ''0'' # s"

definition unpacked_text :: "string \<Rightarrow> string \<times> string" where
  "unpacked_text t = (let n = length (takeWhile (\<lambda>c. c = CHR ''1'') t) in (take n (drop (Suc n) t), drop (n + Suc n) t))"

definition toy_zip :: "(string \<times> string) list \<Rightarrow> string" where
  "toy_zip cs = concat (map (\<lambda>(n, s). packed_text n @ packed_text s) cs)"

fun toy_unzip_from :: "nat \<Rightarrow> string \<Rightarrow> (string \<times> zip_contents) list" where
  "toy_unzip_from 0 t = []"
| "toy_unzip_from (Suc k) t = (if t = [] then [] else
     let (n, t1) = unpacked_text t; (s, t2) = unpacked_text t1 in (n, Zip_Contents s) # toy_unzip_from k t2)"

definition toy_unzip :: "string \<Rightarrow> (string \<times> zip_contents) list go_result" where
  "toy_unzip t = Inr (toy_unzip_from (length t) t)"

lemma unpacked_packed: "unpacked_text (packed_text s @ t) = (s, t)"
proof -
  have "takeWhile (\<lambda>c. c = CHR ''1'') (replicate k (CHR ''1'') @ CHR ''0'' # w) = replicate k (CHR ''1'')" for k w
    by (induction k) simp_all
  then show ?thesis by (simp add: unpacked_text_def packed_text_def Let_def)
qed

lemma toy_unzip_zip: "length cs \<le> k \<Longrightarrow> toy_unzip_from k (toy_zip cs) = map (\<lambda>(n, s). (n, Zip_Contents s)) cs"
proof (induction cs arbitrary: k)
  case Nil
  then show ?case by (cases k) (simp_all add: toy_zip_def)
next
  case (Cons c cs)
  obtain n s where c: "c = (n, s)" by (cases c)
  have z: "toy_zip (c # cs) = packed_text n @ packed_text s @ toy_zip cs" by (simp add: toy_zip_def c)
  then have "toy_zip (c # cs) \<noteq> []" by (simp add: packed_text_def)
  with Cons c z show ?case by (cases k) (simp_all add: unpacked_packed)
qed

lemma toy_zip_length: "length cs \<le> length (toy_zip cs)"
  by (induction cs) (auto simp: toy_zip_def packed_text_def)

subsection \<open>The world\<close>

definition bundle_event_1 :: event where
  "bundle_event_1 = example_event\<lparr>ev_type := ''artifact_recorded'', ev_task_id := ''w'', ev_artifact_ids := [''a'']\<rparr>"

definition bundle_event_2 :: event where
  "bundle_event_2 = example_event\<lparr>ev_event_id := ''event-000002'', ev_sequence := 2, ev_previous_event_hash := ''h'',
     ev_type := ''policy_decided'', ev_task_id := ''w'', ev_decision_id := ''d''\<rparr>"

definition bundle_pack_1 :: evidence_pack where
  "bundle_pack_1 = example_pack
     \<lparr>pk_artifact_manifest := [\<lparr>ar_schema_version = ''covenant.artifact-ref.v1'', ar_artifact_id = ''a'',
        ar_uri = ''covenant-artifact://sha256/h'', ar_digest = ''h'', ar_media_type = ''text/plain'',
        ar_producer_event_id = ''event-000001'', ar_path = ''d/f''\<rparr>],
      pk_input_snapshots := [\<lparr>sn_schema_version = ''covenant.input-snapshot.v1'', sn_snapshot_id = ''s'', sn_source_path = ''s'',
        sn_snapshot_path = ''input-snapshots/s'', sn_digest = ''h'', sn_media_type = ''text/plain''\<rparr>],
      pk_policy_decisions := [example_decision\<lparr>dc_decision_id := ''d'', dc_ticket_id := ''k''\<rparr>]\<rparr>"

definition bundle_revocations_1 :: revocation_list where
  "bundle_revocations_1 = \<lparr>rl_schema_version = revocation_list_schema,
     rl_revoked_tickets = [\<lparr>rv_ticket_id = ''z'', rv_reason = ''left''\<rparr>]\<rparr>"

definition bundle_signature_1 :: signature_file where
  "bundle_signature_1 = \<lparr>sf_schema_version = bundle_signature_schema, sf_algorithm = ''ed25519'',
     sf_signed_entry = signed_manifest_path, sf_public_key_sha256 = ''h'', sf_signature = base64_encode ''s''\<rparr>"

definition bundle_base_1 :: release_env where
  "bundle_base_1 = release_env_1\<lparr>re_sha := (\<lambda>_. ''h''), re_decode_signature := (\<lambda>_. Inr bundle_signature_1)\<rparr>"

definition bundle_engine_1 :: schema_engine where
  "bundle_engine_1 = \<lparr>en_source = \<lparr>ss_files = (\<lambda>_. Inl (Errorf [])), ss_decode = (\<lambda>_. Inl (Errorf [])), ss_regex = (\<lambda>_. None)\<rparr>,
     en_decode = (\<lambda>_. Inl (Errorf [])), en_add = (\<lambda>_ _ _. None), en_compile = (\<lambda>_ _. Inr (\<lambda>_. None))\<rparr>"

definition toy_read_dir :: "fs \<Rightarrow> string \<Rightarrow> string list" where
  "toy_read_dir fs d = filter (\<lambda>n. fs (path_join [d, n]) \<noteq> None) [''v.json'']"

definition toy_event :: "string \<Rightarrow> event go_result" where
  "toy_event s = Inr (if s = ''1'' then bundle_event_1 else bundle_event_2)"

definition bundle_env_1 :: bundle_env where
  "bundle_env_1 = \<lparr>bn_base = bundle_base_1, bn_engine = bundle_engine_1, bn_zip_read = toy_unzip, bn_zip_write = toy_zip,
     bn_tmp_dir = ''/t/b'', bn_read_dir = toy_read_dir,
     bn_generate_key = Inr (toy_public, toy_private),
     bn_decode_event = toy_event,
     bn_decode_evidence = (\<lambda>_. Inr bundle_pack_1),
     bn_unmarshal_event = toy_event,
     bn_unmarshal_evidence = (\<lambda>_. Inr bundle_pack_1), bn_unmarshal_contract = (\<lambda>_. Inr example_contract),
     bn_unmarshal_manifest = (\<lambda>_. Inl (Errorf [])), bn_unmarshal_revocations = (\<lambda>_. Inr bundle_revocations_1),
     bn_schema_revocations = (\<lambda>_. None)\<rparr>"

definition bundle_options_1 :: bundle_options where
  "bundle_options_1 = \<lparr>bo_contract_path = ''/c'', bo_ledger_path = ''/r/l'', bo_evidence_path = ''/r/e'',
     bo_workspace_dir = [], bo_out_path = ''/w/b.zip'', bo_sign_key_path = ''/k'', bo_revocation_paths = [''/v.json'']\<rparr>"

definition bundle_verify_options_1 :: bundle_verify_options where
  "bundle_verify_options_1 = \<lparr>bv_bundle_path = ''/w/b.zip'', bv_public_key_path = ''/u'', bv_revoked = (\<lambda>i. i = ''y'')\<rparr>"

definition bundle_fs_1 :: fs where
  "bundle_fs_1 = (\<lambda>p.
     if p \<in> {''/'', ''/w'', ''/w/d'', ''/r'', ''/r/input-snapshots'', ''/t''} then Some Dir
     else if p = ''/r/l'' then Some (File (''1'' @ [CHR 0x0A] @ ''2''))
     else if p \<in> {''/c'', ''/r/e'', ''/r/input-snapshots/s'', ''/w/d/f'', ''/v.json'', ''/k'', ''/u''} then Some (File ''x'')
     else None)"

subsection \<open>The pieces of the export\<close>

lemma bundle_env_fields [simp]:
  "bundle_sha bundle_env_1 = (\<lambda>_. ''h'')" "bundle_cwd bundle_env_1 = ''/w''"
  "bn_base bundle_env_1 = bundle_base_1" "bn_zip_read bundle_env_1 = toy_unzip" "bn_zip_write bundle_env_1 = toy_zip"
  "bn_tmp_dir bundle_env_1 = ''/t/b''" "bn_read_dir bundle_env_1 = toy_read_dir"
  "bn_decode_event bundle_env_1 = toy_event" "bn_decode_evidence bundle_env_1 = (\<lambda>_. Inr bundle_pack_1)"
  "bn_unmarshal_evidence bundle_env_1 = (\<lambda>_. Inr bundle_pack_1)"
  "bn_unmarshal_contract bundle_env_1 = (\<lambda>_. Inr example_contract)"
  "bn_unmarshal_revocations bundle_env_1 = (\<lambda>_. Inr bundle_revocations_1)"
  "bn_schema_revocations bundle_env_1 = (\<lambda>_. None)"
  by (simp_all add: bundle_env_1_def bundle_base_1_def bundle_sha_def bundle_cwd_def)

lemma bundle_base_fields [simp]:
  "re_sha bundle_base_1 = (\<lambda>_. ''h'')" "re_schema_bytes bundle_base_1 i s = None" "re_cwd bundle_base_1 = ''/w''"
  "re_decode_signature bundle_base_1 s = Inr bundle_signature_1" "re_sign bundle_base_1 k s = ''s''"
  "re_verify bundle_base_1 k s v \<longleftrightarrow> k = toy_public \<and> v = ''s''" "re_map_order bundle_base_1 ks = ks"
  by (simp_all add: bundle_base_1_def)

lemma bundle_option_fields [simp]:
  "bo_contract_path bundle_options_1 = ''/c''" "bo_ledger_path bundle_options_1 = ''/r/l''"
  "bo_evidence_path bundle_options_1 = ''/r/e''" "bo_workspace_dir bundle_options_1 = []"
  "bo_out_path bundle_options_1 = ''/w/b.zip''" "bo_sign_key_path bundle_options_1 = ''/k''"
  "bo_revocation_paths bundle_options_1 = [''/v.json'']"
  "bv_bundle_path bundle_verify_options_1 = ''/w/b.zip''" "bv_public_key_path bundle_verify_options_1 = ''/u''"
  "bv_revoked bundle_verify_options_1 = (\<lambda>i. i = ''y'')"
  by (simp_all add: bundle_options_1_def bundle_verify_options_1_def)

lemma bundle_texts_1:
  "trim_space ''/c'' = ''/c''" "trim_space ''/r/l'' = ''/r/l''" "trim_space ''/r/e'' = ''/r/e''"
  "trim_space ''/w/b.zip'' = ''/w/b.zip''" "trim_space ''/k'' = ''/k''" "trim_space ''/u'' = ''/u''"
  "trim_space ''/v.json'' = ''/v.json''" "trim_space [] = []"
  by code_simp+

lemma bundle_reads_1:
  "read_at ''/w'' bundle_fs_1 ''/c'' = Inr ''x''" "read_at ''/w'' bundle_fs_1 ''/r/e'' = Inr ''x''"
  "read_at ''/w'' bundle_fs_1 ''/v.json'' = Inr ''x''" "read_at ''/w'' bundle_fs_1 ''/k'' = Inr ''x''"
  "read_at ''/w'' bundle_fs_1 ''/u'' = Inr ''x''" "read_at ''/w'' bundle_fs_1 ''/r/input-snapshots/s'' = Inr ''x''"
  "read_at ''/w'' bundle_fs_1 ''d/f'' = Inr ''x''"
  "read_at ''/w'' bundle_fs_1 ''/r/l'' = Inr (''1'' @ [CHR 0x0A] @ ''2'')"
  by code_simp+

lemma bundle_events_1:
  "read_ledger toy_event (''1'' @ [CHR 0x0A] @ ''2'') = Inr [bundle_event_1, bundle_event_2]"
proof -
  have "drop_cr ''1'' = ''1''" "drop_cr ''2'' = ''2''" by code_simp+
  then show ?thesis by (simp add: read_ledger_def scan_lines_def toy_event_def)
qed

lemma bundle_chain_1: "verify_chain (\<lambda>_. ''h'') [bundle_event_1, bundle_event_2] = None"
  by (simp add: verify_chain_def bundle_event_1_def bundle_event_2_def example_event_def event_content_hash_def)

lemma bundle_events_utf8_1: "event_utf8 bundle_event_1" "event_utf8 bundle_event_2"
  by code_simp+

lemma bundle_run_checks_1:
  "verify_input_snapshots (\<lambda>_. ''h'') bundle_fs_1 ''/r'' (pk_input_snapshots bundle_pack_1) = None"
  "verify_artifacts (\<lambda>_. ''h'') bundle_fs_1 ''/w'' (pk_artifact_manifest bundle_pack_1) = None"
  "verify_evidence_provenance bundle_pack_1 [bundle_event_1, bundle_event_2] = None"
  "verify_revoked_approval_tickets (pk_policy_decisions bundle_pack_1) (\<lambda>_. False) = None"
  "path_dir ''/r/e'' = ''/r''" "abs_path ''/w'' ''/r/e'' = ''/r/e''" "abs_path ''/w'' ''/r/l'' = ''/r/l''"
  by code_simp+

definition bundle_run_1 :: verify_result where
  "bundle_run_1 = \<lparr>vr_schema_version = ''covenant.verify-result.v1'', vr_verified = True, vr_run_id = ''r'', vr_event_count = 2,
     vr_artifact_count = 1, vr_input_snapshot_count = 1, vr_failure_count = 0, vr_failures = [],
     vr_policy_explanations = explain_decisions (pk_policy_decisions bundle_pack_1), vr_ledger_digest = ''h'', vr_last_event_hash = ''h''\<rparr>"

lemma bundle_pack_fields [simp]:
  "pk_ledger_digest bundle_pack_1 = ''h''" "pk_run_id bundle_pack_1 = ''r''" "pk_contract_digest bundle_pack_1 = ''h''"
  "pk_failures bundle_pack_1 = []" "length (pk_artifact_manifest bundle_pack_1) = 1"
  "length (pk_input_snapshots bundle_pack_1) = 1"
  by (simp_all add: bundle_pack_1_def example_pack_def)

definition bundle_run_options_1 :: verify_options where
  "bundle_run_options_1 = \<lparr>vo_ledger_path = ''/r/l'', vo_evidence_path = ''/r/e'', vo_workspace_dir = ''.'', vo_revoked = (\<lambda>_. False)\<rparr>"

lemma bundle_run_verified_1:
  "verify_run (\<lambda>_. ''h'') toy_event (\<lambda>_. Inr bundle_pack_1) ''/w'' bundle_run_options_1 bundle_fs_1 = Inr bundle_run_1"
proof -
  have "os_read_file bundle_fs_1 ''/r/l'' = Inr (''1'' @ [CHR 0x0A] @ ''2'')" "os_read_file bundle_fs_1 ''/r/e'' = Inr ''x''"
    by code_simp+
  moreover have "resolve_workspace_dir ''/w'' \<lparr>vo_ledger_path = ''/r/l'', vo_evidence_path = ''/r/e'', vo_workspace_dir = ''.'',
    vo_revoked = \<lambda>_. False\<rparr> = Inr ''/w''" by code_simp
  moreover have "summarize_failures [] (event_lines_from [bundle_event_1, bundle_event_2]) = Inr []"
    by (simp add: summarize_failures_def)
  moreover have "ev_run_id bundle_event_1 = ''r''" "ev_event_hash bundle_event_2 = ''h''"
    by (simp_all add: bundle_event_1_def bundle_event_2_def example_event_def)
  ultimately show ?thesis
    using bundle_events_1 bundle_chain_1 bundle_run_checks_1
    by (simp add: verify_run_def bundle_run_options_1_def bundle_run_1_def)
qed

lemma bundle_verifies_1: "exported_run bundle_env_1 bundle_options_1 bundle_fs_1 = Inr bundle_run_1"
  using bundle_run_verified_1 bundle_run_checks_1(6,7)
  by (simp add: exported_run_def run_verified_def bundle_workspace_def bundle_texts_1 bundle_run_options_1_def)

subsection \<open>The export\<close>

definition bundle_files_1 :: "bundle_file list" where
  "bundle_files_1 = map (\<lambda>(p, q). \<lparr>bf_path = p, bf_source = q, bf_bytes = ''x''\<rparr>)
     [(''contract.json'', ''/c'')] @
     [\<lparr>bf_path = ''events.ndjson'', bf_source = ''/r/l'', bf_bytes = ''1'' @ [CHR 0x0A] @ ''2''\<rparr>] @
     map (\<lambda>(p, q). \<lparr>bf_path = p, bf_source = q, bf_bytes = ''x''\<rparr>)
       [(''evidence-pack.json'', ''/r/e''), (''input-snapshots/s'', ''/r/input-snapshots/s''), (''artifacts/d/f'', ''d/f''),
        (''revocations/v.json'', ''/v.json'')]"

lemma bundle_entry_paths_1:
  "validate_bundle_path ''contract.json'' = Inr ''contract.json''" "validate_bundle_path ''events.ndjson'' = Inr ''events.ndjson''"
  "validate_bundle_path ''evidence-pack.json'' = Inr ''evidence-pack.json''"
  "validate_bundle_path ''input-snapshots/s'' = Inr ''input-snapshots/s''"
  "validate_bundle_path ''artifacts/d/f'' = Inr ''artifacts/d/f''"
  "validate_bundle_path ''revocations/v.json'' = Inr ''revocations/v.json''"
  "slash_join [''revocations'', path_base (archive_clean ''/v.json'')] = ''revocations/v.json''"
  by code_simp+

lemma bundle_sources_1: "bundle_sources bundle_options_1 ''.'' bundle_pack_1 =
  [(''contract.json'', ''/c''), (''events.ndjson'', ''/r/l''), (''evidence-pack.json'', ''/r/e''),
   (''input-snapshots/s'', ''/r/input-snapshots/s''), (''artifacts/d/f'', ''d/f'')]"
  by code_simp

lemma bundle_revocation_read_1: "read_revocations bundle_env_1 bundle_fs_1 ''/v.json'' = Inr bundle_revocations_1"
proof -
  have "validate_revocation_list (\<lambda>_. None) bundle_revocations_1 = None" by code_simp
  then show ?thesis by (simp add: read_revocations_def read_revocation_list_def labelled_def bundle_reads_1)
qed

lemma bundle_contract_1: "contract_digest (\<lambda>_. ''h'') c = ''h''"
  by (simp add: contract_digest_def)

lemma bundle_collected_1:
  "collect_bundle bundle_env_1 bundle_fs_1 bundle_options_1 =
     Inr (bundle_files_1, bundle_manifest_for bundle_pack_1 bundle_run_1 (map (entry_for bundle_env_1) bundle_files_1))"
proof -
  have "read_bundle_evidence bundle_env_1 bundle_fs_1 ''/r/e'' = Inr bundle_pack_1"
    by (simp add: read_bundle_evidence_def labelled_def bundle_reads_1)
  moreover have "verify_contract_digest bundle_env_1 bundle_fs_1 ''/c'' ''h'' = None"
    by (simp add: verify_contract_digest_def labelled_def bundle_reads_1 bundle_contract_1)
  moreover have "gather_bundle_files bundle_env_1 bundle_fs_1 bundle_options_1 ''.'' bundle_pack_1 = Inr (take 5 bundle_files_1)"
    by (simp add: gather_bundle_files_def bundle_sources_1 new_bundle_file_def labelled_def
        bundle_entry_paths_1 bundle_reads_1 bundle_files_1_def)
  moreover have "load_revocation_file bundle_env_1 bundle_fs_1 ''/v.json'' = Inr (bundle_files_1 ! 5, bundle_revocations_1)"
    by (simp add: load_revocation_file_def bundle_revocation_read_1 new_bundle_file_def labelled_def
        bundle_entry_paths_1 bundle_reads_1 bundle_texts_1 bundle_files_1_def)
  then have "load_revocation_files bundle_env_1 bundle_fs_1 [''/v.json''] =
      Inr (drop 5 bundle_files_1, revoked_ticket_ids [bundle_revocations_1])"
    by (simp add: load_revocation_files_def) (simp add: bundle_files_1_def)
  moreover have "distinct (map bf_path bundle_files_1)" by (simp add: bundle_files_1_def)
  then have "entries_for_files bundle_env_1 bundle_files_1 = Inr (map (entry_for bundle_env_1) bundle_files_1)"
    by (simp add: entries_for_files_Inr)
  moreover note bundle_verifies_1
  ultimately show ?thesis
    by (simp add: collect_bundle_def bundle_texts_1 exported_run_def bundle_workspace_def)
qed

lemma bundle_keys_1:
  "bundle_private_key bundle_env_1 ''/k'' bundle_fs_1 = (Inr (toy_private, toy_public), bundle_fs_1)"
  "bundle_public_key bundle_env_1 (bundle_fs_1(''/w/b.zip'' \<mapsto> File z)) ''/u'' = Inr toy_public"
proof -
  have k: "open_private_key bundle_base_1 t = Inr (toy_private, toy_public)" for t
    by (simp add: open_private_key_def bundle_base_1_def release_env_1_def decode_public_key_def toy_private_def)
       (simp add: toy_public_def)
  have u: "open_public_key bundle_base_1 t = Inr toy_public" for t
    by (simp add: open_public_key_def bundle_base_1_def release_env_1_def decode_public_key_def) (simp add: toy_public_def)
  show "bundle_private_key bundle_env_1 ''/k'' bundle_fs_1 = (Inr (toy_private, toy_public), bundle_fs_1)"
    by (simp add: bundle_private_key_def read_private_key_def io_apply io_read_def labelled_def bundle_reads_1 k)
  have r: "read_at ''/w'' (bundle_fs_1(''/w/b.zip'' \<mapsto> File z)) ''/u'' = Inr ''x''"
  proof -
    have "abs_path ''/w'' ''/u'' = ''/u''" by code_simp
    then show ?thesis by (simp add: read_at_def os_read_file_def bundle_fs_1_def)
  qed
  show "bundle_public_key bundle_env_1 (bundle_fs_1(''/w/b.zip'' \<mapsto> File z)) ''/u'' = Inr toy_public"
    by (simp only: bundle_public_key_def read_public_key_def bundle_env_fields bundle_base_fields r u sum.case)
qed

definition bundle_bytes_1 :: "bundle_file list \<Rightarrow> string" where
  "bundle_bytes_1 fls = toy_zip (map (\<lambda>f. (bf_path f, bf_bytes f)) (sort_key bf_path fls))"

lemma bundle_written_1: "write_zip bundle_env_1 ''/w/b.zip'' fls bundle_fs_1 =
  (Inr (), bundle_fs_1(''/w/b.zip'' \<mapsto> File (bundle_bytes_1 fls)))"
proof -
  have "abs_path ''/w'' (path_dir ''/w/b.zip'') = ''/w''" "dir_chain ''/w'' = [''/'', ''/w'']"
    "abs_path ''/w'' ''/w/b.zip'' = ''/w/b.zip''" "path_dir ''/w/b.zip'' = ''/w''"
    by code_simp+
  moreover have "(\<lambda>q. if q = ''/'' \<or> q = ''/w'' then Some Dir else bundle_fs_1 q) = bundle_fs_1"
    by (simp add: bundle_fs_1_def fun_eq_iff)
  moreover have "bundle_fs_1 ''/'' = Some Dir" "bundle_fs_1 ''/w'' = Some Dir" "bundle_fs_1 ''/w/b.zip'' = None"
    by (simp_all add: bundle_fs_1_def)
  ultimately show ?thesis
    by (simp add: write_zip_def Let_def io_apply io_mkdir_all_def os_mkdir_all_def io_write_def os_write_file_def bundle_bytes_1_def)
qed

lemma bundle_exported_1:
  "\<exists>r z. bundle_export bundle_env_1 bundle_options_1 bundle_fs_1 = (Inr r, bundle_fs_1(''/w/b.zip'' \<mapsto> File z)) \<and>
     map bt_path (bm_entries (bx_manifest r)) = map bf_path bundle_files_1"
proof -
  let ?m = "bundle_manifest_for bundle_pack_1 bundle_run_1 (map (entry_for bundle_env_1) bundle_files_1)"
  obtain s fp where signed: "signature_files bundle_env_1 ''/k'' (manifest_bytes_of ?m) bundle_fs_1 =
      (Inr ([generated_file signature_entry_path s], fp), bundle_fs_1)"
    by (simp add: signature_files_def bundle_texts_1 sign_bundle_manifest_def io_apply bundle_keys_1 Let_def)
  have "distinct (map bf_path (bundle_files_1 @ [generated_file signed_manifest_path (manifest_bytes_of ?m)] @
      [generated_file signature_entry_path s]))"
    by (simp add: bundle_files_1_def generated_file_def)
  then have "entries_for_files bundle_env_1 (bundle_files_1 @ [generated_file signed_manifest_path (manifest_bytes_of ?m)] @
      [generated_file signature_entry_path s]) =
    Inr (map (entry_for bundle_env_1) (bundle_files_1 @ [generated_file signed_manifest_path (manifest_bytes_of ?m)] @
      [generated_file signature_entry_path s]))"
    by (simp only: entries_for_files_Inr)
  then have "\<exists>r z. bundle_export bundle_env_1 bundle_options_1 bundle_fs_1 = (Inr r, bundle_fs_1(''/w/b.zip'' \<mapsto> File z)) \<and>
      bx_manifest r = ?m"
    by (simp add: bundle_export_def io_apply bundle_collected_1 signed bundle_written_1 Let_def) blast
  then show ?thesis by (auto simp: bundle_manifest_for_def entry_for_def)
qed

subsection \<open>The hypotheses hold here\<close>

lemma bundle_laws_1: "bundle_laws bundle_env_1"
proof -
  have "zip_law bundle_env_1"
    by (simp add: zip_law_def toy_unzip_def toy_unzip_zip toy_zip_length)
  moreover have "plain_word ''h''" by code_simp
  then have "digests_visible bundle_env_1" by (simp add: digests_visible_def)
  moreover have "map_ordered (bn_base bundle_env_1)" by (simp add: map_ordered_def)
  moreover have "listing_law bundle_env_1"
  proof -
    have "plain_elem ''v.json''" by code_simp
    then show ?thesis by (auto simp: listing_law_def toy_read_dir_def join_name)
  qed
  moreover have "decoding_law bundle_env_1" by (simp add: decoding_law_def)
  moreover have "is_abs (bundle_cwd bundle_env_1)" by (simp add: is_abs_def)
  ultimately show ?thesis by (simp add: bundle_laws_def)
qed

lemma bundle_names_1: "map bf_path bundle_files_1 = [''contract.json'', ''events.ndjson'', ''evidence-pack.json'',
    ''input-snapshots/s'', ''artifacts/d/f'', ''revocations/v.json'']"
  by (simp add: bundle_files_1_def)

lemma bundle_apart_1: "apart (signature_entry_path # map bf_path bundle_files_1)"
proof -
  have "map path_elems (signature_entry_path # map bf_path bundle_files_1) = [[''bundle-signature.json''], [''contract.json''],
      [''events.ndjson''], [''evidence-pack.json''], [''input-snapshots'', ''s''], [''artifacts'', ''d'', ''f''],
      [''revocations'', ''v.json'']]"
    unfolding bundle_names_1 by code_simp
  then show ?thesis unfolding bundle_names_1 by (simp add: apart_def strict_prefix_def)
qed

lemma bundle_listable_1: "list_all listable_path (map bf_path bundle_files_1)"
  unfolding bundle_names_1 by code_simp

lemma bundle_packable_1: "packable_run bundle_options_1 bundle_pack_1"
proof -
  have "names_file ''/r/e''" "list_all packable_snapshot (pk_input_snapshots bundle_pack_1)" "packable_revocation ''/v.json''"
    by code_simp+
  then show ?thesis by (simp add: packable_run_def)
qed

lemma bundle_fresh_1:
  "fresh_dir (bundle_fs_1(''/w/b.zip'' \<mapsto> File z)) ''/t/b''"
  "list_all (\<lambda>q. (bundle_fs_1(''/w/b.zip'' \<mapsto> File z)) q = Some Dir) (dir_chain (path_dir ''/t/b''))"
proof -
  have "is_abs ''/t/b''" "path_clean ''/t/b'' = ''/t/b''" by code_simp+
  moreover have "list_all (\<lambda>p. \<not> within ''/t/b'' p) [''/'', ''/w'', ''/w/d'', ''/r'', ''/r/input-snapshots'', ''/t'', ''/r/l'', ''/c'',
      ''/r/e'', ''/r/input-snapshots/s'', ''/w/d/f'', ''/v.json'', ''/k'', ''/u'', ''/w/b.zip'']" (is "list_all _ ?ps")
    by code_simp
  then have out: "\<not> within ''/t/b'' q" if "q \<in> set ?ps" for q
    using that unfolding list_all_iff by blast
  have "bundle_fs_1 q = None \<and> q \<noteq> ''/w/b.zip''" if "within ''/t/b'' q" for q
  proof -
    have "q \<notin> set ?ps" using that out by blast
    then show ?thesis by (simp add: bundle_fs_1_def)
  qed
  ultimately show "fresh_dir (bundle_fs_1(''/w/b.zip'' \<mapsto> File z)) ''/t/b''" by (simp add: fresh_dir_def)
  have "dir_chain (path_dir ''/t/b'') = [''/'', ''/t'']" by code_simp
  then show "list_all (\<lambda>q. (bundle_fs_1(''/w/b.zip'' \<mapsto> File z)) q = Some Dir) (dir_chain (path_dir ''/t/b''))"
    by (simp add: bundle_fs_1_def)
qed

lemma bundle_unrevoked_1: "unrevoked bundle_env_1 bundle_options_1 bundle_verify_options_1 bundle_fs_1 bundle_pack_1"
  by (simp add: unrevoked_def bundle_revocation_read_1) (simp add: bundle_pack_1_def bundle_revocations_1_def)

lemma bundle_key_matches_1:
  "bundle_key_matches bundle_env_1 bundle_options_1 bundle_verify_options_1 bundle_fs_1 (bundle_fs_1(''/w/b.zip'' \<mapsto> File z))"
proof -
  have "bundle_signature_for bundle_env_1 toy_private toy_public msg = bundle_signature_1" for msg
    by (simp add: bundle_signature_for_def bundle_signature_1_def public_key_fingerprint_def)
  then show ?thesis by (simp add: bundle_key_matches_def bundle_keys_1 bundle_texts_1 del: fun_upd_apply)
qed

lemma bundle_run_files_1: "run_bundle_files bundle_files_1"
proof -
  have "list_all valid_file bundle_files_1" by (simp add: valid_file_def bundle_files_1_def bundle_entry_paths_1)
  with bundle_listable_1 show ?thesis unfolding run_bundle_files_def bundle_names_1 by (simp add: bundle_files_1_def)
qed

lemma bundle_signature_holds_1:
  "verify_bundle_signature bundle_env_1 (bundle_fs_1(''/w/b.zip'' \<mapsto> File z))
     [(signed_manifest_path, ''m''), (signature_entry_path, ''s'')] ''/u'' = None"
proof -
  have "check_bundle_signature bundle_env_1 toy_public ''m'' bundle_signature_1 = None"
    by (simp add: check_bundle_signature_def bundle_signature_1_def public_key_fingerprint_def del: base64_encode.simps)
  then show ?thesis unfolding verify_bundle_signature_def bundle_keys_1(2) by simp
qed

end
