(* ===== verification/Self_Run.thy ===== *)
theory Self_Run
  imports Run_Gate Compile Verify Go_IO
begin

text \<open>
  \<open>internal/selfrun/selfrun.go\<close>: the program's own brief is compiled, written, run and verified, with
  the default adapter. The verifier's decoders and the adapter are parameters, as in their theories;
  the run's files are read with absolute paths, which the executor returns.
\<close>

definition self_run_brief_path :: string where
  "self_run_brief_path = ''examples/self-run/brief.md''"

record self_run_options =
  sro_workspace_dir :: string
  sro_out_dir :: string
  sro_run_id :: string

record self_run_result =
  srr_contract_path :: string
  srr_contract_digest_path :: string
  srr_contract_digest :: string
  srr_run_dir :: string
  srr_ledger_path :: string
  srr_evidence_pack_path :: string
  srr_verification :: verify_result

definition default_string :: "string \<Rightarrow> string \<Rightarrow> string" where
  "default_string s fallback = (if trim_space s = [] then fallback else s)"

definition self_run_out_dir :: "self_run_options \<Rightarrow> string" where
  "self_run_out_dir opts = default_string (sro_out_dir opts) ''.covenant/self-run''"

definition self_run_contract_path :: "self_run_options \<Rightarrow> string" where
  "self_run_contract_path opts =
     path_join [self_run_out_dir opts, ''contract.json'']"

definition write_contract :: "env \<Rightarrow> string \<Rightarrow> contract \<Rightarrow> unit io" where
  "write_contract en p c = io_write (en_cwd en) p (json_indent 0 (contract_json c) @ [CHR 0x0A])"

definition compile_self_brief :: "env \<Rightarrow> string \<Rightarrow> fs \<Rightarrow> contract go_result" where
  "compile_self_brief en workspace_dir fs =
     bind_result (labelled ''read self-run brief: ''
         (read_at (en_cwd en) fs (path_join [workspace_dir, self_run_brief_path]))) (\<lambda>brief.
     bind_result (labelled ''compile self-run brief: ''
         (compile_brief_with_source (en_schema_task en) (en_iter en) brief self_run_brief_path)) (\<lambda>c.
     unless_error (map_option (\<lambda>e. Errorf (''validate self-run contract: '' @ error_text e)) (en_schema_contract en c))
       (Inr c)))"

text \<open>The contract and its digest are written before anything runs.\<close>

definition write_self_contract :: "env \<Rightarrow> self_run_options \<Rightarrow> contract \<Rightarrow> string io" where
  "write_self_contract en opts c =
     (let contract_path = self_run_contract_path opts;
          digest = contract_digest (en_sha en) c in
      io_bind (io_wrap ''create self-run out dir: '' (io_mkdir_all (en_cwd en) (self_run_out_dir opts))) (\<lambda>_.
      io_bind (io_wrap ''write self-run contract: '' (write_contract en contract_path c)) (\<lambda>_.
      io_bind (io_wrap ''write self-run contract digest: ''
          (io_write (en_cwd en) (contract_path @ ''.sha256'') (digest @ [CHR 0x0A]))) (\<lambda>_.
      io_return digest))))"

text \<open>What \<open>Execute\<close> returns beside an error is not looked at; without an error it is the zero value or a result.\<close>

definition zero_run_result :: run_result where
  "zero_run_result = \<lparr>rr_run_dir = [], rr_ledger_path = [], rr_evidence_pack_path = [],
     rr_evidence_pack = \<lparr>pk_schema_version = [], pk_run_id = [], pk_contract_digest = [], pk_ledger_digest = [],
       pk_run_status = [], pk_artifact_manifest = [], pk_input_snapshots = [], pk_policy_decisions = [], pk_failures = [],
       pk_closure_matrix = \<lparr>mx_schema_version = [], mx_run_id = [], mx_contract_digest = [], mx_status = [], mx_rows = []\<rparr>\<rparr>\<rparr>"

definition self_execute_options :: "self_run_options \<Rightarrow> run_options" where
  "self_execute_options opts =
     \<lparr>op_workspace_dir = default_string (sro_workspace_dir opts) ''.'', op_out_dir = path_join [self_run_out_dir opts, ''runs''],
      op_run_id = default_string (sro_run_id opts) ''self-run'', op_revoked = (\<lambda>_. False)\<rparr>"

definition run_self_contract :: "env \<Rightarrow> action_adapter \<Rightarrow> self_run_options \<Rightarrow> contract \<Rightarrow> run_result io" where
  "run_self_contract en adapter opts c = (\<lambda>fs.
     let oc = execute en adapter c (self_execute_options opts) fs
     in (case oc_error oc of
           Some e \<Rightarrow> (Inl (Errorf (''run self-run contract: '' @ error_text e)), oc_fs oc)
         | None \<Rightarrow> (Inr (case oc_result oc of Some res \<Rightarrow> res | None \<Rightarrow> zero_run_result), oc_fs oc)))"

definition self_run ::
    "env \<Rightarrow> action_adapter \<Rightarrow> (string \<Rightarrow> event go_result) \<Rightarrow> (string \<Rightarrow> evidence_pack go_result) \<Rightarrow>
     self_run_options \<Rightarrow> self_run_result io" where
  "self_run en adapter decode_event decode_evidence opts = (\<lambda>fs0.
     let workspace_dir = default_string (sro_workspace_dir opts) ''.'' in
     io_bind (io_result (compile_self_brief en workspace_dir fs0)) (\<lambda>c.
     io_bind (write_self_contract en opts c) (\<lambda>digest.
     io_bind (run_self_contract en adapter opts c) (\<lambda>res.
     io_bind (\<lambda>fs. (labelled ''verify self-run evidence: '' (verify_run (en_sha en) decode_event decode_evidence (en_cwd en)
         \<lparr>vo_ledger_path = rr_ledger_path res, vo_evidence_path = rr_evidence_pack_path res,
          vo_workspace_dir = workspace_dir, vo_revoked = (\<lambda>_. False)\<rparr> fs), fs)) (\<lambda>verification.
     io_return \<lparr>srr_contract_path = self_run_contract_path opts,
       srr_contract_digest_path = self_run_contract_path opts @ ''.sha256'', srr_contract_digest = digest,
       srr_run_dir = rr_run_dir res, srr_ledger_path = rr_ledger_path res,
       srr_evidence_pack_path = rr_evidence_pack_path res, srr_verification = verification\<rparr>)))) fs0)"

text \<open>
  A self run without an error has run a contract that the compiler accepts to a certified result, and has
  verified the run's own files.
\<close>

lemma self_run_certified:
  assumes "is_abs (en_cwd en)" and "iteration_order (en_iter en)"
    and "self_run en adapter decode_event decode_evidence opts fs = (Inr r, fs')"
  shows "\<exists>brief c (res :: run_result). compile_brief_with_source (en_schema_task en) (en_iter en) brief self_run_brief_path = Inr c \<and>
    srr_contract_digest r = contract_digest (en_sha en) c \<and> certified c (rr_evidence_pack res) \<and>
    srr_ledger_path r = rr_ledger_path res \<and> srr_evidence_pack_path r = rr_evidence_pack_path res \<and>
    verify_run (en_sha en) decode_event decode_evidence (en_cwd en)
      \<lparr>vo_ledger_path = rr_ledger_path res, vo_evidence_path = rr_evidence_pack_path res,
       vo_workspace_dir = default_string (sro_workspace_dir opts) ''.'', vo_revoked = (\<lambda>_. False)\<rparr> fs' = Inr (srr_verification r)"
proof -
  from assms(3) obtain c digest res fs1 fs2 v where
    c: "compile_self_brief en (default_string (sro_workspace_dir opts) ''.'') fs = Inr c"
    and d: "write_self_contract en opts c fs = (Inr digest, fs1)"
    and run: "run_self_contract en adapter opts c fs1 = (Inr res, fs2)"
    and v: "verify_run (en_sha en) decode_event decode_evidence (en_cwd en)
      \<lparr>vo_ledger_path = rr_ledger_path res, vo_evidence_path = rr_evidence_pack_path res,
       vo_workspace_dir = default_string (sro_workspace_dir opts) ''.'', vo_revoked = (\<lambda>_. False)\<rparr> fs2 = Inr v"
    and r: "fs' = fs2" "srr_contract_digest r = digest" "srr_ledger_path r = rr_ledger_path res"
      "srr_evidence_pack_path r = rr_evidence_pack_path res" "srr_verification r = v"
    by (auto simp: self_run_def io_bind_Inr Let_def)
  from c obtain brief where brief: "compile_brief_with_source (en_schema_task en) (en_iter en) brief self_run_brief_path = Inr c"
    by (auto simp: compile_self_brief_def)
  from d have digest: "digest = contract_digest (en_sha en) c" by (auto simp: write_self_contract_def io_bind_Inr Let_def)
  from run have "oc_error (execute en adapter c (self_execute_options opts) fs1) = None"
    and "res = (case oc_result (execute en adapter c (self_execute_options opts) fs1) of Some res \<Rightarrow> res | None \<Rightarrow> zero_run_result)"
    by (auto simp: run_self_contract_def Let_def split: option.splits)
  with execute_success [OF assms(1,2), of adapter c "self_execute_options opts" fs1]
  have "certified c (rr_evidence_pack res)" by auto
  with brief digest v r show ?thesis by (intro exI [of _ brief] exI [of _ c] exI [of _ res]) simp
qed

end
