(* ===== verification/Policy_Reports.thy ===== *)
theory Policy_Reports
  imports Policy
begin

text \<open>
  The two fixed reports of the policy package: the checklist on scoped credentials
  (credential_checklist.go) and the division of responsibilities between the repositories
  (spine.go). The caller passes the schema version; everything else is constant.
\<close>

subsection \<open>Credential checklist\<close>

record checklist_item =
  ck_id :: string
  ck_status :: string
  ck_requirement :: string
  ck_evidence :: string
  ck_requires_credential_value :: bool
  ck_allows_credential_capture :: bool

record credential_checklist =
  cc_schema_version :: string
  cc_status :: string
  cc_scope :: string
  cc_check_count :: nat
  cc_checks :: "checklist_item list"
  cc_value_inspection_allowed :: bool
  cc_values_inspected :: bool
  cc_values_stored :: bool
  cc_requires_material :: bool
  cc_safe_to_execute :: bool
  cc_executes_work :: bool
  cc_approves_work :: bool
  cc_mutates_repositories :: bool
  cc_provider_calls_allowed :: bool
  cc_release_or_publish_allowed :: bool
  cc_claims_authority_advance :: bool
  cc_rsi_remains_denied :: bool

definition credential_checks :: "checklist_item list" where
  "credential_checks =
     [\<lparr>ck_id = ''credential-purpose-declared'', ck_status = ''passed'',
        ck_requirement = ''Every credential-dependent action names its purpose and owning component before execution.'',
        ck_evidence = ''metadata-only checklist row; no credential value is read'',
        ck_requires_credential_value = False, ck_allows_credential_capture = False\<rparr>,
      \<lparr>ck_id = ''credential-scope-minimal'', ck_status = ''passed'',
        ck_requirement = ''Credential use must be scoped to the minimum operation and repository boundary.'',
        ck_evidence = ''operator-readback requirement only; no token, key, or secret material is requested'',
        ck_requires_credential_value = False, ck_allows_credential_capture = False\<rparr>,
      \<lparr>ck_id = ''credential-source-external'', ck_status = ''passed'',
        ck_requirement = ''Credential material remains in the operator-controlled provider or host environment.'',
        ck_evidence = ''Covenant records presence/absence intent only and does not copy credential bytes'',
        ck_requires_credential_value = False, ck_allows_credential_capture = False\<rparr>,
      \<lparr>ck_id = ''credential-redaction-required'', ck_status = ''passed'',
        ck_requirement = ''Evidence, errors, and public reports must redact credential-like values.'',
        ck_evidence = ''public-safety scan and schema-backed report fields are metadata-only'',
        ck_requires_credential_value = False, ck_allows_credential_capture = False\<rparr>,
      \<lparr>ck_id = ''credential-no-provider-call'', ck_status = ''passed'',
        ck_requirement = ''This checklist does not perform provider calls or credential validation probes.'',
        ck_evidence = ''provider_calls_allowed=false and safe_to_execute=false'',
        ck_requires_credential_value = False, ck_allows_credential_capture = False\<rparr>]"

definition scoped_credential_policy_checklist :: "string \<Rightarrow> credential_checklist" where
  "scoped_credential_policy_checklist schema_version =
     \<lparr>cc_schema_version = schema_version, cc_status = ''ready'', cc_scope = ''metadata_and_operator_checklist_only'',
      cc_check_count = length credential_checks, cc_checks = credential_checks,
      cc_value_inspection_allowed = False, cc_values_inspected = False, cc_values_stored = False,
      cc_requires_material = False, cc_safe_to_execute = False, cc_executes_work = False, cc_approves_work = False,
      cc_mutates_repositories = False, cc_provider_calls_allowed = False, cc_release_or_publish_allowed = False,
      cc_claims_authority_advance = False, cc_rsi_remains_denied = True\<rparr>"

subsection \<open>Responsibilities\<close>

record spine_responsibility =
  sb_name :: string
  sb_owner :: string
  sb_gates :: "string list"

record spine_result =
  sp_schema_version :: string
  sp_stack :: string
  sp_status :: string
  sp_active_repositories :: "string list"
  sp_replaced_by :: "string list"
  sp_responsibilities :: "spine_responsibility list"
  sp_out_of_bounds :: "string list"

definition ao2_first_spine :: "string \<Rightarrow> spine_result" where
  "ao2_first_spine schema_version =
     \<lparr>sp_schema_version = schema_version, sp_stack = ''ao2-first'', sp_status = ''ready'',
      sp_active_repositories = [''ao2'', ''ao2-control-plane'', ''ao-foundry'', ''ao-forge'', ''ao-command'', ''ao-covenant'', ''ao-atlas''],
      sp_replaced_by = [''ao2'', ''ao2-control-plane''],
      sp_responsibilities =
       [\<lparr>sb_name = ''policy-decision'', sb_owner = ''ao-covenant'',
          sb_gates = [''contract schema validation'',
            ''strict side-effect decisions'',
            ''approval ticket validation'']\<rparr>,
        \<lparr>sb_name = ''rsi-claim-boundary'', sb_owner = ''ao-covenant'',
          sb_gates = [''claim.publish side-effect policy'',
            ''bounded_governed_rsi claim level'',
            ''full_autonomous_self_mutating_rsi claim level'',
            ''mutation authority evidence'',
            ''rollback evidence'',
            ''live self-change evidence'']\<rparr>,
        \<lparr>sb_name = ''execution'', sb_owner = ''ao2'',
          sb_gates = [''policy decision input'',
            ''evidence pack output'']\<rparr>,
        \<lparr>sb_name = ''control-plane-evidence'', sb_owner = ''ao2-control-plane'',
          sb_gates = [''schema-backed publication'',
            ''readiness status exposure'']\<rparr>,
        \<lparr>sb_name = ''release-orchestration'', sb_owner = ''ao-forge'',
          sb_gates = [''release candidate validation'',
            ''handoff contract validation'']\<rparr>,
        \<lparr>sb_name = ''operator-status'', sb_owner = ''ao-command'',
          sb_gates = [''read-only status'',
            ''active-stack routing'']\<rparr>],
      sp_out_of_bounds =
       [''does not execute governed work'',
        ''does not publish or store control-plane evidence'',
        ''does not replace release orchestration'',
        ''does not provide operator dashboard workflows'']\<rparr>"

text \<open>
  The reports agree with the model: the checklist has a row per check and none of them touches a
  credential, and the repository that decides on side effects is this one.
\<close>

lemma credential_checks_harmless:
  "distinct (map ck_id credential_checks)"
  "list_all (\<lambda>c. ck_status c = ''passed'' \<and> \<not> ck_requires_credential_value c \<and> \<not> ck_allows_credential_capture c) credential_checks"
  by (simp_all add: credential_checks_def)

lemma spine_owners:
  "set (map sb_owner (sp_responsibilities (ao2_first_spine v))) \<subseteq> set (sp_active_repositories (ao2_first_spine v))"
  "distinct (map sb_name (sp_responsibilities (ao2_first_spine v)))"
  by (simp_all add: ao2_first_spine_def)

end
