(* ===== verification/Cli_Schema.thy ===== *)
theory Cli_Schema
  imports Schema_Document Schema_Report Go_Location Verify "HOL-Library.AList" "HOL-Library.Multiset"
begin

text \<open>
  What \<open>covenant schema validate\<close> does between its flags and its output (cli_schema.go): reading
  one document or a list of them, the filters, the ignored paths, the limits on a directory, and
  the report with its counters. The walk over a directory tree is a parameter, the list of the
  paths in the order \<open>filepath.WalkDir\<close> visits them; there are no symbolic links. Lines printed to
  the standard error are collected in a list.
\<close>

subsection \<open>Reports (cli.go)\<close>

record validation_metadata =
  vm_command :: string
  vm_input_mode :: string
  vm_source :: string
  vm_explicit_schema_id :: string
  vm_schema_filters :: "string list"
  vm_ignore_patterns :: "string list"
  vm_fail_fast :: bool

record document_validation =
  dv_schema_version :: string
  dv_metadata :: "validation_metadata option"
  dv_schema_id :: string
  dv_file :: string
  dv_valid :: bool
  dv_error :: string
  dv_location :: string

record schema_summary =
  us_schema_id :: string
  us_total :: nat
  us_valid_count :: nat
  us_invalid_count :: nat
  us_skipped_count :: nat

record ignored_document =
  ig_file :: string
  ig_pattern :: string

record validation_set =
  vs_schema_version :: string
  vs_metadata :: "validation_metadata option"
  vs_valid :: bool
  vs_total :: nat
  vs_valid_count :: nat
  vs_invalid_count :: nat
  vs_skipped_count :: nat
  vs_ignored_count :: nat
  vs_schemas :: "schema_summary list"
  vs_validations :: "document_validation list"
  vs_ignored :: "ignored_document list"

record input_document =
  id_path :: string
  id_display_path :: string

definition validation_report_schema :: string where
  "validation_report_schema = ''covenant.schema-validation-report.v1''"

definition validation_metadata_for ::
    "string \<Rightarrow> string \<Rightarrow> string \<Rightarrow> string list \<Rightarrow> string list \<Rightarrow> bool \<Rightarrow> validation_metadata" where
  "validation_metadata_for input_mode source sid filters patterns fail_fast =
     \<lparr>vm_command = ''schema validate'', vm_input_mode = input_mode, vm_source = source,
      vm_explicit_schema_id = trim_space sid, vm_schema_filters = filters, vm_ignore_patterns = patterns,
      vm_fail_fast = fail_fast\<rparr>"

subsection \<open>One document\<close>

definition failed_validation :: "string \<Rightarrow> string \<Rightarrow> document_validation" where
  "failed_validation display_path message =
     \<lparr>dv_schema_version = validation_report_schema, dv_metadata = None, dv_schema_id = [], dv_file = display_path,
      dv_valid = False, dv_error = message, dv_location = []\<rparr>"

definition validation_of_report :: "string \<Rightarrow> document_report \<Rightarrow> document_validation" where
  "validation_of_report display_path r =
     \<lparr>dv_schema_version = validation_report_schema, dv_metadata = None, dv_schema_id = dr_schema_id r,
      dv_file = display_path, dv_valid = dr_valid r, dv_error = dr_error r, dv_location = dr_location r\<rparr>"

text \<open>A report comes with or without an error; both are returned.\<close>

definition validate_schema_document_bytes ::
    "schema_engine \<Rightarrow> string \<Rightarrow> string \<Rightarrow> string \<Rightarrow> document_validation \<times> go_error option" where
  "validate_schema_document_bytes eng display_path bytes sid =
     (let selected = trim_space sid in
      case (if selected = [] then infer_schema_id eng bytes else Inr selected) of
        Inl e \<Rightarrow> (failed_validation display_path (error_text e),
          Some (Errorf (''infer schema: '' @ error_text e @ '' when --schema is omitted'')))
      | Inr known \<Rightarrow> (validation_of_report display_path (validate_document_bytes eng known bytes), None))"

definition validate_schema_document ::
    "schema_engine \<Rightarrow> string \<Rightarrow> fs \<Rightarrow> string \<Rightarrow> string \<Rightarrow> document_validation \<times> go_error option" where
  "validate_schema_document eng cwd fs p sid = (case read_at cwd fs p of
      Inl e \<Rightarrow> (failed_validation p (error_text e), Some (Errorf (''read schema document: '' @ error_text e)))
    | Inr bytes \<Rightarrow> validate_schema_document_bytes eng p bytes sid)"

definition validation_error_message :: "document_validation \<Rightarrow> string" where
  "validation_error_message v =
     dv_error v @ (if dv_location v \<noteq> [] then '' location='' @ dv_location v else [])"

subsection \<open>Filters and ignored paths\<close>

text \<open>The loop keeps the values seen so far, without repetitions.\<close>

fun normalize_schema_filters :: "string list \<Rightarrow> string list \<Rightarrow> string list go_result" where
  "normalize_schema_filters [] filters = Inr filters"
| "normalize_schema_filters (raw # rest) filters =
     (let s = trim_space raw in
      if s = [] then Inl (Errorf (''invalid schema filter '' @ quoted raw))
      else if \<not> known_schema_id s then Inl (Errorf (''unknown schema filter '' @ quoted s))
      else normalize_schema_filters rest (if s \<in> set filters then filters else filters @ [s]))"

definition schema_filter_set :: "string list \<Rightarrow> string list" where
  "schema_filter_set filters = filter (\<lambda>s. s \<noteq> []) (map trim_space filters)"

text \<open>The schema of a document and whether the filters name it.\<close>

definition schema_filter_match :: "schema_engine \<Rightarrow> string \<Rightarrow> string list \<Rightarrow> (string \<times> bool) go_result" where
  "schema_filter_match eng bytes filters = (case ss_decode (en_source eng) bytes of
      Inl e \<Rightarrow> Inl (Errorf (''decode JSON for schema filter: '' @ error_text e))
    | Inr document \<Rightarrow> (case map_of document ''schema_version'' of
        Some (AnyStr raw) \<Rightarrow>
          let sid = trim_space raw in
          if sid = [] \<or> \<not> known_schema_id sid then Inr ([], False) else Inr (sid, sid \<in> set filters)
      | _ \<Rightarrow> Inr ([], False)))"

definition normalize_ignore_pattern :: "string \<Rightarrow> string go_result" where
  "normalize_ignore_pattern pattern =
     (let s = trim_space pattern; display = path_clean s in
      if s = [] \<or> display = ''.'' \<or> display = ''..'' \<or> prefix ''../'' display \<or> prefix ''/'' display \<or>
         backslash \<in> set s \<or> is_abs s
      then Inl (Errorf (''invalid ignore pattern '' @ quoted pattern)) else Inr display)"

definition normalize_ignore_patterns :: "string list \<Rightarrow> string list go_result" where
  "normalize_ignore_patterns patterns = map_result normalize_ignore_pattern patterns"

definition ignored_by_pattern :: "string \<Rightarrow> string list \<Rightarrow> string option" where
  "ignored_by_pattern display_path ignored =
     find (\<lambda>pattern. display_path = pattern \<or> prefix (pattern @ ''/'') display_path) ignored"

subsection \<open>A list of documents\<close>

record validation_state =
  st_report :: validation_set
  st_summaries :: "(string \<times> schema_summary) list"
  st_stderr :: "string list"

definition summary_for :: "(string \<times> schema_summary) list \<Rightarrow> string \<Rightarrow> schema_summary" where
  "summary_for summaries key = (case map_of summaries key of Some s \<Rightarrow> s
     | None \<Rightarrow> \<lparr>us_schema_id = key, us_total = 0, us_valid_count = 0, us_invalid_count = 0, us_skipped_count = 0\<rparr>)"

definition bump_summary :: "bool \<Rightarrow> bool \<Rightarrow> schema_summary \<Rightarrow> schema_summary" where
  "bump_summary valid skipped s =
     (if skipped then s\<lparr>us_skipped_count := us_skipped_count s + 1\<rparr>
      else if valid then s\<lparr>us_total := us_total s + 1, us_valid_count := us_valid_count s + 1\<rparr>
      else s\<lparr>us_total := us_total s + 1, us_invalid_count := us_invalid_count s + 1\<rparr>)"

definition record_schema_summary ::
    "string \<Rightarrow> bool \<Rightarrow> bool \<Rightarrow> (string \<times> schema_summary) list \<Rightarrow> (string \<times> schema_summary) list" where
  "record_schema_summary sid valid skipped summaries =
     (let key = (if trim_space sid = [] then ''unknown'' else trim_space sid)
      in AList.update key (bump_summary valid skipped (summary_for summaries key)) summaries)"

text \<open>The bookkeeping for one validated document, with the lines it prints.\<close>

definition note_validation :: "document_validation \<Rightarrow> string list \<Rightarrow> validation_state \<Rightarrow> validation_state" where
  "note_validation v lines st =
     (let r = st_report st in st
        \<lparr>st_report := r\<lparr>vs_valid := vs_valid r \<and> dv_valid v, vs_total := vs_total r + 1,
           vs_valid_count := vs_valid_count r + (if dv_valid v then 1 else 0),
           vs_invalid_count := vs_invalid_count r + (if dv_valid v then 0 else 1),
           vs_validations := vs_validations r @ [v]\<rparr>,
         st_summaries := record_schema_summary (dv_schema_id v) (dv_valid v) False (st_summaries st),
         st_stderr := st_stderr st @ lines\<rparr>)"

definition note_skipped :: "string \<Rightarrow> validation_state \<Rightarrow> validation_state" where
  "note_skipped sid st =
     (let r = st_report st in st
        \<lparr>st_report := r\<lparr>vs_skipped_count := vs_skipped_count r + 1\<rparr>,
         st_summaries := record_schema_summary sid False True (st_summaries st)\<rparr>)"

text \<open>What becomes of one document: skipped under a schema, or validated with some lines printed.\<close>

datatype document_outcome = Skipped string | Validated document_validation "string list"

definition document_outcome_of ::
    "schema_engine \<Rightarrow> string \<Rightarrow> fs \<Rightarrow> string \<Rightarrow> string list \<Rightarrow> input_document \<Rightarrow> document_outcome" where
  "document_outcome_of eng cwd fs sid filters doc =
     (let display = id_display_path doc in
      case read_at cwd fs (id_path doc) of
        Inl e \<Rightarrow> Validated (failed_validation display (error_text e))
          [display @ '': read schema document: '' @ error_text e]
      | Inr bytes \<Rightarrow>
          if filters \<noteq> [] then
            (case schema_filter_match eng bytes filters of
               Inl e \<Rightarrow> Validated (failed_validation display (error_text e)) [display @ '': '' @ error_text e]
             | Inr (found, matches) \<Rightarrow>
                 if \<not> matches then Skipped found
                 else let v = validation_of_report display (validate_document_bytes eng found bytes) in
                   Validated v (if dv_valid v then [] else [display @ '': '' @ validation_error_message v]))
          else
            (case validate_schema_document_bytes eng display bytes sid of
               (v, Some e) \<Rightarrow> Validated v [dv_file v @ '': '' @ error_text e]
             | (v, None) \<Rightarrow> Validated v
                 (if \<not> dv_valid v \<and> dv_error v \<noteq> [] then [dv_file v @ '': '' @ validation_error_message v] else [])))"

fun validate_documents ::
    "schema_engine \<Rightarrow> string \<Rightarrow> fs \<Rightarrow> string \<Rightarrow> string list \<Rightarrow> bool \<Rightarrow> input_document list \<Rightarrow> validation_state \<Rightarrow> validation_state" where
  "validate_documents eng cwd fs sid filters fail_fast [] st = st"
| "validate_documents eng cwd fs sid filters fail_fast (doc # docs) st =
     (case document_outcome_of eng cwd fs sid filters doc of
        Skipped found \<Rightarrow> validate_documents eng cwd fs sid filters fail_fast docs (note_skipped found st)
      | Validated v lines \<Rightarrow>
          let st' = note_validation v lines st in
          if fail_fast \<and> \<not> dv_valid v then st'
          else validate_documents eng cwd fs sid filters fail_fast docs st')"

definition sorted_schema_summaries :: "(string \<times> schema_summary) list \<Rightarrow> schema_summary list" where
  "sorted_schema_summaries summaries = sort_key us_schema_id (map snd summaries)"

definition empty_validation_state :: validation_state where
  "empty_validation_state =
     \<lparr>st_report = \<lparr>vs_schema_version = validation_report_schema, vs_metadata = None, vs_valid = True, vs_total = 0,
        vs_valid_count = 0, vs_invalid_count = 0, vs_skipped_count = 0, vs_ignored_count = 0, vs_schemas = [],
        vs_validations = [], vs_ignored = []\<rparr>,
      st_summaries = [], st_stderr = []\<rparr>"

definition validate_input_documents ::
    "schema_engine \<Rightarrow> string \<Rightarrow> fs \<Rightarrow> input_document list \<Rightarrow> string \<Rightarrow> string list \<Rightarrow> bool \<Rightarrow> validation_set \<times> string list" where
  "validate_input_documents eng cwd fs docs sid filters fail_fast =
     (let st = validate_documents eng cwd fs sid (schema_filter_set filters) fail_fast docs empty_validation_state
      in ((st_report st)\<lparr>vs_schemas := sorted_schema_summaries (st_summaries st)\<rparr>, st_stderr st))"

subsection \<open>Where documents come from\<close>

text \<open>\<open>filepath.Rel\<close>. The elements of \<open>.\<close> as a target are that one element, as in Go.\<close>

fun common_prefix_length :: "string list \<Rightarrow> string list \<Rightarrow> nat" where
  "common_prefix_length (a # as) (b # bs) = (if a = b then Suc (common_prefix_length as bs) else 0)"
| "common_prefix_length _ _ = 0"

definition path_relative :: "string \<Rightarrow> string \<Rightarrow> string go_result" where
  "path_relative base target =
     (let b = path_clean base; t = path_clean target;
          bs = path_elems b; ts = (if t = ''.'' then [''.''] else path_elems t);
          n = common_prefix_length bs ts
      in if t = b then Inr ''.''
         else if is_abs b \<noteq> is_abs t \<or> (drop n bs \<noteq> [] \<and> hd (drop n bs) = ''..'')
         then Inl (Errorf (''Rel: can'' @ [CHR 0x27] @ ''t make '' @ target @ '' relative to '' @ base))
         else Inr (join_with [slash] (replicate (length (drop n bs)) ''..'' @ drop n ts)))"

definition validation_display_path :: "string \<Rightarrow> string \<Rightarrow> string go_result" where
  "validation_display_path root p = bind_result (path_relative root p) (\<lambda>relative.
     let n = path_clean relative in
     if n = ''.'' \<or> n = ''..'' \<or> prefix ''../'' n
     then Inl (Errorf (''schema document '' @ quoted p @ '' is outside '' @ quoted root)) else Inr n)"

text \<open>
  \<open>strings.EqualFold(filepath.Ext(path), ".json")\<close>: Unicode folding also takes the long s, bytes C5 BF,
  for an s.
\<close>

definition json_document :: "string \<Rightarrow> bool" where
  "json_document p \<longleftrightarrow>
     list_ex (\<lambda>m. map lower_char (path_ext p) = ''.j'' @ m @ ''on'') [''s'', [CHR 0xC5, CHR 0xBF]]"

text \<open>The limits on a directory: the number of files and their bytes so far.\<close>

record scan_budget =
  sb_files :: nat
  sb_total_bytes :: nat

definition max_directory_files :: nat where "max_directory_files = 4096"
definition max_directory_file_bytes :: nat where "max_directory_file_bytes = 8 * 1024 * 1024"
definition max_directory_total_bytes :: nat where "max_directory_total_bytes = 64 * 1024 * 1024"

definition node_size :: "node option \<Rightarrow> nat" where
  "node_size n = (case n of Some (File s) \<Rightarrow> length s | _ \<Rightarrow> 0)"

definition budget_accept :: "fs \<Rightarrow> string \<Rightarrow> string \<Rightarrow> scan_budget \<Rightarrow> scan_budget go_result" where
  "budget_accept fs cwd p b =
     (let n = sb_files b + 1; bytes = node_size (fs (abs_path cwd p)); total = sb_total_bytes b + bytes in
      if n > max_directory_files
      then Inl (Errorf (''schema validation directory file count limit exceeded: max '' @ int_text (int max_directory_files)))
      else if bytes > max_directory_file_bytes
      then Inl (Errorf (''schema validation directory file size limit exceeded for '' @ p @ '': max '' @
        int_text (int max_directory_file_bytes) @ '' bytes''))
      else if total > max_directory_total_bytes
      then Inl (Errorf (''schema validation directory total byte limit exceeded: max '' @
        int_text (int max_directory_total_bytes) @ '' bytes''))
      else Inr \<lparr>sb_files = n, sb_total_bytes = total\<rparr>)"

record directory_scan =
  ds_paths :: "string list"
  ds_ignored :: "ignored_document list"
  ds_budget :: scan_budget

text \<open>The ignored documents below an ignored directory, by a walk of its own.\<close>

fun collect_ignored ::
    "fs \<Rightarrow> string \<Rightarrow> string \<Rightarrow> string \<Rightarrow> string list \<Rightarrow> ignored_document list \<times> scan_budget \<Rightarrow> (ignored_document list \<times> scan_budget) go_result" where
  "collect_ignored fs cwd root pattern [] st = Inr st"
| "collect_ignored fs cwd root pattern (p # ps) (found, budget) =
     (if fs (abs_path cwd p) = Some Dir \<or> \<not> json_document p
      then collect_ignored fs cwd root pattern ps (found, budget)
      else bind_result (budget_accept fs cwd p budget) (\<lambda>budget'.
        bind_result (validation_display_path root p) (\<lambda>display.
          collect_ignored fs cwd root pattern ps (found @ [\<lparr>ig_file = display, ig_pattern = pattern\<rparr>], budget'))))"

text \<open>The pattern that ignores a path; the root itself is never ignored.\<close>

definition ignoring_pattern :: "string \<Rightarrow> string list \<Rightarrow> string \<Rightarrow> (string \<times> string) option go_result" where
  "ignoring_pattern root ignored p =
     (if p = root then Inr None
      else bind_result (validation_display_path root p) (\<lambda>display.
        Inr (map_option (\<lambda>pattern. (display, pattern)) (ignored_by_pattern display ignored))))"

definition visit_ignored ::
    "(fs \<Rightarrow> string \<Rightarrow> string list) \<Rightarrow> fs \<Rightarrow> string \<Rightarrow> string \<Rightarrow> string \<Rightarrow> string \<Rightarrow> string \<Rightarrow> directory_scan \<Rightarrow> (directory_scan \<times> bool) go_result" where
  "visit_ignored walk fs cwd root display pattern p scan =
     (if fs (abs_path cwd p) = Some Dir
      then bind_result (collect_ignored fs cwd root pattern (walk fs p) ([], ds_budget scan)) (\<lambda>(nested, budget).
        Inr (scan\<lparr>ds_ignored := ds_ignored scan @ nested, ds_budget := budget\<rparr>, True))
      else if json_document p
      then bind_result (budget_accept fs cwd p (ds_budget scan)) (\<lambda>budget.
        Inr (scan\<lparr>ds_ignored := ds_ignored scan @ [\<lparr>ig_file = display, ig_pattern = pattern\<rparr>], ds_budget := budget\<rparr>, False))
      else Inr (scan, False))"

definition visit_document ::
    "fs \<Rightarrow> string \<Rightarrow> string \<Rightarrow> directory_scan \<Rightarrow> (directory_scan \<times> bool) go_result" where
  "visit_document fs cwd p scan =
     (if fs (abs_path cwd p) = Some Dir \<or> \<not> json_document p then Inr (scan, False)
      else bind_result (budget_accept fs cwd p (ds_budget scan)) (\<lambda>budget.
        Inr (scan\<lparr>ds_paths := ds_paths scan @ [p], ds_budget := budget\<rparr>, False)))"

text \<open>The visit of one path. The second component of the result is true for \<open>filepath.SkipDir\<close>.\<close>

definition visit_path ::
    "(fs \<Rightarrow> string \<Rightarrow> string list) \<Rightarrow> fs \<Rightarrow> string \<Rightarrow> string \<Rightarrow> string list \<Rightarrow> string \<Rightarrow> directory_scan \<Rightarrow> (directory_scan \<times> bool) go_result" where
  "visit_path walk fs cwd root ignored p scan =
     bind_result (ignoring_pattern root ignored p) (\<lambda>hit. case hit of
       Some (display, pattern) \<Rightarrow> visit_ignored walk fs cwd root display pattern p scan
     | None \<Rightarrow> visit_document fs cwd p scan)"

text \<open>Paths below a skipped directory are not visited; they follow it in the walk.\<close>

fun scan_directory ::
    "(fs \<Rightarrow> string \<Rightarrow> string list) \<Rightarrow> fs \<Rightarrow> string \<Rightarrow> string \<Rightarrow> string list \<Rightarrow> string option \<Rightarrow> string list \<Rightarrow> directory_scan \<Rightarrow>
     directory_scan go_result" where
  "scan_directory walk fs cwd root ignored skipping [] scan = Inr scan"
| "scan_directory walk fs cwd root ignored skipping (p # ps) scan =
     (if (case skipping of Some d \<Rightarrow> prefix (d @ ''/'') p | None \<Rightarrow> False)
      then scan_directory walk fs cwd root ignored skipping ps scan
      else bind_result (visit_path walk fs cwd root ignored p scan) (\<lambda>(scan', skip).
        scan_directory walk fs cwd root ignored (if skip then Some p else skipping) ps scan'))"

definition collect_validation_directory ::
    "(fs \<Rightarrow> string \<Rightarrow> string list) \<Rightarrow> fs \<Rightarrow> string \<Rightarrow> string \<Rightarrow> string list \<Rightarrow> (string list \<times> ignored_document list) go_result" where
  "collect_validation_directory walk fs cwd root ignored = (case fs (abs_path cwd root) of
      None \<Rightarrow> Inl (Errorf (os_error ''lstat'' root))
    | Some (File _) \<Rightarrow> Inl (Errorf (''schema validation directory root is not a directory: '' @ root))
    | Some Dir \<Rightarrow> bind_result (scan_directory walk fs cwd root ignored None (walk fs root)
          \<lparr>ds_paths = [], ds_ignored = [], ds_budget = \<lparr>sb_files = 0, sb_total_bytes = 0\<rparr>\<rparr>)
        (\<lambda>scan. Inr (ds_paths scan, ds_ignored scan)))"

text \<open>The list of \<open>--files-from\<close>: one relative path a line, counted from one.\<close>

definition manifest_entry :: "string \<Rightarrow> nat \<Rightarrow> string \<Rightarrow> input_document option go_result" where
  "manifest_entry base_dir i line =
     (let entry = trim_space line; display = path_clean entry in
      if entry = [] \<or> prefix ''#'' entry then Inr None
      else if display = ''.'' \<or> display = ''..'' \<or> prefix ''../'' display \<or> backslash \<in> set entry \<or> is_abs entry
      then Inl (Errorf (''invalid manifest entry on line '' @ int_text (int i) @ '': '' @ quoted entry))
      else Inr (Some \<lparr>id_path = path_join [base_dir, display], id_display_path = display\<rparr>))"

definition read_validation_manifest :: "string \<Rightarrow> fs \<Rightarrow> string \<Rightarrow> input_document list go_result" where
  "read_validation_manifest cwd fs p =
     bind_result (labelled ''read schema validation manifest: '' (read_at cwd fs p)) (\<lambda>bytes.
     bind_result (map_result (\<lambda>(i, line). manifest_entry (path_dir p) i line) (enumerate 1 (split_on (CHR 0x0A) bytes)))
       (\<lambda>entries. let docs = List.map_filter (\<lambda>d. d) entries in
          unless_error (fail_if (docs = []) (Errorf (''no schema documents listed in '' @ p))) (Inr docs)))"

subsection \<open>Counters\<close>

text \<open>The counters of a report add up, and the verdict is that no document is invalid.\<close>

definition counted :: "validation_set \<Rightarrow> bool" where
  "counted r \<longleftrightarrow> vs_total r = length (vs_validations r) \<and>
     vs_valid_count r = length (filter dv_valid (vs_validations r)) \<and>
     vs_invalid_count r = length (filter (\<lambda>v. \<not> dv_valid v) (vs_validations r)) \<and>
     (vs_valid r \<longleftrightarrow> list_all dv_valid (vs_validations r))"

lemma counted_note_validation: "counted (st_report st) \<Longrightarrow> counted (st_report (note_validation v lines st))"
  by (auto simp: counted_def note_validation_def Let_def)

lemma counted_note_skipped: "counted (st_report st) \<Longrightarrow> counted (st_report (note_skipped sid st))"
  by (simp add: counted_def note_skipped_def Let_def)

lemma validate_documents_counted:
  "counted (st_report st) \<Longrightarrow> counted (st_report (validate_documents eng cwd fs sid filters fail_fast docs st))"
proof (induction docs arbitrary: st)
  case (Cons doc docs)
  then show ?case
    by (auto simp: Let_def counted_note_validation counted_note_skipped split: document_outcome.splits)
qed simp

theorem validation_report_counted:
  "counted (fst (validate_input_documents eng cwd fs docs sid filters fail_fast))"
proof -
  have "counted (st_report empty_validation_state)" by (simp add: counted_def empty_validation_state_def)
  from validate_documents_counted [OF this] show ?thesis
    by (simp add: validate_input_documents_def Let_def counted_def)
qed

text \<open>Without \<open>--fail-fast\<close> every document is validated or skipped.\<close>

lemma validate_documents_all:
  "vs_total (st_report (validate_documents eng cwd fs sid filters False docs st)) +
     vs_skipped_count (st_report (validate_documents eng cwd fs sid filters False docs st)) =
   vs_total (st_report st) + vs_skipped_count (st_report st) + length docs"
  by (induction docs arbitrary: st)
    (auto simp: note_validation_def note_skipped_def Let_def split: document_outcome.splits)

text \<open>The counters per schema: their totals are those of the report.\<close>

definition summary_sum :: "(schema_summary \<Rightarrow> nat) \<Rightarrow> (string \<times> schema_summary) list \<Rightarrow> nat" where
  "summary_sum f summaries = sum_list (map (\<lambda>(_, s). f s) summaries)"

lemma summary_sum_update:
  assumes "distinct (map fst summaries)"
  shows "summary_sum f (AList.update key s summaries) +
      (case map_of summaries key of Some s' \<Rightarrow> f s' | None \<Rightarrow> 0) = summary_sum f summaries + f s"
  using assms by (induction summaries) (auto simp: summary_sum_def map_of_eq_None_iff split: option.splits)

definition summaries_counted :: "validation_state \<Rightarrow> bool" where
  "summaries_counted st \<longleftrightarrow> distinct (map fst (st_summaries st)) \<and>
     list_all (\<lambda>(k, s). us_schema_id s = k) (st_summaries st) \<and>
     summary_sum us_total (st_summaries st) = vs_total (st_report st) \<and>
     summary_sum us_valid_count (st_summaries st) = vs_valid_count (st_report st) \<and>
     summary_sum us_invalid_count (st_summaries st) = vs_invalid_count (st_report st) \<and>
     summary_sum us_skipped_count (st_summaries st) = vs_skipped_count (st_report st)"

definition counts_for :: "bool \<Rightarrow> bool \<Rightarrow> (schema_summary \<Rightarrow> nat) \<Rightarrow> nat \<Rightarrow> bool" where
  "counts_for valid skipped f d \<longleftrightarrow>
     f = us_total \<and> d = (if skipped then 0 else 1) \<or>
     f = us_valid_count \<and> d = (if valid \<and> \<not> skipped then 1 else 0) \<or>
     f = us_invalid_count \<and> d = (if \<not> valid \<and> \<not> skipped then 1 else 0) \<or>
     f = us_skipped_count \<and> d = (if skipped then 1 else 0)"

lemma record_schema_summary_sum:
  assumes "distinct (map fst summaries)" and "counts_for valid skipped f d"
  shows "summary_sum f (record_schema_summary sid valid skipped summaries) = summary_sum f summaries + d"
proof -
  have bump: "f (bump_summary valid skipped s) = f s + d" for s
    using assms(2) by (auto simp: counts_for_def bump_summary_def)
  have "f (summary_for summaries key) = (case map_of summaries key of Some s \<Rightarrow> f s | None \<Rightarrow> 0)" for key
    using assms(2) by (auto simp: counts_for_def summary_for_def split: option.splits)
  then have "summary_sum f (AList.update key (bump_summary valid skipped (summary_for summaries key)) summaries) =
      summary_sum f summaries + d" for key
    using summary_sum_update [OF assms(1), of f key "bump_summary valid skipped (summary_for summaries key)"] by (simp add: bump)
  then show ?thesis unfolding record_schema_summary_def Let_def .
qed

lemma record_schema_summary_sums:
  assumes "distinct (map fst summaries)"
  shows "summary_sum us_total (record_schema_summary sid valid skipped summaries) =
      summary_sum us_total summaries + (if skipped then 0 else 1)"
    and "summary_sum us_valid_count (record_schema_summary sid valid skipped summaries) =
      summary_sum us_valid_count summaries + (if valid \<and> \<not> skipped then 1 else 0)"
    and "summary_sum us_invalid_count (record_schema_summary sid valid skipped summaries) =
      summary_sum us_invalid_count summaries + (if \<not> valid \<and> \<not> skipped then 1 else 0)"
    and "summary_sum us_skipped_count (record_schema_summary sid valid skipped summaries) =
      summary_sum us_skipped_count summaries + (if skipped then 1 else 0)"
  by (rule record_schema_summary_sum [OF assms], simp add: counts_for_def)+

lemma summaries_keyed:
  "list_all (\<lambda>(k, s). us_schema_id s = k) summaries \<Longrightarrow> us_schema_id x = key \<Longrightarrow>
   list_all (\<lambda>(k, s). us_schema_id s = k) (AList.update key x summaries)"
  by (induction summaries) auto

lemma record_schema_summary_keys:
  assumes "distinct (map fst summaries)" and "list_all (\<lambda>(k, s). us_schema_id s = k) summaries"
  shows "distinct (map fst (record_schema_summary sid valid skipped summaries))"
    and "list_all (\<lambda>(k, s). us_schema_id s = k) (record_schema_summary sid valid skipped summaries)"
proof -
  define key where "key = (if trim_space sid = [] then ''unknown'' else trim_space sid)"
  let ?s = "bump_summary valid skipped (summary_for summaries key)"
  have r: "record_schema_summary sid valid skipped summaries = AList.update key ?s summaries"
    by (simp add: record_schema_summary_def key_def Let_def)
  have "us_schema_id (summary_for summaries key) = key"
    using assms(2) by (auto simp: summary_for_def list_all_iff split: option.splits dest!: map_of_SomeD)
  then have s: "us_schema_id ?s = key" by (simp add: bump_summary_def)
  show "distinct (map fst (record_schema_summary sid valid skipped summaries))"
    unfolding r using assms(1) by (rule distinct_update)
  show "list_all (\<lambda>(k, s). us_schema_id s = k) (record_schema_summary sid valid skipped summaries)"
    unfolding r using summaries_keyed [OF assms(2) s] .
qed

lemma summaries_counted_notes:
  assumes "summaries_counted st"
  shows "summaries_counted (note_validation v lines st)" and "summaries_counted (note_skipped sid st)"
  using assms
  by (simp_all add: summaries_counted_def note_validation_def note_skipped_def Let_def record_schema_summary_keys
      record_schema_summary_sums)

lemma validate_documents_summaries:
  "summaries_counted st \<Longrightarrow> summaries_counted (validate_documents eng cwd fs sid filters fail_fast docs st)"
proof (induction docs arbitrary: st)
  case (Cons doc docs)
  then show ?case by (auto simp: Let_def summaries_counted_notes split: document_outcome.splits)
qed simp

theorem schema_summaries_counted:
  assumes "validate_input_documents eng cwd fs docs sid filters fail_fast = (r, lines)"
  shows "sum_list (map us_total (vs_schemas r)) = vs_total r"
    and "sum_list (map us_valid_count (vs_schemas r)) = vs_valid_count r"
    and "sum_list (map us_invalid_count (vs_schemas r)) = vs_invalid_count r"
    and "sum_list (map us_skipped_count (vs_schemas r)) = vs_skipped_count r"
    and "sorted (map us_schema_id (vs_schemas r))" and "distinct (map us_schema_id (vs_schemas r))"
proof -
  define st where "st = validate_documents eng cwd fs sid (schema_filter_set filters) fail_fast docs empty_validation_state"
  have r: "r = (st_report st)\<lparr>vs_schemas := sort_key us_schema_id (map snd (st_summaries st))\<rparr>"
    using assms by (simp add: validate_input_documents_def st_def Let_def sorted_schema_summaries_def)
  have "summaries_counted empty_validation_state"
    by (simp add: summaries_counted_def empty_validation_state_def summary_sum_def)
  then have c: "summaries_counted st" unfolding st_def by (rule validate_documents_summaries)
  have sum: "sum_list (map f (sort_key us_schema_id (map snd (st_summaries st)))) = summary_sum f (st_summaries st)"
    for f :: "schema_summary \<Rightarrow> nat"
  proof -
    have "mset (map f (sort_key us_schema_id (map snd (st_summaries st)))) = mset (map f (map snd (st_summaries st)))"
      by (simp only: mset_map mset_sort)
    then have "sum_list (map f (sort_key us_schema_id (map snd (st_summaries st)))) = sum_list (map f (map snd (st_summaries st)))"
      by (metis sum_mset_sum_list)
    then show ?thesis by (simp add: summary_sum_def comp_def case_prod_unfold)
  qed
  show "sum_list (map us_total (vs_schemas r)) = vs_total r" "sum_list (map us_valid_count (vs_schemas r)) = vs_valid_count r"
    "sum_list (map us_invalid_count (vs_schemas r)) = vs_invalid_count r"
    "sum_list (map us_skipped_count (vs_schemas r)) = vs_skipped_count r"
    using c by (simp_all add: r sum summaries_counted_def)
  show "sorted (map us_schema_id (vs_schemas r))" by (simp add: r)
  have "map us_schema_id (map snd (st_summaries st)) = map fst (st_summaries st)"
    using c by (auto simp: summaries_counted_def list_all_iff)
  then have "distinct (map us_schema_id (map snd (st_summaries st)))" using c by (simp only: summaries_counted_def)
  moreover have "mset (map us_schema_id (sort_key us_schema_id (map snd (st_summaries st)))) =
      mset (map us_schema_id (map snd (st_summaries st)))"
    by (simp only: mset_map mset_sort)
  ultimately have "distinct (map us_schema_id (sort_key us_schema_id (map snd (st_summaries st))))"
    using mset_eq_imp_distinct_iff by blast
  then show "distinct (map us_schema_id (vs_schemas r))" by (simp add: r)
qed

text \<open>The documents of a list lie below the directory of the list.\<close>

lemma manifest_entry_inside:
  assumes "manifest_entry base i line = Inr (Some d)"
  shows "id_path d = path_join [base, id_display_path d] \<and> id_display_path d = path_clean (trim_space line) \<and>
    \<not> is_abs (id_display_path d) \<and> id_display_path d \<noteq> ''..'' \<and> \<not> prefix ''../'' (id_display_path d)"
  using assms by (auto simp: manifest_entry_def Let_def split: if_splits)

text \<open>Within the limits, the scan of a directory has counted every document it returns.\<close>

lemma budget_accept_Inr:
  assumes "budget_accept fs cwd p b = Inr b'"
  shows "sb_files b' = sb_files b + 1 \<and> sb_files b' \<le> max_directory_files \<and>
    sb_total_bytes b' = sb_total_bytes b + node_size (fs (abs_path cwd p)) \<and> sb_total_bytes b' \<le> max_directory_total_bytes \<and>
    node_size (fs (abs_path cwd p)) \<le> max_directory_file_bytes"
  using assms by (auto simp: budget_accept_def Let_def split: if_splits)

lemma collect_ignored_counts:
  assumes "collect_ignored fs cwd root pattern ps (found, b) = Inr (found', b')"
  shows "sb_files b' + length found = sb_files b + length found' \<and>
    (sb_files b \<le> max_directory_files \<longrightarrow> sb_files b' \<le> max_directory_files)"
  using assms
proof (induction ps arbitrary: found b)
  case (Cons p ps)
  show ?case
  proof (cases "fs (abs_path cwd p) = Some Dir \<or> \<not> json_document p")
    case True
    with Cons show ?thesis by simp
  next
    case False
    with Cons.prems obtain b1 display where b1: "budget_accept fs cwd p b = Inr b1"
      and rest: "collect_ignored fs cwd root pattern ps (found @ [\<lparr>ig_file = display, ig_pattern = pattern\<rparr>], b1) = Inr (found', b')"
      by auto
    from Cons.IH [OF rest] budget_accept_Inr [OF b1] show ?thesis by auto
  qed
qed simp

definition scan_counted :: "directory_scan \<Rightarrow> bool" where
  "scan_counted scan \<longleftrightarrow> sb_files (ds_budget scan) = length (ds_paths scan) + length (ds_ignored scan) \<and>
     sb_files (ds_budget scan) \<le> max_directory_files"

lemma visit_document_counted:
  "visit_document fs cwd p scan = Inr (scan', skip) \<Longrightarrow> scan_counted scan \<Longrightarrow> scan_counted scan'"
  by (auto simp: visit_document_def scan_counted_def split: if_splits dest!: budget_accept_Inr)

lemma visit_ignored_counted:
  "visit_ignored walk fs cwd root display pattern p scan = Inr (scan', skip) \<Longrightarrow> scan_counted scan \<Longrightarrow> scan_counted scan'"
  by (auto simp: visit_ignored_def scan_counted_def split: if_splits dest!: budget_accept_Inr collect_ignored_counts)

lemma visit_path_counted:
  assumes "visit_path walk fs cwd root ignored p scan = Inr (scan', skip)" and "scan_counted scan"
  shows "scan_counted scan'"
proof -
  from assms(1) obtain hit where "(case hit of
       Some (display, pattern) \<Rightarrow> visit_ignored walk fs cwd root display pattern p scan
     | None \<Rightarrow> visit_document fs cwd p scan) = Inr (scan', skip)"
    unfolding visit_path_def bind_result_Inr by blast
  then show ?thesis using assms(2) visit_document_counted visit_ignored_counted
    by (auto split: option.splits)
qed

lemma scan_directory_counted:
  "scan_directory walk fs cwd root ignored skipping ps scan = Inr scan' \<Longrightarrow> scan_counted scan \<Longrightarrow> scan_counted scan'"
proof (induction ps arbitrary: skipping scan)
  case (Cons p ps)
  then show ?case by (auto split: if_splits dest: visit_path_counted)
qed simp

theorem validation_directory_bounded:
  assumes "collect_validation_directory walk fs cwd root ignored = Inr (paths, docs)"
  shows "length paths + length docs \<le> 4096"
proof -
  from assms obtain scan where "scan_directory walk fs cwd root ignored None (walk fs root)
      \<lparr>ds_paths = [], ds_ignored = [], ds_budget = \<lparr>sb_files = 0, sb_total_bytes = 0\<rparr>\<rparr> = Inr scan"
    and s: "paths = ds_paths scan" "docs = ds_ignored scan"
    by (auto simp: collect_validation_directory_def split: option.splits node.splits)
  from scan_directory_counted [OF this(1)] have "scan_counted scan" by (simp add: scan_counted_def)
  with s show ?thesis by (simp add: scan_counted_def max_directory_files_def)
qed

end
