(* ===== verification/Spec2Isabelle.thy ===== *)
theory Spec2Isabelle
  imports Examples Authoring_Examples Ledger_File Lint Approval Repair_Examples Authority_Examples
    Output Release_Examples Schema_Examples Bundle_Examples
    Self_Run Policy_Reports Cli_Schema
begin

text \<open>
  AO Covenant (module github.com/uesugitorachiyo/ao-covenant, Go) runs contracts: a brief is
  compiled into a contract of tasks with declared side effects, a policy decides on each side
  effect, an executor runs the permitted tasks in dependency order and records what happens in a
  hash-chained ledger and an evidence pack, and a verifier checks both afterwards. Around this
  core stand bundles (a run packed into a signed archive), releases of the program itself, a
  registry of JSON schemas, and decision points for repairs, authority tickets and claims. This
  development models these packages and proves what makes them trustworthy.

  Components and theories (sources under src/internal/):

  \<^item> shared: \<open>Prelude\<close> (errors as values, early returns), and what the code uses of Go's standard
    library, with the laws the components need: \<open>Go_Strings\<close>, \<open>Go_Words\<close> (strings as byte lists),
    \<open>Go_Path\<close>, \<open>Go_Location\<close>, \<open>Go_Tree\<close> (paths, where they lead, trees below a directory), \<open>Go_Time\<close>
    (RFC 3339 times, 64-bit durations), \<open>Go_Json\<close>, \<open>Go_Any\<close>, \<open>Canonical_Json\<close> (printing and decoded
    JSON values), \<open>Go_Base64\<close>, \<open>Go_IO\<close> (operations that read and change the file system);
  \<^item> policy/: \<open>Policy\<close>; \<open>evaluate_task\<close> is EvaluateTask and \<open>permitted\<close> the specification it refines.
    \<open>Repair_Types\<close>, \<open>Repair_Shapes\<close>, \<open>Repair_Governance\<close>, \<open>Repair_Authority\<close> (autonomous_repair_*.go;
    proofs in \<open>Repair_Correct\<close>, \<open>Repair_Digest\<close>), \<open>Authority\<close> (governance_authority.go; proofs in
    \<open>Authority_Correct\<close>), \<open>Claim_Gate\<close> (claim_gate.go), \<open>Policy_Reports\<close> (credential_checklist.go, spine.go);
  \<^item> contract/: \<open>Contract\<close> (types.go, validate.go, summary.go), \<open>Compile\<close> (authoring.go, compile.go),
    \<open>Lint\<close> (lint.go). \<open>well_formed\<close> is the loop-free meaning of Validate;
  \<^item> approval/: \<open>Approval\<close>, \<open>Approval_Files\<close>; closure/: \<open>Closure\<close>;
  \<^item> run/: \<open>Ledger\<close> (the event recorder and its chain), \<open>Run_Types\<close>, \<open>Workspace\<close> (the file system
    as a map), \<open>Adapter\<close> (adapter.go), \<open>Executor\<close> (executor.go). The record \<open>exec\<close> holds the
    recorder and the local variables of Execute, \<open>env\<close> what it reads from outside;
  \<^item> verify/: \<open>Verify\<close>;
  \<^item> bundle/: \<open>Bundle_Types\<close>, \<open>Bundle_Archive\<close> (paths, ZIP entries, checksums, signature, keys),
    \<open>Bundle_Export\<close> (Export, Verify), \<open>Bundle_Report\<close> (Inspect, Report, redaction, Markdown). The record
    \<open>bundle_env\<close> is what it uses from outside;
  \<^item> release/ and buildinfo/: \<open>Release_Types\<close>, \<open>Release_Package\<close>, \<open>Release_Verify\<close>, \<open>Release_Report\<close>, over the
    record \<open>release_env\<close>;
  \<^item> schema/: \<open>Schema_Registry\<close> (the table), \<open>Schema_Pointer\<close>, \<open>Schema_Version\<close>, \<open>Schema_Walk\<close>,
    \<open>Schema_Keywords\<close> (ValidateRegistry and its parts), \<open>Schema_Document\<close> (compilation, validation and writing
    of documents), \<open>Schema_Report\<close> (SARIF, JUnit);
  \<^item> selfrun/: \<open>Self_Run\<close>, with what a self run without an error certifies;
  \<^item> cli/: \<open>Output\<close> (output files with rollback, cli_output.go), \<open>Cli_Schema\<close> (schema validate between its
    flags and its output, with the invariants of its counters and limits), the live-docs tickets in
    \<open>Authority\<close>.

  Proof theories: \<open>Provenance\<close> (when the provenance check passes), \<open>Run_Correct\<close> (the invariant
  \<open>progressed\<close> of the task loop, what a stopped run leaves), \<open>Run_Gate\<close> (the policy gate, the states
  a run passes through, no stall, what success means), \<open>Run_Live\<close> (which unhindered runs succeed), \<open>Ledger_File\<close> (the ledger
  between writer and reader), \<open>Release_Correct\<close> (when a release is intact), \<open>Release_Roundtrip\<close> (packaged
  releases are), \<open>Release_Report_Correct\<close>, \<open>Schema_Correct\<close> (what a consistent registry is),
  \<open>Schema_Enforced\<close> (what it enforces on documents), \<open>Bundle_Unpack\<close> (what unpacking leaves),
  \<open>Bundle_Packed\<close>, \<open>Bundle_Roundtrip\<close>, \<open>Bundle_Verified\<close> (exported bundles verify). The theories named
  \<open>Examples\<close> or ending in \<open>_Examples\<close> hold the concrete inputs on which the properties with
  hypotheses are applied. The properties below span the components.

  Interfaces as locales: \<open>decision_point\<close> in \<open>Policy\<close> (what the executor may assume of the
  verdicts), interpreted by \<open>evaluate_task\<close>; \<open>hash_chain\<close> in \<open>Ledger\<close> (what makes a list of blocks
  tamper-evident), interpreted by the events of a run; \<open>point_code\<close> and \<open>string_code\<close> in \<open>Go_Json\<close> (what
  makes an escape and a quoted text readable), interpreted by both JSON printers; \<open>rollback\<close> in \<open>Output\<close>
  (what the writer of two files needs), interpreted by rollbackOutputFile; \<open>json_schema\<close> in
  \<open>Schema_Enforced\<close> (the keywords a schema validator has to honour), interpreted by a relation
  that does just this, since the validator itself is third-party code.

  Bounds. The cycle search carries fuel, one more than the number of tasks; it is proved that
  this is always enough (\<open>search_cycle_returns\<close>). The task loop is a total function by the number
  of completed tasks, the searches through $ref by the pointers not yet visited. Timeouts are
  multiplied modulo 2^64 as the code does. Slices are indexed with the panic of the language as a
  value where the code can index out of range.

  Parameters, for code that is not under src/ or that only the system can answer: the verdicts of
  the JSON-schema validator and its compiler, regular expressions, SHA-256 and Ed25519 (theorems
  hold for every function and speak of collisions), decoding of JSON into structs, the ZIP
  format, key generation, directory listings and walks, the name of a temporary directory, the order in
  which Go visits a map, the clock, the context, processes (go build among them), and action
  adapters other than the default one. Texts of operating-system and time-parsing errors, and
  lower-casing and quoting of non-ASCII text, are not specified.

  Conventions: paths are those of Unix and are resolved lexically against the working directory;
  files have no permission bits; a nil slice and an empty one are the same list, a nil map and
  an empty one the same map; a JSON number that is not an integer is the float64 the decoder makes.

  Not modelled: symbolic links, device failures and partial writes (the errors of writing single ZIP
  entries among them); a task that writes the run's
  own open ledger file (the model's ledger is what the recorder wrote). Of the program: flag
  parsing, printing and dispatch in the cli package and cmd/covenant, which hand options to the
  packages above and print what they return.
\<close>

section \<open>Whole runs\<close>

text \<open>C1: whatever \<open>Execute\<close> returns with a result, its ledger on disk is the text of a chain of
  events that \<open>verifyChain\<close> accepts, all of the run's own identifier, whose digest the evidence
  pack records, and every decision, artifact and closure row of the pack is accounted for by
  the ledger, so that the provenance check of the verifier passes. Without a result there is
  an error.\<close>

theorem run_evidence_verifies:
  assumes "is_abs (en_cwd en)" and "iteration_order (en_iter en)" and "adapter_names adapter"
  shows "case oc_result (execute en adapter c opts fs) of
      None \<Rightarrow> oc_error (execute en adapter c opts fs) \<noteq> None
    | Some res \<Rightarrow> \<exists>es. oc_fs (execute en adapter c opts fs) (rr_ledger_path res) = Some (File (ledger_text es)) \<and>
        es \<noteq> [] \<and> verify_chain (en_sha en) es = None \<and> ev_run_id (hd es) = resolve_run_id en opts \<and>
        pk_run_id (rr_evidence_pack res) = resolve_run_id en opts \<and>
        pk_ledger_digest (rr_evidence_pack res) = en_sha en (ledger_text es) \<and>
        verify_evidence_provenance (rr_evidence_pack res) es = None"
proof (cases "oc_result (execute en adapter c opts fs)")
  case None
  with execute_success [OF assms(1,2)] show ?thesis by fastforce
next
  case (Some res)
  with execute_reported [OF assms(1,2)] obtain paths where
    "reported en c adapter (resolve_run_id en opts) paths (execute en adapter c opts fs)" by blast
  with Some assms(3) accounts_for_verifies show ?thesis by (auto simp: reported_def)
qed

theorem run_evidence_verifies_witness:
  "\<exists>res es. oc_result example_outcome = Some res \<and>
     oc_fs example_outcome (rr_ledger_path res) = Some (File (ledger_text es)) \<and>
     verify_chain example_sha es = None \<and> ev_run_id (hd es) = ''r'' \<and>
     verify_evidence_provenance (rr_evidence_pack res) es = None"
proof -
  from example_result obtain res where res: "oc_result example_outcome = Some res" by blast
  from run_evidence_verifies [of example_env example_adapter example_contract example_options example_fs]
    example_names example_order res
  show ?thesis by (auto simp: example_outcome_def example_run_id)
qed

text \<open>C2: when nothing outside the program stands in the way (the schemas accept, the context is
  not cancelled, every declared action is permitted, every ready task can be executed, the files
  can be written) a run of a valid contract ends without an error exactly when every required
  obligation is claimed by a task. \<open>Validate\<close> does not ask for the latter.\<close>

theorem unhindered_run_succeeds:
  assumes "is_abs (en_cwd en)" and "iteration_order (en_iter en)"
    and "prepared en c opts fs paths snapshots fs3" and "accepting en" and "all_permitted en c (op_revoked opts)"
    and "executable c adapter (rp_workspace_root paths) keep" and "closable paths keep"
    and "keep (initial_states (c_tasks c)) fs3"
  shows "oc_error (execute en adapter c opts fs) = None \<longleftrightarrow> obligations_claimed c"
  using assms by (rule execute_succeeds_iff)

theorem unhindered_run_succeeds_witness: "oc_error example_outcome = None \<and> obligations_claimed example_contract"
proof -
  have "oc_error example_outcome = None \<longleftrightarrow> obligations_claimed example_contract"
    unfolding example_outcome_def
    by (rule unhindered_run_succeeds [OF _ _ example_prepared example_accepting _ _ example_closable example_starts])
       (use example_order example_permitted example_executable in
          \<open>simp_all add: example_options_def example_paths_def\<close>)
  with example_claimed show ?thesis by blast
qed

text \<open>C3: a run that ends without an error has a result that certifies the contract: the status
  is success, no failure is recorded, the closure matrix is accepted with every required row
  closed, every policy decision is allow, and every task has one decision per declared side
  effect.\<close>

theorem success_certifies:
  assumes "is_abs (en_cwd en)" and "iteration_order (en_iter en)"
    and "oc_error (execute en adapter c opts fs) = None"
  shows "\<exists>res. oc_result (execute en adapter c opts fs) = Some res \<and> certified c (rr_evidence_pack res)"
  using assms by (rule execute_success)

theorem success_certifies_witness:
  "\<exists>res. oc_result example_outcome = Some res \<and> certified example_contract (rr_evidence_pack res)"
  unfolding example_outcome_def
  by (rule success_certifies) (use example_order example_succeeds in \<open>simp_all add: example_outcome_def\<close>)

text \<open>C4: the policy gates the adapter. Two adapters that behave alike on the actions of tasks all
  of whose declared actions are permitted give the same run: an action of any other task never
  reaches the adapter.\<close>

theorem policy_gates_adapter:
  assumes "agree_on_cleared en c (op_revoked opts) a b"
  shows "execute en a c opts fs = execute en b c opts fs"
  using assms by (rule execute_agree)

theorem policy_gates_adapter_witness:
  "execute example_env example_adapter (example_contract\<lparr>c_policy_mode := ''off''\<rparr>) example_options example_fs =
   execute example_env (\<lambda>_ fs. (Inl (Errorf ''must not run''), fs)) (example_contract\<lparr>c_policy_mode := ''off''\<rparr>)
     example_options example_fs"
proof (rule policy_gates_adapter)
  show "agree_on_cleared example_env (example_contract\<lparr>c_policy_mode := ''off''\<rparr>) (op_revoked example_options)
      example_adapter (\<lambda>_ fs. (Inl (Errorf ''must not run''), fs))"
    by (auto simp: agree_on_cleared_def cleared_request_def task_permitted_def permitted_def task_policy_input_def)
qed

text \<open>C5: the task loop does not stall. A run of a valid contract stops on its first event if the
  schema refuses it; or inside a task that was ready in a state the run had reached, with an error;
  or the loop returns a state in which every task has succeeded. From that state the run is finished
  if every required obligation is claimed by a task, and otherwise ends with the error of the
  obligation check. The error of a pass without progress does not occur.\<close>

theorem run_does_not_stall:
  assumes "iteration_order iter" and "validate_contract schema_task iter c = None"
    and "rp_ledger paths \<noteq> rp_evidence paths"
    and "oc = run_contract en c paths run_id snapshots adapter revoked fs"
  shows "(\<exists>e. en_schema_event en (start_event en run_id) = Some e \<and>
       oc = \<lparr>oc_result = None, oc_error = Some e, oc_fs = fs\<rparr>) \<or>
    (\<exists>t \<in> set (c_tasks c). \<exists>y.
       passes_through en c paths run_id snapshots adapter revoked (loop_start en c run_id fs) y \<and>
       ready_task (x_states y) t \<and> run_task en c paths run_id snapshots adapter revoked t y = Halt oc \<and>
       oc_error oc \<noteq> None) \<or>
    (\<exists>y. run_loop en c paths run_id snapshots adapter revoked (loop_start en c run_id fs) = Go y \<and>
       passes_through en c paths run_id snapshots adapter revoked (loop_start en c run_id fs) y \<and>
       all_succeeded c (x_states y) \<and>
       (if obligations_claimed c then oc = finish_run en c paths run_id snapshots ''success'' ''run completed'' y
        else \<exists>e. verify_required_obligations c (x_states y) = Some e \<and>
          oc = \<lparr>oc_result = None, oc_error = Some e, oc_fs = x_fs y\<rparr>))"
proof -
  from assms have "runnable c" using validate_contract_None well_formed_runnable by blast
  from run_contract_no_stall [OF this assms(3,4)] show ?thesis unfolding halted_in_task_def by blast
qed

theorem run_does_not_stall_witness:
  "\<exists>y. run_loop example_env example_contract example_paths ''r'' [] example_adapter (\<lambda>_. False)
       (loop_start example_env example_contract ''r'' example_start_fs) = Go y \<and>
     all_succeeded example_contract (x_states y) \<and>
     run_contract example_env example_contract example_paths ''r'' [] example_adapter (\<lambda>_. False) example_start_fs =
       finish_run example_env example_contract example_paths ''r'' [] ''success'' ''run completed'' y"
  using run_does_not_stall [OF example_order example_valid example_paths_differ
      refl [of "run_contract example_env example_contract example_paths ''r'' [] example_adapter (\<lambda>_. False) example_start_fs"]]
    example_claimed example_accepts_start example_loop_succeeds by auto

text \<open>C6: in the ledger of every result, a task starts only after all its dependencies have
  finished successfully.\<close>

theorem tasks_start_in_order:
  assumes "is_abs (en_cwd en)" and "iteration_order (en_iter en)"
  shows "case oc_result (execute en adapter c opts fs) of
      None \<Rightarrow> True
    | Some res \<Rightarrow> \<exists>es. oc_fs (execute en adapter c opts fs) (rr_ledger_path res) = Some (File (ledger_text es)) \<and>
        starts_in_order c es"
proof (cases "oc_result (execute en adapter c opts fs)")
  case (Some res)
  with execute_reported [OF assms] obtain paths where
    "reported en c adapter (resolve_run_id en opts) paths (execute en adapter c opts fs)" by blast
  with Some show ?thesis by (auto simp: reported_def)
qed simp

theorem tasks_start_in_order_witness:
  "\<exists>res es. oc_result example_outcome = Some res \<and>
     oc_fs example_outcome (rr_ledger_path res) = Some (File (ledger_text es)) \<and> starts_in_order example_contract es"
proof -
  from example_result obtain res where res: "oc_result example_outcome = Some res" by blast
  from tasks_start_in_order [of example_env example_adapter example_contract example_options example_fs] example_order res
  show ?thesis by (auto simp: example_outcome_def)
qed

section \<open>The ledger\<close>

text \<open>C7: a ledger is tamper-evident. Two ledgers that \<open>verifyChain\<close> accepts and that end in the
  same event hash are the same ledger, or the hash function has been broken on the texts that
  were hashed: two different texts have the same hash, or one has the all-zero hash of the
  start.\<close>

theorem ledger_tamper_evident:
  assumes "verify_chain sha es = None" and "verify_chain sha fs = None"
    and "list_all event_utf8 (es @ fs)" and "es \<noteq> []" and "fs \<noteq> []"
    and "ev_event_hash (last es) = ev_event_hash (last fs)"
  shows "es = fs \<or> collision sha ((\<lambda>e. json_text (event_hash_payload e)) ` set (es @ fs)) \<or>
    genesis_event_hash \<in> sha ` (\<lambda>e. json_text (event_hash_payload e)) ` set (es @ fs)"
proof -
  let ?linked = "linked ev_previous_event_hash ev_event_hash (\<lambda>e. json_text (event_hash_payload e)) sha genesis_event_hash"
  from assms(1,2) have "?linked es" "?linked fs" by (simp_all add: verify_chain_def verify_links_linked)
  from ledger.same_end_same_chain [OF this] assms(3-6) show ?thesis
    by (simp add: list_all_iff chain_end_def)
qed

theorem ledger_tamper_evident_witness:
  "[bundle_event_1, bundle_event_2] \<noteq> [example_event] \<and>
   collision (\<lambda>_. ''h'') ((\<lambda>e. json_text (event_hash_payload e)) ` set ([bundle_event_1, bundle_event_2] @ [example_event]))"
proof -
  have hashes: "ev_event_hash (last [bundle_event_1, bundle_event_2]) = ev_event_hash (last [example_event])"
    by (simp add: bundle_event_2_def)
  have utf8: "list_all event_utf8 ([bundle_event_1, bundle_event_2] @ [example_event])"
    using bundle_events_utf8_1 example_event_verifies(2) by simp
  have "genesis_event_hash \<noteq> ''h''" by code_simp
  with ledger_tamper_evident [OF bundle_chain_1 example_event_verifies(1) utf8 _ _ hashes] show ?thesis by auto
qed

text \<open>C8: the recorder's part of it. Whatever is emitted to a new recorder, with events refused by
  the schema in between, the events written form a chain that \<open>verifyChain\<close> accepts, their
  identifiers are distinct, and all carry the run's identifier.\<close>

theorem recorder_writes_chain:
  assumes "emits sha schema_event (new_recorder run_id) es r"
  shows "verify_links sha run_id genesis_event_hash es = None \<and> distinct (map ev_event_id es)"
proof -
  from emits_ok [OF assms] emits_written [OF assms] show ?thesis
    by (simp add: recorder_ok_def) (simp add: new_recorder_def)
qed

theorem recorder_writes_chain_witness:
  "\<exists>e. verify_links example_sha ''r'' genesis_event_hash [e] = None \<and> ev_type e = ''run_started''"
proof -
  let ?e = "stamp example_sha (new_recorder ''r'') (event_draft ''run_started'' [] ''success'' ''run accepted'' [])"
  have "emits example_sha (\<lambda>_. None) (new_recorder ''r'') ([] @ [?e])
      (snd (record_event example_sha (\<lambda>_. None) (new_recorder ''r'') (event_draft ''run_started'' [] ''success'' ''run accepted'' [])))"
    by (rule emits.written [OF emits.none]) (simp add: record_event_def Let_def)
  from recorder_writes_chain [OF this] have "verify_links example_sha ''r'' genesis_event_hash [?e] = None" by simp
  moreover have "ev_type ?e = ''run_started''" by simp
  ultimately show ?thesis by blast
qed

text \<open>C9: the line of an event determines the event: events made of valid UTF-8 strings with the
  same text in the ledger are equal.\<close>

theorem ledger_line_inject:
  assumes "event_utf8 e" and "event_utf8 f" and "ledger_line e = ledger_line f"
  shows "e = f"
proof -
  from assms(3) have "json_text (event_json e) = json_text (event_json f)" by (simp add: ledger_line_def)
  with json_text_inject [OF event_json_ok event_json_ok] assms(1,2) have "event_json e = event_json f" by blast
  then show ?thesis by (rule event_json_inject)
qed

theorem ledger_line_inject_witness:
  "bundle_event_1 \<noteq> bundle_event_2 \<and> ledger_line bundle_event_1 \<noteq> ledger_line bundle_event_2"
proof -
  have "ev_event_id bundle_event_1 \<noteq> ev_event_id bundle_event_2"
    by (simp add: bundle_event_1_def bundle_event_2_def example_event_def)
  then show ?thesis using ledger_line_inject [OF bundle_events_utf8_1] by metis
qed

section \<open>Policy\<close>

text \<open>C10: the decision point returns one verdict per declared side effect, in order, and it is
  allow exactly when the declarative specification permits the action.\<close>

theorem policy_decides_permitted:
  "map dc_decision (evaluate_task inp now) =
     map (\<lambda>a. if permitted inp now a then decision_allow else decision_deny) (in_actions inp)"
  by (rule nth_equalityI) (simp_all add: evaluate_task_nth evaluate_action_outcome)

text \<open>C11: a claim of full autonomy is published only under an approved, unrevoked, live ticket
  for exactly that action, whose reason names mutation authority, rollback and live
  self-change.\<close>

theorem full_claim_needs_evidence:
  assumes "fst (evaluate_action inp now a) = decision_allow"
    and "pa_type a = ''claim.publish''" and "normalize_resource (pa_resource a) = full_rsi_resource"
  shows "\<exists>tk \<in> set (in_approvals inp). tk_approved tk \<and> tk_task_id tk = in_task_id inp \<and>
    tk_effect_type tk = ''claim.publish'' \<and> normalize_resource (tk_resource tk) = full_rsi_resource \<and>
    live_ticket (evaluation_time inp now) tk \<and> \<not> in_revoked inp (tk_ticket_id tk) \<and>
    full_rsi_evidence_reason (tk_reason tk)"
proof -
  from assms have "ticket_permits inp now a" by (simp add: evaluate_action_allow_iff permitted_def)
  with assms(2,3) show ?thesis
    by (auto simp: ticket_permits_def governing_ticket_def ticket_matches_def dest!: find_in_set)
qed

theorem full_claim_needs_evidence_witness:
  "fst (evaluate_action example_claim zero_time example_claim_action) = decision_allow \<and>
   (\<exists>tk \<in> set (in_approvals example_claim). tk_approved tk \<and> full_rsi_evidence_reason (tk_reason tk))"
proof
  show *: "fst (evaluate_action example_claim zero_time example_claim_action) = decision_allow" by code_simp
  have "pa_type example_claim_action = ''claim.publish''"
    "normalize_resource (pa_resource example_claim_action) = full_rsi_resource" by code_simp+
  from full_claim_needs_evidence [OF * this]
  show "\<exists>tk \<in> set (in_approvals example_claim). tk_approved tk \<and> full_rsi_evidence_reason (tk_reason tk)" by blast
qed

text \<open>The decisions of the tasks of a valid contract have distinct identifiers, over all
  tasks and whatever the times of evaluation.\<close>

theorem decision_ids_distinct:
  assumes "iteration_order iter" and "validate_contract schema_task iter c = None"
  shows "distinct (map dc_decision_id (concat (map (\<lambda>t. evaluate_task_policy c t revoked (now t)) (c_tasks c))))"
proof -
  from assms have "distinct (map t_id (c_tasks c))"
    using validate_contract_None well_formed_runnable by (auto simp: runnable_def)
  then show ?thesis by (rule distinct_decisions_of_tasks)
qed

theorem decision_ids_distinct_witness:
  "distinct (map dc_decision_id (concat (map (\<lambda>t. evaluate_task_policy example_contract t (\<lambda>_. False) zero_time)
     (c_tasks example_contract))))"
  by (rule decision_ids_distinct [OF example_order example_valid])

section \<open>Autonomous repairs\<close>

text \<open>C12: the decision point for autonomous repairs lets a request mutate a repository exactly
  when the policy is valid, the request is a well-formed write request, and its five documents
  form an authority: their shapes and digests are right, they name the same run, repository,
  issue, commits and each other's digests, they stay within the policy of the repository, no
  risky path is touched, every required check is green at the approved head, the approval is
  live, and the merge is permitted. The checks that follow the authority never deny.\<close>

theorem repair_mutation_iff:
  "au_mutation_authorized (evaluate_repair_governance sha schema_ok p rq now) =
   (let (rp, explicit) = repository_policy_of p (gr_repository rq) in
    valid_governance_policy p \<and> request_admitted schema_ok rp rq \<and> gr_mode rq = ''write'' \<and>
    (\<exists>e c g r a. documents rq e c g r a \<and> authority_holds sha p rp explicit rq e c g r a now))"
proof -
  obtain rp explicit where rp: "repository_policy_of p (gr_repository rq) = (rp, explicit)" by fastforce
  show ?thesis unfolding mutation_iff_authority [OF rp] by (simp add: rp)
qed

text \<open>C13: a repository that is external, or that the policy does not know, is only ever touched by
  a push to the operator's own fork of it or by a draft pull request from there, and without any
  authority to merge.\<close>

theorem external_repairs_confined:
  assumes "au_mutation_authorized (evaluate_repair_governance sha schema_ok p rq now)"
    and "map_of (gp_repository_policies p) (gr_repository rq) = None \<or>
      rpo_repository_class (fst (repository_policy_of p (gr_repository rq))) = ''external''"
  shows "\<exists>e c g r a. documents rq e c g r a \<and>
    gr_action rq \<in> {''push_operator_fork'', ''open_upstream_draft_pr''} \<and>
    gd_push_target g = ''operator_owned_fork'' \<and> gd_pull_request_mode g = ''upstream_draft_only'' \<and>
    forked (ro_fork_owner (re_routing e)) (ad_fork a) (gr_repository rq) \<and> \<not> grants_merge (gd_merge g)"
proof -
  obtain rp explicit where rp: "repository_policy_of p (gr_repository rq) = (rp, explicit)" by fastforce
  have "valid_governance_policy p" using assms(1) mutation_iff_authority [OF rp] by blast
  then have "rpo_repository_class rp = ''external''"
    using assms(2) rp unconfigured_is_external [of p "gr_repository rq" rp]
    by (auto simp: repository_policy_of_def)
  with assms(1) rp show ?thesis by (rule external_mutation)
qed

theorem external_repairs_confined_witness:
  "gr_action external_request \<in> {''push_operator_fork'', ''open_upstream_draft_pr''}"
proof -
  have "rpo_repository_class (fst (repository_policy_of repair_policy (gr_repository external_request))) = ''external''"
    unfolding external_policy_of by (simp add: external_class)
  with external_repairs_confined [OF external_authorized] show ?thesis by blast
qed

text \<open>C14: an automatic merge is authorized only for a repository that the policy configures as
  under sole control with the opt-in, and never for one of the platform's own repositories.\<close>

theorem auto_merge_needs_opt_in:
  assumes "au_mutation_authorized (evaluate_repair_governance sha schema_ok p rq now)"
    and "gr_action rq = ''auto_merge''"
  shows "\<exists>rp. map_of (gp_repository_policies p) (gr_repository rq) = Some rp \<and>
    rpo_repository_class rp = ''sole_control'' \<and> rpo_sole_auto_merge_opt_in rp \<and>
    \<not> prefix ''uesugitorachiyo/ao'' (gr_repository rq)"
  using auto_merge_mutation [OF assms] by metis

theorem auto_merge_needs_opt_in_witness:
  "\<not> prefix ''uesugitorachiyo/ao'' (gr_repository sole_request)"
  using auto_merge_needs_opt_in [OF sole_authorized] by (auto simp: sole_request_def)

text \<open>C15: a team repository enters the merge queue only with the approval of a human or a code
  owner for the very head that is merged, by a reviewer who is independent and whose name is not
  that of a bot.\<close>

theorem team_queue_needs_approval:
  assumes "au_mutation_authorized (evaluate_repair_governance sha schema_ok p rq now)"
    and "rpo_repository_class (fst (repository_policy_of p (gr_repository rq))) = ''team''"
    and "gr_action rq = ''request_merge_queue''"
  shows "\<exists>e c g r a. documents rq e c g r a \<and>
    md_authorized (gd_merge g) \<and> md_mode (gd_merge g) = ''merge_queue'' \<and>
    md_approval_kind (gd_merge g) \<in> {''independent_human'', ''codeowner''} \<and>
    md_approval_head_sha (gd_merge g) = Some (ad_head_sha a) \<and>
    ri_status r = ''independent'' \<and> ri_satisfies_team_merge_gate r \<and> \<not> automated_reviewer (ri_reviewer_id r)"
  by (rule team_queue_mutation [OF assms(1) prod.collapse [symmetric] assms(2,3)])

theorem team_queue_needs_approval_witness: "\<not> automated_reviewer (ri_reviewer_id team_reviewer)"
proof -
  have "rpo_repository_class (fst (repository_policy_of repair_policy (gr_repository team_request))) = ''team''"
    unfolding team_policy_of by (simp add: team_class)
  moreover have "gr_action team_request = ''request_merge_queue''" by (simp add: team_request_def)
  ultimately show ?thesis
    using team_queue_needs_approval [OF team_authorized] team_documents unfolding documents_def by fastforce
qed

text \<open>C16: an approved action digest stands for one set of documents. When two authorities with
  the same approved digest are accepted, all five documents are the same, or two of the digested
  texts collide.\<close>

theorem approval_digest_binds:
  assumes "authority_holds sha p rp explicit rq e c g r a now"
    and "authority_holds sha p' rp' explicit' rq' e' c' g' r' a' now'"
    and "documents_utf8 e c g r a" and "documents_utf8 e' c' g' r' a'"
    and "gr_approved_action_digest rq = gr_approved_action_digest rq'"
  shows "(e = e' \<and> c = c' \<and> g = g' \<and> r = r' \<and> a = a') \<or>
    collision sha (digest_texts e c g r a \<union> digest_texts e' c' g' r' a')"
  by (rule digests_bind_documents [OF _ _ assms(3,4) _ _ assms(5)])
    (use assms(1,2) in \<open>simp_all add: authority_holds_def\<close>)

theorem approval_digest_binds_witness:
  "gr_approved_action_digest team_request = gr_approved_action_digest external_request \<and> team_action \<noteq> external_action \<and>
   collision repair_sha (digest_texts team_envelope team_candidate team_governance team_reviewer team_action \<union>
     digest_texts external_envelope external_candidate external_governance external_reviewer external_action)"
  using approval_digest_binds [OF team_holds external_holds team_utf8 external_utf8 team_external_digest]
    team_external_digest team_external_differ by blast

text \<open>C17: no request makes the decision point panic: the index into the parts of the repository's
  name is within bounds wherever it is reached.\<close>

theorem repair_evaluation_no_panic:
  "au_reason_code (evaluate_repair_governance sha schema_ok p rq now) \<noteq> index_panic"
  by (rule evaluation_no_panic)

section \<open>Authority tickets and the claim gate\<close>

text \<open>C18: what it takes for a mutation-class ticket to be accepted for a request: a live, approved,
  unconsumed ticket of the request's class, whose scope equals the request's field by field and
  is the one that was digested, with boundaries that grant nothing live.\<close>

theorem authority_ticket_accepted:
  "validate_authority_ticket sha request ticket now = None \<longleftrightarrow>
     check_ticket_request request = None \<and> ticket_live request ticket now \<and>
     (\<exists>scope digest boundaries.
        any_get ticket ''approved_scope'' = AnyMap scope \<and> scope_granted request scope now \<and>
        any_get ticket ''scope_digest'' = AnyMap digest \<and> string_field digest ''algorithm'' = ''sha256'' \<and>
        string_array_contains (any_get digest ''covers'') ''approved_scope'' \<and>
        string_field digest ''value'' = digest_scope sha scope \<and>
        any_get ticket ''authority_boundaries'' = AnyMap boundaries \<and>
        all_true boundaries [''exact_scope'', ''class_bound'', ''digest_bound'', ''single_use''] \<and>
        all_false boundaries [''live_mutation_grant'', ''provider_calls_allowed'', ''release_or_publish_allowed''])"
  by (rule authority_ticket_accepted_iff)

text \<open>C19: the digest fixes the scope. Two accepted tickets with the same scope digest were
  accepted for requests of the same scope: they agree in the class, in the need for a rollback, in
  the value of every field the ticket is compared with and, for a change over several
  repositories, in the plan, rollbacks, checks, states and kill switch of the repositories; or the
  hash function has been broken on the two scopes.\<close>

theorem ticket_digest_fixes_scope:
  assumes "validate_authority_ticket sha request ticket now = None"
    and "validate_authority_ticket sha request' ticket' now' = None"
    and "ticket_digest ticket = ticket_digest ticket'"
    and "any_ok (AnyMap (ticket_scope ticket))" and "any_ok (AnyMap (ticket_scope ticket'))"
  shows "same_scope_requested request request' \<or>
    collision sha {any_text (AnyMap (ticket_scope ticket)), any_text (AnyMap (ticket_scope ticket'))}"
  using assms by (rule accepted_scopes_agree)

theorem ticket_digest_fixes_scope_witness:
  "docs_request \<noteq> docs_request_2 \<and> same_scope_requested docs_request docs_request_2"
proof -
  have "any_ok (AnyMap (ticket_scope docs_ticket))" "any_ok (AnyMap (ticket_scope docs_ticket_2))"
    by (simp_all only: docs_ticket_scope docs_ticket_scope_2 docs_scope_ok docs_scope_ok_2)
  moreover have "\<not> collision docs_sha
      {any_text (AnyMap (ticket_scope docs_ticket)), any_text (AnyMap (ticket_scope docs_ticket_2))}"
    unfolding docs_ticket_scope docs_ticket_scope_2 docs_same_text collision_def by blast
  ultimately show ?thesis
    using ticket_digest_fixes_scope [OF docs_accepted docs_accepted_2 docs_same_digest] docs_requests_differ by blast
qed

text \<open>C20: the plan of a change over several repositories is accepted exactly when its entries are
  the repositories in the given order and each depends on earlier ones only.\<close>

theorem multi_repo_plan_ordered:
  assumes "plan_utf8 plan"
  shows "validate_ordered_plan plan = Inr repos \<longleftrightarrow> ordered_plan plan repos"
  using assms by (rule validate_ordered_plan_iff)

theorem multi_repo_plan_ordered_witness: "ordered_plan two_repo_plan [''ao-atlas'', ''ao-forge'']"
  using multi_repo_plan_ordered [OF two_repo_plan_utf8] two_repo_plan_accepted by blast

text \<open>C21: the claim gate approves exactly when the readiness document carries the approval and the
  decision, the readback index has passed with its control-plane and retained evidence, the
  boundary does not deny and no blocker is named anywhere; the blockers it reports are counted,
  named, and named once.\<close>

theorem claim_gate_decides:
  "let res = evaluate_claim_publish_gate readiness index; ob = observe readiness index in
   (cg_publish_authority res \<longleftrightarrow>
      cro_claim_publish_approved (ob_claim_readiness ob) \<and>
      cro_full_claim_decision (ob_claim_readiness ob) = ''allowed'' \<and>
      rbo_status (ob_readback_index ob) = ''passed'' \<and>
      rbo_control_plane_readback_status (ob_readback_index ob) = ''passed'' \<and>
      rbo_retained_claim_level_evidence_status (ob_readback_index ob) = ''present'' \<and>
      rbo_full_claim_boundary_decision (ob_readback_index ob) \<noteq> ''denied'' \<and>
      claim_readiness_blockers (nested_map readiness [''claims'', claim_level_full]) = [] \<and>
      string_slice_field (nested_map index [''full_claim_boundary'']) ''remaining_blockers'' = []) \<and>
   (cg_decision res = decision_allow \<longleftrightarrow> cg_publish_authority res) \<and>
   cg_blocker_count res = length (cg_blockers res) \<and>
   distinct (map bl_id (cg_blockers res)) \<and> [] \<notin> set (map bl_id (cg_blockers res))"
  using gate_blockers_ok [of readiness index] gate_unblocked_iff [of readiness index]
  by (auto simp: evaluate_claim_publish_gate_def publish_authority_def blockers_ok_def Let_def)

section \<open>Contracts and briefs\<close>

text \<open>C22: \<open>Validate\<close>, a sequence of loops with early returns, accepts exactly the contracts that
  meet a list of conditions on the contract as a whole, an acyclic dependency relation among
  them; in whatever order the map of required obligations is visited.\<close>

theorem validate_iff_well_formed:
  assumes "iteration_order iter"
  shows "validate_contract schema_task iter c = None \<longleftrightarrow> well_formed schema_task c"
  using assms by (rule validate_contract_None)

theorem validate_iff_well_formed_witness: "well_formed (\<lambda>_. None) example_contract"
  using validate_iff_well_formed [OF example_order, of "\<lambda>_. None" example_contract] example_valid by simp

text \<open>C23: the depth-first search of \<open>hasCycle\<close> returns on every list of tasks, with duplicates or
  unknown identifiers too, and reports a cycle exactly when the dependency relation has one.\<close>

theorem cycle_search_correct:
  "\<exists>found m. search_cycle tasks = Some (found, m) \<and> (found \<longleftrightarrow> (\<exists>x. (x, x) \<in> (dep_edges tasks)\<^sup>+))"
proof -
  from search_cycle_returns [of tasks] obtain found m where s: "search_cycle tasks = Some (found, m)" by auto
  with has_cycle_iff [of tasks] show ?thesis by (simp add: has_cycle_def)
qed

text \<open>C24: a contract compiled from a brief is well formed, reads its brief, is in strict mode
  without approvals, lists its required obligations for the evaluator, and its tasks declare
  only writes inside the workspace's writes, and reads.\<close>

theorem compiled_contract_valid:
  assumes "iteration_order iter" and "compile_brief_with_options schema_task iter brief opts = Inr c"
  shows "well_formed schema_task c \<and> compiled_from opts c"
  using compile_brief_Inr [OF assms(2)] validate_contract_None [OF assms(1)] by blast

theorem compiled_contract_valid_witness:
  "\<exists>c. compile_brief_with_options (\<lambda>_. None) (\<lambda>ks. ks) ''x'' example_brief_options = Inr c \<and>
     well_formed (\<lambda>_. None) c \<and> compiled_from example_brief_options c"
  using example_compiles compiled_contract_valid [OF example_order] by blast

text \<open>The compiler and the policy fit together. Every file write a compiled task declares is
  permitted by the policy under the compiled contract, at any time and with any tickets revoked.\<close>

theorem compiled_writes_permitted:
  assumes "compile_brief_with_options schema_task iter brief opts = Inr c"
    and "t \<in> set (c_tasks c)" and "a \<in> set (t_side_effects t)" and "ac_type a = ''file.write''"
  shows "permitted (task_policy_input c t revoked now) now (policy_action_of a)"
proof -
  from compile_brief_Inr [OF assms(1)] have c: "compiled_from opts c" ..
  then have "c_policy_mode c = ''strict''" by (simp add: compiled_from_def)
  moreover from c assms(2-4) have "ac_resource a \<in> set (ws_writes (c_workspace c))"
    by (force simp: compiled_from_def)
  ultimately show ?thesis using assms(4) by (auto simp: permitted_def task_policy_input_def policy_action_of_def)
qed

theorem compiled_writes_permitted_witness:
  "\<exists>c. compile_brief_with_options (\<lambda>_. None) (\<lambda>ks. ks) ''x'' example_brief_options = Inr c \<and>
     (\<exists>t \<in> set (c_tasks c). \<exists>a \<in> set (t_side_effects t).
        permitted (task_policy_input c t (\<lambda>_. False) zero_time) zero_time (policy_action_of a))"
proof -
  let ?c = "default_contract ''x'' (clean_path ''b.md'') [''f'']"
  let ?t = "hd (c_tasks ?c)" and ?a = "\<lparr>ac_type = ''file.write'', ac_resource = ''f''\<rparr>"
  have "?t \<in> set (c_tasks ?c)" "?a \<in> set (t_side_effects ?t)" "ac_type ?a = ''file.write''"
    by (simp_all add: default_contract_def default_tasks_def file_write_actions_def)
  from compiled_writes_permitted [OF example_compiled_contract this] example_compiled_contract this
  show ?thesis by blast
qed

text \<open>An error of the brief parser is a typed diagnostic that names a line of the brief.\<close>

theorem parser_errors_located:
  assumes "parse_structured_brief brief = Inl e"
  shows "diag_within 1 (length (split_on (CHR 0x0A) (unix_newlines brief))) e"
  using assms by (rule parse_structured_brief_error)

theorem parser_errors_located_witness:
  "diag_within 1 2 (Authoring ''STRUCTURED_TASK_HEADING_REQUIRED'' 2 ''task field appears before a task heading'')"
proof -
  have two: "length (split_on (CHR 0x0A) (unix_newlines (''# tasks'' @ [CHR 0x0A] @ ''x: y''))) = 2" by code_simp
  have "parse_structured_brief (''# tasks'' @ [CHR 0x0A] @ ''x: y'') =
      Inl (Authoring ''STRUCTURED_TASK_HEADING_REQUIRED'' 2 ''task field appears before a task heading'')"
    by code_simp
  from parser_errors_located [OF this] show ?thesis unfolding two .
qed

section \<open>The linter\<close>



text \<open>\<open>LintBrief\<close> calls a brief valid exactly when it compiles, whatever the orders in which the
  validator visits its map in the two runs.\<close>

theorem lint_brief_iff_compiles:
  assumes "iteration_order il" and "iteration_order iv"
  shows "lr_valid (lint_brief schema_task il brief opts) \<longleftrightarrow>
    error_of (compile_brief_with_options schema_task iv brief opts) = None"
  using assms by (rule lint_brief_any_order)

theorem lint_brief_iff_compiles_witness:
  "lr_valid (lint_brief (\<lambda>_. None) rev ''x'' example_brief_options)"
  using lint_brief_iff_compiles [OF reverse_order example_order] example_compiled_contract by (simp add: error_of_def)

text \<open>No error message gets the code \<open>CONTRACT_EVALUATOR_OBLIGATION_UNKNOWN\<close>: the case for
  it comes after one with a shorter text that its message contains.\<close>

theorem evaluator_code_unreachable:
  "fst (contract_diagnostic_code message) \<noteq> ''CONTRACT_EVALUATOR_OBLIGATION_UNKNOWN''"
proof -
  have "sublist ''unknown obligation'' ''evaluator references unknown obligation''" by code_simp
  then have "contains message ''evaluator references unknown obligation'' \<Longrightarrow> contains message ''unknown obligation''"
    unfolding contains_iff_sublist by (rule sublist_order.order.trans)
  then show ?thesis unfolding contract_diagnostic_code_def by (simp split: if_split)
qed

text \<open>The rules of a SARIF report are the codes of its results, each listed once, and every
  result carries the external suppression of the baseline exactly when an entry matches.\<close>

theorem sarif_rules_cover_results:
  "distinct (map sr_id (sg_rules (lint_sarif r opts))) \<and>
   set (map sr_id (sg_rules (lint_sarif r opts))) = set (map sres_rule_id (sg_results (lint_sarif r opts)))"
  using sarif_rules_ids [of "\<lambda>_. False" "lr_diagnostics r"]
  by (auto simp: lint_sarif_def sarif_result_for_def)

text \<open>The linter's result counts as accepted only if there is a diagnostic and each one is
  matched by an entry of the baseline.\<close>

theorem suppressed_iff_baselined:
  "lint_diagnostics_all_suppressed r opts \<longleftrightarrow>
     lr_diagnostics r \<noteq> [] \<and>
     list_all (\<lambda>d. list_ex (baseline_entry_matches (lo_source_uri opts) d) (sbl_accepted (lo_baseline opts)))
       (lr_diagnostics r)"
  by (simp add: all_suppressed_iff list_all_iff list_ex_iff)

section \<open>Closure and approvals\<close>

text \<open>C26: the closure matrix of a run is accepted exactly when the run succeeded and every
  required obligation is claimed by a task that succeeded.\<close>

theorem closure_accepted_iff_discharged:
  "mx_status (evaluate_closure inp) = ''accepted'' \<longleftrightarrow>
     cl_run_status inp = ''success'' \<and>
     list_all (\<lambda>ob. discharged inp (ob_id ob)) (filter ob_required (cl_obligations inp))"
  by (auto simp: closure_accepted_iff list_all_iff)

text \<open>Whatever the task, effect and resource are called, the identifier the ticket tool makes
  up for them is a public identifier, which \<open>Validate\<close> accepts.\<close>

theorem default_ticket_id_accepted:
  "validate_public_id (default_ticket_id task_id effect_type resource) label = None"
  by (simp add: default_ticket_id_public)

text \<open>Attaching a ticket replaces the tickets with its identifier and keeps the others; the
  identifiers stay distinct if and only if they were.\<close>

theorem attached_approvals:
  "set (append_or_replace_approval tks tk) = insert tk {e \<in> set tks. tk_ticket_id e \<noteq> tk_ticket_id tk} \<and>
   (distinct (map tk_ticket_id (append_or_replace_approval tks tk)) \<longleftrightarrow> distinct (map tk_ticket_id tks))"
proof -
  have same: "map tk_ticket_id (map (\<lambda>e. if tk_ticket_id e = tk_ticket_id tk then tk else e) tks) = map tk_ticket_id tks"
    by (rule nth_equalityI) auto
  show ?thesis
    unfolding append_or_replace_approval_eq Let_def
    using arg_cong [OF same, of distinct] arg_cong [OF same, of set]
    by (auto simp del: map_map simp: image_iff)
qed

text \<open>A contract to which a ticket has been attached is well formed and contains the ticket.\<close>

theorem attached_contract_valid:
  assumes "iteration_order iter" and "attach schema_ticket schema_contract schema_task iter c tk = Inr c'"
  shows "well_formed schema_task c' \<and> tk \<in> set (c_approvals c') \<and> c_tasks c' = c_tasks c"
proof -
  from assms(2) [unfolded attach_Inr]
  have c': "c' = c\<lparr>c_approvals := append_or_replace_approval (c_approvals c) tk\<rparr>"
    and "validate_contract schema_task iter c' = None" by blast+
  then have "well_formed schema_task c'" using validate_contract_None [OF assms(1)] by blast
  moreover have "tk \<in> set (append_or_replace_approval (c_approvals c) tk)"
    by (auto simp: append_or_replace_approval_eq Let_def image_iff)
  ultimately show ?thesis by (simp add: c')
qed

theorem attached_contract_valid_witness:
  "\<exists>c'. attach (\<lambda>_. None) (\<lambda>_. None) (\<lambda>_. None) (\<lambda>ks. ks) example_contract example_ticket = Inr c' \<and>
     well_formed (\<lambda>_. None) c' \<and> example_ticket \<in> set (c_approvals c')"
  using attached_contract_valid [OF example_order example_attaches] example_attaches by blast

text \<open>A revocation list is accepted exactly when the schema accepts it, no ticket is listed
  twice, and every entry has an identifier without surrounding space and a reason.\<close>

theorem revocation_list_valid_iff:
  "validate_revocation_list schema_revocations l = None \<longleftrightarrow>
     schema_revocations l = None \<and> distinct (map rv_ticket_id (rl_revoked_tickets l)) \<and>
     list_all (\<lambda>r. rv_ticket_id r \<noteq> [] \<and> trim_space (rv_ticket_id r) = rv_ticket_id r \<and> trim_space (rv_reason r) \<noteq> [])
       (rl_revoked_tickets l)"
  by (simp add: validate_revocation_list_None list_all_iff)

section \<open>Paths\<close>

text \<open>C27: a path the executor joins to the workspace root or to the run directory stays below it,
  whatever it is made of: parent directories, doubled slashes, a leading slash.\<close>

theorem joined_path_within:
  assumes "is_abs base" and "safe_join base p = Inr q"
  shows "within base q"
  using assms by (rule safe_join_within)

theorem joined_path_within_witness: "within ''/w'' ''/w/b''"
proof -
  have "is_abs ''/w''" "safe_join ''/w'' ''a/../b'' = Inr ''/w/b''" by code_simp+
  then show ?thesis by (rule joined_path_within)
qed

section \<open>The verifier\<close>

text \<open>C28: the verifier accepts a run exactly when the ledger file decodes to a chain of events, the
  evidence file decodes to a pack with the digest of that ledger and the run identifier of its
  events, every input snapshot and every artifact of the pack is on disk below its directory with
  its digest, the provenance is accepted, no decision is under a revoked ticket, and every failure
  refers to an event; and the result it returns is the summary of that ledger and pack.\<close>

theorem verified_run:
  "verify_run sha decode_event decode_evidence cwd opts fs = Inr result \<longleftrightarrow>
    (\<exists>written es evidence pk workspace_dir failures.
       fs (vo_ledger_path opts) = Some (File written) \<and> read_ledger decode_event written = Inr es \<and> es \<noteq> [] \<and>
       verify_chain sha es = None \<and>
       fs (vo_evidence_path opts) = Some (File evidence) \<and> decode_evidence evidence = Inr pk \<and>
       pk_ledger_digest pk = sha written \<and> pk_run_id pk = ev_run_id (hd es) \<and>
       list_all (snapshot_on_disk sha fs (path_dir (vo_evidence_path opts))) (pk_input_snapshots pk) \<and>
       resolve_workspace_dir cwd opts = Inr workspace_dir \<and>
       list_all (artifact_on_disk sha fs workspace_dir) (pk_artifact_manifest pk) \<and>
       verify_evidence_provenance pk es = None \<and>
       list_all (\<lambda>d. \<not> (dc_ticket_id d \<noteq> [] \<and> vo_revoked opts (dc_ticket_id d))) (pk_policy_decisions pk) \<and>
       summarize_failures (pk_failures pk) (event_lines_from es) = Inr failures \<and>
       result = \<lparr>vr_schema_version = ''covenant.verify-result.v1'', vr_verified = True, vr_run_id = pk_run_id pk,
         vr_event_count = length es, vr_artifact_count = length (pk_artifact_manifest pk),
         vr_input_snapshot_count = length (pk_input_snapshots pk), vr_failure_count = length (pk_failures pk),
         vr_failures = failures, vr_policy_explanations = explain_decisions (pk_policy_decisions pk),
         vr_ledger_digest = sha written, vr_last_event_hash = ev_event_hash (last es)\<rparr>)"
  by (rule verify_run_Inr)

theorem verified_run_witness:
  "pk_artifact_manifest bundle_pack_1 \<noteq> [] \<and> pk_input_snapshots bundle_pack_1 \<noteq> [] \<and>
   pk_policy_decisions bundle_pack_1 \<noteq> [] \<and>
   list_all (snapshot_on_disk (\<lambda>_. ''h'') bundle_fs_1 ''/r'') (pk_input_snapshots bundle_pack_1) \<and>
   verify_evidence_provenance bundle_pack_1 [bundle_event_1, bundle_event_2] = None"
proof -
  have "pk_artifact_manifest bundle_pack_1 \<noteq> []" "pk_input_snapshots bundle_pack_1 \<noteq> []" "pk_policy_decisions bundle_pack_1 \<noteq> []"
    by (simp_all add: bundle_pack_1_def)
  moreover have "bundle_fs_1 ''/r/l'' = Some (File (''1'' @ [CHR 0x0A] @ ''2''))" by (simp add: bundle_fs_1_def)
  ultimately show ?thesis
    using bundle_run_verified_1 [unfolded verified_run] bundle_events_1 bundle_run_checks_1(5)
    by (auto simp: bundle_run_options_1_def)
qed

text \<open>A ledger of short lines is read back event for event, when decoding a line inverts its
  encoding.\<close>

theorem ledger_read_back:
  assumes "decodes decode_event es" and "short_lines es"
  shows "read_ledger decode_event (ledger_text es) = Inr es"
  using assms by (rule read_back)

theorem ledger_read_back_witness:
  "read_ledger (\<lambda>w. if w = json_text (event_json example_event) then Inr example_event else Inl (Errorf ''json''))
     (ledger_text [example_event, example_event]) = Inr [example_event, example_event]"
proof (rule ledger_read_back)
  have "length (json_text (event_json example_event)) < 1000" by code_simp
  then show "short_lines [example_event, example_event]" unfolding short_lines_def by simp
qed (simp add: decodes_def)

text \<open>The recorder writes events of any length, but the verifier's line scanner does not
  read them: a ledger with a message of 64 KiB or more cannot be verified.\<close>

theorem long_message_not_read:
  assumes "e \<in> set es" and "65536 \<le> length (ev_message e)"
  shows "error_of (read_ledger decode_event (ledger_text es)) \<noteq> None"
  using long_message_unreadable [OF assms, of decode_event] by auto

theorem long_message_not_read_witness:
  "error_of (read_ledger (\<lambda>_. Inr example_event)
     (ledger_text [example_event\<lparr>ev_message := replicate 65536 (CHR ''a'')\<rparr>])) \<noteq> None"
  by (rule long_message_not_read [OF list.set_intros(1)]) (simp add: example_event_def zero_event_def)

text \<open>The provenance check accounts a decision by its identifier alone. A decision of the
  pack whose verdict, reason, effect or resource has been changed is accounted for all the same.\<close>

theorem consume_ignores_content:
  assumes "0 < pe_by_decision_id ix (dc_decision_id d)"
  shows "consume ix (d\<lparr>dc_decision := v, dc_reason := r, dc_effect_type := t, dc_resource := p, dc_task_id := i\<rparr>) =
    consume ix d"
  using assms by (simp add: consume_def Let_def)

theorem consume_ignores_content_witness:
  "consume (policy_event_index [example_policy_event]) (example_decision\<lparr>dc_decision := ''deny'', dc_reason := [],
     dc_effect_type := [], dc_resource := [], dc_task_id := []\<rparr>) =
   consume (policy_event_index [example_policy_event]) example_decision"
proof (rule consume_ignores_content)
  show "0 < pe_by_decision_id (policy_event_index [example_policy_event]) (dc_decision_id example_decision)"
    by (simp add: policy_event_index_def count_policy_event_def example_policy_event_def example_decision_def)
qed

section \<open>Processes\<close>

text \<open>C29: the deadline of a process is its timeout in nanoseconds as long as the product fits in
  64 bits, which is up to 9223372036 seconds; a timeout that is not positive gives a deadline
  that has passed.\<close>

theorem process_timeout_exact:
  assumes "t_timeout_secs t \<le> 9223372036"
  shows "process_timeout t = (if t_timeout_secs t \<le> 0 then - 1 else t_timeout_secs t * 1000000000)"
  using assms by (simp add: process_timeout_def seconds_duration_small second_def)

theorem process_timeout_exact_witness: "process_timeout example_write_task = 5000000000"
  using process_timeout_exact [of example_write_task] by (simp add: example_write_task_def)

text \<open>One second more, and the deadline of a process with a positive timeout lies in the past.\<close>

theorem process_timeout_wraps:
  "process_timeout (t\<lparr>t_timeout_secs := 9223372037\<rparr>) < 0"
  by (simp add: process_timeout_def seconds_duration_def second_def)

section \<open>Output files\<close>

text \<open>C30: a primary file and its digest sidecar are written together or not at all. Without an error
  both are written and nothing else has changed; with one, whichever of the failures of the file
  model it was (a directory that is missing or no directory, a directory in place of a file) and
  whatever was there before, the file system is as it was.\<close>

theorem output_pair_all_or_nothing:
  "case write_output_pair_with_rollback rollback_output_file fs command out_path bytes sidecar_path sidecar_bytes of
     (fs', None) \<Rightarrow> fs' = fs(out_path \<mapsto> File bytes, sidecar_path \<mapsto> File sidecar_bytes)
   | (fs', Some e) \<Rightarrow> fs' = fs"
  by (rule program_rollback.all_or_nothing)

section \<open>Releases\<close>

text \<open>C31: the verdict on a release directory is the specification \<open>release_intact\<close>: every file the
  manifest names stays inside the directory, has the recorded size and digest and is listed with
  that digest; artifact names are distinct; binaries report the manifest's version; nothing else is
  listed; and a given public key opens the signature. The report says so exactly when it has no
  problem.\<close>

theorem release_verdict_exact:
  assumes "release_loads en opts fs bytes m sums" and "\<And>ks. set (re_map_order en ks) = set ks"
  shows "\<exists>r. release_verify en opts fs = Inr r \<and> rv_verified r = (rv_problems r = []) \<and>
    (rv_verified r \<longleftrightarrow> release_intact en opts fs (release_default (rvo_dir opts) ''dist'') bytes sums m)"
  using assms by (rule release_verify_iff_intact)

theorem release_verdict_exact_witness:
  "\<exists>r. release_verify release_env_1 release_verify_options_1 release_fs_2 = Inr r \<and> rv_verified r"
proof -
  obtain sums where
    loads: "release_loads release_env_1 release_verify_options_1 release_fs_2
      (manifest_text (rr_manifest release_result_1)) (rr_manifest release_result_1) sums"
    and intact: "release_intact release_env_1 release_verify_options_1 release_fs_2 (release_dir release_options_1)
      (manifest_text (rr_manifest release_result_1)) sums (rr_manifest release_result_1)"
    using packaged_release_intact [OF release_run_2 laws_1 confined_1 readable_1 names_1 same_dir_1 answers_1 keys_match_2]
    by blast
  show ?thesis using release_verdict_exact [OF loads] intact by (auto simp: same_dir_1)
qed

text \<open>C32: a release that was packaged verifies, with no problem, and with the public half of the
  signing key if one is given: when the builder writes only its output, the names of the files are
  plain and none of the three the packaging uses itself, the hash prints 64 visible characters, and
  the binaries, as far as the verifier is given a reader that asks them (the command line gives one
  for the binaries of the host), answer with the version, commit and date that were linked into them
  and with their platform.\<close>

theorem packaged_release_verifies:
  assumes "release_package en opts fs = (Inr res, fs')"
    and "release_laws en" and "confined en (builder en opts)" and "manifest_readable en (rr_manifest res)"
    and "list_all (\<lambda>e. plain_elem (fst e) \<and> plain_word (fst e) \<and> fst e \<notin> set reserved_names)
      (release_entries (rr_artifacts res) (rm_supplemental (rr_manifest res)))"
    and "release_default (rvo_dir v) ''dist'' = release_dir opts"
    and "binaries_answer en opts v (rr_artifacts res)" and "key_matches en opts v fs'"
  shows "\<exists>r. release_verify en v fs' = Inr r \<and> rv_verified r \<and> rv_problems r = []"
proof -
  obtain sums where loads: "release_loads en v fs' (manifest_text (rr_manifest res)) (rr_manifest res) sums"
    and intact: "release_intact en v fs' (release_dir opts) (manifest_text (rr_manifest res)) sums (rr_manifest res)"
    using packaged_release_intact [OF assms] by blast
  have "set (re_map_order en ks) = set ks" for ks using assms(2) by (simp add: release_laws_def)
  from release_verify_iff_intact [OF loads this] intact show ?thesis by (auto simp: assms(6))
qed

theorem packaged_release_verifies_witness:
  "rvo_host_metadata host_options_1 \<noteq> None \<and> is_host_target release_env_1 release_target_1 \<and>
   (\<exists>r. release_verify release_env_1 host_options_1 release_fs_2 = Inr r \<and> rv_problems r = [])"
  using packaged_release_verifies [OF release_run_2 laws_1 confined_1 readable_1 names_1 host_same_dir_1 host_answers_1
      host_keys_match_1] host_target_1
  by (auto simp: host_options_1_def)

text \<open>C33: redaction changes what a report shows and not what it says: two reports on the same release
  agree on the verdict and on every count of the provenance summary, however they are redacted.\<close>

theorem redaction_keeps_verdict:
  assumes "rpo_dir o1 = rpo_dir o2" and "rpo_public_key_path o1 = rpo_public_key_path o2"
    and "release_report_of en o1 fs = Inr r1" and "release_report_of en o2 fs = Inr r2"
  shows "rpt_valid r1 = rpt_valid r2 \<and> rpt_provenance_summary r1 = rpt_provenance_summary r2"
  using assms by (rule report_verdict_redacted)

theorem redaction_keeps_verdict_witness:
  "\<exists>r1 r2. release_report_of release_env_1 report_options_1 release_fs_2 = Inr r1 \<and>
     release_report_of release_env_1 redacted_options_1 release_fs_2 = Inr r2 \<and> rpt_valid r1 = rpt_valid r2"
proof -
  obtain r1 r2 where r: "release_report_of release_env_1 report_options_1 release_fs_2 = Inr r1"
    "release_report_of release_env_1 redacted_options_1 release_fs_2 = Inr r2"
    using report_exists_1 by blast
  from redaction_keeps_verdict [OF _ _ r] r show ?thesis
    by (auto simp: report_options_1_def redacted_options_1_def)
qed

text \<open>Redaction leaves the problem lists of artifacts, attestations and supplemental files as they
  are. The digests and paths these messages quote stay in a report whose digests and paths were
  asked to be redacted.\<close>

theorem redaction_leaves_component_problems:
  "component_problems (redact_inspect i opts) = component_problems i"
  by (rule component_problems_redacted)

text \<open>The SARIF log of an inspection has the messages of all problems of the inspection and of its
  components, and no others.\<close>

theorem release_sarif_complete:
  "set (map rs_message (run_results (hd (log_runs (release_inspect_sarif i b))))) =
     set (component_problems i) \<union> set (in_problems i)"
  by (rule release_sarif_messages)

text \<open>C34: a comparison of two releases reports no change exactly when versions, commits, the digests
  by name of artifacts and supplemental files, and signing keys agree and neither inspection has a
  problem, in whatever order Go visits its maps.\<close>

theorem diff_changed_iff:
  assumes "\<And>ks. set (re_map_order en ks) = set ks" and "release_diff en opts fs = Inr r"
  shows "\<exists>i j m n.
    release_inspect en \<lparr>rio_dir = do_from_dir opts, rio_public_key_path = do_from_public_key_path opts,
      rio_metadata = None\<rparr> fs = Inr i \<and>
    release_inspect en \<lparr>rio_dir = do_to_dir opts, rio_public_key_path = do_to_public_key_path opts,
      rio_metadata = None\<rparr> fs = Inr j \<and>
    read_manifest_file en fs (in_manifest_path i) = Inr m \<and> read_manifest_file en fs (in_manifest_path j) = Inr n \<and>
    (df_changed r \<longleftrightarrow> \<not> same_release i m j n)"
  by (rule release_diff_changed [OF assms]) blast

theorem diff_changed_iff_witness:
  "\<exists>r. release_diff release_env_1 diff_options_1 release_fs_2 = Inr r \<and> \<not> df_changed r"
proof -
  obtain i r where i: "release_inspect release_env_1 \<lparr>rio_dir = ''dist'', rio_public_key_path = ''/u'', rio_metadata = None\<rparr>
      release_fs_2 = Inr i" "in_problems i = []"
    and r: "release_diff release_env_1 diff_options_1 release_fs_2 = Inr r"
    using diff_exists_1 by blast
  have order: "set (re_map_order release_env_1 ks) = set ks" for ks by simp
  from diff_changed_iff [OF order r] i show ?thesis using r
    by (auto simp: diff_options_1_def same_release_def)
qed

section \<open>Public schemas\<close>

text \<open>C35: the registry check accepts a table of schemas and a set of embedded files exactly when the
  registry is consistent: ids have the public form and are distinct, file names and paths are made
  from them, the files are those of the table, and each decodes to a closed object schema with its
  own \<open>$id\<close> that requires its \<open>schema_version\<close> if it mentions one, in which every object at a schema
  position has well-formed keywords and every \<open>$ref\<close> leads somewhere.\<close>

theorem registry_check_exact:
  "validate_required_schemas src required schema_files = None \<longleftrightarrow> registry_consistent src required schema_files"
  by (rule registry_valid_iff)

text \<open>C36: in an accepted registry, a document that satisfies a schema which mentions \<open>schema_version\<close>
  has that field, and when the schema uses neither \<open>oneOf\<close> nor \<open>anyOf\<close> its value is the id of the
  schema. The validator is any relation with the laws of \<open>required\<close>, \<open>properties\<close>, \<open>const\<close>,
  \<open>allOf\<close>, \<open>oneOf\<close>, \<open>anyOf\<close> and \<open>$ref\<close>, the latter for references that the registry check itself
  resolves.\<close>

theorem registry_enforces_versions:
  assumes "validate_required_schemas src required schema_files = None" and "e \<in> set required"
    and "ss_files src (rq_file_name e) = Inr bytes" and "ss_decode src bytes = Inr m"
    and "mentions_version (AnyMap m) (AnyMap m) []"
    and "json_schema (AnyMap m) accepts" and "accepts (AnyMap m) (AnyMap d)"
  shows "\<exists>v. map_of d ''schema_version'' = Some v \<and>
    (alternative_free (AnyMap m) \<longrightarrow> v = AnyStr (rq_id e))"
proof -
  from assms(1-4) have "document_conforms (ss_regex src) (map rq_id required) (rq_id e) m"
    by (auto simp: registry_valid_iff registry_consistent_def list_all_iff)
  with assms(5) have req: "requires_version (rq_id e) (AnyMap m) (AnyMap m) []" by (simp add: document_conforms_def)
  from json_schema.required_version_present [OF assms(6) req refl assms(7)]
  obtain v where v: "map_of d ''schema_version'' = Some v" by auto
  with json_schema.required_version_exact [OF assms(6) req refl _ _ assms(7) v] show ?thesis by blast
qed

theorem registry_enforces_versions_witness:
  "\<exists>v. map_of note_document ''schema_version'' = Some v \<and> (alternative_free (AnyMap note_schema) \<longrightarrow> v = AnyStr note_id)"
proof -
  have "rq_id note_entry = note_id" by (simp add: note_entry_def required_schema_def)
  then show ?thesis
    using registry_enforces_versions [OF note_registry_valid _ _ _ note_mentions core.json_schema_axioms note_accepts,
        where e = note_entry and bytes = "rq_file_name note_entry"]
    by (simp add: note_source_def)
qed

text \<open>C37: the registry check prints for every node it visits a path of escaped keys and array
  positions that leads from the document to that node. As a JSON pointer of a \<open>$ref\<close> the path is
  resolved to that very node, unless it passes through an array: the resolver enters objects only,
  and then finds nothing.\<close>

theorem pointer_leads_to_node:
  assumes "unique_keys root" and "(p, m) \<in> set (walk_schema [] root)"
  shows "\<exists>ks. p = pointer_join [] ks \<and> follow_path root ks = Some (AnyMap m) \<and>
    resolve_pointer root p = (if enters_array root ks then None else Some (AnyMap m))"
  using assms by (rule walked_path_resolves)

theorem pointer_leads_to_node_witness:
  "resolve_pointer pointed_schema ''/$defs/a~1b'' = Some (AnyMap [(''type'', AnyStr ''string'')]) \<and>
   resolve_pointer pointed_schema ''/allOf/0'' = None"
proof -
  have "p = pointer_join [] ks \<Longrightarrow> (p, m) \<in> set (walk_schema [] pointed_schema) \<Longrightarrow>
      resolve_pointer pointed_schema p = (if enters_array pointed_schema ks then None else Some (AnyMap m))" for p ks m
    using pointer_leads_to_node [OF pointed_unique, of p m] by (auto simp: pointer_join_inject)
  from this [OF pointed_paths(1) pointed_nodes(1)] this [OF pointed_paths(2) pointed_nodes(2)] show ?thesis
    by (simp only: pointed_arrays if_True if_False simp_thms)
qed

section \<open>Bundles\<close>

text \<open>C38: a bundle that was exported verifies. When the archive library reads what it writes under clean
  relative names, a decoder gives back what was encoded, the paths of the run fit into an archive, no ticket of the
  run is revoked and the public key is the half of the signing key, then the run in the unpacked
  bundle is verified with the very result the run had when it was exported, and the file system
  afterwards is the one before.\<close>

theorem exported_bundle_verifies:
  assumes "bundle_export en opts fs = (Inr r, fs')" and "bundle_laws en"
    and "fresh_dir fs' (bn_tmp_dir en)" and "list_all (\<lambda>q. fs' q = Some Dir) (dir_chain (path_dir (bn_tmp_dir en)))"
    and "bv_bundle_path v = bo_out_path opts" and "bundle_key_matches en opts v fs fs'"
    and "read_bundle_evidence en fs (bo_evidence_path opts) = Inr pk"
    and "packable_run opts pk" and "unrevoked en opts v fs pk"
    and "list_all listable_path (map bt_path (bm_entries (bx_manifest r)))"
    and "apart (signature_entry_path # map bt_path (bm_entries (bx_manifest r)))"
  shows "\<exists>res k. exported_run en opts fs = Inr res \<and> bundle_verify en v fs' = (Inr (res, k), fs')"
  using assms by (rule exported_bundle_round_trip)

theorem exported_bundle_verifies_witness:
  "\<exists>fs' k. fst (bundle_export bundle_env_1 bundle_options_1 bundle_fs_1) \<in> range Inr \<and>
     bundle_verify bundle_env_1 bundle_verify_options_1 fs' = (Inr (bundle_run_1, k), fs')"
proof -
  from bundle_exported_1 obtain r z where
    export: "bundle_export bundle_env_1 bundle_options_1 bundle_fs_1 = (Inr r, bundle_fs_1(''/w/b.zip'' \<mapsto> File z))"
    and names: "map bt_path (bm_entries (bx_manifest r)) = map bf_path bundle_files_1" by blast
  have "\<exists>res k. exported_run bundle_env_1 bundle_options_1 bundle_fs_1 = Inr res \<and>
      bundle_verify bundle_env_1 bundle_verify_options_1 (bundle_fs_1(''/w/b.zip'' \<mapsto> File z)) =
        (Inr (res, k), bundle_fs_1(''/w/b.zip'' \<mapsto> File z))"
  proof (rule exported_bundle_verifies [OF export bundle_laws_1 _ _ _ bundle_key_matches_1 _ bundle_packable_1 bundle_unrevoked_1])
    show "fresh_dir (bundle_fs_1(''/w/b.zip'' \<mapsto> File z)) (bn_tmp_dir bundle_env_1)"
      "list_all (\<lambda>q. (bundle_fs_1(''/w/b.zip'' \<mapsto> File z)) q = Some Dir) (dir_chain (path_dir (bn_tmp_dir bundle_env_1)))"
      using bundle_fresh_1 by simp_all
    show "read_bundle_evidence bundle_env_1 bundle_fs_1 (bo_evidence_path bundle_options_1) = Inr bundle_pack_1"
      by (simp add: read_bundle_evidence_def labelled_def bundle_reads_1)
    show "list_all listable_path (map bt_path (bm_entries (bx_manifest r)))"
      "apart (signature_entry_path # map bt_path (bm_entries (bx_manifest r)))"
      unfolding names by (rule bundle_listable_1 bundle_apart_1)+
  qed simp
  with export bundle_verifies_1 show ?thesis by auto
qed

text \<open>C39: verification unpacks a bundle into a directory of its own and removes it: whatever the
  archive holds, absolute paths, paths upwards, entries that collide, and however the
  verification ends, the file system is afterwards what it was before.\<close>

theorem bundle_verification_leaves_files:
  assumes "fresh_dir fs (bn_tmp_dir en)" and "map_ordered (bn_base en)"
  shows "snd (bundle_verify en opts fs) = fs"
  using assms by (rule bundle_verify_restores)

theorem bundle_verification_leaves_files_witness:
  "snd (bundle_verify bundle_env_1 bundle_verify_options_1 (bundle_fs_1(''/w/b.zip'' \<mapsto> File (toy_zip [(''/../x'', ''y'')])))) =
     bundle_fs_1(''/w/b.zip'' \<mapsto> File (toy_zip [(''/../x'', ''y'')]))"
  by (rule bundle_verification_leaves_files) (simp_all add: bundle_fresh_1 map_ordered_def del: fun_upd_apply)

text \<open>C40: the signature of a bundle vouches for its manifest only. The manifest and the signature of one
  bundle, packed with the files of any other run and a fresh list of checksums, pass every check
  that is made before the run itself is verified: nothing compares the files with the manifest.\<close>

theorem signature_binds_manifest_only:
  assumes "bundle_laws en" and "verify_bundle_signature en fs' original (bv_public_key_path v) = None"
    and "map_of original signed_manifest_path = Some mb" and "map_of original signature_entry_path = Some s"
    and "run_bundle_files fls" and "trim_space (bv_bundle_path v) \<noteq> []"
    and "write_zip en (bv_bundle_path v) (packed_files en fls mb [generated_file signature_entry_path s]) fs = (Inr u, fs')"
  shows "\<exists>entries. authentic_bundle en v fs' = Inr entries \<and> (\<forall>f \<in> set fls. map_of entries (bf_path f) = Some (bf_bytes f))"
  using assms by (rule signature_transplanted)

theorem signature_binds_manifest_only_witness:
  "\<exists>entries fs'. authentic_bundle bundle_env_1 bundle_verify_options_1 fs' = Inr entries \<and>
     map_of entries ledger_entry = Some (''1'' @ [CHR 0x0A] @ ''2'')"
proof -
  let ?signed = "[(signed_manifest_path, ''m''), (signature_entry_path, ''s'')]"
  let ?zip = "packed_files bundle_env_1 bundle_files_1 ''m'' [generated_file signature_entry_path ''s'']"
  let ?fs = "bundle_fs_1(''/w/b.zip'' \<mapsto> File (bundle_bytes_1 ?zip))"
  have "\<exists>entries. authentic_bundle bundle_env_1 bundle_verify_options_1 ?fs = Inr entries \<and>
      (\<forall>f \<in> set bundle_files_1. map_of entries (bf_path f) = Some (bf_bytes f))"
  proof (rule signature_binds_manifest_only [where original = ?signed and mb = "''m''" and s = "''s''"])
    show "write_zip bundle_env_1 (bv_bundle_path bundle_verify_options_1) ?zip bundle_fs_1 = (Inr (), ?fs)"
      using bundle_written_1 [of ?zip] by (simp only: bundle_option_fields)
    show "verify_bundle_signature bundle_env_1 ?fs ?signed (bv_public_key_path bundle_verify_options_1) = None"
      using bundle_signature_holds_1 by (simp only: bundle_option_fields)
  qed (use bundle_laws_1 bundle_run_files_1 bundle_texts_1 in simp_all)
  moreover have "\<lparr>bf_path = ledger_entry, bf_source = ''/r/l'', bf_bytes = ''1'' @ [CHR 0x0A] @ ''2''\<rparr> \<in> set bundle_files_1"
    by (simp add: bundle_files_1_def)
  ultimately show ?thesis by force
qed

end
